(* ===== verification/Prelude.thy ===== *)
theory Prelude
  imports Complex_Main "HOL-Library.Word"
begin

text \<open>
  Shared vocabulary of the development: the machine types of the Go sources, the outcome
  type that makes panics and waiting explicit, the byte-string helpers of the Go standard
  library that the sources call (\<open>copy\<close>, \<open>bytes.Compare\<close>, \<open>big.Int.SetBytes\<close>,
  \<open>big.Int.Bytes\<close>, \<open>encoding/binary\<close>) and the generic lemmas on lists and words
  that the component theories share.
\<close>

section \<open>Types and collections\<close>

type_synonym byte = "8 word"
type_synonym bytes = "byte list"
type_synonym u32 = "32 word"
type_synonym u64 = "64 word"
type_synonym i32 = "32 word"
type_synonym i64 = "64 word"

text \<open>A Go slice field that the code compares with \<open>nil\<close>: \<open>None\<close> is \<open>nil\<close>.\<close>

type_synonym slice = "bytes option"

text \<open>
  \<open>wire\<close> collects the facts about byte encodings (lengths, round trips, injectivity);
  \<open>outcome_simps\<close> the facts about the outcome type.
\<close>

named_theorems wire
named_theorems outcome_simps

section \<open>Outcomes\<close>

text \<open>
  What running a piece of Go code on explicit inputs gives: a value, a run-time panic (nil
  dereference, slice bounds, explicit \<open>panic\<close>), or \<open>Blocked\<close> when the code is still
  waiting after the given environment events have been used up.
\<close>

datatype 'a outcome = Ok 'a | Panic | Blocked

fun obind :: "'a outcome \<Rightarrow> ('a \<Rightarrow> 'b outcome) \<Rightarrow> 'b outcome" where
  "obind (Ok a) f = f a"
| "obind Panic f = Panic"
| "obind Blocked f = Blocked"

lemma obind_Ok_iff [outcome_simps]:
  "obind m f = Ok b \<longleftrightarrow> (\<exists>a. m = Ok a \<and> f a = Ok b)"
  by (cases m) auto

lemma obind_pair_Ok_iff:
  "obind m (\<lambda>(a, b). f a b) = Ok r \<longleftrightarrow> (\<exists>a b. m = Ok (a, b) \<and> f a b = Ok r)"
  by (cases m) auto

lemma obind_Panic_iff [outcome_simps]:
  "obind m f = Panic \<longleftrightarrow> m = Panic \<or> (\<exists>a. m = Ok a \<and> f a = Panic)"
  by (cases m) auto

lemma obind_assoc [outcome_simps]: "obind (obind m f) g = obind m (\<lambda>a. obind (f a) g)"
  by (cases m) auto

lemma obind_cong [fundef_cong]:
  "m = m' \<Longrightarrow> (\<And>a. m' = Ok a \<Longrightarrow> f a = g a) \<Longrightarrow> obind m f = obind m' g"
  by (cases m') auto

text \<open>Reading through a pointer: a nil pointer panics.\<close>

definition deref :: "'a option \<Rightarrow> 'a outcome" where
  "deref p = (case p of None \<Rightarrow> Panic | Some a \<Rightarrow> Ok a)"

lemma deref_simps [simp]: "deref None = Panic" "deref (Some a) = Ok a"
  by (simp_all add: deref_def)

lemma deref_Ok_iff [outcome_simps]: "deref p = Ok a \<longleftrightarrow> p = Some a"
  by (cases p) auto

section \<open>Byte strings\<close>

text \<open>A string literal as the bytes Go converts it to.\<close>

definition str :: "string \<Rightarrow> bytes" where
  "str s = map of_char s"

text \<open>Reading a slice that may be nil: \<open>nil\<close> behaves as the empty slice.\<close>

definition sl :: "slice \<Rightarrow> bytes" where
  "sl s = (case s of None \<Rightarrow> [] | Some b \<Rightarrow> b)"

lemma sl_simps [simp]: "sl None = []" "sl (Some b) = b"
  by (simp_all add: sl_def)

text \<open>The builtin \<open>copy(dst, src)\<close>: the destination after the copy.\<close>

definition go_copy :: "bytes \<Rightarrow> bytes \<Rightarrow> bytes" where
  "go_copy dst src = take (length dst) src @ drop (length src) dst"

lemma length_go_copy [simp]: "length (go_copy dst src) = length dst"
  by (simp add: go_copy_def)

lemma go_copy_same_length: "length dst = length src \<Longrightarrow> go_copy dst src = src"
  by (simp add: go_copy_def)

lemma go_copy_longer: "length dst \<le> length src \<Longrightarrow> go_copy dst src = take (length dst) src"
  by (simp add: go_copy_def)

lemma go_copy_zeros:
  "length src \<le> n \<Longrightarrow> go_copy (replicate n 0) src = src @ replicate (n - length src) 0"
  by (simp add: go_copy_def)

subsection \<open>bytes.Compare\<close>

text \<open>Lexicographic comparison: negative, zero or positive.\<close>

fun bytes_compare :: "bytes \<Rightarrow> bytes \<Rightarrow> int" where
  "bytes_compare [] [] = 0"
| "bytes_compare [] (_ # _) = -1"
| "bytes_compare (_ # _) [] = 1"
| "bytes_compare (a # as) (b # bs) =
     (if a < b then -1 else if b < a then 1 else bytes_compare as bs)"

lemma bytes_compare_refl [simp]: "bytes_compare a a = 0"
  by (induction a) auto

lemma bytes_compare_eq_0 [simp]: "bytes_compare a b = 0 \<longleftrightarrow> a = b"
  by (induction a b rule: bytes_compare.induct) auto

lemma bytes_compare_antisym: "bytes_compare a b = - bytes_compare b a"
  by (induction a b rule: bytes_compare.induct) auto

lemma bytes_compare_le_trans:
  "bytes_compare a b \<le> 0 \<Longrightarrow> bytes_compare b c \<le> 0 \<Longrightarrow> bytes_compare a c \<le> 0"
proof (induction a b arbitrary: c rule: bytes_compare.induct)
  case (4 x xs y ys)
  then show ?case by (cases c) (auto split: if_splits)
next
  case (2 y ys)
  then show ?case by (cases c) auto
qed auto

lemma bytes_compare_nil [simp]: "bytes_compare a [] > 0 \<longleftrightarrow> a \<noteq> []"
  by (cases a) auto

section \<open>Big-endian numbers\<close>

text \<open>\<open>big.Int.SetBytes\<close> reads a byte string as an unsigned big-endian number.\<close>

primrec be_nat :: "bytes \<Rightarrow> nat" where
  "be_nat [] = 0"
| "be_nat (b # bs) = unat b * 256 ^ length bs + be_nat bs"

text \<open>The \<open>n\<close> low-order bytes of a number, most significant first.\<close>

primrec nat_be :: "nat \<Rightarrow> nat \<Rightarrow> bytes" where
  "nat_be 0 v = []"
| "nat_be (Suc n) v = word_of_nat (v div 256 ^ n) # nat_be n v"

lemma length_nat_be [simp, wire]: "length (nat_be n v) = n"
  by (induction n) auto

lemma unat_byte_lt [simp]: "unat (b :: byte) < 256"
  using unsigned_less [of b, where ?'a = nat] by simp

lemma be_nat_bound: "be_nat bs < 256 ^ length bs"
proof (induction bs)
  case (Cons b bs)
  have "unat b \<le> 255" using unat_byte_lt [of b] by linarith
  then have "unat b * 256 ^ length bs \<le> 255 * 256 ^ length bs" by (rule mult_le_mono1)
  with Cons.IH have "unat b * 256 ^ length bs + be_nat bs < 256 * 256 ^ length bs" by linarith
  then show ?case by simp
qed simp

lemma be_nat_append: "be_nat (xs @ ys) = be_nat xs * 256 ^ length ys + be_nat ys"
  by (induction xs) (auto simp: power_add algebra_simps)

lemma be_nat_replicate_0 [simp]: "be_nat (replicate n 0) = 0"
  by (induction n) auto

lemma mod_256_split:
  "(v :: nat) div 256 ^ n mod 256 * 256 ^ n + v mod 256 ^ n = v mod 256 ^ Suc n"
  using mod_mult2_eq [of v "256 ^ n" 256] by (simp add: mult.commute)

lemma be_nat_nat_be [wire]: "be_nat (nat_be n v) = v mod 256 ^ n"
  by (induction n) (simp_all add: unat_of_nat mod_256_split del: power_Suc)

lemma nat_be_mod: "nat_be n (v mod 256 ^ m) = nat_be n v" if "n \<le> m"
  using that
proof (induction n)
  case (Suc n)
  then obtain k where m: "m = n + Suc k"
    by (metis add_Suc_right less_iff_Suc_add Suc_le_eq)
  have "v mod 256 ^ m div 256 ^ n = v div 256 ^ n mod 256 ^ Suc k"
    by (simp only: m power_add mod_mult2_eq) simp
  then have "word_of_nat (v mod 256 ^ m div 256 ^ n) = (word_of_nat (v div 256 ^ n) :: byte)"
    by (simp add: word_of_nat_eq_iff take_bit_eq_mod mod_mult_right_eq) (simp add: mod_mult2_eq)
  with Suc show ?case by simp
qed simp

lemma nat_be_be_nat [wire]: "nat_be (length bs) (be_nat bs) = bs"
proof (induction bs)
  case (Cons b bs)
  have d: "be_nat (b # bs) div 256 ^ length bs = unat b"
    using be_nat_bound [of bs] by simp
  have "nat_be (length bs) (be_nat (b # bs)) = nat_be (length bs) (be_nat (b # bs) mod 256 ^ length bs)"
    by (simp only: nat_be_mod [OF order_refl])
  also have "\<dots> = bs"
    using be_nat_bound [of bs] Cons by simp
  finally show ?case using d by simp
qed simp

lemma be_nat_inj: "length a = length b \<Longrightarrow> be_nat a = be_nat b \<Longrightarrow> a = b"
  by (metis nat_be_be_nat)

text \<open>\<open>big.Int.Bytes\<close>: the shortest big-endian representation, empty for zero.\<close>

function big_bytes :: "nat \<Rightarrow> bytes" where
  "big_bytes v = (if v = 0 then [] else big_bytes (v div 256) @ [word_of_nat v])"
  by pat_completeness auto
termination by (relation "measure id") auto

declare big_bytes.simps [simp del]

lemma big_bytes_0 [simp]: "big_bytes 0 = []"
  by (simp add: big_bytes.simps)

lemma be_nat_big_bytes [wire]: "be_nat (big_bytes v) = v"
proof (induction v rule: big_bytes.induct)
  case (1 v)
  show ?case
  proof (cases "v = 0")
    case False
    with 1 show ?thesis
      by (subst big_bytes.simps) (simp add: be_nat_append unat_of_nat)
  qed simp
qed

lemma hd_big_bytes: "v \<noteq> 0 \<Longrightarrow> big_bytes v \<noteq> [] \<and> hd (big_bytes v) \<noteq> 0"
proof (induction v rule: big_bytes.induct)
  case (1 v)
  show ?case
  proof (cases "v div 256 = 0")
    case True
    with 1 have "unat (word_of_nat v :: byte) = v" by (simp add: unat_of_nat)
    with 1 have "(word_of_nat v :: byte) \<noteq> 0" by (metis unat_0)
    with 1 True show ?thesis by (subst (1 2) big_bytes.simps) simp
  next
    case False
    with 1 show ?thesis by (subst (1 2) big_bytes.simps) simp
  qed
qed

lemma length_big_bytes_le: "v < 256 ^ n \<Longrightarrow> length (big_bytes v) \<le> n"
proof (induction n arbitrary: v)
  case (Suc n)
  then have "v div 256 < 256 ^ n"
    by (simp add: less_mult_imp_div_less mult.commute)
  then have "length (big_bytes (v div 256)) \<le> n" by (rule Suc.IH)
  then show ?case by (subst big_bytes.simps) simp
qed simp

lemma big_bytes_pad:
  "v < 256 ^ n \<Longrightarrow> replicate (n - length (big_bytes v)) 0 @ big_bytes v = nat_be n v"
  by (rule be_nat_inj)
    (simp_all add: length_big_bytes_le be_nat_append be_nat_big_bytes be_nat_nat_be)

section \<open>encoding/binary\<close>

text \<open>\<open>binary.BigEndian.PutUint64\<close> and \<open>binary.BigEndian.Uint64\<close>.\<close>

definition put_uint64 :: "u64 \<Rightarrow> bytes" where
  "put_uint64 v =
     [ucast (drop_bit 56 v), ucast (drop_bit 48 v), ucast (drop_bit 40 v), ucast (drop_bit 32 v),
      ucast (drop_bit 24 v), ucast (drop_bit 16 v), ucast (drop_bit 8 v), ucast v]"

definition get_uint64 :: "bytes \<Rightarrow> u64" where
  "get_uint64 b =
     or (ucast (b ! 7)) (or (push_bit 8 (ucast (b ! 6))) (or (push_bit 16 (ucast (b ! 5)))
     (or (push_bit 24 (ucast (b ! 4))) (or (push_bit 32 (ucast (b ! 3)))
     (or (push_bit 40 (ucast (b ! 2))) (or (push_bit 48 (ucast (b ! 1)))
     (push_bit 56 (ucast (b ! 0)))))))))"

lemma length_put_uint64 [simp, wire]: "length (put_uint64 v) = 8"
  by (simp add: put_uint64_def)

lemma nat_be_numeral:
  "nat_be (numeral k) v = word_of_nat (v div 256 ^ pred_numeral k) # nat_be (pred_numeral k) v"
  by (simp only: numeral_eq_Suc nat_be.simps)

lemma ucast_drop_bit_nat:
  "(ucast (drop_bit k (v :: u64)) :: byte) = word_of_nat (unat v div 2 ^ k)"
proof -
  have "unat (drop_bit k v) = unat v div 2 ^ k"
    by (simp only: unat_drop_bit_eq) (simp add: drop_bit_eq_div)
  then show ?thesis by (metis of_nat_unat)
qed

lemma put_uint64_nat_be: "put_uint64 v = nat_be 8 (unat v)"
proof -
  have "(ucast v :: byte) = word_of_nat (unat v)"
    using ucast_drop_bit_nat [of 0 v] by simp
  then show ?thesis by (simp add: put_uint64_def ucast_drop_bit_nat nat_be_numeral)
qed

text \<open>Bit \<open>n\<close> of a byte taken at position \<open>k\<close> and put back there.\<close>

lemma bit_byte_at:
  "n < 64 \<Longrightarrow> bit (push_bit k (ucast (ucast (drop_bit k (v :: u64)) :: byte)) :: u64) n
     \<longleftrightarrow> k \<le> n \<and> n < k + 8 \<and> bit v n"
  by (auto simp: bit_simps)

lemma get_put_uint64 [wire]: "get_uint64 (put_uint64 v) = v"
proof (rule bit_word_eqI)
  fix n assume "n < LENGTH(64)"
  then have n: "n < 64" by simp
  note byte = bit_byte_at [OF n]
  have byte0: "bit (ucast (ucast v :: byte) :: u64) n \<longleftrightarrow> n < 8 \<and> bit v n"
    using byte [of 0 v] by simp
  show "bit (get_uint64 (put_uint64 v)) n \<longleftrightarrow> bit v n"
    unfolding get_uint64_def put_uint64_def
    using n by (simp add: bit_or_iff byte byte0) linarith
qed

lemma be_nat_put_uint64 [wire]: "be_nat (put_uint64 v) = unat v"
proof -
  have "unat v < 256 ^ 8" using unsigned_less [of v, where ?'a = nat] by simp
  then show ?thesis by (simp add: put_uint64_nat_be be_nat_nat_be)
qed

lemma put_uint64_inj [simp]: "put_uint64 v = put_uint64 w \<longleftrightarrow> v = w"
  by (metis be_nat_put_uint64 word_unat_eq_iff)

text \<open>A Go \<open>int\<close> converted to \<open>uint64\<close> keeps its value as long as it fits in 64 bits.\<close>

lemma sint_word_of_int:
  "- (2 ^ 63) \<le> i \<Longrightarrow> i < 2 ^ 63 \<Longrightarrow> sint (word_of_int i :: u64) = i"
  by (simp add: sint_sbintrunc' signed_take_bit_int_eq_self)

lemma word_of_int_signed_inj:
  "(word_of_int i :: u64) = word_of_int j \<Longrightarrow> - (2 ^ 63) \<le> i \<Longrightarrow> i < 2 ^ 63 \<Longrightarrow>
     - (2 ^ 63) \<le> j \<Longrightarrow> j < 2 ^ 63 \<Longrightarrow> i = j"
  by (metis sint_word_of_int)

end
