(* ===== verification/Sha2.thy ===== *)
theory Sha2
  imports Prelude
begin

text \<open>
  The hash function of the Go standard library that the sources call: \<open>crypto/sha256\<close>
  (\<open>sha256.Sum256\<close>), written out after FIPS 180-4: padding, message schedule, sixty-four
  rounds per block and the big-endian digest. The components above use it through
  \<open>sum256\<close> and the fact that a digest has 32 bytes.
\<close>

unbundle bit_operations_syntax

section \<open>Constants\<close>

definition sha256_K :: "u32 list" where
  "sha256_K =
    [1116352408, 1899447441, 3049323471, 3921009573, 961987163, 1508970993, 2453635748, 2870763221,
     3624381080, 310598401, 607225278, 1426881987, 1925078388, 2162078206, 2614888103, 3248222580,
     3835390401, 4022224774, 264347078, 604807628, 770255983, 1249150122, 1555081692, 1996064986,
     2554220882, 2821834349, 2952996808, 3210313671, 3336571891, 3584528711, 113926993, 338241895,
     666307205, 773529912, 1294757372, 1396182291, 1695183700, 1986661051, 2177026350, 2456956037,
     2730485921, 2820302411, 3259730800, 3345764771, 3516065817, 3600352804, 4094571909, 275423344,
     430227734, 506948616, 659060556, 883997877, 958139571, 1322822218, 1537002063, 1747873779,
     1955562222, 2024104815, 2227730452, 2361852424, 2428436474, 2756734187, 3204031479, 3329325298]"

definition sha256_H0 :: "u32 list" where
  "sha256_H0 =
    [1779033703, 3144134277, 1013904242, 2773480762, 1359893119, 2600822924, 528734635, 1541459225]"

section \<open>Padding and words\<close>

definition sha256_pad :: "bytes \<Rightarrow> bytes" where
  "sha256_pad m =
     m @ [128] @ replicate ((119 - length m mod 64) mod 64) 0 @ put_uint64 (word_of_nat (8 * length m))"

fun words32 :: "bytes \<Rightarrow> u32 list" where
  "words32 (a # b # c # d # r) =
     (push_bit 24 (ucast a) OR push_bit 16 (ucast b) OR push_bit 8 (ucast c) OR ucast d) # words32 r"
| "words32 _ = []"

definition u32_bytes :: "u32 \<Rightarrow> bytes" where
  "u32_bytes w = [ucast (drop_bit 24 w), ucast (drop_bit 16 w), ucast (drop_bit 8 w), ucast w]"

section \<open>Schedule and compression\<close>

text \<open>The message schedule over a sliding window of sixteen words.\<close>

fun schedule256 :: "nat \<Rightarrow> u32 list \<Rightarrow> u32 list" where
  "schedule256 0 w = w"
| "schedule256 (Suc n) w =
     (let x = w ! 1; y = w ! 14;
          s0 = word_rotr 7 x XOR word_rotr 18 x XOR drop_bit 3 x;
          s1 = word_rotr 17 y XOR word_rotr 19 y XOR drop_bit 10 y
      in hd w # schedule256 n (tl w @ [s1 + w ! 9 + s0 + w ! 0]))"

fun round256 :: "u32 list \<Rightarrow> u32 \<times> u32 \<Rightarrow> u32 list" where
  "round256 [a, b, c, d, e, f, g, h] (k, w) =
     (let t1 = h + (word_rotr 6 e XOR word_rotr 11 e XOR word_rotr 25 e)
               + ((e AND f) XOR (NOT e AND g)) + k + w;
          t2 = (word_rotr 2 a XOR word_rotr 13 a XOR word_rotr 22 a)
               + ((a AND b) XOR (a AND c) XOR (b AND c))
      in [t1 + t2, a, b, c, d + t1, e, f, g])"
| "round256 s _ = s"

definition compress256 :: "u32 list \<Rightarrow> u32 list \<Rightarrow> u32 list" where
  "compress256 hs blk = map2 (+) hs (foldl round256 hs (zip sha256_K (schedule256 48 blk)))"

fun blocks256 :: "nat \<Rightarrow> u32 list \<Rightarrow> u32 list \<Rightarrow> u32 list" where
  "blocks256 0 hs ws = hs"
| "blocks256 (Suc n) hs ws = blocks256 n (compress256 hs (take 16 ws)) (drop 16 ws)"

definition sum256 :: "bytes \<Rightarrow> bytes" where
  "sum256 m =
     (let ws = words32 (sha256_pad m)
      in concat (map u32_bytes (blocks256 (length ws div 16) sha256_H0 ws)))"

section \<open>A digest has 32 bytes\<close>

lemma length_round256: "length (round256 s kw) = length s"
  by (induction s kw rule: round256.induct) (auto simp: Let_def)

lemma length_foldl_round256: "length (foldl round256 s kws) = length s"
  by (induction kws arbitrary: s) (auto simp: length_round256)

lemma length_blocks256: "length (blocks256 n hs ws) = length hs"
  by (induction n arbitrary: hs ws) (auto simp: compress256_def length_foldl_round256)

lemma length_concat_u32_bytes: "length (concat (map u32_bytes ws)) = 4 * length ws"
  by (induction ws) (auto simp: u32_bytes_def)

lemma length_sum256 [simp, wire]: "length (sum256 m) = 32"
  by (simp add: sum256_def Let_def length_concat_u32_bytes length_blocks256 sha256_H0_def)

text \<open>The padded message is a whole number of 64-byte blocks.\<close>

lemma sha256_pad_blocks: "64 dvd length (sha256_pad m)"
proof -
  have "(n mod 64 + 9 + (119 - n mod 64) mod 64) mod 64 = 0" for n :: nat
  proof (cases "n mod 64 \<le> 55")
    case True
    then have "(119 - n mod 64) mod 64 = 55 - n mod 64" by (subst le_mod_geq) auto
    with True show ?thesis by simp
  next
    case False
    have "n mod 64 < 64" by simp
    with False have "(119 - n mod 64) mod 64 = 119 - n mod 64" by (intro mod_less) linarith
    moreover from \<open>n mod 64 < 64\<close> have "n mod 64 + 9 + (119 - n mod 64) = 128" by linarith
    ultimately show ?thesis by simp
  qed
  then have "(length m + 9 + (119 - length m mod 64) mod 64) mod 64 = 0"
    by (metis (no_types) add.assoc mod_add_left_eq)
  moreover have "length (sha256_pad m) = length m + 9 + (119 - length m mod 64) mod 64"
    by (simp add: sha256_pad_def)
  ultimately show ?thesis by (simp only: mod_0_imp_dvd)
qed

end
