(* ===== verification/Common.thy ===== *)
theory Common
  imports Sha2
begin

text \<open>
  The package \<open>common\<close> (\<open>src/common/types.go\<close>, \<open>src/common/bytes.go\<close>): hashes and
  addresses as fixed-length byte arrays, hexadecimal conversion, padding, and the big-endian
  integers that every hashed or signed message of the program is made of. Go strings are byte
  strings here. A slice expression beyond the length of the slice is a panic.
\<close>

section \<open>Hexadecimal digits (encoding/hex)\<close>

definition hexdigit :: "nat \<Rightarrow> byte" where
  "hexdigit n = (if n < 10 then word_of_nat (48 + n) else word_of_nat (87 + n))"

definition fromHexChar :: "byte \<Rightarrow> nat option" where
  "fromHexChar c =
     (if 48 \<le> c \<and> c \<le> 57 then Some (unat c - 48)
      else if 97 \<le> c \<and> c \<le> 102 then Some (unat c - 97 + 10)
      else if 65 \<le> c \<and> c \<le> 70 then Some (unat c - 65 + 10)
      else None)"

definition hex_encode :: "bytes \<Rightarrow> bytes" where
  "hex_encode d = concat (map (\<lambda>b. [hexdigit (unat b div 16), hexdigit (unat b mod 16)]) d)"

text \<open>\<open>hex.DecodeString\<close>: the bytes decoded before the first malformed pair.\<close>

fun hex_decode :: "bytes \<Rightarrow> bytes" where
  "hex_decode (a # b # r) =
     (case (fromHexChar a, fromHexChar b) of
        (Some x, Some y) \<Rightarrow> word_of_nat (16 * x + y) # hex_decode r
      | _ \<Rightarrow> [])"
| "hex_decode _ = []"

text \<open>\<open>hex.Decode(dst, src)\<close> writes into \<open>dst\<close> and panics when it is too short.\<close>

definition hex_decode_into :: "bytes \<Rightarrow> bytes \<Rightarrow> bytes outcome" where
  "hex_decode_into dst src =
     (let d = hex_decode src in if length dst < length d then Panic else Ok (go_copy dst d))"

section \<open>bytes.go\<close>

definition Bytes2Hex :: "bytes \<Rightarrow> bytes" where
  "Bytes2Hex d = hex_encode d"

definition Hex2Bytes :: "bytes \<Rightarrow> bytes" where
  "Hex2Bytes s = hex_decode s"

definition FromHex :: "bytes \<Rightarrow> bytes" where
  "FromHex s =
     (let s1 = (if length s > 1 \<and> (take 2 s = str ''0x'' \<or> take 2 s = str ''0X'') then drop 2 s else s);
          s2 = (if length s1 mod 2 = 1 then str ''0'' @ s1 else s1)
      in Hex2Bytes s2)"

definition CopyBytes :: "slice \<Rightarrow> slice" where
  "CopyBytes b = (case b of None \<Rightarrow> None | Some d \<Rightarrow> Some (go_copy (replicate (length d) 0) d))"

definition hasHexPrefix :: "bytes \<Rightarrow> bool" where
  "hasHexPrefix s \<longleftrightarrow> length s \<ge> 2 \<and> s ! 0 = 48 \<and> (s ! 1 = 120 \<or> s ! 1 = 88)"

definition isHexCharacter :: "byte \<Rightarrow> bool" where
  "isHexCharacter c \<longleftrightarrow> (48 \<le> c \<and> c \<le> 57) \<or> (97 \<le> c \<and> c \<le> 102) \<or> (65 \<le> c \<and> c \<le> 70)"

definition isHex :: "bytes \<Rightarrow> bool" where
  "isHex s \<longleftrightarrow> length s mod 2 = 0 \<and> list_all isHexCharacter s"

definition Hex2BytesFixed :: "bytes \<Rightarrow> nat \<Rightarrow> bytes" where
  "Hex2BytesFixed s flen =
     (let h = hex_decode s
      in if length h = flen then h
         else if length h > flen then drop (length h - flen) h
         else replicate (flen - length h) 0 @ h)"

definition RightPadBytes :: "bytes \<Rightarrow> nat \<Rightarrow> bytes" where
  "RightPadBytes s l = (if l \<le> length s then s else go_copy (replicate l 0) s)"

definition LeftPadBytes :: "bytes \<Rightarrow> nat \<Rightarrow> bytes" where
  "LeftPadBytes s l =
     (if l \<le> length s then s
      else take (l - length s) (replicate l 0) @ go_copy (drop (l - length s) (replicate l 0)) s)"

section \<open>types.go: hashes\<close>

definition HashLength :: nat where "HashLength = 32"
definition AddressLength :: nat where "AddressLength = 20"

text \<open>\<open>type Hash [HashLength]byte\<close> and \<open>type Address [AddressLength]byte\<close>.\<close>

type_synonym hash = bytes
type_synonym address = bytes

definition wf_hash :: "hash \<Rightarrow> bool" where "wf_hash h \<longleftrightarrow> length h = HashLength"
definition wf_address :: "address \<Rightarrow> bool" where "wf_address a \<longleftrightarrow> length a = AddressLength"

definition zero_hash :: hash where "zero_hash = replicate HashLength 0"
definition zero_address :: address where "zero_address = replicate AddressLength 0"

definition BytesToHash :: "bytes \<Rightarrow> hash" where
  "BytesToHash d =
     (let d' = (if length d > HashLength then take HashLength d else d) in go_copy zero_hash d')"

definition BigToHash :: "nat \<Rightarrow> hash" where
  "BigToHash b = BytesToHash (big_bytes b)"

definition HexToHash :: "bytes \<Rightarrow> hash" where
  "HexToHash s = BytesToHash (FromHex s)"

definition Hash_Bytes :: "hash \<Rightarrow> bytes" where "Hash_Bytes h = h"

text \<open>The function \<open>Hex\<close>: the text \<open>0x\<close> and the digits.\<close>

definition Hex :: "bytes \<Rightarrow> bytes" where
  "Hex b =
     (let enc = go_copy (replicate (length b * 2 + 2) 0) (str ''0x'')
      in take 2 enc @ go_copy (drop 2 enc) (hex_encode b))"

definition Hash_Hex :: "hash \<Rightarrow> bytes" where "Hash_Hex h = Hex h"

definition Hash_String :: "hash \<Rightarrow> bytes" where "Hash_String h = Hash_Hex h"

definition Hash_Big :: "hash \<Rightarrow> nat" where "Hash_Big h = be_nat (Hash_Bytes h)"

definition DecodeHash :: "bytes \<Rightarrow> hash outcome" where
  "DecodeHash data =
     (if length data < 2 then Panic
      else obind (hex_decode_into (replicate HashLength 0) (drop 2 data)) (\<lambda>dec. Ok (BytesToHash dec)))"

definition Hash_Nil :: "hash \<Rightarrow> bool" where "Hash_Nil h \<longleftrightarrow> h = zero_hash"

definition Sha256 :: "bytes \<Rightarrow> hash" where "Sha256 d = sum256 d"

section \<open>types.go: addresses\<close>

definition BytesToAddress :: "bytes \<Rightarrow> address" where
  "BytesToAddress b =
     (let b' = (if length b > AddressLength then take AddressLength b else b)
      in go_copy zero_address b')"

definition Address_String :: "address \<Rightarrow> bytes" where "Address_String a = a"

definition Address_Bytes :: "address \<Rightarrow> bytes" where "Address_Bytes a = a"

definition Address_Hex :: "address \<Rightarrow> bytes" where
  "Address_Hex a = str ''0x'' @ go_copy (replicate (length a * 2) 0) (hex_encode a)"

definition Address_Big :: "address \<Rightarrow> nat" where "Address_Big a = be_nat (Address_Bytes a)"

definition Address_Nil :: "address \<Rightarrow> bool" where "Address_Nil a \<longleftrightarrow> a = zero_address"

definition BigToAddress :: "nat \<Rightarrow> address" where
  "BigToAddress b = BytesToAddress (big_bytes b)"

definition CreateAddress :: "address \<Rightarrow> u64 \<Rightarrow> address" where
  "CreateAddress a nonce = BytesToAddress (Hash_Bytes (Sha256 (Address_Bytes a @ put_uint64 nonce)))"

definition HashToAddr :: "hash \<Rightarrow> address" where
  "HashToAddr h = BytesToAddress (take AddressLength h)"

definition HexToAddress :: "bytes \<Rightarrow> address outcome" where
  "HexToAddress d =
     (if length d < 2 then Panic
      else let h = (if bytes_compare (take 2 d) (str ''0x'') = 0 then drop 2 d else d)
           in obind (hex_decode_into (replicate AddressLength 0) h) (\<lambda>dec. Ok (BytesToAddress dec)))"

section \<open>types.go: integers\<close>

definition Uint2Bytes :: "u64 \<Rightarrow> bytes" where
  "Uint2Bytes v = go_copy (replicate 8 0) (put_uint64 v)"

definition Bytes2Uint :: "bytes \<Rightarrow> u64 outcome" where
  "Bytes2Uint d = (if length d < 8 then Panic else Ok (get_uint64 d))"

section \<open>Lemmas on the integer encoding\<close>

lemma Uint2Bytes_eq: "Uint2Bytes v = put_uint64 v"
  by (simp add: Uint2Bytes_def go_copy_same_length)

lemma length_Uint2Bytes [simp, wire]: "length (Uint2Bytes v) = 8"
  by (simp add: Uint2Bytes_eq)

lemma Uint2Bytes_inj [simp]: "Uint2Bytes v = Uint2Bytes w \<longleftrightarrow> v = w"
  by (simp add: Uint2Bytes_eq)

lemma Uint2Bytes_append_inj [simp]:
  "Uint2Bytes v @ xs = Uint2Bytes w @ ys \<longleftrightarrow> v = w \<and> xs = ys"
  by (auto simp: append_eq_append_conv)

section \<open>Lemmas on hashes and addresses\<close>

lemma length_zero_hash [simp]: "length zero_hash = HashLength"
  by (simp add: zero_hash_def)

lemma length_zero_address [simp]: "length zero_address = AddressLength"
  by (simp add: zero_address_def)

lemma wf_Sha256 [simp, wire]: "wf_hash (Sha256 d)"
  by (simp add: wf_hash_def Sha256_def HashLength_def)

lemma length_Sha256 [simp]: "length (Sha256 d) = 32"
  by (simp add: Sha256_def)

lemma Sha256_nonempty [simp]: "Sha256 d \<noteq> []"
  using length_Sha256 [of d] by force

lemma wf_BytesToHash [simp, wire]: "wf_hash (BytesToHash d)"
  by (simp add: wf_hash_def BytesToHash_def Let_def)

lemma wf_BytesToAddress [simp, wire]: "wf_address (BytesToAddress d)"
  by (simp add: wf_address_def BytesToAddress_def Let_def)

lemma BytesToHash_id [wire]: "wf_hash h \<Longrightarrow> BytesToHash h = h"
  by (simp add: wf_hash_def BytesToHash_def go_copy_same_length)

lemma BytesToAddress_id [wire]: "wf_address a \<Longrightarrow> BytesToAddress a = a"
  by (simp add: wf_address_def BytesToAddress_def go_copy_same_length)

lemma BytesToHash_short:
  "length d \<le> HashLength \<Longrightarrow> BytesToHash d = d @ replicate (HashLength - length d) 0"
  by (simp add: BytesToHash_def zero_hash_def go_copy_zeros)

section \<open>Hexadecimal round trips\<close>

lemma fromHexChar_hexdigit [simp]:
  assumes "n < 16" shows "fromHexChar (hexdigit n) = Some n"
proof -
  have "\<forall>k \<in> set [0..<16]. fromHexChar (hexdigit k) = Some k"
    by (simp add: upt_rec fromHexChar_def hexdigit_def)
  with assms show ?thesis by simp
qed

lemma hex_decode_encode [wire]: "hex_decode (hex_encode d) = d"
proof (induction d)
  case (Cons b d)
  have hi: "unat b div 16 < 16" using unat_byte_lt [of b] by linarith
  have "word_of_nat (16 * (unat b div 16) + unat b mod 16) = b" by simp
  with Cons hi show ?case by (simp add: hex_encode_def)
qed (simp add: hex_encode_def)

lemma length_hex_encode [simp]: "length (hex_encode d) = 2 * length d"
  by (induction d) (auto simp: hex_encode_def)

lemma str_0x [simp]: "str ''0x'' = [48, 120]" "str ''0X'' = [48, 88]" "str ''0'' = [48]"
  by (simp_all add: str_def)

lemma Hex_eq: "Hex b = str ''0x'' @ hex_encode b"
proof -
  have "go_copy (replicate (length b * 2 + 2) 0) [48, 120] = [48, 120] @ replicate (length b * 2) 0"
    by (simp add: go_copy_def)
  then show ?thesis by (simp add: Hex_def go_copy_same_length)
qed

lemma FromHex_Hex: "FromHex (str ''0x'' @ hex_encode b) = b"
  by (simp add: FromHex_def Hex2Bytes_def hex_decode_encode)

lemma hex_decode_into_exact:
  "length dst = length b \<Longrightarrow> hex_decode_into dst (hex_encode b) = Ok b"
  by (simp add: hex_decode_into_def hex_decode_encode go_copy_same_length)

text \<open>
  The textual form of a hash or an address reads back: \<open>HexToHash\<close> and \<open>DecodeHash\<close>
  invert \<open>Hash.Hex\<close>, \<open>HexToAddress\<close> inverts \<open>Address.Hex\<close>, on every 32-byte hash and
  20-byte address.
\<close>

theorem hex_round_trips:
  assumes "wf_hash h" and "wf_address a"
  shows "HexToHash (Hash_Hex h) = h \<and> DecodeHash (Hash_Hex h) = Ok h
    \<and> HexToAddress (Address_Hex a) = Ok a"
proof (intro conjI)
  show "HexToHash (Hash_Hex h) = h"
    using assms(1) by (simp only: HexToHash_def Hash_Hex_def Hex_eq FromHex_Hex BytesToHash_id)
  show "DecodeHash (Hash_Hex h) = Ok h"
    using assms(1)
    by (simp add: DecodeHash_def Hash_Hex_def Hex_eq hex_decode_into_exact wf_hash_def BytesToHash_id)
  have "Address_Hex a = str ''0x'' @ hex_encode a"
    by (simp add: Address_Hex_def go_copy_same_length mult.commute)
  then show "HexToAddress (Address_Hex a) = Ok a"
    using assms(2)
    by (simp add: HexToAddress_def hex_decode_into_exact wf_address_def BytesToAddress_id)
qed

theorem hex_round_trips_witness:
  "HexToHash (Hash_Hex (replicate 32 7)) = replicate 32 7
    \<and> DecodeHash (Hash_Hex (replicate 32 7)) = Ok (replicate 32 7)
    \<and> HexToAddress (Address_Hex (replicate 20 9)) = Ok (replicate 20 9)"
  by (rule hex_round_trips) (simp_all add: wf_hash_def wf_address_def HashLength_def AddressLength_def)

text \<open>Leading zero bytes and the shortest representation.\<close>

lemma big_bytes_be_nat: "big_bytes (be_nat bs) = dropWhile ((=) 0) bs"
proof (induction bs)
  case (Cons b bs)
  show ?case
  proof (cases "b = 0")
    case False
    let ?v = "be_nat (b # bs)"
    have "unat b \<noteq> 0" using False by (simp add: unat_eq_0)
    then have lower: "256 ^ length bs \<le> ?v" by (cases "unat b") auto
    have upper: "?v < 256 ^ length (b # bs)" by (rule be_nat_bound)
    have "length (big_bytes ?v) = length (b # bs)"
    proof (rule antisym)
      show "length (big_bytes ?v) \<le> length (b # bs)" by (rule length_big_bytes_le [OF upper])
      show "length (b # bs) \<le> length (big_bytes ?v)"
      proof (rule ccontr)
        assume "\<not> ?thesis"
        then have "length (big_bytes ?v) \<le> length bs" by simp
        then have "256 ^ length (big_bytes ?v) \<le> (256 :: nat) ^ length bs"
          by (rule power_increasing) simp
        with be_nat_bound [of "big_bytes ?v"] lower show False
          by (simp only: be_nat_big_bytes)
      qed
    qed
    then have "big_bytes ?v = b # bs"
      by (rule be_nat_inj) (simp only: be_nat_big_bytes)
    with False show ?thesis by simp
  qed (use Cons in simp)
qed simp

text \<open>
  \<open>BigToHash\<close> does not invert \<open>Hash.Big\<close>: the leading zero bytes of the hash move to
  its end, because \<open>BytesToHash\<close> fills the array from the left. So the round trip gives the
  hash back exactly when it does not start with a zero byte (or is the zero hash).
\<close>

theorem BigToHash_Big:
  assumes "wf_hash h"
  shows "BigToHash (Hash_Big h) = dropWhile ((=) 0) h @ takeWhile ((=) 0) h
    \<and> (BigToHash (Hash_Big h) = h \<longleftrightarrow> Hash_Nil h \<or> hd h \<noteq> 0)"
proof -
  let ?t = "takeWhile ((=) 0) h" and ?d = "dropWhile ((=) 0) h"
  have len: "length ?t + length ?d = HashLength"
    using assms by (metis length_append takeWhile_dropWhile_id wf_hash_def)
  have t: "?t = replicate (length ?t) 0"
    by (rule replicate_eqI) (auto dest: set_takeWhileD)
  have "BigToHash (Hash_Big h) = ?d @ replicate (HashLength - length ?d) 0"
    using len by (simp add: BigToHash_def Hash_Big_def Hash_Bytes_def big_bytes_be_nat BytesToHash_short)
  also have "replicate (HashLength - length ?d) 0 = ?t"
    using len by (subst t) simp
  finally have eq: "BigToHash (Hash_Big h) = ?d @ ?t" .
  have ne: "h \<noteq> []" using assms by (auto simp: wf_hash_def HashLength_def)
  have "?d @ ?t = h \<longleftrightarrow> Hash_Nil h \<or> hd h \<noteq> 0"
  proof (cases "hd h = 0 \<and> ?d \<noteq> []")
    case True
    then have "hd ?d \<noteq> 0" by (metis (full_types) hd_dropWhile)
    with True have "?d @ ?t \<noteq> h" by (metis hd_append2)
    moreover have "\<not> Hash_Nil h"
      using True by (auto simp: Hash_Nil_def zero_hash_def)
    ultimately show ?thesis using True by simp
  next
    case False
    show ?thesis
    proof (cases "hd h = 0")
      case True
      with False have "?d = []" by simp
      then have "h = ?t" by (metis append.right_neutral takeWhile_dropWhile_id)
      with t len \<open>?d = []\<close> have "Hash_Nil h" by (simp add: Hash_Nil_def zero_hash_def)
      with \<open>h = ?t\<close> \<open>?d = []\<close> show ?thesis by simp
    qed (use ne in \<open>cases h, auto\<close>)
  qed
  with eq show ?thesis by simp
qed

theorem BigToHash_Big_witness:
  "wf_hash (0 # replicate 31 5) \<and> BigToHash (Hash_Big (0 # replicate 31 5)) = replicate 31 5 @ [0]"
proof -
  have wf: "wf_hash (0 # replicate 31 5)" by (simp add: wf_hash_def HashLength_def)
  have "dropWhile ((=) 0) (0 # replicate 31 (5 :: byte)) = replicate 31 5"
    "takeWhile ((=) 0) (0 # replicate 31 (5 :: byte)) = [0]"
    by (simp_all add: dropWhile_replicate takeWhile_replicate)
  with BigToHash_Big [OF wf] wf show ?thesis by simp
qed

text \<open>
  \<open>Bytes2Uint\<close> inverts \<open>Uint2Bytes\<close>, also with trailing bytes, and the encoding is
  injective, so the fields of a hashed or signed message are separated; on fewer than eight
  bytes \<open>Bytes2Uint\<close> panics.
\<close>

theorem Uint2Bytes_round_trip:
  "Bytes2Uint (Uint2Bytes v @ rest) = Ok v \<and> (Uint2Bytes v = Uint2Bytes w \<longleftrightarrow> v = w)
    \<and> Bytes2Uint (take n (Uint2Bytes v)) = (if n < 8 then Panic else Ok v)"
proof -
  have "get_uint64 (put_uint64 v @ rest) = get_uint64 (put_uint64 v)" for rest
    by (simp add: get_uint64_def nth_append)
  then show ?thesis by (simp add: Bytes2Uint_def Uint2Bytes_eq get_put_uint64)
qed

end
