(* ===== verification/Keyed_Store.thy ===== *)
theory Keyed_Store
  imports Prelude
begin

text \<open>
  The interface that the stores of the program share: the block index of the chain, the block
  cache, the best-proposal table and the vote table of a peer are all maps that a \<open>put\<close>
  overwrites at one key. The clients' facts about sequences of updates are proved once here and
  used through the interpretations in the theories of the providers.
\<close>

locale keyed_store =
  fixes put :: "'k \<Rightarrow> 'v \<Rightarrow> 's \<Rightarrow> 's"
    and lookup :: "'s \<Rightarrow> 'k \<Rightarrow> 'v option"
  assumes lookup_put: "lookup (put k v s) k' = (if k' = k then Some v else lookup s k')"
begin

lemma lookup_put_same [simp]: "lookup (put k v s) k = Some v"
  by (simp add: lookup_put)

lemma lookup_put_other: "k' \<noteq> k \<Longrightarrow> lookup (put k v s) k' = lookup s k'"
  by (simp add: lookup_put)

lemma put_commutes:
  "k \<noteq> k' \<Longrightarrow> lookup (put k v (put k' v' s)) = lookup (put k' v' (put k v s))"
  by (rule ext) (auto simp: lookup_put)

text \<open>After a sequence of updates a key holds the last value put there.\<close>

lemma lookup_puts:
  "lookup (foldl (\<lambda>s (k, v). put k v s) s kvs) k =
     (case map_of (rev kvs) k of None \<Rightarrow> lookup s k | Some v \<Rightarrow> Some v)"
proof (induction kvs arbitrary: s)
  case (Cons kv kvs)
  then show ?case
    by (cases kv) (auto simp: lookup_put map_add_def split: option.splits)
qed simp

text \<open>
  An invariant of the entries: if every value put satisfies \<open>P\<close> at its key, every entry does.
\<close>

lemma entries_inv:
  assumes "\<And>k v. lookup s k = Some v \<Longrightarrow> P k v" and "\<And>k v. (k, v) \<in> set kvs \<Longrightarrow> P k v"
    and "lookup (foldl (\<lambda>s (k, v). put k v s) s kvs) k = Some v"
  shows "P k v"
proof (cases "map_of (rev kvs) k")
  case None
  with assms(1,3) show ?thesis by (simp add: lookup_puts)
next
  case (Some w)
  then have "(k, w) \<in> set (rev kvs)" by (rule map_of_SomeD)
  with Some assms(2,3) show ?thesis by (simp add: lookup_puts)
qed

end

text \<open>A store that can also forget a key.\<close>

locale deletable_store = keyed_store put lookup
  for put :: "'k \<Rightarrow> 'v \<Rightarrow> 's \<Rightarrow> 's" and lookup :: "'s \<Rightarrow> 'k \<Rightarrow> 'v option" +
  fixes del :: "'k \<Rightarrow> 's \<Rightarrow> 's"
  assumes lookup_del: "lookup (del k s) k' = (if k' = k then None else lookup s k')"
begin

lemma lookup_del_put: "lookup (del k (put k v s)) = lookup (del k s)"
  by (rule ext) (simp add: lookup_del lookup_put)

lemma lookup_put_del: "lookup (put k v (del k s)) = lookup (put k v s)"
  by (rule ext) (simp add: lookup_del lookup_put)

end

text \<open>
  A log per key: appending an element extends the log of its key and leaves the others alone, on
  the states that satisfy the provider's invariant. The vote lists of a peer are such logs.
\<close>

locale keyed_log =
  fixes inv :: "'s \<Rightarrow> bool" and append_el :: "'v \<Rightarrow> 's \<Rightarrow> 's"
    and read :: "'s \<Rightarrow> 'k \<Rightarrow> 'v list" and key :: "'v \<Rightarrow> 'k"
  assumes inv_append: "inv s \<Longrightarrow> inv (append_el v s)"
    and read_append: "inv s \<Longrightarrow> read (append_el v s) k = (if key v = k then read s k @ [v] else read s k)"
begin

lemma inv_appends: "inv s \<Longrightarrow> inv (fold append_el vs s)"
  by (induction vs arbitrary: s) (simp_all add: inv_append)

lemma read_appends: "inv s \<Longrightarrow> read (fold append_el vs s) k = read s k @ filter (\<lambda>v. key v = k) vs"
  by (induction vs arbitrary: s) (simp_all add: inv_append read_append)

text \<open>What is read at a key depends only on the elements of that key, not on how the keys interleave.\<close>

lemma read_appends_cong:
  "inv s \<Longrightarrow> filter (\<lambda>v. key v = k) vs = filter (\<lambda>v. key v = k) ws \<Longrightarrow>
     read (fold append_el vs s) k = read (fold append_el ws s) k"
  by (simp add: read_appends)

end

end
