(* ===== verification/Chain.thy ===== *)
theory Chain
  imports Common Keyed_Store
begin

text \<open>
  Blocks and the block chain (\<open>src/blockchain.go\<close>). A block is a record; a slice that the code
  compares with \<open>nil\<close> is an option. The chain is the index of blocks by round and hash, the
  genesis block and the pointer \<open>last\<close>; each method is a function on it. The mutex makes
  every method atomic, so a method is one step.
\<close>

section \<open>Blocks\<close>

record Block =
  blk_Round :: u64
  blk_ParentHash :: hash
  blk_Author :: address
  blk_AuthorVRF :: slice
  blk_AuthorProof :: slice
  blk_Time :: i64
  blk_Seed :: slice
  blk_Proof :: slice
  blk_Data :: slice
  blk_Type :: int
  blk_Signature :: slice

text \<open>The zero value of the struct, from which composite literals start.\<close>

definition zero_block :: Block where
  "zero_block = \<lparr>blk_Round = 0, blk_ParentHash = zero_hash, blk_Author = zero_address,
     blk_AuthorVRF = None, blk_AuthorProof = None, blk_Time = 0, blk_Seed = None,
     blk_Proof = None, blk_Data = None, blk_Type = 0, blk_Signature = None\<rparr>"

text \<open>The bytes that \<open>Block.Hash\<close> hashes.\<close>

definition hash_data :: "Block \<Rightarrow> bytes" where
  "hash_data blk =
     (let data = Uint2Bytes (blk_Round blk) @ Hash_Bytes (blk_ParentHash blk);
          data = (if \<not> Address_Nil (blk_Author blk)
                  then data @ Address_Bytes (blk_Author blk) @ sl (blk_AuthorVRF blk) @ sl (blk_AuthorProof blk)
                  else data);
          data = (if blk_Time blk \<noteq> 0 then data @ Uint2Bytes (blk_Time blk) else data);
          data = (case blk_Seed blk of None \<Rightarrow> data | Some s \<Rightarrow> data @ s)
      in case blk_Proof blk of None \<Rightarrow> data | Some p \<Rightarrow> data @ p)"

definition Block_Hash :: "Block \<Rightarrow> hash" where
  "Block_Hash blk = Sha256 (hash_data blk)"

section \<open>The chain\<close>

record Blockchain =
  bc_last :: "Block option"
  bc_genesis :: "Block option"
  bc_blocks :: "u64 \<rightharpoonup> (hash \<rightharpoonup> Block)"

definition bc_add :: "Blockchain \<Rightarrow> Block \<Rightarrow> Blockchain" where
  "bc_add bc blk =
     (let blocks = (case bc_blocks bc (blk_Round blk) of None \<Rightarrow> Map.empty | Some m \<Rightarrow> m);
          blocks' = blocks(Block_Hash blk \<mapsto> blk);
          bc' = bc\<lparr>bc_blocks := (bc_blocks bc)(blk_Round blk \<mapsto> blocks')\<rparr>
      in if (case bc_last bc of None \<Rightarrow> True | Some l \<Rightarrow> blk_Round l < blk_Round blk)
         then bc'\<lparr>bc_last := Some blk\<rparr> else bc')"

definition genesis_block :: Block where
  "genesis_block =
     (let emptyHash = Sha256 []
      in zero_block\<lparr>blk_Round := 0, blk_Seed := Some (Hash_Bytes emptyHash),
           blk_ParentHash := emptyHash, blk_Author := HashToAddr emptyHash\<rparr>)"

definition bc_init :: "Blockchain \<Rightarrow> Blockchain" where
  "bc_init bc = bc_add (bc\<lparr>bc_genesis := Some genesis_block\<rparr>) genesis_block"

definition newBlockchain :: Blockchain where
  "newBlockchain = bc_init \<lparr>bc_last = None, bc_genesis = None, bc_blocks = Map.empty\<rparr>"

definition bc_get :: "Blockchain \<Rightarrow> hash \<Rightarrow> u64 \<Rightarrow> Block option" where
  "bc_get bc h r = (case bc_blocks bc r of Some blocks \<Rightarrow> blocks h | None \<Rightarrow> None)"

text \<open>
  The loop of \<open>getByRound\<close>. Its variable \<open>last\<close> may become a nil pointer, and the next
  iteration then reads a field through it.
\<close>

function getByRound_loop :: "Blockchain \<Rightarrow> Block option \<Rightarrow> u64 \<Rightarrow> Block option outcome" where
  "getByRound_loop bc l r =
     (if r > 0
      then (case l of
              None \<Rightarrow> Panic
            | Some b \<Rightarrow>
                if blk_Round b = r then Ok (Some b)
                else getByRound_loop bc (bc_get bc (blk_ParentHash b) (r - 1)) (r - 1))
      else Ok l)"
  by pat_completeness auto
termination
  by (relation "measure (\<lambda>(bc, l, r). unat r)") (auto simp: word_gt_0 unat_minus_one unat_gt_0)

declare getByRound_loop.simps [simp del]

definition getByRound :: "Blockchain \<Rightarrow> u64 \<Rightarrow> Block option outcome" where
  "getByRound bc r = getByRound_loop bc (bc_last bc) r"

definition resolveFork :: "Blockchain \<Rightarrow> Block \<Rightarrow> Blockchain" where
  "resolveFork bc fork = bc\<lparr>bc_last := Some fork\<rparr>"

section \<open>The index as a keyed store\<close>

lemma bc_get_add:
  "bc_get (bc_add bc blk) h r =
     (if r = blk_Round blk \<and> h = Block_Hash blk then Some blk else bc_get bc h r)"
  by (auto simp: bc_get_def bc_add_def Let_def split: option.splits)

lemma bc_get_resolveFork [simp]: "bc_get (resolveFork bc fork) h r = bc_get bc h r"
  by (simp add: bc_get_def resolveFork_def)

text \<open>
  The index under the key (round, hash): a general \<open>put\<close> writes any block under any key;
  \<open>add\<close> is that \<open>put\<close> at the block's own round and hash.
\<close>

definition index_put :: "u64 \<times> hash \<Rightarrow> Block \<Rightarrow> Blockchain \<Rightarrow> Blockchain" where
  "index_put k blk bc =
     bc\<lparr>bc_blocks := (bc_blocks bc)(fst k \<mapsto>
        (case bc_blocks bc (fst k) of None \<Rightarrow> Map.empty | Some m \<Rightarrow> m)(snd k \<mapsto> blk))\<rparr>"

interpretation chain_index: keyed_store index_put "\<lambda>bc k. bc_get bc (snd k) (fst k)"
  by unfold_locales (auto simp: index_put_def bc_get_def split: option.splits)

lemma bc_add_index:
  "bc_get (bc_add bc blk) h r = bc_get (index_put (blk_Round blk, Block_Hash blk) blk bc) h r"
  using chain_index.lookup_put [of "(blk_Round blk, Block_Hash blk)" blk bc "(r, h)"]
  by (auto simp: bc_get_add)

section \<open>Hashing\<close>

lemma wf_Block_Hash [simp]: "wf_hash (Block_Hash blk)"
  by (simp add: Block_Hash_def)

lemma Block_Hash_frame:
  "Block_Hash (blk\<lparr>blk_Type := t, blk_Signature := s, blk_Data := d\<rparr>) = Block_Hash blk"
  by (cases "blk_Seed blk"; cases "blk_Proof blk") (simp_all add: Block_Hash_def hash_data_def Let_def)

lemma Block_Hash_type: "Block_Hash (blk\<lparr>blk_Type := t\<rparr>) = Block_Hash blk"
  using Block_Hash_frame [where blk = blk and t = t and s = "blk_Signature blk" and d = "blk_Data blk"] by simp

text \<open>
  What identifies a block. The hash does not depend on \<open>Type\<close>, \<open>Signature\<close> and
  \<open>Data\<close>: blocks that differ only there share their hash (and so one slot of the index).
\<close>

theorem Block_Hash_ignores:
  "Block_Hash (blk\<lparr>blk_Type := t, blk_Signature := s, blk_Data := d\<rparr>) = Block_Hash blk"
  by (rule Block_Hash_frame)

text \<open>
  The hashed bytes determine the round and the parent, whatever the optional fields: two
  blocks with 32-byte parent hashes and the same hashed bytes have the same round and the same
  parent. With a collision-free hash, a block hash therefore fixes a unique position in the chain.
\<close>

theorem hash_data_position:
  assumes "wf_hash (blk_ParentHash a)" and "wf_hash (blk_ParentHash b)"
    and "hash_data a = hash_data b"
  shows "blk_Round a = blk_Round b \<and> blk_ParentHash a = blk_ParentHash b"
proof -
  have "\<exists>rest. hash_data blk = Uint2Bytes (blk_Round blk) @ blk_ParentHash blk @ rest" for blk
    by (auto simp: hash_data_def Let_def Hash_Bytes_def split: option.splits)
  then obtain ra rb where
    "hash_data a = Uint2Bytes (blk_Round a) @ blk_ParentHash a @ ra"
    "hash_data b = Uint2Bytes (blk_Round b) @ blk_ParentHash b @ rb" by blast
  with assms show ?thesis by (auto simp: append_eq_append_conv wf_hash_def)
qed

theorem hash_data_position_witness:
  "blk_Round (zero_block\<lparr>blk_Round := 3\<rparr>) = blk_Round (zero_block\<lparr>blk_Round := 3, blk_Data := Some [1]\<rparr>)
   \<and> blk_ParentHash (zero_block\<lparr>blk_Round := 3\<rparr>) = blk_ParentHash (zero_block\<lparr>blk_Round := 3, blk_Data := Some [1]\<rparr>)"
  by (rule hash_data_position) (simp_all add: zero_block_def wf_hash_def hash_data_def Let_def)

section \<open>The invariant of the chain\<close>

definition chain_inv :: "Blockchain \<Rightarrow> bool" where
  "chain_inv bc \<longleftrightarrow>
     (\<forall>h r b. bc_get bc h r = Some b \<longrightarrow> blk_Round b = r \<and> Block_Hash b = h)
   \<and> bc_genesis bc = Some genesis_block
   \<and> (\<exists>l. bc_last bc = Some l \<and> bc_get bc (Block_Hash l) (blk_Round l) \<noteq> None)"

text \<open>The round of the last block; \<open>0\<close> when there is none.\<close>

definition last_round :: "Blockchain \<Rightarrow> u64" where
  "last_round bc = (case bc_last bc of None \<Rightarrow> 0 | Some l \<Rightarrow> blk_Round l)"

lemma bc_add_last:
  "bc_last (bc_add bc blk) =
     (case bc_last bc of
        None \<Rightarrow> Some blk
      | Some l \<Rightarrow> if blk_Round l < blk_Round blk then Some blk else Some l)"
  by (simp add: bc_add_def Let_def split: option.splits)

lemma bc_add_genesis [simp]: "bc_genesis (bc_add bc blk) = bc_genesis bc"
  by (simp add: bc_add_def Let_def)

lemma newBlockchain_inv: "chain_inv newBlockchain"
proof -
  have empty: "bc_get \<lparr>bc_last = None, bc_genesis = g, bc_blocks = Map.empty\<rparr> h r = None" for g h r
    by (simp add: bc_get_def)
  show ?thesis
    by (simp add: chain_inv_def newBlockchain_def bc_init_def bc_get_add bc_add_last empty)
qed

lemma last_newBlockchain: "bc_last newBlockchain = Some genesis_block"
  by (simp add: newBlockchain_def bc_init_def bc_add_last)

lemma last_round_newBlockchain [simp]: "last_round newBlockchain = 0"
  by (simp add: last_round_def last_newBlockchain genesis_block_def Let_def)

lemma bc_add_inv: "chain_inv bc \<Longrightarrow> chain_inv (bc_add bc blk)"
  by (fastforce simp: chain_inv_def bc_get_add bc_add_last split: if_splits)

text \<open>
  C16: every chain built from the genesis block by \<open>add\<close> satisfies the chain invariant (each
  stored block sits under its own round and hash, the genesis block and a stored last block are
  there), every added block that is not overwritten by a later one with its round and hash can be
  read back, and the round of the last block is the maximum of the rounds added.
\<close>

theorem add_blocks:
  "let bc = foldl bc_add newBlockchain blks in
     chain_inv bc
   \<and> last_round bc = fold max (map blk_Round blks) 0
   \<and> (\<forall>i < length blks. \<exists>b \<in> set (drop i blks).
        bc_get bc (Block_Hash (blks ! i)) (blk_Round (blks ! i)) = Some b
      \<and> Block_Hash b = Block_Hash (blks ! i) \<and> blk_Round b = blk_Round (blks ! i))"
proof (induction blks rule: rev_induct)
  case Nil
  show ?case by (simp add: newBlockchain_inv)
next
  case (snoc x xs)
  let ?bc = "foldl bc_add newBlockchain xs"
  have inv: "chain_inv ?bc" and lr: "last_round ?bc = fold max (map blk_Round xs) 0"
    using snoc by (simp_all add: Let_def)
  have "last_round (bc_add ?bc x) = max (blk_Round x) (last_round ?bc)"
    using inv by (auto simp: chain_inv_def last_round_def bc_add_last)
  moreover have "\<exists>b \<in> set (drop i (xs @ [x])).
        bc_get (bc_add ?bc x) (Block_Hash ((xs @ [x]) ! i)) (blk_Round ((xs @ [x]) ! i)) = Some b
      \<and> Block_Hash b = Block_Hash ((xs @ [x]) ! i) \<and> blk_Round b = blk_Round ((xs @ [x]) ! i)"
    if i: "i < length (xs @ [x])" for i
  proof (cases "i < length xs")
    case True
    with snoc obtain b where "b \<in> set (drop i xs)"
      "bc_get ?bc (Block_Hash (xs ! i)) (blk_Round (xs ! i)) = Some b"
      "Block_Hash b = Block_Hash (xs ! i)" "blk_Round b = blk_Round (xs ! i)"
      by (fastforce simp: Let_def)
    with True show ?thesis by (auto simp: bc_get_add nth_append)
  next
    case False
    with i have "i = length xs" by simp
    then show ?thesis by (simp add: bc_get_add)
  qed
  ultimately show ?case
    using inv lr by (simp add: Let_def bc_add_inv)
qed

section \<open>Looking a block up by round\<close>

lemma getByRound_loop_None: "getByRound_loop bc None r = (if r = 0 then Ok None else Panic)"
  by (simp add: getByRound_loop.simps word_gt_0)

lemma getByRound_loop_Some:
  "getByRound_loop bc (Some b) r =
     (if r = 0 \<or> blk_Round b = r then Ok (Some b)
      else getByRound_loop bc (bc_get bc (blk_ParentHash b) (r - 1)) (r - 1))"
  by (simp add: getByRound_loop.simps [of bc "Some b"] word_gt_0)

text \<open>
  The parent of the last block is stored at the round below it and nowhere else: what a chain
  whose block hashes do not collide satisfies.
\<close>

definition parent_only_below :: "Blockchain \<Rightarrow> Block \<Rightarrow> bool" where
  "parent_only_below bc l \<longleftrightarrow>
     (\<forall>r. bc_get bc (blk_ParentHash l) r \<noteq> None \<longrightarrow> r = blk_Round l - 1)"

lemma getByRound_tip:
  "bc_last bc = Some l \<Longrightarrow> getByRound bc (blk_Round l) = Ok (Some l)"
  by (simp add: getByRound_def getByRound_loop_Some)

lemma getByRound_0: "getByRound bc 0 = Ok (bc_last bc)"
  by (simp add: getByRound_def getByRound_loop.simps)

lemma getByRound_cases:
  assumes last: "bc_last bc = Some l" and parent: "parent_only_below bc l"
  shows "getByRound bc r =
    (if r = 0 \<or> r = blk_Round l then Ok (Some l) else if r = 1 then Ok None else Panic)"
proof (cases "r = 0 \<or> r = blk_Round l")
  case True
  with last show ?thesis by (auto simp: getByRound_0 getByRound_tip)
next
  case False
  have "bc_get bc (blk_ParentHash l) (r - 1) = None"
  proof (rule ccontr)
    assume "\<not> ?thesis"
    then have "r - 1 = blk_Round l - 1" using parent by (simp add: parent_only_below_def)
    with False show False by simp
  qed
  with False last show ?thesis
    by (auto simp: getByRound_def getByRound_loop_Some getByRound_loop_None)
qed

text \<open>
  C17: what \<open>getByRound\<close> really computes. On a chain whose last block has its parent stored only
  at the round below it, the lookup gives the last block for its own round, and also for round 0
  (not the genesis block); for round 1 it gives nil; for every other round, stored or not, it
  dereferences a nil pointer, because the loop looks the parent of the last block up one round too
  low.
\<close>

theorem getByRound_only_last:
  assumes "bc_last bc = Some l" and "parent_only_below bc l"
  shows "getByRound bc r =
    (if r = 0 \<or> r = blk_Round l then Ok (Some l) else if r = 1 then Ok None else Panic)"
  using assms by (rule getByRound_cases)

end
