(* ===== verification/Vectors.thy ===== *)
theory Vectors
  imports Chain
begin

text \<open>
  Concrete hashes, evaluated by the simplifier: the digest of the empty string (a FIPS 180-4 test
  vector), the hash of the genesis block, and the hashes of the empty blocks of rounds 1 to 3 on
  top of it. The witnesses that need a real chain whose hashes do not collide use them.
\<close>

lemma sum256_empty:
  "sum256 [] =
    [227, 176, 196, 66, 152, 252, 28, 20, 154, 251, 244, 200, 153, 111, 185, 36,
    39, 174, 65, 228, 100, 155, 147, 76, 164, 149, 153, 27, 120, 82, 184, 85]"
  by code_simp

lemma sum256_genesis:
  "sum256
    [0, 0, 0, 0, 0, 0, 0, 0, 227, 176, 196, 66, 152, 252, 28, 20,
    154, 251, 244, 200, 153, 111, 185, 36, 39, 174, 65, 228, 100, 155, 147, 76,
    164, 149, 153, 27, 120, 82, 184, 85, 227, 176, 196, 66, 152, 252, 28, 20,
    154, 251, 244, 200, 153, 111, 185, 36, 39, 174, 65, 228, 227, 176, 196, 66,
    152, 252, 28, 20, 154, 251, 244, 200, 153, 111, 185, 36, 39, 174, 65, 228,
    100, 155, 147, 76, 164, 149, 153, 27, 120, 82, 184, 85] =
    [236, 12, 91, 22, 193, 232, 194, 25, 120, 142, 196, 111, 77, 119, 28, 94,
    206, 27, 53, 25, 136, 89, 125, 135, 111, 245, 176, 228, 125, 31, 66, 7]"
  by code_simp

lemma sum256_empty_block_1:
  "sum256
    [0, 0, 0, 0, 0, 0, 0, 1, 236, 12, 91, 22, 193, 232, 194, 25,
    120, 142, 196, 111, 77, 119, 28, 94, 206, 27, 53, 25, 136, 89, 125, 135,
    111, 245, 176, 228, 125, 31, 66, 7] =
    [103, 174, 82, 200, 190, 113, 23, 46, 80, 48, 142, 26, 122, 237, 164, 226,
    137, 87, 170, 155, 37, 200, 38, 214, 216, 124, 176, 19, 165, 126, 93, 162]"
  by code_simp

lemma sum256_empty_block_2:
  "sum256
    [0, 0, 0, 0, 0, 0, 0, 2, 103, 174, 82, 200, 190, 113, 23, 46,
    80, 48, 142, 26, 122, 237, 164, 226, 137, 87, 170, 155, 37, 200, 38, 214,
    216, 124, 176, 19, 165, 126, 93, 162] =
    [96, 104, 58, 51, 124, 65, 134, 160, 242, 209, 59, 148, 115, 35, 159, 242,
    79, 50, 238, 241, 133, 82, 166, 101, 139, 254, 165, 188, 102, 24, 59, 222]"
  by code_simp

lemma sum256_empty_block_3:
  "sum256
    [0, 0, 0, 0, 0, 0, 0, 3, 96, 104, 58, 51, 124, 65, 134, 160,
    242, 209, 59, 148, 115, 35, 159, 242, 79, 50, 238, 241, 133, 82, 166, 101,
    139, 254, 165, 188, 102, 24, 59, 222] =
    [201, 132, 95, 196, 192, 224, 114, 11, 41, 224, 36, 1, 29, 75, 187, 255,
    60, 236, 55, 151, 194, 67, 111, 203, 163, 34, 172, 51, 63, 127, 128, 170]"
  by code_simp

lemma sum256_empty_block_4:
  "sum256
    [0, 0, 0, 0, 0, 0, 0, 4, 201, 132, 95, 196, 192, 224, 114, 11,
    41, 224, 36, 1, 29, 75, 187, 255, 60, 236, 55, 151, 194, 67, 111, 203,
    163, 34, 172, 51, 63, 127, 128, 170] =
    [244, 35, 166, 66, 58, 227, 170, 201, 215, 111, 152, 36, 210, 100, 148, 133,
    150, 204, 57, 114, 64, 30, 156, 120, 229, 196, 139, 67, 86, 39, 102, 193]"
  by code_simp

lemma sum256_empty_block_1000:
  "sum256
    [0, 0, 0, 0, 0, 0, 3, 232, 1, 1, 1, 1, 1, 1, 1, 1,
    1, 1, 1, 1, 1, 1, 1, 1, 1, 1, 1, 1, 1, 1, 1, 1,
    1, 1, 1, 1, 1, 1, 1, 1] =
    [223, 135, 129, 194, 63, 131, 251, 195, 245, 144, 231, 219, 91, 50, 66, 248,
    5, 23, 236, 179, 215, 64, 37, 48, 218, 152, 95, 202, 179, 130, 174, 159]"
  by code_simp

section \<open>A chain of three empty blocks\<close>

definition sample_hash :: "nat \<Rightarrow> hash" where
  "sample_hash n =
    (if n = 0 then
    [236, 12, 91, 22, 193, 232, 194, 25, 120, 142, 196, 111, 77, 119, 28, 94,
    206, 27, 53, 25, 136, 89, 125, 135, 111, 245, 176, 228, 125, 31, 66, 7]
     else if n = 1 then
    [103, 174, 82, 200, 190, 113, 23, 46, 80, 48, 142, 26, 122, 237, 164, 226,
    137, 87, 170, 155, 37, 200, 38, 214, 216, 124, 176, 19, 165, 126, 93, 162]
     else if n = 2 then
    [96, 104, 58, 51, 124, 65, 134, 160, 242, 209, 59, 148, 115, 35, 159, 242,
    79, 50, 238, 241, 133, 82, 166, 101, 139, 254, 165, 188, 102, 24, 59, 222]
     else
    [201, 132, 95, 196, 192, 224, 114, 11, 41, 224, 36, 1, 29, 75, 187, 255,
    60, 236, 55, 151, 194, 67, 111, 203, 163, 34, 172, 51, 63, 127, 128, 170])"

definition sample_block :: "u64 \<Rightarrow> hash \<Rightarrow> Block" where
  "sample_block r parent = zero_block\<lparr>blk_Round := r, blk_ParentHash := parent\<rparr>"

definition sample_chain :: Blockchain where
  "sample_chain = foldl bc_add newBlockchain
     [sample_block 1 (sample_hash 0), sample_block 2 (sample_hash 1), sample_block 3 (sample_hash 2)]"

lemma zero_address_Cons: "zero_address = 0 # replicate 19 0"
  by (simp add: zero_address_def AddressLength_def flip: replicate_Suc)

lemma sample_block_simps [simp]:
  "blk_Round (sample_block r h) = r" "blk_ParentHash (sample_block r h) = h"
  by (simp_all add: sample_block_def)

lemma genesis_hash: "Block_Hash genesis_block = sample_hash 0"
  by (simp add: Block_Hash_def hash_data_def genesis_block_def zero_block_def Let_def Sha256_def
      sum256_empty Hash_Bytes_def Address_Bytes_def HashToAddr_def BytesToAddress_def AddressLength_def
      go_copy_def zero_address_Cons Address_Nil_def Uint2Bytes_eq put_uint64_def sum256_genesis
      sample_hash_def)

lemma sample_hashes:
  "Block_Hash (sample_block 1 (sample_hash 0)) = sample_hash 1"
  "Block_Hash (sample_block 2 (sample_hash 1)) = sample_hash 2"
  "Block_Hash (sample_block 3 (sample_hash 2)) = sample_hash 3"
  by (simp_all add: Block_Hash_def hash_data_def sample_block_def zero_block_def Let_def Sha256_def
      Hash_Bytes_def Address_Nil_def Uint2Bytes_eq put_uint64_def sample_hash_def
      sum256_empty_block_1 sum256_empty_block_2 sum256_empty_block_3)

lemma sample_hash_distinct:
  "sample_hash 0 \<noteq> sample_hash 2" "sample_hash 1 \<noteq> sample_hash 2" "sample_hash 3 \<noteq> sample_hash 2"
  by (simp_all add: sample_hash_def)

lemma sample_last: "bc_last sample_chain = Some (sample_block 3 (sample_hash 2))"
  by (simp add: sample_chain_def bc_add_last last_newBlockchain genesis_block_def Let_def
      sample_block_def)

lemma newBlockchain_get:
  "bc_get newBlockchain h r = (if r = 0 \<and> h = sample_hash 0 then Some genesis_block else None)"
proof -
  have "blk_Round genesis_block = 0" by (simp add: genesis_block_def Let_def)
  then show ?thesis
    by (simp add: newBlockchain_def bc_init_def bc_get_add genesis_hash) (simp add: bc_get_def)
qed

lemma sample_get:
  "bc_get sample_chain h r =
     (if r = 3 \<and> h = sample_hash 3 then Some (sample_block 3 (sample_hash 2))
      else if r = 2 \<and> h = sample_hash 2 then Some (sample_block 2 (sample_hash 1))
      else if r = 1 \<and> h = sample_hash 1 then Some (sample_block 1 (sample_hash 0))
      else if r = 0 \<and> h = sample_hash 0 then Some genesis_block else None)"
  unfolding sample_chain_def foldl.simps bc_get_add sample_hashes newBlockchain_get sample_block_simps
  by (rule refl)

lemma sample_parent_only_below: "parent_only_below sample_chain (sample_block 3 (sample_hash 2))"
  using sample_hash_distinct by (auto simp: parent_only_below_def sample_get split: if_splits)

lemma replicate_32: "replicate 32 (x :: byte) =
    [x, x, x, x, x, x, x, x, x, x, x, x, x, x, x, x, x, x, x, x, x, x, x, x, x, x, x, x, x, x, x, x]"
  by (simp add: numeral_eq_Suc)

lemma sample_next_hash:
  "Block_Hash (sample_block 4 (sample_hash 3)) \<noteq> sample_hash 2"
  "Block_Hash (sample_block 4 (sample_hash 3)) \<noteq> replicate 32 0"
  by (simp_all add: Block_Hash_def hash_data_def sample_block_def zero_block_def Let_def Sha256_def
      Hash_Bytes_def Address_Nil_def Uint2Bytes_eq put_uint64_def sample_hash_def sum256_empty_block_4 replicate_32)

text \<open>A chain whose last block has round 1000 and a parent that is not stored.\<close>

definition far_block :: Block where
  "far_block = sample_block 1000 (replicate 32 1)"

definition far_chain :: Blockchain where
  "far_chain = bc_add newBlockchain far_block"

lemma far_block_simps [simp]: "blk_Round far_block = 1000" "blk_ParentHash far_block = replicate 32 1"
  by (simp_all add: far_block_def)

lemma far_hash: "Block_Hash far_block \<noteq> replicate 32 1"
proof -
  have "Uint2Bytes 1000 = [0, 0, 0, 0, 0, 0, 3, 232]" by (simp add: Uint2Bytes_eq put_uint64_def)
  then show ?thesis
    by (simp add: Block_Hash_def hash_data_def far_block_def sample_block_def zero_block_def Let_def
      Sha256_def Hash_Bytes_def Address_Nil_def replicate_32
      sum256_empty_block_1000)
qed

lemma far_last: "bc_last far_chain = Some far_block"
  by (simp add: far_chain_def bc_add_last last_newBlockchain genesis_block_def Let_def)

lemma far_parent_only_below: "parent_only_below far_chain far_block"
proof -
  have "sample_hash 0 \<noteq> replicate 32 1" by (simp add: sample_hash_def replicate_32)
  with far_hash show ?thesis
    by (auto simp: parent_only_below_def far_chain_def bc_get_add newBlockchain_get split: if_splits)
qed

theorem getByRound_only_last_witness:
  "getByRound sample_chain 2 = Panic \<and> getByRound sample_chain 1 = Ok None
   \<and> getByRound sample_chain 0 = Ok (Some (sample_block 3 (sample_hash 2)))
   \<and> bc_get sample_chain (sample_hash 2) 2 = Some (sample_block 2 (sample_hash 1))"
  using getByRound_only_last [OF sample_last sample_parent_only_below, of 2]
    getByRound_only_last [OF sample_last sample_parent_only_below, of 1]
    getByRound_only_last [OF sample_last sample_parent_only_below, of 0]
  by (simp add: sample_get)

theorem add_blocks_witness:
  "chain_inv sample_chain \<and> last_round sample_chain = 3
   \<and> (\<exists>b. bc_get sample_chain (sample_hash 1) 1 = Some b \<and> Block_Hash b = sample_hash 1 \<and> blk_Round b = 1)"
  using add_blocks [of "[sample_block 1 (sample_hash 0), sample_block 2 (sample_hash 1), sample_block 3 (sample_hash 2)]"]
  unfolding sample_chain_def [symmetric] Let_def
  by (force simp: sample_hashes)

end
