(* ===== verification/Parameter.thy ===== *)
theory Parameter
  imports Prelude
begin

text \<open>
  The parameters of the protocol (\<open>src/parameter.go\<close>), the message tags of
  \<open>src/message.go\<close> and the node start-up of \<open>src/main.go\<close>. The variables that the command
  line sets are a record; the constants are definitions. Floating-point thresholds are the
  decimal fractions written in the source.
\<close>

section \<open>Variables and constants\<close>

record params =
  UserAmount :: u64
  TokenPerUser :: u64
  Malicious :: u64
  NetworkLatency :: int

definition default_params :: params where
  "default_params = \<lparr>UserAmount = 100, TokenPerUser = 10000, Malicious = 0, NetworkLatency = 0\<rparr>"

definition TotalTokenAmount :: "params \<Rightarrow> u64" where
  "TotalTokenAmount p = UserAmount p * TokenPerUser p"

definition expectedBlockProposers :: int where "expectedBlockProposers = 26"
definition expectedCommitteeMembers :: int where "expectedCommitteeMembers = 10"
definition thresholdOfBAStep :: rat where "thresholdOfBAStep = 685 / 1000"
definition expectedFinalCommitteeMembers :: int where "expectedFinalCommitteeMembers = 20"
definition finalThreshold :: rat where "finalThreshold = 74 / 100"
definition MAXSTEPS :: int where "MAXSTEPS = 150"

text \<open>The seed refresh interval, a constant of type \<open>uint64\<close> where it is used.\<close>

definition R :: u64 where "R = 1000"

definition committee :: bytes where "committee = str ''committee''"
definition proposer :: bytes where "proposer = str ''proposer''"

definition PROPOSE :: int where "PROPOSE = 1000"
definition REDUCTION_ONE :: int where "REDUCTION_ONE = 1001"
definition REDUCTION_TWO :: int where "REDUCTION_TWO = 1002"
definition FINAL :: int where "FINAL = 1003"

definition FINAL_CONSENSUS :: int where "FINAL_CONSENSUS = 0"
definition TENTATIVE_CONSENSUS :: int where "TENTATIVE_CONSENSUS = 1"

text \<open>
  \<open>iota\<close> in Go is the index of the constant specification inside its \<open>const ( ... )\<close> group.
  \<open>Honest = iota\<close> is not the first of the group: these are the names that come before it, in
  the order of the file.
\<close>

definition const_group :: "string list" where
  "const_group =
     [''expectedBlockProposers'', ''expectedCommitteeMembers'', ''thresholdOfBAStep'',
      ''expectedFinalCommitteeMembers'', ''finalThreshold'', ''MAXSTEPS'', ''lamdaPriority'',
      ''lamdaBlock'', ''lamdaStep'', ''lamdaStepvar'', ''R'', ''forkResolveInterval'',
      ''committee'', ''proposer'', ''PROPOSE'', ''REDUCTION_ONE'', ''REDUCTION_TWO'', ''FINAL'',
      ''FINAL_CONSENSUS'', ''TENTATIVE_CONSENSUS'', ''Honest'', ''EvilBlockProposal'',
      ''EvilVoteEmpty'', ''EvilVoteNothing'']"

definition iota :: "string \<Rightarrow> int" where
  "iota name = int (length (takeWhile ((\<noteq>) name) const_group))"

definition Honest :: int where "Honest = iota ''Honest''"
definition EvilBlockProposal :: int where "EvilBlockProposal = iota ''EvilBlockProposal''"
definition EvilVoteEmpty :: int where "EvilVoteEmpty = iota ''EvilVoteEmpty''"
definition EvilVoteNothing :: int where "EvilVoteNothing = iota ''EvilVoteNothing''"

text \<open>The message tags of \<open>message.go\<close>, whose group starts with \<open>iota\<close>.\<close>

definition VOTE :: int where "VOTE = 0"
definition BLOCK_PROPOSAL :: int where "BLOCK_PROPOSAL = 1"
definition FORK_PROPOSAL :: int where "FORK_PROPOSAL = 2"
definition BLOCK :: int where "BLOCK = 3"

lemmas msg_tags = VOTE_def BLOCK_PROPOSAL_def FORK_PROPOSAL_def BLOCK_def

lemmas step_consts = PROPOSE_def REDUCTION_ONE_def REDUCTION_TWO_def FINAL_def MAXSTEPS_def

lemma malicious_values [simp]:
  "Honest = 20" "EvilBlockProposal = 21" "EvilVoteEmpty = 22" "EvilVoteNothing = 23"
  by (simp_all add: Honest_def EvilBlockProposal_def EvilVoteEmpty_def EvilVoteNothing_def
      iota_def const_group_def)

section \<open>The vote threshold\<close>

text \<open>\<open>uint64(float64(expectedNum)*threshold)\<close>: truncation of the product.\<close>

definition vote_threshold :: "int \<Rightarrow> rat \<Rightarrow> nat" where
  "vote_threshold expectedNum threshold = nat \<lfloor>of_int expectedNum * threshold\<rfloor>"

lemma vote_threshold_step: "vote_threshold expectedCommitteeMembers thresholdOfBAStep = 6"
proof -
  have "\<lfloor>137 / 20 :: rat\<rfloor> = 6" by (rule floor_unique) simp_all
  then show ?thesis
    by (simp add: vote_threshold_def expectedCommitteeMembers_def thresholdOfBAStep_def)
qed

lemma vote_threshold_final: "vote_threshold expectedFinalCommitteeMembers finalThreshold = 14"
proof -
  have "\<lfloor>74 / 5 :: rat\<rfloor> = 14" by (rule floor_unique) simp_all
  then show ?thesis
    by (simp add: vote_threshold_def expectedFinalCommitteeMembers_def finalThreshold_def)
qed

section \<open>Starting the nodes\<close>

text \<open>
  The loops of \<open>regularRun\<close>: the identifiers and malicious types of the nodes created, as a
  list. \<open>loop_ids i bound\<close> is \<open>for ; uint64(i) <= bound; i++\<close>; its bound is a \<open>uint64\<close>,
  so \<open>UserAmount - Malicious\<close> wraps around when there are more malicious users than users.
  The command line flag is declared under the names \<open>mtype\<close> and \<open>i\<close> and read under the name
  \<open>type\<close>; \<open>cli_int\<close> is the flag lookup of the command-line library, which gives \<open>0\<close> for
  a flag that is not declared.
\<close>

function loop_ids :: "nat \<Rightarrow> nat \<Rightarrow> nat list" where
  "loop_ids i bound = (if i \<le> bound then i # loop_ids (Suc i) bound else [])"
  by pat_completeness auto
termination by (relation "measure (\<lambda>(i, bound). Suc bound - i)") auto

declare loop_ids.simps [simp del]

definition regularRun :: "(string \<Rightarrow> int) \<Rightarrow> params \<Rightarrow> (nat \<times> int) list" where
  "regularRun cli_int p =
     (let maliciousType = cli_int ''type'';
          honest = loop_ids 0 (unat (UserAmount p - Malicious p));
          i = length honest;
          evil = loop_ids i (unat (UserAmount p))
      in map (\<lambda>j. (j, Honest)) honest @ map (\<lambda>j. (j, maliciousType)) evil)"

text \<open>The flags of the command \<open>regular\<close>, by every name they are declared with.\<close>

definition declared_flags :: "string list" where
  "declared_flags = [''num'', ''n'', ''token'', ''t'', ''malicious'', ''m'', ''mtype'', ''i'',
     ''latency'', ''l'']"

lemma loop_ids_upt: "loop_ids i bound = [i..<Suc bound]"
proof (induction i bound rule: loop_ids.induct)
  case (1 i bound)
  show ?case
  proof (cases "i \<le> bound")
    case True
    with 1 have "loop_ids i bound = i # [Suc i..<Suc bound]" by (simp add: loop_ids.simps [of i])
    also have "\<dots> = [i..<Suc bound]" using True by (simp add: upt_conv_Cons del: upt_Suc)
    finally show ?thesis .
  next
    case False
    then show ?thesis by (simp add: loop_ids.simps [of i])
  qed
qed

text \<open>
  With at most as many malicious users as users, \<open>regularRun\<close> starts
  \<open>UserAmount + 1\<close> nodes, numbered from 0: \<open>UserAmount - Malicious + 1\<close> honest ones and then
  \<open>Malicious\<close> others. The last number is the first one over the requested amount.
\<close>

theorem regularRun_nodes:
  assumes "unat (Malicious p) \<le> unat (UserAmount p)"
  shows "map fst (regularRun cli_int p) = [0..<Suc (unat (UserAmount p))]
    \<and> length (filter (\<lambda>n. snd n = Honest) (regularRun cli_int p)) \<ge> unat (UserAmount p) - unat (Malicious p) + 1"
proof -
  let ?h = "unat (UserAmount p) - unat (Malicious p)"
  have "unat (UserAmount p - Malicious p) = ?h"
    using assms by (simp add: unat_sub word_le_nat_alt)
  then have run: "regularRun cli_int p = map (\<lambda>j. (j, Honest)) [0..<Suc ?h]
      @ map (\<lambda>j. (j, cli_int ''type'')) [Suc ?h..<Suc (unat (UserAmount p))]"
    by (simp add: regularRun_def Let_def loop_ids_upt del: upt_Suc)
  have "[0..<Suc ?h] @ [Suc ?h..<Suc (unat (UserAmount p))] = [0..<Suc (unat (UserAmount p))]"
    using upt_add_eq_append [of 0 "Suc ?h" "unat (Malicious p)"] assms by simp
  then have "map fst (regularRun cli_int p) = [0..<Suc (unat (UserAmount p))]"
    by (simp only: run map_append map_map comp_def fst_conv map_ident)
  moreover have "filter (\<lambda>n. snd n = Honest) (map (\<lambda>j. (j, Honest)) [0..<Suc ?h])
      = map (\<lambda>j. (j, Honest)) [0..<Suc ?h]"
    by (simp add: filter_map comp_def del: upt_Suc)
  ultimately show ?thesis by (simp only: run filter_append) (simp del: upt_Suc)
qed

theorem regularRun_nodes_witness:
  "map fst (regularRun (\<lambda>_. 0) (default_params\<lparr>UserAmount := 3, Malicious := 1\<rparr>)) = [0, 1, 2, 3]"
proof -
  have "unat (Malicious (default_params\<lparr>UserAmount := 3, Malicious := 1\<rparr>))
      \<le> unat (UserAmount (default_params\<lparr>UserAmount := 3, Malicious := 1\<rparr>))"
    by simp
  from regularRun_nodes [OF this, of "\<lambda>_. 0"] show ?thesis by (simp add: upt_rec)
qed

text \<open>
  The malicious behaviours cannot be switched on from the command line. Whatever value the
  declared flags have, a flag lookup that answers \<open>0\<close> for undeclared names gives every node of
  \<open>regularRun\<close> a type that is none of the three malicious ones; and the documented values 0 to 3
  of the flag are none of them either.
\<close>

theorem regularRun_never_malicious:
  assumes undeclared: "\<And>name. name \<notin> set declared_flags \<Longrightarrow> cli_int name = 0"
  shows "(\<forall>node \<in> set (regularRun cli_int p).
      snd node \<notin> {EvilBlockProposal, EvilVoteEmpty, EvilVoteNothing})
    \<and> {0, 1, 2, 3} \<inter> {EvilBlockProposal, EvilVoteEmpty, EvilVoteNothing} = {}"
proof -
  have "cli_int ''type'' = 0" by (rule undeclared) (simp add: declared_flags_def)
  then show ?thesis by (auto simp: regularRun_def Let_def)
qed

theorem regularRun_never_malicious_witness:
  "(3, 0) \<in> set (regularRun (\<lambda>name. if name = ''mtype'' then 2 else 0)
      (default_params\<lparr>UserAmount := 3, Malicious := 1\<rparr>))
   \<and> snd ` set (regularRun (\<lambda>name. if name = ''mtype'' then 2 else 0)
      (default_params\<lparr>UserAmount := 3, Malicious := 1\<rparr>)) \<inter> {EvilBlockProposal, EvilVoteEmpty, EvilVoteNothing} = {}"
proof -
  let ?c = "\<lambda>name. if name = ''mtype'' then 2 else (0 :: int)"
  have "?c name = 0" if "name \<notin> set declared_flags" for name
    using that by (auto simp: declared_flags_def)
  note all = regularRun_never_malicious [of ?c, OF this]
  have "(3, 0) \<in> set (regularRun ?c (default_params\<lparr>UserAmount := 3, Malicious := 1\<rparr>))"
    by (auto simp: regularRun_def Let_def loop_ids_upt)
  with all show ?thesis by blast
qed

end
