(* ===== verification/Binomial_Dist.thy ===== *)
theory Binomial_Dist
  imports Prelude "HOL-Library.Multiset"
begin

text \<open>
  The binomial distribution of \<open>src/binomial.go\<close>, with its caches as state. \<open>big.Int\<close> is
  \<open>int\<close> and \<open>big.Rat\<close> is \<open>rat\<close>. The exponents of \<open>Exp\<close> are \<open>float64\<close> values that
  hold natural numbers; they are natural numbers here, which is exact up to \<open>2^53\<close>, far above
  any token amount in use. A negative exponent makes the recursion of \<open>Exp\<close> run on
  \<open>NaN\<close> until the stack overflows, which is a crash (\<open>Panic\<close>).
\<close>

section \<open>RegularBinomial\<close>

record RegularBinomial =
  bN :: int
  bpn :: int
  bpd :: int
  pnExpCache :: "nat \<rightharpoonup> int"
  tpnExpCache :: "nat \<rightharpoonup> int"
  probCache :: "int \<rightharpoonup> rat"
  cdfCache :: "int \<rightharpoonup> rat"
  resDenomCache :: "int option"

definition NewBinomial :: "int \<Rightarrow> int \<Rightarrow> int \<Rightarrow> RegularBinomial" where
  "NewBinomial n pn pd =
     \<lparr>bN = n, bpn = pn, bpd = pd, pnExpCache = Map.empty, tpnExpCache = Map.empty,
      probCache = Map.empty, cdfCache = Map.empty, resDenomCache = None\<rparr>"

text \<open>\<open>math.Floor(math.Sqrt(y))\<close> on the exponents.\<close>

function isqrt_from :: "nat \<Rightarrow> nat \<Rightarrow> nat" where
  "isqrt_from k y = (if (k + 1) * (k + 1) \<le> y then isqrt_from (k + 1) y else k)"
  by pat_completeness auto
termination
  by (relation "measure (\<lambda>(k, y). y - k)") (auto intro!: diff_less_mono2)

declare isqrt_from.simps [simp del]

definition isqrt :: "nat \<Rightarrow> nat" where "isqrt y = isqrt_from 0 y"

lemma isqrt_from_bounds: "k * k \<le> y \<Longrightarrow> k \<le> isqrt_from k y \<and> isqrt_from k y * isqrt_from k y \<le> y"
proof (induction k y rule: isqrt_from.induct)
  case (1 k y)
  show ?case
  proof (cases "(k + 1) * (k + 1) \<le> y")
    case True
    with 1 show ?thesis by (simp add: isqrt_from.simps [of k y])
  next
    case False
    with 1 show ?thesis by (simp add: isqrt_from.simps [of k y])
  qed
qed

lemma isqrt_range: "2 \<le> y \<Longrightarrow> 1 \<le> isqrt y \<and> isqrt y < y"
proof -
  assume y: "2 \<le> y"
  have step: "isqrt y = isqrt_from 1 y"
    using y by (simp add: isqrt_def isqrt_from.simps [of 0 y])
  have b: "1 \<le> isqrt y \<and> isqrt y * isqrt y \<le> y"
    using isqrt_from_bounds [of 1 y] y by (simp add: step)
  have "isqrt y < y"
  proof (rule ccontr)
    assume "\<not> isqrt y < y"
    then have "y * y \<le> isqrt y * isqrt y" by (simp add: mult_le_mono)
    also have "\<dots> \<le> y" using b by simp
    finally have "y * y \<le> y * 1" by simp
    with y show False by (simp only: mult_le_cancel1) simp
  qed
  with b show ?thesis by simp
qed

lemma isqrt_less: "y \<noteq> 0 \<Longrightarrow> y \<noteq> Suc 0 \<Longrightarrow> isqrt y < y"
  using isqrt_range [of y] by simp

lemma isqrt_rest: "y \<noteq> 0 \<Longrightarrow> y \<noteq> Suc 0 \<Longrightarrow> y - isqrt y < y"
  using isqrt_range [of y] by simp

text \<open>
  The cache an exponentiation uses: \<open>pnExpCache\<close> for the base \<open>pn\<close>, else
  \<open>tpnExpCache\<close> for the base \<open>pd - pn\<close>, else none.
\<close>

definition exp_load :: "RegularBinomial \<Rightarrow> int \<Rightarrow> nat \<Rightarrow> int option" where
  "exp_load b x y =
     (if x = bpn b then pnExpCache b y
      else if x = bpd b - bpn b then tpnExpCache b y
      else None)"

definition exp_store :: "RegularBinomial \<Rightarrow> int \<Rightarrow> nat \<Rightarrow> int \<Rightarrow> RegularBinomial" where
  "exp_store b x y v =
     (if x = bpn b then b\<lparr>pnExpCache := (pnExpCache b)(y \<mapsto> v)\<rparr>
      else if x = bpd b - bpn b then b\<lparr>tpnExpCache := (tpnExpCache b)(y \<mapsto> v)\<rparr>
      else b)"

function Exp :: "RegularBinomial \<Rightarrow> int \<Rightarrow> nat \<Rightarrow> int \<times> RegularBinomial" where
  "Exp b x y =
     (if y = 0 then (1, b)
      else if y = 1 then (x, b)
      else (case exp_load b x y of
              Some v \<Rightarrow> (v, b)
            | None \<Rightarrow>
                (if y = 2 then let res = x * x in (res, exp_store b x y res)
                 else
                   let ly = isqrt y;
                       ry = y - ly;
                       (l, b1) = Exp b x ly;
                       (r, b2) = Exp b1 x ry;
                       res = l * r
                   in (res, exp_store b2 x y res))))"
  by pat_completeness auto
termination
  by (relation "measure (\<lambda>(b, x, y). y)") (auto intro: isqrt_less isqrt_rest)

declare Exp.simps [simp del]

text \<open>\<open>resDenom\<close>: the common denominator \<open>pd ^ N\<close>, computed once.\<close>

definition resDenom :: "RegularBinomial \<Rightarrow> (int \<times> RegularBinomial) outcome" where
  "resDenom b =
     (case resDenomCache b of
        Some v \<Rightarrow> Ok (v, b)
      | None \<Rightarrow>
          if bN b < 0 then Panic
          else let (v, b') = Exp b (bpd b) (nat (bN b)) in Ok (v, b'\<lparr>resDenomCache := Some v\<rparr>))"

text \<open>\<open>Prob\<close>; \<open>SetFrac\<close> panics on a zero denominator.\<close>

definition Prob :: "RegularBinomial \<Rightarrow> int \<Rightarrow> (rat \<times> RegularBinomial) outcome" where
  "Prob b k =
     (case probCache b k of
        Some v \<Rightarrow> Ok (v, b)
      | None \<Rightarrow>
          if k < 0 \<or> bN b < k then Panic
          else
            let (lnum, b1) = Exp b (bpn b) (nat k);
                (rnum, b2) = Exp b1 (bpd b1 - bpn b1) (nat (bN b - k));
                resNum = lnum * rnum
            in obind (resDenom b2) (\<lambda>(den, b3).
                 if den = 0 then Panic
                 else
                   let mulRat = of_int resNum / of_int den;
                       bino = of_nat (nat (bN b) choose nat k);
                       prob = bino * mulRat
                   in Ok (prob, b3\<lparr>probCache := (probCache b3)(k \<mapsto> prob)\<rparr>)))"

text \<open>
  The first loop of \<open>CDF\<close>: the nearest cached value below \<open>j\<close> and the index after it, or
  zero and the index zero.
\<close>

fun cdf_search :: "RegularBinomial \<Rightarrow> nat \<Rightarrow> rat \<times> nat" where
  "cdf_search b 0 = (0, 0)"
| "cdf_search b (Suc k) =
     (case cdfCache b (int k) of Some c \<Rightarrow> (c, Suc k) | None \<Rightarrow> cdf_search b k)"

text \<open>
  The goroutines of \<open>CDF\<close> each compute one \<open>Prob\<close> and send it; the loop adds the results in
  the order they arrive. \<open>order\<close> is that order.
\<close>

fun sum_probs :: "RegularBinomial \<Rightarrow> rat \<Rightarrow> int list \<Rightarrow> (rat \<times> RegularBinomial) outcome" where
  "sum_probs b res [] = Ok (res, b)"
| "sum_probs b res (i # order) =
     obind (Prob b i) (\<lambda>(prob, b'). sum_probs b' (res + prob) order)"

text \<open>
  \<open>CDF\<close> with the scheduling of its goroutines as a parameter: \<open>sched\<close> permutes the indices in
  the order they are spawned.
\<close>

definition CDF_sched ::
  "(int list \<Rightarrow> int list) \<Rightarrow> RegularBinomial \<Rightarrow> int \<Rightarrow> (rat \<times> RegularBinomial) outcome" where
  "CDF_sched sched b j =
     (if j < 0 then Ok (0, b)
      else if j \<ge> bN b then Ok (1, b)
      else
        case cdfCache b j of
          Some v \<Rightarrow> Ok (v, b)
        | None \<Rightarrow>
            let (res, begin) = cdf_search b (nat j)
            in obind (sum_probs b res (sched (map int [begin..<Suc (nat j)]))) (\<lambda>(res', b').
                 Ok (res', b'\<lparr>cdfCache := (cdfCache b')(j \<mapsto> res')\<rparr>)))"

definition CDF :: "RegularBinomial \<Rightarrow> int \<Rightarrow> (rat \<times> RegularBinomial) outcome" where
  "CDF = CDF_sched (\<lambda>is. is)"

definition Probability :: "RegularBinomial \<Rightarrow> rat outcome" where
  "Probability b = (if bpd b = 0 then Panic else Ok (of_int (bpn b) / of_int (bpd b)))"

section \<open>The distribution\<close>

definition binom_pmf :: "nat \<Rightarrow> rat \<Rightarrow> nat \<Rightarrow> rat" where
  "binom_pmf n p k = of_nat (n choose k) * p ^ k * (1 - p) ^ (n - k)"

definition binom_cdf :: "nat \<Rightarrow> rat \<Rightarrow> int \<Rightarrow> rat" where
  "binom_cdf n p j = (\<Sum>k \<in> {k. int k \<le> j \<and> k \<le> n}. binom_pmf n p k)"

lemma binom_cdf_neg: "j < 0 \<Longrightarrow> binom_cdf n p j = 0"
  by (auto simp: binom_cdf_def intro: sum.neutral)

lemma binom_cdf_upt: "j < n \<Longrightarrow> binom_cdf n p (int j) = (\<Sum>k < Suc j. binom_pmf n p k)"
  unfolding binom_cdf_def by (rule sum.cong) auto

lemma binom_cdf_top: "int n \<le> j \<Longrightarrow> binom_cdf n p j = 1"
proof -
  assume "int n \<le> j"
  then have "{k. int k \<le> j \<and> k \<le> n} = {..n}" by auto
  then have "binom_cdf n p j = (\<Sum>k\<le>n. of_nat (n choose k) * p ^ k * (1 - p) ^ (n - k))"
    by (simp add: binom_cdf_def binom_pmf_def)
  also have "\<dots> = (p + (1 - p)) ^ n" by (rule binomial_ring [symmetric])
  finally show ?thesis by simp
qed

lemma binom_pmf_nonneg: "0 \<le> p \<Longrightarrow> p \<le> 1 \<Longrightarrow> 0 \<le> binom_pmf n p k"
  by (simp add: binom_pmf_def)

lemma binom_cdf_mono: "0 \<le> p \<Longrightarrow> p \<le> 1 \<Longrightarrow> i \<le> j \<Longrightarrow> binom_cdf n p i \<le> binom_cdf n p j"
  unfolding binom_cdf_def by (rule sum_mono2) (auto simp: binom_pmf_nonneg)

section \<open>The caches only hold right values\<close>

definition prob_of :: "RegularBinomial \<Rightarrow> rat" where
  "prob_of b = of_int (bpn b) / of_int (bpd b)"

definition binomial_inv :: "RegularBinomial \<Rightarrow> bool" where
  "binomial_inv b \<longleftrightarrow> bpd b \<noteq> 0 \<and> 0 \<le> bN b
    \<and> (\<forall>y v. pnExpCache b y = Some v \<longrightarrow> v = bpn b ^ y)
    \<and> (\<forall>y v. tpnExpCache b y = Some v \<longrightarrow> v = (bpd b - bpn b) ^ y)
    \<and> (\<forall>k v. probCache b k = Some v \<longrightarrow>
         0 \<le> k \<and> k \<le> bN b \<and> v = binom_pmf (nat (bN b)) (prob_of b) (nat k))
    \<and> (\<forall>j v. cdfCache b j = Some v \<longrightarrow> v = binom_cdf (nat (bN b)) (prob_of b) j)
    \<and> (\<forall>v. resDenomCache b = Some v \<longrightarrow> v = bpd b ^ nat (bN b))"

text \<open>The two values describe the same distribution.\<close>

definition same_dist :: "RegularBinomial \<Rightarrow> RegularBinomial \<Rightarrow> bool" where
  "same_dist b b' \<longleftrightarrow> bN b' = bN b \<and> bpn b' = bpn b \<and> bpd b' = bpd b"

lemma same_dist_refl [simp]: "same_dist b b"
  by (simp add: same_dist_def)

lemma same_dist_trans: "same_dist a b \<Longrightarrow> same_dist b c \<Longrightarrow> same_dist a c"
  by (simp add: same_dist_def)

lemma same_dist_prob: "same_dist b b' \<Longrightarrow> prob_of b' = prob_of b"
  by (simp add: same_dist_def prob_of_def)

lemma NewBinomial_inv: "pd \<noteq> 0 \<Longrightarrow> 0 \<le> n \<Longrightarrow> binomial_inv (NewBinomial n pn pd)"
  by (simp add: NewBinomial_def binomial_inv_def)

lemma exp_load_correct: "binomial_inv b \<Longrightarrow> exp_load b x y = Some v \<Longrightarrow> v = x ^ y"
  by (auto simp: exp_load_def binomial_inv_def split: if_splits)

lemma exp_store_inv:
  "binomial_inv b \<Longrightarrow> v = x ^ y \<Longrightarrow> binomial_inv (exp_store b x y v) \<and> same_dist b (exp_store b x y v)"
  by (auto simp: exp_store_def binomial_inv_def same_dist_def prob_of_def)

lemma Exp_correct:
  "binomial_inv b \<Longrightarrow> Exp b x y = (v, b') \<Longrightarrow> v = x ^ y \<and> binomial_inv b' \<and> same_dist b b'"
proof (induction b x y arbitrary: v b' rule: Exp.induct)
  case (1 b x y)
  show ?case
  proof (cases "y \<le> 1")
    case True
    then consider "y = 0" | "y = 1" by linarith
    then show ?thesis using "1.prems" by cases (auto simp: Exp.simps [of b x])
  next
    case big: False
    show ?thesis
    proof (cases "exp_load b x y")
      case (Some w)
      then show ?thesis
        using "1.prems" big exp_load_correct [of b x y w] by (simp add: Exp.simps [of b x y])
    next
      case none: None
      show ?thesis
      proof (cases "y = 2")
        case True
        then show ?thesis
          using "1.prems" none exp_store_inv [of b "x * x" x 2]
          by (auto simp: Exp.simps [of b x 2] power2_eq_square Let_def)
      next
        case False
        obtain l b1 where e1: "Exp b x (isqrt y) = (l, b1)" by fastforce
        obtain r b2 where e2: "Exp b1 x (y - isqrt y) = (r, b2)" by fastforce
        have res: "v = l * r" "b' = exp_store b2 x y (l * r)"
          using "1.prems"(2) big False none e1 e2 by (auto simp: Exp.simps [of b x y] Let_def)
        have y: "y \<noteq> 0" "y \<noteq> 1" using big by auto
        have i1: "l = x ^ isqrt y \<and> binomial_inv b1 \<and> same_dist b b1"
          by (rule "1.IH"(1) [OF y none False refl refl "1.prems"(1) e1])
        have i2: "r = x ^ (y - isqrt y) \<and> binomial_inv b2 \<and> same_dist b1 b2"
          using i1 by (intro "1.IH"(2) [OF y none False refl refl e1 [symmetric] refl _ e2]) auto
        have "isqrt y < y" using isqrt_range [of y] big by simp
        then have v: "v = x ^ y" using i1 i2 res by (simp flip: power_add)
        then show ?thesis
          using exp_store_inv [of b2 v x y] i1 i2 res by (auto intro: same_dist_trans)
      qed
    qed
  qed
qed

lemma resDenom_correct:
  assumes "binomial_inv b"
  shows "\<exists>b'. resDenom b = Ok (bpd b ^ nat (bN b), b') \<and> binomial_inv b' \<and> same_dist b b'"
proof (cases "resDenomCache b")
  case None
  obtain v b' where e: "Exp b (bpd b) (nat (bN b)) = (v, b')" by fastforce
  note c = Exp_correct [OF assms e]
  from c have "binomial_inv (b'\<lparr>resDenomCache := Some v\<rparr>) \<and> same_dist b (b'\<lparr>resDenomCache := Some v\<rparr>)"
    by (auto simp: binomial_inv_def same_dist_def prob_of_def)
  moreover have "0 \<le> bN b" using assms by (simp add: binomial_inv_def)
  ultimately show ?thesis using c e None by (simp add: resDenom_def)
next
  case (Some v)
  with assms show ?thesis by (auto simp: resDenom_def binomial_inv_def)
qed

lemma pmf_fraction:
  assumes "pd \<noteq> 0" "k \<le> n"
  shows "of_int (pn ^ k * (pd - pn) ^ (n - k)) / of_int (pd ^ n)
    = (of_int pn / of_int pd :: rat) ^ k * (1 - of_int pn / of_int pd) ^ (n - k)"
proof -
  have "(1 - of_int pn / of_int pd :: rat) = of_int (pd - pn) / of_int pd"
    using assms(1) by (simp add: field_simps)
  then show ?thesis
    using assms by (simp add: power_divide flip: power_add)
qed

lemma Prob_correct:
  assumes inv: "binomial_inv b" and k: "0 \<le> k" "k \<le> bN b"
  shows "\<exists>b'. Prob b k = Ok (binom_pmf (nat (bN b)) (prob_of b) (nat k), b')
    \<and> binomial_inv b' \<and> same_dist b b'"
proof (cases "probCache b k")
  case (Some v)
  with inv show ?thesis by (auto simp: Prob_def binomial_inv_def)
next
  case None
  obtain l b1 where e1: "Exp b (bpn b) (nat k) = (l, b1)" by fastforce
  note c1 = Exp_correct [OF inv e1]
  obtain r b2 where e2: "Exp b1 (bpd b1 - bpn b1) (nat (bN b - k)) = (r, b2)" by fastforce
  note c2 = Exp_correct [OF _ e2]
  from c1 c2 have i2: "binomial_inv b2" and s2: "same_dist b b2"
    by (auto intro: same_dist_trans)
  obtain b3 where d: "resDenom b2 = Ok (bpd b2 ^ nat (bN b2), b3)" "binomial_inv b3" "same_dist b2 b3"
    using resDenom_correct [OF i2] by blast
  have s3: "same_dist b b3" using s2 d(3) by (rule same_dist_trans)
  have pd: "bpd b \<noteq> 0" using inv by (simp add: binomial_inv_def)
  let ?v = "binom_pmf (nat (bN b)) (prob_of b) (nat k)"
  have "l * r = bpn b ^ nat k * (bpd b - bpn b) ^ (nat (bN b) - nat k)"
    using c1 c2 k by (simp add: same_dist_def nat_diff_distrib)
  then have "of_int (l * r) / of_int (bpd b ^ nat (bN b))
      = (prob_of b) ^ nat k * (1 - prob_of b) ^ (nat (bN b) - nat k)"
    using pmf_fraction [OF pd, of "nat k" "nat (bN b)" "bpn b"] k
    by (simp only: prob_of_def nat_le_eq_zle)
  then have "of_nat (nat (bN b) choose nat k) * (of_int (l * r) / of_int (bpd b ^ nat (bN b))) = ?v"
    by (simp only: binom_pmf_def mult.assoc)
  then have run: "Prob b k = Ok (?v, b3\<lparr>probCache := (probCache b3)(k \<mapsto> ?v)\<rparr>)"
    using None k e1 e2 d s2 pd by (simp add: Prob_def same_dist_def not_less Let_def)
  have "binomial_inv (b3\<lparr>probCache := (probCache b3)(k \<mapsto> ?v)\<rparr>)"
    using d(2) s3 k by (auto simp: binomial_inv_def same_dist_def prob_of_def)
  with run s3 show ?thesis by (auto simp: same_dist_def)
qed

lemma sum_probs_correct:
  assumes "binomial_inv b" and "\<forall>i \<in> set is. 0 \<le> i \<and> i \<le> bN b"
  shows "\<exists>b'. sum_probs b res is =
      Ok (res + sum_list (map (\<lambda>i. binom_pmf (nat (bN b)) (prob_of b) (nat i)) is), b')
    \<and> binomial_inv b' \<and> same_dist b b'"
  using assms
proof (induction "is" arbitrary: b res)
  case (Cons i "is")
  let ?f = "\<lambda>b i. binom_pmf (nat (bN b)) (prob_of b) (nat i)"
  obtain b1 where p: "Prob b i = Ok (?f b i, b1)" "binomial_inv b1" "same_dist b b1"
    using Prob_correct [of b i] Cons.prems by auto
  have f: "?f b1 = ?f b" using p(3) by (simp add: same_dist_def prob_of_def)
  have "\<forall>i \<in> set is. 0 \<le> i \<and> i \<le> bN b1"
    using Cons.prems p(3) by (simp add: same_dist_def)
  from Cons.IH [OF p(2) this, of "res + ?f b i"] p f show ?case
    by (fastforce simp: add.assoc intro: same_dist_trans)
qed simp

lemma cdf_search_correct:
  assumes "binomial_inv b" "cdf_search b j = (res, begin)" "j \<le> nat (bN b)"
  shows "begin \<le> j \<and> res = (\<Sum>k < begin. binom_pmf (nat (bN b)) (prob_of b) k)"
  using assms(2,3)
proof (induction j)
  case (Suc k)
  show ?case
  proof (cases "cdfCache b (int k)")
    case None
    with Suc show ?thesis by simp
  next
    case (Some c)
    then have "c = binom_cdf (nat (bN b)) (prob_of b) (int k)"
      using assms(1) by (simp add: binomial_inv_def)
    with Some Suc.prems show ?thesis by (auto simp: binom_cdf_upt simp del: sum.lessThan_Suc)
  qed
qed simp

lemma sum_upt_split:
  fixes f :: "nat \<Rightarrow> rat"
  assumes "m \<le> n"
  shows "(\<Sum>k<m. f k) + sum_list (map f [m..<n]) = (\<Sum>k<n. f k)"
proof -
  have "sum_list (map f [m..<n]) = sum f {m..<n}"
    by (simp add: sum_set_upt_conv_sum_list_nat [symmetric] interv_sum_list_conv_sum_set_nat)
  moreover have "{..<n} = {..<m} \<union> {m..<n}" using assms by auto
  ultimately show ?thesis by (simp add: sum.union_disjoint ivl_disj_int)
qed

lemma sum_list_map_perm:
  fixes f :: "'a \<Rightarrow> rat"
  assumes "mset xs = mset ys"
  shows "sum_list (map f xs) = sum_list (map f ys)"
proof -
  have "sum_mset (mset (map f xs)) = sum_mset (mset (map f ys))"
    using assms by (simp only: mset_map)
  then show ?thesis by (simp only: sum_mset_sum_list)
qed

lemma CDF_sched_correct:
  assumes inv: "binomial_inv b" and perm: "\<And>is. mset (sched is) = mset is"
  shows "\<exists>b'. CDF_sched sched b j = Ok (binom_cdf (nat (bN b)) (prob_of b) j, b')
    \<and> binomial_inv b' \<and> same_dist b b'"
proof -
  have N: "0 \<le> bN b" using inv by (simp add: binomial_inv_def)
  consider "j < 0" | "bN b \<le> j" | (mid) "0 \<le> j" "j < bN b" by linarith
  then show ?thesis
  proof cases
    case mid
    let ?f = "binom_pmf (nat (bN b)) (prob_of b)"
    show ?thesis
    proof (cases "cdfCache b j")
      case (Some v)
      with mid inv show ?thesis by (auto simp: CDF_sched_def binomial_inv_def)
    next
      case None
      obtain res "begin" where s: "cdf_search b (nat j) = (res, begin)" by fastforce
      have "nat j \<le> nat (bN b)" using mid by simp
      note c = cdf_search_correct [OF inv s this]
      then have split: "res + sum_list (map ?f [begin..<Suc (nat j)]) = (\<Sum>k<Suc (nat j). ?f k)"
        by (simp only: sum_upt_split le_SucI)
      let ?is = "map int [begin..<Suc (nat j)]"
      have set: "set (sched ?is) = set ?is" by (rule mset_eq_setD [OF perm])
      have rng: "\<forall>i \<in> set (sched ?is). 0 \<le> i \<and> i \<le> bN b" unfolding set using mid by auto
      obtain b' where p: "sum_probs b res (sched ?is) =
          Ok (res + sum_list (map (\<lambda>i. ?f (nat i)) (sched ?is)), b')" "binomial_inv b'" "same_dist b b'"
        using sum_probs_correct [OF inv rng, of res] by (elim exE conjE)
      have "sum_list (map (\<lambda>i. ?f (nat i)) (sched ?is)) = sum_list (map (\<lambda>i. ?f (nat i)) ?is)"
        by (rule sum_list_map_perm [OF perm])
      also have "\<dots> = sum_list (map ?f [begin..<Suc (nat j)])"
        by (simp add: comp_def del: upt_Suc)
      finally have "res + sum_list (map (\<lambda>i. ?f (nat i)) (sched ?is)) = (\<Sum>k<Suc (nat j). ?f k)"
        by (simp only: split)
      also have "\<dots> = binom_cdf (nat (bN b)) (prob_of b) j"
        using mid binom_cdf_upt [of "nat j" "nat (bN b)" "prob_of b"] by simp
      finally have run: "CDF_sched sched b j = Ok (binom_cdf (nat (bN b)) (prob_of b) j,
          b'\<lparr>cdfCache := (cdfCache b')(j \<mapsto> binom_cdf (nat (bN b)) (prob_of b) j)\<rparr>)"
        using mid None s p(1) by (simp add: CDF_sched_def del: upt_Suc)
      have "binomial_inv (b'\<lparr>cdfCache := (cdfCache b')(j \<mapsto> binom_cdf (nat (bN b)) (prob_of b) j)\<rparr>)"
        using p(2,3) by (auto simp: binomial_inv_def same_dist_def prob_of_def)
      with run p(3) show ?thesis by (auto simp: same_dist_def)
    qed
  qed (use inv N in \<open>simp_all add: CDF_sched_def binom_cdf_neg binom_cdf_top\<close>)
qed

text \<open>
  C15: for every permutation in which the goroutines of \<open>CDF\<close> may finish, and whatever right
  values the caches hold, \<open>CDF\<close> returns the cumulative binomial probability
  \<open>sum (k = 0..j) of C(N,k) p^k (1-p)^(N-k)\<close> with \<open>p = pn/pd\<close> (0 below 0, and 1 from \<open>N\<close>
  on), and leaves the caches right.
\<close>

theorem CDF_correct:
  assumes "binomial_inv b" and "\<And>is. mset (sched is) = mset is"
  shows "\<exists>b'. CDF_sched sched b j = Ok (binom_cdf (nat (bN b)) (prob_of b) j, b')
    \<and> binomial_inv b' \<and> same_dist b b'"
  using assms by (rule CDF_sched_correct)

theorem CDF_correct_witness:
  "\<exists>b'. CDF_sched rev (NewBinomial 5 1 2) 2 = Ok (16 / 32, b')"
proof -
  have "binomial_inv (NewBinomial 5 1 2)" by (rule NewBinomial_inv) simp_all
  then obtain b' where run: "CDF_sched rev (NewBinomial 5 1 2) 2 =
      Ok (binom_cdf (nat (bN (NewBinomial 5 1 2))) (prob_of (NewBinomial 5 1 2)) 2, b')"
    using CDF_correct [of "NewBinomial 5 1 2" rev 2] by auto
  have "binom_cdf 5 (1 / 2) (int 2) = 16 / 32"
    by (subst binom_cdf_upt) (simp_all add: binom_pmf_def eval_nat_numeral binomial_Suc_Suc)
  then have "binom_cdf (nat (bN (NewBinomial 5 1 2))) (prob_of (NewBinomial 5 1 2)) 2 = 16 / 32"
    by (simp add: NewBinomial_def prob_of_def)
  with run show ?thesis by simp
qed

text \<open>
  The exponentiation by splitting at the square root, with its two caches, computes the power
  (equivalence with \<open>x ^ y\<close>), keeps the caches right and leaves the distribution unchanged.
\<close>

theorem Exp_power:
  assumes "binomial_inv b"
  shows "fst (Exp b x y) = x ^ y \<and> binomial_inv (snd (Exp b x y)) \<and> same_dist b (snd (Exp b x y))"
  using Exp_correct [OF assms, of x y "fst (Exp b x y)" "snd (Exp b x y)"] by simp

theorem Exp_power_witness: "fst (Exp (NewBinomial 5 4 5) 4 13) = 67108864"
proof -
  have "binomial_inv (NewBinomial 5 4 5)" by (rule NewBinomial_inv) simp_all
  from Exp_power [OF this, of 4 13] show ?thesis by simp
qed

section \<open>ApproxBinomial\<close>

text \<open>
  The approximation by the Poisson distribution. \<open>exp_float\<close> gives the rational value of the
  float \<open>math.Pow(math.E, -expected)\<close>.
\<close>

record ApproxBinomial =
  ab_expected :: int
  ab_N :: u64
  ab_probCache :: "int \<rightharpoonup> rat"

definition NewApproxBinomial :: "int \<Rightarrow> u64 \<Rightarrow> ApproxBinomial" where
  "NewApproxBinomial expected n = \<lparr>ab_expected = expected, ab_N = n, ab_probCache = Map.empty\<rparr>"

definition ab_Prob :: "(int \<Rightarrow> rat) \<Rightarrow> ApproxBinomial \<Rightarrow> int \<Rightarrow> rat \<times> ApproxBinomial" where
  "ab_Prob exp_float ab k =
     (case ab_probCache ab k of
        Some v \<Rightarrow> (v, ab)
      | None \<Rightarrow>
          let numer = ab_expected ab ^ nat k;
              denom = fact (nat k);
              e = exp_float (ab_expected ab);
              lval = of_int numer / denom;
              prob = lval * e
          in (prob, ab\<lparr>ab_probCache := (ab_probCache ab)(k \<mapsto> prob)\<rparr>))"

fun ab_sum :: "(int \<Rightarrow> rat) \<Rightarrow> ApproxBinomial \<Rightarrow> rat \<Rightarrow> int list \<Rightarrow> rat \<times> ApproxBinomial" where
  "ab_sum exp_float ab res [] = (res, ab)"
| "ab_sum exp_float ab res (j # js) =
     (let (prob, ab') = ab_Prob exp_float ab j in ab_sum exp_float ab' (res + prob) js)"

definition ab_CDF :: "(int \<Rightarrow> rat) \<Rightarrow> ApproxBinomial \<Rightarrow> int \<Rightarrow> rat \<times> ApproxBinomial" where
  "ab_CDF exp_float ab k =
     (if k < 0 then (0, ab)
      else if nat k \<ge> unat (ab_N ab) then (1, ab)
      else ab_sum exp_float ab 0 (map int [0..<Suc (nat k)]))"

definition poisson :: "(int \<Rightarrow> rat) \<Rightarrow> int \<Rightarrow> nat \<Rightarrow> rat" where
  "poisson exp_float lam k = of_int lam ^ k / fact k * exp_float lam"

definition ab_inv :: "(int \<Rightarrow> rat) \<Rightarrow> ApproxBinomial \<Rightarrow> bool" where
  "ab_inv exp_float ab \<longleftrightarrow>
     (\<forall>k v. ab_probCache ab k = Some v \<longrightarrow> v = poisson exp_float (ab_expected ab) (nat k))"

lemma ab_Prob_correct:
  "ab_inv e ab \<Longrightarrow> ab_Prob e ab k = (v, ab') \<Longrightarrow>
     v = poisson e (ab_expected ab) (nat k) \<and> ab_inv e ab' \<and> ab_expected ab' = ab_expected ab"
  by (auto simp: ab_Prob_def ab_inv_def poisson_def Let_def split: option.splits if_splits)

lemma ab_sum_correct:
  "ab_inv e ab \<Longrightarrow> fst (ab_sum e ab res js) = res + sum_list (map (\<lambda>j. poisson e (ab_expected ab) (nat j)) js)"
proof (induction js arbitrary: ab res)
  case (Cons j js)
  obtain v ab' where p: "ab_Prob e ab j = (v, ab')" by fastforce
  from ab_Prob_correct [OF Cons.prems p] Cons.IH [of ab' "res + v"] p show ?case by simp
qed simp

text \<open>
  With right caches, \<open>ApproxBinomial.CDF\<close> below \<open>N\<close> is the partial sum of the Poisson
  weights \<open>expected^j / j! * e\<close>; it is cut to 1 from \<open>N\<close> on and to 0 below 0.
\<close>

theorem ab_CDF_correct:
  assumes "ab_inv e ab"
  shows "fst (ab_CDF e ab k) =
    (if k < 0 then 0 else if int (unat (ab_N ab)) \<le> k then 1
     else (\<Sum>j < Suc (nat k). poisson e (ab_expected ab) j))"
proof -
  let ?f = "\<lambda>j. poisson e (ab_expected ab) j"
  have "sum_list (map ?f [0..<n]) = (\<Sum>j<n. ?f j)" for n
    using sum_upt_split [of 0 n ?f] by simp
  with ab_sum_correct [OF assms, of 0 "map int [0..<Suc (nat k)]"] show ?thesis
    by (auto simp: ab_CDF_def comp_def nat_le_iff le_nat_iff simp del: upt_Suc sum.lessThan_Suc)
qed

theorem ab_CDF_correct_witness:
  "fst (ab_CDF (\<lambda>_. 1 / 7) (NewApproxBinomial 2 10) 2) = 5 / 7"
proof -
  have "ab_inv (\<lambda>_. 1 / 7) (NewApproxBinomial 2 10)" by (simp add: ab_inv_def NewApproxBinomial_def)
  moreover have "{..<Suc (nat 2)} = {0, 1, 2}" by auto
  ultimately show ?thesis using ab_CDF_correct [of "\<lambda>_. 1 / 7" "NewApproxBinomial 2 10" 2]
    by (simp add: NewApproxBinomial_def poisson_def)
qed

end
