(* ===== verification/Sortition.thy ===== *)
theory Sortition
  imports Common Parameter Binomial_Dist
begin

text \<open>
  The selection arithmetic of \<open>src/algorand.go\<close>: role bytes, seeds, the priority of a proposer
  and the number of sub-users a VRF value selects. \<open>subUsers\<close> walks over the cumulative
  distribution; its result is characterised through the locale \<open>cdf_table\<close>, the contract of the
  Go interface \<open>Binomial\<close> that the walk relies on.
\<close>

section \<open>Roles, seeds and the empty block\<close>

definition role :: "bytes \<Rightarrow> u64 \<Rightarrow> int \<Rightarrow> bytes" where
  "role iden rnd step = iden @ Uint2Bytes rnd @ Uint2Bytes (word_of_int step)"

definition constructSeed :: "bytes \<Rightarrow> bytes \<Rightarrow> bytes" where
  "constructSeed seed rl = seed @ rl"

definition emptyHash :: "u64 \<Rightarrow> hash \<Rightarrow> hash" where
  "emptyHash rnd prev = Sha256 (Uint2Bytes rnd @ Hash_Bytes prev)"

section \<open>Priority\<close>

text \<open>The loop of \<open>maxPriority\<close>, with the nil slice as the empty list.\<close>

fun maxPriority_loop :: "bytes \<Rightarrow> nat list \<Rightarrow> bytes \<Rightarrow> bytes" where
  "maxPriority_loop vrf [] maxPrior = maxPrior"
| "maxPriority_loop vrf (i # is) maxPrior =
     (let prior = Hash_Bytes (Sha256 (vrf @ Uint2Bytes (word_of_nat i)))
      in maxPriority_loop vrf is (if bytes_compare prior maxPrior > 0 then prior else maxPrior))"

definition maxPriority :: "bytes \<Rightarrow> nat \<Rightarrow> bytes" where
  "maxPriority vrf users = maxPriority_loop vrf [1..<Suc users] []"

definition sub_priority :: "bytes \<Rightarrow> nat \<Rightarrow> bytes" where
  "sub_priority vrf i = Sha256 (vrf @ Uint2Bytes (word_of_nat i))"

section \<open>Sub-users\<close>

function subUsers_loop :: "RegularBinomial \<Rightarrow> rat \<Rightarrow> nat \<Rightarrow> rat option \<Rightarrow> nat \<Rightarrow> nat outcome" where
  "subUsers_loop b h weight up j =
     (if j \<le> weight then
        obind (case up of Some u \<Rightarrow> Ok (u, b) | None \<Rightarrow> CDF b (int j)) (\<lambda>(lower, b1).
        obind (CDF b1 (int (j + 1))) (\<lambda>(upper, b2).
          if lower \<le> h \<and> h < upper then Ok j
          else subUsers_loop b2 h weight (Some upper) (j + 1)))
      else Ok j)"
  by pat_completeness auto
termination
  by (relation "measure (\<lambda>(b, h, weight, up, j). Suc weight - j)") auto

declare subUsers_loop.simps [simp del]

definition subUsers :: "params \<Rightarrow> int \<Rightarrow> u64 \<Rightarrow> bytes \<Rightarrow> nat outcome" where
  "subUsers P expectedNum weight vrf =
     (let binomial = NewBinomial (sint weight) expectedNum (sint (TotalTokenAmount P));
          h = of_nat (be_nat vrf) / of_nat (2 ^ (HashLength * 8))
      in obind (subUsers_loop binomial h (unat weight) None 0) (\<lambda>j.
           Ok (if j > unat weight then 0 else j)))"

section \<open>The contract of the distribution\<close>

text \<open>
  What the walk needs of a cumulative distribution over \<open>0..n\<close>: it does not decrease and it
  reaches 1 at \<open>n\<close>. Under it the slot of a value below 1 is the number of steps it has passed.
\<close>

locale cdf_table =
  fixes cdf :: "int \<Rightarrow> rat" and n :: nat
  assumes mono: "i \<le> j \<Longrightarrow> cdf i \<le> cdf j"
    and top: "int n \<le> j \<Longrightarrow> cdf j = 1"
begin

lemma at_most_1: "cdf j \<le> 1"
  using mono [of j "max j (int n)"] top [of "max j (int n)"] by simp

lemma steps_passed:
  assumes "cdf (int j) \<le> h" and "h < cdf (int j + 1)" and "j \<le> n"
  shows "card {i \<in> {1..n}. cdf (int i) \<le> h} = j"
proof -
  have "{i \<in> {1..n}. cdf (int i) \<le> h} = {1..j}"
  proof (intro set_eqI iffI)
    fix i assume i: "i \<in> {i \<in> {1..n}. cdf (int i) \<le> h}"
    show "i \<in> {1..j}"
    proof (rule ccontr)
      assume "i \<notin> {1..j}"
      with i have "cdf (int j + 1) \<le> cdf (int i)" by (intro mono) auto
      with i assms(2) show False by simp
    qed
  next
    fix i assume i: "i \<in> {1..j}"
    then have "cdf (int i) \<le> cdf (int j)" by (intro mono) simp
    with i assms(1,3) show "i \<in> {i \<in> {1..n}. cdf (int i) \<le> h}" by simp
  qed
  then show ?thesis by simp
qed

lemma no_steps: "h < cdf 0 \<Longrightarrow> card {i \<in> {1..n}. cdf (int i) \<le> h} = 0"
proof -
  assume h: "h < cdf 0"
  have "{i \<in> {1..n}. cdf (int i) \<le> h} = {}"
  proof (rule equals0I)
    fix i assume i: "i \<in> {i \<in> {1..n}. cdf (int i) \<le> h}"
    have "cdf 0 \<le> cdf (int i)" by (rule mono) simp
    with i h show False by simp
  qed
  then show ?thesis by simp
qed

text \<open>A walk that finds no slot was below the first step or at 1 and above.\<close>

lemma missed:
  assumes "\<And>j. j \<le> n \<Longrightarrow> \<not> (cdf (int j) \<le> h \<and> h < cdf (int j + 1))"
  shows "h < cdf 0 \<or> 1 \<le> h"
proof (rule ccontr)
  assume "\<not> ?thesis"
  then have h: "cdf 0 \<le> h" "h < 1" by auto
  have "j \<le> n \<Longrightarrow> cdf (int j) \<le> h" for j
  proof (induction j)
    case (Suc j)
    then show ?case using assms [of j] by (simp add: add.commute not_less)
  qed (use h in simp)
  then have "cdf (int n) \<le> h" by simp
  with top [of "int n"] h show False by simp
qed

text \<open>The walk over an upper-bounded table, from the slot \<open>j\<close> on.\<close>

lemma slot_unique:
  assumes "cdf (int i) \<le> h" "h < cdf (int i + 1)" "i \<le> n"
    and "cdf (int j) \<le> h" "h < cdf (int j + 1)" "j \<le> n"
  shows "i = j"
  using steps_passed [OF assms(1-3)] steps_passed [OF assms(4-6)] by simp

end

text \<open>
  The distribution a sortition draws from: binomial with \<open>weight\<close> tokens and probability
  \<open>expectedNum / TotalTokenAmount\<close>; a point mass at 0 when that is no probability.
\<close>

definition token_prob :: "params \<Rightarrow> int \<Rightarrow> rat" where
  "token_prob P e = of_int e / of_int (sint (TotalTokenAmount P))"

definition token_cdf :: "params \<Rightarrow> int \<Rightarrow> u64 \<Rightarrow> int \<Rightarrow> rat" where
  "token_cdf P e w j =
     (if 0 \<le> token_prob P e \<and> token_prob P e \<le> 1 then binom_cdf (unat w) (token_prob P e) j
      else if j < 0 then 0 else 1)"

interpretation token: cdf_table "token_cdf P e w" "unat w" for P e w
proof unfold_locales
  fix j assume "int (unat w) \<le> j"
  then have "0 \<le> j" by (rule order_trans [rotated]) simp
  with \<open>int (unat w) \<le> j\<close> show "token_cdf P e w j = 1"
    by (simp add: token_cdf_def binom_cdf_top)
qed (auto simp: token_cdf_def binom_cdf_mono)

section \<open>The walk computes the slot\<close>

lemma CDF_value:
  assumes "binomial_inv b"
  obtains b' where "CDF b j = Ok (binom_cdf (nat (bN b)) (prob_of b) j, b')"
    "binomial_inv b'" "same_dist b b'"
  using CDF_sched_correct [OF assms, of "\<lambda>is. is" j] unfolding CDF_def by auto

lemma subUsers_loop_correct:
  fixes cdf :: "int \<Rightarrow> rat"
  defines "slot j \<equiv> \<lambda>h. cdf (int j) \<le> h \<and> h < cdf (int j + 1)"
  assumes "binomial_inv b" and "\<And>j. binom_cdf (nat (bN b)) (prob_of b) j = cdf j"
    and "up = None \<or> up = Some (cdf (int j))" and "j \<le> Suc weight"
  shows "\<exists>k. subUsers_loop b h weight up j = Ok k \<and> j \<le> k \<and> k \<le> Suc weight
    \<and> (k \<le> weight \<longrightarrow> slot k h) \<and> (\<forall>i. j \<le> i \<and> i < k \<longrightarrow> \<not> slot i h)"
  using assms(2-)
proof (induction b h weight up j rule: subUsers_loop.induct)
  case (1 b h weight up j)
  show ?case
  proof (cases "j \<le> weight")
    case False
    with "1.prems" show ?thesis by (auto simp: subUsers_loop.simps [of b h weight up j])
  next
    case le: True
    obtain b1 where lo: "(case up of Some u \<Rightarrow> Ok (u, b) | None \<Rightarrow> CDF b (int j)) = Ok (cdf (int j), b1)"
      and b1: "binomial_inv b1" "same_dist b b1"
    proof (cases up)
      case None
      obtain b' where "CDF b (int j) = Ok (binom_cdf (nat (bN b)) (prob_of b) (int j), b')"
        "binomial_inv b'" "same_dist b b'"
        using "1.prems"(1) by (rule CDF_value)
      with None "1.prems"(2) that show thesis by simp
    qed (use "1.prems" that in auto)
    have d1: "binom_cdf (nat (bN b1)) (prob_of b1) k = cdf k" for k
      using b1(2) "1.prems"(2) by (simp add: same_dist_def prob_of_def)
    obtain b2 where up: "CDF b1 (int (j + 1)) = Ok (cdf (int j + 1), b2)"
      and b2: "binomial_inv b2" "same_dist b1 b2"
      using b1(1) by (rule CDF_value [of b1 "int (j + 1)"]) (use d1 in \<open>auto simp: add.commute\<close>)
    have d2: "binom_cdf (nat (bN b2)) (prob_of b2) k = cdf k" for k
      using b2(2) d1 by (simp add: same_dist_def prob_of_def)
    show ?thesis
    proof (cases "slot j h")
      case True
      with le lo up have "subUsers_loop b h weight up j = Ok j"
        by (simp add: subUsers_loop.simps [of b h weight up j] slot_def)
      with True le show ?thesis by auto
    next
      case False
      with le lo up have step: "subUsers_loop b h weight up j =
          subUsers_loop b2 h weight (Some (cdf (int j + 1))) (j + 1)"
        by (auto simp: subUsers_loop.simps [of b h weight up j] slot_def)
      obtain k where "subUsers_loop b2 h weight (Some (cdf (int j + 1))) (j + 1) = Ok k"
        "j + 1 \<le> k" "k \<le> Suc weight" "k \<le> weight \<longrightarrow> slot k h"
        "\<forall>i. j + 1 \<le> i \<and> i < k \<longrightarrow> \<not> slot i h"
        using "1.IH" [OF le lo refl up refl _ b2(1) d2] False le
        by (auto simp: slot_def add.commute)
      moreover have "i = j \<or> j + 1 \<le> i" if "j \<le> i" for i using that by linarith
      ultimately show ?thesis using False step by (metis Suc_leD Suc_eq_plus1)
    qed
  qed
qed

text \<open>The sortition hash as a fraction of the hash range.\<close>

definition vrf_fraction :: "bytes \<Rightarrow> rat" where
  "vrf_fraction vrf = of_nat (be_nat vrf) / of_nat (2 ^ (HashLength * 8))"

lemma vrf_fraction_bounds: "length vrf = HashLength \<Longrightarrow> 0 \<le> vrf_fraction vrf \<and> vrf_fraction vrf < 1"
proof -
  assume "length vrf = HashLength"
  with be_nat_bound [of vrf] have "be_nat vrf < 2 ^ (HashLength * 8)" by (simp add: HashLength_def)
  then have "(of_nat (be_nat vrf) :: rat) < of_nat (2 ^ (HashLength * 8))" by (simp only: of_nat_less_iff)
  then show ?thesis by (simp add: vrf_fraction_def)
qed

text \<open>The numbers for which the token amounts give a probability and no signed overflow.\<close>

definition token_amounts_ok :: "params \<Rightarrow> int \<Rightarrow> u64 \<Rightarrow> bool" where
  "token_amounts_ok P e w \<longleftrightarrow>
     unat w < 2 ^ 63 \<and> 0 < sint (TotalTokenAmount P) \<and> 0 \<le> e \<and> e \<le> sint (TotalTokenAmount P)"

lemma sint_small: "unat (w :: u64) < 2 ^ 63 \<Longrightarrow> sint w = int (unat w)"
proof -
  assume "unat w < 2 ^ 63"
  then have "int (unat w) < int (2 ^ 63)" by (simp only: of_nat_less_iff)
  then have w: "uint w < 2 ^ 63" by simp
  have "signed_take_bit 63 (uint w) = uint w"
    by (rule signed_take_bit_int_eq_self) (use w order_trans [of "- (2 ^ 63)" 0 "uint w"] in simp_all)
  then show ?thesis by (simp add: sint_uint)
qed

lemma token_prob_range: "token_amounts_ok P e w \<Longrightarrow> 0 \<le> token_prob P e \<and> token_prob P e \<le> 1"
proof -
  have "0 < T \<Longrightarrow> 0 \<le> e \<Longrightarrow> e \<le> T \<Longrightarrow> 0 \<le> (of_int e / of_int T :: rat) \<and> of_int e / of_int T \<le> (1 :: rat)"
    for T by simp
  then show "token_amounts_ok P e w \<Longrightarrow> ?thesis"
    unfolding token_prob_def token_amounts_ok_def by blast
qed

lemma subUsers_slots:
  assumes "token_amounts_ok P e w"
  shows "subUsers P e w vrf =
    Ok (if vrf_fraction vrf < 1 then card {i \<in> {1..unat w}. token_cdf P e w (int i) \<le> vrf_fraction vrf} else 0)"
proof -
  let ?b = "NewBinomial (sint w) e (sint (TotalTokenAmount P))" and ?h = "vrf_fraction vrf"
  let ?cdf = "token_cdf P e w"
  have w: "sint w = int (unat w)" using assms by (intro sint_small) (simp add: token_amounts_ok_def)
  have inv: "binomial_inv ?b"
    using assms by (intro NewBinomial_inv) (simp_all add: token_amounts_ok_def w)
  have "token_prob P e = prob_of ?b" by (simp add: token_prob_def prob_of_def NewBinomial_def)
  then have cdf: "binom_cdf (nat (bN ?b)) (prob_of ?b) j = ?cdf j" for j
    using token_prob_range [OF assms] by (simp add: token_cdf_def NewBinomial_def w)
  obtain k where k: "subUsers_loop ?b ?h (unat w) None 0 = Ok k"
    "k \<le> unat w \<longrightarrow> ?cdf (int k) \<le> ?h \<and> ?h < ?cdf (int k + 1)"
    "\<forall>i. i < k \<longrightarrow> \<not> (?cdf (int i) \<le> ?h \<and> ?h < ?cdf (int i + 1))"
    using subUsers_loop_correct [OF inv, of ?cdf None 0 "unat w" ?h] cdf by auto
  have run: "subUsers P e w vrf = Ok (if k > unat w then 0 else k)"
    using k(1) by (simp add: subUsers_def vrf_fraction_def)
  show ?thesis
  proof (cases "k \<le> unat w")
    case True
    with k(2) token.at_most_1 [of P e w "int k + 1"] have "?h < 1" by linarith
    with True k(2) run show ?thesis using token.steps_passed [of P e w k ?h] by simp
  next
    case False
    then have "?h < ?cdf 0 \<or> 1 \<le> ?h" using k(3) by (intro token.missed) simp
    with False run show ?thesis using token.no_steps [of ?h P e w] by auto
  qed
qed

lemma subUsers_at_most:
  assumes "token_amounts_ok P e w" and "subUsers P e w vrf = Ok j"
  shows "j \<le> unat w"
proof -
  have "card {i \<in> {1..unat w}. token_cdf P e w (int i) \<le> vrf_fraction vrf} \<le> card {1..unat w}"
    by (rule card_mono) auto
  with assms show ?thesis by (simp add: subUsers_slots split: if_splits)
qed

text \<open>
  C3: cryptographic sortition is the inverse of the binomial distribution. With token amounts that
  give a probability, \<open>subUsers\<close> on a 32-byte VRF value returns (the loop ends without a panic) the
  number of sub-users \<open>i\<close> between 1 and the weight whose cumulative probability
  \<open>B(i; weight, expected/total)\<close> the hash fraction has reached; in particular never more than the
  weight.
\<close>

theorem subUsers_correct:
  assumes "token_amounts_ok P e w" and "length vrf = HashLength"
  shows "subUsers P e w vrf = Ok (card {i \<in> {1..unat w}. token_cdf P e w (int i) \<le> vrf_fraction vrf})
    \<and> card {i \<in> {1..unat w}. token_cdf P e w (int i) \<le> vrf_fraction vrf} \<le> unat w"
proof -
  have "card {i \<in> {1..unat w}. token_cdf P e w (int i) \<le> vrf_fraction vrf} \<le> card {1..unat w}"
    by (rule card_mono) auto
  with subUsers_slots [OF assms(1), of vrf] vrf_fraction_bounds [OF assms(2)] show ?thesis by simp
qed

text \<open>Two tokens, one expected: the cumulative probabilities are 1/4, 3/4 and 1.\<close>

definition two_tokens :: params where
  "two_tokens = \<lparr>UserAmount = 1, TokenPerUser = 2, Malicious = 0, NetworkLatency = 0\<rparr>"

lemma two_tokens_ok: "token_amounts_ok two_tokens 1 2"
  by (simp add: token_amounts_ok_def two_tokens_def TotalTokenAmount_def)

lemma two_tokens_cdf: "token_cdf two_tokens 1 2 1 = 3 / 4" "token_cdf two_tokens 1 2 2 = 1"
proof -
  have p: "token_prob two_tokens 1 = 1 / 2"
    by (simp add: token_prob_def two_tokens_def TotalTokenAmount_def)
  have "binom_cdf 2 (1 / 2) (int 1) = 3 / 4"
    by (subst binom_cdf_upt) (simp_all add: binom_pmf_def eval_nat_numeral)
  then show "token_cdf two_tokens 1 2 1 = 3 / 4" unfolding token_cdf_def p by simp
  show "token_cdf two_tokens 1 2 2 = 1" by (rule token.top) simp
qed

lemma be_nat_all_ones: "be_nat (replicate n 255) = 256 ^ n - 1"
  by (induction n) auto

theorem subUsers_correct_witness: "subUsers two_tokens 1 2 (replicate 32 255) = Ok 1"
proof -
  have "vrf_fraction (replicate 32 255) = of_nat (256 ^ 32 - 1) / of_nat (2 ^ 256)"
    by (simp add: vrf_fraction_def be_nat_all_ones HashLength_def)
  then have h: "3 / 4 \<le> vrf_fraction (replicate 32 255)" "\<not> 1 \<le> vrf_fraction (replicate 32 255)"
    by simp_all
  have "i = 1 \<or> i = 2" if "1 \<le> i" "i \<le> 2" for i :: nat using that by linarith
  then have "{i \<in> {1..2}. token_cdf two_tokens 1 2 (int i) \<le> vrf_fraction (replicate 32 255)} = {1}"
    using h two_tokens_cdf by force
  with subUsers_correct [OF two_tokens_ok, of "replicate 32 255"] show ?thesis
    by (simp add: HashLength_def)
qed

section \<open>The largest VRF value\<close>

text \<open>
  The value of 32 octets 255 selects every slot whose remaining tail is above \<open>2^-256\<close>; one more
  point of the distribution with that weight is enough to see it.
\<close>

lemma binom_cdf_tail: "k < n \<Longrightarrow> 0 \<le> p \<Longrightarrow> p \<le> 1 \<Longrightarrow> binom_cdf n p (int k) + binom_pmf n p (Suc k) \<le> 1"
proof -
  assume k: "k < n" and p: "0 \<le> p" "p \<le> 1"
  have "binom_cdf n p (int k) + binom_pmf n p (Suc k) = sum (binom_pmf n p) {..Suc k}"
    using k by (simp add: binom_cdf_upt lessThan_Suc_atMost)
  also have "\<dots> \<le> sum (binom_pmf n p) {..n}"
    using k p by (intro sum_mono2) (auto simp: binom_pmf_nonneg)
  also have "\<dots> = binom_cdf n p (int n)" by (simp add: binom_cdf_def atMost_def)
  also have "\<dots> = 1" by (simp add: binom_cdf_top)
  finally show ?thesis .
qed

lemma top_vrf_fraction: "vrf_fraction (replicate 32 255) = 1 - 1 / 2 ^ 256"
  by (simp add: vrf_fraction_def be_nat_all_ones HashLength_def field_simps)

lemma top_vrf_at_least:
  assumes ok: "token_amounts_ok P e w" and k: "k < unat w"
    and pmf: "1 / 2 ^ 256 \<le> binom_pmf (unat w) (token_prob P e) (Suc k)"
  shows "\<exists>j \<ge> k. subUsers P e w (replicate 32 255) = Ok j"
proof -
  let ?h = "vrf_fraction (replicate 32 255)"
  note p = token_prob_range [OF ok]
  have "token_cdf P e w (int k) = binom_cdf (unat w) (token_prob P e) (int k)"
    using p by (simp add: token_cdf_def)
  with binom_cdf_tail [OF k, of "token_prob P e"] p pmf have kh: "token_cdf P e w (int k) \<le> ?h"
    unfolding top_vrf_fraction by linarith
  have "{1..k} \<subseteq> {i \<in> {1..unat w}. token_cdf P e w (int i) \<le> ?h}"
  proof
    fix i assume i: "i \<in> {1..k}"
    then have "token_cdf P e w (int i) \<le> token_cdf P e w (int k)" by (intro token.mono) simp
    with i k kh show "i \<in> {i \<in> {1..unat w}. token_cdf P e w (int i) \<le> ?h}" by simp
  qed
  then have "card {1..k} \<le> card {i \<in> {1..unat w}. token_cdf P e w (int i) \<le> ?h}"
    by (intro card_mono) auto
  moreover have "?h < 1" unfolding top_vrf_fraction by simp
  ultimately show ?thesis using subUsers_slots [OF ok, of "replicate 32 255"] by simp
qed

lemma bernoulli_rat: "0 \<le> x \<Longrightarrow> x \<le> (1 :: rat) \<Longrightarrow> 1 - of_nat n * x \<le> (1 - x) ^ n"
proof (induction n)
  case (Suc n)
  have "1 - of_nat (Suc n) * x \<le> (1 - of_nat n * x) * (1 - x)"
    using Suc.prems by (simp add: algebra_simps)
  also have "\<dots> \<le> (1 - x) ^ n * (1 - x)"
    using Suc by (intro mult_right_mono) auto
  finally show ?case by (simp add: mult.commute)
qed simp

lemma default_pmf: "1 / 2 ^ 256 \<le> binom_pmf 10000 (1 / 100000) 7"
proof -
  have "0 < 10000 choose 7" by (rule zero_less_binomial) simp
  then have "1 \<le> 10000 choose 7" by linarith
  then have "of_nat 1 \<le> (of_nat (10000 choose 7) :: rat)" by (simp only: of_nat_le_iff)
  then have c: "1 \<le> (of_nat (10000 choose 7) :: rat)" by (simp only: of_nat_1)
  have "(9 :: rat) / 10 \<le> 1 - of_nat 9993 * (1 / 100000)" by simp
  also have "\<dots> \<le> (1 - 1 / 100000) ^ 9993" by (rule bernoulli_rat) simp_all
  finally have b: "(9 :: rat) / 10 \<le> (1 - 1 / 100000) ^ 9993" .
  have n: "10000 - 7 = (9993 :: nat)" by simp
  have "(1 :: rat) / 2 ^ 256 \<le> 1 * (1 / 100000) ^ 7 * (9 / 10)" by (simp add: power_divide)
  also have "\<dots> \<le> of_nat (10000 choose 7) * (1 / 100000) ^ 7 * (1 - 1 / 100000) ^ 9993"
    by (rule mult_mono [OF mult_right_mono [OF c] b]) (use c in \<open>auto intro: mult_nonneg_nonneg\<close>)
  finally show ?thesis unfolding binom_pmf_def n .
qed

text \<open>With the parameters of the program, the largest value selects at least six committee members.\<close>

lemma default_top_vrf:
  "\<exists>j \<ge> 6. subUsers default_params expectedCommitteeMembers (TokenPerUser default_params) (replicate 32 255) = Ok j"
proof -
  have ok: "token_amounts_ok default_params 10 10000"
    by (simp add: token_amounts_ok_def default_params_def TotalTokenAmount_def)
  have p: "token_prob default_params 10 = 1 / 100000"
    by (simp add: token_prob_def default_params_def TotalTokenAmount_def)
  have w: "unat (10000 :: u64) = 10000" by simp
  have "Suc 6 = 7" by simp
  then have "1 / 2 ^ 256 \<le> binom_pmf (unat (10000 :: u64)) (token_prob default_params 10) (Suc 6)"
    unfolding p w by (simp only: default_pmf)
  from top_vrf_at_least [OF ok _ this] w show ?thesis
    by (simp add: default_params_def expectedCommitteeMembers_def)
qed

section \<open>The priority is a maximum\<close>

lemma length_sub_priority [simp]: "length (sub_priority vrf i) = HashLength"
  by (simp add: sub_priority_def Sha256_def HashLength_def)

lemma maxPriority_loop_max:
  "(\<forall>i \<in> set is. bytes_compare (sub_priority vrf i) (maxPriority_loop vrf is m) \<le> 0)
   \<and> bytes_compare m (maxPriority_loop vrf is m) \<le> 0
   \<and> (maxPriority_loop vrf is m = m \<or> (\<exists>i \<in> set is. maxPriority_loop vrf is m = sub_priority vrf i))"
proof (induction "is" arbitrary: m)
  case (Cons i "is")
  let ?p = "sub_priority vrf i"
  define m' where "m' = (if bytes_compare ?p m > 0 then ?p else m)"
  have step: "maxPriority_loop vrf (i # is) m = maxPriority_loop vrf is m'"
    by (simp add: m'_def sub_priority_def Hash_Bytes_def Let_def)
  have "bytes_compare ?p m' \<le> 0" by (simp add: m'_def)
  moreover have "bytes_compare m m' \<le> 0"
    using bytes_compare_antisym [of m ?p] by (simp add: m'_def)
  ultimately show ?case
    unfolding step using Cons.IH [of m'] by (auto simp: m'_def intro: bytes_compare_le_trans)
qed simp

text \<open>
  A proposer's priority is the greatest, in the order of \<open>bytes.Compare\<close>, of the hashes of its
  sub-users 1 to \<open>users\<close>, and it is one of them; it is the empty slice only without a sub-user.
\<close>

theorem maxPriority_max:
  "(\<forall>i. 1 \<le> i \<and> i \<le> users \<longrightarrow> bytes_compare (sub_priority vrf i) (maxPriority vrf users) \<le> 0)
   \<and> (if users = 0 then maxPriority vrf users = []
      else \<exists>i. 1 \<le> i \<and> i \<le> users \<and> maxPriority vrf users = sub_priority vrf i)"
proof -
  note m = maxPriority_loop_max [of "[1..<Suc users]" vrf "[]"]
  have "maxPriority vrf users \<noteq> []" if "users \<noteq> 0"
  proof
    assume "maxPriority vrf users = []"
    then have "bytes_compare (sub_priority vrf 1) [] \<le> 0"
      using m that by (force simp: maxPriority_def simp del: upt_Suc)
    moreover have "sub_priority vrf 1 \<noteq> []"
      using length_sub_priority [of vrf 1] by (metis HashLength_def list.size(3) zero_neq_numeral)
    ultimately show False using bytes_compare_nil [of "sub_priority vrf 1"] by linarith
  qed
  moreover have "maxPriority vrf 0 = []" by (simp add: maxPriority_def)
  ultimately show ?thesis using m by (auto simp: maxPriority_def less_Suc_eq_le simp del: upt_Suc)
qed

theorem maxPriority_max_witness:
  "bytes_compare (sub_priority [1] 2) (maxPriority [1] 3) \<le> 0 \<and> (\<exists>i. 1 \<le> i \<and> i \<le> 3 \<and> maxPriority [1] 3 = sub_priority [1] i)"
proof -
  note m = maxPriority_max [of 3 "[1]"]
  then have "1 \<le> (2 :: nat) \<and> 2 \<le> (3 :: nat) \<longrightarrow> bytes_compare (sub_priority [1] 2) (maxPriority [1] 3) \<le> 0" by blast
  with m show ?thesis by simp
qed

end
