(* ===== verification/Edwards_Types.thy ===== *)
theory Edwards_Types
  imports Prelude
begin

text \<open>
  The data types of the package \<open>edwards25519\<close> (\<open>src/vrf/edwards25519/edwards25519.go\<close>): a
  field element is an array of ten 32-bit limbs, and the representations of a curve point are
  structs of field elements. The VRF component and the field and group components share them.
\<close>

text \<open>\<open>type FieldElement [10]int32\<close>.\<close>

datatype FieldElement =
  FE (fe0: i32) (fe1: i32) (fe2: i32) (fe3: i32) (fe4: i32)
     (fe5: i32) (fe6: i32) (fe7: i32) (fe8: i32) (fe9: i32)

record ProjectiveGroupElement =
  pX :: FieldElement
  pY :: FieldElement
  pZ :: FieldElement

record ExtendedGroupElement =
  eX :: FieldElement
  eY :: FieldElement
  eZ :: FieldElement
  eT :: FieldElement

record CompletedGroupElement =
  cX :: FieldElement
  cY :: FieldElement
  cZ :: FieldElement
  cT :: FieldElement

record PreComputedGroupElement =
  pre_yPlusX :: FieldElement
  pre_yMinusX :: FieldElement
  pre_xy2d :: FieldElement

record CachedGroupElement =
  ca_yPlusX :: FieldElement
  ca_yMinusX :: FieldElement
  ca_Z :: FieldElement
  ca_T2d :: FieldElement

end
