(* ===== verification/Sha512.thy ===== *)
theory Sha512
  imports Prelude
begin

text \<open>
  SHA-512 (\<open>crypto/sha512\<close>, \<open>sha512.Sum512\<close>) after FIPS 180-4, which the VRF uses to expand
  a secret key.
\<close>

unbundle bit_operations_syntax

definition sha512_K :: "u64 list" where
  "sha512_K =
    [4794697086780616226, 8158064640168781261, 13096744586834688815, 16840607885511220156,
     4131703408338449720, 6480981068601479193, 10538285296894168987, 12329834152419229976,
     15566598209576043074, 1334009975649890238, 2608012711638119052, 6128411473006802146,
     8268148722764581231, 9286055187155687089, 11230858885718282805, 13951009754708518548,
     16472876342353939154, 17275323862435702243, 1135362057144423861, 2597628984639134821,
     3308224258029322869, 5365058923640841347, 6679025012923562964, 8573033837759648693,
     10970295158949994411, 12119686244451234320, 12683024718118986047, 13788192230050041572,
     14330467153632333762, 15395433587784984357, 489312712824947311, 1452737877330783856,
     2861767655752347644, 3322285676063803686, 5560940570517711597, 5996557281743188959,
     7280758554555802590, 8532644243296465576, 9350256976987008742, 10552545826968843579,
     11727347734174303076, 12113106623233404929, 14000437183269869457, 14369950271660146224,
     15101387698204529176, 15463397548674623760, 17586052441742319658, 1182934255886127544,
     1847814050463011016, 2177327727835720531, 2830643537854262169, 3796741975233480872,
     4115178125766777443, 5681478168544905931, 6601373596472566643, 7507060721942968483,
     8399075790359081724, 8693463985226723168, 9568029438360202098, 10144078919501101548,
     10430055236837252648, 11840083180663258601, 13761210420658862357, 14299343276471374635,
     14566680578165727644, 15097957966210449927, 16922976911328602910, 17689382322260857208,
     500013540394364858, 748580250866718886, 1242879168328830382, 1977374033974150939,
     2944078676154940804, 3659926193048069267, 4368137639120453308, 4836135668995329356,
     5532061633213252278, 6448918945643986474, 6902733635092675308, 7801388544844847127]"

definition sha512_H0 :: "u64 list" where
  "sha512_H0 =
    [7640891576956012808, 13503953896175478587, 4354685564936845355, 11912009170470909681,
     5840696475078001361, 11170449401992604703, 2270897969802886507, 6620516959819538809]"

definition sha512_pad :: "bytes \<Rightarrow> bytes" where
  "sha512_pad m =
     m @ [128] @ replicate ((239 - length m mod 128) mod 128) 0
       @ replicate 8 0 @ put_uint64 (word_of_nat (8 * length m))"

fun words64 :: "bytes \<Rightarrow> u64 list" where
  "words64 (a # b # c # d # e # f # g # h # r) =
     (push_bit 56 (ucast a) OR push_bit 48 (ucast b) OR push_bit 40 (ucast c) OR push_bit 32 (ucast d)
      OR push_bit 24 (ucast e) OR push_bit 16 (ucast f) OR push_bit 8 (ucast g) OR ucast h) # words64 r"
| "words64 _ = []"

fun schedule512 :: "nat \<Rightarrow> u64 list \<Rightarrow> u64 list" where
  "schedule512 0 w = w"
| "schedule512 (Suc n) w =
     (let x = w ! 1; y = w ! 14;
          s0 = word_rotr 1 x XOR word_rotr 8 x XOR drop_bit 7 x;
          s1 = word_rotr 19 y XOR word_rotr 61 y XOR drop_bit 6 y
      in hd w # schedule512 n (tl w @ [s1 + w ! 9 + s0 + w ! 0]))"

fun round512 :: "u64 list \<Rightarrow> u64 \<times> u64 \<Rightarrow> u64 list" where
  "round512 [a, b, c, d, e, f, g, h] (k, w) =
     (let t1 = h + (word_rotr 14 e XOR word_rotr 18 e XOR word_rotr 41 e)
               + ((e AND f) XOR (NOT e AND g)) + k + w;
          t2 = (word_rotr 28 a XOR word_rotr 34 a XOR word_rotr 39 a)
               + ((a AND b) XOR (a AND c) XOR (b AND c))
      in [t1 + t2, a, b, c, d + t1, e, f, g])"
| "round512 s _ = s"

definition compress512 :: "u64 list \<Rightarrow> u64 list \<Rightarrow> u64 list" where
  "compress512 hs blk = map2 (+) hs (foldl round512 hs (zip sha512_K (schedule512 64 blk)))"

fun blocks512 :: "nat \<Rightarrow> u64 list \<Rightarrow> u64 list \<Rightarrow> u64 list" where
  "blocks512 0 hs ws = hs"
| "blocks512 (Suc n) hs ws = blocks512 n (compress512 hs (take 16 ws)) (drop 16 ws)"

definition sum512 :: "bytes \<Rightarrow> bytes" where
  "sum512 m =
     (let ws = words64 (sha512_pad m)
      in concat (map put_uint64 (blocks512 (length ws div 16) sha512_H0 ws)))"

lemma length_round512: "length (round512 s kw) = length s"
  by (induction s kw rule: round512.induct) (auto simp: Let_def)

lemma length_foldl_round512: "length (foldl round512 s kws) = length s"
  by (induction kws arbitrary: s) (auto simp: length_round512)

lemma length_blocks512: "length (blocks512 n hs ws) = length hs"
  by (induction n arbitrary: hs ws) (auto simp: compress512_def length_foldl_round512)

lemma length_concat_put_uint64: "length (concat (map put_uint64 ws)) = 8 * length ws"
  by (induction ws) auto

lemma length_sum512 [simp, wire]: "length (sum512 m) = 64"
  by (simp add: sum512_def Let_def length_concat_put_uint64 length_blocks512 sha512_H0_def)

end
