(* ===== verification/Ecvrf.thy ===== *)
theory Ecvrf
  imports Edwards_Types Sha2 Sha512
begin

text \<open>
  The verifiable random function (\<open>src/vrf/vrf_ed25519.go\<close>). The file imports the curve package
  from another repository (\<open>github.com/r2ishiguro/vrf/go/vrf_ed25519/edwards25519\<close>), so the
  operations it calls there are a parameter, the record \<open>edwards_pkg\<close>; the data types are those of
  the package. Randomness (\<open>ed25519.GenerateKey\<close>) is the parameter \<open>nonce\<close>: the key pair
  generated, or \<open>None\<close> for an error. Arrays of 32 bytes are byte lists.
\<close>

unbundle bit_operations_syntax

section \<open>The imported curve package\<close>

record edwards_pkg =
  ed_FeOne :: FieldElement
  ed_FeAdd :: "FieldElement \<Rightarrow> FieldElement \<Rightarrow> FieldElement"
  ed_FeSub :: "FieldElement \<Rightarrow> FieldElement \<Rightarrow> FieldElement"
  ed_FeMul :: "FieldElement \<Rightarrow> FieldElement \<Rightarrow> FieldElement"
  ed_FeCMove :: "FieldElement \<Rightarrow> FieldElement \<Rightarrow> i32 \<Rightarrow> FieldElement"
  ed_FeToBytes :: "FieldElement \<Rightarrow> bytes"
  ed_Zero :: ExtendedGroupElement
  ed_ToBytes :: "ExtendedGroupElement \<Rightarrow> bytes"
  ed_ProjToBytes :: "ProjectiveGroupElement \<Rightarrow> bytes"
  ed_FromBytes :: "bytes \<Rightarrow> ExtendedGroupElement option"
  ed_ToProjective :: "ExtendedGroupElement \<Rightarrow> ProjectiveGroupElement"
  ed_Double :: "ProjectiveGroupElement \<Rightarrow> CompletedGroupElement"
  ed_ToExtended :: "CompletedGroupElement \<Rightarrow> ExtendedGroupElement"
  ed_GeScalarMultBase :: "bytes \<Rightarrow> ExtendedGroupElement"
  ed_GeDoubleScalarMultVartime :: "bytes \<Rightarrow> ExtendedGroupElement \<Rightarrow> bytes \<Rightarrow> ProjectiveGroupElement"

text \<open>The package writes encodings into arrays of 32 bytes.\<close>

definition pkg_arrays :: "edwards_pkg \<Rightarrow> bool" where
  "pkg_arrays E \<longleftrightarrow> (\<forall>P. length (ed_ToBytes E P) = 32) \<and> (\<forall>P. length (ed_ProjToBytes E P) = 32)
     \<and> (\<forall>f. length (ed_FeToBytes E f) = 32)"

datatype vrf_error = ErrMalformedInput | ErrDecodeError | ErrInternalError

section \<open>Constants\<close>

definition vrf_limit :: nat where "vrf_limit = 100"
definition vrf_N2 :: nat where "vrf_N2 = 32"
definition vrf_N :: nat where "vrf_N = vrf_N2 div 2"
definition vrf_q :: nat where
  "vrf_q = 0x1000000000000000000000000000000014def9dea2f79cd65812631a5cf5d3ed"
definition vrf_cofactor :: nat where "vrf_cofactor = 8"
definition NOSIGN :: byte where "NOSIGN = 3"

text \<open>\<open>d2\<close> is twice the curve constant.\<close>

definition vrf_d2 :: FieldElement where
  "vrf_d2 = FE (-21827239) (-5839606) (-30745221) 13898782 229458
               15978800 (-12551817) (-6495438) 29715968 9444199"

section \<open>Integers and octet strings\<close>

definition I2OSP :: "nat \<Rightarrow> nat \<Rightarrow> bytes" where
  "I2OSP b n =
     (let os = big_bytes b
      in if n > length os then replicate (n - length os) 0 @ os else take n os)"

definition OS2IP :: "bytes \<Rightarrow> nat" where
  "OS2IP os = be_nat os"

text \<open>\<open>F2IP\<close> reverses the array and reads it; \<open>IP2F\<close> writes the bytes from the low end.\<close>

definition F2IP :: "bytes \<Rightarrow> nat" where
  "F2IP f = OS2IP (map (\<lambda>i. f ! (32 - i - 1)) [0..<32])"

definition IP2F :: "nat \<Rightarrow> bytes" where
  "IP2F b = go_copy (replicate 32 0) (rev (big_bytes b))"

definition S2OS :: "bytes \<Rightarrow> bytes outcome" where
  "S2OS s = (if length s < 32 then Panic else Ok ((drop_bit 7 (s ! 31) + 2) # s))"

definition OS2ECP :: "edwards_pkg \<Rightarrow> bytes \<Rightarrow> byte \<Rightarrow> ExtendedGroupElement option" where
  "OS2ECP E os sign =
     (let buf = go_copy (replicate 32 0) os;
          buf = (if sign = 0 \<or> sign = 1
                 then buf[31 := (push_bit 7 sign) OR ((buf ! 31) AND 0x7f)] else buf)
      in ed_FromBytes E buf)"

definition ECP2OS :: "edwards_pkg \<Rightarrow> ExtendedGroupElement \<Rightarrow> bytes outcome" where
  "ECP2OS E P = S2OS (ed_ToBytes E P)"

definition ECP2OSProj :: "edwards_pkg \<Rightarrow> ProjectiveGroupElement \<Rightarrow> bytes outcome" where
  "ECP2OSProj E P = S2OS (ed_ProjToBytes E P)"

section \<open>Group operations of the file\<close>

definition G :: "edwards_pkg \<Rightarrow> ExtendedGroupElement" where
  "G E = ed_GeScalarMultBase E (ed_FeToBytes E (ed_FeOne E))"

definition ToCached :: "edwards_pkg \<Rightarrow> ExtendedGroupElement \<Rightarrow> CachedGroupElement" where
  "ToCached E p =
     \<lparr>ca_yPlusX = ed_FeAdd E (eY p) (eX p), ca_yMinusX = ed_FeSub E (eY p) (eX p),
      ca_Z = eZ p, ca_T2d = ed_FeMul E (eT p) vrf_d2\<rparr>"

definition GeAdd :: "edwards_pkg \<Rightarrow> ExtendedGroupElement \<Rightarrow> ExtendedGroupElement \<Rightarrow> ExtendedGroupElement" where
  "GeAdd E p qe =
     (let q = ToCached E qe;
          rX = ed_FeAdd E (eY p) (eX p);
          rY = ed_FeSub E (eY p) (eX p);
          rZ = ed_FeMul E rX (ca_yPlusX q);
          rY = ed_FeMul E rY (ca_yMinusX q);
          rT = ed_FeMul E (ca_T2d q) (eT p);
          rX = ed_FeMul E (eZ p) (ca_Z q);
          t0 = ed_FeAdd E rX rX;
          rX = ed_FeSub E rZ rY;
          rY = ed_FeAdd E rZ rY;
          rZ = ed_FeAdd E t0 rT;
          rT = ed_FeSub E t0 rT
      in ed_ToExtended E \<lparr>cX = rX, cY = rY, cZ = rZ, cT = rT\<rparr>)"

definition GeDouble :: "edwards_pkg \<Rightarrow> ExtendedGroupElement \<Rightarrow> ExtendedGroupElement" where
  "GeDouble E p = ed_ToExtended E (ed_Double E (ed_ToProjective E p))"

definition ExtendedGroupElementCMove ::
  "edwards_pkg \<Rightarrow> ExtendedGroupElement \<Rightarrow> ExtendedGroupElement \<Rightarrow> i32 \<Rightarrow> ExtendedGroupElement" where
  "ExtendedGroupElementCMove E t u b =
     \<lparr>eX = ed_FeCMove E (eX t) (eX u) b, eY = ed_FeCMove E (eY t) (eY u) b,
      eZ = ed_FeCMove E (eZ t) (eZ u) b, eT = ed_FeCMove E (eT t) (eT u) b\<rparr>"

text \<open>Bit \<open>i\<close> of a little-endian scalar, \<open>int32(a[i>>3]>>(i&7)) & 1\<close>.\<close>

definition scalar_bit :: "bytes \<Rightarrow> nat \<Rightarrow> i32" where
  "scalar_bit a i = ucast (drop_bit (i mod 8) (a ! (i div 8))) AND 1"

fun GeScalarMult_loop ::
  "edwards_pkg \<Rightarrow> bytes \<Rightarrow> nat list \<Rightarrow> ExtendedGroupElement \<Rightarrow> ExtendedGroupElement \<Rightarrow> ExtendedGroupElement" where
  "GeScalarMult_loop E a [] q p = q"
| "GeScalarMult_loop E a (i # is) q p =
     (let t = GeAdd E q p
      in GeScalarMult_loop E a is (ExtendedGroupElementCMove E q t (scalar_bit a i)) (GeDouble E p))"

definition GeScalarMult :: "edwards_pkg \<Rightarrow> ExtendedGroupElement \<Rightarrow> bytes \<Rightarrow> ExtendedGroupElement" where
  "GeScalarMult E h a = GeScalarMult_loop E a [0..<256] (ed_Zero E) h"

section \<open>Hashing\<close>

definition ECVRF_hash_points :: "bytes list \<Rightarrow> nat" where
  "ECVRF_hash_points ps = OS2IP (take vrf_N (sum256 (concat ps)))"

text \<open>\<open>for j := 1; j < cofactor; j *= 2\<close> doubles three times.\<close>

function clear_cofactor :: "edwards_pkg \<Rightarrow> nat \<Rightarrow> ExtendedGroupElement \<Rightarrow> ExtendedGroupElement" where
  "clear_cofactor E j P =
     (if 0 < j \<and> j < vrf_cofactor then clear_cofactor E (2 * j) (GeDouble E P) else P)"
  by pat_completeness auto
termination by (relation "measure (\<lambda>(E, j, P). vrf_cofactor - j)") auto

declare clear_cofactor.simps [simp del]

fun hash_to_curve_loop :: "edwards_pkg \<Rightarrow> bytes \<Rightarrow> bytes \<Rightarrow> nat list \<Rightarrow> ExtendedGroupElement outcome" where
  "hash_to_curve_loop E m pk [] = Panic"
| "hash_to_curve_loop E m pk (i # is) =
     (let ctr = I2OSP i 4; h = sum256 (m @ pk @ ctr)
      in case OS2ECP E h NOSIGN of
           Some P \<Rightarrow> Ok (clear_cofactor E 1 P)
         | None \<Rightarrow> hash_to_curve_loop E m pk is)"

definition ECVRF_hash_to_curve :: "edwards_pkg \<Rightarrow> bytes \<Rightarrow> bytes \<Rightarrow> ExtendedGroupElement outcome" where
  "ECVRF_hash_to_curve E m pk = hash_to_curve_loop E m pk [0..<vrf_limit]"

definition expandSecret :: "bytes \<Rightarrow> bytes outcome" where
  "expandSecret sk =
     (if length sk < 32 then Panic
      else
        let digest = sum512 (take 32 sk);
            digest = digest[0 := (digest ! 0) AND 248];
            digest = digest[31 := (digest ! 31) AND 127];
            digest = digest[31 := (digest ! 31) OR 64]
        in Ok (go_copy (replicate 32 0) digest))"

section \<open>Proving and verifying\<close>

text \<open>\<open>s = k - c*x mod q\<close>, with the Euclidean \<open>big.Int.Mod\<close>.\<close>

definition vrf_response :: "nat \<Rightarrow> nat \<Rightarrow> nat \<Rightarrow> nat" where
  "vrf_response k c x = nat ((int k - int c * int x) mod int vrf_q)"

definition ECVRF_prove ::
  "edwards_pkg \<Rightarrow> (bytes \<times> bytes) option \<Rightarrow> bytes \<Rightarrow> bytes \<Rightarrow> bytes \<Rightarrow> bytes option outcome" where
  "ECVRF_prove E nonce pk sk m =
     obind (expandSecret sk) (\<lambda>x.
     obind (ECVRF_hash_to_curve E m pk) (\<lambda>h.
     obind (ECP2OS E (GeScalarMult E h x)) (\<lambda>r.
     case nonce of
       None \<Rightarrow> Ok None
     | Some (kp, ks) \<Rightarrow>
         obind (expandSecret ks) (\<lambda>k.
         obind (ECP2OS E (G E)) (\<lambda>og.
         obind (ECP2OS E h) (\<lambda>oh.
         obind (S2OS pk) (\<lambda>opk.
         obind (S2OS kp) (\<lambda>okp.
         obind (ECP2OS E (GeScalarMult E h k)) (\<lambda>ohk.
           let c = ECVRF_hash_points [og, oh, opk, r, okp, ohk];
               s = vrf_response (F2IP k) c (F2IP x)
           in Ok (Some (r @ I2OSP c vrf_N @ I2OSP s vrf_N2))))))))))) "

definition ECVRF_proof2hash :: "bytes \<Rightarrow> bytes outcome" where
  "ECVRF_proof2hash pf = (if length pf < vrf_N2 + 1 then Panic else Ok (take vrf_N2 (drop 1 pf)))"

text \<open>
  The proof is a slice without spare capacity: Go checks the bounds of \<open>pi[i:i+N2]\<close> against the capacity,
  so that a proof of less than 33 octets with some spare ones gets through here, to an error or to the
  panic of the next index, which is checked against the length.
\<close>

definition ECVRF_decode_proof ::
  "edwards_pkg \<Rightarrow> bytes \<Rightarrow> (vrf_error + ExtendedGroupElement \<times> bytes \<times> bytes) outcome" where
  "ECVRF_decode_proof E pf =
     (if length pf < 1 then Panic
      else let sign = pf ! 0
           in if sign \<noteq> 2 \<and> sign \<noteq> 3 then Ok (Inl ErrDecodeError)
              else if length pf < 1 + vrf_N2 then Panic
              else case OS2ECP E (take vrf_N2 (drop 1 pf)) (sign - 2) of
                     None \<Rightarrow> Ok (Inl ErrDecodeError)
                   | Some r \<Rightarrow>
                       if length pf < 1 + vrf_N2 + vrf_N + vrf_N2 then Panic
                       else
                         let c = rev (take vrf_N (drop (1 + vrf_N2) pf)) @ replicate (vrf_N2 - vrf_N) 0;
                             s = rev (take vrf_N2 (drop (1 + vrf_N2 + vrf_N) pf))
                         in Ok (Inr (r, c, s)))"

definition ECVRF_verify ::
  "edwards_pkg \<Rightarrow> bytes \<Rightarrow> bytes \<Rightarrow> bytes \<Rightarrow> (vrf_error + bool) outcome" where
  "ECVRF_verify E pk pf m =
     obind (ECVRF_decode_proof E pf) (\<lambda>d.
     case d of
       Inl e \<Rightarrow> Ok (Inl e)
     | Inr (r, c, s) \<Rightarrow>
         if length pk < 32 then Panic
         else
           case OS2ECP E pk (drop_bit 7 (pk ! 31)) of
             None \<Rightarrow> Ok (Inl ErrMalformedInput)
           | Some P \<Rightarrow>
               let u = ed_GeDoubleScalarMultVartime E c P s
               in obind (ECVRF_hash_to_curve E m pk) (\<lambda>h.
                  let v = GeAdd E (GeScalarMult E r c) (GeScalarMult E h s)
                  in obind (ECP2OS E (G E)) (\<lambda>og.
                     obind (ECP2OS E h) (\<lambda>oh.
                     obind (S2OS pk) (\<lambda>opk.
                     obind (ECP2OS E r) (\<lambda>ogm.
                     obind (ECP2OSProj E u) (\<lambda>ou.
                     obind (ECP2OS E v) (\<lambda>ov.
                       Ok (Inr (ECVRF_hash_points [og, oh, opk, ogm, ou, ov] = F2IP c))))))))))"

section \<open>Round trips of the encodings\<close>

lemma I2OSP_nat_be: "v < 256 ^ n \<Longrightarrow> I2OSP v n = nat_be n v"
proof -
  assume v: "v < 256 ^ n"
  show ?thesis
  proof (cases "n > length (big_bytes v)")
    case True
    then show ?thesis by (simp add: I2OSP_def big_bytes_pad [OF v])
  next
    case False
    with length_big_bytes_le [OF v] have "length (big_bytes v) = n" by simp
    with big_bytes_pad [OF v] show ?thesis by (simp add: I2OSP_def)
  qed
qed

lemma OS2IP_I2OSP: "v < 256 ^ n \<Longrightarrow> OS2IP (I2OSP v n) = v"
  by (simp add: I2OSP_nat_be OS2IP_def be_nat_nat_be)

lemma length_I2OSP [wire]: "v < 256 ^ n \<Longrightarrow> length (I2OSP v n) = n"
  by (simp add: I2OSP_nat_be)

lemma F2IP_rev: "length f = 32 \<Longrightarrow> F2IP f = be_nat (rev f)"
proof -
  assume f: "length f = 32"
  have "map (\<lambda>i. f ! (32 - i - 1)) [0..<32] = rev f"
    using f by (intro nth_equalityI) (auto simp: rev_nth)
  then show ?thesis by (simp add: F2IP_def OS2IP_def)
qed

text \<open>
  Conversions between integers and octet strings invert each other: \<open>OS2IP\<close> reads back what
  \<open>I2OSP\<close> writes into enough octets, \<open>F2IP\<close> reads back what \<open>IP2F\<close> writes, for every number
  below \<open>2^256\<close>.
\<close>

theorem vrf_integer_round_trips:
  assumes "v < 256 ^ n" and "w < 2 ^ 256"
  shows "OS2IP (I2OSP v n) = v \<and> length (I2OSP v n) = n \<and> F2IP (IP2F w) = w"
proof -
  have w: "w < 256 ^ 32" using assms(2) by simp
  then have len: "length (big_bytes w) \<le> 32" by (rule length_big_bytes_le)
  have "rev (IP2F w) = replicate (32 - length (big_bytes w)) 0 @ big_bytes w"
    using len by (simp add: IP2F_def go_copy_zeros)
  then have "F2IP (IP2F w) = w"
    by (simp add: F2IP_rev IP2F_def [THEN arg_cong, of length] be_nat_append be_nat_big_bytes)
  with assms(1) show ?thesis by (simp add: OS2IP_I2OSP length_I2OSP)
qed

theorem vrf_integer_round_trips_witness:
  "OS2IP (I2OSP 258 4) = 258 \<and> length (I2OSP 258 4) = 4 \<and> F2IP (IP2F 77) = 77"
  by (rule vrf_integer_round_trips) simp_all

section \<open>Proofs\<close>

lemma vrf_response_bound: "vrf_response k c x < 256 ^ vrf_N2"
proof -
  have q: "0 < int vrf_q" by (simp add: vrf_q_def)
  have "(int k - int c * int x) mod int vrf_q < int vrf_q" using q by (rule pos_mod_bound)
  then have "vrf_response k c x < vrf_q"
    using pos_mod_sign [OF q, of "int k - int c * int x"] by (simp add: vrf_response_def nat_less_iff)
  also have "vrf_q < 256 ^ vrf_N2" by (simp add: vrf_q_def vrf_N2_def)
  finally show ?thesis .
qed

lemma hash_points_bound: "ECVRF_hash_points ps < 256 ^ vrf_N"
  using be_nat_bound [of "take vrf_N (sum256 (concat ps))"]
  by (simp add: ECVRF_hash_points_def OS2IP_def vrf_N_def vrf_N2_def)

lemma S2OS_Ok_iff: "S2OS s = Ok r \<longleftrightarrow> 32 \<le> length s \<and> r = (drop_bit 7 (s ! 31) + 2) # s"
  by (auto simp: S2OS_def)

lemma sign_bit_cases: "drop_bit 7 (b :: byte) = 0 \<or> drop_bit 7 b = 1"
proof -
  have "unat (drop_bit 7 b) = unat b div 2 ^ 7" by (simp only: unat_drop_bit_eq) (simp add: drop_bit_eq_div)
  then have "unat (drop_bit 7 b) < 2" using unat_byte_lt [of b] by (simp add: less_mult_imp_div_less)
  then have "unat (drop_bit 7 b) = 0 \<or> unat (drop_bit 7 b) = 1" by linarith
  then show ?thesis by (metis unat_eq_0 unat_1 word_unat_eq_iff)
qed

lemma sign_bit_restore: "(push_bit 7 (drop_bit 7 b)) OR (b AND 0x7f) = (b :: byte)"
proof -
  have m: "(0x7f :: byte) = mask 7" by (simp add: mask_eq_decr_exp)
  have "n < 8 \<Longrightarrow> \<not> n < 7 \<longleftrightarrow> n = 7" for n :: nat by linarith
  then show ?thesis
    unfolding m by (intro bit_word_eqI) (auto simp: bit_simps not_less [symmetric])
qed

text \<open>Decoding the octets of a point gives the point that \<open>FromBytes\<close> gives on its bytes.\<close>

lemma OS2ECP_of_bytes:
  "length b = 32 \<Longrightarrow> OS2ECP E b (drop_bit 7 (b ! 31)) = ed_FromBytes E b"
  using sign_bit_cases [of "b ! 31"]
  by (simp add: OS2ECP_def go_copy_same_length sign_bit_restore)

text \<open>What a successful run of \<open>ECVRF_prove\<close> writes.\<close>

lemma ECVRF_prove_shape:
  assumes "ECVRF_prove E nonce pk sk m = Ok (Some pf)"
  obtains x h b c s where "expandSecret sk = Ok x" "ECVRF_hash_to_curve E m pk = Ok h"
    "b = ed_ToBytes E (GeScalarMult E h x)" "32 \<le> length b"
    "c < 256 ^ vrf_N" "s < 256 ^ vrf_N2"
    "pf = ((drop_bit 7 (b ! 31) + 2) # b) @ nat_be vrf_N c @ nat_be vrf_N2 s"
proof -
  from assms obtain x h r where xh: "expandSecret sk = Ok x" "ECVRF_hash_to_curve E m pk = Ok h"
    "ECP2OS E (GeScalarMult E h x) = Ok r"
    and rest: "\<exists>ps k. pf = r @ I2OSP (ECVRF_hash_points ps) vrf_N
      @ I2OSP (vrf_response (F2IP k) (ECVRF_hash_points ps) (F2IP x)) vrf_N2"
    by (fastforce simp: ECVRF_prove_def outcome_simps Let_def split: option.splits prod.splits)
  from rest obtain ps k where pf: "pf = r @ nat_be vrf_N (ECVRF_hash_points ps)
      @ nat_be vrf_N2 (vrf_response (F2IP k) (ECVRF_hash_points ps) (F2IP x))"
    using hash_points_bound vrf_response_bound by (auto simp: I2OSP_nat_be)
  from xh(3) have "32 \<le> length (ed_ToBytes E (GeScalarMult E h x))"
    "r = (drop_bit 7 (ed_ToBytes E (GeScalarMult E h x) ! 31) + 2) # ed_ToBytes E (GeScalarMult E h x)"
    by (simp_all add: ECP2OS_def S2OS_Ok_iff)
  with that [OF xh(1,2) refl _ hash_points_bound vrf_response_bound] pf show thesis by blast
qed

text \<open>A concrete package, the group with one element, at which the hypotheses can be met.\<close>

definition fe_zero_limbs :: FieldElement where
  "fe_zero_limbs = FE 0 0 0 0 0 0 0 0 0 0"

definition trivial_point :: ExtendedGroupElement where
  "trivial_point = \<lparr>eX = fe_zero_limbs, eY = fe_zero_limbs, eZ = fe_zero_limbs, eT = fe_zero_limbs\<rparr>"

definition trivial_pkg :: edwards_pkg where
  "trivial_pkg =
     \<lparr>ed_FeOne = fe_zero_limbs, ed_FeAdd = (\<lambda>a b. a), ed_FeSub = (\<lambda>a b. a), ed_FeMul = (\<lambda>a b. a),
      ed_FeCMove = (\<lambda>a b i. a), ed_FeToBytes = (\<lambda>_. replicate 32 0), ed_Zero = trivial_point,
      ed_ToBytes = (\<lambda>_. replicate 32 1), ed_ProjToBytes = (\<lambda>_. replicate 32 1),
      ed_FromBytes = (\<lambda>_. Some trivial_point),
      ed_ToProjective = (\<lambda>p. \<lparr>pX = eX p, pY = eY p, pZ = eZ p\<rparr>),
      ed_Double = (\<lambda>p. \<lparr>cX = pX p, cY = pY p, cZ = pZ p, cT = pZ p\<rparr>),
      ed_ToExtended = (\<lambda>c. \<lparr>eX = cX c, eY = cY c, eZ = cZ c, eT = cT c\<rparr>),
      ed_GeScalarMultBase = (\<lambda>_. trivial_point),
      ed_GeDoubleScalarMultVartime = (\<lambda>_ _ _. \<lparr>pX = fe_zero_limbs, pY = fe_zero_limbs, pZ = fe_zero_limbs\<rparr>)\<rparr>"

lemma trivial_pkg_arrays: "pkg_arrays trivial_pkg"
  by (simp add: pkg_arrays_def trivial_pkg_def)

lemma trivial_pkg_proves:
  assumes "length pk = 32" "length sk = 64" "length kp = 32" "length ks = 64"
  shows "\<exists>pf. ECVRF_prove trivial_pkg (Some (kp, ks)) pk sk m = Ok (Some pf)"
proof -
  have "[0..<vrf_limit] = 0 # [1..<100]" by (simp add: vrf_limit_def upt_conv_Cons)
  then have "ECVRF_hash_to_curve trivial_pkg m pk = Ok (clear_cofactor trivial_pkg 1 trivial_point)"
    by (simp add: ECVRF_hash_to_curve_def Let_def OS2ECP_def) (simp add: trivial_pkg_def)
  moreover have "ECP2OS trivial_pkg P = Ok (2 # replicate 32 1)" for P
    by (simp add: ECP2OS_def S2OS_def) (simp add: trivial_pkg_def)
  ultimately show ?thesis
    using assms by (simp add: ECVRF_prove_def expandSecret_def S2OS_def Let_def)
qed

text \<open>How a proof decodes, octet by octet.\<close>

lemma decode_proof_octets:
  assumes lb: "length b = 32" and cn: "cn < 256 ^ vrf_N" and sn: "sn < 256 ^ vrf_N2"
    and pf: "pf = ((drop_bit 7 (b ! 31) + 2) # b) @ nat_be vrf_N cn @ nat_be vrf_N2 sn"
    and c: "c = rev (nat_be vrf_N cn) @ replicate 16 0" and s: "s = rev (nat_be vrf_N2 sn)"
  shows "ECVRF_decode_proof E pf =
      (case ed_FromBytes E b of None \<Rightarrow> Ok (Inl ErrDecodeError) | Some P \<Rightarrow> Ok (Inr (P, c, s)))"
    and "length pf = 81" and "F2IP c = cn" and "F2IP s = sn" and "length c = 32" and "length s = 32"
proof -
  note Ns = vrf_N2_def vrf_N_def
  have sign: "pf ! 0 - 2 = drop_bit 7 (b ! 31)" "pf ! 0 = 2 \<or> pf ! 0 = 3"
    using sign_bit_cases [of "b ! 31"] by (auto simp: pf)
  show len: "length pf = 81" by (simp add: pf lb Ns)
  have parts: "take vrf_N2 (drop 1 pf) = b" "take vrf_N (drop (1 + vrf_N2) pf) = nat_be vrf_N cn"
    "take vrf_N2 (drop (1 + vrf_N2 + vrf_N) pf) = nat_be vrf_N2 sn"
    by (simp_all add: pf lb Ns)
  show "ECVRF_decode_proof E pf =
      (case ed_FromBytes E b of None \<Rightarrow> Ok (Inl ErrDecodeError) | Some P \<Rightarrow> Ok (Inr (P, c, s)))"
    unfolding ECVRF_decode_proof_def Let_def parts sign(1) OS2ECP_of_bytes [OF lb] c s
    using sign(2) len by (auto simp: Ns split: option.splits)
  show "length c = 32" "length s = 32" by (simp_all add: c s Ns)
  then show "F2IP c = cn" "F2IP s = sn"
    using cn sn by (simp_all add: F2IP_rev) (simp_all add: c s Ns be_nat_append be_nat_nat_be)
qed

text \<open>
  A proof that \<open>ECVRF_prove\<close> writes has 81 octets and decodes: unless the curve package
  refuses its own encoding of gamma, \<open>ECVRF_decode_proof\<close> returns that point together with the
  challenge \<open>c\<close> below \<open>2^128\<close> and the response \<open>s\<close> below \<open>2^256\<close> as 32-byte little-endian
  arrays, and never panics.
\<close>

theorem decode_prove_round_trip:
  assumes arrays: "pkg_arrays E" and prove: "ECVRF_prove E nonce pk sk m = Ok (Some pf)"
  shows "length pf = 81 \<and> (\<exists>gamma c s.
      ECVRF_decode_proof E pf =
        (case ed_FromBytes E gamma of
           None \<Rightarrow> Ok (Inl ErrDecodeError) | Some P \<Rightarrow> Ok (Inr (P, c, s)))
    \<and> pf = ((drop_bit 7 (gamma ! 31) + 2) # gamma) @ I2OSP (F2IP c) vrf_N @ I2OSP (F2IP s) vrf_N2
    \<and> length c = 32 \<and> length s = 32)"
proof -
  obtain x h b cn sn where b: "b = ed_ToBytes E (GeScalarMult E h x)"
    and cn: "cn < 256 ^ vrf_N" and sn: "sn < 256 ^ vrf_N2"
    and pf: "pf = ((drop_bit 7 (b ! 31) + 2) # b) @ nat_be vrf_N cn @ nat_be vrf_N2 sn"
    using prove by (rule ECVRF_prove_shape)
  have lb: "length b = 32" using arrays by (simp add: b pkg_arrays_def)
  note d = decode_proof_octets [OF lb cn sn pf refl refl]
  show ?thesis
    using d cn sn pf
    by (intro conjI exI [of _ b] exI [of _ "rev (nat_be vrf_N cn) @ replicate 16 0"] exI [of _ "rev (nat_be vrf_N2 sn)"])
      (simp_all add: I2OSP_nat_be)
qed

theorem decode_prove_round_trip_witness:
  "\<exists>pf c s. ECVRF_prove trivial_pkg (Some (replicate 32 3, replicate 64 4)) (replicate 32 5) (replicate 64 6) [7]
       = Ok (Some pf) \<and> length pf = 81
     \<and> ECVRF_decode_proof trivial_pkg pf = Ok (Inr (trivial_point, c, s)) \<and> length c = 32"
proof -
  obtain pf where pf: "ECVRF_prove trivial_pkg (Some (replicate 32 3, replicate 64 4))
      (replicate 32 5) (replicate 64 6) [7] = Ok (Some pf)"
    using trivial_pkg_proves [of "replicate 32 5" "replicate 64 6" "replicate 32 3" "replicate 64 4" "[7]"]
    by auto
  have "ed_FromBytes trivial_pkg b = Some trivial_point" for b by (simp add: trivial_pkg_def)
  with pf decode_prove_round_trip [OF trivial_pkg_arrays pf] show ?thesis by auto
qed

lemma proof2hash_prove:
  assumes arrays: "pkg_arrays E" and prove: "ECVRF_prove E n pk sk m = Ok (Some pf)"
    and xh: "expandSecret sk = Ok x" "ECVRF_hash_to_curve E m pk = Ok h"
  shows "ECVRF_proof2hash pf = Ok (ed_ToBytes E (GeScalarMult E h x))"
proof -
  obtain x' h' b c s where "expandSecret sk = Ok x'" "ECVRF_hash_to_curve E m pk = Ok h'"
    and b: "b = ed_ToBytes E (GeScalarMult E h' x')"
    and pf: "pf = ((drop_bit 7 (b ! 31) + 2) # b) @ nat_be vrf_N c @ nat_be vrf_N2 s"
    using prove by (rule ECVRF_prove_shape)
  with xh have "b = ed_ToBytes E (GeScalarMult E h x)" by simp
  moreover have "length b = 32" using arrays by (simp add: b pkg_arrays_def)
  ultimately show ?thesis by (simp add: ECVRF_proof2hash_def pf vrf_N2_def)
qed

text \<open>
  The VRF value is a function of the key and the message. Whatever randomness two runs of
  \<open>ECVRF_prove\<close> use, \<open>ECVRF_proof2hash\<close> gives the same 32 octets for both proofs: the
  encoding of the point gamma.
\<close>

theorem vrf_value_unique:
  assumes arrays: "pkg_arrays E" and p1: "ECVRF_prove E n1 pk sk m = Ok (Some p1)"
    and p2: "ECVRF_prove E n2 pk sk m = Ok (Some p2)"
  shows "\<exists>v. ECVRF_proof2hash p1 = Ok v \<and> ECVRF_proof2hash p2 = Ok v \<and> length v = 32"
proof -
  obtain x h where xh: "expandSecret sk = Ok x" "ECVRF_hash_to_curve E m pk = Ok h"
    using p1 by (rule ECVRF_prove_shape)
  from proof2hash_prove [OF arrays p1 xh] proof2hash_prove [OF arrays p2 xh] arrays
  show ?thesis by (simp add: pkg_arrays_def)
qed

theorem vrf_value_unique_witness:
  "\<exists>p1 p2 v. ECVRF_prove trivial_pkg (Some (replicate 32 3, replicate 64 4)) (replicate 32 5) (replicate 64 6) [7]
       = Ok (Some p1)
   \<and> ECVRF_prove trivial_pkg (Some (replicate 32 8, replicate 64 9)) (replicate 32 5) (replicate 64 6) [7]
       = Ok (Some p2)
   \<and> ECVRF_proof2hash p1 = Ok v \<and> ECVRF_proof2hash p2 = Ok v"
proof -
  obtain p1 where p1: "ECVRF_prove trivial_pkg (Some (replicate 32 3, replicate 64 4))
      (replicate 32 5) (replicate 64 6) [7] = Ok (Some p1)"
    using trivial_pkg_proves [of "replicate 32 5" "replicate 64 6" "replicate 32 3" "replicate 64 4" "[7]"]
    by auto
  obtain p2 where p2: "ECVRF_prove trivial_pkg (Some (replicate 32 8, replicate 64 9))
      (replicate 32 5) (replicate 64 6) [7] = Ok (Some p2)"
    using trivial_pkg_proves [of "replicate 32 5" "replicate 64 6" "replicate 32 8" "replicate 64 9" "[7]"]
    by auto
  from p1 p2 vrf_value_unique [OF trivial_pkg_arrays p1 p2] show ?thesis by blast
qed

end
