(* ===== verification/Crypto.thy ===== *)
theory Crypto
  imports Common Ecvrf
begin

text \<open>
  Keys and signatures (\<open>src/crypto.go\<close>). The package \<open>golang.org/x/crypto/ed25519\<close> and the
  randomness it reads are parameters, collected with the curve package in \<open>crypto_env\<close>; what the
  theorems use of them is stated as named hypotheses. A signature of the program is the public key
  followed by the ed25519 signature.
\<close>

section \<open>The imported packages\<close>

text \<open>
  \<open>ce_public\<close> is the method \<open>Public\<close> of a private key, \<open>ce_sign\<close> the method \<open>Sign\<close> with the hash
  identifier 0 (\<open>None\<close> is an error), \<open>ce_verify\<close> the function \<open>Verify\<close>, which panics on a public
  key that is not 32 bytes long, and \<open>ce_nonce n\<close> the key pair that the \<open>n\<close>-th draw of randomness
  gives (\<open>None\<close> is an error of \<open>GenerateKey\<close>).
\<close>

record crypto_env =
  ce_pkg :: edwards_pkg
  ce_public :: "bytes \<Rightarrow> bytes"
  ce_sign :: "bytes \<Rightarrow> bytes \<Rightarrow> bytes option"
  ce_verify :: "bytes \<Rightarrow> bytes \<Rightarrow> bytes \<Rightarrow> bool"
  ce_nonce :: "nat \<Rightarrow> (bytes \<times> bytes) option"

definition PublicKeySize :: nat where "PublicKeySize = 32"

text \<open>The documented behaviour of ed25519 for the key pairs it generates.\<close>

definition ed25519_correct :: "crypto_env \<Rightarrow> bytes \<Rightarrow> bool" where
  "ed25519_correct C sk \<longleftrightarrow>
     length (ce_public C sk) = PublicKeySize
   \<and> (\<forall>m s. ce_sign C sk m = Some s \<longrightarrow> ce_verify C (ce_public C sk) m s)"

section \<open>Public keys\<close>

text \<open>A \<open>PublicKey\<close> is its byte string.\<close>

definition PublicKey_Bytes :: "bytes \<Rightarrow> bytes" where "PublicKey_Bytes pk = pk"

definition PublicKey_Address :: "bytes \<Rightarrow> address" where
  "PublicKey_Address pk = BytesToAddress pk"

text \<open>\<open>Ok True\<close> is the nil error; the slice expression panics on a short signature.\<close>

definition VerifySign :: "crypto_env \<Rightarrow> bytes \<Rightarrow> bytes \<Rightarrow> bytes \<Rightarrow> bool outcome" where
  "VerifySign C pk m sign =
     (if length sign < PublicKeySize then Panic
      else if length pk \<noteq> PublicKeySize then Panic
      else Ok (ce_verify C pk m (drop PublicKeySize sign)))"

text \<open>The result of \<open>ECVRF_verify\<close> is dropped and the error is always nil.\<close>

definition VerifyVRF :: "crypto_env \<Rightarrow> bytes \<Rightarrow> bytes \<Rightarrow> bytes \<Rightarrow> bool outcome" where
  "VerifyVRF C pk proof m = obind (ECVRF_verify (ce_pkg C) pk proof m) (\<lambda>_. Ok True)"

section \<open>Private keys\<close>

definition PrivateKey_PublicKey :: "crypto_env \<Rightarrow> bytes \<Rightarrow> bytes" where
  "PrivateKey_PublicKey C sk = ce_public C sk"

definition Sign :: "crypto_env \<Rightarrow> bytes \<Rightarrow> bytes \<Rightarrow> bytes option" where
  "Sign C sk m =
     (case ce_sign C sk m of
        None \<Rightarrow> None
      | Some sign \<Rightarrow> let pubkey = ce_public C sk in Some (pubkey @ sign))"

text \<open>The value and the proof, with the \<open>n\<close>-th draw of randomness; \<open>None\<close> is an error of
  \<open>ECVRF_prove\<close>.\<close>

definition Evaluate :: "crypto_env \<Rightarrow> nat \<Rightarrow> bytes \<Rightarrow> bytes \<Rightarrow> (bytes \<times> bytes) option outcome" where
  "Evaluate C n sk m =
     obind (ECVRF_prove (ce_pkg C) (ce_nonce C n) (PrivateKey_PublicKey C sk) sk m) (\<lambda>r.
       case r of
         None \<Rightarrow> Ok None
       | Some proof \<Rightarrow> obind (ECVRF_proof2hash proof) (\<lambda>value. Ok (Some (value, proof))))"

text \<open>\<open>generated\<close> is what \<open>ed25519.GenerateKey\<close> returned.\<close>

definition NewKeyPair :: "(bytes \<times> bytes) option \<Rightarrow> (bytes \<times> bytes) option" where
  "NewKeyPair generated = (case generated of None \<Rightarrow> None | Some (pk, sk) \<Rightarrow> Some (pk, sk))"

text \<open>
  \<open>sign[:32]\<close>. Go checks this bound against the capacity of the slice; the model has slices without spare
  capacity, where it is the length. For votes this makes no difference: their short signatures panic
  at the latest in \<open>VerifySign\<close>, where the bound of \<open>sign[32:]\<close> is the length, and that is called first
  with the recovered key. In \<open>vrfSeed\<close> a block whose signature has 31 octets and spare capacity (the JSON
  decoder leaves two octets) gives a key that ends with an octet 0 instead of a panic.
\<close>

definition recoverPubkey :: "bytes \<Rightarrow> bytes outcome" where
  "recoverPubkey sign =
     (if length sign < PublicKeySize then Panic else Ok (take PublicKeySize sign))"

section \<open>Signatures\<close>

lemma recoverPubkey_Ok_iff [outcome_simps]:
  "recoverPubkey s = Ok pk \<longleftrightarrow> PublicKeySize \<le> length s \<and> pk = take PublicKeySize s"
  by (auto simp: recoverPubkey_def)

lemma recoverPubkey_length: "recoverPubkey s = Ok pk \<Longrightarrow> length pk = PublicKeySize"
  by (auto simp: recoverPubkey_Ok_iff)

lemma Sign_recover:
  assumes "length (ce_public C sk) = PublicKeySize" and "Sign C sk m = Some s"
  shows "recoverPubkey s = Ok (ce_public C sk)"
  using assms by (auto simp: Sign_def recoverPubkey_def split: option.splits)

lemma Sign_verify:
  assumes "ed25519_correct C sk" and "Sign C sk m = Some s"
  shows "VerifySign C (ce_public C sk) m s = Ok True"
  using assms by (auto simp: Sign_def VerifySign_def ed25519_correct_def split: option.splits)

lemma VerifyVRF_ok: "ECVRF_verify (ce_pkg C) pk prf m = Ok r \<Longrightarrow> VerifyVRF C pk prf m = Ok True"
  by (simp add: VerifyVRF_def)

lemma VerifyVRF_Ok_iff: "VerifyVRF C pk prf m = Ok b \<longleftrightarrow> b \<and> (\<exists>r. ECVRF_verify (ce_pkg C) pk prf m = Ok r)"
  by (auto simp: VerifyVRF_def outcome_simps)

text \<open>A proof whose first octet is neither 2 nor 3 is rejected by \<open>ECVRF_verify\<close> for every key.\<close>

lemma ECVRF_verify_bad_sign:
  "b \<noteq> 2 \<Longrightarrow> b \<noteq> 3 \<Longrightarrow> ECVRF_verify E pk (b # r) m = Ok (Inl ErrDecodeError)"
  by (simp add: ECVRF_verify_def ECVRF_decode_proof_def)

lemma VerifyVRF_bad_sign: "b \<noteq> 2 \<Longrightarrow> b \<noteq> 3 \<Longrightarrow> VerifyVRF C pk (b # r) m = Ok True"
  by (rule VerifyVRF_ok [OF ECVRF_verify_bad_sign])

section \<open>A concrete environment\<close>

text \<open>
  A signature scheme in which the first half of the private key is the public key and a message
  signs itself; with it the hypotheses on the packages can be met.
\<close>

definition echo_crypto :: crypto_env where
  "echo_crypto = \<lparr>ce_pkg = trivial_pkg, ce_public = (\<lambda>sk. take 32 sk), ce_sign = (\<lambda>sk m. Some m),
     ce_verify = (\<lambda>pk m s. m = s), ce_nonce = (\<lambda>n. Some (replicate 32 3, replicate 64 4))\<rparr>"

lemma echo_crypto_correct: "32 \<le> length sk \<Longrightarrow> ed25519_correct echo_crypto sk"
  by (simp add: ed25519_correct_def echo_crypto_def PublicKeySize_def)

end
