(* ===== verification/Message.thy ===== *)
theory Message
  imports Sortition Crypto
begin

text \<open>
  Votes and proposals (\<open>src/message.go\<close>): the structs, the signed bytes of a vote, and the
  validation of a proposal.
\<close>

section \<open>Votes\<close>

record VoteMessage =
  vm_Signature :: bytes
  vm_Round :: u64
  vm_Step :: int
  vm_VRF :: bytes
  vm_Proof :: bytes
  vm_ParentHash :: hash
  vm_Hash :: hash

text \<open>The joined bytes that \<open>Sign\<close> signs and \<open>VerifySign\<close> checks.\<close>

definition vote_data :: "VoteMessage \<Rightarrow> bytes" where
  "vote_data v =
     concat [Uint2Bytes (vm_Round v), Uint2Bytes (word_of_int (vm_Step v)), vm_VRF v, vm_Proof v,
       Hash_Bytes (vm_ParentHash v), Hash_Bytes (vm_Hash v)]"

definition Vote_RecoverPubkey :: "VoteMessage \<Rightarrow> bytes outcome" where
  "Vote_RecoverPubkey v = recoverPubkey (vm_Signature v)"

definition Vote_VerifySign :: "crypto_env \<Rightarrow> VoteMessage \<Rightarrow> bool outcome" where
  "Vote_VerifySign C v =
     obind (Vote_RecoverPubkey v) (\<lambda>pubkey. VerifySign C pubkey (vote_data v) (vm_Signature v))"

text \<open>\<open>Sign\<close> sets the signature; \<open>None\<close> is an error.\<close>

definition Vote_Sign :: "crypto_env \<Rightarrow> bytes \<Rightarrow> VoteMessage \<Rightarrow> VoteMessage option" where
  "Vote_Sign C priv v =
     (case Sign C priv (vote_data v) of
        None \<Rightarrow> None
      | Some sign \<Rightarrow> Some (v\<lparr>vm_Signature := sign\<rparr>))"

section \<open>Proposals\<close>

record Proposal =
  pp_Round :: u64
  pp_Hash :: hash
  pp_Prior :: bytes
  pp_VRF :: bytes
  pp_Proof :: bytes
  pp_Pubkey :: bytes

definition Proposal_PublicKey :: "Proposal \<Rightarrow> bytes" where
  "Proposal_PublicKey b = pp_Pubkey b"

definition Proposal_Address :: "Proposal \<Rightarrow> address" where
  "Proposal_Address b = BytesToAddress (pp_Pubkey b)"

text \<open>\<open>Ok True\<close> is the nil error.\<close>

definition Proposal_Verify :: "params \<Rightarrow> crypto_env \<Rightarrow> Proposal \<Rightarrow> u64 \<Rightarrow> bytes \<Rightarrow> bool outcome" where
  "Proposal_Verify P C b weight m =
     obind (VerifyVRF C (Proposal_PublicKey b) (pp_Proof b) m) (\<lambda>ok.
       if \<not> ok then Ok False
       else obind (subUsers P expectedBlockProposers weight (pp_VRF b)) (\<lambda>subusers.
         Ok (bytes_compare (maxPriority (pp_VRF b) subusers) (pp_Prior b) = 0)))"

section \<open>The signed bytes\<close>

lemma vote_data_signature [simp]: "vote_data (v\<lparr>vm_Signature := s\<rparr>) = vote_data v"
  by (simp add: vote_data_def)

text \<open>
  C33: a vote that a private key signs is accepted by \<open>VerifySign\<close>, and \<open>RecoverPubkey\<close> gives
  the public key of the signer: the sender of a vote is known from the vote itself.
\<close>

theorem Vote_Sign_verifies:
  assumes "ed25519_correct C sk" and "Vote_Sign C sk v = Some v'"
  shows "Vote_VerifySign C v' = Ok True \<and> Vote_RecoverPubkey v' = Ok (PrivateKey_PublicKey C sk)
    \<and> v' = v\<lparr>vm_Signature := vm_Signature v'\<rparr>"
proof -
  from assms(2) obtain s where s: "Sign C sk (vote_data v) = Some s" "v' = v\<lparr>vm_Signature := s\<rparr>"
    by (auto simp: Vote_Sign_def split: option.splits)
  have "recoverPubkey s = Ok (ce_public C sk)"
    using assms(1) s(1) by (intro Sign_recover) (auto simp: ed25519_correct_def)
  moreover have "VerifySign C (ce_public C sk) (vote_data v) s = Ok True"
    using assms(1) s(1) by (rule Sign_verify)
  ultimately show ?thesis
    using s(2) by (simp add: Vote_VerifySign_def Vote_RecoverPubkey_def PrivateKey_PublicKey_def)
qed

definition sample_vote :: VoteMessage where
  "sample_vote = \<lparr>vm_Signature = [], vm_Round = 4, vm_Step = 1, vm_VRF = replicate 32 9,
     vm_Proof = [0], vm_ParentHash = zero_hash, vm_Hash = replicate 32 7\<rparr>"

theorem Vote_Sign_verifies_witness:
  "\<exists>v'. Vote_Sign echo_crypto (replicate 64 5) sample_vote = Some v'
     \<and> Vote_VerifySign echo_crypto v' = Ok True \<and> Vote_RecoverPubkey v' = Ok (replicate 32 5)"
proof -
  have ok: "ed25519_correct echo_crypto (replicate 64 5)" by (rule echo_crypto_correct) simp
  obtain v' where v': "Vote_Sign echo_crypto (replicate 64 5) sample_vote = Some v'"
    by (simp add: Vote_Sign_def Sign_def echo_crypto_def Let_def)
  have "PrivateKey_PublicKey echo_crypto (replicate 64 5) = replicate 32 5"
    by (simp add: PrivateKey_PublicKey_def echo_crypto_def)
  with v' Vote_Sign_verifies [OF ok v'] show ?thesis by metis
qed

text \<open>
  C34: the signed bytes bind the round, the step and the voted hash: for steps that fit in 64 bits
  and well-formed hashes, votes with equal signed bytes agree on \<open>Round\<close>, \<open>Step\<close>, \<open>ParentHash\<close> and
  \<open>Hash\<close>, and on the concatenation of \<open>VRF\<close> and \<open>Proof\<close> (their boundary is not signed; it is
  fixed as soon as the VRF values have the same length).
\<close>

theorem vote_data_binds:
  assumes "vote_data a = vote_data b"
    and "wf_hash (vm_ParentHash a)" "wf_hash (vm_ParentHash b)" "wf_hash (vm_Hash a)" "wf_hash (vm_Hash b)"
    and "- (2 ^ 63) \<le> vm_Step a" "vm_Step a < 2 ^ 63" "- (2 ^ 63) \<le> vm_Step b" "vm_Step b < 2 ^ 63"
  shows "vm_Round a = vm_Round b \<and> vm_Step a = vm_Step b \<and> vm_ParentHash a = vm_ParentHash b
    \<and> vm_Hash a = vm_Hash b \<and> vm_VRF a @ vm_Proof a = vm_VRF b @ vm_Proof b
    \<and> (length (vm_VRF a) = length (vm_VRF b) \<longrightarrow> vm_VRF a = vm_VRF b \<and> vm_Proof a = vm_Proof b)"
proof -
  have shape: "vote_data v = (Uint2Bytes (vm_Round v) @ Uint2Bytes (word_of_int (vm_Step v))
      @ vm_VRF v @ vm_Proof v @ vm_ParentHash v) @ vm_Hash v" for v
    by (simp add: vote_data_def Hash_Bytes_def)
  note suffix = append_eq_append_conv [THEN iffD1, OF disjI2]
  have front: "Uint2Bytes (vm_Round a) @ Uint2Bytes (word_of_int (vm_Step a)) @ vm_VRF a @ vm_Proof a @ vm_ParentHash a
      = Uint2Bytes (vm_Round b) @ Uint2Bytes (word_of_int (vm_Step b)) @ vm_VRF b @ vm_Proof b @ vm_ParentHash b"
    and h: "vm_Hash a = vm_Hash b"
    using suffix [OF _ assms(1) [unfolded shape]] assms(4,5) by (simp_all add: wf_hash_def)
  then have r: "vm_Round a = vm_Round b" and s: "(word_of_int (vm_Step a) :: u64) = word_of_int (vm_Step b)"
    and mid: "(vm_VRF a @ vm_Proof a) @ vm_ParentHash a = (vm_VRF b @ vm_Proof b) @ vm_ParentHash b"
    by simp_all
  have "vm_ParentHash a = vm_ParentHash b" "vm_VRF a @ vm_Proof a = vm_VRF b @ vm_Proof b"
    using suffix [OF _ mid] assms(2,3) by (simp_all add: wf_hash_def)
  moreover have "vm_Step a = vm_Step b"
    using s assms(6-9) word_of_int_signed_inj by blast
  ultimately show ?thesis using h r by (auto simp: append_eq_append_conv)
qed

theorem vote_data_binds_witness:
  "vm_Step sample_vote = vm_Step (sample_vote\<lparr>vm_Signature := [1]\<rparr>)
   \<and> vm_Hash sample_vote = vm_Hash (sample_vote\<lparr>vm_Signature := [1]\<rparr>)"
  using vote_data_binds [of sample_vote "sample_vote\<lparr>vm_Signature := [1]\<rparr>"]
  by (simp add: sample_vote_def wf_hash_def zero_hash_def HashLength_def vote_data_def)

end
