(* ===== verification/Seeds.thy ===== *)
theory Seeds
  imports Vectors Message
begin

text \<open>
  The part of a node (\<open>src/algorand.go\<close>) that reads its chain: the weight of an address, the seed
  of a round and the selection seed of sortition, and the empty block. They are functions of the
  chain; the private key and the draw of randomness are arguments.
\<close>

section \<open>Weights and seeds\<close>

definition weight :: "params \<Rightarrow> address \<Rightarrow> u64" where
  "weight P address = TokenPerUser P"

definition emptyBlock :: "u64 \<Rightarrow> hash \<Rightarrow> Block" where
  "emptyBlock rnd prevHash = zero_block\<lparr>blk_Round := rnd, blk_ParentHash := prevHash\<rparr>"

definition sortitionSeed :: "Blockchain \<Rightarrow> u64 \<Rightarrow> slice outcome" where
  "sortitionSeed bc rnd =
     (let realR = rnd - 1;
          md = rnd mod R;
          realR = (if realR < md then 0 else realR - md)
      in obind (getByRound bc realR) (\<lambda>b. obind (deref b) (\<lambda>blk. Ok (blk_Seed blk))))"

text \<open>
  \<open>vrfSeed\<close>: \<open>Ok (Some (seed, proof))\<close>, or \<open>Ok None\<close> for an error. \<open>seed_invalid\<close> is the check of
  the seed of the last block against its parent; it is the source's \<open>err != nil\<close>.
\<close>

definition seed_invalid :: "crypto_env \<Rightarrow> Blockchain \<Rightarrow> Block \<Rightarrow> bool outcome" where
  "seed_invalid C bc lastBlock =
     (let lastParentBlock = bc_get bc (blk_ParentHash lastBlock) (blk_Round lastBlock - 1)
      in case blk_Proof lastBlock of
           Some pfb \<Rightarrow>
             obind (recoverPubkey (sl (blk_Signature lastBlock))) (\<lambda>pubkey.
             obind (deref lastParentBlock) (\<lambda>par.
             obind (VerifyVRF C pubkey pfb (sl (blk_Seed par) @ Uint2Bytes (blk_Round lastBlock))) (\<lambda>ok.
               Ok (\<not> ok))))
         | None \<Rightarrow>
             obind (deref lastParentBlock) (\<lambda>par.
               Ok (bytes_compare (sl (blk_Seed lastBlock))
                 (Hash_Bytes (Sha256 (sl (blk_Seed par) @ Uint2Bytes (blk_Round lastBlock)))) \<noteq> 0)))"

definition vrfSeed ::
  "crypto_env \<Rightarrow> Blockchain \<Rightarrow> nat \<Rightarrow> bytes \<Rightarrow> u64 \<Rightarrow> (slice \<times> slice) option outcome" where
  "vrfSeed C bc n priv rnd =
     (if rnd = 0 then obind (deref (bc_genesis bc)) (\<lambda>g. Ok (Some (blk_Seed g, None)))
      else
        obind (getByRound bc (rnd - 1)) (\<lambda>b.
        obind (if rnd \<noteq> 1 then obind (deref b) (\<lambda>lastBlock. seed_invalid C bc lastBlock) else Ok False) (\<lambda>err.
        obind (deref b) (\<lambda>lastBlock.
          let m = sl (blk_Seed lastBlock) @ Uint2Bytes (blk_Round lastBlock + 1)
          in if err then Ok (Some (Some (Hash_Bytes (Sha256 m)), None))
             else obind (Evaluate C n priv m) (\<lambda>e.
               case e of None \<Rightarrow> Ok None | Some (seed, pfb) \<Rightarrow> Ok (Some (Some seed, Some pfb)))))))"

section \<open>The empty block\<close>

lemma hash_data_emptyBlock: "hash_data (emptyBlock r h) = Uint2Bytes r @ Hash_Bytes h"
  by (simp add: hash_data_def emptyBlock_def zero_block_def Let_def Address_Nil_def)

lemma emptyHash_block: "Block_Hash (emptyBlock rnd prev) = emptyHash rnd prev"
  by (simp add: emptyHash_def Block_Hash_def hash_data_emptyBlock)

text \<open>
  The hash that the consensus steps vote for as the empty value is the hash of the empty block:
  \<open>emptyHash(round, prev)\<close> equals \<open>emptyBlock(round, prev).Hash()\<close> for every round and parent.
\<close>

theorem emptyHash_emptyBlock: "emptyHash rnd prev = Block_Hash (emptyBlock rnd prev)"
  by (rule emptyHash_block [symmetric])

section \<open>The selection seed\<close>

lemma sortitionSeed_get:
  "sortitionSeed bc rnd =
     obind (getByRound bc (if rnd - 1 < rnd mod R then 0 else rnd - 1 - rnd mod R))
       (\<lambda>b. obind (deref b) (\<lambda>blk. Ok (blk_Seed blk)))"
  by (simp add: sortitionSeed_def Let_def)

text \<open>The round that \<open>sortitionSeed\<close> asks for, in numbers.\<close>

lemma seed_round:
  assumes "rnd \<noteq> 0"
  shows "unat (if rnd - 1 < rnd mod R then 0 else rnd - 1 - rnd mod R)
    = unat rnd - 1 - unat rnd mod 1000"
proof -
  have m: "unat (rnd mod R) = unat rnd mod 1000" by (simp add: unat_mod_distrib R_def)
  have s: "unat (rnd - 1) = unat rnd - 1" using assms by (rule unat_minus_one)
  show ?thesis
  proof (cases "rnd - 1 < rnd mod R")
    case True
    then have "unat rnd - 1 < unat rnd mod 1000" unfolding word_less_nat_alt m s .
    with True show ?thesis by simp
  next
    case False
    then have "rnd mod R \<le> rnd - 1" by simp
    then have "unat (rnd - 1 - rnd mod R) = unat (rnd - 1) - unat (rnd mod R)"
      by (simp add: unat_sub word_le_nat_alt)
    with False show ?thesis by (simp add: m s)
  qed
qed

lemma seed_target_low: "n < 1000 \<or> Suc n mod 1000 = 0 \<Longrightarrow> n - Suc n mod 1000 = 0 \<or> n - Suc n mod 1000 = n"
proof -
  assume n: "n < 1000 \<or> Suc n mod 1000 = 0"
  show ?thesis
  proof (cases "Suc n < 1000")
    case False
    then consider "n = 999" | "\<not> n < 1000" by linarith
    then have "Suc n mod 1000 = 0" using n by cases simp_all
    then show ?thesis by (simp only: diff_zero) simp
  qed (simp add: mod_less)
qed

lemma seed_target_high:
  "\<not> (n < 1000 \<or> Suc n mod 1000 = 0) \<Longrightarrow> 999 \<le> n - Suc n mod 1000 \<and> n - Suc n mod 1000 < n"
proof -
  assume n: "\<not> (n < 1000 \<or> Suc n mod 1000 = 0)"
  define q m where "q = Suc n div 1000" and "m = Suc n mod 1000"
  have "1 \<le> q" using n div_le_mono [of 1000 "Suc n" 1000] by (simp add: q_def del: div_Suc)
  moreover have "Suc n = 1000 * q + m" by (simp only: q_def m_def mult_div_mod_eq)
  moreover have "0 < m" using n by (simp add: m_def)
  ultimately show ?thesis unfolding m_def [symmetric] by linarith
qed

text \<open>
  C18: the selection seed during the first thousand rounds, and its failure afterwards. A node whose
  last block \<open>l\<close> has its parent stored only below it works on round \<open>Round l + 1\<close>. Up to round 1000
  the seed is that of the last block itself, refreshed every round. From round 1001 on the lookup
  reads through a nil pointer, except in rounds divisible by 1000: every node stops at round 1001,
  whatever the votes.
\<close>

theorem sortitionSeed_rounds:
  assumes "bc_last bc = Some l" and "parent_only_below bc l" and "unat (blk_Round l) < 2 ^ 64 - 1"
  shows "sortitionSeed bc (blk_Round l + 1) =
    (if unat (blk_Round l) < 1000 \<or> Suc (unat (blk_Round l)) mod 1000 = 0 then Ok (blk_Seed l) else Panic)"
proof -
  define n where "n = unat (blk_Round l)"
  define t where "t = (if blk_Round l + 1 - 1 < (blk_Round l + 1) mod R then 0
    else blk_Round l + 1 - 1 - (blk_Round l + 1) mod R)"
  have n1: "unat (blk_Round l + 1) = Suc n" using assms(3) by (simp add: n_def unat_word_ariths)
  then have "blk_Round l + 1 \<noteq> 0" by (metis nat.distinct(1) unat_0)
  from seed_round [OF this] have t: "unat t = n - Suc n mod 1000" by (simp add: n1 t_def)
  have seed: "sortitionSeed bc (blk_Round l + 1) =
      obind (getByRound bc t) (\<lambda>b. obind (deref b) (\<lambda>blk. Ok (blk_Seed blk)))"
    unfolding sortitionSeed_get t_def ..
  have get: "getByRound bc t = (if unat t = 0 \<or> unat t = n then Ok (Some l)
      else if unat t = 1 then Ok None else Panic)"
    unfolding getByRound_cases [OF assms(1,2)] n_def word_unat_eq_iff unat_0 unat_1 ..
  show ?thesis
  proof (cases "n < 1000 \<or> Suc n mod 1000 = 0")
    case True
    then have "unat t = 0 \<or> unat t = n" unfolding t by (rule seed_target_low)
    with True show ?thesis unfolding seed get by (simp add: n_def)
  next
    case False
    then have "999 \<le> unat t \<and> unat t < n" unfolding t by (rule seed_target_high)
    with False show ?thesis unfolding seed get by (simp add: n_def)
  qed
qed

theorem sortitionSeed_rounds_witness:
  "sortitionSeed sample_chain 4 = Ok None \<and> sortitionSeed far_chain 1001 = Panic"
  using sortitionSeed_rounds [OF sample_last sample_parent_only_below]
    sortitionSeed_rounds [OF far_last far_parent_only_below]
  by (simp add: sample_block_def zero_block_def)

section \<open>The seed of the next block\<close>

lemma vrfSeed_tip:
  assumes "bc_last bc = Some l" and "unat (blk_Round l) < 2 ^ 64 - 1"
  shows "vrfSeed C bc n priv (blk_Round l + 1) =
    obind (if blk_Round l \<noteq> 0 then seed_invalid C bc l else Ok False) (\<lambda>err.
      let m = sl (blk_Seed l) @ Uint2Bytes (blk_Round l + 1)
      in if err then Ok (Some (Some (Hash_Bytes (Sha256 m)), None))
         else obind (Evaluate C n priv m) (\<lambda>e.
           case e of None \<Rightarrow> Ok None | Some (seed, pfb) \<Rightarrow> Ok (Some (Some seed, Some pfb))))"
proof -
  have "unat (blk_Round l + 1) = Suc (unat (blk_Round l))" using assms(2) by (simp add: unat_word_ariths)
  then have "blk_Round l + 1 \<noteq> 0" by (metis nat.distinct(1) unat_0)
  moreover have "blk_Round l + 1 = 1 \<longleftrightarrow> blk_Round l = 0" by (metis add.left_neutral add_right_cancel)
  ultimately show ?thesis
    using getByRound_tip [OF assms(1)] by (simp add: vrfSeed_def Let_def)
qed



text \<open>
  The next seed on every branch, for a node whose last block \<open>l\<close> has a stored parent and, if it
  has a proof, a signature of at least 32 bytes: a seed taken from a proof is never refused, since the
  result of the VRF verification is not used; a hash-based seed is refused when it is not
  \<open>SHA256(parent seed, round)\<close>, and then the next seed is the hash of the last seed and the round;
  otherwise the next seed is the node's own VRF on them.
\<close>

theorem vrfSeed_branches:
  assumes "bc_last bc = Some l" and "unat (blk_Round l) < 2 ^ 64 - 1" and "blk_Round l \<noteq> 0"
    and "bc_get bc (blk_ParentHash l) (blk_Round l - 1) = Some par"
    and "\<And>pfb. blk_Proof l = Some pfb \<Longrightarrow> 32 \<le> length (sl (blk_Signature l))
      \<and> (\<exists>r. ECVRF_verify (ce_pkg C) (take 32 (sl (blk_Signature l))) pfb
           (sl (blk_Seed par) @ Uint2Bytes (blk_Round l)) = Ok r)"
  shows "vrfSeed C bc n priv (blk_Round l + 1) =
    (let m = sl (blk_Seed l) @ Uint2Bytes (blk_Round l + 1)
     in if blk_Proof l = None \<and> sl (blk_Seed l) \<noteq> Sha256 (sl (blk_Seed par) @ Uint2Bytes (blk_Round l))
        then Ok (Some (Some (Sha256 m), None))
        else obind (Evaluate C n priv m) (\<lambda>e. Ok (map_option (\<lambda>(seed, pfb). (Some seed, Some pfb)) e)))"
proof -
  have ev: "(case e of None \<Rightarrow> Ok None | Some (seed, pfb) \<Rightarrow> Ok (Some (Some seed, Some pfb)))
      = Ok (map_option (\<lambda>(seed, pfb). (Some seed, Some pfb)) e)" for e :: "(bytes \<times> bytes) option"
    by (simp split: option.split)
  show ?thesis
  proof (cases "blk_Proof l")
    case None
    then have "seed_invalid C bc l = Ok (sl (blk_Seed l) \<noteq> Sha256 (sl (blk_Seed par) @ Uint2Bytes (blk_Round l)))"
      using assms(4) by (simp add: seed_invalid_def Hash_Bytes_def)
    with None assms(3) show ?thesis
      unfolding vrfSeed_tip [OF assms(1,2)] ev by (simp add: Let_def Hash_Bytes_def)
  next
    case (Some pfb)
    with assms(5) have len: "32 \<le> length (sl (blk_Signature l))"
      and "VerifyVRF C (take 32 (sl (blk_Signature l))) pfb (sl (blk_Seed par) @ Uint2Bytes (blk_Round l)) = Ok True"
      by (auto simp: VerifyVRF_Ok_iff)
    then have "seed_invalid C bc l = Ok False"
      using Some assms(4) by (simp add: seed_invalid_def recoverPubkey_def PublicKeySize_def)
    with Some assms(3) show ?thesis
      unfolding vrfSeed_tip [OF assms(1,2)] ev by (simp add: Let_def)
  qed
qed

theorem vrfSeed_branches_witness:
  "vrfSeed echo_crypto sample_chain 7 (replicate 64 5) 4
     = Ok (Some (Some (Sha256 [0, 0, 0, 0, 0, 0, 0, 4]), None))"
proof -
  have l: "blk_Round (sample_block 3 (sample_hash 2)) = 3" "blk_Seed (sample_block 3 (sample_hash 2)) = None"
    "blk_Proof (sample_block 3 (sample_hash 2)) = None"
    by (simp_all add: sample_block_def zero_block_def)
  have "Sha256 d \<noteq> []" for d by (simp add: Sha256_def flip: length_greater_0_conv)
  with vrfSeed_branches [OF sample_last, of "sample_block 2 (sample_hash 1)" echo_crypto 7 "replicate 64 5"]
  show ?thesis
    by (simp add: l sample_get eq_commute [of "[]"] Uint2Bytes_eq put_uint64_def)
qed

end
