(* ===== verification/Peer.thy ===== *)
theory Peer
  imports Seeds
begin

text \<open>
  The message side of a node (\<open>src/peer.go\<close>). The vote lists are shared objects: an iterator keeps
  a pointer to a \<open>List\<close> while \<open>handle\<close> appends to it, so they live in a heap (\<open>pr_lists\<close>, the
  address of a list is its position) and the table of votes maps keys to addresses. \<open>handle\<close> here
  runs to its end; the interleavings of its locked sections are in the theories \<open>Vote_Race\<close> and
  \<open>Proposal_Race\<close>.
\<close>

section \<open>Encoded messages\<close>

text \<open>\<open>Serialize\<close> and \<open>Deserialize\<close> of the three message structs.\<close>

record codec =
  enc_block :: "Block \<Rightarrow> bytes"
  dec_block :: "bytes \<Rightarrow> Block option"
  enc_proposal :: "Proposal \<Rightarrow> bytes"
  dec_proposal :: "bytes \<Rightarrow> Proposal option"
  enc_vote :: "VoteMessage \<Rightarrow> bytes"
  dec_vote :: "bytes \<Rightarrow> VoteMessage option"

section \<open>Lists and iterators\<close>

type_synonym heap = "VoteMessage list list"

record Peer =
  pr_lists :: heap
  pr_incomingVotes :: "bytes \<rightharpoonup> nat"
  pr_blocks :: "hash \<rightharpoonup> Block"
  pr_maxProposals :: "u64 \<rightharpoonup> Proposal"

definition newPeer :: Peer where
  "newPeer = \<lparr>pr_lists = [], pr_incomingVotes = Map.empty, pr_blocks = Map.empty,
     pr_maxProposals = Map.empty\<rparr>"

text \<open>\<open>newList\<close> allocates an empty list: its address and the heap.\<close>

definition newList :: "heap \<Rightarrow> nat \<times> heap" where
  "newList hp = (length hp, hp @ [[]])"

definition List_add :: "heap \<Rightarrow> nat \<Rightarrow> VoteMessage \<Rightarrow> heap" where
  "List_add hp a el = hp[a := hp ! a @ [el]]"

definition List_get :: "heap \<Rightarrow> nat \<Rightarrow> nat \<Rightarrow> VoteMessage option" where
  "List_get hp a index = (if index \<ge> length (hp ! a) then None else Some (hp ! a ! index))"

record Iterator =
  it_list :: nat
  it_index :: nat

definition Iterator_next :: "heap \<Rightarrow> Iterator \<Rightarrow> VoteMessage option \<times> Iterator" where
  "Iterator_next hp it =
     (case List_get hp (it_list it) (it_index it) of
        None \<Rightarrow> (None, it)
      | Some el \<Rightarrow> (Some el, it\<lparr>it_index := it_index it + 1\<rparr>))"

section \<open>The tables\<close>

definition constructVoteKey :: "u64 \<Rightarrow> int \<Rightarrow> bytes" where
  "constructVoteKey rnd step = concat [Uint2Bytes rnd, Uint2Bytes (word_of_int step)]"

definition voteIterator :: "Peer \<Rightarrow> u64 \<Rightarrow> int \<Rightarrow> Iterator \<times> Peer" where
  "voteIterator p rnd step =
     (let key = constructVoteKey rnd step
      in case pr_incomingVotes p key of
           Some a \<Rightarrow> (\<lparr>it_list = a, it_index = 0\<rparr>, p)
         | None \<Rightarrow>
             let (a, hp) = newList (pr_lists p)
             in (\<lparr>it_list = a, it_index = 0\<rparr>,
                 p\<lparr>pr_lists := hp, pr_incomingVotes := (pr_incomingVotes p)(key \<mapsto> a)\<rparr>))"

definition getIncomingMsgs :: "Peer \<Rightarrow> u64 \<Rightarrow> int \<Rightarrow> VoteMessage list" where
  "getIncomingMsgs p rnd step =
     (case pr_incomingVotes p (constructVoteKey rnd step) of
        None \<Rightarrow> []
      | Some a \<Rightarrow> pr_lists p ! a)"

definition getBlock :: "Peer \<Rightarrow> hash \<Rightarrow> Block option" where
  "getBlock p h = pr_blocks p h"

definition addBlock :: "hash \<Rightarrow> Block \<Rightarrow> Peer \<Rightarrow> Peer" where
  "addBlock h blk p = p\<lparr>pr_blocks := (pr_blocks p)(h \<mapsto> blk)\<rparr>"

definition setMaxProposal :: "u64 \<Rightarrow> Proposal \<Rightarrow> Peer \<Rightarrow> Peer" where
  "setMaxProposal rnd proposal p = p\<lparr>pr_maxProposals := (pr_maxProposals p)(rnd \<mapsto> proposal)\<rparr>"

definition getMaxProposal :: "Peer \<Rightarrow> u64 \<Rightarrow> Proposal option" where
  "getMaxProposal p rnd = pr_maxProposals p rnd"

definition clearProposal :: "u64 \<Rightarrow> Peer \<Rightarrow> Peer" where
  "clearProposal rnd p = p\<lparr>pr_maxProposals := (pr_maxProposals p)(rnd := None)\<rparr>"

interpretation blocks: keyed_store addBlock getBlock
  by unfold_locales (simp add: addBlock_def getBlock_def)

interpretation proposals: deletable_store setMaxProposal getMaxProposal clearProposal
  by unfold_locales (simp_all add: setMaxProposal_def getMaxProposal_def clearProposal_def)

section \<open>Handling a message\<close>

datatype handle_error = DecodeFailed | VerificationFailed

text \<open>
  The environment of a node: parameters, crypto, message encoding, and the \<open>n\<close>-th answers of
  \<open>rand.Uint64\<close> and \<open>time.Now().Unix()\<close>.
\<close>

record env =
  en_params :: params
  en_crypto :: crypto_env
  en_codec :: codec
  en_rand :: "nat \<Rightarrow> u64"
  en_now :: "nat \<Rightarrow> i64"

text \<open>
  The three branches of \<open>handle\<close>, each as one step: what a handler does that is not interrupted by
  another one. In Go a handler releases its locks in between: a vote handler reads the table, appends to
  the list and writes the table back, and a proposal handler reads the best proposal, verifies its own
  and writes it. The interleavings of these sections are the theories \<open>Vote_Race\<close> and \<open>Proposal_Race\<close>,
  which show that \<open>handle_vote\<close> and \<open>handle_proposal\<close> are the runs of one handler alone, and what is lost
  otherwise. \<open>vote_list\<close> is the list a vote goes to.
\<close>

definition vote_list :: "Peer \<Rightarrow> bytes \<Rightarrow> nat \<times> heap" where
  "vote_list p key =
     (case pr_incomingVotes p key of Some a \<Rightarrow> (a, pr_lists p) | None \<Rightarrow> newList (pr_lists p))"

definition handle_vote :: "VoteMessage \<Rightarrow> Peer \<Rightarrow> Peer" where
  "handle_vote vote p =
     (let key = constructVoteKey (vm_Round vote) (vm_Step vote);
          (a, hp) = vote_list p key;
          hp = List_add hp a vote
      in p\<lparr>pr_lists := hp, pr_incomingVotes := (pr_incomingVotes p)(key \<mapsto> a)\<rparr>)"

definition handle_proposal ::
  "env \<Rightarrow> Blockchain \<Rightarrow> int \<Rightarrow> Proposal \<Rightarrow> Peer \<Rightarrow> (Peer \<times> handle_error option) outcome" where
  "handle_proposal E bc typ bp p =
     (let maxProposal = getMaxProposal p (pp_Round bp)
      in if (case maxProposal of
               None \<Rightarrow> False
             | Some mp \<Rightarrow>
                 (typ = BLOCK_PROPOSAL \<and> bytes_compare (pp_Prior bp) (pp_Prior mp) \<le> 0)
               \<or> (typ = FORK_PROPOSAL \<and> pp_Round bp \<le> pp_Round mp))
         then Ok (p, None)
         else
           obind (sortitionSeed bc (pp_Round bp)) (\<lambda>seed.
           obind (Proposal_Verify (en_params E) (en_crypto E) bp
                    (weight (en_params E) (Proposal_Address bp))
                    (constructSeed (sl seed) (role proposer (pp_Round bp) PROPOSE))) (\<lambda>ok.
             if \<not> ok then Ok (p, Some VerificationFailed)
             else Ok (setMaxProposal (pp_Round bp) bp p, None))))"

definition handle ::
  "env \<Rightarrow> Blockchain \<Rightarrow> int \<Rightarrow> bytes \<Rightarrow> Peer \<Rightarrow> (Peer \<times> handle_error option) outcome" where
  "handle E bc typ data p =
     (if typ = BLOCK then
        (case dec_block (en_codec E) data of
           None \<Rightarrow> Ok (p, Some DecodeFailed)
         | Some blk \<Rightarrow> Ok (addBlock (Block_Hash blk) blk p, None))
      else if typ = BLOCK_PROPOSAL \<or> typ = FORK_PROPOSAL then
        (case dec_proposal (en_codec E) data of
           None \<Rightarrow> Ok (p, Some DecodeFailed)
         | Some bp \<Rightarrow> handle_proposal E bc typ bp p)
      else if typ = VOTE then
        (case dec_vote (en_codec E) data of
           None \<Rightarrow> Ok (p, Some DecodeFailed)
         | Some vote \<Rightarrow> Ok (handle_vote vote p, None))
      else Ok (p, None))"

section \<open>The pool of peers and gossip\<close>

type_synonym PID = int

definition pool_add :: "PID \<Rightarrow> 'p \<Rightarrow> (PID \<rightharpoonup> 'p) \<Rightarrow> (PID \<rightharpoonup> 'p)" where
  "pool_add i peer pool = pool(i \<mapsto> peer)"

definition pool_remove :: "PID \<Rightarrow> (PID \<rightharpoonup> 'p) \<Rightarrow> (PID \<rightharpoonup> 'p)" where
  "pool_remove i pool = pool(i := None)"

interpretation pool: deletable_store pool_add "\<lambda>pool. pool" pool_remove
  by unfold_locales (simp_all add: pool_add_def pool_remove_def)

text \<open>
  \<open>getPeers\<close> ranges over a Go map, in no fixed order: \<open>order\<close> is the order of this call, a list of
  the identifiers.
\<close>

definition getPeers :: "PID list \<Rightarrow> (PID \<rightharpoonup> 'p) \<Rightarrow> PID list" where
  "getPeers order pool = filter (\<lambda>i. pool i \<noteq> None) order"

text \<open>The peers whose \<open>handle\<close> is started, in order.\<close>

definition gossip :: "PID \<Rightarrow> PID list \<Rightarrow> PID list" where
  "gossip self peers = filter (\<lambda>i. i \<noteq> self) peers"

function halfGossip_loop :: "PID \<Rightarrow> PID list \<Rightarrow> nat \<Rightarrow> nat \<Rightarrow> PID list" where
  "halfGossip_loop self peers b e =
     (if b < e then
        (if peers ! b = self then halfGossip_loop self peers (b + 1) e
         else peers ! b # halfGossip_loop self peers (b + 1) e)
      else [])"
  by pat_completeness auto
termination by (relation "measure (\<lambda>(self, peers, b, e). e - b)") auto

declare halfGossip_loop.simps [simp del]

definition halfGossip :: "PID \<Rightarrow> PID list \<Rightarrow> nat \<Rightarrow> PID list" where
  "halfGossip self peers half =
     (if half > 1 then []
      else halfGossip_loop self peers (length peers div 2 * half)
             (if half = 0 then length peers div 2 else length peers))"

section \<open>The vote lists\<close>

lemma constructVoteKey_inj:
  assumes "constructVoteKey r s = constructVoteKey r' s'"
    and "- (2 ^ 63) \<le> s" "s < 2 ^ 63" "- (2 ^ 63) \<le> s'" "s' < 2 ^ 63"
  shows "r = r' \<and> s = s'"
proof -
  from assms(1) have "r = r'" "(word_of_int s :: u64) = word_of_int s'"
    by (simp_all add: constructVoteKey_def)
  with assms(2-) show ?thesis using word_of_int_signed_inj by blast
qed

definition vote_key :: "VoteMessage \<Rightarrow> bytes" where
  "vote_key v = constructVoteKey (vm_Round v) (vm_Step v)"

definition votes_at :: "Peer \<Rightarrow> bytes \<Rightarrow> VoteMessage list" where
  "votes_at p key = (case pr_incomingVotes p key of None \<Rightarrow> [] | Some a \<Rightarrow> pr_lists p ! a)"

text \<open>Every key has a list of its own in the heap.\<close>

definition peer_inv :: "Peer \<Rightarrow> bool" where
  "peer_inv p \<longleftrightarrow>
     (\<forall>k a. pr_incomingVotes p k = Some a \<longrightarrow> a < length (pr_lists p))
   \<and> (\<forall>k k' a. pr_incomingVotes p k = Some a \<and> pr_incomingVotes p k' = Some a \<longrightarrow> k = k')"

lemma newPeer_inv: "peer_inv newPeer"
  by (simp add: peer_inv_def newPeer_def)

lemma getIncomingMsgs_votes_at: "getIncomingMsgs p r s = votes_at p (constructVoteKey r s)"
  by (simp add: getIncomingMsgs_def votes_at_def)

lemmas vote_list_defs = handle_vote_def vote_list_def newList_def List_add_def Let_def

lemma handle_vote_inv: "peer_inv p \<Longrightarrow> peer_inv (handle_vote v p)"
  unfolding peer_inv_def
  by (fastforce simp: vote_list_defs split: option.splits if_splits prod.splits)

lemma handle_vote_votes_at:
  assumes "peer_inv p"
  shows "votes_at (handle_vote v p) k = (if vote_key v = k then votes_at p k @ [v] else votes_at p k)"
proof (cases "pr_incomingVotes p (vote_key v)")
  case None
  with assms show ?thesis
    by (auto simp: votes_at_def vote_list_defs peer_inv_def nth_append vote_key_def split: option.split)
next
  case (Some a)
  then have a: "a < length (pr_lists p)" using assms by (simp add: peer_inv_def)
  have other: "b \<noteq> a" if "pr_incomingVotes p k = Some b" "vote_key v \<noteq> k" for b
    using that Some assms unfolding peer_inv_def by metis
  from Some a other show ?thesis
    by (auto simp: votes_at_def vote_list_defs vote_key_def nth_list_update split: option.split)
qed

interpretation vote_lists: keyed_log peer_inv handle_vote votes_at vote_key
  by unfold_locales (simp_all add: handle_vote_inv handle_vote_votes_at)

section \<open>Reading while votes arrive\<close>

text \<open>Arrivals and reads of one iterator in any order; the run gives what the reads returned.\<close>

datatype log_op = Arrive VoteMessage | Read

fun run_ops :: "log_op list \<Rightarrow> Peer \<Rightarrow> Iterator \<Rightarrow> VoteMessage list \<times> Peer \<times> Iterator" where
  "run_ops [] p it = ([], p, it)"
| "run_ops (Arrive v # ops) p it = run_ops ops (handle_vote v p) it"
| "run_ops (Read # ops) p it =
     (case Iterator_next (pr_lists p) it of
        (None, it') \<Rightarrow> run_ops ops p it'
      | (Some v, it') \<Rightarrow> let (seen, p', it'') = run_ops ops p it' in (v # seen, p', it''))"

text \<open>An iterator of a key that has not read past the end of its list.\<close>

definition iterator_of :: "Peer \<Rightarrow> bytes \<Rightarrow> Iterator \<Rightarrow> bool" where
  "iterator_of p key it \<longleftrightarrow>
     pr_incomingVotes p key = Some (it_list it) \<and> it_index it \<le> length (votes_at p key)"

lemma handle_vote_iterator:
  assumes "peer_inv p" and "iterator_of p key it"
  shows "iterator_of (handle_vote v p) key it"
proof -
  have "pr_incomingVotes (handle_vote v p) key = Some (it_list it)"
    using assms(2) by (auto simp: iterator_of_def vote_list_defs split: option.splits)
  with assms show ?thesis by (simp add: iterator_of_def handle_vote_votes_at)
qed

lemma Iterator_next_votes:
  assumes "iterator_of p key it"
  shows "Iterator_next (pr_lists p) it =
    (if it_index it < length (votes_at p key)
     then (Some (votes_at p key ! it_index it), it\<lparr>it_index := it_index it + 1\<rparr>) else (None, it))"
  using assms by (simp add: Iterator_next_def List_get_def iterator_of_def votes_at_def)

lemma run_ops_spec:
  assumes "peer_inv p" "iterator_of p key it" "run_ops ops p it = (seen, p', it')"
  shows "peer_inv p' \<and> iterator_of p' key it' \<and> it_index it' = it_index it + length seen
    \<and> seen = take (length seen) (drop (it_index it) (votes_at p' key))
    \<and> (\<exists>new. votes_at p' key = votes_at p key @ new)"
  using assms
proof (induction ops arbitrary: p it seen)
  case Nil
  then show ?case by simp
next
  case (Cons op ops)
  show ?case
  proof (cases op)
    case (Arrive v)
    have "peer_inv (handle_vote v p)" "iterator_of (handle_vote v p) key it"
      using Cons.prems by (simp_all add: handle_vote_inv handle_vote_iterator)
    from Cons.IH [OF this] Cons.prems(3) Arrive show ?thesis
      using handle_vote_votes_at [OF Cons.prems(1), of v key] by (auto split: if_splits)
  next
    case Read
    show ?thesis
    proof (cases "it_index it < length (votes_at p key)")
      case False
      with Cons Read show ?thesis by (simp add: Iterator_next_votes)
    next
      case True
      let ?it = "it\<lparr>it_index := it_index it + 1\<rparr>"
      obtain seen1 where run: "run_ops ops p ?it = (seen1, p', it')"
        and seen: "seen = votes_at p key ! it_index it # seen1"
        using Cons.prems Read True by (auto simp: Iterator_next_votes split: prod.splits)
      have "iterator_of p key ?it" using Cons.prems(2) True by (simp add: iterator_of_def)
      from Cons.IH [OF Cons.prems(1) this run] obtain new where
        ih: "peer_inv p'" "iterator_of p' key it'" "it_index it' = it_index it + 1 + length seen1"
        "seen1 = take (length seen1) (drop (it_index it + 1) (votes_at p' key))"
        and new: "votes_at p' key = votes_at p key @ new" by auto
      have "drop (it_index it) (votes_at p' key)
          = votes_at p key ! it_index it # drop (it_index it + 1) (votes_at p' key)"
        using True new Cons_nth_drop_Suc [of "it_index it" "votes_at p' key"] by (simp add: nth_append)
      with ih new seen show ?thesis by simp
    qed
  qed
qed

lemma voteIterator_spec:
  assumes "peer_inv p" and "voteIterator p r s = (it, p')"
  shows "peer_inv p' \<and> iterator_of p' (constructVoteKey r s) it \<and> it_index it = 0
    \<and> (\<forall>k. votes_at p' k = votes_at p k)"
proof (cases "pr_incomingVotes p (constructVoteKey r s)")
  case None
  with assms(2) have p': "p' = p\<lparr>pr_lists := pr_lists p @ [[]],
      pr_incomingVotes := (pr_incomingVotes p)(constructVoteKey r s \<mapsto> length (pr_lists p))\<rparr>"
    and it: "it = \<lparr>it_list = length (pr_lists p), it_index = 0\<rparr>"
    by (auto simp: voteIterator_def newList_def Let_def)
  have "peer_inv p'" using assms(1) unfolding p' peer_inv_def by (fastforce split: if_splits)
  moreover have "votes_at p' k = votes_at p k" for k
    using assms(1) None by (auto simp: p' votes_at_def peer_inv_def nth_append split: option.split)
  ultimately show ?thesis by (simp add: it p' iterator_of_def)
qed (use assms in \<open>auto simp: voteIterator_def iterator_of_def\<close>)

text \<open>
  C14: an iterator created by \<open>voteIterator\<close> and used while votes keep arriving returns the votes of
  its round and step in the order of arrival, each once, without a gap: what the reads returned is a
  prefix of the list at the end of the run, and it is the whole list as soon as a further read
  returns nil.
\<close>

theorem iterator_in_order:
  assumes "peer_inv p" and "voteIterator p r s = (it, p1)" and "run_ops ops p1 it = (seen, p2, it2)"
  shows "seen = take (length seen) (getIncomingMsgs p2 r s)
    \<and> (fst (Iterator_next (pr_lists p2) it2) = None \<longrightarrow> seen = getIncomingMsgs p2 r s)"
proof -
  let ?k = "constructVoteKey r s"
  note i = voteIterator_spec [OF assms(1,2)]
  then have p1: "peer_inv p1" "iterator_of p1 ?k it" and i0: "it_index it = 0" by auto
  note o = run_ops_spec [OF p1 assms(3)]
  from o i0 have pre: "seen = take (length seen) (votes_at p2 ?k)" and idx: "it_index it2 = length seen"
    by auto
  have "length (votes_at p2 ?k) \<le> length seen" if "fst (Iterator_next (pr_lists p2) it2) = None"
    using that o idx Iterator_next_votes [of p2 ?k it2] by (auto split: if_splits)
  with pre show ?thesis unfolding getIncomingMsgs_votes_at by (metis take_all_iff)
qed

theorem iterator_in_order_witness:
  "let (it, p1) = voteIterator newPeer 4 1;
       (seen, p2, it2) = run_ops [Read, Arrive sample_vote, Read, Read, Arrive (sample_vote\<lparr>vm_VRF := []\<rparr>), Read] p1 it
   in seen = [sample_vote, sample_vote\<lparr>vm_VRF := []\<rparr>] \<and> seen = take (length seen) (getIncomingMsgs p2 4 1)"
proof -
  obtain it p1 where i: "voteIterator newPeer 4 1 = (it, p1)" by fastforce
  let ?ops = "[Read, Arrive sample_vote, Read, Read, Arrive (sample_vote\<lparr>vm_VRF := []\<rparr>), Read]"
  obtain seen p2 it2 where o: "run_ops ?ops p1 it = (seen, p2, it2)" by (metis prod_cases3)
  have "it = \<lparr>it_list = 0, it_index = 0\<rparr>"
    and p1: "p1 = newPeer\<lparr>pr_lists := [[]], pr_incomingVotes := [constructVoteKey 4 1 \<mapsto> 0]\<rparr>"
    using i by (auto simp: voteIterator_def newPeer_def newList_def Let_def)
  then have "seen = [sample_vote, sample_vote\<lparr>vm_VRF := []\<rparr>]"
    using o by (simp add: Iterator_next_def List_get_def vote_list_defs sample_vote_def)
  with iterator_in_order [OF newPeer_inv i o] show ?thesis
    unfolding i o Let_def prod.case by blast
qed

section \<open>Blocks and proposals\<close>

text \<open>What \<open>Proposal.Verify\<close> is called with in \<open>handle\<close>.\<close>

definition proposal_ok :: "env \<Rightarrow> Blockchain \<Rightarrow> Proposal \<Rightarrow> bool outcome" where
  "proposal_ok E bc bp =
     obind (sortitionSeed bc (pp_Round bp)) (\<lambda>seed.
       Proposal_Verify (en_params E) (en_crypto E) bp (weight (en_params E) (Proposal_Address bp))
         (constructSeed (sl seed) (role proposer (pp_Round bp) PROPOSE)))"

text \<open>A sequence of messages, each handled to its end.\<close>

fun handle_all :: "env \<Rightarrow> Blockchain \<Rightarrow> (int \<times> bytes) list \<Rightarrow> Peer \<Rightarrow> Peer outcome" where
  "handle_all E bc [] p = Ok p"
| "handle_all E bc ((typ, data) # msgs) p =
     obind (handle E bc typ data p) (\<lambda>(p', err). handle_all E bc msgs p')"

text \<open>
  The invariant of a peer: separate vote lists, blocks under their own hash, and under each round a
  proposal of that round that passed verification.
\<close>

definition peer_wf :: "env \<Rightarrow> Blockchain \<Rightarrow> Peer \<Rightarrow> bool" where
  "peer_wf E bc p \<longleftrightarrow> peer_inv p
     \<and> (\<forall>h b. getBlock p h = Some b \<longrightarrow> Block_Hash b = h)
     \<and> (\<forall>r pp. getMaxProposal p r = Some pp \<longrightarrow> pp_Round pp = r \<and> proposal_ok E bc pp = Ok True)"

lemma newPeer_wf: "peer_wf E bc newPeer"
  by (simp add: peer_wf_def newPeer_inv) (simp add: newPeer_def getBlock_def getMaxProposal_def)

lemma table_frames [simp]:
  "getBlock (setMaxProposal r pp p) h = getBlock p h" "getMaxProposal (addBlock h b p) r = getMaxProposal p r"
  "getBlock (handle_vote v p) h = getBlock p h" "getMaxProposal (handle_vote v p) r = getMaxProposal p r"
  "peer_inv (setMaxProposal r pp p) = peer_inv p" "peer_inv (addBlock h b p) = peer_inv p"
  by (simp_all add: getBlock_def setMaxProposal_def getMaxProposal_def addBlock_def handle_vote_def
      peer_inv_def Let_def split: prod.split)

text \<open>The cases of a handled proposal.\<close>

lemma handle_proposal_cases:
  assumes "handle_proposal E bc typ bp p = Ok (p', err)"
  obtains (skip) mp where "getMaxProposal p (pp_Round bp) = Some mp" "p' = p"
      "typ = BLOCK_PROPOSAL \<and> bytes_compare (pp_Prior bp) (pp_Prior mp) \<le> 0 \<or> typ = FORK_PROPOSAL"
    | (refused) "proposal_ok E bc bp = Ok False" "p' = p"
    | (taken) "proposal_ok E bc bp = Ok True" "p' = setMaxProposal (pp_Round bp) bp p"
      "\<And>mp. getMaxProposal p (pp_Round bp) = Some mp \<Longrightarrow>
         \<not> (typ = BLOCK_PROPOSAL \<and> bytes_compare (pp_Prior bp) (pp_Prior mp) \<le> 0)
       \<and> \<not> (typ = FORK_PROPOSAL \<and> pp_Round bp \<le> pp_Round mp)"
proof -
  let ?skip = "\<lambda>mp. (typ = BLOCK_PROPOSAL \<and> bytes_compare (pp_Prior bp) (pp_Prior mp) \<le> 0)
      \<or> (typ = FORK_PROPOSAL \<and> pp_Round bp \<le> pp_Round mp)"
  let ?old = "getMaxProposal p (pp_Round bp)"
  show thesis
  proof (cases "\<exists>mp. ?old = Some mp \<and> ?skip mp")
    case True
    then obtain mp where mp: "?old = Some mp" "?skip mp" by blast
    with assms have "p' = p" by (simp add: handle_proposal_def Let_def)
    with mp that(1) show thesis by blast
  next
    case False
    then have "(case ?old of None \<Rightarrow> False | Some mp \<Rightarrow> ?skip mp) = False"
      by (auto split: option.split)
    then have "handle_proposal E bc typ bp p = obind (proposal_ok E bc bp) (\<lambda>ok.
        if \<not> ok then Ok (p, Some VerificationFailed) else Ok (setMaxProposal (pp_Round bp) bp p, None))"
      by (simp only: handle_proposal_def Let_def proposal_ok_def obind_assoc if_False)
    with assms obtain ok where "proposal_ok E bc bp = Ok ok"
      "p' = (if ok then setMaxProposal (pp_Round bp) bp p else p)"
      by (auto simp: outcome_simps split: if_splits)
    with False that(2,3) show thesis by (cases ok) auto
  qed
qed

lemma handle_proposal_first:
  "getMaxProposal p (pp_Round bp) = None \<Longrightarrow> handle_proposal E bc typ bp p =
     obind (proposal_ok E bc bp) (\<lambda>ok.
       if \<not> ok then Ok (p, Some VerificationFailed) else Ok (setMaxProposal (pp_Round bp) bp p, None))"
  by (simp add: handle_proposal_def proposal_ok_def obind_assoc)

lemma handle_proposal_wf:
  "peer_wf E bc p \<Longrightarrow> handle_proposal E bc typ bp p = Ok (p', err) \<Longrightarrow> peer_wf E bc p'"
  by (erule handle_proposal_cases) (auto simp: peer_wf_def proposals.lookup_put split: if_splits)

lemma handle_wf: "peer_wf E bc p \<Longrightarrow> handle E bc typ data p = Ok (p', err) \<Longrightarrow> peer_wf E bc p'"
  by (auto simp: handle_def peer_wf_def blocks.lookup_put handle_vote_inv
      split: if_splits option.splits dest: handle_proposal_wf [unfolded peer_wf_def, rotated])

lemma handle_all_keeps_wf:
  "handle_all E bc msgs p = Ok p' \<Longrightarrow> peer_wf E bc p \<Longrightarrow> peer_wf E bc p'"
proof (induction msgs arbitrary: p)
  case (Cons m msgs)
  then show ?case by (cases m) (auto simp: outcome_simps intro: handle_wf)
qed simp

text \<open>
  C11: whatever messages a peer receives, of whatever types and encodings, its invariant holds:
  every stored block sits under its own hash, every best proposal sits under its own round and has
  passed \<open>Proposal.Verify\<close>, and the vote lists of different keys never share storage.
\<close>

theorem handle_all_wf:
  assumes "handle_all E bc msgs newPeer = Ok p"
  shows "peer_wf E bc p"
  using assms newPeer_wf by (rule handle_all_keeps_wf)

text \<open>The priority stored for a round never decreases while messages are handled one after another.\<close>

lemma handle_prior_mono:
  assumes "peer_wf E bc p" "handle E bc typ data p = Ok (p', err)" "getMaxProposal p r = Some mp"
  shows "\<exists>mp'. getMaxProposal p' r = Some mp' \<and> bytes_compare (pp_Prior mp) (pp_Prior mp') \<le> 0"
proof (cases "(typ = BLOCK_PROPOSAL \<or> typ = FORK_PROPOSAL) \<and> dec_proposal (en_codec E) data \<noteq> None")
  case False
  with assms(2,3) show ?thesis
    by (auto simp: handle_def msg_tags split: if_splits option.splits)
next
  case True
  then obtain bp where bp: "handle_proposal E bc typ bp p = Ok (p', err)"
    using assms(2) by (auto simp: handle_def msg_tags)
  then show ?thesis
  proof (cases rule: handle_proposal_cases)
    case taken
    show ?thesis
    proof (cases "pp_Round bp = r")
      case same: True
      then have "pp_Round mp = r" using assms(1,3) by (simp add: peer_wf_def)
      with taken(3) [of mp] True same assms(3)
      have "bytes_compare (pp_Prior mp) (pp_Prior bp) \<le> 0"
        using bytes_compare_antisym [of "pp_Prior mp" "pp_Prior bp"] by auto
      with same taken(2) show ?thesis by (auto simp: proposals.lookup_put)
    qed (use taken assms(3) in \<open>auto simp: proposals.lookup_put\<close>)
  qed (use assms(3) in auto)
qed

lemma handle_all_prior_mono:
  assumes "peer_wf E bc p" "handle_all E bc msgs p = Ok p'" "getMaxProposal p r = Some mp"
  shows "\<exists>mp'. getMaxProposal p' r = Some mp' \<and> bytes_compare (pp_Prior mp) (pp_Prior mp') \<le> 0"
  using assms
proof (induction msgs arbitrary: p mp)
  case (Cons m msgs)
  obtain q err where h: "handle E bc (fst m) (snd m) p = Ok (q, err)" and all: "handle_all E bc msgs q = Ok p'"
    using Cons.prems(2) by (cases m) (auto simp: outcome_simps)
  obtain mq where q: "getMaxProposal q r = Some mq" "bytes_compare (pp_Prior mp) (pp_Prior mq) \<le> 0"
    using handle_prior_mono [OF Cons.prems(1) h Cons.prems(3)] by blast
  from Cons.IH [OF handle_wf [OF Cons.prems(1) h] all q(1)] q(2) show ?case
    by (blast intro: bytes_compare_le_trans)
qed auto

lemma handle_all_append:
  "handle_all E bc (ms @ ns) p = obind (handle_all E bc ms p) (handle_all E bc ns)"
  by (induction ms arbitrary: p) (auto simp: obind_assoc split: prod.splits intro!: arg_cong2 [where f = obind])

text \<open>
  C13: the best proposal wins, as long as the messages are handled one after another and the node stores
  no proposal of its own in between. After any sequence of messages that a new peer handles without a
  crash, for every block proposal among them that passes verification the peer holds a proposal of the
  same round whose priority is at least as high. (Without these two conditions it does not hold: see
  \<open>any_proposal_can_win\<close> and \<open>own_proposal_replaces\<close> of the theory \<open>Proposal_Race\<close>.)
\<close>

theorem best_proposal_kept:
  assumes "handle_all E bc (ms @ (BLOCK_PROPOSAL, data) # ns) newPeer = Ok p"
    and "dec_proposal (en_codec E) data = Some bp" and "proposal_ok E bc bp = Ok True"
  shows "\<exists>mp. getMaxProposal p (pp_Round bp) = Some mp \<and> pp_Round mp = pp_Round bp
    \<and> bytes_compare (pp_Prior bp) (pp_Prior mp) \<le> 0"
proof -
  obtain q where q: "handle_all E bc ms newPeer = Ok q"
    and rest: "handle_all E bc ((BLOCK_PROPOSAL, data) # ns) q = Ok p"
    using assms(1) by (auto simp: handle_all_append outcome_simps)
  note wq = handle_all_keeps_wf [OF q newPeer_wf]
  obtain q1 err where h: "handle_proposal E bc BLOCK_PROPOSAL bp q = Ok (q1, err)"
    and ns: "handle_all E bc ns q1 = Ok p"
    using rest assms(2) by (auto simp: outcome_simps handle_def msg_tags)
  from h obtain m1 where m1: "getMaxProposal q1 (pp_Round bp) = Some m1"
    "bytes_compare (pp_Prior bp) (pp_Prior m1) \<le> 0"
    by (cases rule: handle_proposal_cases) (auto simp: msg_tags assms(3) proposals.lookup_put)
  note w1 = handle_proposal_wf [OF wq h]
  obtain mp where mp: "getMaxProposal p (pp_Round bp) = Some mp" "bytes_compare (pp_Prior m1) (pp_Prior mp) \<le> 0"
    using handle_all_prior_mono [OF w1 ns m1(1)] by blast
  moreover have "pp_Round mp = pp_Round bp"
    using handle_all_keeps_wf [OF ns w1] mp(1) by (simp add: peer_wf_def)
  ultimately show ?thesis using m1(2) by (blast intro: bytes_compare_le_trans)
qed

text \<open>A concrete environment: one user with 26 tokens, and an encoding whose decoders are constant.\<close>

definition sample_params :: params where
  "sample_params = \<lparr>UserAmount = 1, TokenPerUser = 26, Malicious = 0, NetworkLatency = 0\<rparr>"

definition sample_users :: nat where
  "sample_users = card {i \<in> {1..26}. token_cdf sample_params 26 26 (int i) \<le> vrf_fraction (replicate 32 9)}"

definition sample_proposal :: Proposal where
  "sample_proposal = \<lparr>pp_Round = 4, pp_Hash = replicate 32 7, pp_Prior = maxPriority (replicate 32 9) sample_users,
     pp_VRF = replicate 32 9, pp_Proof = [0], pp_Pubkey = replicate 32 5\<rparr>"

definition sample_env :: env where
  "sample_env = \<lparr>en_params = sample_params, en_crypto = echo_crypto,
     en_codec = \<lparr>enc_block = (\<lambda>_. []), dec_block = (\<lambda>_. Some zero_block),
       enc_proposal = (\<lambda>_. []), dec_proposal = (\<lambda>_. Some sample_proposal),
       enc_vote = (\<lambda>_. []), dec_vote = (\<lambda>_. Some sample_vote)\<rparr>,
     en_rand = (\<lambda>n. 0), en_now = (\<lambda>n. 0)\<rparr>"

lemma sample_subUsers: "subUsers sample_params 26 26 (replicate 32 9) = Ok sample_users"
proof -
  have "token_amounts_ok sample_params 26 26"
    by (simp add: token_amounts_ok_def sample_params_def TotalTokenAmount_def)
  from subUsers_slots [OF this, of "replicate 32 9"] vrf_fraction_bounds [of "replicate 32 9"]
  show ?thesis by (simp add: sample_users_def HashLength_def)
qed

lemma sample_seed: "sortitionSeed sample_chain 4 = Ok None"
proof -
  have "getByRound sample_chain 0 = Ok (Some (sample_block 3 (sample_hash 2)))"
    by (simp add: getByRound_0 sample_last)
  then show ?thesis by (simp add: sortitionSeed_def R_def sample_block_def zero_block_def)
qed

lemma sample_proposal_ok: "proposal_ok sample_env sample_chain sample_proposal = Ok True"
  using sample_subUsers
  by (simp add: proposal_ok_def sample_proposal_def sample_seed Proposal_Verify_def VerifyVRF_bad_sign
      weight_def expectedBlockProposers_def sample_env_def) (simp add: sample_params_def)

lemma sample_run: "handle_all sample_env sample_chain [(VOTE, []), (BLOCK_PROPOSAL, []), (BLOCK, [])] newPeer
    = Ok (addBlock (Block_Hash zero_block) zero_block (setMaxProposal 4 sample_proposal (handle_vote sample_vote newPeer)))"
proof -
  have r: "pp_Round sample_proposal = 4" by (simp add: sample_proposal_def)
  have "getMaxProposal (handle_vote sample_vote newPeer) 4 = None"
    by (simp only: table_frames) (simp add: getMaxProposal_def newPeer_def)
  then have "handle_proposal sample_env sample_chain BLOCK_PROPOSAL sample_proposal (handle_vote sample_vote newPeer)
      = Ok (setMaxProposal 4 sample_proposal (handle_vote sample_vote newPeer), None)"
    by (simp add: handle_proposal_first r sample_proposal_ok)
  then show ?thesis by (simp add: handle_def msg_tags sample_env_def)
qed

theorem handle_all_wf_witness:
  "peer_wf sample_env sample_chain (addBlock (Block_Hash zero_block) zero_block
     (setMaxProposal 4 sample_proposal (handle_vote sample_vote newPeer)))"
  using handle_all_wf [OF sample_run] .

theorem best_proposal_kept_witness:
  "\<exists>p mp. handle_all sample_env sample_chain [(VOTE, []), (BLOCK_PROPOSAL, []), (BLOCK, [])] newPeer = Ok p
     \<and> getMaxProposal p 4 = Some mp \<and> bytes_compare (pp_Prior sample_proposal) (pp_Prior mp) \<le> 0"
proof -
  have d: "dec_proposal (en_codec sample_env) [] = Some sample_proposal" by (simp add: sample_env_def)
  have "pp_Round sample_proposal = 4" by (simp add: sample_proposal_def)
  with best_proposal_kept [of sample_env sample_chain "[(VOTE, [])]" "[]" "[(BLOCK, [])]", OF _ d sample_proposal_ok]
    sample_run show ?thesis by auto
qed

section \<open>Fork proposals and crashes\<close>

text \<open>
  A fork proposal never replaces a proposal. Once a peer holds a proposal for a round, block or
  fork, every further fork proposal of that round is dropped without being verified: the first one
  wins, whatever the priorities.
\<close>

theorem fork_proposal_first_wins:
  assumes "peer_wf E bc p" and "getMaxProposal p (pp_Round bp) = Some mp"
    and "dec_proposal (en_codec E) data = Some bp"
  shows "handle E bc FORK_PROPOSAL data p = Ok (p, None)"
proof -
  have "pp_Round mp = pp_Round bp" using assms(1,2) by (simp add: peer_wf_def)
  with assms(2,3) show ?thesis by (simp add: handle_def handle_proposal_def msg_tags)
qed

theorem fork_proposal_first_wins_witness:
  "handle sample_env sample_chain FORK_PROPOSAL [] (setMaxProposal 4 sample_proposal newPeer)
     = Ok (setMaxProposal 4 sample_proposal newPeer, None)"
proof (rule fork_proposal_first_wins)
  have "peer_wf sample_env sample_chain newPeer" by (rule newPeer_wf)
  with sample_proposal_ok show "peer_wf sample_env sample_chain (setMaxProposal 4 sample_proposal newPeer)"
    by (auto simp: peer_wf_def proposals.lookup_put sample_proposal_def)
qed (simp_all add: sample_env_def sample_proposal_def)

text \<open>The round before round 0 is the largest number, which the chain does not reach.\<close>

lemma sortitionSeed_round_0:
  assumes "bc_last bc = Some l" "parent_only_below bc l" "blk_Round l \<noteq> - 1"
  shows "sortitionSeed bc 0 = Panic"
proof -
  have "sortitionSeed bc 0 = obind (getByRound bc (- 1)) (\<lambda>b. obind (deref b) (\<lambda>blk. Ok (blk_Seed blk)))"
    by (simp add: sortitionSeed_get R_def)
  with assms show ?thesis by (simp add: getByRound_cases [OF assms(1,2)])
qed

text \<open>
  One remote message can crash a node. A block or fork proposal for round 0 makes \<open>handle\<close>
  panic on every chain whose last block has its parent stored only below it (and a round below the
  largest number), whatever the signature, proof and priority of the proposal, as long as the peer
  holds no proposal for round 0.
\<close>

theorem round_0_proposal_panics:
  assumes "bc_last bc = Some l" "parent_only_below bc l" "blk_Round l \<noteq> - 1"
    and "typ = BLOCK_PROPOSAL \<or> typ = FORK_PROPOSAL"
    and "dec_proposal (en_codec E) data = Some bp" and "pp_Round bp = 0" and "getMaxProposal p 0 = None"
  shows "handle E bc typ data p = Panic"
  using assms sortitionSeed_round_0 [OF assms(1-3)]
  by (auto simp: handle_def handle_proposal_first proposal_ok_def msg_tags)

theorem round_0_proposal_panics_witness:
  "handle (sample_env\<lparr>en_codec := (en_codec sample_env)\<lparr>dec_proposal := \<lambda>_. Some (sample_proposal\<lparr>pp_Round := 0\<rparr>)\<rparr>\<rparr>)
     sample_chain BLOCK_PROPOSAL [] newPeer = Panic"
  using round_0_proposal_panics [OF sample_last sample_parent_only_below, of BLOCK_PROPOSAL
      "sample_env\<lparr>en_codec := (en_codec sample_env)\<lparr>dec_proposal := \<lambda>_. Some (sample_proposal\<lparr>pp_Round := 0\<rparr>)\<rparr>\<rparr>"
      "[]" "sample_proposal\<lparr>pp_Round := 0\<rparr>" newPeer]
  by (simp add: newPeer_def getMaxProposal_def)

section \<open>Gossip\<close>

lemma halfGossip_loop_filter:
  "e \<le> length peers \<Longrightarrow> halfGossip_loop self peers b e = filter (\<lambda>i. i \<noteq> self) (drop b (take e peers))"
proof (induction self peers b e rule: halfGossip_loop.induct)
  case (1 self peers b e)
  show ?case
  proof (cases "b < e")
    case True
    with "1.prems" have "drop b (take e peers) = peers ! b # drop (Suc b) (take e peers)"
      by (metis Cons_nth_drop_Suc length_take min.absorb2 nth_take)
    with True 1 show ?thesis by (simp add: halfGossip_loop.simps [of self peers b e])
  qed (simp add: halfGossip_loop.simps [of self peers b e])
qed

text \<open>
  With the same order of peers, the two calls of \<open>halfGossip\<close> split the peers that \<open>gossip\<close>
  reaches: the first half and then the second half together are exactly the other peers, in order,
  none twice; neither half contains the sender.
\<close>

theorem halfGossip_halves:
  "halfGossip self peers 0 @ halfGossip self peers 1 = gossip self peers
   \<and> self \<notin> set (gossip self peers)
   \<and> (distinct peers \<longrightarrow> set (halfGossip self peers 0) \<inter> set (halfGossip self peers 1) = {})"
proof -
  let ?n = "length peers div 2"
  have n: "?n \<le> length peers" by simp
  have "halfGossip self peers 0 = filter (\<lambda>i. i \<noteq> self) (take ?n peers)"
    using n by (simp add: halfGossip_def halfGossip_loop_filter)
  moreover have "halfGossip self peers 1 = filter (\<lambda>i. i \<noteq> self) (drop ?n peers)"
    by (simp add: halfGossip_def halfGossip_loop_filter)
  moreover have "set (take ?n peers) \<inter> set (drop ?n peers) = {}" if "distinct peers"
    using that by (simp add: set_take_disj_set_drop_if_distinct)
  ultimately show ?thesis by (auto simp: gossip_def simp flip: filter_append)
qed

theorem halfGossip_halves_witness:
  "set (halfGossip 2 [0, 1, 2, 3, 4] 0) \<inter> set (halfGossip 2 [0, 1, 2, 3, 4] 1) = {}"
  using halfGossip_halves [of 2 "[0, 1, 2, 3, 4]"] by simp

end
