(* ===== verification/Node.thy ===== *)
theory Node
  imports Peer
begin

text \<open>
  The node and its consensus procedures (\<open>src/algorand.go\<close>). The state is the struct \<open>Algorand\<close> with
  what surrounds the goroutine: the events still to come, the number of draws of randomness, the
  messages handed to gossip and whether the channel \<open>hangForever\<close> is closed. A procedure is a function
  from the state to an outcome with its result and the new state; \<open>Blocked\<close> means that the procedure
  still waits when the given events are used up.
\<close>

section \<open>State\<close>

text \<open>
  What happens around the running goroutine, in the order it happens: a message is handled by
  \<open>Peer.handle\<close> in its own goroutine (\<open>Deliver\<close>); the timer that the goroutine waits for fires
  (\<open>Fire\<close>); the goroutine makes one turn of its loop, or its ticker ticks (\<open>Turn\<close>); the fork loop
  closes the channel \<open>hangForever\<close> (\<open>Release\<close>) or replaces it by a new one (\<open>Renew\<close>).
\<close>

datatype event = Deliver int bytes | Fire | Turn | Release | Renew

text \<open>A message handed to \<open>go peer.gossip\<close>, or to \<open>go peer.halfGossip\<close> with its half.\<close>

datatype gossip_call = Gossip int bytes | HalfGossip int bytes nat

record Algorand =
  alg_maliciousType :: int
  alg_id :: PID
  alg_privkey :: bytes
  alg_pubkey :: bytes
  alg_chain :: Blockchain
  alg_peer :: Peer

record world = Algorand +
  w_events :: "event list"
  w_draws :: nat
  w_sent :: "gossip_call list"
  w_released :: bool

text \<open>
  \<open>NewAlgorand\<close>, with the key pair that \<open>NewKeyPair\<close> returned. On an error, which the code drops, both keys are
  nil pointers in Go and empty here. Every use of a nil key is a panic; the first one is in the block
  proposal of the first round, and there the model panics as well (\<open>no_keys_panic\<close> of the theory \<open>Rounds\<close>).
\<close>

definition NewAlgorand :: "(bytes \<times> bytes) option \<Rightarrow> PID \<Rightarrow> int \<Rightarrow> Algorand" where
  "NewAlgorand generated i maliciousType =
     (let (pub, priv) = (case NewKeyPair generated of None \<Rightarrow> ([], []) | Some ks \<Rightarrow> ks)
      in \<lparr>alg_maliciousType = maliciousType, alg_id = i, alg_privkey = priv, alg_pubkey = pub,
          alg_chain = newBlockchain, alg_peer = newPeer\<rparr>)"

definition lastBlock :: "('a) Algorand_scheme \<Rightarrow> Block outcome" where
  "lastBlock w = deref (bc_last (alg_chain w))"

definition current_round :: "('a) Algorand_scheme \<Rightarrow> u64 outcome" where
  "current_round w = obind (lastBlock w) (\<lambda>b. Ok (blk_Round b))"

definition Address :: "('a) Algorand_scheme \<Rightarrow> address" where
  "Address w = BytesToAddress (PublicKey_Bytes (alg_pubkey w))"

definition tokenOwn :: "env \<Rightarrow> ('a) Algorand_scheme \<Rightarrow> u64" where
  "tokenOwn E w = weight (en_params E) (Address w)"

section \<open>Events\<close>

fun apply_event :: "env \<Rightarrow> event \<Rightarrow> world \<Rightarrow> world outcome" where
  "apply_event E (Deliver typ data) w =
     obind (handle E (alg_chain w) typ data (alg_peer w)) (\<lambda>(p, err). Ok (w\<lparr>alg_peer := p\<rparr>))"
| "apply_event E Release w = Ok (w\<lparr>w_released := True\<rparr>)"
| "apply_event E Renew w = Ok (w\<lparr>w_released := False\<rparr>)"
| "apply_event E _ w = Ok w"

section \<open>Sortition and votes\<close>

text \<open>The error of \<open>Evaluate\<close> is ignored: value and proof are then nil.\<close>

definition sortition ::
  "env \<Rightarrow> bytes \<Rightarrow> bytes \<Rightarrow> int \<Rightarrow> u64 \<Rightarrow> world \<Rightarrow> ((bytes \<times> bytes \<times> nat) \<times> world) outcome" where
  "sortition E seed rl expectedNum wt w =
     obind (Evaluate (en_crypto E) (w_draws w) (alg_privkey w) (constructSeed seed rl)) (\<lambda>e.
       let (vrf, pfb) = (case e of None \<Rightarrow> ([], []) | Some vp \<Rightarrow> vp)
       in obind (subUsers (en_params E) expectedNum wt vrf) (\<lambda>selected.
            Ok ((vrf, pfb, selected), w\<lparr>w_draws := Suc (w_draws w)\<rparr>)))"

definition verifySort ::
  "env \<Rightarrow> ('a) Algorand_scheme \<Rightarrow> bytes \<Rightarrow> bytes \<Rightarrow> bytes \<Rightarrow> bytes \<Rightarrow> int \<Rightarrow> nat outcome" where
  "verifySort E w vrf pfb seed rl expectedNum =
     obind (VerifyVRF (en_crypto E) (alg_pubkey w) pfb (constructSeed seed rl)) (\<lambda>ok.
       if \<not> ok then Ok 0 else subUsers (en_params E) expectedNum (tokenOwn E w) vrf)"

text \<open>
  The body of \<open>if j > 0\<close> in \<open>committeeVote\<close>: the vote is signed and handed to gossip. The flag of both
  definitions says whether the returned error is nil.
\<close>

definition cast_vote :: "env \<Rightarrow> u64 \<Rightarrow> int \<Rightarrow> hash \<Rightarrow> bytes \<Rightarrow> bytes \<Rightarrow> world \<Rightarrow> (bool \<times> world) outcome" where
  "cast_vote E rnd step hash vrf pfb w =
     obind (lastBlock w) (\<lambda>l.
       let voteMsg = \<lparr>vm_Signature = [], vm_Round = rnd, vm_Step = step, vm_VRF = vrf,
             vm_Proof = pfb, vm_ParentHash = Block_Hash l, vm_Hash = hash\<rparr>
       in case Vote_Sign (en_crypto E) (alg_privkey w) voteMsg of
            None \<Rightarrow> Ok (False, w)
          | Some v \<Rightarrow> Ok (True, w\<lparr>w_sent := w_sent w @ [Gossip VOTE (enc_vote (en_codec E) v)]\<rparr>))"

definition committeeVote :: "env \<Rightarrow> u64 \<Rightarrow> int \<Rightarrow> int \<Rightarrow> hash \<Rightarrow> world \<Rightarrow> (bool \<times> world) outcome" where
  "committeeVote E rnd step expectedNum hash w =
     (if alg_maliciousType w = EvilVoteNothing then Ok (True, w)
      else
        obind (sortitionSeed (alg_chain w) rnd) (\<lambda>seed.
        obind (sortition E (sl seed) (role committee rnd step) expectedNum (tokenOwn E w) w) (\<lambda>((vrf, pfb, j), w).
          if j > 0 then cast_vote E rnd step hash vrf pfb w else Ok (True, w))))"

text \<open>\<open>processMsg\<close>: votes, hash and VRF value; the zero values for a message that is discarded.\<close>

definition processMsg ::
  "env \<Rightarrow> ('a) Algorand_scheme \<Rightarrow> VoteMessage \<Rightarrow> int \<Rightarrow> (nat \<times> hash \<times> bytes) outcome" where
  "processMsg E w message expectedNum =
     obind (Vote_VerifySign (en_crypto E) message) (\<lambda>ok.
       if \<not> ok then Ok (0, zero_hash, [])
       else
         obind (lastBlock w) (\<lambda>l.
           if vm_ParentHash message \<noteq> Block_Hash l then Ok (0, zero_hash, [])
           else
             obind (sortitionSeed (alg_chain w) (vm_Round message)) (\<lambda>seed.
             obind (verifySort E w (vm_VRF message) (vm_Proof message) (sl seed)
                      (role committee (vm_Round message) (vm_Step message)) expectedNum) (\<lambda>votes.
               Ok (votes, vm_Hash message, vm_VRF message)))))"

section \<open>Counting votes\<close>

text \<open>
  The loop of \<open>countVotes\<close>. \<open>fired\<close> says that the timer has fired, which the loop notices only when
  the iterator has nothing to give.
\<close>

fun countVotes_loop ::
  "env \<Rightarrow> int \<Rightarrow> nat \<Rightarrow> event list \<Rightarrow> bool \<Rightarrow> Iterator \<Rightarrow> (hash \<Rightarrow> nat) \<Rightarrow> bytes set \<Rightarrow> world
     \<Rightarrow> (hash option \<times> world) outcome" where
  "countVotes_loop E expectedNum needed [] fired it counts voters w = Blocked"
| "countVotes_loop E expectedNum needed (Fire # es) fired it counts voters w =
     countVotes_loop E expectedNum needed es True it counts voters w"
| "countVotes_loop E expectedNum needed (Turn # es) fired it counts voters w =
     (case Iterator_next (pr_lists (alg_peer w)) it of
        (None, it') \<Rightarrow>
          if fired then Ok (None, w\<lparr>w_events := es\<rparr>)
          else countVotes_loop E expectedNum needed es fired it' counts voters w
      | (Some msg, it') \<Rightarrow>
          obind (processMsg E w msg expectedNum) (\<lambda>(votes, hash, vrf).
          obind (Vote_RecoverPubkey msg) (\<lambda>pubkey.
            if pubkey \<in> voters \<or> votes = 0
            then countVotes_loop E expectedNum needed es fired it' counts voters w
            else
              let counts' = counts(hash := counts hash + votes)
              in if counts' hash \<ge> needed then Ok (Some hash, w\<lparr>w_events := es\<rparr>)
                 else countVotes_loop E expectedNum needed es fired it' counts' (insert pubkey voters) w)))"
| "countVotes_loop E expectedNum needed (e # es) fired it counts voters w =
     obind (apply_event E e w) (\<lambda>w'.
       countVotes_loop E expectedNum needed es fired it counts voters w')"

text \<open>\<open>countVotes\<close>: the hash, or \<open>None\<close> for \<open>errCountVotesTimeout\<close>.\<close>

definition countVotes :: "env \<Rightarrow> u64 \<Rightarrow> int \<Rightarrow> rat \<Rightarrow> int \<Rightarrow> world \<Rightarrow> (hash option \<times> world) outcome" where
  "countVotes E rnd step threshold expectedNum w =
     (let (it, p) = voteIterator (alg_peer w) rnd step
      in countVotes_loop E expectedNum (vote_threshold expectedNum threshold) (w_events w) False it
           (\<lambda>_. 0) {} (w\<lparr>alg_peer := p\<rparr>))"

section \<open>The common coin\<close>

text \<open>\<open>for j := 1; j < votes; j++\<close> over the sub-user hashes.\<close>

fun coin_hashes :: "bytes \<Rightarrow> nat list \<Rightarrow> nat \<Rightarrow> nat" where
  "coin_hashes vrf [] minhash = minhash"
| "coin_hashes vrf (j # js) minhash =
     (let h = be_nat (Hash_Bytes (Sha256 (vrf @ Uint2Bytes (word_of_nat j))))
      in coin_hashes vrf js (if h < minhash then h else minhash))"

fun coin_loop :: "env \<Rightarrow> ('a) Algorand_scheme \<Rightarrow> int \<Rightarrow> VoteMessage list \<Rightarrow> nat \<Rightarrow> nat outcome" where
  "coin_loop E w expectedNum [] minhash = Ok minhash"
| "coin_loop E w expectedNum (m # ms) minhash =
     obind (processMsg E w m expectedNum) (\<lambda>(votes, hash, vrf).
       coin_loop E w expectedNum ms (coin_hashes vrf [1..<votes] minhash))"

definition commonCoin :: "env \<Rightarrow> ('a) Algorand_scheme \<Rightarrow> u64 \<Rightarrow> int \<Rightarrow> int \<Rightarrow> int outcome" where
  "commonCoin E w rnd step expectedNum =
     (let minhash = 2 ^ HashLength; msgList = getIncomingMsgs (alg_peer w) rnd step
      in obind (coin_loop E w expectedNum msgList minhash) (\<lambda>m. Ok (int (m mod 2))))"

section \<open>Reduction and binary agreement\<close>

definition reduction :: "env \<Rightarrow> u64 \<Rightarrow> hash \<Rightarrow> world \<Rightarrow> (hash \<times> world) outcome" where
  "reduction E rnd hash w =
     obind (committeeVote E rnd REDUCTION_ONE expectedCommitteeMembers hash w) (\<lambda>(_, w).
     obind (countVotes E rnd REDUCTION_ONE thresholdOfBAStep expectedCommitteeMembers w) (\<lambda>(hash1, w).
     obind (lastBlock w) (\<lambda>l.
       let emptyh = emptyHash rnd (Block_Hash l)
       in obind (committeeVote E rnd REDUCTION_TWO expectedCommitteeMembers
                   (case hash1 of None \<Rightarrow> emptyh | Some h \<Rightarrow> h) w) (\<lambda>(_, w).
          obind (countVotes E rnd REDUCTION_TWO thresholdOfBAStep expectedCommitteeMembers w) (\<lambda>(hash2, w).
            case hash2 of None \<Rightarrow> Ok (emptyh, w) | Some h \<Rightarrow> Ok (h, w))))))"

text \<open>\<open>committeeVote\<close> for \<open>s = step + 1, step + 2, step + 3\<close>.\<close>

definition vote_next_three :: "env \<Rightarrow> u64 \<Rightarrow> int \<Rightarrow> hash \<Rightarrow> world \<Rightarrow> world outcome" where
  "vote_next_three E rnd step r w =
     obind (committeeVote E rnd (step + 1) expectedCommitteeMembers r w) (\<lambda>(_, w).
     obind (committeeVote E rnd (step + 2) expectedCommitteeMembers r w) (\<lambda>(_, w).
     obind (committeeVote E rnd (step + 3) expectedCommitteeMembers r w) (\<lambda>(_, w). Ok w)))"

text \<open>A committee vote followed by a count, as each sub-step of \<open>binaryBA\<close> starts.\<close>

definition vote_and_count :: "env \<Rightarrow> u64 \<Rightarrow> int \<Rightarrow> hash \<Rightarrow> world \<Rightarrow> (hash option \<times> world) outcome" where
  "vote_and_count E rnd step r w =
     obind (committeeVote E rnd step expectedCommitteeMembers r w) (\<lambda>(_, w).
       countVotes E rnd step thresholdOfBAStep expectedCommitteeMembers w)"

text \<open>\<open><-alg.hangForever\<close>: wait until the channel is closed.\<close>

fun hang :: "env \<Rightarrow> event list \<Rightarrow> world \<Rightarrow> world outcome" where
  "hang E es w =
     (if w_released w then Ok (w\<lparr>w_events := es\<rparr>)
      else case es of [] \<Rightarrow> Blocked | e # es' \<Rightarrow> obind (apply_event E e w) (hang E es'))"

declare hang.simps [simp del]

text \<open>
  The three sub-steps of one turn of \<open>binaryBA\<close>'s loop. \<open>Inl\<close> is a returned hash, \<open>Inr\<close> the value of
  \<open>r\<close> that goes on.
\<close>

definition ba_first ::
  "env \<Rightarrow> u64 \<Rightarrow> hash \<Rightarrow> hash \<Rightarrow> int \<Rightarrow> hash \<Rightarrow> world \<Rightarrow> ((hash + hash) \<times> world) outcome" where
  "ba_first E rnd hash emptyh step r w =
     obind (vote_and_count E rnd step r w) (\<lambda>(c, w).
       case c of
         None \<Rightarrow> Ok (Inr hash, w)
       | Some r \<Rightarrow>
           if r \<noteq> emptyh then
             obind (vote_next_three E rnd step r w) (\<lambda>w.
             obind (if step = 1 then committeeVote E rnd FINAL expectedFinalCommitteeMembers r w
                    else Ok (True, w)) (\<lambda>(_, w).
               Ok (Inl r, w)))
           else Ok (Inr r, w))"

definition ba_second ::
  "env \<Rightarrow> u64 \<Rightarrow> hash \<Rightarrow> int \<Rightarrow> hash \<Rightarrow> world \<Rightarrow> ((hash + hash) \<times> world) outcome" where
  "ba_second E rnd emptyh step r w =
     obind (vote_and_count E rnd step r w) (\<lambda>(c, w).
       case c of
         None \<Rightarrow> Ok (Inr emptyh, w)
       | Some r \<Rightarrow>
           if r = emptyh then obind (vote_next_three E rnd step r w) (\<lambda>w. Ok (Inl r, w))
           else Ok (Inr r, w))"

definition ba_third ::
  "env \<Rightarrow> u64 \<Rightarrow> hash \<Rightarrow> hash \<Rightarrow> int \<Rightarrow> hash \<Rightarrow> world \<Rightarrow> (hash \<times> world) outcome" where
  "ba_third E rnd hash emptyh step r w =
     obind (vote_and_count E rnd step r w) (\<lambda>(c, w).
       case c of
         None \<Rightarrow>
           obind (commonCoin E w rnd step expectedCommitteeMembers) (\<lambda>coin.
             Ok (if coin = 0 then hash else emptyh, w))
       | Some r \<Rightarrow> Ok (r, w))"

text \<open>The loop of \<open>binaryBA\<close>; the third sub-step does not increment \<open>step\<close>.\<close>

function binaryBA_loop ::
  "env \<Rightarrow> u64 \<Rightarrow> hash \<Rightarrow> hash \<Rightarrow> int \<Rightarrow> hash \<Rightarrow> world \<Rightarrow> (hash \<times> world) outcome" where
  "binaryBA_loop E rnd hash emptyh step r w =
     (if step < MAXSTEPS then
        obind (ba_first E rnd hash emptyh step r w) (\<lambda>(x, w).
          case x of Inl r \<Rightarrow> Ok (r, w)
          | Inr r \<Rightarrow>
        obind (ba_second E rnd emptyh (step + 1) r w) (\<lambda>(x, w).
          case x of Inl r \<Rightarrow> Ok (r, w)
          | Inr r \<Rightarrow>
        obind (ba_third E rnd hash emptyh (step + 2) r w) (\<lambda>(r, w).
          binaryBA_loop E rnd hash emptyh (step + 2) r w)))
      else obind (hang E (w_events w) w) (\<lambda>w. Ok (zero_hash, w)))"
  by pat_completeness auto
termination
  by (relation "measure (\<lambda>(E, rnd, hash, emptyh, step, r, w). nat (MAXSTEPS - step))") auto

declare binaryBA_loop.simps [simp del]

definition binaryBA :: "env \<Rightarrow> u64 \<Rightarrow> hash \<Rightarrow> world \<Rightarrow> (hash \<times> world) outcome" where
  "binaryBA E rnd hash w =
     obind (lastBlock w) (\<lambda>l.
       binaryBA_loop E rnd hash (emptyHash rnd (Block_Hash l)) 1 hash w)"

section \<open>BA*\<close>

text \<open>
  \<open>newBlk.Type = t\<close> writes through the pointer: the cached block changes too. \<open>cached\<close> says that the
  pointer is the one of the block cache. If the same block object was also added to the chain before,
  its entry in the index changes in Go too, and here it keeps its type. No code reads the field, and the
  hash of a block does not cover it (\<open>Block_Hash_type\<close>), so that no result depends on the difference.
\<close>

definition set_type :: "bool \<Rightarrow> hash \<Rightarrow> int \<Rightarrow> Block option \<Rightarrow> world \<Rightarrow> (Block \<times> world) outcome" where
  "set_type cached hash t b w =
     obind (deref b) (\<lambda>blk.
       let blk' = blk\<lparr>blk_Type := t\<rparr>
       in Ok (blk', if cached then w\<lparr>alg_peer := addBlock hash blk' (alg_peer w)\<rparr> else w))"

text \<open>The reduction of \<open>BA\<close>: a node of type \<open>EvilVoteEmpty\<close> ignores its result.\<close>

definition BA_reduction :: "env \<Rightarrow> u64 \<Rightarrow> Block \<Rightarrow> world \<Rightarrow> (hash \<times> world) outcome" where
  "BA_reduction E rnd block w =
     (if alg_maliciousType w = EvilVoteEmpty
      then let hash = emptyHash rnd (blk_ParentHash block)
           in obind (reduction E rnd hash w) (\<lambda>(_, w). Ok (hash, w))
      else reduction E rnd (Block_Hash block) w)"

text \<open>The end of \<open>BA\<close>, after the count of the final step has given \<open>c\<close>.\<close>

definition BA_finish :: "u64 \<Rightarrow> hash \<Rightarrow> hash option \<Rightarrow> world \<Rightarrow> ((int \<times> Block) \<times> world) outcome" where
  "BA_finish rnd hash c w =
     obind (lastBlock w) (\<lambda>l.
       let r = (case c of None \<Rightarrow> zero_hash | Some h \<Rightarrow> h);
           prevHash = Block_Hash l;
           emptyh = (hash = emptyHash rnd prevHash);
           newBlk = (if emptyh then Some (emptyBlock rnd prevHash) else getBlock (alg_peer w) hash);
           t = (if r = hash then FINAL_CONSENSUS else TENTATIVE_CONSENSUS)
       in obind (set_type (\<not> emptyh) hash t newBlk w) (\<lambda>(blk, w). Ok ((t, blk), w)))"

definition BA :: "env \<Rightarrow> u64 \<Rightarrow> Block \<Rightarrow> world \<Rightarrow> ((int \<times> Block) \<times> world) outcome" where
  "BA E rnd block w =
     obind (BA_reduction E rnd block w) (\<lambda>(hash, w).
     obind (binaryBA E rnd hash w) (\<lambda>(hash, w).
     obind (countVotes E rnd FINAL finalThreshold expectedFinalCommitteeMembers w) (\<lambda>(c, w).
       BA_finish rnd hash c w)))"

section \<open>Proposals\<close>

definition proposeBlock :: "env \<Rightarrow> world \<Rightarrow> (Block \<times> world) outcome" where
  "proposeBlock E w =
     obind (lastBlock w) (\<lambda>l.
       let currRound = blk_Round l + 1; n = w_draws w; w = w\<lparr>w_draws := Suc n\<rparr>
       in obind (vrfSeed (en_crypto E) (alg_chain w) n (alg_privkey w) currRound) (\<lambda>s.
            case s of
              None \<Rightarrow> Ok (emptyBlock currRound (Block_Hash l), w)
            | Some (seed, pfb) \<Rightarrow>
                let blk = zero_block\<lparr>blk_Round := currRound, blk_Seed := seed,
                      blk_ParentHash := Block_Hash l, blk_Author := PublicKey_Address (alg_pubkey w),
                      blk_Time := en_now E n, blk_Proof := pfb,
                      blk_Data := Some (Uint2Bytes (en_rand E n))\<rparr>
                in Ok (blk\<lparr>blk_Signature := Sign (en_crypto E) (alg_privkey w) (Hash_Bytes (Block_Hash blk))\<rparr>, w)))"

definition proposeFork :: "world \<Rightarrow> Block outcome" where
  "proposeFork w = obind (lastBlock w) (\<lambda>longest. Ok (emptyBlock (blk_Round longest + 1) (Block_Hash longest)))"

definition make_proposal :: "Block \<Rightarrow> bytes \<Rightarrow> bytes \<Rightarrow> nat \<Rightarrow> world \<Rightarrow> Proposal" where
  "make_proposal newBlk vrf pfb subusers w =
     \<lparr>pp_Round = blk_Round newBlk, pp_Hash = Block_Hash newBlk, pp_Prior = maxPriority vrf subusers,
      pp_VRF = vrf, pp_Proof = pfb, pp_Pubkey = PublicKey_Bytes (alg_pubkey w)\<rparr>"

text \<open>The body of \<open>if subusers > 0\<close> in \<open>blockProposal\<close>: propose, store and gossip.\<close>

definition send_proposal ::
  "env \<Rightarrow> bool \<Rightarrow> u64 \<Rightarrow> bytes \<Rightarrow> bytes \<Rightarrow> nat \<Rightarrow> world \<Rightarrow> world outcome" where
  "send_proposal E resolve_fork rnd vrf pfb subusers w =
     obind (if \<not> resolve_fork then proposeBlock E w
            else obind (proposeFork w) (\<lambda>b. Ok (b, w))) (\<lambda>(newBlk, w).
       let K = en_codec E;
           proposalType = (if \<not> resolve_fork then BLOCK_PROPOSAL else FORK_PROPOSAL);
           proposal = make_proposal newBlk vrf pfb subusers w;
           w = w\<lparr>alg_peer := addBlock (Block_Hash newBlk) newBlk (setMaxProposal rnd proposal (alg_peer w))\<rparr>;
           blkMsg = enc_block K newBlk;
           proposalMsg = enc_proposal K proposal
       in if alg_maliciousType w = EvilBlockProposal \<and> \<not> resolve_fork then
            obind (proposeBlock E w) (\<lambda>(newBlk2, w).
              let proposal2 = make_proposal newBlk2 vrf pfb subusers w
              in Ok (w\<lparr>w_sent := w_sent w @
                   [HalfGossip BLOCK blkMsg 0, HalfGossip proposalType proposalMsg 0,
                    HalfGossip BLOCK (enc_block K newBlk2) 1,
                    HalfGossip proposalType (enc_proposal K proposal2) 1]\<rparr>))
          else Ok (w\<lparr>w_sent := w_sent w @ [Gossip BLOCK blkMsg, Gossip proposalType proposalMsg]\<rparr>))"

text \<open>The first wait of \<open>blockProposal\<close>, for the priority timer.\<close>

fun wait_priority :: "env \<Rightarrow> event list \<Rightarrow> world \<Rightarrow> world outcome" where
  "wait_priority E [] w = Blocked"
| "wait_priority E (Fire # es) w = Ok (w\<lparr>w_events := es\<rparr>)"
| "wait_priority E (e # es) w = obind (apply_event E e w) (wait_priority E es)"

text \<open>The loop that waits for the block of the best proposal until the second timer fires.\<close>

fun wait_block :: "env \<Rightarrow> u64 \<Rightarrow> event list \<Rightarrow> world \<Rightarrow> (Block \<times> world) outcome" where
  "wait_block E rnd [] w = Blocked"
| "wait_block E rnd (Fire # es) w =
     obind (lastBlock w) (\<lambda>l. Ok (emptyBlock rnd (Block_Hash l), w\<lparr>w_events := es\<rparr>))"
| "wait_block E rnd (Turn # es) w =
     (case getMaxProposal (alg_peer w) rnd of
        None \<Rightarrow> wait_block E rnd es w
      | Some pp \<Rightarrow>
          (case getBlock (alg_peer w) (pp_Hash pp) of
             None \<Rightarrow> wait_block E rnd es w
           | Some blk \<Rightarrow> Ok (blk, w\<lparr>w_events := es\<rparr>)))"
| "wait_block E rnd (e # es) w = obind (apply_event E e w) (wait_block E rnd es)"

definition blockProposal :: "env \<Rightarrow> bool \<Rightarrow> world \<Rightarrow> (Block \<times> world) outcome" where
  "blockProposal E resolve_fork w =
     obind (current_round w) (\<lambda>cur.
       let rnd = cur + 1
       in obind (sortitionSeed (alg_chain w) rnd) (\<lambda>seed.
          obind (sortition E (sl seed) (role proposer rnd PROPOSE) expectedBlockProposers (tokenOwn E w) w)
            (\<lambda>((vrf, pfb, subusers), w).
          obind (if subusers > 0 then send_proposal E resolve_fork rnd vrf pfb subusers w else Ok w) (\<lambda>w.
          obind (wait_priority E (w_events w) w) (\<lambda>w. wait_block E rnd (w_events w) w)))))"

section \<open>The rounds\<close>

definition processMain :: "env \<Rightarrow> world \<Rightarrow> world outcome" where
  "processMain E w =
     obind (current_round w) (\<lambda>cur.
     obind (blockProposal E False w) (\<lambda>(block, w).
     obind (BA E (cur + 1) block w) (\<lambda>((consensusType, block), w).
       Ok (w\<lparr>alg_chain := bc_add (alg_chain w) block\<rparr>))))"

definition processForkResolve :: "env \<Rightarrow> world \<Rightarrow> world outcome" where
  "processForkResolve E w =
     (let w = w\<lparr>w_released := True\<rparr>
      in obind (blockProposal E True w) (\<lambda>(longest, w).
         obind (BA E (blk_Round longest) longest w) (\<lambda>((_, fork), w).
           Ok (w\<lparr>alg_chain := resolveFork (alg_chain w) fork, w_released := False\<rparr>))))"

text \<open>
  The loop of fork resolution: at each tick of its timer, until the quit channel is closed. It waits (\<open>Blocked\<close>) when
  neither happens any more. The closing and the renewal of \<open>hangForever\<close> reach the main loop as the events \<open>Release\<close> and \<open>Renew\<close>.
\<close>

datatype fork_event = ForkTick | QuitClosed

fun forkLoop :: "env \<Rightarrow> fork_event list \<Rightarrow> world \<Rightarrow> world outcome" where
  "forkLoop E [] w = Blocked"
| "forkLoop E (QuitClosed # es) w = Ok w"
| "forkLoop E (ForkTick # es) w = obind (processForkResolve E w) (forkLoop E es)"

text \<open>The loop of \<open>run\<close>, as many turns as it makes before the quit channel is closed.\<close>

fun run_rounds :: "env \<Rightarrow> nat \<Rightarrow> world \<Rightarrow> world outcome" where
  "run_rounds E 0 w = Ok w"
| "run_rounds E (Suc n) w = obind (processMain E w) (run_rounds E n)"

text \<open>\<open>Start\<close> and \<open>Stop\<close>: the channels are made or closed and the peer enters or leaves the pool.\<close>

definition Start :: "world \<Rightarrow> (PID \<rightharpoonup> Peer) \<Rightarrow> world \<times> (PID \<rightharpoonup> Peer)" where
  "Start w pool = (w\<lparr>w_released := False\<rparr>, pool_add (alg_id w) (alg_peer w) pool)"

definition Stop :: "world \<Rightarrow> (PID \<rightharpoonup> Peer) \<Rightarrow> world \<times> (PID \<rightharpoonup> Peer)" where
  "Stop w pool = (w\<lparr>w_released := True\<rparr>, pool_remove (alg_id w) pool)"

end
