(* ===== verification/Nonblocking.thy ===== *)
theory Nonblocking
  imports Node
begin

text \<open>
  Which code can wait: none of the computations on messages, seeds and blocks ever gives
  \<open>Blocked\<close>; only the loops over events do.
\<close>

named_theorems no_block

lemma obind_Blocked_iff [no_block]: "obind m f = Blocked \<longleftrightarrow> m = Blocked \<or> (\<exists>a. m = Ok a \<and> f a = Blocked)"
  by (cases m) auto

lemma deref_no_block [no_block]: "deref p \<noteq> Blocked"
  by (cases p) auto

section \<open>Distribution and sortition\<close>

lemma resDenom_no_block [no_block]: "resDenom b \<noteq> Blocked"
  by (cases "resDenomCache b") (simp_all add: resDenom_def split: prod.split)

lemma Prob_no_block [no_block]: "Prob b k \<noteq> Blocked"
  by (auto simp: Prob_def Let_def split: option.splits prod.splits simp: no_block)

lemma sum_probs_no_block [no_block]: "sum_probs b res is \<noteq> Blocked"
  by (induction b res "is" rule: sum_probs.induct) (auto simp: no_block)

lemma CDF_no_block [no_block]: "CDF b j \<noteq> Blocked"
  by (auto simp: CDF_def CDF_sched_def Let_def split: option.splits prod.splits simp: no_block)

lemma subUsers_loop_no_block [no_block]: "subUsers_loop b h wt up j \<noteq> Blocked"
proof (induction b h wt up j rule: subUsers_loop.induct)
  case (1 b h n up j)
  then show ?case
    by (subst subUsers_loop.simps) (auto simp: no_block split: option.splits)
qed

lemma subUsers_no_block [no_block]: "subUsers P e w v \<noteq> Blocked"
  by (auto simp: subUsers_def Let_def simp: no_block)

section \<open>The verifiable random function\<close>

lemma S2OS_no_block [no_block]: "S2OS s \<noteq> Blocked" "ECP2OS E P \<noteq> Blocked" "ECP2OSProj E Q \<noteq> Blocked"
  by (auto simp: S2OS_def ECP2OS_def ECP2OSProj_def)

lemma expandSecret_no_block [no_block]: "expandSecret sk \<noteq> Blocked"
  by (simp add: expandSecret_def Let_def)

lemma hash_to_curve_no_block [no_block]: "ECVRF_hash_to_curve E m pk \<noteq> Blocked"
proof -
  have "hash_to_curve_loop E m pk is \<noteq> Blocked" for "is"
    by (induction E m pk "is" rule: hash_to_curve_loop.induct) (auto simp: Let_def split: option.splits)
  then show ?thesis by (simp add: ECVRF_hash_to_curve_def)
qed

lemma ECVRF_prove_no_block [no_block]: "ECVRF_prove E nonce pk sk m \<noteq> Blocked"
  unfolding ECVRF_prove_def by (auto simp: no_block split: option.splits simp: Let_def)

lemma ECVRF_decode_no_block [no_block]: "ECVRF_decode_proof E pf \<noteq> Blocked"
  unfolding ECVRF_decode_proof_def by (auto simp: Let_def split: option.splits)

lemma ECVRF_verify_no_block [no_block]: "ECVRF_verify E pk pf m \<noteq> Blocked"
  unfolding ECVRF_verify_def by (auto simp: no_block split: option.splits sum.splits simp: Let_def)

lemma VerifyVRF_no_block [no_block]: "VerifyVRF C pk pf m \<noteq> Blocked"
  by (auto simp: VerifyVRF_def simp: no_block)

lemma Evaluate_no_block [no_block]: "Evaluate C n sk m \<noteq> Blocked"
  by (auto simp: Evaluate_def ECVRF_proof2hash_def simp: no_block split: option.splits)

section \<open>Chain, messages and handlers\<close>

lemma getByRound_no_block [no_block]: "getByRound bc r \<noteq> Blocked"
proof -
  have "getByRound_loop bc l r \<noteq> Blocked" for l
  proof (induction bc l r rule: getByRound_loop.induct)
    case (1 bc l r)
    then show ?case by (subst getByRound_loop.simps) (auto split: option.splits)
  qed
  then show ?thesis by (simp add: getByRound_def)
qed

lemma sortitionSeed_no_block [no_block]: "sortitionSeed bc r \<noteq> Blocked"
  by (auto simp: sortitionSeed_get simp: no_block)

lemma recoverPubkey_no_block [no_block]: "recoverPubkey s \<noteq> Blocked" "Vote_RecoverPubkey v \<noteq> Blocked"
  by (simp_all add: recoverPubkey_def Vote_RecoverPubkey_def)

lemma Vote_VerifySign_no_block [no_block]: "Vote_VerifySign C v \<noteq> Blocked"
  by (auto simp: Vote_VerifySign_def VerifySign_def simp: no_block)

lemma Proposal_Verify_no_block [no_block]: "Proposal_Verify P C b w m \<noteq> Blocked"
  by (auto simp: Proposal_Verify_def simp: no_block)

lemma handle_no_block [no_block]: "handle E bc typ data p \<noteq> Blocked"
  by (auto simp: handle_def handle_proposal_def Let_def simp: no_block split: option.splits)

lemma apply_event_no_block [no_block]: "apply_event E e w \<noteq> Blocked"
  by (cases e) (auto simp: no_block)

lemma processMsg_no_block [no_block]: "processMsg E w m n \<noteq> Blocked"
  by (auto simp: processMsg_def lastBlock_def verifySort_def simp: no_block)

lemma committeeVote_no_block [no_block]: "committeeVote E rnd step n h w \<noteq> Blocked"
  by (auto simp: committeeVote_def cast_vote_def sortition_def lastBlock_def Let_def simp: no_block split: option.splits prod.splits)

end
