(* ===== verification/Count_Votes.thy ===== *)
theory Count_Votes
  imports Nonblocking
begin

text \<open>
  Counting votes: \<open>countVotes\<close> of \<open>src/algorand.go\<close> against a reference tally of the list of votes,
  the certificate behind a counted hash, agreement of two counts by quorum intersection, and the
  end of the loop once its timer has fired.
\<close>

section \<open>What the rest of the node sees\<close>

text \<open>The fields that no event and no count changes.\<close>

definition same_node :: "world \<Rightarrow> world \<Rightarrow> bool" where
  "same_node w w' \<longleftrightarrow> alg_maliciousType w' = alg_maliciousType w \<and> alg_id w' = alg_id w
     \<and> alg_privkey w' = alg_privkey w \<and> alg_pubkey w' = alg_pubkey w \<and> alg_chain w' = alg_chain w"

text \<open>Every cached block is under its own hash.\<close>

definition blocks_ok :: "Peer \<Rightarrow> bool" where
  "blocks_ok p \<longleftrightarrow> (\<forall>h b. getBlock p h = Some b \<longrightarrow> Block_Hash b = h)"

text \<open>The vote lists only grow, and keep their place; the block cache stays right.\<close>

definition peer_grows :: "Peer \<Rightarrow> Peer \<Rightarrow> bool" where
  "peer_grows p p' \<longleftrightarrow> peer_inv p' \<and> (blocks_ok p \<longrightarrow> blocks_ok p')
     \<and> (\<forall>k a. pr_incomingVotes p k = Some a \<longrightarrow> pr_incomingVotes p' k = Some a)
     \<and> (\<forall>k. \<exists>new. votes_at p' k = votes_at p k @ new)"

lemma same_node_refl [simp]: "same_node w w"
  by (simp add: same_node_def)

lemma same_node_trans: "same_node a b \<Longrightarrow> same_node b c \<Longrightarrow> same_node a c"
  by (simp add: same_node_def)

lemma peer_grows_refl: "peer_inv p \<Longrightarrow> peer_grows p p"
  by (simp add: peer_grows_def)

lemma peer_grows_trans: "peer_grows p q \<Longrightarrow> peer_grows q r \<Longrightarrow> peer_grows p r"
  unfolding peer_grows_def by (metis append.assoc)

lemma peer_grows_inv: "peer_grows p p' \<Longrightarrow> peer_inv p'"
  by (simp add: peer_grows_def)

lemma peer_grows_votes: "peer_grows p p' \<Longrightarrow> \<exists>new. votes_at p' k = votes_at p k @ new"
  by (simp add: peer_grows_def)

lemma peer_grows_iterator: "peer_grows p p' \<Longrightarrow> iterator_of p k it \<Longrightarrow> iterator_of p' k it"
proof -
  assume g: "peer_grows p p'" and i: "iterator_of p k it"
  obtain new where "votes_at p' k = votes_at p k @ new" using peer_grows_votes [OF g] by blast
  with g i show ?thesis by (simp add: peer_grows_def iterator_of_def)
qed

lemma peer_grows_tables:
  "peer_inv p \<Longrightarrow> peer_grows p (setMaxProposal r pp p)"
  "peer_inv p \<Longrightarrow> peer_grows p (addBlock (Block_Hash b) b p)"
  by (simp_all add: peer_grows_def blocks_ok_def blocks.lookup_put)
    (simp_all add: setMaxProposal_def addBlock_def votes_at_def split: option.split)

lemma peer_grows_vote: "peer_inv p \<Longrightarrow> peer_grows p (handle_vote v p)"
  by (auto simp: peer_grows_def blocks_ok_def handle_vote_inv handle_vote_votes_at)
    (auto simp: vote_list_defs split: option.splits)

lemma handle_grows: "peer_inv p \<Longrightarrow> handle E bc typ data p = Ok (p', err) \<Longrightarrow> peer_grows p p'"
proof -
  have "handle_proposal E bc typ bp p = Ok (p', err) \<Longrightarrow> peer_inv p \<Longrightarrow> peer_grows p p'" for bp
    by (erule handle_proposal_cases) (auto simp: peer_grows_tables peer_grows_refl)
  then show "peer_inv p \<Longrightarrow> handle E bc typ data p = Ok (p', err) \<Longrightarrow> ?thesis"
    by (auto simp: handle_def peer_grows_tables peer_grows_vote peer_grows_refl
        split: if_splits option.splits)
qed

lemma voteIterator_grows: "peer_inv p \<Longrightarrow> voteIterator p r s = (it, p') \<Longrightarrow> peer_grows p p'"
  using voteIterator_spec [of p r s it p']
  by (auto simp: peer_grows_def)
    (auto simp: voteIterator_def newList_def Let_def blocks_ok_def getBlock_def split: option.splits)

lemma apply_event_same:
  "apply_event E e w = Ok w' \<Longrightarrow> peer_inv (alg_peer w) \<Longrightarrow>
     same_node w w' \<and> peer_grows (alg_peer w) (alg_peer w')"
  by (cases e) (auto simp: outcome_simps same_node_def peer_grows_refl dest: handle_grows)

section \<open>The value of a message\<close>

lemma processMsg_same:
  "same_node w w' \<Longrightarrow> processMsg E w' m n = processMsg E w m n"
  by (simp add: processMsg_def same_node_def lastBlock_def verifySort_def tokenOwn_def Address_def
      cong: if_cong)

text \<open>The signer of a vote and the number of sub-users its VRF value stands for.\<close>

definition voter :: "VoteMessage \<Rightarrow> bytes" where
  "voter m = take PublicKeySize (vm_Signature m)"

definition sub_weight :: "env \<Rightarrow> int \<Rightarrow> VoteMessage \<Rightarrow> nat" where
  "sub_weight E n m =
     (case subUsers (en_params E) n (TokenPerUser (en_params E)) (vm_VRF m) of Ok j \<Rightarrow> j | _ \<Rightarrow> 0)"

text \<open>A vote that a node with this chain accepts.\<close>

definition accepted :: "env \<Rightarrow> Blockchain \<Rightarrow> VoteMessage \<Rightarrow> bool" where
  "accepted E bc m \<longleftrightarrow> Vote_VerifySign (en_crypto E) m = Ok True
     \<and> map_option Block_Hash (bc_last bc) = Some (vm_ParentHash m)"

lemma processMsg_counts:
  assumes "processMsg E w m n = Ok (votes, h, v)" and "votes \<noteq> 0"
  shows "accepted E (alg_chain w) m \<and> h = vm_Hash m \<and> v = vm_VRF m \<and> votes = sub_weight E n m"
  using assms
  by (auto simp: processMsg_def outcome_simps accepted_def lastBlock_def verifySort_def sub_weight_def
      tokenOwn_def weight_def split: if_splits)

section \<open>The reference tally\<close>

text \<open>
  The first vote of each signer counts; the result is the first hash whose votes reach \<open>needed\<close>.
\<close>

fun tally ::
  "env \<Rightarrow> ('a) Algorand_scheme \<Rightarrow> int \<Rightarrow> nat \<Rightarrow> VoteMessage list \<Rightarrow> (hash \<Rightarrow> nat) \<Rightarrow> bytes set \<Rightarrow> hash option outcome" where
  "tally E w n needed [] counts voters = Ok None"
| "tally E w n needed (m # ms) counts voters =
     obind (processMsg E w m n) (\<lambda>(votes, h, v).
     obind (Vote_RecoverPubkey m) (\<lambda>pk.
       if pk \<in> voters \<or> votes = 0 then tally E w n needed ms counts voters
       else if counts h + votes \<ge> needed then Ok (Some h)
       else tally E w n needed ms (counts(h := counts h + votes)) (insert pk voters)))"

lemma tally_same: "same_node w w' \<Longrightarrow> tally E w' n needed ms counts voters = tally E w n needed ms counts voters"
  by (induction ms arbitrary: counts voters) (simp_all add: processMsg_same cong: if_cong)

lemma tally_prefix:
  "tally E w n needed ms counts voters = Ok (Some h) \<Longrightarrow> tally E w n needed (ms @ ns) counts voters = Ok (Some h)"
  by (induction ms arbitrary: counts voters) (auto simp: outcome_simps split: if_splits)

lemma apply_event_ready:
  assumes "apply_event E e w = Ok w1" "peer_inv (alg_peer w)" "iterator_of (alg_peer w) key it"
  shows "peer_inv (alg_peer w1)" "iterator_of (alg_peer w1) key it"
  using apply_event_same [OF assms(1,2)] assms(3) by (auto intro: peer_grows_inv peer_grows_iterator)

lemma after_event:
  assumes "apply_event E e w = Ok w1" "peer_inv (alg_peer w)"
    and "same_node w1 w' \<and> peer_grows (alg_peer w1) (alg_peer w') \<and> tally E w1 n needed ms counts voters = Ok res"
  shows "same_node w w' \<and> peer_grows (alg_peer w) (alg_peer w') \<and> tally E w n needed ms counts voters = Ok res"
  using apply_event_same [OF assms(1,2)] assms(3)
  by (auto simp: tally_same intro: same_node_trans peer_grows_trans)

lemma loop_event:
  "e \<noteq> Fire \<Longrightarrow> e \<noteq> Turn \<Longrightarrow> countVotes_loop E n needed (e # es) fired it counts voters w =
     obind (apply_event E e w) (\<lambda>w'. countVotes_loop E n needed es fired it counts voters w')"
  by (cases e) simp_all

lemmas countVotes_loop_induct = countVotes_loop.induct [case_names Done Timer Step Message Freed Replaced]

lemma countVotes_loop_tally:
  assumes "countVotes_loop E n needed es fired it counts voters w = Ok (res, w')"
    and "peer_inv (alg_peer w)" and "iterator_of (alg_peer w) key it"
  shows "same_node w w' \<and> peer_grows (alg_peer w) (alg_peer w')
    \<and> tally E w n needed (drop (it_index it) (votes_at (alg_peer w') key)) counts voters = Ok res"
  using assms
proof (induction E n needed es fired it counts voters w rule: countVotes_loop_induct)
  case (Step E n needed es fired it counts voters w)
  let ?p = "alg_peer w" and ?L = "votes_at (alg_peer w) key"
  note inv = Step.prems(2) and iter = Step.prems(3)
  show ?case
  proof (cases "it_index it < length ?L")
    case False
    then have nx: "Iterator_next (pr_lists ?p) it = (None, it)" using Iterator_next_votes [OF iter] by simp
    show ?thesis
    proof (cases fired)
      case True
      with Step.prems(1) nx have "res = None" "w' = w\<lparr>w_events := es\<rparr>" by auto
      with False inv show ?thesis by (simp add: same_node_def peer_grows_refl)
    next
      case not_fired: False
      with Step.prems(1) nx have "countVotes_loop E n needed es fired it counts voters w = Ok (res, w')" by simp
      with Step.IH(1) [OF nx [symmetric] refl not_fired] inv iter not_fired show ?thesis by simp
    qed
  next
    case True
    let ?m = "?L ! it_index it" and ?it = "it\<lparr>it_index := it_index it + 1\<rparr>"
    have nx: "Iterator_next (pr_lists ?p) it = (Some ?m, ?it)" using Iterator_next_votes [OF iter] True by simp
    have iter': "iterator_of ?p key ?it" using iter True by (simp add: iterator_of_def)
    from Step.prems(1) nx obtain votes h v pk where pm: "processMsg E w ?m n = Ok (votes, h, v)"
      and pk: "Vote_RecoverPubkey ?m = Ok pk"
      by (auto simp: outcome_simps)
    have head: "drop (it_index it) (votes_at q key) = ?m # drop (it_index it + 1) (votes_at q key)"
      if grows: "peer_grows ?p q" for q
    proof -
      obtain new where "votes_at q key = ?L @ new" using peer_grows_votes [OF grows] by blast
      with True show ?thesis using Cons_nth_drop_Suc [of "it_index it" "votes_at q key"] by (simp add: nth_append)
    qed
    consider (skip) "pk \<in> voters \<or> votes = 0" | (reach) "\<not> (pk \<in> voters \<or> votes = 0)" "counts h + votes \<ge> needed"
      | (more) "\<not> (pk \<in> voters \<or> votes = 0)" "\<not> counts h + votes \<ge> needed" by blast
    then show ?thesis
    proof cases
      case skip
      with Step.prems(1) nx pm pk have "countVotes_loop E n needed es fired ?it counts voters w = Ok (res, w')" by simp
      from Step.IH(2) [OF nx [symmetric] refl pm refl refl pk skip this inv iter'] head skip pm pk
      show ?thesis by auto
    next
      case reach
      with Step.prems(1) nx pm pk have "res = Some h" "w' = w\<lparr>w_events := es\<rparr>" by auto
      with reach pm pk head [OF peer_grows_refl [OF inv]] inv show ?thesis
        by (simp add: same_node_def peer_grows_refl)
    next
      case more
      with Step.prems(1) nx pm pk have run: "countVotes_loop E n needed es fired ?it
          (counts(h := counts h + votes)) (insert pk voters) w = Ok (res, w')" by simp
      have "\<not> (counts(h := counts h + votes)) h \<ge> needed" using more by simp
      from Step.IH(3) [OF nx [symmetric] refl pm refl refl pk more(1) refl this run inv iter'] head more pm pk
      show ?thesis by (auto simp: fun_upd_def)
    qed
  qed
next
  case (Timer E n needed es fired it counts voters w)
  then show ?case by simp
next
  case (Done E n needed fired it counts voters w)
  then show ?case by simp
next
  case (Message E n needed t d es fired it counts voters w)
  then obtain w1 where ev: "apply_event E (Deliver t d) w = Ok w1"
    and run: "countVotes_loop E n needed es fired it counts voters w1 = Ok (res, w')"
    by (auto simp: loop_event obind_Ok_iff simp del: apply_event.simps countVotes_loop.simps)
  note ready = apply_event_ready [OF ev Message.prems(2,3)]
  show ?case by (rule after_event [OF ev Message.prems(2) Message.IH [OF ev run ready]])
next
  case (Freed E n needed es fired it counts voters w)
  have ev: "apply_event E Release w = Ok (w\<lparr>w_released := True\<rparr>)" by simp
  from Freed.prems(1) have run: "countVotes_loop E n needed es fired it counts voters (w\<lparr>w_released := True\<rparr>) = Ok (res, w')"
    by simp
  note ready = apply_event_ready [OF ev Freed.prems(2,3)]
  show ?case by (rule after_event [OF ev Freed.prems(2) Freed.IH [OF ev run ready]])
next
  case (Replaced E n needed es fired it counts voters w)
  have ev: "apply_event E Renew w = Ok (w\<lparr>w_released := False\<rparr>)" by simp
  from Replaced.prems(1) have run: "countVotes_loop E n needed es fired it counts voters (w\<lparr>w_released := False\<rparr>) = Ok (res, w')"
    by simp
  note ready = apply_event_ready [OF ev Replaced.prems(2,3)]
  show ?case by (rule after_event [OF ev Replaced.prems(2) Replaced.IH [OF ev run ready]])
qed

lemma countVotes_tally_of:
  assumes "countVotes E rnd step threshold n w = Ok (res, w')" and "peer_inv (alg_peer w)"
  shows "tally E w n (vote_threshold n threshold) (getIncomingMsgs (alg_peer w') rnd step) (\<lambda>_. 0) {} = Ok res
    \<and> same_node w w' \<and> peer_grows (alg_peer w) (alg_peer w')"
proof -
  let ?key = "constructVoteKey rnd step"
  obtain it p where i: "voteIterator (alg_peer w) rnd step = (it, p)" by fastforce
  note it = voteIterator_spec [OF assms(2) i]
  let ?w = "w\<lparr>alg_peer := p\<rparr>"
  have run: "countVotes_loop E n (vote_threshold n threshold) (w_events w) False it (\<lambda>_. 0) {} ?w = Ok (res, w')"
    using assms(1) i by (simp add: countVotes_def)
  have same: "same_node w ?w" by (simp add: same_node_def)
  from countVotes_loop_tally [OF run, of ?key] it
  have r: "same_node ?w w'" "peer_grows p (alg_peer w')"
    "tally E ?w n (vote_threshold n threshold) (votes_at (alg_peer w') ?key) (\<lambda>_. 0) {} = Ok res"
    by auto
  moreover have "peer_grows (alg_peer w) (alg_peer w')"
    using voteIterator_grows [OF assms(2) i] r(2) by (rule peer_grows_trans)
  ultimately show ?thesis
    using same by (auto simp: getIncomingMsgs_votes_at tally_same [OF same] intro: same_node_trans)
qed

text \<open>
  C2: \<open>countVotes\<close> computes the reference tally. Whatever messages are delivered while it runs and
  whenever its timer fires, a count that returns has returned the tally of the votes its round and
  step hold in the end: the first hash to reach the threshold when only the first vote of each
  signer counts, or the timeout when no hash reaches it. The rest of the node is unchanged.
\<close>

theorem countVotes_tally:
  assumes "countVotes E rnd step threshold n w = Ok (res, w')" and "peer_inv (alg_peer w)"
  shows "tally E w n (vote_threshold n threshold) (getIncomingMsgs (alg_peer w') rnd step) (\<lambda>_. 0) {} = Ok res
    \<and> same_node w w' \<and> peer_grows (alg_peer w) (alg_peer w')"
  using countVotes_tally_of [OF assms] by blast

section \<open>Certificates\<close>

text \<open>
  Votes of distinct signers for one hash, all accepted on this chain, whose sub-users reach
  \<open>needed\<close>.
\<close>

definition certificate ::
  "env \<Rightarrow> Blockchain \<Rightarrow> int \<Rightarrow> nat \<Rightarrow> VoteMessage list \<Rightarrow> hash \<Rightarrow> VoteMessage list \<Rightarrow> bool" where
  "certificate E bc n needed votes h M \<longleftrightarrow>
     set M \<subseteq> set votes \<and> distinct (map voter M)
   \<and> (\<forall>m \<in> set M. accepted E bc m \<and> vm_Hash m = h \<and> 0 < sub_weight E n m)
   \<and> needed \<le> sum_list (map (sub_weight E n) M)"

text \<open>The votes counted so far.\<close>

definition counted :: "env \<Rightarrow> Blockchain \<Rightarrow> int \<Rightarrow> (hash \<Rightarrow> nat) \<Rightarrow> bytes set \<Rightarrow> VoteMessage list \<Rightarrow> bool" where
  "counted E bc n counts voters C \<longleftrightarrow>
     distinct (map voter C) \<and> voters = voter ` set C
   \<and> (\<forall>m \<in> set C. accepted E bc m \<and> 0 < sub_weight E n m)
   \<and> (\<forall>h. counts h = sum_list (map (sub_weight E n) (filter (\<lambda>m. vm_Hash m = h) C)))"

lemma counted_add:
  assumes "counted E bc n counts voters C" and "accepted E bc m" "0 < sub_weight E n m" "voter m \<notin> voters"
  shows "counted E bc n (counts(vm_Hash m := counts (vm_Hash m) + sub_weight E n m)) (insert (voter m) voters) (C @ [m])"
  using assms by (auto simp: counted_def)

lemma counted_certificate:
  assumes "counted E bc n counts voters C" and "set C \<subseteq> set L" and "needed \<le> counts h"
  shows "certificate E bc n needed L h (filter (\<lambda>m. vm_Hash m = h) C)"
  using assms by (auto simp: counted_def certificate_def distinct_map intro: inj_on_subset)

lemma RecoverPubkey_voter: "Vote_RecoverPubkey m = Ok pk \<Longrightarrow> pk = voter m"
  by (simp add: Vote_RecoverPubkey_def recoverPubkey_Ok_iff voter_def)

lemma tally_certificate:
  assumes "tally E w n needed ms counts voters = Ok (Some h)"
    and "counted E (alg_chain w) n counts voters C" and "set C \<subseteq> set L" and "set ms \<subseteq> set L"
  shows "\<exists>M. certificate E (alg_chain w) n needed L h M"
  using assms
proof (induction ms arbitrary: counts voters C)
  case (Cons m ms)
  from Cons.prems(1) obtain votes h' v pk where pm: "processMsg E w m n = Ok (votes, h', v)"
    and pk: "Vote_RecoverPubkey m = Ok pk" by (auto simp: outcome_simps)
  show ?case
  proof (cases "pk \<in> voters \<or> votes = 0")
    case True
    with Cons pm pk show ?thesis by auto
  next
    case False
    then have c: "accepted E (alg_chain w) m" "h' = vm_Hash m" "votes = sub_weight E n m"
      using processMsg_counts [OF pm] by auto
    have new: "counted E (alg_chain w) n (counts(h' := counts h' + votes)) (insert pk voters) (C @ [m])"
      using counted_add [OF Cons.prems(2) c(1)] False RecoverPubkey_voter [OF pk] c(2,3) by auto
    have sub: "set (C @ [m]) \<subseteq> set L" using Cons.prems(3,4) by auto
    show ?thesis
    proof (cases "counts h' + votes \<ge> needed")
      case True
      with Cons.prems(1) False pm pk have "h = h'" by simp
      with True counted_certificate [OF new sub, of needed h] show ?thesis by auto
    next
      case more: False
      with Cons.prems(1) False pm pk have
        "tally E w n needed ms (counts(h' := counts h' + votes)) (insert pk voters) = Ok (Some h)" by simp
      from Cons.IH [OF this new sub] Cons.prems(4) show ?thesis by simp
    qed
  qed
qed simp

lemma counted_nothing: "counted E bc n (\<lambda>_. 0) {} []"
  by (simp add: counted_def)

lemma countVotes_certificate_of:
  assumes "countVotes E rnd step threshold n w = Ok (Some h, w')" and "peer_inv (alg_peer w)"
  shows "\<exists>M. certificate E (alg_chain w) n (vote_threshold n threshold) (getIncomingMsgs (alg_peer w') rnd step) h M"
  using countVotes_tally_of [OF assms] tally_certificate [OF _ counted_nothing, of E w] by fastforce

text \<open>
  C9: a counted hash has a certificate. When \<open>countVotes\<close> returns a hash, the votes of its round and
  step contain votes for that hash by pairwise different signers, each with a valid signature and
  extending the node's last block, whose selected sub-users add up to the threshold.
\<close>

theorem countVotes_certificate:
  assumes "countVotes E rnd step threshold n w = Ok (Some h, w')" and "peer_inv (alg_peer w)"
  shows "\<exists>M. certificate E (alg_chain w) n (vote_threshold n threshold) (getIncomingMsgs (alg_peer w') rnd step) h M"
  using assms by (rule countVotes_certificate_of)

section \<open>Agreement\<close>

text \<open>
  The signers of \<open>L2\<close> that have also signed an accepted vote for another hash in \<open>L1\<close>.
\<close>

definition equivocates :: "env \<Rightarrow> Blockchain \<Rightarrow> VoteMessage list \<Rightarrow> VoteMessage \<Rightarrow> bool" where
  "equivocates E bc L1 m \<longleftrightarrow>
     (\<exists>m1 \<in> set L1. accepted E bc m1 \<and> voter m1 = voter m \<and> vm_Hash m1 \<noteq> vm_Hash m)"

lemma image_filter_disjoint: "f ` A \<inter> f ` set (filter (\<lambda>x. f x \<notin> f ` A) xs) = {}"
proof -
  have "y \<notin> f ` A" if "y \<in> f ` set (filter (\<lambda>x. f x \<notin> f ` A) xs)" for y
  proof -
    from that obtain x where "y = f x" "x \<in> set (filter (\<lambda>x. f x \<notin> f ` A) xs)" by (rule imageE)
    then show ?thesis by simp
  qed
  then show ?thesis by blast
qed

lemma quorums_intersect:
  assumes c1: "certificate E bc n needed L1 h1 M1" and c2: "certificate E bc n needed L2 h2 M2"
    and total: "\<And>M. set M \<subseteq> set L1 \<union> set L2 \<Longrightarrow> distinct (map voter M) \<Longrightarrow>
      sum_list (map (sub_weight E n) M) \<le> T"
    and faulty: "\<And>M. set M \<subseteq> set L2 \<Longrightarrow> distinct (map voter M) \<Longrightarrow> (\<forall>m \<in> set M. equivocates E bc L1 m) \<Longrightarrow>
      sum_list (map (sub_weight E n) M) \<le> f"
    and bound: "T + f < 2 * needed"
  shows "h1 = h2"
proof (rule ccontr)
  assume ne: "h1 \<noteq> h2"
  let ?V = "voter ` set M1" and ?wt = "\<lambda>M. sum_list (map (sub_weight E n) M)"
  let ?both = "filter (\<lambda>m. voter m \<in> ?V) M2" and ?only = "filter (\<lambda>m. voter m \<notin> ?V) M2"
  from c1 c2 have s: "set M1 \<subseteq> set L1" "set M2 \<subseteq> set L2" and d: "distinct (map voter M1)" "distinct (map voter M2)"
    and q: "needed \<le> ?wt M1" "needed \<le> ?wt M2"
    by (simp_all add: certificate_def)
  have sub: "distinct (map voter (filter P M2))" for P
    using d(2) by (auto simp: distinct_map intro: inj_on_subset)
  have "?wt M2 = ?wt ?both + ?wt ?only" for P by (induction M2) auto
  moreover have "?V \<inter> voter ` set ?only = {}" by (rule image_filter_disjoint)
  then have "?wt (M1 @ ?only) \<le> T"
    using s d sub by (intro total) auto
  moreover have "?wt ?both \<le> f"
  proof (rule faulty)
    show "\<forall>m \<in> set ?both. equivocates E bc L1 m"
    proof
      fix m assume m: "m \<in> set ?both"
      then obtain m1 where m1: "m1 \<in> set M1" "voter m1 = voter m" by auto
      moreover have "accepted E bc m1" "vm_Hash m1 = h1" "vm_Hash m = h2"
        using c1 c2 m m1(1) by (auto simp: certificate_def)
      ultimately show "equivocates E bc L1 m" using s(1) ne unfolding equivocates_def by blast
    qed
  qed (use s sub in auto)
  ultimately have "needed + needed \<le> T + f" using q by simp
  with bound show False by simp
qed

text \<open>
  C1: agreement of two counts. Two nodes on the same chain count the same round and step, each with
  its own votes. If all signers together have at most \<open>T\<close> sub-users, those who signed for two
  different hashes at most \<open>f\<close>, and \<open>T + f\<close> is below twice the threshold, then the hashes the two
  counts return are equal.
\<close>

theorem countVotes_agreement:
  assumes "countVotes E rnd step threshold n w1 = Ok (Some h1, w1')" and "peer_inv (alg_peer w1)"
    and "countVotes E rnd step threshold n w2 = Ok (Some h2, w2')" and "peer_inv (alg_peer w2)"
    and "alg_chain w2 = alg_chain w1"
    and L1: "L1 = getIncomingMsgs (alg_peer w1') rnd step" and L2: "L2 = getIncomingMsgs (alg_peer w2') rnd step"
    and total: "\<And>M. set M \<subseteq> set L1 \<union> set L2 \<Longrightarrow> distinct (map voter M) \<Longrightarrow>
      sum_list (map (sub_weight E n) M) \<le> T"
    and faulty: "\<And>M. set M \<subseteq> set L2 \<Longrightarrow> distinct (map voter M) \<Longrightarrow>
      (\<forall>m \<in> set M. equivocates E (alg_chain w1) L1 m) \<Longrightarrow> sum_list (map (sub_weight E n) M) \<le> f"
    and "T + f < 2 * vote_threshold n threshold"
  shows "h1 = h2"
proof -
  obtain M1 where "certificate E (alg_chain w1) n (vote_threshold n threshold) L1 h1 M1"
    using countVotes_certificate_of [OF assms(1,2)] L1 by blast
  moreover obtain M2 where "certificate E (alg_chain w1) n (vote_threshold n threshold) L2 h2 M2"
    using countVotes_certificate_of [OF assms(3,4)] L2 assms(5) by auto
  ultimately show ?thesis using total faulty assms(10) by (rule quorums_intersect)
qed

section \<open>The end of a count\<close>

text \<open>Turns and deliveries still to come.\<close>

fun turns :: "event list \<Rightarrow> nat" where
  "turns [] = 0"
| "turns (Turn # es) = Suc (turns es)"
| "turns (_ # es) = turns es"

fun deliveries :: "event list \<Rightarrow> nat" where
  "deliveries [] = 0"
| "deliveries (Deliver _ _ # es) = Suc (deliveries es)"
| "deliveries (_ # es) = deliveries es"

lemma handle_one_vote:
  assumes "peer_inv p" "handle E bc typ data p = Ok (p', err)"
  shows "length (votes_at p' k) \<le> Suc (length (votes_at p k))"
proof -
  have frames: "votes_at (setMaxProposal r pp p) k = votes_at p k" "votes_at (addBlock h b p) k = votes_at p k" for r pp h b
    by (simp_all add: setMaxProposal_def addBlock_def votes_at_def split: option.split)
  have "handle_proposal E bc typ bp p = Ok (p', err) \<Longrightarrow> votes_at p' k = votes_at p k" for bp
    by (erule handle_proposal_cases) (simp_all add: frames)
  with assms show ?thesis
    by (auto simp: handle_def frames handle_vote_votes_at split: if_splits option.splits)
qed

lemma apply_event_readable:
  assumes "peer_inv (alg_peer w)" "apply_event E e w = Ok w'"
  shows "length (votes_at (alg_peer w') k) + deliveries es \<le> length (votes_at (alg_peer w) k) + deliveries (e # es)"
  using assms by (cases e) (auto simp: outcome_simps dest: handle_one_vote [of _ _ _ _ _ _ _ k])

text \<open>
  After the timer, a count ends as soon as it has had more turns than there are votes to read.
\<close>

lemma countVotes_loop_ends:
  assumes "peer_inv (alg_peer w)" and "iterator_of (alg_peer w) key it" and "fired"
    and "length (votes_at (alg_peer w) key) + deliveries es < turns es + it_index it"
  shows "countVotes_loop E n needed es fired it counts voters w \<noteq> Blocked"
  using assms
proof (induction es arbitrary: it counts voters w)
  case Nil
  then show ?case by (simp add: iterator_of_def)
next
  case (Cons e es)
  note inv = Cons.prems(1) and iter = Cons.prems(2)
  consider "e = Fire" | (turn) "e = Turn" | (other) "e \<noteq> Fire" "e \<noteq> Turn" by blast
  then show ?case
  proof cases
    case 1
    with Cons show ?thesis by simp
  next
    case turn
    show ?thesis
    proof (cases "it_index it < length (votes_at (alg_peer w) key)")
      case False
      with turn iter \<open>fired\<close> show ?thesis by (simp add: Iterator_next_votes)
    next
      case True
      let ?it = "it\<lparr>it_index := it_index it + 1\<rparr>"
      have "iterator_of (alg_peer w) key ?it" using iter True by (simp add: iterator_of_def)
      note go = Cons.IH [OF inv this \<open>fired\<close>]
      have "length (votes_at (alg_peer w) key) + deliveries es < turns es + it_index ?it"
        using Cons.prems(4) turn by simp
      note go = go [OF this]
      show ?thesis
        using turn iter True go by (simp add: Iterator_next_votes no_block Let_def split: prod.split)
    qed
  next
    case other
    have t: "turns (e # es) = turns es" using other by (cases e) simp_all
    have "countVotes_loop E n needed es fired it counts voters w' \<noteq> Blocked" if "apply_event E e w = Ok w'" for w'
      using Cons.IH [OF apply_event_ready [OF that inv iter] \<open>fired\<close>]
        apply_event_readable [OF inv that, of key es] Cons.prems(4) t by simp
    then show ?thesis by (simp add: loop_event [OF other] no_block del: apply_event.simps)
  qed
qed

lemma countVotes_loop_fires:
  assumes "Fire \<notin> set ds" and "peer_inv (alg_peer w)" and "iterator_of (alg_peer w) key it"
    and "length (votes_at (alg_peer w) key) + deliveries ds + deliveries es < turns es + it_index it"
  shows "countVotes_loop E n needed (ds @ Fire # es) fired it counts voters w \<noteq> Blocked"
  using assms
proof (induction ds arbitrary: it counts voters w)
  case Nil
  then show ?case using countVotes_loop_ends [of w key it True es] by simp
next
  case (Cons e ds)
  note inv = Cons.prems(2) and iter = Cons.prems(3)
  show ?case
  proof (cases "e = Turn")
    case turn: True
    show ?thesis
    proof (cases "it_index it < length (votes_at (alg_peer w) key)")
      case False
      with Cons turn show ?thesis by (cases fired) (simp_all add: Iterator_next_votes)
    next
      case True
      let ?it = "it\<lparr>it_index := it_index it + 1\<rparr>"
      have "iterator_of (alg_peer w) key ?it" using iter True by (simp add: iterator_of_def)
      from Cons.IH [OF _ inv this] Cons.prems turn iter True show ?thesis
        by (simp add: Iterator_next_votes no_block Let_def split: prod.split)
    qed
  next
    case False
    then have other: "e \<noteq> Fire" "e \<noteq> Turn" using Cons.prems(1) by auto
    have "countVotes_loop E n needed (ds @ Fire # es) fired it counts voters w' \<noteq> Blocked"
      if "apply_event E e w = Ok w'" for w'
      using Cons.IH [OF _ apply_event_ready [OF that inv iter]] Cons.prems(1,4)
        apply_event_readable [OF inv that, of key ds] by simp
    then show ?thesis by (simp add: loop_event [OF other] no_block del: apply_event.simps)
  qed
qed

text \<open>
  C10: a count always ends after its timer. Whatever happens before the timer fires, and whatever is
  delivered later, the loop of \<open>countVotes\<close> has returned (or crashed) once it has made more turns
  after the timer than there are votes in its list and messages delivered: it cannot wait for ever.
\<close>

theorem countVotes_ends:
  assumes "peer_inv (alg_peer w)" and "w_events w = ds @ Fire # es" and "Fire \<notin> set ds"
    and "length (getIncomingMsgs (alg_peer w) rnd step) + deliveries ds + deliveries es < turns es"
  shows "countVotes E rnd step threshold n w \<noteq> Blocked"
proof -
  obtain it p where i: "voteIterator (alg_peer w) rnd step = (it, p)" by fastforce
  note it = voteIterator_spec [OF assms(1) i]
  have "countVotes_loop E n (vote_threshold n threshold) (ds @ Fire # es) False it (\<lambda>_. 0) {} (w\<lparr>alg_peer := p\<rparr>) \<noteq> Blocked"
    by (rule countVotes_loop_fires [OF assms(3)])
      (use it assms(4) in \<open>simp_all add: getIncomingMsgs_votes_at\<close>)
  then show ?thesis by (simp add: countVotes_def i assms(2))
qed

section \<open>Single votes\<close>

text \<open>
  A message whose first octets of signature and proof let it through, and whose VRF value stands for
  \<open>j\<close> sub-users, brings \<open>j\<close> votes.
\<close>

lemma processMsg_unchecked_vrf:
  assumes "Vote_VerifySign (en_crypto E) m = Ok True" and "bc_last (alg_chain w) = Some l"
    and "vm_ParentHash m = Block_Hash l" and "sortitionSeed (alg_chain w) (vm_Round m) = Ok seed"
    and "vm_Proof m = [0]" and "subUsers (en_params E) n (TokenPerUser (en_params E)) (vm_VRF m) = Ok j"
  shows "processMsg E w m n = Ok (j, vm_Hash m, vm_VRF m)"
  using assms by (simp add: processMsg_def lastBlock_def verifySort_def VerifyVRF_bad_sign tokenOwn_def weight_def)

lemma countVotes_first_vote:
  assumes "getIncomingMsgs (alg_peer w) rnd step = m # ms" and "w_events w = Turn # es"
    and "processMsg E w m n = Ok (j, h, v)" and "Vote_RecoverPubkey m = Ok pk"
    and "vote_threshold n threshold \<le> j" and "0 < j"
  shows "countVotes E rnd step threshold n w = Ok (Some h, w\<lparr>w_events := es\<rparr>)"
proof -
  obtain a where a: "pr_incomingVotes (alg_peer w) (constructVoteKey rnd step) = Some a" "pr_lists (alg_peer w) ! a = m # ms"
    using assms(1) by (auto simp: getIncomingMsgs_def split: option.splits)
  then have "voteIterator (alg_peer w) rnd step = (\<lparr>it_list = a, it_index = 0\<rparr>, alg_peer w)"
    by (simp add: voteIterator_def)
  with a assms(2-) show ?thesis
    by (simp add: countVotes_def Iterator_next_def List_get_def)
qed

lemma Vote_VerifySign_recovers: "Vote_VerifySign C m = Ok ok \<Longrightarrow> \<exists>pk. Vote_RecoverPubkey m = Ok pk"
  by (auto simp: Vote_VerifySign_def outcome_simps)

text \<open>
  C21: one signer can be a quorum. With the parameters of the program, a single correctly signed vote
  that extends the last block and carries the largest VRF value and the one-octet proof 0, which no
  key can have produced, is counted with at least the six votes of the threshold: a count that reads
  it first returns its hash, whatever that is. (The result of the VRF verification is ignored.)
\<close>

theorem forged_vote_is_quorum:
  assumes "en_params E = default_params" and "Vote_VerifySign (en_crypto E) m = Ok True"
    and "bc_last (alg_chain w) = Some l" and "vm_ParentHash m = Block_Hash l"
    and "sortitionSeed (alg_chain w) (vm_Round m) = Ok seed"
    and "vm_VRF m = replicate 32 255" and "vm_Proof m = [0]"
    and "getIncomingMsgs (alg_peer w) rnd step = m # ms" and "w_events w = Turn # es"
  shows "countVotes E rnd step thresholdOfBAStep expectedCommitteeMembers w
      = Ok (Some (vm_Hash m), w\<lparr>w_events := es\<rparr>)
    \<and> ECVRF_verify (ce_pkg (en_crypto E)) pk (vm_Proof m) alpha = Ok (Inl ErrDecodeError)"
proof -
  obtain j where j: "6 \<le> j"
    "subUsers (en_params E) expectedCommitteeMembers (TokenPerUser (en_params E)) (vm_VRF m) = Ok j"
    using default_top_vrf assms(1,6) by auto
  obtain pk where pk: "Vote_RecoverPubkey m = Ok pk" using Vote_VerifySign_recovers [OF assms(2)] by blast
  note pm = processMsg_unchecked_vrf [OF assms(2-5,7) j(2)]
  have "countVotes E rnd step thresholdOfBAStep expectedCommitteeMembers w
      = Ok (Some (vm_Hash m), w\<lparr>w_events := es\<rparr>)"
    by (rule countVotes_first_vote [OF assms(8,9) pm pk]) (use j(1) in \<open>simp_all add: vote_threshold_step\<close>)
  then show ?thesis using assms(7) by (simp add: ECVRF_verify_bad_sign)
qed

text \<open>
  One malformed vote crashes a node. A count that reads a vote with a signature shorter than a
  public key panics, whatever else the list and the vote contain.
\<close>

theorem short_signature_panics:
  assumes "getIncomingMsgs (alg_peer w) rnd step = m # ms" and "w_events w = Turn # es"
    and "length (vm_Signature m) < PublicKeySize"
  shows "countVotes E rnd step threshold n w = Panic"
proof -
  obtain a where a: "pr_incomingVotes (alg_peer w) (constructVoteKey rnd step) = Some a" "pr_lists (alg_peer w) ! a = m # ms"
    using assms(1) by (auto simp: getIncomingMsgs_def split: option.splits)
  have "Vote_VerifySign (en_crypto E) m = Panic"
    using assms(3) by (simp add: Vote_VerifySign_def Vote_RecoverPubkey_def recoverPubkey_def)
  then have "processMsg E w m n = Panic" by (simp add: processMsg_def)
  with a assms(2) show ?thesis
    by (simp add: countVotes_def voteIterator_def Iterator_next_def List_get_def)
qed

section \<open>A concrete node\<close>

text \<open>Two users with eight tokens each; one vote with the largest VRF value.\<close>

definition small_params :: params where
  "small_params = \<lparr>UserAmount = 2, TokenPerUser = 8, Malicious = 0, NetworkLatency = 0\<rparr>"

definition small_env :: env where
  "small_env = sample_env\<lparr>en_params := small_params\<rparr>"

definition unsigned_vote :: "hash \<Rightarrow> VoteMessage" where
  "unsigned_vote h = \<lparr>vm_Signature = [], vm_Round = 4, vm_Step = 1, vm_VRF = replicate 32 255,
     vm_Proof = [0], vm_ParentHash = sample_hash 3, vm_Hash = h\<rparr>"

definition top_vote :: "hash \<Rightarrow> VoteMessage" where
  "top_vote h = (unsigned_vote h)\<lparr>vm_Signature := replicate 32 5 @ vote_data (unsigned_vote h)\<rparr>"

definition top_world :: "hash \<Rightarrow> PID \<Rightarrow> world" where
  "top_world h i = \<lparr>alg_maliciousType = Honest, alg_id = i, alg_privkey = replicate 64 6, alg_pubkey = replicate 32 6,
     alg_chain = sample_chain, alg_peer = handle_vote (top_vote h) newPeer, w_events = [Turn], w_draws = 0,
     w_sent = [], w_released = False\<rparr>"

lemma top_vote_facts:
  "Vote_VerifySign (en_crypto small_env) (top_vote h) = Ok True" "vm_ParentHash (top_vote h) = sample_hash 3"
  "vm_Round (top_vote h) = 4" "vm_Step (top_vote h) = 1" "vm_Proof (top_vote h) = [0]" "vm_VRF (top_vote h) = replicate 32 255"
  "vm_Hash (top_vote h) = h" "Vote_RecoverPubkey (top_vote h) = Ok (replicate 32 5)"
  by (simp_all add: top_vote_def small_env_def sample_env_def echo_crypto_def Vote_VerifySign_def VerifySign_def
      Vote_RecoverPubkey_def recoverPubkey_def PublicKeySize_def)
    (simp_all add: unsigned_vote_def)

lemma top_world_facts:
  "peer_inv (alg_peer (top_world h i))" "alg_chain (top_world h i) = sample_chain" "w_events (top_world h i) = [Turn]"
  "getIncomingMsgs (alg_peer (top_world h i)) 4 1 = [(top_vote h)]"
proof -
  have "votes_at newPeer k = []" for k by (simp add: votes_at_def newPeer_def)
  moreover have "vote_key (top_vote h) = constructVoteKey 4 1" by (simp add: vote_key_def top_vote_facts)
  ultimately show "getIncomingMsgs (alg_peer (top_world h i)) 4 1 = [(top_vote h)]"
    by (simp add: top_world_def getIncomingMsgs_votes_at handle_vote_votes_at [OF newPeer_inv])
qed (simp_all add: top_world_def handle_vote_inv newPeer_inv)

lemma small_top_users:
  "\<exists>j. 6 \<le> j \<and> j \<le> 8 \<and> subUsers small_params expectedCommitteeMembers 8 (replicate 32 255) = Ok j"
proof -
  have ok: "token_amounts_ok small_params 10 8"
    by (simp add: token_amounts_ok_def small_params_def TotalTokenAmount_def)
  have p: "token_prob small_params 10 = 5 / 8"
    by (simp add: token_prob_def small_params_def TotalTokenAmount_def)
  have "(1 :: rat) / 2 ^ 256 \<le> binom_pmf 8 (5 / 8) 7"
    by (simp add: binom_pmf_def eval_nat_numeral)
  then have "1 / 2 ^ 256 \<le> binom_pmf (unat (8 :: u64)) (token_prob small_params 10) (Suc 6)" by (simp add: p)
  from top_vrf_at_least [OF ok _ this] obtain j where j: "6 \<le> j" "subUsers small_params 10 8 (replicate 32 255) = Ok j"
    by auto
  have "j \<le> 8" using subUsers_at_most [OF ok j(2)] by simp
  with j show ?thesis by (auto simp: expectedCommitteeMembers_def)
qed

lemma top_world_count:
  "countVotes small_env 4 1 thresholdOfBAStep expectedCommitteeMembers (top_world h i)
     = Ok (Some h, (top_world h i)\<lparr>w_events := []\<rparr>)"
proof -
  have P: "en_params small_env = small_params" "TokenPerUser small_params = 8"
    by (simp_all add: small_env_def small_params_def)
  obtain j where j: "6 \<le> j" "subUsers small_params expectedCommitteeMembers 8 (replicate 32 255) = Ok j"
    using small_top_users by blast
  have last: "bc_last (alg_chain (top_world h i)) = Some (sample_block 3 (sample_hash 2))"
    by (simp add: top_world_facts sample_last)
  have pm: "processMsg small_env (top_world h i) (top_vote h) expectedCommitteeMembers = Ok (j, vm_Hash (top_vote h), vm_VRF (top_vote h))"
    by (rule processMsg_unchecked_vrf [OF _ last])
      (simp_all add: top_vote_facts sample_hashes top_world_facts sample_seed P j(2))
  from countVotes_first_vote [OF top_world_facts(4,3) pm top_vote_facts(8)] j(1) show ?thesis
    by (simp add: vote_threshold_step top_vote_facts)
qed

theorem countVotes_tally_witness:
  "tally small_env (top_world (replicate 32 7) 0) expectedCommitteeMembers 6 [(top_vote (replicate 32 7))] (\<lambda>_. 0) {} = Ok (Some (replicate 32 7))"
  using countVotes_tally [OF top_world_count top_world_facts(1)]
  by (simp add: top_world_facts vote_threshold_step)

theorem countVotes_certificate_witness:
  "\<exists>M. certificate small_env sample_chain expectedCommitteeMembers 6 [(top_vote (replicate 32 7))] (replicate 32 7) M"
  using countVotes_certificate [OF top_world_count top_world_facts(1)]
  by (simp add: top_world_facts vote_threshold_step)

theorem forged_vote_is_quorum_witness:
  "countVotes (small_env\<lparr>en_params := default_params\<rparr>) 4 1 thresholdOfBAStep expectedCommitteeMembers (top_world (replicate 32 7) 0)
     = Ok (Some (replicate 32 7), (top_world (replicate 32 7) 0)\<lparr>w_events := []\<rparr>)"
  using forged_vote_is_quorum [of "small_env\<lparr>en_params := default_params\<rparr>" "top_vote (replicate 32 7)" "top_world (replicate 32 7) 0"
      "sample_block 3 (sample_hash 2)" None 4 1 "[]" "[]"]
  by (simp add: top_vote_facts top_world_facts sample_last sample_hashes sample_seed)

theorem short_signature_panics_witness:
  "countVotes small_env 4 1 finalThreshold 20
     ((top_world (replicate 32 7) 0)\<lparr>alg_peer := handle_vote (sample_vote\<lparr>vm_Signature := [1, 2]\<rparr>) newPeer\<rparr>) = Panic"
proof (rule short_signature_panics)
  let ?v = "sample_vote\<lparr>vm_Signature := [1, 2]\<rparr>"
  have "votes_at newPeer k = []" for k by (simp add: votes_at_def newPeer_def)
  moreover have "vote_key ?v = constructVoteKey 4 1" by (simp add: vote_key_def sample_vote_def)
  ultimately show "getIncomingMsgs (alg_peer ((top_world (replicate 32 7) 0)\<lparr>alg_peer := handle_vote ?v newPeer\<rparr>)) 4 1 = [?v]"
    by (simp add: getIncomingMsgs_votes_at handle_vote_votes_at [OF newPeer_inv])
qed (simp_all add: top_world_facts PublicKeySize_def)

theorem countVotes_ends_witness:
  "countVotes small_env 4 1 finalThreshold 20 ((top_world (replicate 32 7) 0)\<lparr>w_events := [Turn, Fire, Turn, Release, Turn]\<rparr>) \<noteq> Blocked"
  by (rule countVotes_ends [of _ "[Turn]" "[Turn, Release, Turn]"]) (simp_all add: top_world_facts)

lemma single_vote_weight:
  assumes "set M \<subseteq> {(top_vote h)}" "distinct (map voter M)"
  shows "sum_list (map (sub_weight small_env expectedCommitteeMembers) M) \<le> 8"
proof -
  have "sub_weight small_env expectedCommitteeMembers (top_vote h) \<le> 8"
    using small_top_users by (auto simp: sub_weight_def top_vote_facts small_env_def small_params_def)
  moreover have "M = [] \<or> M = [(top_vote h)]"
    using assms by (cases M rule: remdups_adj.cases) auto
  ultimately show ?thesis by auto
qed

theorem countVotes_agreement_witness:
  "\<exists>h1 h2 w1 w2.
     countVotes small_env 4 1 thresholdOfBAStep expectedCommitteeMembers (top_world (replicate 32 7) 0) = Ok (Some h1, w1)
   \<and> countVotes small_env 4 1 thresholdOfBAStep expectedCommitteeMembers (top_world (replicate 32 7) 1) = Ok (Some h2, w2)
   \<and> h1 = h2"
proof -
  let ?w1 = "(top_world (replicate 32 7) 0)\<lparr>w_events := []\<rparr>" and ?w2 = "(top_world (replicate 32 7) 1)\<lparr>w_events := []\<rparr>"
  have c: "alg_chain (top_world (replicate 32 7) 1) = alg_chain (top_world (replicate 32 7) 0)" by (simp add: top_world_facts)
  obtain h1 h2 where n: "countVotes small_env 4 1 thresholdOfBAStep expectedCommitteeMembers (top_world (replicate 32 7) 0) = Ok (Some h1, ?w1)"
    "countVotes small_env 4 1 thresholdOfBAStep expectedCommitteeMembers (top_world (replicate 32 7) 1) = Ok (Some h2, ?w2)"
    using top_world_count by blast
  have "h1 = h2"
  proof (rule countVotes_agreement [OF n(1) top_world_facts(1) n(2) top_world_facts(1) c refl refl])
    fix M assume "set M \<subseteq> set (getIncomingMsgs (alg_peer ?w1) 4 1) \<union> set (getIncomingMsgs (alg_peer ?w2) 4 1)"
      and "distinct (map voter M)"
    then show "sum_list (map (sub_weight small_env expectedCommitteeMembers) M) \<le> 8"
      by (intro single_vote_weight) (simp_all add: top_world_facts)
  next
    fix M assume "set M \<subseteq> set (getIncomingMsgs (alg_peer ?w2) 4 1)"
      and "\<forall>m \<in> set M. equivocates small_env (alg_chain (top_world (replicate 32 7) 0)) (getIncomingMsgs (alg_peer ?w1) 4 1) m"
    then have "M = []" by (cases M) (auto simp: top_world_facts equivocates_def)
    then show "sum_list (map (sub_weight small_env expectedCommitteeMembers) M) \<le> 0" by simp
  qed (simp add: vote_threshold_step)
  with n show ?thesis by blast
qed

end
