(* ===== verification/Consensus.thy ===== *)
theory Consensus
  imports Count_Votes
begin

text \<open>
  The agreement procedures of \<open>src/algorand.go\<close>: the common coin, the loop of \<open>binaryBA\<close> and what its
  result rests on, \<open>BA\<close> with the block it returns, and the rounds that extend the chain.
\<close>

section \<open>What the procedures leave unchanged\<close>

definition stable :: "world \<Rightarrow> world \<Rightarrow> bool" where
  "stable w w' \<longleftrightarrow> same_node w w' \<and> peer_grows (alg_peer w) (alg_peer w')"

lemma stable_trans: "stable a b \<Longrightarrow> stable b c \<Longrightarrow> stable a c"
  by (auto simp: stable_def intro: same_node_trans peer_grows_trans)

lemma stable_inv: "stable w w' \<Longrightarrow> peer_inv (alg_peer w')"
  by (auto simp: stable_def peer_grows_inv)

lemma stable_chain: "stable w w' \<Longrightarrow> alg_chain w' = alg_chain w"
  by (simp add: stable_def same_node_def)

lemma lastBlock_stable: "stable w w' \<Longrightarrow> lastBlock w' = lastBlock w"
  by (simp add: lastBlock_def stable_chain)

lemma sortition_world: "sortition E seed rl n wt w = Ok (r, w') \<Longrightarrow> w' = w\<lparr>w_draws := Suc (w_draws w)\<rparr>"
  by (auto simp: sortition_def outcome_simps Let_def case_prod_unfold)

lemma cast_vote_world: "cast_vote E rnd step h vrf pfb w = Ok (ok, w') \<Longrightarrow> w' = w\<lparr>w_sent := w_sent w'\<rparr>"
  by (auto simp: cast_vote_def outcome_simps Let_def split: option.splits)

lemma committeeVote_world:
  assumes "committeeVote E rnd step n h w = Ok (ok, w')"
  shows "\<exists>d sent. w' = w\<lparr>w_draws := d, w_sent := sent\<rparr>"
proof (cases "alg_maliciousType w = EvilVoteNothing")
  case True
  with assms have "w' = w\<lparr>w_draws := w_draws w, w_sent := w_sent w\<rparr>" by (simp add: committeeVote_def)
  then show ?thesis by blast
next
  case False
  with assms obtain seed vrf pfb j w1 where
    s: "sortition E (sl seed) (role committee rnd step) n (tokenOwn E w) w = Ok ((vrf, pfb, j), w1)"
    and rest: "(if j > 0 then cast_vote E rnd step h vrf pfb w1 else Ok (True, w1)) = Ok (ok, w')"
    by (auto simp: committeeVote_def outcome_simps)
  from rest have "w' = w1\<lparr>w_sent := w_sent w'\<rparr>" by (auto dest: cast_vote_world split: if_splits)
  then have "w' = w\<lparr>w_draws := Suc (w_draws w), w_sent := w_sent w'\<rparr>" using sortition_world [OF s] by simp
  then show ?thesis by blast
qed

lemma committeeVote_stable:
  "committeeVote E rnd step n h w = Ok (ok, w') \<Longrightarrow> peer_inv (alg_peer w) \<Longrightarrow> stable w w'"
  using committeeVote_world [of E rnd step n h w ok w']
  by (auto simp: stable_def same_node_def peer_grows_refl)

lemma countVotes_stable:
  "countVotes E rnd step th n w = Ok (c, w') \<Longrightarrow> peer_inv (alg_peer w) \<Longrightarrow> stable w w'"
  using countVotes_tally_of by (simp add: stable_def)

lemma vote_and_count_stable:
  assumes "vote_and_count E rnd step r w = Ok (c, w')" and "peer_inv (alg_peer w)"
  shows "stable w w'"
proof -
  obtain ok w1 where v: "committeeVote E rnd step expectedCommitteeMembers r w = Ok (ok, w1)"
    and c: "countVotes E rnd step thresholdOfBAStep expectedCommitteeMembers w1 = Ok (c, w')"
    using assms(1) by (auto simp: vote_and_count_def outcome_simps)
  note s = committeeVote_stable [OF v assms(2)]
  from s countVotes_stable [OF c stable_inv [OF s]] show ?thesis by (rule stable_trans)
qed

lemma vote_next_three_stable:
  assumes "vote_next_three E rnd step r w = Ok w'" and "peer_inv (alg_peer w)"
  shows "stable w w'"
proof -
  obtain ok1 w1 ok2 w2 ok3 where
    v: "committeeVote E rnd (step + 1) expectedCommitteeMembers r w = Ok (ok1, w1)"
    "committeeVote E rnd (step + 2) expectedCommitteeMembers r w1 = Ok (ok2, w2)"
    "committeeVote E rnd (step + 3) expectedCommitteeMembers r w2 = Ok (ok3, w')"
    using assms(1) by (auto simp: vote_next_three_def outcome_simps)
  note s1 = committeeVote_stable [OF v(1) assms(2)]
  note s2 = committeeVote_stable [OF v(2) stable_inv [OF s1]]
  note s3 = committeeVote_stable [OF v(3) stable_inv [OF s2]]
  show ?thesis by (rule stable_trans [OF stable_trans [OF s1 s2] s3])
qed

lemma apply_event_stable: "apply_event E e w = Ok w' \<Longrightarrow> peer_inv (alg_peer w) \<Longrightarrow> stable w w'"
  using apply_event_same by (simp add: stable_def)

lemma hang_stable: "hang E es w = Ok w' \<Longrightarrow> peer_inv (alg_peer w) \<Longrightarrow> stable w w' \<and> w_released w'"
proof (induction es arbitrary: w)
  case Nil
  then show ?case by (auto simp: hang.simps [of E "[]"] stable_def same_node_def peer_grows_refl split: if_splits)
next
  case (Cons e es)
  show ?case
  proof (cases "w_released w")
    case True
    with Cons.prems show ?thesis
      by (auto simp: hang.simps [of E "e # es"] stable_def same_node_def peer_grows_refl)
  next
    case False
    with Cons.prems obtain w1 where ev: "apply_event E e w = Ok w1" and h: "hang E es w1 = Ok w'"
      by (auto simp: hang.simps [of E "e # es"] outcome_simps)
    note s = apply_event_stable [OF ev Cons.prems(2)]
    from Cons.IH [OF h stable_inv [OF s]] s show ?thesis by (auto intro: stable_trans)
  qed
qed

section \<open>Certificates of binary agreement\<close>

text \<open>A committee certificate for a hash in a step of a round.\<close>

definition step_certificate :: "env \<Rightarrow> world \<Rightarrow> u64 \<Rightarrow> int \<Rightarrow> hash \<Rightarrow> bool" where
  "step_certificate E w rnd s h \<longleftrightarrow>
     (\<exists>M. certificate E (alg_chain w) expectedCommitteeMembers 6 (getIncomingMsgs (alg_peer w) rnd s) h M)"

lemma step_certificate_stable:
  assumes "step_certificate E w rnd s h" and "stable w w'"
  shows "step_certificate E w' rnd s h"
proof -
  obtain new where "getIncomingMsgs (alg_peer w') rnd s = getIncomingMsgs (alg_peer w) rnd s @ new"
    using assms(2) peer_grows_votes unfolding stable_def getIncomingMsgs_votes_at by blast
  with assms stable_chain [OF assms(2)] show ?thesis
    by (auto simp: step_certificate_def certificate_def)
qed

lemma vote_and_count_tally:
  assumes "vote_and_count E rnd step r w = Ok (c, w')" and "peer_inv (alg_peer w)"
  shows "tally E w' expectedCommitteeMembers 6 (getIncomingMsgs (alg_peer w') rnd step) (\<lambda>_. 0) {} = Ok c"
proof -
  obtain ok w1 where v: "committeeVote E rnd step expectedCommitteeMembers r w = Ok (ok, w1)"
    and n: "countVotes E rnd step thresholdOfBAStep expectedCommitteeMembers w1 = Ok (c, w')"
    using assms(1) by (auto simp: vote_and_count_def outcome_simps)
  note s = committeeVote_stable [OF v assms(2)]
  from countVotes_tally_of [OF n stable_inv [OF s]] show ?thesis
    by (simp add: vote_threshold_step tally_same [of w1 w'])
qed

lemma vote_and_count_certificate:
  assumes "vote_and_count E rnd step r w = Ok (Some h, w')" and "peer_inv (alg_peer w)"
  shows "step_certificate E w' rnd step h"
proof -
  obtain ok w1 where v: "committeeVote E rnd step expectedCommitteeMembers r w = Ok (ok, w1)"
    and c: "countVotes E rnd step thresholdOfBAStep expectedCommitteeMembers w1 = Ok (Some h, w')"
    using assms(1) by (auto simp: vote_and_count_def outcome_simps)
  note s = committeeVote_stable [OF v assms(2)]
  have "alg_chain w' = alg_chain w1" by (rule stable_chain [OF countVotes_stable [OF c stable_inv [OF s]]])
  with countVotes_certificate_of [OF c stable_inv [OF s]] show ?thesis
    by (simp add: step_certificate_def vote_threshold_step)
qed

lemma ba_first_result:
  assumes "ba_first E rnd hash e step r w = Ok (x, w')" and "peer_inv (alg_peer w)"
  shows "stable w w' \<and> (\<forall>h. x = Inl h \<longrightarrow> h \<noteq> e \<and> step_certificate E w' rnd step h)"
proof -
  obtain c w1 where vc: "vote_and_count E rnd step r w = Ok (c, w1)"
    using assms(1) by (auto simp: ba_first_def outcome_simps)
  note s1 = vote_and_count_stable [OF vc assms(2)]
  show ?thesis
  proof (cases "c = None \<or> c = Some e")
    case True
    with assms(1) vc s1 show ?thesis by (auto simp: ba_first_def)
  next
    case False
    then obtain h where h: "c = Some h" "h \<noteq> e" by (cases c) auto
    note cert = vote_and_count_certificate [OF vc [unfolded h(1)] assms(2)]
    from assms(1) vc h obtain w2 ok where w2: "vote_next_three E rnd step h w1 = Ok w2" and x: "x = Inl h"
      and fin: "(if step = 1 then committeeVote E rnd FINAL expectedFinalCommitteeMembers h w2 else Ok (True, w2)) = Ok (ok, w')"
      by (auto simp: ba_first_def outcome_simps)
    note s2 = vote_next_three_stable [OF w2 stable_inv [OF s1]]
    have "stable w2 w'"
      using fin stable_inv [OF s2] by (auto simp: stable_def peer_grows_refl split: if_splits dest: committeeVote_stable)
    with s2 have s3: "stable w1 w'" by (rule stable_trans)
    with s1 cert x h show ?thesis by (auto intro: stable_trans step_certificate_stable)
  qed
qed

lemma ba_second_result:
  assumes "ba_second E rnd e step r w = Ok (x, w')" and "peer_inv (alg_peer w)"
  shows "stable w w' \<and> (\<forall>h. x = Inl h \<longrightarrow> h = e \<and> step_certificate E w' rnd step h)"
proof -
  obtain c w1 where vc: "vote_and_count E rnd step r w = Ok (c, w1)"
    using assms(1) by (auto simp: ba_second_def outcome_simps)
  note s1 = vote_and_count_stable [OF vc assms(2)]
  show ?thesis
  proof (cases "c = Some e")
    case False
    with assms(1) vc s1 show ?thesis by (auto simp: ba_second_def split: option.splits)
  next
    case True
    note cert = vote_and_count_certificate [OF vc [unfolded True] assms(2)]
    from assms(1) vc True have w2: "vote_next_three E rnd step e w1 = Ok w'" and x: "x = Inl e"
      by (auto simp: ba_second_def outcome_simps)
    note s2 = vote_next_three_stable [OF w2 stable_inv [OF s1]]
    from s1 s2 cert x show ?thesis by (auto intro: stable_trans step_certificate_stable)
  qed
qed

lemma ba_third_stable:
  assumes "ba_third E rnd hash e step r w = Ok (x, w')" and "peer_inv (alg_peer w)"
  shows "stable w w'"
  using assms by (auto simp: ba_third_def outcome_simps split: option.splits dest: vote_and_count_stable)

lemma certificate_mono: "certificate E bc n k L h M \<Longrightarrow> set L \<subseteq> set L' \<Longrightarrow> certificate E bc n k L' h M"
  by (auto simp: certificate_def)

lemma stable_votes:
  assumes "stable w w'"
  shows "set (getIncomingMsgs (alg_peer w) rnd s) \<subseteq> set (getIncomingMsgs (alg_peer w') rnd s)"
proof -
  obtain new where "getIncomingMsgs (alg_peer w') rnd s = getIncomingMsgs (alg_peer w) rnd s @ new"
    using assms peer_grows_votes unfolding stable_def getIncomingMsgs_votes_at by blast
  then show ?thesis by simp
qed

text \<open>What a returned hash rests on.\<close>

definition decided :: "env \<Rightarrow> world \<Rightarrow> u64 \<Rightarrow> hash \<Rightarrow> hash \<Rightarrow> bool" where
  "decided E w rnd e h \<longleftrightarrow>
     (\<exists>s. 1 \<le> s \<and> s \<le> MAXSTEPS \<and> (h = e \<longleftrightarrow> even s) \<and> step_certificate E w rnd s h)"

lemma binaryBA_loop_decides:
  assumes "binaryBA_loop E rnd hash e step r w = Ok (h, w')" and "peer_inv (alg_peer w)"
    and "1 \<le> step" and "odd step"
  shows "stable w w' \<and> (decided E w' rnd e h \<or> h = zero_hash \<and> w_released w')"
  using assms
proof (induction E rnd hash e step r w rule: binaryBA_loop.induct)
  case (1 E rnd hash e step r w)
  show ?case
  proof (cases "step < MAXSTEPS")
    case False
    then obtain w1 where "hang E (w_events w) w = Ok w1" "h = zero_hash" "w' = w1"
      using "1.prems"(1) by (auto simp: binaryBA_loop.simps [of E rnd hash e step] outcome_simps)
    with hang_stable "1.prems"(2) show ?thesis by blast
  next
    case True
    note unf = binaryBA_loop.simps [of E rnd hash e step r w]
    obtain x w1 where f: "ba_first E rnd hash e step r w = Ok (x, w1)"
      using "1.prems"(1) True by (auto simp: unf outcome_simps)
    note s1 = ba_first_result [OF f "1.prems"(2)]
    show ?thesis
    proof (cases x)
      case (Inl h1)
      with "1.prems"(1) True f have "h = h1" "w' = w1" by (auto simp: unf)
      moreover have "step \<le> MAXSTEPS" using True by simp
      ultimately show ?thesis using s1 Inl "1.prems"(3,4) unfolding decided_def by blast
    next
      case r1: (Inr r1)
      obtain y w2 where g: "ba_second E rnd e (step + 1) r1 w1 = Ok (y, w2)"
        using "1.prems"(1) True f r1 by (auto simp: unf outcome_simps)
      note s2 = ba_second_result [OF g stable_inv [OF s1 [THEN conjunct1]]]
      have s12: "stable w w2" using s1 s2 by (blast intro: stable_trans)
      show ?thesis
      proof (cases y)
        case (Inl h2)
        with "1.prems"(1) True f g r1 have "h = h2" "w' = w2" by (auto simp: unf)
        moreover have "even (step + 1)" "1 \<le> step + 1" "step + 1 \<le> MAXSTEPS" using "1.prems"(3,4) True by auto
        ultimately show ?thesis using s2 s12 Inl unfolding decided_def by blast
      next
        case r2: (Inr r2)
        obtain r3 w3 where t: "ba_third E rnd hash e (step + 2) r2 w2 = Ok (r3, w3)"
          and rest: "binaryBA_loop E rnd hash e (step + 2) r3 w3 = Ok (h, w')"
          using "1.prems"(1) True f g r1 r2 by (auto simp: unf outcome_simps)
        note s3 = ba_third_stable [OF t stable_inv [OF s12]]
        have odd: "1 \<le> step + 2" "odd (step + 2)" using "1.prems"(3,4) by auto
        from "1.IH" [OF True f refl r1 g refl r2 t refl rest stable_inv [OF s3] odd] s12 s3 show ?thesis
          by (blast intro: stable_trans)
      qed
    qed
  qed
qed

lemma binaryBA_result:
  assumes "binaryBA E rnd hash w = Ok (h, w')" and "peer_inv (alg_peer w)" and "bc_last (alg_chain w) = Some l"
  shows "stable w w' \<and> (decided E w' rnd (emptyHash rnd (Block_Hash l)) h \<or> h = zero_hash \<and> w_released w')"
proof -
  have "binaryBA_loop E rnd hash (emptyHash rnd (Block_Hash l)) 1 hash w = Ok (h, w')"
    using assms(1,3) by (simp add: binaryBA_def lastBlock_def)
  from binaryBA_loop_decides [OF this assms(2)] show ?thesis by simp
qed

text \<open>
  C4: a value that \<open>binaryBA\<close> returns is backed by a committee. Either it is the zero hash, returned
  because the node gave up after the last step and the fork loop released it; or in some step between
  1 and \<open>MAXSTEPS\<close> the node holds votes for it by distinct signers with valid signatures and at least
  six sub-users, in an odd step if the value is a block and in an even step if it is the empty hash.
  The chain, the keys and the votes already received are unchanged.
\<close>

theorem binaryBA_decides:
  assumes "binaryBA E rnd hash w = Ok (h, w')" and "peer_inv (alg_peer w)" and "bc_last (alg_chain w) = Some l"
  shows "stable w w' \<and> (decided E w' rnd (emptyHash rnd (Block_Hash l)) h \<or> h = zero_hash \<and> w_released w')"
  using assms by (rule binaryBA_result)

section \<open>The common coin\<close>

text \<open>The hashes of the sub-users of a message that \<open>commonCoin\<close> looks at.\<close>

definition msg_votes :: "env \<Rightarrow> ('a) Algorand_scheme \<Rightarrow> int \<Rightarrow> VoteMessage \<Rightarrow> nat" where
  "msg_votes E w n m = (case processMsg E w m n of Ok (votes, h, v) \<Rightarrow> votes | _ \<Rightarrow> 0)"

definition coin_set :: "env \<Rightarrow> ('a) Algorand_scheme \<Rightarrow> int \<Rightarrow> VoteMessage list \<Rightarrow> nat set" where
  "coin_set E w n ms =
     (\<Union>m \<in> set ms. (\<lambda>j. be_nat (sub_priority (vm_VRF m) j)) ` {1..<msg_votes E w n m})"

lemma coin_hashes_Min:
  "coin_hashes vrf js k = Min (insert k ((\<lambda>j. be_nat (sub_priority vrf j)) ` set js))"
proof (induction js arbitrary: k)
  case (Cons j js)
  have "(if be_nat (sub_priority vrf j) < k then be_nat (sub_priority vrf j) else k) = min k (be_nat (sub_priority vrf j))"
    by simp
  then have "coin_hashes vrf (j # js) k = coin_hashes vrf js (min k (be_nat (sub_priority vrf j)))"
    by (simp add: sub_priority_def Hash_Bytes_def Let_def)
  also have "\<dots> = Min (insert (min k (be_nat (sub_priority vrf j))) ((\<lambda>j. be_nat (sub_priority vrf j)) ` set js))"
    by (rule Cons.IH)
  also have "\<dots> = Min (insert k ((\<lambda>j. be_nat (sub_priority vrf j)) ` set (j # js)))"
    by (cases "js = []") (simp_all add: min.assoc)
  finally show ?case .
qed simp

lemma Min_insert_insert: "finite A \<Longrightarrow> finite B \<Longrightarrow> Min (insert (Min (insert k A)) B) = Min (insert k (A \<union> B))"
proof -
  assume "finite A" "finite B"
  then have "Min (insert k A \<union> insert k B) = min (Min (insert k A)) (Min (insert k B))"
    by (intro Min_Un) auto
  moreover have "Min (insert (Min (insert k A)) B) = min (Min (insert k A)) (Min (insert k B))"
    using \<open>finite A\<close> \<open>finite B\<close>
    by (cases "A = {}"; cases "B = {}") (auto simp: min.assoc min.left_commute min.commute)
  moreover have "insert k A \<union> insert k B = insert k (A \<union> B)" by auto
  ultimately show ?thesis by simp
qed

lemma coin_loop_Min:
  "coin_loop E w n ms k = Ok m \<Longrightarrow> m = Min (insert k (coin_set E w n ms))"
proof (induction ms arbitrary: k)
  case (Cons a ms)
  then obtain votes h v where pm: "processMsg E w a n = Ok (votes, h, v)"
    and rest: "coin_loop E w n ms (coin_hashes v [1..<votes] k) = Ok m"
    by (auto simp: outcome_simps)
  let ?A = "(\<lambda>j. be_nat (sub_priority (vm_VRF a) j)) ` {1..<votes}"
  have hv: "coin_hashes v [1..<votes] k = Min (insert k ?A)"
    using processMsg_counts [OF pm] by (cases "votes = 0") (simp_all add: coin_hashes_Min)
  have set: "coin_set E w n (a # ms) = ?A \<union> coin_set E w n ms"
    using pm by (simp add: coin_set_def msg_votes_def)
  have "finite (coin_set E w n ms)" by (simp add: coin_set_def)
  with Cons.IH [OF rest] show ?case unfolding hv set by (simp add: Min_insert_insert)
qed (simp add: coin_set_def)

text \<open>
  What the common coin is. It is the parity of the least sub-user hash of the votes of the step,
  but only hashes below \<open>2^32\<close> matter: with none, the coin is 0, whatever the votes. (The bound
  is 2 to the number of octets of a hash, not of bits.)
\<close>

theorem commonCoin_value:
  assumes "commonCoin E w rnd step n = Ok c"
  shows "c = int (Min (insert (2 ^ 32) (coin_set E w n (getIncomingMsgs (alg_peer w) rnd step))) mod 2)
    \<and> (c = 0 \<or> c = 1)
    \<and> ((\<forall>x \<in> coin_set E w n (getIncomingMsgs (alg_peer w) rnd step). 2 ^ 32 \<le> x) \<longrightarrow> c = 0)"
proof -
  let ?S = "coin_set E w n (getIncomingMsgs (alg_peer w) rnd step)"
  have c: "c = int (Min (insert (2 ^ 32) ?S) mod 2)"
    using assms by (auto simp: commonCoin_def Let_def outcome_simps HashLength_def dest: coin_loop_Min)
  moreover have "finite ?S" by (simp add: coin_set_def)
  then have "Min (insert (2 ^ 32) ?S) = 2 ^ 32" if "\<forall>x \<in> ?S. 2 ^ 32 \<le> x"
    using that by (intro Min_eqI) auto
  moreover have "c = 0 \<or> c = 1" unfolding c by (cases "even (Min (insert (2 ^ 32) ?S))") (auto simp: odd_iff_mod_2_eq_one)
  ultimately show ?thesis by auto
qed

section \<open>The third sub-step\<close>

text \<open>
  A second count of the step that the third sub-step has counted: it goes over a list that starts with
  the votes of the first count, and so comes to the same hash.
\<close>

lemma counted_again:
  assumes "vote_and_count E rnd s r0 w = Ok (Some r, w1)" and "peer_inv (alg_peer w)" and "r \<noteq> e"
    and "ba_first E rnd hash e s r' w1 = Ok (x, w2)"
  shows "x = Inl r"
proof -
  let ?L = "\<lambda>w. getIncomingMsgs (alg_peer w) rnd s"
  note counted = vote_and_count_tally
  from counted [OF assms(1,2)] have t1: "tally E w1 expectedCommitteeMembers 6 (?L w1) (\<lambda>_. 0) {} = Ok (Some r)"
    by simp
  note inv1 = stable_inv [OF vote_and_count_stable [OF assms(1,2)]]
  obtain c w3 where c: "vote_and_count E rnd s r' w1 = Ok (c, w3)"
    using assms(4) by (auto simp: ba_first_def outcome_simps)
  note s3 = vote_and_count_stable [OF c inv1]
  obtain new where "?L w3 = ?L w1 @ new"
    using s3 peer_grows_votes unfolding stable_def getIncomingMsgs_votes_at by blast
  with tally_prefix [OF t1] have "tally E w1 expectedCommitteeMembers 6 (?L w3) (\<lambda>_. 0) {} = Ok (Some r)" by simp
  then have "c = Some r"
    using counted [OF c inv1] tally_same [of w1 w3] s3 by (simp add: stable_def)
  with c assms(3,4) show ?thesis by (auto simp: ba_first_def outcome_simps)
qed

text \<open>
  C39: \<open>binaryBA\<close> counts its third sub-step twice, since its loop does not increment \<open>step\<close> after it.
  Take a turn of the loop at \<open>step = s\<close>, before the last one, whose first two sub-steps decide nothing
  and whose third sub-step counts a block hash \<open>r\<close> in step \<open>s + 2\<close>. Then the rest of the loop is the first
  sub-step of the next turn, which votes and counts in step \<open>s + 2\<close> once more, cannot come to another
  result and so ends the loop with \<open>r\<close>: the loop returns \<open>r\<close> with the state of this sub-step, and
  panics or waits exactly when it does.
\<close>

theorem third_step_decides:
  assumes "ba_first E rnd hash e s r0 w = Ok (Inr r1, w1)" and "ba_second E rnd e (s + 1) r1 w1 = Ok (Inr r2, w2)"
    and "vote_and_count E rnd (s + 2) r2 w2 = Ok (Some r, w3)" and "r \<noteq> e"
    and "s + 2 < MAXSTEPS" and "peer_inv (alg_peer w)"
  shows "binaryBA_loop E rnd hash e s r0 w = obind (ba_first E rnd hash e (s + 2) r w3) (\<lambda>(x, w4). Ok (r, w4))
    \<and> (\<forall>x w4. ba_first E rnd hash e (s + 2) r w3 = Ok (x, w4) \<longrightarrow> x = Inl r)"
proof -
  note s1 = ba_first_result [OF assms(1,6), THEN conjunct1]
  note s2 = ba_second_result [OF assms(2) stable_inv [OF s1], THEN conjunct1]
  have x: "x = Inl r" if "ba_first E rnd hash e (s + 2) r w3 = Ok (x, w4)" for x w4
    by (rule counted_again [OF assms(3) stable_inv [OF s2] assms(4) that])
  have "ba_third E rnd hash e (s + 2) r2 w2 = Ok (r, w3)" using assms(3) by (simp add: ba_third_def)
  with assms(1,2,5) have "binaryBA_loop E rnd hash e s r0 w = binaryBA_loop E rnd hash e (s + 2) r w3"
    by (subst binaryBA_loop.simps) simp
  also have "\<dots> = obind (ba_first E rnd hash e (s + 2) r w3) (\<lambda>(x, w4). Ok (r, w4))"
    using assms(5) x by (subst binaryBA_loop.simps) (auto intro!: obind_cong)
  finally show ?thesis using x by blast
qed

section \<open>BA* and the block it returns\<close>

lemma reduction_stable:
  assumes "reduction E rnd hash w = Ok (h, w')" and "peer_inv (alg_peer w)"
  shows "stable w w'"
proof -
  obtain ok1 w1 h1 w2 l ok2 w3 h2 where
    v1: "committeeVote E rnd REDUCTION_ONE expectedCommitteeMembers hash w = Ok (ok1, w1)"
    and c1: "countVotes E rnd REDUCTION_ONE thresholdOfBAStep expectedCommitteeMembers w1 = Ok (h1, w2)"
    and v2: "committeeVote E rnd REDUCTION_TWO expectedCommitteeMembers
      (case h1 of None \<Rightarrow> emptyHash rnd (Block_Hash l) | Some h \<Rightarrow> h) w2 = Ok (ok2, w3)"
    and c2: "countVotes E rnd REDUCTION_TWO thresholdOfBAStep expectedCommitteeMembers w3 = Ok (h2, w')"
  proof -
    from assms(1) obtain ok1 w1 h1 w2 l ok2 w3 h2 w4 where
      v1: "committeeVote E rnd REDUCTION_ONE expectedCommitteeMembers hash w = Ok (ok1, w1)"
      and c1: "countVotes E rnd REDUCTION_ONE thresholdOfBAStep expectedCommitteeMembers w1 = Ok (h1, w2)"
      and v2: "committeeVote E rnd REDUCTION_TWO expectedCommitteeMembers
        (case h1 of None \<Rightarrow> emptyHash rnd (Block_Hash l) | Some h \<Rightarrow> h) w2 = Ok (ok2, w3)"
      and c2: "countVotes E rnd REDUCTION_TWO thresholdOfBAStep expectedCommitteeMembers w3 = Ok (h2, w4)"
      and r: "(case h2 of None \<Rightarrow> Ok (emptyHash rnd (Block_Hash l), w4) | Some h \<Rightarrow> Ok (h, w4)) = Ok (h, w')"
      unfolding reduction_def Let_def obind_pair_Ok_iff by (auto simp only: obind_Ok_iff obind_pair_Ok_iff)
    moreover from r have "w4 = w'" by (auto split: option.splits)
    ultimately show thesis using that by blast
  qed
  note s1 = committeeVote_stable [OF v1 assms(2)]
  note s2 = countVotes_stable [OF c1 stable_inv [OF s1]]
  note s3 = committeeVote_stable [OF v2 stable_inv [OF s2]]
  note s4 = countVotes_stable [OF c2 stable_inv [OF s3]]
  show ?thesis by (rule stable_trans [OF stable_trans [OF s1 s2] stable_trans [OF s3 s4]])
qed

lemma BA_reduction_stable:
  "BA_reduction E rnd block w = Ok (h, w') \<Longrightarrow> peer_inv (alg_peer w) \<Longrightarrow> stable w w'"
  by (auto simp: BA_reduction_def Let_def outcome_simps split: if_splits dest: reduction_stable)

lemma set_type_result:
  assumes "set_type cached hash t b w = Ok (blk, w')" and "peer_inv (alg_peer w)"
    and "\<And>x. cached \<Longrightarrow> b = Some x \<Longrightarrow> Block_Hash x = hash"
  shows "\<exists>x. b = Some x \<and> blk = x\<lparr>blk_Type := t\<rparr> \<and> Block_Hash blk = Block_Hash x \<and> stable w w'"
proof -
  obtain x where x: "b = Some x" "blk = x\<lparr>blk_Type := t\<rparr>"
    and w': "w' = (if cached then w\<lparr>alg_peer := addBlock hash blk (alg_peer w)\<rparr> else w)"
    using assms(1) by (auto simp: set_type_def outcome_simps Let_def)
  have h: "Block_Hash blk = Block_Hash x" by (simp add: x(2) Block_Hash_type)
  have "stable w w'"
  proof (cases cached)
    case True
    then have "Block_Hash blk = hash" using assms(3) x(1) h by simp
    with True peer_grows_tables(2) [OF assms(2), of blk] show ?thesis
      by (simp add: w' stable_def same_node_def)
  qed (simp add: w' stable_def peer_grows_refl [OF assms(2)])
  with x h show ?thesis by blast
qed

lemma BA_result:
  assumes "BA E rnd block w = Ok ((t, blk), w')" and "peer_inv (alg_peer w)" and "blocks_ok (alg_peer w)"
    and "bc_last (alg_chain w) = Some l"
  shows "\<exists>h. stable w w' \<and> Block_Hash blk = h \<and> blk_Type blk = t
    \<and> (decided E w' rnd (emptyHash rnd (Block_Hash l)) h \<or> h = zero_hash)
    \<and> (h = emptyHash rnd (Block_Hash l) \<longrightarrow> blk_Round blk = rnd \<and> blk_ParentHash blk = Block_Hash l)
    \<and> (t = FINAL_CONSENSUS \<longrightarrow> h = zero_hash \<or>
         (\<exists>M. certificate E (alg_chain w) expectedFinalCommitteeMembers 14 (getIncomingMsgs (alg_peer w') rnd FINAL) h M))"
proof -
  let ?e = "emptyHash rnd (Block_Hash l)"
  obtain h0 w1 h w2 c w3 where red: "BA_reduction E rnd block w = Ok (h0, w1)"
    and bba: "binaryBA E rnd h0 w1 = Ok (h, w2)"
    and fin: "countVotes E rnd FINAL finalThreshold expectedFinalCommitteeMembers w2 = Ok (c, w3)"
    and rest: "BA_finish rnd h c w3 = Ok ((t, blk), w')"
    using assms(1) unfolding BA_def obind_pair_Ok_iff by blast
  note s1 = BA_reduction_stable [OF red assms(2)]
  have l1: "bc_last (alg_chain w1) = Some l" using stable_chain [OF s1] assms(4) by simp
  note b = binaryBA_result [OF bba stable_inv [OF s1] l1]
  have s2: "stable w1 w2" using b by blast
  note s3 = countVotes_stable [OF fin stable_inv [OF s2]]
  have s: "stable w w3" by (rule stable_trans [OF stable_trans [OF s1 s2] s3])
  have l3: "lastBlock w3 = Ok l" using lastBlock_stable [OF s] assms(4) by (simp add: lastBlock_def)
  have ok3: "blocks_ok (alg_peer w3)" using s assms(3) by (simp add: stable_def peer_grows_def)
  let ?t = "if (case c of None \<Rightarrow> zero_hash | Some h \<Rightarrow> h) = h then FINAL_CONSENSUS else TENTATIVE_CONSENSUS"
  let ?b = "if h = ?e then Some (emptyBlock rnd (Block_Hash l)) else getBlock (alg_peer w3) h"
  from rest l3 have st: "set_type (h \<noteq> ?e) h ?t ?b w3 = Ok (blk, w')" and t: "t = ?t"
    by (auto simp: BA_finish_def Let_def outcome_simps)
  have key: "Block_Hash x = h" if "?b = Some x" for x
    using that ok3 by (auto simp: blocks_ok_def emptyHash_block split: if_splits)
  obtain x where x: "?b = Some x" "blk = x\<lparr>blk_Type := ?t\<rparr>" "Block_Hash blk = Block_Hash x" "stable w3 w'"
    using set_type_result [OF st stable_inv [OF s]] key by blast
  have sw: "stable w w'" using s x(4) by (rule stable_trans)
  have s23: "stable w2 w'" using s3 x(4) by (rule stable_trans)
  have dec: "decided E w' rnd ?e h \<or> h = zero_hash"
    using b s23 unfolding decided_def by (blast intro: step_certificate_stable)
  have "\<exists>M. certificate E (alg_chain w) expectedFinalCommitteeMembers 14 (getIncomingMsgs (alg_peer w') rnd FINAL) h M"
    if final: "c = Some h"
  proof -
    have ch: "alg_chain w2 = alg_chain w" using stable_chain [OF s1] stable_chain [OF s2] by simp
    obtain M where M: "certificate E (alg_chain w) expectedFinalCommitteeMembers 14 (getIncomingMsgs (alg_peer w3) rnd FINAL) h M"
      using countVotes_certificate_of [OF fin [unfolded final] stable_inv [OF s2]] ch by (auto simp: vote_threshold_final)
    have "set (getIncomingMsgs (alg_peer w3) rnd FINAL) \<subseteq> set (getIncomingMsgs (alg_peer w') rnd FINAL)"
      by (rule stable_votes [OF x(4)])
    with M show ?thesis by (blast intro: certificate_mono)
  qed
  then have "t = FINAL_CONSENSUS \<longrightarrow> h = zero_hash \<or>
      (\<exists>M. certificate E (alg_chain w) expectedFinalCommitteeMembers 14 (getIncomingMsgs (alg_peer w') rnd FINAL) h M)"
    by (cases c) (auto simp: t FINAL_CONSENSUS_def TENTATIVE_CONSENSUS_def)
  moreover have "h = ?e \<longrightarrow> blk_Round blk = rnd \<and> blk_ParentHash blk = Block_Hash l"
    using x(1,2) by (auto simp: emptyBlock_def)
  moreover have "Block_Hash blk = h" by (rule trans [OF x(3) key [OF x(1)]])
  moreover have "blk_Type blk = t" by (simp only: x(2) t) simp
  ultimately show ?thesis using sw dec by blast
qed

text \<open>
  C7: the block that \<open>BA\<close> returns is the one that was agreed on. Its hash is the value that binary
  agreement returned (so a committee certificate backs it, unless the node hung and was released with
  the zero hash); if that is the empty hash, it is the empty block of the round on the last block;
  its type is the returned consensus type; and a final consensus also has a certificate of the final
  committee: votes by distinct signers in the step \<open>FINAL\<close> with at least 14 sub-users.
\<close>

theorem BA_block:
  assumes "BA E rnd block w = Ok ((t, blk), w')" and "peer_inv (alg_peer w)" and "blocks_ok (alg_peer w)"
    and "bc_last (alg_chain w) = Some l"
  shows "\<exists>h. stable w w' \<and> Block_Hash blk = h \<and> blk_Type blk = t
    \<and> (decided E w' rnd (emptyHash rnd (Block_Hash l)) h \<or> h = zero_hash)
    \<and> (h = emptyHash rnd (Block_Hash l) \<longrightarrow> blk_Round blk = rnd \<and> blk_ParentHash blk = Block_Hash l)
    \<and> (t = FINAL_CONSENSUS \<longrightarrow> h = zero_hash \<or>
         (\<exists>M. certificate E (alg_chain w) expectedFinalCommitteeMembers 14 (getIncomingMsgs (alg_peer w') rnd FINAL) h M))"
  using assms by (rule BA_result)

text \<open>
  C20: a released node crashes. When \<open>binaryBA\<close> has given up and returns the zero hash, \<open>BA\<close> reads
  through a nil pointer: it cannot return, unless a cached block or the empty block of the round
  hashes to zero.
\<close>

theorem BA_after_hang:
  assumes "BA_reduction E rnd block w = Ok (h0, w1)" and "binaryBA E rnd h0 w1 = Ok (zero_hash, w2)"
    and "countVotes E rnd FINAL finalThreshold expectedFinalCommitteeMembers w2 = Ok (c, w3)"
    and "bc_last (alg_chain w3) = Some l" and "emptyHash rnd (Block_Hash l) \<noteq> zero_hash"
    and "getBlock (alg_peer w3) zero_hash = None"
  shows "BA E rnd block w = Panic"
  using assms by (simp add: BA_def BA_finish_def lastBlock_def set_type_def Let_def eq_commute [of zero_hash])

section \<open>Proposals\<close>

lemma proposeBlock_stable:
  assumes "proposeBlock E w = Ok (b, w')" and "peer_inv (alg_peer w)"
  shows "stable w w'"
proof -
  have "w' = w\<lparr>w_draws := Suc (w_draws w)\<rparr>"
    using assms(1) by (auto simp: proposeBlock_def Let_def outcome_simps split: option.splits)
  then show ?thesis using assms(2) by (simp add: stable_def same_node_def peer_grows_refl)
qed

lemma new_block_stable:
  assumes "(if \<not> resolve_fork then proposeBlock E w else obind (proposeFork w) (\<lambda>b. Ok (b, w))) = Ok (b, w')"
    and "peer_inv (alg_peer w)"
  shows "stable w w'"
  using assms by (auto simp: outcome_simps stable_def peer_grows_refl split: if_splits
      dest: proposeBlock_stable [unfolded stable_def])

lemma stable_sent [simp]: "stable w (w'\<lparr>w_sent := x\<rparr>) \<longleftrightarrow> stable w w'"
  by (simp add: stable_def same_node_def)

lemma send_proposal_stable:
  assumes "send_proposal E resolve_fork rnd vrf pfb users w = Ok w'" and "peer_inv (alg_peer w)"
  shows "stable w w'"
proof -
  obtain newBlk w1 where nb:
      "(if \<not> resolve_fork then proposeBlock E w else obind (proposeFork w) (\<lambda>b. Ok (b, w))) = Ok (newBlk, w1)"
    using assms(1) unfolding send_proposal_def obind_pair_Ok_iff by blast
  let ?pp = "make_proposal newBlk vrf pfb users w1"
  let ?w2 = "w1\<lparr>alg_peer := addBlock (Block_Hash newBlk) newBlk (setMaxProposal rnd ?pp (alg_peer w1))\<rparr>"
  note s1 = new_block_stable [OF nb assms(2)]
  have "peer_grows (alg_peer w1) (alg_peer ?w2)"
    using stable_inv [OF s1] peer_grows_trans peer_grows_tables peer_grows_inv by simp blast
  then have s2: "stable w1 ?w2" by (simp add: stable_def same_node_def)
  note s12 = stable_trans [OF s1 s2]
  show ?thesis
  proof (cases "alg_maliciousType ?w2 = EvilBlockProposal \<and> \<not> resolve_fork")
    case True
    then obtain b2 w3 sent where "proposeBlock E ?w2 = Ok (b2, w3)" "w' = w3\<lparr>w_sent := sent\<rparr>"
      using assms(1) nb unfolding send_proposal_def by (auto simp: Let_def obind_pair_Ok_iff outcome_simps)
    with stable_trans [OF s12 proposeBlock_stable [OF _ stable_inv [OF s2]]] show ?thesis by simp
  next
    case False
    then obtain sent where "w' = ?w2\<lparr>w_sent := sent\<rparr>"
      using assms(1) nb unfolding send_proposal_def by (auto simp: Let_def)
    with s12 show ?thesis by simp
  qed
qed

lemma wait_priority_stable:
  "wait_priority E es w = Ok w' \<Longrightarrow> peer_inv (alg_peer w) \<Longrightarrow> stable w w'"
proof (induction es arbitrary: w)
  case (Cons e es)
  show ?case
  proof (cases "e = Fire")
    case True
    with Cons.prems show ?thesis by (auto simp: stable_def same_node_def peer_grows_refl)
  next
    case False
    with Cons.prems(1) obtain w1 where ev: "apply_event E e w = Ok w1" and rest: "wait_priority E es w1 = Ok w'"
      by (cases e) (auto simp: obind_Ok_iff)
    note s = apply_event_stable [OF ev Cons.prems(2)]
    from s Cons.IH [OF rest stable_inv [OF s]] show ?thesis by (rule stable_trans)
  qed
qed simp

text \<open>The waiting loop gives the empty block or a cached block.\<close>

lemma wait_block_stable:
  "wait_block E rnd es w = Ok (b, w') \<Longrightarrow> peer_inv (alg_peer w) \<Longrightarrow> stable w w'"
proof (induction es arbitrary: w)
  case (Cons e es)
  consider "e = Fire" | "e = Turn" | (other) "e \<noteq> Fire" "e \<noteq> Turn" by blast
  then show ?case
  proof cases
    case other
    with Cons.prems(1) obtain w1 where ev: "apply_event E e w = Ok w1" and rest: "wait_block E rnd es w1 = Ok (b, w')"
      by (cases e) (auto simp: obind_Ok_iff)
    note s = apply_event_stable [OF ev Cons.prems(2)]
    from s Cons.IH [OF rest stable_inv [OF s]] show ?thesis by (rule stable_trans)
  qed (use Cons in \<open>auto simp: outcome_simps stable_def same_node_def peer_grows_refl split: option.splits\<close>)
qed simp

lemma blockProposal_stable:
  assumes "blockProposal E resolve_fork w = Ok (b, w')" and "peer_inv (alg_peer w)"
  shows "stable w w'"
proof -
  obtain cur seed vrf pfb users w1 w2 w3 where
    so: "sortition E (sl seed) (role proposer (cur + 1) PROPOSE) expectedBlockProposers (tokenOwn E w) w
      = Ok ((vrf, pfb, users), w1)"
    and se: "(if users > 0 then send_proposal E resolve_fork (cur + 1) vrf pfb users w1 else Ok w1) = Ok w2"
    and wp: "wait_priority E (w_events w2) w2 = Ok w3"
    and wb: "wait_block E (cur + 1) (w_events w3) w3 = Ok (b, w')"
    using assms(1) unfolding blockProposal_def Let_def by (auto simp: obind_Ok_iff obind_pair_Ok_iff)
  have s1: "stable w w1" using sortition_world [OF so] assms(2) by (simp add: stable_def same_node_def peer_grows_refl)
  have "stable w1 w2"
    using se stable_inv [OF s1] by (auto simp: stable_def peer_grows_refl split: if_splits
        dest: send_proposal_stable [unfolded stable_def])
  with s1 have s2: "stable w w2" by (rule stable_trans)
  note s3 = stable_trans [OF s2 wait_priority_stable [OF wp stable_inv [OF s2]]]
  show ?thesis by (rule stable_trans [OF s3 wait_block_stable [OF wb stable_inv [OF s3]]])
qed

section \<open>Rounds\<close>

text \<open>The invariant of a node between rounds.\<close>

definition node_ok :: "world \<Rightarrow> bool" where
  "node_ok w \<longleftrightarrow> chain_inv (alg_chain w) \<and> peer_inv (alg_peer w) \<and> blocks_ok (alg_peer w)"

lemma stable_node_ok: "stable w w' \<Longrightarrow> node_ok w \<Longrightarrow> node_ok w'"
  by (auto simp: node_ok_def stable_def same_node_def peer_grows_def)

lemma processMain_result:
  assumes "processMain E w = Ok w'" and "node_ok w"
  shows "node_ok w' \<and> (\<exists>l blk. bc_last (alg_chain w) = Some l \<and> alg_chain w' = bc_add (alg_chain w) blk
    \<and> (decided E (w'\<lparr>alg_chain := alg_chain w\<rparr>) (blk_Round l + 1) (emptyHash (blk_Round l + 1) (Block_Hash l)) (Block_Hash blk)
       \<or> Block_Hash blk = zero_hash))"
proof -
  obtain cur b w1 t blk w2 where cur: "current_round w = Ok cur"
    and bp: "blockProposal E False w = Ok (b, w1)" and ba: "BA E (cur + 1) b w1 = Ok ((t, blk), w2)"
    and w': "w' = w2\<lparr>alg_chain := bc_add (alg_chain w2) blk\<rparr>"
    using assms(1) unfolding processMain_def obind_pair_Ok_iff
    by (auto simp: obind_Ok_iff obind_pair_Ok_iff)
  have inv: "peer_inv (alg_peer w)" using assms(2) by (simp add: node_ok_def)
  obtain l where l: "bc_last (alg_chain w) = Some l" using assms(2) by (auto simp: node_ok_def chain_inv_def)
  then have c: "cur = blk_Round l" using cur by (simp add: current_round_def lastBlock_def)
  note s1 = blockProposal_stable [OF bp inv]
  note ok1 = stable_node_ok [OF s1 assms(2)]
  have l1: "bc_last (alg_chain w1) = Some l" using stable_chain [OF s1] l by simp
  have p1: "peer_inv (alg_peer w1)" "blocks_ok (alg_peer w1)" using ok1 by (simp_all add: node_ok_def)
  note r = BA_result [OF ba p1 l1]
  then have s2: "stable w1 w2" by blast
  have ch: "alg_chain w2 = alg_chain w" using stable_chain [OF s1] stable_chain [OF s2] by simp
  have dec: "decided E w2 (cur + 1) (emptyHash (cur + 1) (Block_Hash l)) (Block_Hash blk) \<or> Block_Hash blk = zero_hash"
    using r by blast
  have "decided E (w'\<lparr>alg_chain := alg_chain w\<rparr>) = decided E w2"
    by (intro ext) (simp add: w' ch decided_def step_certificate_def)
  moreover have "node_ok w'"
    using stable_node_ok [OF s2 ok1] by (simp add: node_ok_def w' bc_add_inv)
  ultimately show ?thesis using l dec c by (auto simp: w' ch)
qed

lemma processForkResolve_result:
  assumes "processForkResolve E w = Ok w'" and "peer_inv (alg_peer w)" and "blocks_ok (alg_peer w)" and "bc_last (alg_chain w) = Some l"
  shows "\<exists>fork rnd. alg_chain w' = resolveFork (alg_chain w) fork \<and> peer_inv (alg_peer w') \<and> blocks_ok (alg_peer w') \<and> \<not> w_released w'
    \<and> (decided E (w'\<lparr>alg_chain := alg_chain w\<rparr>) rnd (emptyHash rnd (Block_Hash l)) (Block_Hash fork) \<or> Block_Hash fork = zero_hash)"
proof -
  let ?w = "w\<lparr>w_released := True\<rparr>"
  obtain b w1 t fork w2 where bp: "blockProposal E True ?w = Ok (b, w1)" and ba: "BA E (blk_Round b) b w1 = Ok ((t, fork), w2)"
    and w': "w' = w2\<lparr>alg_chain := resolveFork (alg_chain w2) fork, w_released := False\<rparr>"
    using assms(1) unfolding processForkResolve_def Let_def obind_pair_Ok_iff by (auto simp: obind_Ok_iff obind_pair_Ok_iff)
  have s1: "stable ?w w1" by (rule blockProposal_stable [OF bp]) (simp add: assms(2))
  have l1: "bc_last (alg_chain w1) = Some l" using stable_chain [OF s1] assms(4) by simp
  have p1: "peer_inv (alg_peer w1)" "blocks_ok (alg_peer w1)"
    using s1 assms(2,3) by (auto simp: stable_def peer_grows_def)
  note r = BA_result [OF ba p1 l1]
  then have s2: "stable w1 w2" by blast
  have ch: "alg_chain w2 = alg_chain w" using stable_chain [OF s1] stable_chain [OF s2] by simp
  have "decided E (w'\<lparr>alg_chain := alg_chain w\<rparr>) = decided E w2"
    by (intro ext) (simp add: w' ch [symmetric] decided_def step_certificate_def)
  moreover have "decided E w2 (blk_Round b) (emptyHash (blk_Round b) (Block_Hash l)) (Block_Hash fork) \<or> Block_Hash fork = zero_hash"
    using r by blast
  moreover have "peer_inv (alg_peer w2)" "blocks_ok (alg_peer w2)"
    using s2 p1 by (auto simp: stable_def peer_grows_def)
  ultimately show ?thesis by (auto simp: w' ch)
qed

text \<open>
  C5: a round extends the chain by one agreed block. When \<open>processMain\<close> returns, the chain is the
  earlier chain with one block added, whose hash binary agreement has returned: a committee
  certificate among the node's votes backs it (or it is the zero hash of a released node). The chain
  invariant, the vote lists and the block cache stay right.
\<close>

theorem processMain_extends:
  assumes "processMain E w = Ok w'" and "node_ok w"
  shows "node_ok w' \<and> (\<exists>l blk. bc_last (alg_chain w) = Some l \<and> alg_chain w' = bc_add (alg_chain w) blk
    \<and> (decided E (w'\<lparr>alg_chain := alg_chain w\<rparr>) (blk_Round l + 1) (emptyHash (blk_Round l + 1) (Block_Hash l)) (Block_Hash blk)
       \<or> Block_Hash blk = zero_hash))"
  using assms by (rule processMain_result)

text \<open>
  C38: what fork resolution commits. When \<open>processForkResolve\<close> returns, the last block of the chain is the block that
  binary agreement returned, backed by a certificate, and the peer stays well formed; but the blocks of the index are the ones
  before, since \<open>resolveFork\<close> only replaces the last block. So the chain invariant holds afterwards exactly when that
  block was stored already; a fork that is agreed on first cannot be looked up.
\<close>

theorem fork_resolution:
  assumes "processForkResolve E w = Ok w'" and "node_ok w"
  shows "\<exists>l fork rnd. bc_last (alg_chain w) = Some l \<and> bc_last (alg_chain w') = Some fork
    \<and> bc_get (alg_chain w') = bc_get (alg_chain w) \<and> peer_inv (alg_peer w') \<and> blocks_ok (alg_peer w') \<and> \<not> w_released w'
    \<and> (decided E (w'\<lparr>alg_chain := alg_chain w\<rparr>) rnd (emptyHash rnd (Block_Hash l)) (Block_Hash fork) \<or> Block_Hash fork = zero_hash)
    \<and> (chain_inv (alg_chain w') \<longleftrightarrow> bc_get (alg_chain w) (Block_Hash fork) (blk_Round fork) \<noteq> None)"
proof -
  obtain l where l: "bc_last (alg_chain w) = Some l" using assms(2) by (auto simp: node_ok_def chain_inv_def)
  have p: "peer_inv (alg_peer w)" "blocks_ok (alg_peer w)" using assms(2) by (simp_all add: node_ok_def)
  from processForkResolve_result [OF assms(1) p l] obtain fork rnd
    where r: "alg_chain w' = resolveFork (alg_chain w) fork" "peer_inv (alg_peer w')" "blocks_ok (alg_peer w')" "\<not> w_released w'"
      "decided E (w'\<lparr>alg_chain := alg_chain w\<rparr>) rnd (emptyHash rnd (Block_Hash l)) (Block_Hash fork) \<or> Block_Hash fork = zero_hash"
    by blast
  have "bc_get (alg_chain w') = bc_get (alg_chain w)" by (intro ext) (simp add: r(1))
  moreover have "chain_inv (alg_chain w') \<longleftrightarrow> bc_get (alg_chain w) (Block_Hash fork) (blk_Round fork) \<noteq> None"
    using assms(2) by (auto simp: node_ok_def chain_inv_def r(1) bc_get_resolveFork) (simp_all add: resolveFork_def)
  ultimately show ?thesis using l r by (auto simp: resolveFork_def)
qed

text \<open>Any number of fork resolutions leaves the index of the chain as it is and the peer well formed.\<close>

lemma forkLoop_keeps:
  assumes "forkLoop E es w = Ok w'" and "peer_inv (alg_peer w)" and "blocks_ok (alg_peer w)" and "bc_last (alg_chain w) = Some l"
  shows "bc_get (alg_chain w') = bc_get (alg_chain w) \<and> peer_inv (alg_peer w') \<and> blocks_ok (alg_peer w') \<and> bc_last (alg_chain w') \<noteq> None"
  using assms
proof (induction E es w arbitrary: l rule: forkLoop.induct)
  case (3 E es w)
  obtain w1 where w1: "processForkResolve E w = Ok w1" and rest: "forkLoop E es w1 = Ok w'" using 3(2) by (auto simp: obind_Ok_iff)
  from processForkResolve_result [OF w1 3(3-5)] obtain fork
    where r: "alg_chain w1 = resolveFork (alg_chain w) fork" "peer_inv (alg_peer w1)" "blocks_ok (alg_peer w1)" by blast
  have "bc_last (alg_chain w1) = Some fork" by (simp add: r(1) resolveFork_def)
  moreover have "bc_get (alg_chain w1) = bc_get (alg_chain w)" by (intro ext) (simp add: r(1))
  ultimately show ?case using 3(1) [OF w1 rest r(2,3)] by simp
qed simp_all

lemma NewAlgorand_ok:
  "alg_chain w = newBlockchain \<Longrightarrow> alg_peer w = newPeer \<Longrightarrow> node_ok w"
  by (simp add: node_ok_def newBlockchain_inv newPeer_inv blocks_ok_def) (simp add: getBlock_def newPeer_def)

text \<open>
  C6: any number of rounds of a new node keeps the invariant: every block of the chain is stored under
  its own round and hash, the genesis block is there, the last block is stored, and the chain is the
  genesis chain with one added block per round.
\<close>

theorem run_rounds_inv:
  assumes "run_rounds E n w = Ok w'" and "alg_chain w = newBlockchain" and "alg_peer w = newPeer"
  shows "node_ok w' \<and> (\<exists>blks. length blks = n \<and> alg_chain w' = foldl bc_add newBlockchain blks)"
proof -
  have "run_rounds E n w = Ok w' \<Longrightarrow> node_ok w \<Longrightarrow>
      node_ok w' \<and> (\<exists>blks. length blks = n \<and> alg_chain w' = foldl bc_add (alg_chain w) blks)" for w
  proof (induction n arbitrary: w)
    case (Suc n)
    then obtain w1 where m: "processMain E w = Ok w1" and rest: "run_rounds E n w1 = Ok w'"
      by (auto simp: obind_Ok_iff)
    note r = processMain_result [OF m Suc.prems(2)]
    then obtain blk where "alg_chain w1 = bc_add (alg_chain w) blk" by blast
    moreover obtain blks where "length blks = n" "alg_chain w' = foldl bc_add (alg_chain w1) blks" "node_ok w'"
      using Suc.IH [OF rest] r by blast
    ultimately show ?case by (intro conjI exI [of _ "blk # blks"]) simp_all
  qed auto
  from this [OF assms(1) NewAlgorand_ok [OF assms(2,3)]] assms(2) show ?thesis by simp
qed

end
