(* ===== verification/Runs.thy ===== *)
theory Runs
  imports Consensus
begin

text \<open>
  Concrete runs of the consensus procedures, evaluated step by step: a count that times out, a count
  of a delivered vote, the 75 turns of \<open>binaryBA\<close> in a silent network, and a whole round of a node.
  They show that the hypotheses of the theorems on the procedures can be met.
\<close>

section \<open>Single counts\<close>

text \<open>No votes yet.\<close>

definition quiet :: "Peer \<Rightarrow> bool" where
  "quiet p \<longleftrightarrow> peer_inv p \<and> (\<forall>k. votes_at p k = [])"

lemma quiet_newPeer: "quiet newPeer"
  by (simp add: quiet_def newPeer_inv) (simp add: votes_at_def newPeer_def)

lemma count_timeout_key:
  assumes inv: "peer_inv (alg_peer w)" and none: "getIncomingMsgs (alg_peer w) rnd s = []"
    and ev: "w_events w = Fire # Turn # es"
  shows "\<exists>p. countVotes E rnd s th n w = Ok (None, w\<lparr>alg_peer := p, w_events := es\<rparr>) \<and> peer_inv p
    \<and> votes_at p = votes_at (alg_peer w) \<and> pr_blocks p = pr_blocks (alg_peer w)"
proof -
  obtain it p where i: "voteIterator (alg_peer w) rnd s = (it, p)" by fastforce
  note v = voteIterator_spec [OF inv i]
  have "Iterator_next (pr_lists p) it = (None, it)"
    using v none Iterator_next_votes [of p "constructVoteKey rnd s" it] by (simp add: getIncomingMsgs_votes_at)
  then have "countVotes E rnd s th n w = Ok (None, w\<lparr>alg_peer := p, w_events := es\<rparr>)"
    using ev i by (simp add: countVotes_def)
  moreover have "pr_blocks p = pr_blocks (alg_peer w)"
    using i by (auto simp: voteIterator_def newList_def Let_def split: option.splits)
  ultimately show ?thesis using v by (intro exI [of _ p]) auto
qed

lemma count_timeout:
  assumes "quiet (alg_peer w)" and "w_events w = Fire # Turn # es"
  shows "\<exists>p. countVotes E rnd s th n w = Ok (None, w\<lparr>alg_peer := p, w_events := es\<rparr>) \<and> quiet p
    \<and> pr_blocks p = pr_blocks (alg_peer w)"
  using count_timeout_key [of w rnd s es E th n] assms by (fastforce simp: quiet_def getIncomingMsgs_votes_at)

lemma silent_vote: "alg_maliciousType w = EvilVoteNothing \<Longrightarrow> committeeVote E rnd s n h w = Ok (True, w)"
  by (simp add: committeeVote_def)

lemma silent_count:
  "alg_maliciousType w = EvilVoteNothing \<Longrightarrow> vote_and_count E rnd s r w =
     countVotes E rnd s thresholdOfBAStep expectedCommitteeMembers w"
  by (simp add: vote_and_count_def silent_vote)

lemma silent_three: "alg_maliciousType w = EvilVoteNothing \<Longrightarrow> vote_next_three E rnd s r w = Ok w"
  by (simp add: vote_next_three_def silent_vote)

text \<open>A vote that is delivered during the count and reaches the threshold alone.\<close>

lemma count_delivered:
  assumes "quiet (alg_peer w)" and "w_events w = Deliver VOTE d # Turn # es"
    and "dec_vote (en_codec E) d = Some m" and "vm_Round m = rnd" "vm_Step m = s"
    and "processMsg E w m n = Ok (j, h, v)" and "Vote_RecoverPubkey m = Ok pk"
    and "vote_threshold n th \<le> j" and "0 < j"
  shows "\<exists>p. countVotes E rnd s th n w = Ok (Some h, w\<lparr>alg_peer := p, w_events := es\<rparr>)
    \<and> votes_at p = (\<lambda>_. [])(constructVoteKey rnd s := [m]) \<and> peer_inv p \<and> pr_blocks p = pr_blocks (alg_peer w)"
proof -
  let ?k = "constructVoteKey rnd s"
  obtain it p where i: "voteIterator (alg_peer w) rnd s = (it, p)" by fastforce
  have inv: "peer_inv (alg_peer w)" using assms(1) by (simp add: quiet_def)
  note v = voteIterator_spec [OF inv i]
  let ?p = "handle_vote m p"
  have key: "vote_key m = ?k" using assms(4,5) by (simp add: vote_key_def)
  have votes: "votes_at ?p = (\<lambda>_. [])(?k := [m])"
    using v assms(1) handle_vote_votes_at [of p m] by (intro ext) (simp add: key quiet_def)
  have it: "iterator_of ?p ?k it" using v by (simp add: handle_vote_iterator)
  have nx: "Iterator_next (pr_lists ?p) it = (Some m, it\<lparr>it_index := 1\<rparr>)"
    using Iterator_next_votes [OF it] v by (simp add: votes)
  have ev: "apply_event E (Deliver VOTE d) (w\<lparr>alg_peer := p\<rparr>) = Ok (w\<lparr>alg_peer := ?p\<rparr>)"
    using assms(3) by (simp add: handle_def msg_tags)
  have pm: "processMsg E (w\<lparr>alg_peer := ?p\<rparr>) m n = Ok (j, h, v)"
    using assms(6) processMsg_same [of w "w\<lparr>alg_peer := ?p\<rparr>"] by (simp add: same_node_def)
  have "countVotes E rnd s th n w = Ok (Some h, w\<lparr>alg_peer := ?p, w_events := es\<rparr>)"
    using assms(2,7,8,9) i ev nx pm by (simp add: countVotes_def del: apply_event.simps)
  moreover have "pr_blocks ?p = pr_blocks (alg_peer w)"
    using i by (auto simp: voteIterator_def newList_def Let_def handle_vote_def split: option.splits prod.splits)
  ultimately show ?thesis using votes v by (auto simp: handle_vote_inv)
qed

section \<open>A silent network\<close>

lemma coin_of_nobody: "quiet (alg_peer w) \<Longrightarrow> commonCoin E w rnd s n = Ok 0"
  by (simp add: commonCoin_def getIncomingMsgs_votes_at quiet_def HashLength_def)

abbreviation "timeout3 \<equiv> [Fire, Turn, Fire, Turn, Fire, Turn]"

text \<open>
  Every committee vote of the node returns. This is so for a node that votes for nothing, and for any
  other node whose sortition does not crash.
\<close>

definition votes_return :: "env \<Rightarrow> u64 \<Rightarrow> world \<Rightarrow> bool" where
  "votes_return E rnd w \<longleftrightarrow>
     (\<forall>w' s h. same_node w w' \<longrightarrow> (\<exists>r. committeeVote E rnd s expectedCommitteeMembers h w' = Ok r))"

lemma votes_return_silent: "alg_maliciousType w = EvilVoteNothing \<Longrightarrow> votes_return E rnd w"
  unfolding votes_return_def by (intro allI impI exI) (auto simp: same_node_def intro: silent_vote)

text \<open>
  The state after waiting up to the events \<open>es\<close> without hearing anything: only randomness was drawn and
  votes were sent, and the peer still has no votes and the same blocks.
\<close>

definition waited :: "event list \<Rightarrow> world \<Rightarrow> world \<Rightarrow> bool" where
  "waited es w w' \<longleftrightarrow> (\<exists>p d sent. w' = w\<lparr>alg_peer := p, w_events := es, w_draws := d, w_sent := sent\<rparr>
     \<and> quiet p \<and> pr_blocks p = pr_blocks (alg_peer w))"

lemma waited_now: "quiet (alg_peer w) \<Longrightarrow> w_events w = es \<Longrightarrow> waited es w w"
  unfolding waited_def by (intro exI [of _ "alg_peer w"] exI [of _ "w_draws w"] exI [of _ "w_sent w"]) auto

lemma waited_trans: "waited es a b \<Longrightarrow> waited es' b c \<Longrightarrow> waited es' a c"
  unfolding waited_def by fastforce

lemma waited_facts:
  assumes "waited es w w'"
  shows "same_node w w'" "quiet (alg_peer w')" "w_events w' = es" "pr_blocks (alg_peer w') = pr_blocks (alg_peer w)"
    "w_released w' = w_released w"
  using assms by (auto simp: waited_def same_node_def)

lemma votes_return_waited: "votes_return E rnd w \<Longrightarrow> waited es w w' \<Longrightarrow> votes_return E rnd w'"
  unfolding votes_return_def using waited_facts(1) same_node_trans by blast

lemma waited_count:
  assumes "quiet (alg_peer w)" and "votes_return E rnd w" and "w_events w = Fire # Turn # es"
  shows "\<exists>w'. vote_and_count E rnd s r w = Ok (None, w') \<and> waited es w w'"
proof -
  obtain ok w1 where v: "committeeVote E rnd s expectedCommitteeMembers r w = Ok (ok, w1)"
    using assms(2) same_node_refl unfolding votes_return_def by (metis surj_pair)
  obtain d sent where w1: "w1 = w\<lparr>w_draws := d, w_sent := sent\<rparr>" using committeeVote_world [OF v] by blast
  then have q: "quiet (alg_peer w1)" "w_events w1 = Fire # Turn # es" using assms(1,3) by simp_all
  obtain p where c: "countVotes E rnd s thresholdOfBAStep expectedCommitteeMembers w1
      = Ok (None, w1\<lparr>alg_peer := p, w_events := es\<rparr>)" and p: "quiet p" "pr_blocks p = pr_blocks (alg_peer w1)"
    using count_timeout [OF q] by blast
  let ?w = "w\<lparr>alg_peer := p, w_events := es, w_draws := d, w_sent := sent\<rparr>"
  have "waited es w ?w" unfolding waited_def using p w1 by auto
  moreover have "w1\<lparr>alg_peer := p, w_events := es\<rparr> = ?w" by (simp add: w1)
  then have "vote_and_count E rnd s r w = Ok (None, ?w)" using v c by (simp add: vote_and_count_def)
  ultimately show ?thesis by blast
qed

lemma silent_turn:
  assumes "quiet (alg_peer w)" and "votes_return E rnd w"
    and "w_events w = timeout3 @ es" and "step < MAXSTEPS"
  shows "\<exists>w'. binaryBA_loop E rnd hash e step r w = binaryBA_loop E rnd hash e (step + 2) hash w' \<and> waited es w w'"
proof -
  obtain w1 where c1: "vote_and_count E rnd step r w = Ok (None, w1)" and q1: "waited ([Fire, Turn, Fire, Turn] @ es) w w1"
    using waited_count [OF assms(1,2), of "[Fire, Turn, Fire, Turn] @ es"] assms(3) by auto
  obtain w2 where c2: "vote_and_count E rnd (step + 1) hash w1 = Ok (None, w2)" and q2: "waited ([Fire, Turn] @ es) w1 w2"
    using waited_count [OF waited_facts(2) [OF q1] votes_return_waited [OF assms(2) q1], of "[Fire, Turn] @ es"]
      waited_facts(3) [OF q1] by auto
  note q12 = waited_trans [OF q1 q2]
  obtain w3 where c3: "vote_and_count E rnd (step + 2) e w2 = Ok (None, w3)" and q3: "waited es w2 w3"
    using waited_count [OF waited_facts(2) [OF q12] votes_return_waited [OF assms(2) q12], of es]
      waited_facts(3) [OF q12] by auto
  note q = waited_trans [OF q12 q3]
  have "binaryBA_loop E rnd hash e step r w = binaryBA_loop E rnd hash e (step + 2) hash w3"
    using assms(4) c1 c2 c3 waited_facts(2) [OF q]
    by (subst binaryBA_loop.simps) (simp add: ba_first_def ba_second_def ba_third_def coin_of_nobody)
  with q show ?thesis by blast
qed

lemma silent_loop:
  assumes "quiet (alg_peer w)" and "votes_return E rnd w"
    and "w_events w = concat (replicate k timeout3) @ es" and "step + 2 * int k \<le> MAXSTEPS + 1"
  shows "\<exists>w'. binaryBA_loop E rnd hash e step hash w = binaryBA_loop E rnd hash e (step + 2 * int k) hash w' \<and> waited es w w'"
  using assms
proof (induction k arbitrary: w step)
  case 0
  then show ?case using waited_now [of w es] by auto
next
  case (Suc k)
  obtain w1 where w1: "binaryBA_loop E rnd hash e step hash w = binaryBA_loop E rnd hash e (step + 2) hash w1"
    and q: "waited (concat (replicate k timeout3) @ es) w w1"
    using silent_turn [OF Suc.prems(1,2), of "concat (replicate k timeout3) @ es" step hash e hash] Suc.prems(3,4) by auto
  have "step + 2 + 2 * int k = step + 2 * int (Suc k)" by simp
  with Suc.IH [OF waited_facts(2) [OF q] votes_return_waited [OF Suc.prems(2) q] waited_facts(3) [OF q], of "step + 2"]
    Suc.prems(4) w1 show ?case using waited_trans [OF q] by metis
qed

lemma silent_binaryBA:
  assumes "quiet (alg_peer w)" and "votes_return E rnd w" and "bc_last (alg_chain w) = Some l"
    and "w_events w = concat (replicate k timeout3) @ es" and "k \<le> 75"
  shows "\<exists>w'. waited es w w'
    \<and> binaryBA E rnd hash w = binaryBA_loop E rnd hash (emptyHash rnd (Block_Hash l)) (1 + 2 * int k) hash w'
    \<and> (k = 75 \<longrightarrow> binaryBA E rnd hash w = obind (hang E es w') (\<lambda>w. Ok (zero_hash, w)))"
proof -
  let ?e = "emptyHash rnd (Block_Hash l)"
  have "1 + 2 * int k \<le> MAXSTEPS + 1" using assms(5) by (simp add: MAXSTEPS_def)
  from silent_loop [OF assms(1,2,4) this, of hash ?e] obtain w' where
    l: "binaryBA E rnd hash w = binaryBA_loop E rnd hash ?e (1 + 2 * int k) hash w'" and q: "waited es w w'"
    using assms(3) by (auto simp: binaryBA_def lastBlock_def)
  have "binaryBA E rnd hash w = obind (hang E es w') (\<lambda>w. Ok (zero_hash, w))" if "k = 75"
    using l waited_facts(3) [OF q] that by (simp add: binaryBA_loop.simps [of _ _ _ _ 151] MAXSTEPS_def)
  with l q show ?thesis by blast
qed


section \<open>A node that votes for nothing, with one vote at hand\<close>

definition silent_world :: "hash \<Rightarrow> event list \<Rightarrow> world" where
  "silent_world h es = (top_world h 0)\<lparr>alg_maliciousType := EvilVoteNothing, w_events := es\<rparr>"

lemma silent_world_facts:
  "peer_inv (alg_peer (silent_world h es))" "alg_chain (silent_world h es) = sample_chain"
  "w_events (silent_world h es) = es" "alg_maliciousType (silent_world h es) = EvilVoteNothing"
  "getIncomingMsgs (alg_peer (silent_world h es)) 4 1 = [top_vote h]"
  "(silent_world h es)\<lparr>w_events := es'\<rparr> = silent_world h es'"
  by (simp_all add: silent_world_def top_world_facts)

lemma top_vote_msg:
  assumes "alg_chain w = sample_chain"
  shows "\<exists>j \<ge> 6. processMsg small_env w (top_vote h) expectedCommitteeMembers = Ok (j, h, replicate 32 255)"
proof -
  have P: "en_params small_env = small_params" "TokenPerUser small_params = 8"
    by (simp_all add: small_env_def small_params_def)
  obtain j where j: "6 \<le> j" "subUsers small_params expectedCommitteeMembers 8 (replicate 32 255) = Ok j"
    using small_top_users by blast
  have last: "bc_last (alg_chain w) = Some (sample_block 3 (sample_hash 2))" by (simp add: assms sample_last)
  have "processMsg small_env w (top_vote h) expectedCommitteeMembers = Ok (j, vm_Hash (top_vote h), vm_VRF (top_vote h))"
    by (rule processMsg_unchecked_vrf [OF _ last]) (simp_all add: top_vote_facts sample_hashes assms sample_seed P j(2))
  with j(1) show ?thesis by (auto simp: top_vote_facts)
qed

lemma silent_world_count:
  "countVotes small_env 4 1 thresholdOfBAStep expectedCommitteeMembers (silent_world h (Turn # es))
     = Ok (Some h, silent_world h es)"
proof -
  obtain j where j: "6 \<le> j" "processMsg small_env (silent_world h (Turn # es)) (top_vote h) expectedCommitteeMembers
      = Ok (j, h, replicate 32 255)"
    using top_vote_msg [of "silent_world h (Turn # es)" h] silent_world_facts by blast
  from countVotes_first_vote [OF silent_world_facts(5,3) j(2) top_vote_facts(8)] j(1) show ?thesis
    by (simp add: vote_threshold_step silent_world_facts)
qed

lemma sample_empty_hash: "emptyHash 4 (Block_Hash (sample_block 3 (sample_hash 2))) \<noteq> sample_hash 2"
  using sample_next_hash(1) unfolding sample_hashes emptyHash_block [symmetric]
  by (simp add: sample_block_def emptyBlock_def)

lemma silent_world_binaryBA:
  "binaryBA small_env 4 h0 (silent_world (sample_hash 2) (Turn # es)) = Ok (sample_hash 2, silent_world (sample_hash 2) es)"
proof -
  let ?e = "emptyHash 4 (Block_Hash (sample_block 3 (sample_hash 2)))"
  have "ba_first small_env 4 h0 ?e 1 h0 (silent_world (sample_hash 2) (Turn # es))
      = Ok (Inl (sample_hash 2), silent_world (sample_hash 2) es)"
    using sample_empty_hash
    by (auto simp: ba_first_def silent_count silent_world_facts silent_world_count silent_three silent_vote)
  then show ?thesis
    by (simp add: binaryBA_def lastBlock_def silent_world_facts sample_last MAXSTEPS_def
        binaryBA_loop.simps [of small_env 4 h0 ?e 1])
qed

theorem binaryBA_decides_witness:
  "binaryBA small_env 4 zero_hash (silent_world (sample_hash 2) [Turn]) = Ok (sample_hash 2, silent_world (sample_hash 2) [])
   \<and> (decided small_env (silent_world (sample_hash 2) []) 4 (emptyHash 4 (sample_hash 3)) (sample_hash 2)
      \<or> sample_hash 2 = zero_hash)"
proof -
  have "bc_last (alg_chain (silent_world (sample_hash 2) [Turn])) = Some (sample_block 3 (sample_hash 2))"
    by (simp add: silent_world_facts sample_last)
  from binaryBA_decides [OF silent_world_binaryBA silent_world_facts(1) this] show ?thesis
    by (auto simp: silent_world_binaryBA sample_hashes)
qed

theorem commonCoin_value_witness:
  "\<exists>c. commonCoin small_env (silent_world (sample_hash 2) []) 4 1 expectedCommitteeMembers = Ok c \<and> (c = 0 \<or> c = 1)"
proof -
  obtain j where "processMsg small_env (silent_world (sample_hash 2) []) (top_vote (sample_hash 2)) expectedCommitteeMembers
      = Ok (j, sample_hash 2, replicate 32 255)"
    using top_vote_msg silent_world_facts(2) by blast
  then obtain c where c: "commonCoin small_env (silent_world (sample_hash 2) []) 4 1 expectedCommitteeMembers = Ok c"
    by (simp add: commonCoin_def silent_world_facts)
  with commonCoin_value [OF c] show ?thesis by blast
qed

section \<open>A node that hears nothing\<close>

definition deaf_world :: "event list \<Rightarrow> world" where
  "deaf_world es = (silent_world zero_hash es)\<lparr>alg_peer := newPeer\<rparr>"

lemma deaf_world_facts:
  "alg_peer (deaf_world es) = newPeer" "alg_chain (deaf_world es) = sample_chain" "w_events (deaf_world es) = es"
  "alg_maliciousType (deaf_world es) = EvilVoteNothing" "w_released (deaf_world es) = False"
  by (simp_all add: deaf_world_def silent_world_def top_world_def)

lemma reduction_timeout:
  assumes "quiet (alg_peer w)" and "alg_maliciousType w = EvilVoteNothing" and "bc_last (alg_chain w) = Some l"
    and "w_events w = Fire # Turn # Fire # Turn # es"
  shows "\<exists>p. reduction E rnd hash w = Ok (emptyHash rnd (Block_Hash l), w\<lparr>alg_peer := p, w_events := es\<rparr>)
    \<and> quiet p \<and> pr_blocks p = pr_blocks (alg_peer w)"
proof -
  let ?n = expectedCommitteeMembers and ?th = thresholdOfBAStep
  obtain p1 where c1: "countVotes E rnd REDUCTION_ONE ?th ?n w = Ok (None, w\<lparr>alg_peer := p1, w_events := Fire # Turn # es\<rparr>)"
    and q1: "quiet p1" "pr_blocks p1 = pr_blocks (alg_peer w)"
    using count_timeout [OF assms(1,4)] by blast
  let ?w1 = "w\<lparr>alg_peer := p1, w_events := Fire # Turn # es\<rparr>"
  obtain p2 where c2: "countVotes E rnd REDUCTION_TWO ?th ?n ?w1 = Ok (None, w\<lparr>alg_peer := p2, w_events := es\<rparr>)"
    and q2: "quiet p2" "pr_blocks p2 = pr_blocks (alg_peer w)"
    using count_timeout [of ?w1 es E rnd REDUCTION_TWO ?th ?n] q1 by auto
  have "reduction E rnd hash w = Ok (emptyHash rnd (Block_Hash l), w\<lparr>alg_peer := p2, w_events := es\<rparr>)"
    using assms(2,3) c1 c2 by (simp add: reduction_def silent_vote lastBlock_def)
  with q2 show ?thesis by blast
qed

text \<open>A vote of the third step, which reaches the threshold alone.\<close>

definition unsigned_3 :: VoteMessage where
  "unsigned_3 = (unsigned_vote (sample_hash 2))\<lparr>vm_Step := 3\<rparr>"

definition third_vote :: VoteMessage where
  "third_vote = unsigned_3\<lparr>vm_Signature := replicate 32 5 @ vote_data unsigned_3\<rparr>"

definition third_env :: env where
  "third_env = small_env\<lparr>en_codec := (en_codec sample_env)\<lparr>dec_vote := (\<lambda>_. Some third_vote)\<rparr>\<rparr>"

lemma third_vote_facts:
  "Vote_VerifySign (en_crypto third_env) third_vote = Ok True" "vm_ParentHash third_vote = sample_hash 3"
  "vm_Round third_vote = 4" "vm_Step third_vote = 3" "vm_Proof third_vote = [0]" "vm_VRF third_vote = replicate 32 255"
  "vm_Hash third_vote = sample_hash 2" "Vote_RecoverPubkey third_vote = Ok (replicate 32 5)"
  "dec_vote (en_codec third_env) d = Some third_vote"
  by (simp_all add: third_vote_def third_env_def small_env_def sample_env_def echo_crypto_def Vote_VerifySign_def
      VerifySign_def Vote_RecoverPubkey_def recoverPubkey_def PublicKeySize_def)
    (simp_all add: unsigned_3_def unsigned_vote_def)

lemma third_vote_msg:
  assumes "alg_chain w = sample_chain"
  shows "\<exists>j \<ge> 6. processMsg third_env w third_vote expectedCommitteeMembers = Ok (j, sample_hash 2, replicate 32 255)"
proof -
  have P: "en_params third_env = small_params" "TokenPerUser small_params = 8"
    by (simp_all add: third_env_def small_env_def small_params_def)
  obtain j where j: "6 \<le> j" "subUsers small_params expectedCommitteeMembers 8 (replicate 32 255) = Ok j"
    using small_top_users by blast
  have last: "bc_last (alg_chain w) = Some (sample_block 3 (sample_hash 2))" by (simp add: assms sample_last)
  have "processMsg third_env w third_vote expectedCommitteeMembers = Ok (j, vm_Hash third_vote, vm_VRF third_vote)"
    by (rule processMsg_unchecked_vrf [OF _ last]) (simp_all add: third_vote_facts sample_hashes assms sample_seed P j(2))
  with j(1) show ?thesis by (auto simp: third_vote_facts)
qed

theorem third_step_decides_witness:
  "\<exists>w'. binaryBA_loop third_env 4 zero_hash zero_hash 1 zero_hash
     (deaf_world [Fire, Turn, Fire, Turn, Deliver VOTE [], Turn, Turn]) = Ok (sample_hash 2, w')"
proof -
  let ?w = "deaf_world [Fire, Turn, Fire, Turn, Deliver VOTE [], Turn, Turn]"
  let ?th = thresholdOfBAStep and ?n = expectedCommitteeMembers and ?k = "constructVoteKey 4 3"
  have ne: "sample_hash 2 \<noteq> zero_hash" by (simp add: sample_hash_def zero_hash_def HashLength_def replicate_32)
  have q: "quiet (alg_peer ?w)" "votes_return third_env 4 ?w" and m: "peer_inv (alg_peer ?w)"
    using quiet_newPeer by (simp_all add: deaf_world_facts votes_return_silent quiet_def)
  obtain w1 where c1: "vote_and_count third_env 4 1 zero_hash ?w = Ok (None, w1)"
    and q1: "waited [Fire, Turn, Deliver VOTE [], Turn, Turn] ?w w1"
    using waited_count [OF q deaf_world_facts(3)] by blast
  obtain w2 where c2: "vote_and_count third_env 4 (1 + 1) zero_hash w1 = Ok (None, w2)"
    and q2: "waited [Deliver VOTE [], Turn, Turn] w1 w2"
    using waited_count [OF waited_facts(2) [OF q1] votes_return_waited [OF q(2) q1] waited_facts(3) [OF q1]] by blast
  note w2 = waited_facts [OF waited_trans [OF q1 q2]]
  have m2: "alg_maliciousType w2 = EvilVoteNothing" "alg_chain w2 = sample_chain"
    using w2(1) by (simp_all add: same_node_def deaf_world_facts)
  obtain j where j: "6 \<le> j" "processMsg third_env w2 third_vote ?n = Ok (j, sample_hash 2, replicate 32 255)"
    using third_vote_msg [OF m2(2)] by blast
  obtain p where c3: "countVotes third_env 4 3 ?th ?n w2 = Ok (Some (sample_hash 2), w2\<lparr>alg_peer := p, w_events := [Turn]\<rparr>)"
    and p: "votes_at p = (\<lambda>_. [])(?k := [third_vote])" "peer_inv p"
    using count_delivered [OF w2(2,3) third_vote_facts(9) third_vote_facts(3,4) j(2) third_vote_facts(8), of ?th] j(1)
    by (auto simp: vote_threshold_step)
  let ?w3 = "w2\<lparr>alg_peer := p, w_events := [Turn]\<rparr>"
  have l3: "getIncomingMsgs (alg_peer ?w3) 4 3 = third_vote # []" by (simp add: getIncomingMsgs_votes_at p(1))
  have e3: "w_events ?w3 = Turn # []" by simp
  have pm: "processMsg third_env ?w3 third_vote ?n = Ok (j, sample_hash 2, replicate 32 255)"
    using j(2) processMsg_same [of w2 ?w3] by (simp add: same_node_def)
  have c4: "countVotes third_env 4 3 ?th ?n ?w3 = Ok (Some (sample_hash 2), ?w3\<lparr>w_events := []\<rparr>)"
    by (rule countVotes_first_vote [OF l3 e3 pm third_vote_facts(8)]) (use j(1) in \<open>simp_all add: vote_threshold_step\<close>)
  have f: "ba_first third_env 4 zero_hash zero_hash 3 (sample_hash 2) ?w3 = Ok (Inl (sample_hash 2), ?w3\<lparr>w_events := []\<rparr>)"
    using ne c4 m2(1) by (simp add: ba_first_def silent_count silent_three)
  have "binaryBA_loop third_env 4 zero_hash zero_hash 1 zero_hash ?w
      = obind (ba_first third_env 4 zero_hash zero_hash (1 + 2) (sample_hash 2) ?w3) (\<lambda>(x, w4). Ok (sample_hash 2, w4))"
  proof (rule third_step_decides [THEN conjunct1, OF _ _ _ ne _ m])
    show "ba_first third_env 4 zero_hash zero_hash 1 zero_hash ?w = Ok (Inr zero_hash, w1)"
      using c1 by (simp add: ba_first_def)
    show "ba_second third_env 4 zero_hash (1 + 1) zero_hash w1 = Ok (Inr zero_hash, w2)"
      using c2 by (simp add: ba_second_def)
    show "vote_and_count third_env 4 (1 + 2) zero_hash w2 = Ok (Some (sample_hash 2), ?w3)"
      using c3 m2(1) by (simp add: silent_count)
  qed (simp add: MAXSTEPS_def)
  then show ?thesis by (simp add: f)
qed

theorem BA_after_hang_witness:
  "BA small_env 4 zero_block (deaf_world ([Fire, Turn, Fire, Turn] @ concat (replicate 75 timeout3) @ [Release, Fire, Turn])) = Panic"
proof -
  let ?w = "deaf_world ([Fire, Turn, Fire, Turn] @ concat (replicate 75 timeout3) @ [Release, Fire, Turn])"
  let ?l = "sample_block 3 (sample_hash 2)" and ?es = "concat (replicate 75 timeout3) @ [Release, Fire, Turn]"
  have l: "bc_last (alg_chain ?w) = Some ?l" by (simp add: deaf_world_facts sample_last)
  have q: "quiet (alg_peer ?w)" by (simp add: deaf_world_facts quiet_newPeer)
  have ev: "w_events ?w = Fire # Turn # Fire # Turn # ?es" by (simp add: deaf_world_facts)
  obtain p where red: "reduction small_env 4 (Block_Hash zero_block) ?w = Ok (emptyHash 4 (Block_Hash ?l), ?w\<lparr>alg_peer := p, w_events := ?es\<rparr>)"
    and p: "quiet p" "pr_blocks p = pr_blocks newPeer"
    using reduction_timeout [OF q deaf_world_facts(4) l ev, of small_env 4 "Block_Hash zero_block"]
    unfolding deaf_world_facts(1) by blast
  let ?w1 = "?w\<lparr>alg_peer := p, w_events := ?es\<rparr>"
  have m1: "bc_last (alg_chain ?w1) = Some ?l" "quiet (alg_peer ?w1)" "w_events ?w1 = ?es" "votes_return small_env 4 ?w1"
    using l p by (simp_all add: deaf_world_facts votes_return_silent)
  obtain w2 where bba: "binaryBA small_env 4 (emptyHash 4 (Block_Hash ?l)) ?w1 =
      obind (hang small_env [Release, Fire, Turn] w2) (\<lambda>w. Ok (zero_hash, w))"
    and q2: "waited [Release, Fire, Turn] ?w1 w2"
    using silent_binaryBA [OF m1(2,4,1,3)] by auto
  note p2 = waited_facts [OF q2]
  let ?w2 = "w2\<lparr>w_events := [Fire, Turn], w_released := True\<rparr>"
  have bba2: "binaryBA small_env 4 (emptyHash 4 (Block_Hash ?l)) ?w1 = Ok (zero_hash, ?w2)"
    unfolding bba using p2(5) by (simp add: hang.simps deaf_world_facts)
  have l2: "bc_last (alg_chain w2) = Some ?l" using p2(1) m1(1) by (simp add: same_node_def)
  obtain p3 where fin: "countVotes small_env 4 FINAL finalThreshold expectedFinalCommitteeMembers ?w2
      = Ok (None, ?w2\<lparr>alg_peer := p3, w_events := []\<rparr>)" and p3: "pr_blocks p3 = pr_blocks newPeer"
    using count_timeout [of ?w2 "[]" small_env 4 FINAL finalThreshold expectedFinalCommitteeMembers] p2(2,4) p(2) by auto
  have red2: "BA_reduction small_env 4 zero_block ?w = Ok (emptyHash 4 (Block_Hash ?l), ?w1)"
    using red by (simp add: BA_reduction_def deaf_world_facts)
  have ne: "emptyHash 4 (Block_Hash ?l) \<noteq> zero_hash"
    using sample_next_hash(2) unfolding sample_hashes emptyHash_block [symmetric]
    by (simp add: sample_block_def emptyBlock_def zero_hash_def HashLength_def)
  have no_block: "getBlock p3 zero_hash = None" using p3 by (simp add: getBlock_def newPeer_def)
  show ?thesis
    by (rule BA_after_hang [OF red2 bba2 fin _ ne]) (use l2 no_block in simp_all)
qed

end
