(* ===== verification/Rounds.thy ===== *)
theory Rounds
  imports Runs
begin

text \<open>
  A whole round of a new node, evaluated: nobody proposes a block, the reduction times out, a vote for
  the empty block that arrives in the second step of binary agreement is a quorum, and the empty block
  of round 1 is added to the genesis chain. It shows that the hypotheses of the theorems on a round can
  be met by a run that returns.
\<close>

section \<open>The node, the vote and the events\<close>

text \<open>Four users with eight tokens each; the key generator of the VRF fails, so the node proposes nothing.\<close>

definition round_params :: params where
  "round_params = \<lparr>UserAmount = 4, TokenPerUser = 8, Malicious = 0, NetworkLatency = 0\<rparr>"

definition empty_1 :: hash where
  "empty_1 = emptyHash 1 (sample_hash 0)"

definition unsigned_1 :: VoteMessage where
  "unsigned_1 = \<lparr>vm_Signature = [], vm_Round = 1, vm_Step = 2, vm_VRF = replicate 32 255,
     vm_Proof = [0], vm_ParentHash = sample_hash 0, vm_Hash = empty_1\<rparr>"

definition round_vote :: VoteMessage where
  "round_vote = unsigned_1\<lparr>vm_Signature := replicate 32 5 @ vote_data unsigned_1\<rparr>"

definition round_env :: env where
  "round_env = \<lparr>en_params = round_params, en_crypto = echo_crypto\<lparr>ce_nonce := (\<lambda>_. None)\<rparr>,
     en_codec = (en_codec sample_env)\<lparr>dec_vote := (\<lambda>_. Some round_vote)\<rparr>, en_rand = (\<lambda>n. 0), en_now = (\<lambda>n. 0)\<rparr>"

definition round_world :: "event list \<Rightarrow> world" where
  "round_world es = \<lparr>alg_maliciousType = EvilVoteNothing, alg_id = 0, alg_privkey = replicate 64 6,
     alg_pubkey = replicate 32 6, alg_chain = newBlockchain, alg_peer = newPeer, w_events = es, w_draws = 0,
     w_sent = [], w_released = False\<rparr>"

definition agreement_events :: "event list" where
  "agreement_events = [Fire, Turn, Fire, Turn, Fire, Turn, Deliver VOTE [], Turn, Fire, Turn]"

lemma round_vote_facts:
  "Vote_VerifySign (en_crypto round_env) round_vote = Ok True" "vm_ParentHash round_vote = sample_hash 0"
  "vm_Round round_vote = 1" "vm_Step round_vote = 2" "vm_Proof round_vote = [0]" "vm_VRF round_vote = replicate 32 255"
  "vm_Hash round_vote = empty_1" "Vote_RecoverPubkey round_vote = Ok (replicate 32 5)"
  by (simp_all add: round_vote_def round_env_def echo_crypto_def Vote_VerifySign_def VerifySign_def
      Vote_RecoverPubkey_def recoverPubkey_def PublicKeySize_def)
    (simp_all add: unsigned_1_def)

lemma genesis_last: "bc_last newBlockchain = Some genesis_block"
  by (rule last_newBlockchain)

lemma genesis_round: "blk_Round genesis_block = 0"
  by (simp add: genesis_block_def Let_def)

lemma genesis_seed: "\<exists>s. sortitionSeed newBlockchain 1 = Ok s"
  by (simp add: sortitionSeed_def getByRound_0 genesis_last R_def)

lemma round_top_users: "\<exists>j \<ge> 6. subUsers round_params expectedCommitteeMembers 8 (replicate 32 255) = Ok j"
proof -
  have ok: "token_amounts_ok round_params 10 8"
    by (simp add: token_amounts_ok_def round_params_def TotalTokenAmount_def)
  have p: "token_prob round_params 10 = 5 / 16"
    by (simp add: token_prob_def round_params_def TotalTokenAmount_def)
  have "(1 :: rat) / 2 ^ 256 \<le> binom_pmf 8 (5 / 16) 7"
    by (simp add: binom_pmf_def eval_nat_numeral)
  then have "1 / 2 ^ 256 \<le> binom_pmf (unat (8 :: u64)) (token_prob round_params 10) (Suc 6)" by (simp add: p)
  from top_vrf_at_least [OF ok _ this] show ?thesis by (auto simp: expectedCommitteeMembers_def)
qed

lemma round_msg:
  assumes "alg_chain w = newBlockchain"
  shows "\<exists>j \<ge> 6. processMsg round_env w round_vote expectedCommitteeMembers = Ok (j, empty_1, replicate 32 255)"
proof -
  obtain j where j: "6 \<le> j" "subUsers round_params expectedCommitteeMembers 8 (replicate 32 255) = Ok j"
    using round_top_users by blast
  obtain s where s: "sortitionSeed newBlockchain 1 = Ok s" using genesis_seed by blast
  have last: "bc_last (alg_chain w) = Some genesis_block" by (simp add: assms genesis_last)
  have P: "en_params round_env = round_params" "TokenPerUser round_params = 8"
    by (simp_all add: round_env_def round_params_def)
  have "processMsg round_env w round_vote expectedCommitteeMembers = Ok (j, vm_Hash round_vote, vm_VRF round_vote)"
    by (rule processMsg_unchecked_vrf [OF _ last]) (simp_all add: round_vote_facts genesis_hash assms s P j(2))
  with j(1) show ?thesis by (auto simp: round_vote_facts)
qed

section \<open>The block proposal\<close>

lemma no_proof:
  assumes "length sk = 64"
  shows "Evaluate (en_crypto round_env) n sk m = Ok None"
proof -
  have "[0..<vrf_limit] = 0 # [1..<100]" by (simp add: vrf_limit_def upt_conv_Cons)
  then have "ECVRF_hash_to_curve trivial_pkg m pk = Ok (clear_cofactor trivial_pkg 1 trivial_point)" for pk
    by (simp add: ECVRF_hash_to_curve_def Let_def OS2ECP_def) (simp add: trivial_pkg_def)
  moreover have "ECP2OS trivial_pkg P = Ok (2 # replicate 32 1)" for P
    by (simp add: ECP2OS_def S2OS_def) (simp add: trivial_pkg_def)
  ultimately show ?thesis
    using assms by (simp add: Evaluate_def ECVRF_prove_def expandSecret_def Let_def round_env_def echo_crypto_def)
qed

lemma round_no_users: "subUsers round_params expectedBlockProposers 8 [] = Ok 0"
proof -
  have ok: "token_amounts_ok round_params 26 8"
    by (simp add: token_amounts_ok_def round_params_def TotalTokenAmount_def)
  have "token_cdf round_params 26 8 (int i) > 0" for i
  proof -
    have "token_prob round_params 26 = 13 / 16"
      by (simp add: token_prob_def round_params_def TotalTokenAmount_def)
    then have "binom_pmf 8 (token_prob round_params 26) 0 > 0" by (simp add: binom_pmf_def)
    moreover have "{k :: nat. k = 0 \<and> k \<le> 8} = {0}" by auto
    ultimately have "0 < token_cdf round_params 26 8 0"
      by (simp add: token_cdf_def binom_cdf_def \<open>token_prob round_params 26 = 13 / 16\<close>)
    also have "\<dots> \<le> token_cdf round_params 26 8 (int i)" by (intro token.mono) simp
    finally show ?thesis .
  qed
  then have "{i \<in> {1..unat (8 :: u64)}. token_cdf round_params 26 8 (int i) \<le> vrf_fraction []} = {}"
    by (auto simp: vrf_fraction_def not_le)
  with subUsers_slots [OF ok, of "[]"] show ?thesis
    by (simp only:) (simp add: expectedBlockProposers_def)
qed

lemma round_proposal:
  "blockProposal round_env False (round_world (Fire # Fire # es))
     = Ok (emptyBlock 1 (sample_hash 0), (round_world es)\<lparr>w_draws := 1\<rparr>)"
proof -
  obtain s where s: "sortitionSeed newBlockchain 1 = Ok s" using genesis_seed by blast
  have P: "en_params round_env = round_params" "TokenPerUser round_params = 8"
    by (simp_all add: round_env_def round_params_def)
  show ?thesis
    by (simp add: blockProposal_def round_world_def current_round_def lastBlock_def genesis_last genesis_round
        s sortition_def no_proof tokenOwn_def weight_def P round_no_users genesis_hash)
qed

section \<open>The agreement\<close>

lemma round_binaryBA:
  assumes "quiet (alg_peer w)" and "alg_maliciousType w = EvilVoteNothing" and "alg_chain w = newBlockchain"
    and "w_events w = Fire # Turn # Deliver VOTE [] # Turn # es"
  shows "\<exists>p. binaryBA round_env 1 empty_1 w = Ok (empty_1, w\<lparr>alg_peer := p, w_events := es\<rparr>)
    \<and> peer_inv p \<and> votes_at p = (\<lambda>_. [])(constructVoteKey 1 2 := [round_vote])"
proof -
  let ?n = expectedCommitteeMembers and ?th = thresholdOfBAStep
  obtain p1 where c1: "countVotes round_env 1 1 ?th ?n w = Ok (None, w\<lparr>alg_peer := p1, w_events := Deliver VOTE [] # Turn # es\<rparr>)"
    and q1: "quiet p1"
    using count_timeout [OF assms(1,4)] by blast
  let ?w1 = "w\<lparr>alg_peer := p1, w_events := Deliver VOTE [] # Turn # es\<rparr>"
  obtain j where j: "6 \<le> j" "processMsg round_env ?w1 round_vote ?n = Ok (j, empty_1, replicate 32 255)"
    using round_msg [of ?w1] assms(3) by auto
  have dec: "dec_vote (en_codec round_env) [] = Some round_vote" by (simp add: round_env_def)
  obtain p2 where c2: "countVotes round_env 1 2 ?th ?n ?w1 = Ok (Some empty_1, w\<lparr>alg_peer := p2, w_events := es\<rparr>)"
    and p2: "votes_at p2 = (\<lambda>_. [])(constructVoteKey 1 2 := [round_vote])" "peer_inv p2"
    using count_delivered [of ?w1 "[]" es round_env round_vote 1 2 ?n j empty_1 "replicate 32 255" "replicate 32 5" ?th]
      q1 dec j by (auto simp: round_vote_facts vote_threshold_step)
  have e: "emptyHash 1 (Block_Hash genesis_block) = empty_1" by (simp add: genesis_hash empty_1_def)
  have "ba_first round_env 1 empty_1 empty_1 1 empty_1 w = Ok (Inr empty_1, ?w1)"
    using assms(2) c1 by (simp add: ba_first_def silent_count)
  moreover have "ba_second round_env 1 empty_1 2 empty_1 ?w1 = Ok (Inl empty_1, w\<lparr>alg_peer := p2, w_events := es\<rparr>)"
    using assms(2) c2 by (simp add: ba_second_def silent_count silent_three)
  ultimately have "binaryBA round_env 1 empty_1 w = Ok (empty_1, w\<lparr>alg_peer := p2, w_events := es\<rparr>)"
    using assms(3) e by (simp add: binaryBA_def lastBlock_def genesis_last MAXSTEPS_def binaryBA_loop.simps [of round_env 1 empty_1])
  with p2 show ?thesis by blast
qed

lemma round_BA:
  assumes "alg_peer w = newPeer" and "alg_maliciousType w = EvilVoteNothing" and "alg_chain w = newBlockchain"
    and "w_events w = agreement_events"
  shows "\<exists>t p. BA round_env 1 b w = Ok ((t, (emptyBlock 1 (sample_hash 0))\<lparr>blk_Type := t\<rparr>), w\<lparr>alg_peer := p, w_events := []\<rparr>)"
proof -
  let ?es = "[Fire, Turn, Deliver VOTE [], Turn, Fire, Turn]" and ?n = expectedFinalCommitteeMembers
  have e: "emptyHash 1 (Block_Hash genesis_block) = empty_1" by (simp add: genesis_hash empty_1_def)
  have m: "alg_maliciousType w \<noteq> EvilVoteEmpty" using assms(2) by simp
  have q: "quiet (alg_peer w)" "bc_last (alg_chain w) = Some genesis_block"
    using assms by (simp_all add: quiet_newPeer genesis_last)
  obtain p1 where red: "reduction round_env 1 (Block_Hash b) w = Ok (empty_1, w\<lparr>alg_peer := p1, w_events := ?es\<rparr>)" and q1: "quiet p1"
    using reduction_timeout [OF q(1) assms(2) q(2), of ?es round_env 1] assms(4) e by (auto simp: agreement_events_def)
  obtain p2 where bba: "binaryBA round_env 1 empty_1 (w\<lparr>alg_peer := p1, w_events := ?es\<rparr>)
      = Ok (empty_1, w\<lparr>alg_peer := p2, w_events := [Fire, Turn]\<rparr>)"
    and p2: "peer_inv p2" "votes_at p2 = (\<lambda>_. [])(constructVoteKey 1 2 := [round_vote])"
    using round_binaryBA [of "w\<lparr>alg_peer := p1, w_events := ?es\<rparr>" "[Fire, Turn]"] q1 assms by auto
  have "constructVoteKey 1 FINAL \<noteq> constructVoteKey 1 2"
    using constructVoteKey_inj [of 1 FINAL 1 2] by (auto simp: FINAL_def)
  with p2 have none: "getIncomingMsgs p2 1 FINAL = []" by (simp add: getIncomingMsgs_votes_at)
  obtain p3 where fin: "countVotes round_env 1 FINAL finalThreshold ?n (w\<lparr>alg_peer := p2, w_events := [Fire, Turn]\<rparr>)
      = Ok (None, w\<lparr>alg_peer := p3, w_events := []\<rparr>)"
    using count_timeout_key [of "w\<lparr>alg_peer := p2, w_events := [Fire, Turn]\<rparr>" 1 FINAL "[]" round_env finalThreshold ?n] p2 none by auto
  show ?thesis
    using m red bba fin e q(2)
    by (simp add: BA_def BA_reduction_def BA_finish_def lastBlock_def set_type_def Let_def genesis_hash exI)
qed

section \<open>The round\<close>

lemma round_runs:
  "\<exists>t w'. processMain round_env (round_world (Fire # Fire # agreement_events)) = Ok w'
     \<and> alg_chain w' = bc_add newBlockchain ((emptyBlock 1 (sample_hash 0))\<lparr>blk_Type := t\<rparr>)"
proof -
  let ?w = "(round_world agreement_events)\<lparr>w_draws := 1\<rparr>"
  have f: "alg_peer ?w = newPeer" "alg_maliciousType ?w = EvilVoteNothing" "alg_chain ?w = newBlockchain" "w_events ?w = agreement_events"
    by (simp_all add: round_world_def)
  obtain t p where "BA round_env 1 (emptyBlock 1 (sample_hash 0)) ?w
      = Ok ((t, (emptyBlock 1 (sample_hash 0))\<lparr>blk_Type := t\<rparr>), ?w\<lparr>alg_peer := p, w_events := []\<rparr>)"
    using round_BA [OF f] by blast
  moreover have "current_round (round_world es) = Ok 0" for es
    by (simp add: current_round_def lastBlock_def round_world_def genesis_last genesis_round)
  ultimately show ?thesis using f(3) by (simp add: processMain_def round_proposal) blast
qed

theorem BA_block_witness:
  "\<exists>t w'. BA round_env 1 zero_block (round_world agreement_events) = Ok ((t, (emptyBlock 1 (sample_hash 0))\<lparr>blk_Type := t\<rparr>), w')
     \<and> (\<exists>h. stable (round_world agreement_events) w' \<and> Block_Hash ((emptyBlock 1 (sample_hash 0))\<lparr>blk_Type := t\<rparr>) = h
       \<and> (decided round_env w' 1 empty_1 h \<or> h = zero_hash))"
proof -
  let ?w = "round_world agreement_events"
  have f: "alg_peer ?w = newPeer" "alg_maliciousType ?w = EvilVoteNothing" "alg_chain ?w = newBlockchain" "w_events ?w = agreement_events"
    by (simp_all add: round_world_def)
  obtain t w' where ba: "BA round_env 1 zero_block ?w = Ok ((t, (emptyBlock 1 (sample_hash 0))\<lparr>blk_Type := t\<rparr>), w')"
    using round_BA [OF f] by blast
  have ok: "peer_inv (alg_peer ?w)" "blocks_ok (alg_peer ?w)" "bc_last (alg_chain ?w) = Some genesis_block"
    using NewAlgorand_ok [OF f(3,1)] by (simp_all add: node_ok_def f(3) genesis_last)
  from BA_block [OF ba ok] ba show ?thesis by (auto simp: empty_1_def genesis_hash)
qed

theorem processMain_extends_witness:
  "\<exists>w' blk. processMain round_env (round_world (Fire # Fire # agreement_events)) = Ok w' \<and> node_ok w'
     \<and> alg_chain w' = bc_add newBlockchain blk"
proof -
  obtain w' where m: "processMain round_env (round_world (Fire # Fire # agreement_events)) = Ok w'" using round_runs by blast
  have c: "alg_chain (round_world es) = newBlockchain" for es by (simp add: round_world_def)
  have "node_ok (round_world (Fire # Fire # agreement_events))" by (rule NewAlgorand_ok) (simp_all add: round_world_def)
  from processMain_extends [OF m this] m c show ?thesis by metis
qed

theorem run_rounds_inv_witness:
  "\<exists>w' blk. run_rounds round_env 1 (round_world (Fire # Fire # agreement_events)) = Ok w' \<and> node_ok w'
     \<and> alg_chain w' = bc_add newBlockchain blk"
proof -
  obtain w' where m: "processMain round_env (round_world (Fire # Fire # agreement_events)) = Ok w'" using round_runs by blast
  then have run: "run_rounds round_env 1 (round_world (Fire # Fire # agreement_events)) = Ok w'" by simp
  obtain blks where "length blks = 1" "alg_chain w' = foldl bc_add newBlockchain blks" "node_ok w'"
    using run_rounds_inv [OF run] by (auto simp: round_world_def)
  with run show ?thesis by (cases blks) auto
qed

section \<open>A fork\<close>

lemma fork_proposal:
  "blockProposal round_env True ((round_world (Fire # Fire # es))\<lparr>w_released := True\<rparr>)
     = Ok (emptyBlock 1 (sample_hash 0), (round_world es)\<lparr>w_draws := 1, w_released := True\<rparr>)"
proof -
  obtain s where s: "sortitionSeed newBlockchain 1 = Ok s" using genesis_seed by blast
  have P: "en_params round_env = round_params" "TokenPerUser round_params = 8"
    by (simp_all add: round_env_def round_params_def)
  show ?thesis
    by (simp add: blockProposal_def round_world_def current_round_def lastBlock_def genesis_last genesis_round
        s sortition_def no_proof tokenOwn_def weight_def P round_no_users genesis_hash)
qed

theorem fork_resolution_witness:
  "\<exists>w' fork. processForkResolve round_env (round_world (Fire # Fire # agreement_events)) = Ok w'
     \<and> bc_last (alg_chain w') = Some fork \<and> blk_Round fork = 1 \<and> \<not> chain_inv (alg_chain w')"
proof -
  let ?start = "round_world (Fire # Fire # agreement_events)"
  let ?w = "(round_world agreement_events)\<lparr>w_draws := 1, w_released := True\<rparr>"
  have f: "alg_peer ?w = newPeer" "alg_maliciousType ?w = EvilVoteNothing" "alg_chain ?w = newBlockchain" "w_events ?w = agreement_events"
    by (simp_all add: round_world_def)
  obtain t p where "BA round_env 1 (emptyBlock 1 (sample_hash 0)) ?w
      = Ok ((t, (emptyBlock 1 (sample_hash 0))\<lparr>blk_Type := t\<rparr>), ?w\<lparr>alg_peer := p, w_events := []\<rparr>)"
    using round_BA [OF f] by blast
  moreover have e: "blk_Round (emptyBlock 1 (sample_hash 0)) = 1" by (simp add: emptyBlock_def)
  ultimately obtain w' where run: "processForkResolve round_env ?start = Ok w'"
    and c: "alg_chain w' = resolveFork newBlockchain ((emptyBlock 1 (sample_hash 0))\<lparr>blk_Type := t\<rparr>)"
    using f(3) by (simp add: processForkResolve_def Let_def fork_proposal)
  have ok: "node_ok ?start" by (rule NewAlgorand_ok) (simp_all add: round_world_def)
  have g: "alg_chain ?start = newBlockchain" by (simp add: round_world_def)
  have "bc_get newBlockchain h 1 = None" for h
    by (simp add: newBlockchain_def bc_init_def bc_get_add genesis_round) (simp add: bc_get_def)
  moreover obtain fork where k: "bc_last (alg_chain w') = Some fork"
    and i: "chain_inv (alg_chain w') \<longleftrightarrow> bc_get newBlockchain (Block_Hash fork) (blk_Round fork) \<noteq> None"
    using fork_resolution [OF run ok] unfolding g by blast
  moreover have "blk_Round fork = 1" using k e by (auto simp: c resolveFork_def)
  ultimately show ?thesis using run by auto
qed

section \<open>An honest node that hears nothing\<close>






section \<open>A node without keys\<close>

text \<open>
  \<open>NewAlgorand\<close> ignores the error of \<open>NewKeyPair\<close>, which leaves the keys nil. Such a node does not get
  through the sortition of its first block proposal: in Go it dereferences a nil key, and in the model,
  where its keys are empty, the expansion of the empty key panics.
\<close>

lemma no_keys_panic:
  assumes "alg_privkey w = alg_privkey (NewAlgorand None i typ)" and "alg_chain w = alg_chain (NewAlgorand None i typ)"
  shows "processMain E w = Panic"
proof -
  have "alg_privkey w = []" "alg_chain w = newBlockchain" using assms by (simp_all add: NewAlgorand_def NewKeyPair_def)
  moreover obtain seed where "sortitionSeed newBlockchain 1 = Ok seed" using genesis_seed by blast
  moreover have "Evaluate C n [] m = Panic" for C n m by (simp add: Evaluate_def ECVRF_prove_def expandSecret_def)
  ultimately show ?thesis
    by (simp add: processMain_def current_round_def lastBlock_def genesis_last genesis_round blockProposal_def sortition_def)
qed

end
