(* ===== verification/Vote_Race.thy ===== *)
theory Vote_Race
  imports Peer "HOL-Library.Multiset"
begin

text \<open>
  Concurrent deliveries of votes (\<open>handle\<close> of \<open>src/peer.go\<close>, the \<open>VOTE\<close> branch). Every delivery runs
  in its own goroutine and takes a lock three times: to read the table, to append to the list and
  to write the table back. A state is the peer with the goroutines; a step runs one locked section
  of one goroutine. The allocation of a new list happens on the goroutine's own data, so it is part
  of the first step.
\<close>

section \<open>Goroutines\<close>

datatype vote_handler =
    Received VoteMessage
  | Loaded VoteMessage nat
  | Appended VoteMessage nat
  | Finished

fun handler_step :: "vote_handler \<Rightarrow> Peer \<Rightarrow> (vote_handler \<times> Peer) option" where
  "handler_step (Received v) p =
     (let (a, hp) = vote_list p (vote_key v) in Some (Loaded v a, p\<lparr>pr_lists := hp\<rparr>))"
| "handler_step (Loaded v a) p =
     Some (Appended v a, p\<lparr>pr_lists := List_add (pr_lists p) a v\<rparr>)"
| "handler_step (Appended v a) p =
     Some (Finished, p\<lparr>pr_incomingVotes := (pr_incomingVotes p)(vote_key v \<mapsto> a)\<rparr>)"
| "handler_step Finished p = None"

inductive race :: "Peer \<times> vote_handler list \<Rightarrow> Peer \<times> vote_handler list \<Rightarrow> bool" where
  race_refl: "race s s"
| race_step: "race s (p, hs) \<Longrightarrow> i < length hs \<Longrightarrow> handler_step (hs ! i) p = Some (h', p') \<Longrightarrow>
     race s (p', hs[i := h'])"

inductive_cases race_cases: "race s t"

lemma race_trans: "race t u \<Longrightarrow> race s t \<Longrightarrow> race s u"
  by (induction rule: race.induct) (auto intro: race_step)

section \<open>Handlers that run one after another\<close>

text \<open>The three locked sections of a handler, run without interference, are \<open>handle_vote\<close>.\<close>

lemma handler_uninterrupted:
  assumes "i < length hs" and "hs ! i = Received v"
  shows "race (p, hs) (handle_vote v p, hs[i := Finished])"
proof -
  obtain a hp where l: "vote_list p (vote_key v) = (a, hp)" by fastforce
  let ?p1 = "p\<lparr>pr_lists := hp\<rparr>" and ?p2 = "p\<lparr>pr_lists := List_add hp a v\<rparr>"
  have "race (p, hs) (?p1, hs[i := Loaded v a])"
    using race_step [OF race_refl assms(1)] assms(2) l by simp
  then have "race (p, hs) (?p2, hs[i := Appended v a])"
    using race_step [of "(p, hs)" ?p1 "hs[i := Loaded v a]" i] assms(1) by simp
  then have "race (p, hs) (?p2\<lparr>pr_incomingVotes := (pr_incomingVotes p)(vote_key v \<mapsto> a)\<rparr>, hs[i := Finished])"
    using race_step [of "(p, hs)" ?p2 "hs[i := Appended v a]" i] assms(1) by simp
  moreover have "handle_vote v p = ?p2\<lparr>pr_incomingVotes := (pr_incomingVotes p)(vote_key v \<mapsto> a)\<rparr>"
    using l by (simp add: handle_vote_def vote_key_def)
  ultimately show ?thesis by simp
qed

lemma handler_alone: "race (p, [Received v]) (handle_vote v p, [Finished])"
  using handler_uninterrupted [of 0 "[Received v]" v p] by simp

lemma handlers_in_order:
  "race (p, replicate n Finished @ map Received vs) (fold handle_vote vs p, replicate (n + length vs) Finished)"
proof (induction vs arbitrary: n p)
  case (Cons v vs)
  let ?hs = "replicate n Finished @ map Received (v # vs)"
  have "race (p, ?hs) (handle_vote v p, ?hs[n := Finished])"
    by (rule handler_uninterrupted) (simp_all add: nth_append)
  moreover have "?hs[n := Finished] = replicate (Suc n) Finished @ map Received vs"
    by (simp add: list_update_append replicate_app_Cons_same)
  ultimately show ?case using race_trans [OF Cons.IH [of "handle_vote v p" "Suc n"]] by simp
qed (simp add: race_refl)

section \<open>A lost vote\<close>

text \<open>
  C23: two votes that arrive at the same time for a round and step without a list yet can lose one
  of them: there is a run of the two handlers to their end after which the table holds the second
  vote only.
\<close>

theorem vote_can_be_lost:
  assumes "vote_key v = vote_key w" and "pr_incomingVotes p (vote_key v) = None"
  shows "\<exists>p'. race (p, [Received v, Received w]) (p', [Finished, Finished])
    \<and> votes_at p' (vote_key v) = [w]"
proof -
  let ?s = "(p, [Received v, Received w])" and ?hp = "pr_lists p" and ?n = "length (pr_lists p)"
  let ?k = "vote_key w"
  have k: "vote_list p ?k = (?n, ?hp @ [[]])" "vote_list (p\<lparr>pr_lists := ?hp @ [[]]\<rparr>) ?k = (Suc ?n, ?hp @ [[], []])"
    using assms by (simp_all add: vote_list_def newList_def)
  note step = race_step [of ?s]
  have 1: "race ?s (p\<lparr>pr_lists := ?hp @ [[]]\<rparr>, [Loaded v ?n, Received w])"
    using race_step [OF race_refl, of 0 "[Received v, Received w]" p] assms(1) k by simp
  have 2: "race ?s (p\<lparr>pr_lists := ?hp @ [[], []]\<rparr>, [Loaded v ?n, Loaded w (Suc ?n)])"
    using step [OF 1, of 1] k by simp
  have 3: "race ?s (p\<lparr>pr_lists := ?hp @ [[v], []]\<rparr>, [Appended v ?n, Loaded w (Suc ?n)])"
    using step [OF 2, of 0] by (simp add: List_add_def nth_append)
  have 4: "race ?s (p\<lparr>pr_lists := ?hp @ [[v], [w]]\<rparr>, [Appended v ?n, Appended w (Suc ?n)])"
    using step [OF 3, of 1] by (simp add: List_add_def nth_append list_update_append)
  have 5: "race ?s (p\<lparr>pr_lists := ?hp @ [[v], [w]], pr_incomingVotes := (pr_incomingVotes p)(?k \<mapsto> ?n)\<rparr>,
      [Finished, Appended w (Suc ?n)])"
    using step [OF 4, of 0] assms(1) by simp
  have "race ?s (p\<lparr>pr_lists := ?hp @ [[v], [w]], pr_incomingVotes := (pr_incomingVotes p)(?k \<mapsto> Suc ?n)\<rparr>,
      [Finished, Finished])"
    using step [OF 5, of 1] by simp
  then show ?thesis using assms(1) by (fastforce simp: votes_at_def nth_append)
qed

theorem vote_can_be_lost_witness:
  "\<exists>p'. race (newPeer, [Received sample_vote, Received (sample_vote\<lparr>vm_VRF := []\<rparr>)]) (p', [Finished, Finished])
    \<and> votes_at p' (vote_key sample_vote) = [sample_vote\<lparr>vm_VRF := []\<rparr>]"
  using vote_can_be_lost [of sample_vote "sample_vote\<lparr>vm_VRF := []\<rparr>" newPeer]
  by (simp add: newPeer_def vote_key_def)

section \<open>No loss once the list exists\<close>

text \<open>The vote that a handler has still to append.\<close>

fun pending :: "bytes \<Rightarrow> vote_handler \<Rightarrow> VoteMessage multiset" where
  "pending k (Received v) = (if vote_key v = k then {#v#} else {#})"
| "pending k (Loaded v a) = (if vote_key v = k then {#v#} else {#})"
| "pending k (Appended v a) = {#}"
| "pending k Finished = {#}"

definition all_pending :: "bytes \<Rightarrow> vote_handler list \<Rightarrow> VoteMessage multiset" where
  "all_pending k hs = sum_list (map (pending k) hs)"

text \<open>The handler works on the list that the table \<open>iv\<close> has for its key.\<close>

fun on_table :: "(bytes \<rightharpoonup> nat) \<Rightarrow> vote_handler \<Rightarrow> bool" where
  "on_table iv (Received v) \<longleftrightarrow> iv (vote_key v) \<noteq> None"
| "on_table iv (Loaded v a) \<longleftrightarrow> iv (vote_key v) = Some a"
| "on_table iv (Appended v a) \<longleftrightarrow> iv (vote_key v) = Some a"
| "on_table iv Finished \<longleftrightarrow> True"

lemma all_pending_update:
  "i < length hs \<Longrightarrow> all_pending k hs + pending k h = all_pending k (hs[i := h]) + pending k (hs ! i)"
proof -
  assume i: "i < length hs"
  have "sum_list (map (pending k) hs) = pending k (hs ! i) + sum_list (map (pending k) (take i hs @ drop (Suc i) hs))"
    using i by (subst id_take_nth_drop [OF i]) (simp add: ac_simps)
  moreover have "sum_list (map (pending k) (hs[i := h])) = pending k h + sum_list (map (pending k) (take i hs @ drop (Suc i) hs))"
    using i by (simp add: upd_conv_take_nth_drop ac_simps)
  ultimately show ?thesis by (simp add: all_pending_def ac_simps)
qed

lemma handler_step_on_table:
  assumes "handler_step h p = Some (h', p')" and "on_table (pr_incomingVotes p) h" and "peer_inv p"
  shows "pr_incomingVotes p' = pr_incomingVotes p \<and> on_table (pr_incomingVotes p) h' \<and> peer_inv p'
    \<and> (\<forall>k. mset (votes_at p' k) + pending k h' = mset (votes_at p k) + pending k h)"
proof (cases h)
  case (Received v)
  then obtain a where "pr_incomingVotes p (vote_key v) = Some a" using assms(2) by auto
  with Received assms(1,3) show ?thesis
    by (auto simp: vote_list_def votes_at_def peer_inv_def split: option.split)
next
  case (Loaded v a)
  then have iv: "pr_incomingVotes p (vote_key v) = Some a" using assms(2) by simp
  then have a: "a < length (pr_lists p)" using assms(3) by (simp add: peer_inv_def)
  have other: "b \<noteq> a" if "pr_incomingVotes p k = Some b" "vote_key v \<noteq> k" for b k
    using that iv assms(3) unfolding peer_inv_def by metis
  have p': "p' = p\<lparr>pr_lists := List_add (pr_lists p) a v\<rparr>" "h' = Appended v a"
    using assms(1) Loaded by auto
  have "mset (votes_at p' k) = mset (votes_at p k) + (if vote_key v = k then {#v#} else {#})" for k
    using iv a other by (auto simp: p' votes_at_def List_add_def nth_list_update split: option.split)
  with Loaded iv assms(3) show ?thesis by (auto simp: p' peer_inv_def List_add_def)
next
  case (Appended v a)
  then have p': "p' = p" "h' = Finished" using assms(1,2) by (auto simp: fun_upd_idem)
  with Appended assms(3) show ?thesis by simp
qed (use assms in auto)

lemma race_on_table:
  assumes "race s t" "peer_inv (fst s)" "\<forall>h \<in> set (snd s). on_table (pr_incomingVotes (fst s)) h"
  shows "pr_incomingVotes (fst t) = pr_incomingVotes (fst s) \<and> peer_inv (fst t)
    \<and> (\<forall>h \<in> set (snd t). on_table (pr_incomingVotes (fst s)) h)
    \<and> (\<forall>k. mset (votes_at (fst t) k) + all_pending k (snd t) = mset (votes_at (fst s) k) + all_pending k (snd s))"
  using assms
proof (induction rule: race.induct)
  case (race_step s p hs i h' p')
  then have ih: "pr_incomingVotes p = pr_incomingVotes (fst s)" "peer_inv p"
    "\<forall>h \<in> set hs. on_table (pr_incomingVotes (fst s)) h"
    and m: "\<And>k. mset (votes_at p k) + all_pending k hs = mset (votes_at (fst s) k) + all_pending k (snd s)"
    by auto
  have "on_table (pr_incomingVotes p) (hs ! i)" using ih race_step.hyps(2) by simp
  note h = handler_step_on_table [OF race_step.hyps(3) this ih(2)]
  have "mset (votes_at p' k) + all_pending k (hs[i := h']) = mset (votes_at p k) + all_pending k hs" for k
  proof -
    have "mset (votes_at p' k) + all_pending k (hs[i := h']) + (pending k h' + pending k (hs ! i))
        = (mset (votes_at p' k) + pending k h') + (all_pending k (hs[i := h']) + pending k (hs ! i))"
      by (simp add: ac_simps)
    also have "\<dots> = (mset (votes_at p k) + pending k (hs ! i)) + (all_pending k hs + pending k h')"
      using h by (simp add: all_pending_update [OF race_step.hyps(2), symmetric])
    also have "\<dots> = mset (votes_at p k) + all_pending k hs + (pending k h' + pending k (hs ! i))"
      by (simp add: ac_simps)
    finally show ?thesis by (simp only: add_right_cancel)
  qed
  with h ih m show ?case by (auto dest: set_update_subset_insert [THEN subsetD])
qed auto

text \<open>
  C24: no vote is lost once its list exists. If the table has a list for the key of every arriving
  vote (as after \<open>voteIterator\<close> of that round and step), then after any interleaving of any number of
  handlers that run to their end, the list of every key holds the earlier votes and the arrived votes
  of that key, each exactly once.
\<close>

theorem votes_kept_on_existing_lists:
  assumes "peer_inv p" and "\<And>v. v \<in> set vs \<Longrightarrow> pr_incomingVotes p (vote_key v) \<noteq> None"
    and "race (p, map Received vs) (p', replicate (length vs) Finished)"
  shows "mset (votes_at p' k) = mset (votes_at p k) + mset (filter (\<lambda>v. vote_key v = k) vs)"
proof -
  have "all_pending k (replicate n Finished) = {#}" for n
    by (induction n) (simp_all add: all_pending_def)
  moreover have "all_pending k (map Received vs) = mset (filter (\<lambda>v. vote_key v = k) vs)"
    by (induction vs) (simp_all add: all_pending_def)
  moreover have "mset (votes_at p' k) + all_pending k (replicate (length vs) Finished)
      = mset (votes_at p k) + all_pending k (map Received vs)"
    using race_on_table [OF assms(3)] assms(1,2) by auto
  ultimately show ?thesis by simp
qed

theorem votes_kept_on_existing_lists_witness:
  "\<exists>p'. race (snd (voteIterator newPeer 4 1), [Received sample_vote]) (p', [Finished])
     \<and> mset (votes_at p' (vote_key sample_vote)) = {#sample_vote#}"
proof -
  let ?p = "snd (voteIterator newPeer 4 1)"
  have k: "vote_key sample_vote = constructVoteKey 4 1" by (simp add: vote_key_def sample_vote_def)
  note i = voteIterator_spec [OF newPeer_inv, of 4 1 "fst (voteIterator newPeer 4 1)" ?p]
  then have inv: "peer_inv ?p" and some: "pr_incomingVotes ?p (vote_key sample_vote) \<noteq> None"
    and empty: "votes_at ?p (vote_key sample_vote) = votes_at newPeer (vote_key sample_vote)"
    by (auto simp: k iterator_of_def)
  have fresh: "votes_at newPeer key = []" for key by (simp add: votes_at_def newPeer_def)
  have "mset (votes_at (handle_vote sample_vote ?p) (vote_key sample_vote)) = {#sample_vote#}"
    using votes_kept_on_existing_lists [OF inv, of "[sample_vote]" "handle_vote sample_vote ?p" "vote_key sample_vote"]
      handler_alone [of ?p sample_vote] some empty fresh by simp
  then show ?thesis using handler_alone [of ?p sample_vote] by blast
qed

section \<open>What every interleaving keeps\<close>

text \<open>
  Votes can be lost, but nothing else goes wrong. The proof keeps track of the key that each list was
  made for (\<open>own\<close>), also of the lists that have fallen out of the table: no list holds more than the
  votes \<open>T\<close> of its key that were there at the start or are delivered.
\<close>

fun works_for :: "(nat \<Rightarrow> bytes option) \<Rightarrow> vote_handler \<Rightarrow> bool" where
  "works_for own (Loaded v a) \<longleftrightarrow> own a = Some (vote_key v)"
| "works_for own (Appended v a) \<longleftrightarrow> own a = Some (vote_key v)"
| "works_for own _ \<longleftrightarrow> True"

definition race_inv ::
  "(nat \<Rightarrow> bytes option) \<Rightarrow> (bytes \<Rightarrow> VoteMessage multiset) \<Rightarrow> Peer \<Rightarrow> vote_handler list \<Rightarrow> bool" where
  "race_inv own T p hs \<longleftrightarrow>
     (\<forall>k a. pr_incomingVotes p k = Some a \<longrightarrow> own a = Some k)
   \<and> (\<forall>a k. own a = Some k \<longrightarrow> a < length (pr_lists p) \<and> mset (pr_lists p ! a) + all_pending k hs \<subseteq># T k)
   \<and> (\<forall>h \<in> set hs. works_for own h)
   \<and> (\<forall>k. all_pending k hs \<subseteq># T k)"

lemma race_invI:
  assumes "\<And>k a. pr_incomingVotes p k = Some a \<Longrightarrow> own a = Some k"
    and "\<And>a k. own a = Some k \<Longrightarrow> a < length (pr_lists p) \<and> mset (pr_lists p ! a) + all_pending k hs \<subseteq># T k"
    and "\<And>h. h \<in> set hs \<Longrightarrow> works_for own h" and "\<And>k. all_pending k hs \<subseteq># T k"
  shows "race_inv own T p hs"
  using assms unfolding race_inv_def by blast

lemma race_invD:
  assumes "race_inv own T p hs"
  shows "pr_incomingVotes p k = Some a \<Longrightarrow> own a = Some k"
    and "own a = Some k \<Longrightarrow> a < length (pr_lists p)"
    and "own a = Some k \<Longrightarrow> mset (pr_lists p ! a) + all_pending k hs \<subseteq># T k"
    and "h \<in> set hs \<Longrightarrow> works_for own h" and "all_pending k hs \<subseteq># T k"
  using assms unfolding race_inv_def by blast+

lemma works_for_update:
  "\<forall>h \<in> set hs. works_for own h \<Longrightarrow> works_for own h' \<Longrightarrow> h \<in> set (hs[i := h']) \<Longrightarrow> works_for own h"
  using set_update_subset_insert [of hs i h'] by auto

lemma race_inv_step:
  assumes "race_inv own T p hs" and "i < length hs" and "handler_step (hs ! i) p = Some (h', p')"
  shows "\<exists>own'. race_inv own' T p' (hs[i := h'])"
proof -
  note inv = race_invD [OF assms(1)]
  have mem: "hs ! i \<in> set hs" using assms(2) by simp
  note upd = all_pending_update [OF assms(2), of _ h']
  show ?thesis
  proof (cases "hs ! i")
    case (Received v)
    let ?k = "vote_key v"
    have same: "all_pending k (hs[i := h']) = all_pending k hs" for k
      using upd [of k] assms(3) Received by (auto split: prod.splits if_splits)
    show ?thesis
    proof (cases "pr_incomingVotes p ?k")
      case (Some a)
      then have h': "p' = p" "h' = Loaded v a" using assms(3) Received by (simp_all add: vote_list_def)
      have "race_inv own T p' (hs[i := h'])"
        using inv Some by (intro race_invI) (auto simp: h' same [unfolded h'] dest: set_update_subset_insert [THEN subsetD])
      then show ?thesis by blast
    next
      case None
      let ?a = "length (pr_lists p)"
      have h': "p' = p\<lparr>pr_lists := pr_lists p @ [[]]\<rparr>" "h' = Loaded v ?a"
        using assms(3) Received None by (simp_all add: vote_list_def newList_def)
      have fresh: "own ?a = None" using inv(2) [of ?a] by (cases "own ?a") auto
      have "works_for (own(?a \<mapsto> ?k)) h" if "h \<in> set hs" for h
        using inv(4) [OF that] fresh by (cases h) auto
      then have "race_inv (own(?a \<mapsto> ?k)) T p' (hs[i := h'])"
        using inv fresh None
        by (intro race_invI) (fastforce simp: h' same [unfolded h'] nth_append split: if_splits dest: set_update_subset_insert [THEN subsetD])+
      then show ?thesis by blast
    qed
  next
    case (Loaded v a)
    then have own: "own a = Some (vote_key v)" using inv(4) [OF mem] by simp
    have h': "p' = p\<lparr>pr_lists := List_add (pr_lists p) a v\<rparr>" "h' = Appended v a" using assms(3) Loaded by auto
    have less: "all_pending k hs = all_pending k (hs[i := h']) + (if vote_key v = k then {#v#} else {#})" for k
      using upd [of k] Loaded h'(2) by simp
    then have sub: "all_pending k (hs[i := h']) \<subseteq># all_pending k hs" for k by (metis mset_subset_eq_add_left)
    have "mset (pr_lists p' ! b) + all_pending k (hs[i := h']) \<subseteq># T k" if b: "own b = Some k" for b k
    proof (cases "b = a")
      case True
      then have "k = vote_key v" using own b by simp
      with True inv(3) [OF own] inv(2) [OF own] less [of k] show ?thesis by (simp add: h' List_add_def)
    next
      case False
      with inv(3) [OF b] sub [of k] show ?thesis
        by (simp add: h' List_add_def) (metis subset_mset.add_left_mono subset_mset.order_trans)
    qed
    moreover have "all_pending k (hs[i := h']) \<subseteq># T k" for k
      using sub inv(5) by (rule subset_mset.order_trans)
    ultimately have "race_inv own T p' (hs[i := h'])"
      using inv own
      by (intro race_invI) (auto simp: h' List_add_def dest: set_update_subset_insert [THEN subsetD])
    then show ?thesis by blast
  next
    case (Appended v a)
    then have own: "own a = Some (vote_key v)" using inv(4) [OF mem] by simp
    have h': "p' = p\<lparr>pr_incomingVotes := (pr_incomingVotes p)(vote_key v \<mapsto> a)\<rparr>" "h' = Finished"
      using assms(3) Appended by auto
    have same: "all_pending k (hs[i := h']) = all_pending k hs" for k using upd [of k] Appended h'(2) by simp
    have "race_inv own T p' (hs[i := h'])"
      using inv own
      by (intro race_invI) (auto simp: h' same [unfolded h'] split: if_splits dest: set_update_subset_insert [THEN subsetD])
    then show ?thesis by blast
  qed (use assms(3) in simp)
qed

lemma race_keeps_inv:
  "race s t \<Longrightarrow> race_inv own T (fst s) (snd s) \<Longrightarrow> \<exists>own'. race_inv own' T (fst t) (snd t)"
proof (induction rule: race.induct)
  case (race_step s p hs i h' p')
  then obtain own' where "race_inv own' T p hs" by auto
  from race_inv_step [OF this race_step.hyps(2,3)] show ?case by simp
qed auto

lemma race_at_most:
  assumes "race (p, map Received vs) (p', hs)" and "peer_inv p"
  shows "peer_inv p' \<and> mset (votes_at p' k) \<subseteq># mset (votes_at p k) + mset (filter (\<lambda>v. vote_key v = k) vs)"
proof -
  define own where "own a = (if \<exists>k. pr_incomingVotes p k = Some a then Some (SOME k. pr_incomingVotes p k = Some a) else None)" for a
  have own: "own a = Some k \<longleftrightarrow> pr_incomingVotes p k = Some a" for a k
    using assms(2) unfolding own_def peer_inv_def by (metis (mono_tags, lifting) option.inject option.simps(3) someI_ex)
  define T where "T k = mset (votes_at p k) + mset (filter (\<lambda>v. vote_key v = k) vs)" for k
  have pend: "all_pending k (map Received vs) = mset (filter (\<lambda>v. vote_key v = k) vs)" for k
    by (induction vs) (simp_all add: all_pending_def)
  have "race_inv own T p (map Received vs)"
    using assms(2) by (intro race_invI) (auto simp: own T_def pend votes_at_def peer_inv_def)
  then obtain own' where inv: "race_inv own' T p' hs" using race_keeps_inv [OF assms(1)] by auto
  note i = race_invD [OF inv]
  have "peer_inv p'" unfolding peer_inv_def using i(1,2) by (metis option.inject)
  moreover have "mset (votes_at p' k) \<subseteq># T k"
  proof (cases "pr_incomingVotes p' k")
    case (Some a)
    from i(3) [OF i(1) [OF Some]] Some show ?thesis
      by (simp add: votes_at_def) (metis mset_subset_eq_add_left subset_mset.order_trans)
  qed (simp add: votes_at_def)
  ultimately show ?thesis by (simp add: T_def)
qed

text \<open>
  C12: the vote table under deliveries, one after another and at the same time. Handlers that run one after
  another are one of the interleavings of the handlers, and they append to the list of a round and step
  exactly the votes of that round and step, in the order of arrival. Under every interleaving, finished
  or not, the lists of different keys stay apart and the list of a round and step holds nothing but
  the votes it held before and delivered votes of that round and step, each at most once. (Votes can be
  missing: see \<open>vote_can_be_lost\<close>, and \<open>votes_kept_on_existing_lists\<close> for when none is.)
\<close>

theorem delivered_votes_log:
  assumes "peer_inv p" and "- (2 ^ 63) \<le> s" "s < 2 ^ 63"
    and "\<And>v. v \<in> set vs \<Longrightarrow> - (2 ^ 63) \<le> vm_Step v \<and> vm_Step v < 2 ^ 63"
  shows "race (p, map Received vs) (fold handle_vote vs p, replicate (length vs) Finished)
    \<and> getIncomingMsgs (fold handle_vote vs p) r s
      = getIncomingMsgs p r s @ filter (\<lambda>v. vm_Round v = r \<and> vm_Step v = s) vs
    \<and> (\<forall>p' hs. race (p, map Received vs) (p', hs) \<longrightarrow> peer_inv p'
        \<and> mset (getIncomingMsgs p' r s)
          \<subseteq># mset (getIncomingMsgs p r s) + mset (filter (\<lambda>v. vm_Round v = r \<and> vm_Step v = s) vs))"
proof -
  have key: "filter (\<lambda>v. vote_key v = constructVoteKey r s) vs = filter (\<lambda>v. vm_Round v = r \<and> vm_Step v = s) vs"
    using assms(4) constructVoteKey_inj [OF _ _ _ assms(2,3)] unfolding vote_key_def
    by (intro filter_cong refl iffI) auto
  have "race (p, map Received vs) (fold handle_vote vs p, replicate (length vs) Finished)"
    using handlers_in_order [of p 0 vs] by simp
  moreover note vote_lists.read_appends [OF assms(1), of vs "constructVoteKey r s", unfolded key]
  moreover note race_at_most [OF _ assms(1), of vs _ _ "constructVoteKey r s", unfolded key]
  ultimately show ?thesis unfolding getIncomingMsgs_votes_at by blast
qed

theorem delivered_votes_log_witness:
  "getIncomingMsgs (fold handle_vote [sample_vote, sample_vote\<lparr>vm_Step := 2\<rparr>, sample_vote\<lparr>vm_VRF := []\<rparr>] newPeer) 4 1
     = [sample_vote, sample_vote\<lparr>vm_VRF := []\<rparr>]"
proof -
  let ?vs = "[sample_vote, sample_vote\<lparr>vm_Step := 2\<rparr>, sample_vote\<lparr>vm_VRF := []\<rparr>]"
  have "getIncomingMsgs (fold handle_vote ?vs newPeer) 4 1
      = getIncomingMsgs newPeer 4 1 @ filter (\<lambda>v. vm_Round v = 4 \<and> vm_Step v = 1) ?vs"
    by (rule delivered_votes_log [OF newPeer_inv, THEN conjunct2, THEN conjunct1]) (auto simp: sample_vote_def)
  moreover have "getIncomingMsgs newPeer 4 1 = []" by (simp add: getIncomingMsgs_def newPeer_def)
  ultimately show ?thesis by (simp add: sample_vote_def)
qed

end
