(* ===== verification/Proposal_Race.thy ===== *)
theory Proposal_Race
  imports Node
begin

text \<open>
  Concurrent deliveries of proposals (\<open>handle\<close> of \<open>src/peer.go\<close>, the branch of proposals), and the
  proposal that the node stores itself (\<open>blockProposal\<close> of \<open>src/algorand.go\<close>). A handler takes the lock of
  the table twice: to read the best proposal of the round and, after the verification of its own
  proposal, to write it. A state is the peer with the goroutines; a step runs one locked section, or the
  verification in between, of one goroutine. The chain stays as it is during these runs.
\<close>

section \<open>Goroutines\<close>

text \<open>A proposal that has arrived, one that has passed the comparison, one that is verified, and the end.\<close>

datatype proposal_handler =
    Arrived int Proposal
  | Compared Proposal
  | Verified Proposal
  | Ended

text \<open>The comparison with the best proposal that the handler has read: is the new one dropped?\<close>

definition dropped :: "int \<Rightarrow> Proposal \<Rightarrow> Proposal option \<Rightarrow> bool" where
  "dropped typ bp maxProposal =
     (case maxProposal of
        None \<Rightarrow> False
      | Some mp \<Rightarrow>
          (typ = BLOCK_PROPOSAL \<and> bytes_compare (pp_Prior bp) (pp_Prior mp) \<le> 0)
        \<or> (typ = FORK_PROPOSAL \<and> pp_Round bp \<le> pp_Round mp))"

fun proposal_step :: "env \<Rightarrow> Blockchain \<Rightarrow> proposal_handler \<Rightarrow> Peer \<Rightarrow> (proposal_handler \<times> Peer) outcome" where
  "proposal_step E bc (Arrived typ bp) p =
     Ok (if dropped typ bp (getMaxProposal p (pp_Round bp)) then Ended else Compared bp, p)"
| "proposal_step E bc (Compared bp) p =
     obind (proposal_ok E bc bp) (\<lambda>ok. Ok (if ok then Verified bp else Ended, p))"
| "proposal_step E bc (Verified bp) p = Ok (Ended, setMaxProposal (pp_Round bp) bp p)"
| "proposal_step E bc Ended p = Blocked"

inductive proposal_race :: "env \<Rightarrow> Blockchain \<Rightarrow> Peer \<times> proposal_handler list \<Rightarrow> Peer \<times> proposal_handler list \<Rightarrow> bool"
  for E :: env and bc :: Blockchain where
  pr_refl: "proposal_race E bc s s"
| pr_step: "proposal_race E bc s (p, hs) \<Longrightarrow> i < length hs \<Longrightarrow> proposal_step E bc (hs ! i) p = Ok (h', p') \<Longrightarrow>
     proposal_race E bc s (p', hs[i := h'])"

lemma proposal_race_trans: "proposal_race E bc t u \<Longrightarrow> proposal_race E bc s t \<Longrightarrow> proposal_race E bc s u"
  by (induction rule: proposal_race.induct) (auto intro: pr_step)

section \<open>Handlers that are not interrupted\<close>

lemma handle_proposal_sections:
  "handle_proposal E bc typ bp p =
     (if dropped typ bp (getMaxProposal p (pp_Round bp)) then Ok (p, None)
      else obind (proposal_ok E bc bp) (\<lambda>ok.
        if \<not> ok then Ok (p, Some VerificationFailed) else Ok (setMaxProposal (pp_Round bp) bp p, None)))"
  by (simp only: handle_proposal_def dropped_def Let_def proposal_ok_def obind_assoc)

text \<open>The sections of a handler, run without interference, are \<open>handle_proposal\<close>.\<close>

lemma proposal_handler_alone:
  assumes "handle_proposal E bc typ bp p = Ok (p', err)"
  shows "proposal_race E bc (p, [Arrived typ bp]) (p', [Ended])"
proof (cases "dropped typ bp (getMaxProposal p (pp_Round bp))")
  case True
  then have "p' = p" using assms by (simp add: handle_proposal_sections)
  with True show ?thesis using pr_step [OF pr_refl, of 0 "[Arrived typ bp]" E bc p] by simp
next
  case False
  then obtain ok where ok: "proposal_ok E bc bp = Ok ok" and p': "p' = (if ok then setMaxProposal (pp_Round bp) bp p else p)"
    using assms by (auto simp: handle_proposal_sections outcome_simps split: if_splits)
  have "proposal_race E bc (p, [Arrived typ bp]) (p, [Compared bp])"
    using False pr_step [OF pr_refl, of 0 "[Arrived typ bp]" E bc p] by simp
  then have r: "proposal_race E bc (p, [Arrived typ bp]) (p, [if ok then Verified bp else Ended])"
    using ok pr_step [of E bc "(p, [Arrived typ bp])" p "[Compared bp]" 0] by simp
  show ?thesis
  proof (cases ok)
    case True
    with r p' show ?thesis using pr_step [of E bc "(p, [Arrived typ bp])" p "[Verified bp]" 0] by simp
  qed (use r p' in simp)
qed

section \<open>Which proposal is held at the end\<close>

text \<open>The same section of several handlers, one after another, while a property of the peer stays.\<close>

lemma sections_in_order:
  assumes "\<And>x q. x \<in> set xs \<Longrightarrow> Q q \<Longrightarrow> proposal_step E bc (f x) q = Ok (g x, u x q) \<and> Q (u x q)" and "Q p"
  shows "proposal_race E bc (p, us @ map f xs @ vs) (fold u xs p, us @ map g xs @ vs)"
  using assms
proof (induction xs arbitrary: us p)
  case (Cons x xs)
  have "proposal_race E bc (p, us @ map f (x # xs) @ vs) (u x p, us @ g x # map f xs @ vs)"
    using pr_step [OF pr_refl, of "length us" "us @ map f (x # xs) @ vs" E bc p] Cons.prems
    by (simp add: nth_append list_update_append)
  moreover have "proposal_race E bc (u x p, us @ g x # map f xs @ vs) (fold u xs (u x p), us @ g x # map g xs @ vs)"
    using Cons.IH [of "u x p" "us @ [g x]"] Cons.prems by simp
  ultimately show ?case by (simp add: proposal_race_trans)
qed (simp add: pr_refl)

text \<open>Block proposals of round \<open>r\<close> that pass the comparison and the verification on the peer \<open>p\<close>.\<close>

definition acceptable :: "env \<Rightarrow> Blockchain \<Rightarrow> Peer \<Rightarrow> u64 \<Rightarrow> Proposal \<Rightarrow> bool" where
  "acceptable E bc p r bp \<longleftrightarrow> pp_Round bp = r \<and> proposal_ok E bc bp = Ok True
     \<and> \<not> dropped BLOCK_PROPOSAL bp (getMaxProposal p r)"

lemma stored_last:
  assumes "\<And>x. x \<in> set (xs @ b # ys) \<Longrightarrow> acceptable E bc p r x"
  shows "\<exists>p'. proposal_race E bc (p, map (Arrived BLOCK_PROPOSAL) (xs @ b # ys)) (p', replicate (length (xs @ b # ys)) Ended)
    \<and> getMaxProposal p' r = Some b"
proof -
  let ?all = "xs @ b # ys" and ?st = "\<lambda>x. setMaxProposal (pp_Round x) x" and ?done = "\<lambda>zs. map (\<lambda>_. Ended) zs"
  have stay: "fold (\<lambda>x q. q) zs p = p" for zs :: "Proposal list" by (induction zs) auto
  have 1: "proposal_race E bc (p, map (Arrived BLOCK_PROPOSAL) ?all) (p, map Compared ?all)"
    using sections_in_order [of ?all "\<lambda>q. q = p" E bc "Arrived BLOCK_PROPOSAL" Compared "\<lambda>x q. q" p "[]" "[]"] assms
    unfolding stay by (auto simp: acceptable_def)
  have 2: "proposal_race E bc (p, map Compared ?all) (p, map Verified ?all)"
    using sections_in_order [of ?all "\<lambda>q. q = p" E bc Compared Verified "\<lambda>x q. q" p "[]" "[]"] assms
    unfolding stay by (auto simp: acceptable_def)
  have set: "proposal_race E bc (q, us @ map Verified zs @ vs) (fold ?st zs q, us @ ?done zs @ vs)" for q us zs vs
    by (rule sections_in_order [of zs "\<lambda>_. True"]) simp_all
  have 3: "proposal_race E bc (p, map Verified ?all) (fold ?st xs p, ?done xs @ Verified b # map Verified ys)"
    using set [of p "[]" xs "Verified b # map Verified ys"] by simp
  have 4: "proposal_race E bc (fold ?st xs p, ?done xs @ Verified b # map Verified ys)
      (fold ?st ys (fold ?st xs p), ?done xs @ Verified b # ?done ys)"
    using set [of "fold ?st xs p" "?done xs @ [Verified b]" ys "[]"] by simp
  have 5: "proposal_race E bc (fold ?st ys (fold ?st xs p), ?done xs @ Verified b # ?done ys)
      (?st b (fold ?st ys (fold ?st xs p)), ?done xs @ Ended # ?done ys)"
    using set [of "fold ?st ys (fold ?st xs p)" "?done xs" "[b]" "?done ys"] by simp
  have fin: "?done xs @ Ended # ?done ys = replicate (length ?all) Ended"
    by (simp add: map_replicate_const replicate_app_Cons_same flip: replicate_add)
  have "proposal_race E bc (p, map (Arrived BLOCK_PROPOSAL) ?all)
      (?st b (fold ?st ys (fold ?st xs p)), replicate (length ?all) Ended)"
    using proposal_race_trans [OF 5 proposal_race_trans [OF 4 proposal_race_trans [OF 3 proposal_race_trans [OF 2 1]]]]
    unfolding fin .
  moreover have "pp_Round b = r" using assms [of b] by (simp add: acceptable_def)
  ultimately show ?thesis by (auto simp: proposals.lookup_put)
qed

text \<open>While the handlers run, the peer holds one of the new proposals, or the old one and none has ended.\<close>

fun handler_of :: "Proposal set \<Rightarrow> proposal_handler \<Rightarrow> bool" where
  "handler_of S (Arrived typ bp) \<longleftrightarrow> typ = BLOCK_PROPOSAL \<and> bp \<in> S"
| "handler_of S (Compared bp) \<longleftrightarrow> bp \<in> S"
| "handler_of S (Verified bp) \<longleftrightarrow> bp \<in> S"
| "handler_of S Ended \<longleftrightarrow> True"

lemma race_holds:
  assumes "proposal_race E bc s t" and "\<forall>x \<in> S. acceptable E bc (fst s) r x"
    and "\<forall>h \<in> set (snd s). handler_of S h" and "Ended \<notin> set (snd s)"
  shows "(\<forall>h \<in> set (snd t). handler_of S h)
    \<and> (getMaxProposal (fst t) r \<in> Some ` S
       \<or> getMaxProposal (fst t) r = getMaxProposal (fst s) r \<and> Ended \<notin> set (snd t))"
  using assms
proof (induction rule: proposal_race.induct)
  case (pr_step s p hs i h' p')
  let ?old = "getMaxProposal (fst s) r"
  have acc: "pp_Round x = r" "proposal_ok E bc x = Ok True" "\<not> dropped BLOCK_PROPOSAL x ?old" if "x \<in> S" for x
    using pr_step.prems(1) that by (auto simp: acceptable_def)
  have hs: "\<forall>h \<in> set hs. handler_of S h"
    and held: "getMaxProposal p r \<in> Some ` S \<or> getMaxProposal p r = ?old \<and> Ended \<notin> set hs"
    using pr_step by auto
  have "handler_of S (hs ! i)" using hs pr_step.hyps(2) by simp
  then have "handler_of S h' \<and> (getMaxProposal p' r \<in> Some ` S
      \<or> getMaxProposal p' r = getMaxProposal p r \<and> (getMaxProposal p r = ?old \<longrightarrow> h' \<noteq> Ended))"
    using pr_step.hyps(3) acc by (cases "hs ! i") (auto simp: proposals.lookup_put)
  with hs held show ?case by (auto dest: set_update_subset_insert [THEN subsetD])
qed auto

text \<open>
  C37: of block proposals that are handled at the same time any one can win, not only the best. Take block
  proposals for one round that each verify and beat what the peer holds, whatever their priorities
  among each other. For each of them there is an interleaving of the handlers to their end after which the
  peer holds this one; and no interleaving can end with anything else.
\<close>

theorem any_proposal_can_win:
  assumes "\<And>x. x \<in> set bps \<Longrightarrow> acceptable E bc p r x" and "bps \<noteq> []"
  shows "{getMaxProposal p' r | p'. proposal_race E bc (p, map (Arrived BLOCK_PROPOSAL) bps)
            (p', replicate (length bps) Ended)} = Some ` set bps"
proof -
  let ?run = "\<lambda>p'. proposal_race E bc (p, map (Arrived BLOCK_PROPOSAL) bps) (p', replicate (length bps) Ended)"
  have "getMaxProposal p' r \<in> Some ` set bps" if "?run p'" for p'
    using race_holds [OF that, of "set bps" r] assms by auto
  moreover have "\<exists>p'. ?run p' \<and> getMaxProposal p' r = Some b" if b: "b \<in> set bps" for b
  proof -
    obtain xs ys where "bps = xs @ b # ys" using split_list [OF b] by blast
    with stored_last [of xs b ys E bc p r] assms(1) show ?thesis by simp
  qed
  ultimately show ?thesis by force
qed

theorem any_proposal_can_win_witness:
  "{getMaxProposal p' 4 | p'. proposal_race sample_env sample_chain
      (newPeer, map (Arrived BLOCK_PROPOSAL) [sample_proposal, sample_proposal\<lparr>pp_Hash := zero_hash\<rparr>])
      (p', [Ended, Ended])} = {Some sample_proposal, Some (sample_proposal\<lparr>pp_Hash := zero_hash\<rparr>)}"
proof -
  have free: "getMaxProposal newPeer 4 = None" by (simp add: getMaxProposal_def newPeer_def)
  have "proposal_ok E bc (bp\<lparr>pp_Hash := h\<rparr>) = proposal_ok E bc bp" for E bc bp h
    by (simp add: proposal_ok_def Proposal_Verify_def Proposal_Address_def Proposal_PublicKey_def cong: if_cong)
  then have "proposal_ok sample_env sample_chain (sample_proposal\<lparr>pp_Hash := zero_hash\<rparr>) = Ok True"
    by (simp only: sample_proposal_ok)
  moreover have "pp_Round sample_proposal = 4" by (simp add: sample_proposal_def)
  ultimately have "acceptable sample_env sample_chain newPeer 4 x"
    if "x \<in> set [sample_proposal, sample_proposal\<lparr>pp_Hash := zero_hash\<rparr>]" for x
    using that sample_proposal_ok free by (auto simp: acceptable_def dropped_def)
  from any_proposal_can_win [of "[sample_proposal, sample_proposal\<lparr>pp_Hash := zero_hash\<rparr>]", OF this] show ?thesis
    by (simp add: numeral_2_eq_2)
qed

section \<open>The proposal of the node itself\<close>

text \<open>
  \<open>blockProposal\<close> stores the node's own proposal without comparing it with the one that is held, which may
  have arrived earlier and have a higher priority: afterwards the peer holds a proposal of the node.
\<close>

theorem own_proposal_replaces:
  assumes "send_proposal E resolve_fork rnd vrf pfb subusers w = Ok w'"
  shows "\<exists>blk. getMaxProposal (alg_peer w') rnd = Some (make_proposal blk vrf pfb subusers w)"
proof -
  have draws: "w1 = w\<lparr>w_draws := w_draws w1\<rparr>" if "proposeBlock E w = Ok (b, w1)" for b w w1
    using that by (auto simp: proposeBlock_def outcome_simps Let_def split: option.splits)
  have draws_peer: "alg_peer w1 = alg_peer w" if "proposeBlock E w = Ok (b, w1)" for b w w1
    by (subst draws [OF that]) simp
  have same: "make_proposal b vrf pfb subusers (w\<lparr>w_draws := d\<rparr>) = make_proposal b vrf pfb subusers w" for b d
    by (simp add: make_proposal_def)
  obtain blk w1 d where w1: "w1 = w\<lparr>w_draws := d\<rparr>"
    and run: "send_proposal E resolve_fork rnd vrf pfb subusers w = Ok w'"
    and b: "(if \<not> resolve_fork then proposeBlock E w else obind (proposeFork w) (\<lambda>b. Ok (b, w))) = Ok (blk, w1)"
  proof -
    obtain blk w1 where b: "(if \<not> resolve_fork then proposeBlock E w else obind (proposeFork w) (\<lambda>b. Ok (b, w))) = Ok (blk, w1)"
      using assms unfolding send_proposal_def obind_pair_Ok_iff by blast
    then have "w1 = w\<lparr>w_draws := w_draws w1\<rparr>" using draws by (cases resolve_fork) (auto simp: outcome_simps)
    with b assms that show thesis by blast
  qed
  let ?pp = "make_proposal blk vrf pfb subusers w1"
  let ?w2 = "w1\<lparr>alg_peer := addBlock (Block_Hash blk) blk (setMaxProposal rnd ?pp (alg_peer w1))\<rparr>"
  have "alg_peer w' = alg_peer ?w2"
    using run b unfolding send_proposal_def
    by (auto simp: Let_def outcome_simps split: if_splits dest: draws_peer)
  then have "getMaxProposal (alg_peer w') rnd = Some ?pp" by (simp add: proposals.lookup_put)
  then show ?thesis unfolding w1 same by blast
qed

end
