(* ===== verification/Signed_Words.thy ===== *)
theory Signed_Words
  imports Prelude
begin

text \<open>
  Signed machine integers as words. A word whose signed value is known is written \<open>word_of_int i\<close>;
  sums, differences and products of such words need no range, and only the arithmetic shift to the
  right and the reading of the signed value need one.
\<close>

section \<open>Values in range\<close>

lemma sint_of_int_range:
  assumes "- (2 ^ (LENGTH('a) - 1)) \<le> i" and "i < 2 ^ (LENGTH('a) - 1)"
  shows "sint (word_of_int i :: 'a :: len word) = i"
  using assms by (simp add: sint_sbintrunc' signed_take_bit_int_eq_self)

lemma sint_of_int_32: "\<bar>i\<bar> < 2 ^ 31 \<Longrightarrow> sint (word_of_int i :: i32) = i"
  by (rule sint_of_int_range) simp_all

lemma sint_of_int_64: "\<bar>i\<bar> < 2 ^ 63 \<Longrightarrow> sint (word_of_int i :: i64) = i"
  by (rule sint_of_int_range) simp_all

lemma sshift_of_int:
  assumes "- (2 ^ (LENGTH('a) - 1)) \<le> i" and "i < 2 ^ (LENGTH('a) - 1)"
  shows "signed_drop_bit n (word_of_int i :: 'a :: len word) = word_of_int (i div 2 ^ n)"
proof -
  have "signed_drop_bit n (word_of_int i :: 'a word) = word_of_int (sint (signed_drop_bit n (word_of_int i :: 'a word)))"
    by simp
  also have "\<dots> = word_of_int (i div 2 ^ n)"
    by (simp only: sint_signed_drop_bit_eq sint_of_int_range [OF assms] drop_bit_eq_div)
  finally show ?thesis .
qed

lemma sshift_of_int_32: "\<bar>i\<bar> < 2 ^ 31 \<Longrightarrow> signed_drop_bit n (word_of_int i :: i32) = word_of_int (i div 2 ^ n)"
  by (rule sshift_of_int) simp_all

lemma sshift_of_int_64: "\<bar>i\<bar> < 2 ^ 63 \<Longrightarrow> signed_drop_bit n (word_of_int i :: i64) = word_of_int (i div 2 ^ n)"
  by (rule sshift_of_int) simp_all

lemma shift_of_int: "push_bit n (word_of_int i :: 'a :: len word) = word_of_int (i * 2 ^ n)"
  by (simp add: push_bit_eq_mult)

lemma push_bit_1_word: "push_bit n (1 :: 'a :: len word) = word_of_int (2 ^ n)"
  by (simp add: push_bit_eq_mult)

section \<open>Conversions between widths\<close>

abbreviation int64 :: "i32 \<Rightarrow> i64" where "int64 x \<equiv> scast x"

lemma scast_sint: "(scast (x :: i32) :: i64) = word_of_int (sint x)"
  by (rule scast_eq)

lemma narrow_byte: "(ucast (word_of_int i :: i32) :: byte) = word_of_int i"
  by (rule ucast_down_wi) (simp add: is_down)

lemma narrow_of_int: "(ucast (word_of_int i :: i64) :: i32) = word_of_int i"
  by (rule ucast_down_wi) (simp add: is_down)

section \<open>Bounds\<close>

text \<open>An integer of absolute value at most \<open>B\<close>, as two inequalities for linear arithmetic.\<close>

definition bounded_by :: "int \<Rightarrow> int \<Rightarrow> bool" where
  "bounded_by B a \<longleftrightarrow> - B \<le> a \<and> a \<le> B"

lemma bounded_mono: "bounded_by A a \<Longrightarrow> A \<le> B \<Longrightarrow> bounded_by B a"
  by (simp add: bounded_by_def)

lemma bounded_add: "bounded_by A a \<Longrightarrow> bounded_by B b \<Longrightarrow> A + B \<le> C \<Longrightarrow> bounded_by C (a + b)"
  by (simp add: bounded_by_def)

lemma bounded_diff: "bounded_by A a \<Longrightarrow> bounded_by B b \<Longrightarrow> A + B \<le> C \<Longrightarrow> bounded_by C (a - b)"
  by (simp add: bounded_by_def)

lemma bounded_minus: "bounded_by B a \<Longrightarrow> bounded_by B (- a)"
  by (simp add: bounded_by_def)

lemma bounded_mult: "bounded_by A a \<Longrightarrow> bounded_by B b \<Longrightarrow> A * B \<le> C \<Longrightarrow> bounded_by C (a * b)"
proof -
  assume w: "bounded_by A a" "bounded_by B b" "A * B \<le> C"
  then have "\<bar>a\<bar> \<le> A" "\<bar>b\<bar> \<le> B" by (auto simp: bounded_by_def)
  then have "\<bar>a\<bar> * \<bar>b\<bar> \<le> A * B" by (intro mult_mono) auto
  then have "\<bar>a * b\<bar> \<le> C" using w(3) by (simp add: abs_mult)
  then show ?thesis by (auto simp: bounded_by_def)
qed

lemma bounded_nonneg: "0 \<le> a \<Longrightarrow> a \<le> B \<Longrightarrow> bounded_by B a"
  by (simp add: bounded_by_def)

lemma bounded_bits: "bounded_by B a \<Longrightarrow> B < 2 ^ n \<Longrightarrow> \<bar>a\<bar> < 2 ^ n"
  by (auto simp: bounded_by_def)

lemma sint_add_32:
  fixes a b :: i32
  assumes "bounded_by A (sint a)" and "bounded_by B (sint b)" and "A + B < 2 ^ 31"
  shows "sint (a + b) = sint a + sint b"
  using sint_of_int_32 [of "sint a + sint b"] bounded_bits [OF bounded_add [OF assms(1,2) order_refl] assms(3)] by simp

lemma sint_diff_32:
  fixes a b :: i32
  assumes "bounded_by A (sint a)" and "bounded_by B (sint b)" and "A + B < 2 ^ 31"
  shows "sint (a - b) = sint a - sint b"
  using sint_of_int_32 [of "sint a - sint b"] bounded_bits [OF bounded_diff [OF assms(1,2) order_refl] assms(3)] by simp

lemma sint_minus_32:
  fixes a :: i32
  assumes "bounded_by A (sint a)" and "A < 2 ^ 31"
  shows "sint (- a) = - sint a"
  using sint_of_int_32 [of "- sint a"] bounded_bits [OF bounded_minus [OF assms(1)] assms(2)] by simp

lemma sint_times_32:
  fixes a :: i32
  assumes "bounded_by A (sint a)" and "k * A < 2 ^ 31" and "0 \<le> k"
  shows "sint (word_of_int k * a) = k * sint a"
proof -
  have "bounded_by (k * A) (k * sint a)" by (rule bounded_mult [of k _ A]) (use assms in \<open>simp_all add: bounded_by_def\<close>)
  from sint_of_int_32 [OF bounded_bits [OF this assms(2)]] show ?thesis by simp
qed

end
