(* ===== verification/Field25519.thy ===== *)
theory Field25519
  imports Signed_Words Edwards_Types
begin

text \<open>
  The field of the curve (\<open>src/vrf/edwards25519/edwards25519.go\<close>): integers modulo \<open>2 ^ 255 - 19\<close> in
  ten limbs of alternately 26 and 25 bits, held in 32-bit integers and multiplied in 64-bit integers.
  The definitions keep the widths of the source; the lemmas show that within the bounds that the
  comments of the source state nothing overflows and that the operations compute in the field.
\<close>

unbundle bit_operations_syntax

section \<open>Elements, sums and differences\<close>

definition FeZero :: FieldElement where
  "FeZero = FE 0 0 0 0 0 0 0 0 0 0"

definition FeOne :: FieldElement where
  "FeOne = FE 1 0 0 0 0 0 0 0 0 0"

definition FeAdd :: "FieldElement \<Rightarrow> FieldElement \<Rightarrow> FieldElement" where
  "FeAdd a b = FE (fe0 a + fe0 b) (fe1 a + fe1 b) (fe2 a + fe2 b) (fe3 a + fe3 b) (fe4 a + fe4 b)
     (fe5 a + fe5 b) (fe6 a + fe6 b) (fe7 a + fe7 b) (fe8 a + fe8 b) (fe9 a + fe9 b)"

definition FeSub :: "FieldElement \<Rightarrow> FieldElement \<Rightarrow> FieldElement" where
  "FeSub a b = FE (fe0 a - fe0 b) (fe1 a - fe1 b) (fe2 a - fe2 b) (fe3 a - fe3 b) (fe4 a - fe4 b)
     (fe5 a - fe5 b) (fe6 a - fe6 b) (fe7 a - fe7 b) (fe8 a - fe8 b) (fe9 a - fe9 b)"

definition FeCopy :: "FieldElement \<Rightarrow> FieldElement" where
  "FeCopy src = src"

definition FeNeg :: "FieldElement \<Rightarrow> FieldElement" where
  "FeNeg f = FE (- fe0 f) (- fe1 f) (- fe2 f) (- fe3 f) (- fe4 f)
     (- fe5 f) (- fe6 f) (- fe7 f) (- fe8 f) (- fe9 f)"

text \<open>The limb of \<open>FeCMove\<close>, with the mask \<open>b\<close> already negated.\<close>

definition cmove_limb :: "i32 \<Rightarrow> i32 \<Rightarrow> i32 \<Rightarrow> i32" where
  "cmove_limb b f g = f XOR (b AND (f XOR g))"

definition FeCMove :: "FieldElement \<Rightarrow> FieldElement \<Rightarrow> i32 \<Rightarrow> FieldElement" where
  "FeCMove f g b =
     (let b = - b
      in FE (cmove_limb b (fe0 f) (fe0 g)) (cmove_limb b (fe1 f) (fe1 g)) (cmove_limb b (fe2 f) (fe2 g))
           (cmove_limb b (fe3 f) (fe3 g)) (cmove_limb b (fe4 f) (fe4 g)) (cmove_limb b (fe5 f) (fe5 g))
           (cmove_limb b (fe6 f) (fe6 g)) (cmove_limb b (fe7 f) (fe7 g)) (cmove_limb b (fe8 f) (fe8 g))
           (cmove_limb b (fe9 f) (fe9 g)))"

section \<open>Carries\<close>

text \<open>
  One carry of \<open>FeCombine\<close>: \<open>c = (h + (1 << (n-1))) >> n\<close>, added to the next limb, and
  \<open>c << n\<close> taken from this one.
\<close>

definition carry_step :: "nat \<Rightarrow> i64 \<Rightarrow> i64 \<Rightarrow> i64 \<times> i64" where
  "carry_step n h next =
     (let c = signed_drop_bit n (h + push_bit (n - 1) 1) in (h - push_bit n c, next + c))"

definition FeCombine ::
  "i64 \<Rightarrow> i64 \<Rightarrow> i64 \<Rightarrow> i64 \<Rightarrow> i64 \<Rightarrow> i64 \<Rightarrow> i64 \<Rightarrow> i64 \<Rightarrow> i64 \<Rightarrow> i64 \<Rightarrow> FieldElement" where
  "FeCombine h0 h1 h2 h3 h4 h5 h6 h7 h8 h9 =
     (let (h0, h1) = carry_step 26 h0 h1;
          (h4, h5) = carry_step 26 h4 h5;
          (h1, h2) = carry_step 25 h1 h2;
          (h5, h6) = carry_step 25 h5 h6;
          (h2, h3) = carry_step 26 h2 h3;
          (h6, h7) = carry_step 26 h6 h7;
          (h3, h4) = carry_step 25 h3 h4;
          (h7, h8) = carry_step 25 h7 h8;
          (h4, h5) = carry_step 26 h4 h5;
          (h8, h9) = carry_step 26 h8 h9;
          c9 = signed_drop_bit 25 (h9 + push_bit 24 1);
          h0 = h0 + c9 * 19;
          h9 = h9 - push_bit 25 c9;
          (h0, h1) = carry_step 26 h0 h1
      in FE (ucast h0) (ucast h1) (ucast h2) (ucast h3) (ucast h4)
            (ucast h5) (ucast h6) (ucast h7) (ucast h8) (ucast h9))"

section \<open>Values and bounds\<close>

text \<open>
  The integer that ten limbs stand for, the modulus, and the bounds of the source's comments: the even
  limbs are at most \<open>2 * B\<close> and the odd ones at most \<open>B\<close>.
\<close>

definition fe_p :: int where "fe_p = 2 ^ 255 - 19"

definition limb_sum :: "int \<Rightarrow> int \<Rightarrow> int \<Rightarrow> int \<Rightarrow> int \<Rightarrow> int \<Rightarrow> int \<Rightarrow> int \<Rightarrow> int \<Rightarrow> int \<Rightarrow> int" where
  "limb_sum a0 a1 a2 a3 a4 a5 a6 a7 a8 a9 =
     a0 + 2 ^ 26 * a1 + 2 ^ 51 * a2 + 2 ^ 77 * a3 + 2 ^ 102 * a4 + 2 ^ 128 * a5 + 2 ^ 153 * a6
       + 2 ^ 179 * a7 + 2 ^ 204 * a8 + 2 ^ 230 * a9"

definition fe_val :: "FieldElement \<Rightarrow> int" where
  "fe_val f = limb_sum (sint (fe0 f)) (sint (fe1 f)) (sint (fe2 f)) (sint (fe3 f)) (sint (fe4 f))
     (sint (fe5 f)) (sint (fe6 f)) (sint (fe7 f)) (sint (fe8 f)) (sint (fe9 f))"

definition limbs_within :: "int \<Rightarrow> int \<Rightarrow> int \<Rightarrow> int \<Rightarrow> int \<Rightarrow> int \<Rightarrow> int \<Rightarrow> int \<Rightarrow> int \<Rightarrow> int \<Rightarrow> int \<Rightarrow> bool" where
  "limbs_within B a0 a1 a2 a3 a4 a5 a6 a7 a8 a9 \<longleftrightarrow>
     bounded_by (2 * B) a0 \<and> bounded_by B a1 \<and> bounded_by (2 * B) a2 \<and> bounded_by B a3 \<and> bounded_by (2 * B) a4 \<and>
     bounded_by B a5 \<and> bounded_by (2 * B) a6 \<and> bounded_by B a7 \<and> bounded_by (2 * B) a8 \<and> bounded_by B a9"

definition fe_within :: "int \<Rightarrow> FieldElement \<Rightarrow> bool" where
  "fe_within B f \<longleftrightarrow> limbs_within B (sint (fe0 f)) (sint (fe1 f)) (sint (fe2 f)) (sint (fe3 f)) (sint (fe4 f))
     (sint (fe5 f)) (sint (fe6 f)) (sint (fe7 f)) (sint (fe8 f)) (sint (fe9 f))"

text \<open>\<open>1.01 * 2 ^ 24\<close>, the bound of a reduced element, and \<open>1.65 * 2 ^ 25\<close>, the bound of a factor.\<close>

definition tight :: int where "tight = 16944988"

definition loose :: int where "loose = 55364812"

lemma fe_within_mono: "fe_within A f \<Longrightarrow> A \<le> B \<Longrightarrow> fe_within B f"
  unfolding fe_within_def limbs_within_def by (auto elim: bounded_mono)

lemma limb_sum_add: "limb_sum a0 a1 a2 a3 a4 a5 a6 a7 a8 a9 + limb_sum b0 b1 b2 b3 b4 b5 b6 b7 b8 b9
    = limb_sum (a0 + b0) (a1 + b1) (a2 + b2) (a3 + b3) (a4 + b4) (a5 + b5) (a6 + b6) (a7 + b7) (a8 + b8) (a9 + b9)"
  by (simp add: limb_sum_def algebra_simps)

lemma limb_sum_diff: "limb_sum a0 a1 a2 a3 a4 a5 a6 a7 a8 a9 - limb_sum b0 b1 b2 b3 b4 b5 b6 b7 b8 b9
    = limb_sum (a0 - b0) (a1 - b1) (a2 - b2) (a3 - b3) (a4 - b4) (a5 - b5) (a6 - b6) (a7 - b7) (a8 - b8) (a9 - b9)"
  by (simp add: limb_sum_def algebra_simps)

lemma limb_sum_minus: "- limb_sum a0 a1 a2 a3 a4 a5 a6 a7 a8 a9
    = limb_sum (- a0) (- a1) (- a2) (- a3) (- a4) (- a5) (- a6) (- a7) (- a8) (- a9)"
  by (simp add: limb_sum_def)

lemma FeAdd_correct:
  assumes "fe_within A a" and "fe_within B b" and "A + B < 2 ^ 30"
  shows "fe_val (FeAdd a b) = fe_val a + fe_val b \<and> fe_within (A + B) (FeAdd a b)"
proof -
  have s: "sint (x + y) = sint x + sint y \<and> bounded_by (2 * (A + B)) (sint x + sint y)"
    if "bounded_by (2 * A) (sint x)" "bounded_by (2 * B) (sint y)" for x y :: i32
    using sint_add_32 [OF that] bounded_add [OF that] assms(3) by simp
  have s': "sint (x + y) = sint x + sint y \<and> bounded_by (A + B) (sint x + sint y)"
    if "bounded_by A (sint x)" "bounded_by B (sint y)" for x y :: i32
  proof -
    have "A + B < 2 ^ 31" using assms(3) by simp
    with sint_add_32 [OF that] bounded_add [OF that] show ?thesis by simp
  qed
  show ?thesis
    using assms(1,2) unfolding fe_within_def limbs_within_def
    by (simp add: fe_val_def FeAdd_def s s' limb_sum_add del: distrib_left_numeral)
qed

lemma FeSub_correct:
  assumes "fe_within A a" and "fe_within B b" and "A + B < 2 ^ 30"
  shows "fe_val (FeSub a b) = fe_val a - fe_val b \<and> fe_within (A + B) (FeSub a b)"
proof -
  have s: "sint (x - y) = sint x - sint y \<and> bounded_by (2 * (A + B)) (sint x - sint y)"
    if "bounded_by (2 * A) (sint x)" "bounded_by (2 * B) (sint y)" for x y :: i32
    using sint_diff_32 [OF that] bounded_diff [OF that] assms(3) by simp
  have s': "sint (x - y) = sint x - sint y \<and> bounded_by (A + B) (sint x - sint y)"
    if "bounded_by A (sint x)" "bounded_by B (sint y)" for x y :: i32
  proof -
    have "A + B < 2 ^ 31" using assms(3) by simp
    with sint_diff_32 [OF that] bounded_diff [OF that] show ?thesis by simp
  qed
  show ?thesis
    using assms(1,2) unfolding fe_within_def limbs_within_def
    by (simp add: fe_val_def FeSub_def s s' limb_sum_diff del: distrib_left_numeral)
qed

lemma FeNeg_correct:
  assumes "fe_within B f" and "B < 2 ^ 30"
  shows "fe_val (FeNeg f) = - fe_val f \<and> fe_within B (FeNeg f)"
proof -
  have s: "sint (- x) = - sint x \<and> bounded_by (2 * B) (- sint x)" if "bounded_by (2 * B) (sint x)" for x :: i32
    using sint_minus_32 [OF that] bounded_minus [OF that] assms(2) by simp
  have s': "sint (- x) = - sint x \<and> bounded_by B (- sint x)" if "bounded_by B (sint x)" for x :: i32
    using sint_minus_32 [OF that] bounded_minus [OF that] assms(2) by simp
  show ?thesis
    using assms(1) unfolding fe_within_def limbs_within_def
    by (simp add: fe_val_def FeNeg_def s s' limb_sum_minus)
qed

text \<open>The conditional move takes \<open>g\<close> for \<open>b = 1\<close> and keeps \<open>f\<close> for \<open>b = 0\<close>.\<close>

lemma FeCMove_correct: "FeCMove f g 1 = g \<and> FeCMove f g 0 = f"
  by (cases f; cases g) (simp add: FeCMove_def cmove_limb_def)

section \<open>The carry chain\<close>

text \<open>The carry of a limb as an integer: the quotient rounded to the nearest integer.\<close>

definition rcarry :: "nat \<Rightarrow> int \<Rightarrow> int" where
  "rcarry n a = (a + 2 ^ (n - 1)) div 2 ^ n"

lemma rcarry_bounds:
  assumes "0 < n"
  shows "- (2 ^ (n - 1)) \<le> a - 2 ^ n * rcarry n a \<and> a - 2 ^ n * rcarry n a < 2 ^ (n - 1)"
proof -
  have "(2 :: int) ^ n = 2 * 2 ^ (n - 1)" using assms by (cases n) simp_all
  have "2 ^ n * (x div 2 ^ n) \<le> x \<and> x < 2 ^ n * (x div 2 ^ n) + 2 ^ n" for x :: int
  proof -
    have "0 \<le> x mod 2 ^ n" "x mod 2 ^ n < 2 ^ n" by simp_all
    then show ?thesis using mult_div_mod_eq [of "2 ^ n" x] by linarith
  qed
  from this [of "a + 2 ^ (n - 1)"] show ?thesis
    unfolding rcarry_def using \<open>(2 :: int) ^ n = 2 * 2 ^ (n - 1)\<close> by linarith
qed

lemma rcarry_26: "- 33554432 \<le> a - 67108864 * rcarry 26 a \<and> a - 67108864 * rcarry 26 a < 33554432"
  using rcarry_bounds [of 26 a] by simp

lemma rcarry_25: "- 16777216 \<le> a - 33554432 * rcarry 25 a \<and> a - 33554432 * rcarry 25 a < 16777216"
  using rcarry_bounds [of 25 a] by simp

lemma rcarry_shift:
  assumes "bounded_by (3 * 2 ^ 61) a" and "n < 61"
  shows "signed_drop_bit n (word_of_int a + push_bit (n - 1) 1 :: i64) = word_of_int (rcarry n a)"
proof -
  have "bounded_by (2 ^ 60) (2 ^ (n - 1))"
    using assms(2) power_increasing [of "n - 1" 60 "2 :: int"] by (simp add: bounded_by_def order_trans [of _ 0])
  from bounded_bits [OF bounded_add [OF assms(1) this order_refl], of 63] have "\<bar>a + 2 ^ (n - 1)\<bar> < 2 ^ 63" by simp
  from sshift_of_int_64 [OF this] show ?thesis by (simp add: push_bit_1_word rcarry_def)
qed

lemma carry_step_int:
  assumes "bounded_by (3 * 2 ^ 61) a" and "n < 61"
  shows "carry_step n (word_of_int a) (word_of_int b) = (word_of_int (a - 2 ^ n * rcarry n a), word_of_int (b + rcarry n a))"
  unfolding carry_step_def Let_def rcarry_shift [OF assms] shift_of_int by (simp add: mult.commute)

text \<open>The wrap of the top carry into the lowest limb, and the removal of the top carry.\<close>

lemma carry_wrap:
  "(word_of_int a + word_of_int c * 19 :: i64) = word_of_int (a + c * 19)"
  "(word_of_int a - push_bit 25 (word_of_int c) :: i64) = word_of_int (a - 33554432 * c)"
  by (simp_all add: shift_of_int)

lemma carry_steps:
  "bounded_by (3 * 2 ^ 61) a \<Longrightarrow>
    carry_step 26 (word_of_int a) (word_of_int b) = (word_of_int (a - 67108864 * rcarry 26 a), word_of_int (b + rcarry 26 a))"
  "bounded_by (3 * 2 ^ 61) a \<Longrightarrow>
    carry_step 25 (word_of_int a) (word_of_int b) = (word_of_int (a - 33554432 * rcarry 25 a), word_of_int (b + rcarry 25 a))"
  "bounded_by (3 * 2 ^ 61) a \<Longrightarrow>
    signed_drop_bit 25 (word_of_int a + push_bit 24 1 :: i64) = word_of_int (rcarry 25 a)"
  using carry_step_int [of a 26 b] carry_step_int [of a 25 b] rcarry_shift [of a 25] by simp_all

text \<open>
  The whole chain: on limbs of at most \<open>5 * 2 ^ 60\<close> nothing overflows, the result is reduced, and its value
  differs from that of the limbs by a multiple of the modulus.
\<close>

lemma FeCombine_int:
  assumes "bounded_by (5 * 2 ^ 60) a0" "bounded_by (5 * 2 ^ 60) a1" "bounded_by (5 * 2 ^ 60) a2" "bounded_by (5 * 2 ^ 60) a3"
    "bounded_by (5 * 2 ^ 60) a4" "bounded_by (5 * 2 ^ 60) a5" "bounded_by (5 * 2 ^ 60) a6" "bounded_by (5 * 2 ^ 60) a7"
    "bounded_by (5 * 2 ^ 60) a8" "bounded_by (5 * 2 ^ 60) a9"
  shows "\<exists>r0 r1 r2 r3 r4 r5 r6 r7 r8 r9 k.
      FeCombine (word_of_int a0) (word_of_int a1) (word_of_int a2) (word_of_int a3) (word_of_int a4)
        (word_of_int a5) (word_of_int a6) (word_of_int a7) (word_of_int a8) (word_of_int a9)
      = FE (word_of_int r0) (word_of_int r1) (word_of_int r2) (word_of_int r3) (word_of_int r4)
          (word_of_int r5) (word_of_int r6) (word_of_int r7) (word_of_int r8) (word_of_int r9)
    \<and> limbs_within tight r0 r1 r2 r3 r4 r5 r6 r7 r8 r9
    \<and> limb_sum r0 r1 r2 r3 r4 r5 r6 r7 r8 r9 = limb_sum a0 a1 a2 a3 a4 a5 a6 a7 a8 a9 - k * fe_p"
proof -
  note B = assms [unfolded bounded_by_def, simplified]
  define c0 c4 where c: "c0 = rcarry 26 a0" "c4 = rcarry 26 a4"
  note c' = rcarry_26 [of a0, folded c] rcarry_26 [of a4, folded c]
  define b1 b5 b4 where b: "b1 = a1 + c0" "b5 = a5 + c4" "b4 = a4 - 67108864 * c4"
  have R1: "bounded_by (3 * 2 ^ 61) b1" "bounded_by (3 * 2 ^ 61) b5" "bounded_by 33554432 b4"
    using B c' by (simp_all add: bounded_by_def b)
  define c1 c5 where d: "c1 = rcarry 25 b1" "c5 = rcarry 25 b5"
  note d' = rcarry_25 [of b1, folded d] rcarry_25 [of b5, folded d]
  define b2 b6 where e: "b2 = a2 + c1" "b6 = a6 + c5"
  have R2: "bounded_by (3 * 2 ^ 61) b2" "bounded_by (3 * 2 ^ 61) b6" using B R1 d' by (simp_all add: bounded_by_def e)
  define c2 c6 where f: "c2 = rcarry 26 b2" "c6 = rcarry 26 b6"
  note f' = rcarry_26 [of b2, folded f] rcarry_26 [of b6, folded f]
  define b3 b7 where g: "b3 = a3 + c2" "b7 = a7 + c6"
  have R3: "bounded_by (3 * 2 ^ 61) b3" "bounded_by (3 * 2 ^ 61) b7" using B R2 f' by (simp_all add: bounded_by_def g)
  define c3 c7 where h: "c3 = rcarry 25 b3" "c7 = rcarry 25 b7"
  note h' = rcarry_25 [of b3, folded h] rcarry_25 [of b7, folded h]
  define d4 d5 d8 where i: "d4 = b4 + c3" "d5 = b5 - 33554432 * c5" "d8 = a8 + c7"
  have R4: "bounded_by (2 ^ 40) d4" "bounded_by (3 * 2 ^ 61) d8" using B R1 R3 h' by (simp_all add: bounded_by_def i)
  define e4 c8 where j: "e4 = rcarry 26 d4" "c8 = rcarry 26 d8"
  note j' = rcarry_26 [of d4, folded j] rcarry_26 [of d8, folded j]
  define d9 where k: "d9 = a9 + c8"
  have R5: "bounded_by (3 * 2 ^ 61) d9" using B R4 j' by (simp add: bounded_by_def k)
  define c9 where l: "c9 = rcarry 25 d9"
  note l' = rcarry_25 [of d9, folded l]
  define d0 d1 where m: "d0 = a0 - 67108864 * c0 + c9 * 19" "d1 = b1 - 33554432 * c1"
  have R6: "bounded_by (2 ^ 42) d0" using R5 c' l' by (simp add: bounded_by_def m)
  define e0 where n: "e0 = rcarry 26 d0"
  note n' = rcarry_26 [of d0, folded n]
  have pw: "(5 :: int) * 2 ^ 60 \<le> 3 * 2 ^ 61" "(2 :: int) ^ 42 \<le> 3 * 2 ^ 61" "(2 :: int) ^ 40 \<le> 3 * 2 ^ 61"
    by simp_all
  note S = assms [THEN bounded_mono] R1(1,2) R2 R3 R4(1) [THEN bounded_mono] R4(2) R5 R6 [THEN bounded_mono]
  have "FeCombine (word_of_int a0) (word_of_int a1) (word_of_int a2) (word_of_int a3) (word_of_int a4)
        (word_of_int a5) (word_of_int a6) (word_of_int a7) (word_of_int a8) (word_of_int a9)
      = FE (word_of_int (d0 - 67108864 * e0)) (word_of_int (d1 + e0)) (word_of_int (b2 - 67108864 * c2))
          (word_of_int (b3 - 33554432 * c3)) (word_of_int (d4 - 67108864 * e4)) (word_of_int (d5 + e4))
          (word_of_int (b6 - 67108864 * c6)) (word_of_int (b7 - 33554432 * c7)) (word_of_int (d8 - 67108864 * c8))
          (word_of_int (d9 - 33554432 * c9))"
    unfolding FeCombine_def Let_def
    by (simp only: S pw carry_steps carry_wrap narrow_of_int prod.case c [symmetric] b [symmetric] d [symmetric]
        e [symmetric] f [symmetric] g [symmetric] h [symmetric] i [symmetric] j [symmetric] k [symmetric]
        l [symmetric] m [symmetric] n [symmetric])
  moreover have "limbs_within tight (d0 - 67108864 * e0) (d1 + e0) (b2 - 67108864 * c2) (b3 - 33554432 * c3)
      (d4 - 67108864 * e4) (d5 + e4) (b6 - 67108864 * c6) (b7 - 33554432 * c7) (d8 - 67108864 * c8) (d9 - 33554432 * c9)"
    using d' f' h' j' l' n' R4(1) R6 unfolding i(2) m(2) by (simp add: limbs_within_def bounded_by_def tight_def)
  moreover have "limb_sum (d0 - 67108864 * e0) (d1 + e0) (b2 - 67108864 * c2) (b3 - 33554432 * c3)
      (d4 - 67108864 * e4) (d5 + e4) (b6 - 67108864 * c6) (b7 - 33554432 * c7) (d8 - 67108864 * c8) (d9 - 33554432 * c9)
    = limb_sum a0 a1 a2 a3 a4 a5 a6 a7 a8 a9 - c9 * fe_p"
    unfolding b e g i k m by (simp add: limb_sum_def fe_p_def algebra_simps)
  ultimately show ?thesis by blast
qed

lemma FeCombine_correct:
  assumes "bounded_by (5 * 2 ^ 60) a0" "bounded_by (5 * 2 ^ 60) a1" "bounded_by (5 * 2 ^ 60) a2" "bounded_by (5 * 2 ^ 60) a3"
    "bounded_by (5 * 2 ^ 60) a4" "bounded_by (5 * 2 ^ 60) a5" "bounded_by (5 * 2 ^ 60) a6" "bounded_by (5 * 2 ^ 60) a7"
    "bounded_by (5 * 2 ^ 60) a8" "bounded_by (5 * 2 ^ 60) a9"
    and "f = FeCombine (word_of_int a0) (word_of_int a1) (word_of_int a2) (word_of_int a3) (word_of_int a4)
        (word_of_int a5) (word_of_int a6) (word_of_int a7) (word_of_int a8) (word_of_int a9)"
  shows "fe_within tight f \<and> fe_val f mod fe_p = limb_sum a0 a1 a2 a3 a4 a5 a6 a7 a8 a9 mod fe_p"
proof -
  obtain r0 r1 r2 r3 r4 r5 r6 r7 r8 r9 k where r: "f = FE (word_of_int r0) (word_of_int r1) (word_of_int r2)
      (word_of_int r3) (word_of_int r4) (word_of_int r5) (word_of_int r6) (word_of_int r7) (word_of_int r8) (word_of_int r9)"
    "limbs_within tight r0 r1 r2 r3 r4 r5 r6 r7 r8 r9"
    "limb_sum r0 r1 r2 r3 r4 r5 r6 r7 r8 r9 = limb_sum a0 a1 a2 a3 a4 a5 a6 a7 a8 a9 - k * fe_p"
    using FeCombine_int [OF assms(1-10)] assms(11) by metis
  have s: "sint (word_of_int x :: i32) = x" if "bounded_by tight x \<or> bounded_by (2 * tight) x" for x
    using that by (intro sint_of_int_32) (auto simp: bounded_by_def tight_def)
  have "fe_val f = limb_sum r0 r1 r2 r3 r4 r5 r6 r7 r8 r9" "fe_within tight f"
    using r(2) by (simp_all add: r(1) fe_val_def fe_within_def limbs_within_def s)
  with r(3) show ?thesis by (simp add: mod_eq_dvd_iff)
qed

section \<open>Products and squares\<close>

definition FeMul :: "FieldElement \<Rightarrow> FieldElement \<Rightarrow> FieldElement" where
  "FeMul f g =
     (let f0 = int64 (fe0 f); f1 = int64 (fe1 f); f2 = int64 (fe2 f);
          f3 = int64 (fe3 f); f4 = int64 (fe4 f); f5 = int64 (fe5 f);
          f6 = int64 (fe6 f); f7 = int64 (fe7 f); f8 = int64 (fe8 f);
          f9 = int64 (fe9 f); f1_2 = int64 (2 * fe1 f); f3_2 = int64 (2 * fe3 f);
          f5_2 = int64 (2 * fe5 f); f7_2 = int64 (2 * fe7 f); f9_2 = int64 (2 * fe9 f);
          g0 = int64 (fe0 g); g1 = int64 (fe1 g); g2 = int64 (fe2 g);
          g3 = int64 (fe3 g); g4 = int64 (fe4 g); g5 = int64 (fe5 g);
          g6 = int64 (fe6 g); g7 = int64 (fe7 g); g8 = int64 (fe8 g);
          g9 = int64 (fe9 g); g1_19 = int64 (19 * fe1 g); g2_19 = int64 (19 * fe2 g);
          g3_19 = int64 (19 * fe3 g); g4_19 = int64 (19 * fe4 g); g5_19 = int64 (19 * fe5 g);
          g6_19 = int64 (19 * fe6 g); g7_19 = int64 (19 * fe7 g); g8_19 = int64 (19 * fe8 g);
          g9_19 = int64 (19 * fe9 g);
          h0 = f0 * g0 + f1_2 * g9_19 + f2 * g8_19 + f3_2 * g7_19 + f4 * g6_19 + f5_2 * g5_19 + f6 * g4_19 + f7_2 * g3_19 + f8 * g2_19 + f9_2 * g1_19;
          h1 = f0 * g1 + f1 * g0 + f2 * g9_19 + f3 * g8_19 + f4 * g7_19 + f5 * g6_19 + f6 * g5_19 + f7 * g4_19 + f8 * g3_19 + f9 * g2_19;
          h2 = f0 * g2 + f1_2 * g1 + f2 * g0 + f3_2 * g9_19 + f4 * g8_19 + f5_2 * g7_19 + f6 * g6_19 + f7_2 * g5_19 + f8 * g4_19 + f9_2 * g3_19;
          h3 = f0 * g3 + f1 * g2 + f2 * g1 + f3 * g0 + f4 * g9_19 + f5 * g8_19 + f6 * g7_19 + f7 * g6_19 + f8 * g5_19 + f9 * g4_19;
          h4 = f0 * g4 + f1_2 * g3 + f2 * g2 + f3_2 * g1 + f4 * g0 + f5_2 * g9_19 + f6 * g8_19 + f7_2 * g7_19 + f8 * g6_19 + f9_2 * g5_19;
          h5 = f0 * g5 + f1 * g4 + f2 * g3 + f3 * g2 + f4 * g1 + f5 * g0 + f6 * g9_19 + f7 * g8_19 + f8 * g7_19 + f9 * g6_19;
          h6 = f0 * g6 + f1_2 * g5 + f2 * g4 + f3_2 * g3 + f4 * g2 + f5_2 * g1 + f6 * g0 + f7_2 * g9_19 + f8 * g8_19 + f9_2 * g7_19;
          h7 = f0 * g7 + f1 * g6 + f2 * g5 + f3 * g4 + f4 * g3 + f5 * g2 + f6 * g1 + f7 * g0 + f8 * g9_19 + f9 * g8_19;
          h8 = f0 * g8 + f1_2 * g7 + f2 * g6 + f3_2 * g5 + f4 * g4 + f5_2 * g3 + f6 * g2 + f7_2 * g1 + f8 * g0 + f9_2 * g9_19;
          h9 = f0 * g9 + f1 * g8 + f2 * g7 + f3 * g6 + f4 * g5 + f5 * g4 + f6 * g3 + f7 * g2 + f8 * g1 + f9 * g0
      in FeCombine h0 h1 h2 h3 h4 h5 h6 h7 h8 h9)"

definition feSquare ::
  "FieldElement \<Rightarrow> i64 \<times> i64 \<times> i64 \<times> i64 \<times> i64 \<times> i64 \<times> i64 \<times> i64 \<times> i64 \<times> i64" where
  "feSquare f =
     (let f0 = int64 (fe0 f); f1 = int64 (fe1 f); f2 = int64 (fe2 f);
          f3 = int64 (fe3 f); f4 = int64 (fe4 f); f5 = int64 (fe5 f);
          f6 = int64 (fe6 f); f7 = int64 (fe7 f); f8 = int64 (fe8 f);
          f9 = int64 (fe9 f); f0_2 = int64 (2 * fe0 f); f1_2 = int64 (2 * fe1 f);
          f2_2 = int64 (2 * fe2 f); f3_2 = int64 (2 * fe3 f); f4_2 = int64 (2 * fe4 f);
          f5_2 = int64 (2 * fe5 f); f6_2 = int64 (2 * fe6 f); f7_2 = int64 (2 * fe7 f);
          f5_38 = 38 * f5; f6_19 = 19 * f6; f7_38 = 38 * f7; f8_19 = 19 * f8; f9_38 = 38 * f9;
          h0 = f0 * f0 + f1_2 * f9_38 + f2_2 * f8_19 + f3_2 * f7_38 + f4_2 * f6_19 + f5 * f5_38;
          h1 = f0_2 * f1 + f2 * f9_38 + f3_2 * f8_19 + f4 * f7_38 + f5_2 * f6_19;
          h2 = f0_2 * f2 + f1_2 * f1 + f3_2 * f9_38 + f4_2 * f8_19 + f5_2 * f7_38 + f6 * f6_19;
          h3 = f0_2 * f3 + f1_2 * f2 + f4 * f9_38 + f5_2 * f8_19 + f6 * f7_38;
          h4 = f0_2 * f4 + f1_2 * f3_2 + f2 * f2 + f5_2 * f9_38 + f6_2 * f8_19 + f7 * f7_38;
          h5 = f0_2 * f5 + f1_2 * f4 + f2_2 * f3 + f6 * f9_38 + f7_2 * f8_19;
          h6 = f0_2 * f6 + f1_2 * f5_2 + f2_2 * f4 + f3_2 * f3 + f7_2 * f9_38 + f8 * f8_19;
          h7 = f0_2 * f7 + f1_2 * f6 + f2_2 * f5 + f3_2 * f4 + f8 * f9_38;
          h8 = f0_2 * f8 + f1_2 * f7_2 + f2_2 * f6 + f3_2 * f5_2 + f4 * f4 + f9 * f9_38;
          h9 = f0_2 * f9 + f1_2 * f8 + f2_2 * f7 + f3_2 * f6 + f4_2 * f5
      in (h0, h1, h2, h3, h4, h5, h6, h7, h8, h9))"

definition FeSquare :: "FieldElement \<Rightarrow> FieldElement" where
  "FeSquare f = (let (h0, h1, h2, h3, h4, h5, h6, h7, h8, h9) = feSquare f in FeCombine h0 h1 h2 h3 h4 h5 h6 h7 h8 h9)"

definition FeSquare2 :: "FieldElement \<Rightarrow> FieldElement" where
  "FeSquare2 f =
     (let (h0, h1, h2, h3, h4, h5, h6, h7, h8, h9) = feSquare f
      in FeCombine (h0 + h0) (h1 + h1) (h2 + h2) (h3 + h3) (h4 + h4) (h5 + h5) (h6 + h6) (h7 + h7) (h8 + h8) (h9 + h9))"

text \<open>
  The ten limbs of a product as integers: limb \<open>i\<close> of \<open>f\<close> meets limb \<open>k - i\<close> of \<open>g\<close>, twice when both
  have 25 bits, and times 19 when the product is wrapped around.
\<close>

definition prod0 :: "FieldElement \<Rightarrow> FieldElement \<Rightarrow> int" where
  "prod0 f g = sint (fe0 f) * sint (fe0 g) + (2 * sint (fe1 f)) * (19 * sint (fe9 g)) + sint (fe2 f) * (19 * sint (fe8 g)) + (2 * sint (fe3 f)) * (19 * sint (fe7 g)) + sint (fe4 f) * (19 * sint (fe6 g))
     + (2 * sint (fe5 f)) * (19 * sint (fe5 g)) + sint (fe6 f) * (19 * sint (fe4 g)) + (2 * sint (fe7 f)) * (19 * sint (fe3 g)) + sint (fe8 f) * (19 * sint (fe2 g)) + (2 * sint (fe9 f)) * (19 * sint (fe1 g))"

definition prod1 :: "FieldElement \<Rightarrow> FieldElement \<Rightarrow> int" where
  "prod1 f g = sint (fe0 f) * sint (fe1 g) + sint (fe1 f) * sint (fe0 g) + sint (fe2 f) * (19 * sint (fe9 g)) + sint (fe3 f) * (19 * sint (fe8 g)) + sint (fe4 f) * (19 * sint (fe7 g))
     + sint (fe5 f) * (19 * sint (fe6 g)) + sint (fe6 f) * (19 * sint (fe5 g)) + sint (fe7 f) * (19 * sint (fe4 g)) + sint (fe8 f) * (19 * sint (fe3 g)) + sint (fe9 f) * (19 * sint (fe2 g))"

definition prod2 :: "FieldElement \<Rightarrow> FieldElement \<Rightarrow> int" where
  "prod2 f g = sint (fe0 f) * sint (fe2 g) + (2 * sint (fe1 f)) * sint (fe1 g) + sint (fe2 f) * sint (fe0 g) + (2 * sint (fe3 f)) * (19 * sint (fe9 g)) + sint (fe4 f) * (19 * sint (fe8 g))
     + (2 * sint (fe5 f)) * (19 * sint (fe7 g)) + sint (fe6 f) * (19 * sint (fe6 g)) + (2 * sint (fe7 f)) * (19 * sint (fe5 g)) + sint (fe8 f) * (19 * sint (fe4 g)) + (2 * sint (fe9 f)) * (19 * sint (fe3 g))"

definition prod3 :: "FieldElement \<Rightarrow> FieldElement \<Rightarrow> int" where
  "prod3 f g = sint (fe0 f) * sint (fe3 g) + sint (fe1 f) * sint (fe2 g) + sint (fe2 f) * sint (fe1 g) + sint (fe3 f) * sint (fe0 g) + sint (fe4 f) * (19 * sint (fe9 g))
     + sint (fe5 f) * (19 * sint (fe8 g)) + sint (fe6 f) * (19 * sint (fe7 g)) + sint (fe7 f) * (19 * sint (fe6 g)) + sint (fe8 f) * (19 * sint (fe5 g)) + sint (fe9 f) * (19 * sint (fe4 g))"

definition prod4 :: "FieldElement \<Rightarrow> FieldElement \<Rightarrow> int" where
  "prod4 f g = sint (fe0 f) * sint (fe4 g) + (2 * sint (fe1 f)) * sint (fe3 g) + sint (fe2 f) * sint (fe2 g) + (2 * sint (fe3 f)) * sint (fe1 g) + sint (fe4 f) * sint (fe0 g)
     + (2 * sint (fe5 f)) * (19 * sint (fe9 g)) + sint (fe6 f) * (19 * sint (fe8 g)) + (2 * sint (fe7 f)) * (19 * sint (fe7 g)) + sint (fe8 f) * (19 * sint (fe6 g)) + (2 * sint (fe9 f)) * (19 * sint (fe5 g))"

definition prod5 :: "FieldElement \<Rightarrow> FieldElement \<Rightarrow> int" where
  "prod5 f g = sint (fe0 f) * sint (fe5 g) + sint (fe1 f) * sint (fe4 g) + sint (fe2 f) * sint (fe3 g) + sint (fe3 f) * sint (fe2 g) + sint (fe4 f) * sint (fe1 g)
     + sint (fe5 f) * sint (fe0 g) + sint (fe6 f) * (19 * sint (fe9 g)) + sint (fe7 f) * (19 * sint (fe8 g)) + sint (fe8 f) * (19 * sint (fe7 g)) + sint (fe9 f) * (19 * sint (fe6 g))"

definition prod6 :: "FieldElement \<Rightarrow> FieldElement \<Rightarrow> int" where
  "prod6 f g = sint (fe0 f) * sint (fe6 g) + (2 * sint (fe1 f)) * sint (fe5 g) + sint (fe2 f) * sint (fe4 g) + (2 * sint (fe3 f)) * sint (fe3 g) + sint (fe4 f) * sint (fe2 g)
     + (2 * sint (fe5 f)) * sint (fe1 g) + sint (fe6 f) * sint (fe0 g) + (2 * sint (fe7 f)) * (19 * sint (fe9 g)) + sint (fe8 f) * (19 * sint (fe8 g)) + (2 * sint (fe9 f)) * (19 * sint (fe7 g))"

definition prod7 :: "FieldElement \<Rightarrow> FieldElement \<Rightarrow> int" where
  "prod7 f g = sint (fe0 f) * sint (fe7 g) + sint (fe1 f) * sint (fe6 g) + sint (fe2 f) * sint (fe5 g) + sint (fe3 f) * sint (fe4 g) + sint (fe4 f) * sint (fe3 g)
     + sint (fe5 f) * sint (fe2 g) + sint (fe6 f) * sint (fe1 g) + sint (fe7 f) * sint (fe0 g) + sint (fe8 f) * (19 * sint (fe9 g)) + sint (fe9 f) * (19 * sint (fe8 g))"

definition prod8 :: "FieldElement \<Rightarrow> FieldElement \<Rightarrow> int" where
  "prod8 f g = sint (fe0 f) * sint (fe8 g) + (2 * sint (fe1 f)) * sint (fe7 g) + sint (fe2 f) * sint (fe6 g) + (2 * sint (fe3 f)) * sint (fe5 g) + sint (fe4 f) * sint (fe4 g)
     + (2 * sint (fe5 f)) * sint (fe3 g) + sint (fe6 f) * sint (fe2 g) + (2 * sint (fe7 f)) * sint (fe1 g) + sint (fe8 f) * sint (fe0 g) + (2 * sint (fe9 f)) * (19 * sint (fe9 g))"

definition prod9 :: "FieldElement \<Rightarrow> FieldElement \<Rightarrow> int" where
  "prod9 f g = sint (fe0 f) * sint (fe9 g) + sint (fe1 f) * sint (fe8 g) + sint (fe2 f) * sint (fe7 g) + sint (fe3 f) * sint (fe6 g) + sint (fe4 f) * sint (fe5 g)
     + sint (fe5 f) * sint (fe4 g) + sint (fe6 f) * sint (fe3 g) + sint (fe7 f) * sint (fe2 g) + sint (fe8 f) * sint (fe1 g) + sint (fe9 f) * sint (fe0 g)"

lemmas prod_defs = prod0_def prod1_def prod2_def prod3_def prod4_def prod5_def prod6_def prod7_def prod8_def prod9_def

lemma prod_value: "\<exists>k. limb_sum (prod0 f g) (prod1 f g) (prod2 f g) (prod3 f g) (prod4 f g) (prod5 f g) (prod6 f g) (prod7 f g) (prod8 f g) (prod9 f g) = fe_val f * fe_val g + k * fe_p"
proof (rule exI)
  show "limb_sum (prod0 f g) (prod1 f g) (prod2 f g) (prod3 f g) (prod4 f g) (prod5 f g) (prod6 f g) (prod7 f g) (prod8 f g) (prod9 f g) = fe_val f * fe_val g +
     - (2 * sint (fe1 f) * sint (fe9 g) * 2 ^ 0 + 1 * sint (fe2 f) * sint (fe8 g) * 2 ^ 0 + 1 * sint (fe2 f) * sint (fe9 g) * 2 ^ 26
      + 2 * sint (fe3 f) * sint (fe7 g) * 2 ^ 0 + 1 * sint (fe3 f) * sint (fe8 g) * 2 ^ 26 + 2 * sint (fe3 f) * sint (fe9 g) * 2 ^ 51
      + 1 * sint (fe4 f) * sint (fe6 g) * 2 ^ 0 + 1 * sint (fe4 f) * sint (fe7 g) * 2 ^ 26 + 1 * sint (fe4 f) * sint (fe8 g) * 2 ^ 51
      + 1 * sint (fe4 f) * sint (fe9 g) * 2 ^ 77 + 2 * sint (fe5 f) * sint (fe5 g) * 2 ^ 0 + 1 * sint (fe5 f) * sint (fe6 g) * 2 ^ 26
      + 2 * sint (fe5 f) * sint (fe7 g) * 2 ^ 51 + 1 * sint (fe5 f) * sint (fe8 g) * 2 ^ 77 + 2 * sint (fe5 f) * sint (fe9 g) * 2 ^ 102
      + 1 * sint (fe6 f) * sint (fe4 g) * 2 ^ 0 + 1 * sint (fe6 f) * sint (fe5 g) * 2 ^ 26 + 1 * sint (fe6 f) * sint (fe6 g) * 2 ^ 51
      + 1 * sint (fe6 f) * sint (fe7 g) * 2 ^ 77 + 1 * sint (fe6 f) * sint (fe8 g) * 2 ^ 102 + 1 * sint (fe6 f) * sint (fe9 g) * 2 ^ 128
      + 2 * sint (fe7 f) * sint (fe3 g) * 2 ^ 0 + 1 * sint (fe7 f) * sint (fe4 g) * 2 ^ 26 + 2 * sint (fe7 f) * sint (fe5 g) * 2 ^ 51
      + 1 * sint (fe7 f) * sint (fe6 g) * 2 ^ 77 + 2 * sint (fe7 f) * sint (fe7 g) * 2 ^ 102 + 1 * sint (fe7 f) * sint (fe8 g) * 2 ^ 128
      + 2 * sint (fe7 f) * sint (fe9 g) * 2 ^ 153 + 1 * sint (fe8 f) * sint (fe2 g) * 2 ^ 0 + 1 * sint (fe8 f) * sint (fe3 g) * 2 ^ 26
      + 1 * sint (fe8 f) * sint (fe4 g) * 2 ^ 51 + 1 * sint (fe8 f) * sint (fe5 g) * 2 ^ 77 + 1 * sint (fe8 f) * sint (fe6 g) * 2 ^ 102
      + 1 * sint (fe8 f) * sint (fe7 g) * 2 ^ 128 + 1 * sint (fe8 f) * sint (fe8 g) * 2 ^ 153 + 1 * sint (fe8 f) * sint (fe9 g) * 2 ^ 179
      + 2 * sint (fe9 f) * sint (fe1 g) * 2 ^ 0 + 1 * sint (fe9 f) * sint (fe2 g) * 2 ^ 26 + 2 * sint (fe9 f) * sint (fe3 g) * 2 ^ 51
      + 1 * sint (fe9 f) * sint (fe4 g) * 2 ^ 77 + 2 * sint (fe9 f) * sint (fe5 g) * 2 ^ 102 + 1 * sint (fe9 f) * sint (fe6 g) * 2 ^ 128
      + 2 * sint (fe9 f) * sint (fe7 g) * 2 ^ 153 + 1 * sint (fe9 f) * sint (fe8 g) * 2 ^ 179 + 2 * sint (fe9 f) * sint (fe9 g) * 2 ^ 204) * fe_p"
    unfolding limb_sum_def fe_val_def prod_defs fe_p_def by (simp add: algebra_simps)
qed

lemma bounded_dot:
  assumes "bounded_by X x0" "bounded_by X x1" "bounded_by X x2" "bounded_by X x3" "bounded_by X x4"
    "bounded_by X x5" "bounded_by X x6" "bounded_by X x7" "bounded_by X x8" "bounded_by X x9"
    "bounded_by Y y0" "bounded_by Y y1" "bounded_by Y y2" "bounded_by Y y3" "bounded_by Y y4"
    "bounded_by Y y5" "bounded_by Y y6" "bounded_by Y y7" "bounded_by Y y8" "bounded_by Y y9"
  shows "bounded_by (10 * (X * Y)) (x0 * y0 + x1 * y1 + x2 * y2 + x3 * y3 + x4 * y4 + x5 * y5 + x6 * y6 + x7 * y7 + x8 * y8 + x9 * y9)"
proof -
  have p: "bounded_by (X * Y) (x * y)" if "bounded_by X x" "bounded_by Y y" for x y
    using bounded_mult [OF that order_refl] .
  note ps = p [OF assms(1,11)] p [OF assms(2,12)] p [OF assms(3,13)] p [OF assms(4,14)] p [OF assms(5,15)]
    p [OF assms(6,16)] p [OF assms(7,17)] p [OF assms(8,18)] p [OF assms(9,19)] p [OF assms(10,20)]
  from ps show ?thesis unfolding bounded_by_def by linarith
qed

lemma prod_bounds:
  assumes "fe_within B f" and "fe_within B g" and "0 \<le> B"
  shows "bounded_by (10 * ((2 * B) * (38 * B))) (prod0 f g)" "bounded_by (10 * ((2 * B) * (38 * B))) (prod1 f g)" "bounded_by (10 * ((2 * B) * (38 * B))) (prod2 f g)" "bounded_by (10 * ((2 * B) * (38 * B))) (prod3 f g)" "bounded_by (10 * ((2 * B) * (38 * B))) (prod4 f g)" "bounded_by (10 * ((2 * B) * (38 * B))) (prod5 f g)" "bounded_by (10 * ((2 * B) * (38 * B))) (prod6 f g)" "bounded_by (10 * ((2 * B) * (38 * B))) (prod7 f g)" "bounded_by (10 * ((2 * B) * (38 * B))) (prod8 f g)" "bounded_by (10 * ((2 * B) * (38 * B))) (prod9 f g)"
proof -
  have s: "bounded_by (2 * B) (sint x) \<and> bounded_by (38 * B) (sint x) \<and> bounded_by (38 * B) (19 * sint x)"
    if "bounded_by (2 * B) (sint x)" for x :: i32 using that assms(3) by (simp add: bounded_by_def)
  have t: "bounded_by (2 * B) (sint x) \<and> bounded_by (2 * B) (2 * sint x) \<and> bounded_by (38 * B) (sint x) \<and> bounded_by (38 * B) (19 * sint x)"
    if "bounded_by B (sint x)" for x :: i32 using that assms(3) by (simp add: bounded_by_def)
  note fg = assms(1,2) [unfolded fe_within_def limbs_within_def]
  show "bounded_by (10 * ((2 * B) * (38 * B))) (prod0 f g)"
    unfolding prod0_def by (rule bounded_dot) (use fg s t in simp_all)
  show "bounded_by (10 * ((2 * B) * (38 * B))) (prod1 f g)"
    unfolding prod1_def by (rule bounded_dot) (use fg s t in simp_all)
  show "bounded_by (10 * ((2 * B) * (38 * B))) (prod2 f g)"
    unfolding prod2_def by (rule bounded_dot) (use fg s t in simp_all)
  show "bounded_by (10 * ((2 * B) * (38 * B))) (prod3 f g)"
    unfolding prod3_def by (rule bounded_dot) (use fg s t in simp_all)
  show "bounded_by (10 * ((2 * B) * (38 * B))) (prod4 f g)"
    unfolding prod4_def by (rule bounded_dot) (use fg s t in simp_all)
  show "bounded_by (10 * ((2 * B) * (38 * B))) (prod5 f g)"
    unfolding prod5_def by (rule bounded_dot) (use fg s t in simp_all)
  show "bounded_by (10 * ((2 * B) * (38 * B))) (prod6 f g)"
    unfolding prod6_def by (rule bounded_dot) (use fg s t in simp_all)
  show "bounded_by (10 * ((2 * B) * (38 * B))) (prod7 f g)"
    unfolding prod7_def by (rule bounded_dot) (use fg s t in simp_all)
  show "bounded_by (10 * ((2 * B) * (38 * B))) (prod8 f g)"
    unfolding prod8_def by (rule bounded_dot) (use fg s t in simp_all)
  show "bounded_by (10 * ((2 * B) * (38 * B))) (prod9 f g)"
    unfolding prod9_def by (rule bounded_dot) (use fg s t in simp_all)
qed

text \<open>The bound \<open>1.65 * 2 ^ 25\<close> of a factor leaves room for the 32-bit multiples and the 64-bit sums.\<close>

lemma sint_numeral_times:
  assumes "bounded_by A (sint x)" and "numeral k * A < 2 ^ 31"
  shows "sint (numeral k * x :: i32) = numeral k * sint x"
  using sint_times_32 [of A x "numeral k"] assms by simp

lemma loose_multiples:
  assumes "fe_within loose f"
  shows "sint (2 * fe0 f) = 2 * sint (fe0 f)" "sint (2 * fe1 f) = 2 * sint (fe1 f)" "sint (2 * fe2 f) = 2 * sint (fe2 f)"
    "sint (2 * fe3 f) = 2 * sint (fe3 f)" "sint (2 * fe4 f) = 2 * sint (fe4 f)" "sint (2 * fe5 f) = 2 * sint (fe5 f)"
    "sint (2 * fe6 f) = 2 * sint (fe6 f)" "sint (2 * fe7 f) = 2 * sint (fe7 f)" "sint (2 * fe9 f) = 2 * sint (fe9 f)"
    "sint (19 * fe1 f) = 19 * sint (fe1 f)" "sint (19 * fe2 f) = 19 * sint (fe2 f)" "sint (19 * fe3 f) = 19 * sint (fe3 f)"
    "sint (19 * fe4 f) = 19 * sint (fe4 f)" "sint (19 * fe5 f) = 19 * sint (fe5 f)" "sint (19 * fe6 f) = 19 * sint (fe6 f)"
    "sint (19 * fe7 f) = 19 * sint (fe7 f)" "sint (19 * fe8 f) = 19 * sint (fe8 f)" "sint (19 * fe9 f) = 19 * sint (fe9 f)"
proof -
  have "loose < 2 ^ 31" "2 * loose < 2 ^ 31" "2 * (2 * loose) < 2 ^ 31" "19 * loose < 2 ^ 31" "19 * (2 * loose) < 2 ^ 31"
    by (simp_all add: loose_def)
  with assms show "sint (2 * fe0 f) = 2 * sint (fe0 f)" "sint (2 * fe1 f) = 2 * sint (fe1 f)" "sint (2 * fe2 f) = 2 * sint (fe2 f)"
    "sint (2 * fe3 f) = 2 * sint (fe3 f)" "sint (2 * fe4 f) = 2 * sint (fe4 f)" "sint (2 * fe5 f) = 2 * sint (fe5 f)"
    "sint (2 * fe6 f) = 2 * sint (fe6 f)" "sint (2 * fe7 f) = 2 * sint (fe7 f)" "sint (2 * fe9 f) = 2 * sint (fe9 f)"
    "sint (19 * fe1 f) = 19 * sint (fe1 f)" "sint (19 * fe2 f) = 19 * sint (fe2 f)" "sint (19 * fe3 f) = 19 * sint (fe3 f)"
    "sint (19 * fe4 f) = 19 * sint (fe4 f)" "sint (19 * fe5 f) = 19 * sint (fe5 f)" "sint (19 * fe6 f) = 19 * sint (fe6 f)"
    "sint (19 * fe7 f) = 19 * sint (fe7 f)" "sint (19 * fe8 f) = 19 * sint (fe8 f)" "sint (19 * fe9 f) = 19 * sint (fe9 f)"
    unfolding fe_within_def limbs_within_def by (blast intro: sint_numeral_times)+
qed

lemma FeMul_words:
  assumes "fe_within loose f" and "fe_within loose g"
  shows "FeMul f g = FeCombine (word_of_int (prod0 f g)) (word_of_int (prod1 f g)) (word_of_int (prod2 f g))
    (word_of_int (prod3 f g)) (word_of_int (prod4 f g)) (word_of_int (prod5 f g)) (word_of_int (prod6 f g))
    (word_of_int (prod7 f g)) (word_of_int (prod8 f g)) (word_of_int (prod9 f g))"
  unfolding FeMul_def Let_def prod_defs of_int_add of_int_mult
  by (simp only: scast_sint loose_multiples [OF assms(1)] loose_multiples [OF assms(2)] of_int_mult)

text \<open>The square uses each mixed product once, doubled.\<close>

lemma feSquare_words:
  assumes "fe_within loose f"
  shows "feSquare f = (word_of_int (prod0 f f), word_of_int (prod1 f f), word_of_int (prod2 f f),
    word_of_int (prod3 f f), word_of_int (prod4 f f), word_of_int (prod5 f f), word_of_int (prod6 f f),
    word_of_int (prod7 f f), word_of_int (prod8 f f), word_of_int (prod9 f f))"
  unfolding feSquare_def Let_def prod_defs
  by (simp only: scast_sint loose_multiples [OF assms] of_int_mult of_int_add) (simp add: algebra_simps)

lemma FeMul_within:
  assumes "fe_within loose f" and "fe_within loose g"
  shows "fe_within tight (FeMul f g) \<and> fe_val (FeMul f g) mod fe_p = (fe_val f * fe_val g) mod fe_p"
proof -
  have le: "10 * ((2 * loose) * (38 * loose)) \<le> 5 * 2 ^ 60" "0 \<le> loose" by (simp_all add: loose_def)
  note b = prod_bounds [OF assms le(2), THEN bounded_mono, OF le(1)]
  obtain k where "limb_sum (prod0 f g) (prod1 f g) (prod2 f g) (prod3 f g) (prod4 f g) (prod5 f g) (prod6 f g)
      (prod7 f g) (prod8 f g) (prod9 f g) = fe_val f * fe_val g + k * fe_p"
    using prod_value by blast
  with FeCombine_correct [OF b FeMul_words [OF assms]] show ?thesis by simp
qed

lemma FeSquare_eq:
  assumes "fe_within loose f"
  shows "FeSquare f = FeMul f f"
  by (simp add: FeSquare_def feSquare_words [OF assms] FeMul_words [OF assms assms])

lemma FeSquare2_within:
  assumes "fe_within loose f"
  shows "fe_within tight (FeSquare2 f) \<and> fe_val (FeSquare2 f) mod fe_p = (2 * (fe_val f * fe_val f)) mod fe_p"
proof -
  have le: "2 * (10 * ((2 * loose) * (38 * loose))) \<le> 5 * 2 ^ 60" "0 \<le> loose" by (simp_all add: loose_def)
  have two: "bounded_by (5 * 2 ^ 60) (2 * x)" if "bounded_by (10 * ((2 * loose) * (38 * loose))) x" for x
    using that le(1) unfolding bounded_by_def by linarith
  note b = prod_bounds [OF assms assms le(2), THEN two]
  have w: "FeSquare2 f = FeCombine (word_of_int (2 * prod0 f f)) (word_of_int (2 * prod1 f f)) (word_of_int (2 * prod2 f f))
    (word_of_int (2 * prod3 f f)) (word_of_int (2 * prod4 f f)) (word_of_int (2 * prod5 f f)) (word_of_int (2 * prod6 f f))
    (word_of_int (2 * prod7 f f)) (word_of_int (2 * prod8 f f)) (word_of_int (2 * prod9 f f))"
    by (simp only: FeSquare2_def feSquare_words [OF assms] Let_def prod.case mult_2 of_int_add)
  obtain k where k: "limb_sum (prod0 f f) (prod1 f f) (prod2 f f) (prod3 f f) (prod4 f f) (prod5 f f) (prod6 f f)
      (prod7 f f) (prod8 f f) (prod9 f f) = fe_val f * fe_val f + k * fe_p"
    using prod_value by blast
  then have "limb_sum (2 * prod0 f f) (2 * prod1 f f) (2 * prod2 f f) (2 * prod3 f f) (2 * prod4 f f)
      (2 * prod5 f f) (2 * prod6 f f) (2 * prod7 f f) (2 * prod8 f f) (2 * prod9 f f) = 2 * (fe_val f * fe_val f) + 2 * k * fe_p"
    by (simp add: limb_sum_def algebra_simps)
  with FeCombine_correct [OF b w] show ?thesis by simp
qed

text \<open>
  C28: within the documented bounds, even limbs at most \<open>1.65 * 2 ^ 26\<close> and odd ones at most
  \<open>1.65 * 2 ^ 25\<close> in absolute value, the products of the field are right although they are computed in
  wrapping 32-bit and 64-bit integers: \<open>FeMul\<close> gives a reduced element that stands for the product modulo
  \<open>2 ^ 255 - 19\<close>, \<open>FeSquare\<close> gives limb for limb what \<open>FeMul\<close> of the element with itself gives, and
  \<open>FeSquare2\<close> gives twice the square.
\<close>

theorem field_products:
  assumes "fe_within loose f" and "fe_within loose g"
  shows "fe_within tight (FeMul f g) \<and> fe_val (FeMul f g) mod fe_p = (fe_val f * fe_val g) mod fe_p
    \<and> FeSquare f = FeMul f f
    \<and> fe_within tight (FeSquare2 f) \<and> fe_val (FeSquare2 f) mod fe_p = (2 * (fe_val f * fe_val f)) mod fe_p"
  using FeMul_within [OF assms] FeSquare_eq [OF assms(1)] FeSquare2_within [OF assms(1)] by blast

theorem field_products_witness:
  "fe_val (FeMul (FE (- 5) 7 0 0 0 0 0 0 0 55000000) (FE 3 0 0 0 0 0 0 0 0 55000000)) mod fe_p
     = ((- 5 + 2 ^ 26 * 7 + 2 ^ 230 * 55000000) * (3 + 2 ^ 230 * 55000000)) mod fe_p"
proof -
  let ?f = "FE (- 5) 7 0 0 0 0 0 0 0 55000000" let ?g = "FE 3 0 0 0 0 0 0 0 0 55000000"
  have "fe_within loose ?f" "fe_within loose ?g"
    by (simp_all add: fe_within_def limbs_within_def bounded_by_def loose_def)
  from field_products [OF this] show ?thesis by (simp add: fe_val_def limb_sum_def)
qed

end
