(* ===== verification/Field_Power.thy ===== *)
theory Field_Power
  imports Field25519
begin

text \<open>
  The two addition chains of the field (\<open>FeInvert\<close> and \<open>fePow22523\<close> of
  \<open>src/vrf/edwards25519/edwards25519.go\<close>) and the powers they compute.
\<close>

section \<open>The chains\<close>

text \<open>The loop \<open>for i = 1; i < n; i++ { FeSquare(&t, &t) }\<close> makes \<open>n - 1\<close> turns.\<close>

primrec sq_loop :: "nat \<Rightarrow> FieldElement \<Rightarrow> FieldElement" where
  "sq_loop 0 t = t"
| "sq_loop (Suc n) t = sq_loop n (FeSquare t)"

definition FeInvert :: "FieldElement \<Rightarrow> FieldElement" where
  "FeInvert z =
     (let t0 = FeSquare z;
          t1 = FeSquare t0;
          t1 = sq_loop (2 - 1) t1;
          t1 = FeMul z t1;
          t0 = FeMul t0 t1;
          t2 = FeSquare t0;
          t1 = FeMul t1 t2;
          t2 = FeSquare t1;
          t2 = sq_loop (5 - 1) t2;
          t1 = FeMul t2 t1;
          t2 = FeSquare t1;
          t2 = sq_loop (10 - 1) t2;
          t2 = FeMul t2 t1;
          t3 = FeSquare t2;
          t3 = sq_loop (20 - 1) t3;
          t2 = FeMul t3 t2;
          t2 = FeSquare t2;
          t2 = sq_loop (10 - 1) t2;
          t1 = FeMul t2 t1;
          t2 = FeSquare t1;
          t2 = sq_loop (50 - 1) t2;
          t2 = FeMul t2 t1;
          t3 = FeSquare t2;
          t3 = sq_loop (100 - 1) t3;
          t2 = FeMul t3 t2;
          t2 = FeSquare t2;
          t2 = sq_loop (50 - 1) t2;
          t1 = FeMul t2 t1;
          t1 = FeSquare t1;
          t1 = sq_loop (5 - 1) t1
      in FeMul t1 t0)"

definition fePow22523 :: "FieldElement \<Rightarrow> FieldElement" where
  "fePow22523 z =
     (let t0 = FeSquare z;
          t0 = sq_loop (1 - 1) t0;
          t1 = FeSquare t0;
          t1 = sq_loop (2 - 1) t1;
          t1 = FeMul z t1;
          t0 = FeMul t0 t1;
          t0 = FeSquare t0;
          t0 = sq_loop (1 - 1) t0;
          t0 = FeMul t1 t0;
          t1 = FeSquare t0;
          t1 = sq_loop (5 - 1) t1;
          t0 = FeMul t1 t0;
          t1 = FeSquare t0;
          t1 = sq_loop (10 - 1) t1;
          t1 = FeMul t1 t0;
          t2 = FeSquare t1;
          t2 = sq_loop (20 - 1) t2;
          t1 = FeMul t2 t1;
          t1 = FeSquare t1;
          t1 = sq_loop (10 - 1) t1;
          t0 = FeMul t1 t0;
          t1 = FeSquare t0;
          t1 = sq_loop (50 - 1) t1;
          t1 = FeMul t1 t0;
          t2 = FeSquare t1;
          t2 = sq_loop (100 - 1) t2;
          t1 = FeMul t2 t1;
          t1 = FeSquare t1;
          t1 = sq_loop (50 - 1) t1;
          t0 = FeMul t1 t0;
          t0 = FeSquare t0;
          t0 = sq_loop (2 - 1) t0
      in FeMul t0 z)"

section \<open>Powers\<close>

text \<open>\<open>f\<close> is a possible factor and holds the \<open>n\<close>-th power of \<open>z\<close>.\<close>

definition fe_power :: "FieldElement \<Rightarrow> nat \<Rightarrow> FieldElement \<Rightarrow> bool" where
  "fe_power z n f \<longleftrightarrow> fe_within loose f \<and> fe_val f mod fe_p = fe_val z ^ n mod fe_p"

lemma tight_loose: "fe_within tight f \<Longrightarrow> fe_within loose f"
  by (erule fe_within_mono) (simp add: tight_def loose_def)

lemma fe_power_1: "fe_within loose z \<Longrightarrow> fe_power z 1 z"
  by (simp add: fe_power_def)

lemma fe_power_mul:
  assumes "fe_power z m f" and "fe_power z n g"
  shows "fe_power z (m + n) (FeMul f g)"
proof -
  note r = FeMul_within [of f g]
  have "fe_val f * fe_val g mod fe_p = fe_val z ^ m * fe_val z ^ n mod fe_p"
    using assms by (intro mod_mult_cong) (simp_all add: fe_power_def)
  with assms r tight_loose show ?thesis by (simp add: fe_power_def power_add)
qed

lemma fe_power_sq: "fe_power z n f \<Longrightarrow> fe_power z (2 * n) (FeSquare f)"
  using fe_power_mul [of z n f n f] FeSquare_eq [of f] by (simp add: fe_power_def mult_2)

lemma fe_power_loop: "fe_power z n f \<Longrightarrow> fe_power z (2 ^ k * n) (sq_loop k f)"
  by (induction k arbitrary: n f) (auto dest: fe_power_sq simp: mult.assoc mult.left_commute [of 2])

lemma FeInvert_power:
  assumes "fe_within loose z"
  shows "fe_power z (2 ^ 255 - 21) (FeInvert z)"
proof -
  note z1 = fe_power_1 [OF assms]
  note a1 = fe_power_sq [OF z1]
  note a2 = fe_power_sq [OF a1]
  note a3 = fe_power_loop [OF a2, of "2 - 1"]
  note a4 = fe_power_mul [OF z1 a3]
  note a5 = fe_power_mul [OF a1 a4]
  note a6 = fe_power_sq [OF a5]
  note a7 = fe_power_mul [OF a4 a6]
  note a8 = fe_power_sq [OF a7]
  note a9 = fe_power_loop [OF a8, of "5 - 1"]
  note a10 = fe_power_mul [OF a9 a7]
  note a11 = fe_power_sq [OF a10]
  note a12 = fe_power_loop [OF a11, of "10 - 1"]
  note a13 = fe_power_mul [OF a12 a10]
  note a14 = fe_power_sq [OF a13]
  note a15 = fe_power_loop [OF a14, of "20 - 1"]
  note a16 = fe_power_mul [OF a15 a13]
  note a17 = fe_power_sq [OF a16]
  note a18 = fe_power_loop [OF a17, of "10 - 1"]
  note a19 = fe_power_mul [OF a18 a10]
  note a20 = fe_power_sq [OF a19]
  note a21 = fe_power_loop [OF a20, of "50 - 1"]
  note a22 = fe_power_mul [OF a21 a19]
  note a23 = fe_power_sq [OF a22]
  note a24 = fe_power_loop [OF a23, of "100 - 1"]
  note a25 = fe_power_mul [OF a24 a22]
  note a26 = fe_power_sq [OF a25]
  note a27 = fe_power_loop [OF a26, of "50 - 1"]
  note a28 = fe_power_mul [OF a27 a19]
  note a29 = fe_power_sq [OF a28]
  note a30 = fe_power_loop [OF a29, of "5 - 1"]
  note a31 = fe_power_mul [OF a30 a5]
  from a31 show ?thesis unfolding FeInvert_def Let_def by simp
qed

lemma fePow22523_power:
  assumes "fe_within loose z"
  shows "fe_power z (2 ^ 252 - 3) (fePow22523 z)"
proof -
  note z1 = fe_power_1 [OF assms]
  note a1 = fe_power_sq [OF z1]
  note a2 = fe_power_loop [OF a1, of "1 - 1"]
  note a3 = fe_power_sq [OF a2]
  note a4 = fe_power_loop [OF a3, of "2 - 1"]
  note a5 = fe_power_mul [OF z1 a4]
  note a6 = fe_power_mul [OF a2 a5]
  note a7 = fe_power_sq [OF a6]
  note a8 = fe_power_loop [OF a7, of "1 - 1"]
  note a9 = fe_power_mul [OF a5 a8]
  note a10 = fe_power_sq [OF a9]
  note a11 = fe_power_loop [OF a10, of "5 - 1"]
  note a12 = fe_power_mul [OF a11 a9]
  note a13 = fe_power_sq [OF a12]
  note a14 = fe_power_loop [OF a13, of "10 - 1"]
  note a15 = fe_power_mul [OF a14 a12]
  note a16 = fe_power_sq [OF a15]
  note a17 = fe_power_loop [OF a16, of "20 - 1"]
  note a18 = fe_power_mul [OF a17 a15]
  note a19 = fe_power_sq [OF a18]
  note a20 = fe_power_loop [OF a19, of "10 - 1"]
  note a21 = fe_power_mul [OF a20 a12]
  note a22 = fe_power_sq [OF a21]
  note a23 = fe_power_loop [OF a22, of "50 - 1"]
  note a24 = fe_power_mul [OF a23 a21]
  note a25 = fe_power_sq [OF a24]
  note a26 = fe_power_loop [OF a25, of "100 - 1"]
  note a27 = fe_power_mul [OF a26 a24]
  note a28 = fe_power_sq [OF a27]
  note a29 = fe_power_loop [OF a28, of "50 - 1"]
  note a30 = fe_power_mul [OF a29 a21]
  note a31 = fe_power_sq [OF a30]
  note a32 = fe_power_loop [OF a31, of "2 - 1"]
  note a33 = fe_power_mul [OF a32 z1]
  from a33 show ?thesis unfolding fePow22523_def Let_def by simp
qed

text \<open>
  The two addition chains compute the powers their callers rely on. For every admissible element
  \<open>FeInvert\<close> gives the power \<open>p - 2\<close>, the inverse of a non-zero element by Fermat's theorem, and
  \<open>fePow22523\<close> gives the power \<open>(p - 5) / 8\<close> from which a square root is taken, both as admissible elements.
\<close>

theorem field_chains:
  assumes "fe_within loose z"
  shows "fe_within loose (FeInvert z) \<and> fe_val (FeInvert z) mod fe_p = fe_val z ^ nat (fe_p - 2) mod fe_p
    \<and> fe_within loose (fePow22523 z) \<and> fe_val (fePow22523 z) mod fe_p = fe_val z ^ nat ((fe_p - 5) div 8) mod fe_p"
  using FeInvert_power [OF assms] fePow22523_power [OF assms] by (simp add: fe_power_def fe_p_def)

theorem field_chains_witness:
  "fe_val (FeInvert FeOne) mod fe_p = 1 \<and> fe_val (fePow22523 (FeNeg FeOne)) mod fe_p = (- 1) mod fe_p"
proof -
  have "fe_within loose FeOne" "fe_within loose (FeNeg FeOne)"
    by (simp_all add: fe_within_def limbs_within_def bounded_by_def FeOne_def FeNeg_def loose_def)
  from field_chains [OF this(1)] field_chains [OF this(2)] show ?thesis
    by (simp add: fe_val_def limb_sum_def FeOne_def FeNeg_def fe_p_def)
qed

end
