(* ===== verification/Field_Encoding.thy ===== *)
theory Field_Encoding
  imports Field_Bytes
begin

text \<open>
  Correctness of \<open>FeToBytes\<close>, \<open>FeIsNegative\<close> and \<open>FeIsNonZero\<close>: the quotient that \<open>FeToBytes\<close> computes
  limb by limb is the one of the division by the modulus, the element it leaves is the remainder, and
  the packed bytes are the little-endian digits of the remainder.
\<close>

unbundle bit_operations_syntax

section \<open>The quotient\<close>

lemma floor_bounds: "2 ^ n * (x div 2 ^ n) \<le> x \<and> x < 2 ^ n * (x div 2 ^ n) + (2 :: int) ^ n"
proof -
  have "0 \<le> x mod 2 ^ n" "x mod 2 ^ n < 2 ^ n" by simp_all
  then show ?thesis using mult_div_mod_eq [of "2 ^ n" x] by linarith
qed

lemma nested_div: "(y + x div 2 ^ a) div 2 ^ b = (x + 2 ^ a * y) div (2 :: int) ^ (a + b)"
  by (simp add: power_add zdiv_zmult2_eq add.commute)

text \<open>The limbs of an element as integers.\<close>

lemma limb_ints:
  obtains H0 H1 H2 H3 H4 H5 H6 H7 H8 H9 where
    "h = FE (word_of_int H0) (word_of_int H1) (word_of_int H2) (word_of_int H3) (word_of_int H4)
       (word_of_int H5) (word_of_int H6) (word_of_int H7) (word_of_int H8) (word_of_int H9)"
    "fe_val h = limb_sum H0 H1 H2 H3 H4 H5 H6 H7 H8 H9"
    "\<And>B. fe_within B h \<longleftrightarrow> limbs_within B H0 H1 H2 H3 H4 H5 H6 H7 H8 H9"
  using that [of "sint (fe0 h)" "sint (fe1 h)" "sint (fe2 h)" "sint (fe3 h)" "sint (fe4 h)" "sint (fe5 h)" "sint (fe6 h)" "sint (fe7 h)" "sint (fe8 h)" "sint (fe9 h)"]
  by (cases h) (simp add: fe_val_def fe_within_def)

text \<open>One turn of the quotient: a limb and a small carry give a small carry.\<close>

lemma quotient_step:
  assumes "bounded_by (2 ^ 27) H" and "bounded_by 64 q" and "25 \<le> n"
  shows "signed_drop_bit n (word_of_int H + word_of_int q :: i32) = word_of_int ((H + q) div 2 ^ n)"
    and "bounded_by 64 ((H + q) div 2 ^ n)"
proof -
  have s: "bounded_by (2 ^ 28) (H + q)" by (rule bounded_add [OF assms(1,2)]) simp
  then have "\<bar>H + q\<bar> < 2 ^ 31" by (rule bounded_bits) simp
  from sshift_of_int_32 [OF this] show "signed_drop_bit n (word_of_int H + word_of_int q :: i32) = word_of_int ((H + q) div 2 ^ n)"
    by simp
  have p: "(2 :: int) ^ 28 \<le> 64 * 2 ^ n" using power_increasing [OF assms(3), of "2 :: int"] by simp
  then have "- 64 * 2 ^ n \<le> H + q" "H + q \<le> 64 * 2 ^ n" using s unfolding bounded_by_def by linarith+
  moreover have "- 64 * 2 ^ n div 2 ^ n = (- 64 :: int)" "64 * 2 ^ n div 2 ^ n = (64 :: int)"
    by (rule nonzero_mult_div_cancel_right, simp)+
  ultimately have "- 64 \<le> (H + q) div 2 ^ n" "(H + q) div 2 ^ n \<le> 64"
    using zdiv_mono1 [of "- 64 * 2 ^ n" "H + q" "2 ^ n"] zdiv_mono1 [of "H + q" "64 * 2 ^ n" "2 ^ n"] by simp_all
  then show "bounded_by 64 ((H + q) div 2 ^ n)" by (simp add: bounded_by_def)
qed

lemma quotient_26:
  assumes "bounded_by (2 ^ 27) H" and "bounded_by 64 q"
  shows "signed_drop_bit 26 (word_of_int H + word_of_int q :: i32) = word_of_int ((H + q) div 2 ^ 26)"
    and "bounded_by 64 ((H + q) div 2 ^ 26)"
  by (rule quotient_step [OF assms], simp)+

lemma quotient_25:
  assumes "bounded_by (2 ^ 27) H" and "bounded_by 64 q"
  shows "signed_drop_bit 25 (word_of_int H + word_of_int q :: i32) = word_of_int ((H + q) div 2 ^ 25)"
    and "bounded_by 64 ((H + q) div 2 ^ 25)"
  by (rule quotient_step [OF assms], simp)+

definition wrap_carry :: "int \<Rightarrow> int" where
  "wrap_carry H9 = (19 * H9 + 2 ^ 24) div 2 ^ 25"

lemma wrap_carry_step:
  assumes "bounded_by loose H9"
  shows "signed_drop_bit 25 (19 * word_of_int H9 + push_bit 24 1 :: i32) = word_of_int (wrap_carry H9)"
    and "bounded_by 64 (wrap_carry H9)"
proof -
  have s: "bounded_by (64 * 2 ^ 25 - 1) (19 * H9 + 2 ^ 24)" using assms by (simp add: bounded_by_def loose_def)
  then have "\<bar>19 * H9 + 2 ^ 24\<bar> < 2 ^ 31" by (rule bounded_bits) simp
  from sshift_of_int_32 [OF this] show "signed_drop_bit 25 (19 * word_of_int H9 + push_bit 24 1 :: i32) = word_of_int (wrap_carry H9)"
    by (simp add: wrap_carry_def push_bit_1_word)
  show "bounded_by 64 (wrap_carry H9)"
    using s floor_bounds [of 25 "19 * H9 + 2 ^ 24", folded wrap_carry_def] by (simp add: bounded_by_def)
qed

lemma limbs_27:
  assumes "limbs_within loose H0 H1 H2 H3 H4 H5 H6 H7 H8 H9"
  shows "bounded_by (2 ^ 27) H0" "bounded_by (2 ^ 27) H1" "bounded_by (2 ^ 27) H2" "bounded_by (2 ^ 27) H3" "bounded_by (2 ^ 27) H4" "bounded_by (2 ^ 27) H5" "bounded_by (2 ^ 27) H6" "bounded_by (2 ^ 27) H7" "bounded_by (2 ^ 27) H8" "bounded_by (2 ^ 27) H9"
  using assms by (auto simp: limbs_within_def loose_def elim: bounded_mono)

lemma quotient_int:
  assumes "limbs_within loose H0 H1 H2 H3 H4 H5 H6 H7 H8 H9" and h: "h = FE (word_of_int H0) (word_of_int H1) (word_of_int H2) (word_of_int H3) (word_of_int H4) (word_of_int H5) (word_of_int H6) (word_of_int H7) (word_of_int H8) (word_of_int H9)"
  shows "bytes_quotient h = word_of_int ((limb_sum H0 H1 H2 H3 H4 H5 H6 H7 H8 H9 + wrap_carry H9) div 2 ^ 255)"
proof -
  note lim = limbs_27 [OF assms(1)]
  have top: "bounded_by loose H9" using assms(1) by (simp add: limbs_within_def)
  note s = wrap_carry_step [OF top]
  note s0 = quotient_26 [OF lim(1) s(2)]
  note s1 = quotient_25 [OF lim(2) s0(2)]
  note s2 = quotient_26 [OF lim(3) s1(2)]
  note s3 = quotient_25 [OF lim(4) s2(2)]
  note s4 = quotient_26 [OF lim(5) s3(2)]
  note s5 = quotient_25 [OF lim(6) s4(2)]
  note s6 = quotient_26 [OF lim(7) s5(2)]
  note s7 = quotient_25 [OF lim(8) s6(2)]
  note s8 = quotient_26 [OF lim(9) s7(2)]
  note s9 = quotient_25 [OF lim(10) s8(2)]
  have "bytes_quotient h = word_of_int ((H9 + (H8 + (H7 + (H6 + (H5 + (H4 + (H3 + (H2 + (H1 + (H0 + wrap_carry H9) div 2 ^ 26) div 2 ^ 25) div 2 ^ 26) div 2 ^ 25) div 2 ^ 26) div 2 ^ 25) div 2 ^ 26) div 2 ^ 25) div 2 ^ 26) div 2 ^ 25)"
    unfolding bytes_quotient_def h Let_def FieldElement.sel s(1) s0(1) s1(1) s2(1) s3(1) s4(1) s5(1) s6(1) s7(1) s8(1) s9(1) by (rule refl)
  also have "(H9 + (H8 + (H7 + (H6 + (H5 + (H4 + (H3 + (H2 + (H1 + (H0 + wrap_carry H9) div 2 ^ 26) div 2 ^ 25) div 2 ^ 26) div 2 ^ 25) div 2 ^ 26) div 2 ^ 25) div 2 ^ 26) div 2 ^ 25) div 2 ^ 26) div 2 ^ 25 = (limb_sum H0 H1 H2 H3 H4 H5 H6 H7 H8 H9 + wrap_carry H9) div 2 ^ 255"
    unfolding nested_div by (rule arg_cong2 [where f = "(div)"]) (simp_all add: limb_sum_def)
  finally show ?thesis .
qed

text \<open>The quotient is the one of the division by the modulus.\<close>

lemma quotient_exact:
  assumes "limbs_within loose H0 H1 H2 H3 H4 H5 H6 H7 H8 H9" and q: "q = (limb_sum H0 H1 H2 H3 H4 H5 H6 H7 H8 H9 + wrap_carry H9) div 2 ^ 255"
  shows "0 \<le> limb_sum H0 H1 H2 H3 H4 H5 H6 H7 H8 H9 - fe_p * q" and "limb_sum H0 H1 H2 H3 H4 H5 H6 H7 H8 H9 - fe_p * q < fe_p" and "bounded_by 3 q"
proof -
  define x where x: "x = limb_sum H0 H1 H2 H3 H4 H5 H6 H7 H8 H9"
  define l where l: "l = x - 2 ^ 230 * H9"
  have l': "bounded_by (2 ^ 232) l" and H9: "bounded_by loose H9"
    using assms(1) by (simp_all add: limbs_within_def bounded_by_def l x limb_sum_def loose_def)
  have w: "2 ^ 25 * wrap_carry H9 \<le> 19 * H9 + 2 ^ 24" "19 * H9 + 2 ^ 24 < 2 ^ 25 * wrap_carry H9 + 2 ^ 25"
    using floor_bounds [of 25 "19 * H9 + 2 ^ 24"] by (simp_all add: wrap_carry_def)
  have f: "2 ^ 255 * q \<le> x + wrap_carry H9" "x + wrap_carry H9 < 2 ^ 255 * q + 2 ^ 255"
    using floor_bounds [of 255 "x + wrap_carry H9"] by (simp_all add: q x)
  show q4: "bounded_by 3 q" using f l' H9 w unfolding bounded_by_def l loose_def by simp
  note facts = w f l' [unfolded bounded_by_def l] q4 [unfolded bounded_by_def]
  show "0 \<le> limb_sum H0 H1 H2 H3 H4 H5 H6 H7 H8 H9 - fe_p * q" unfolding fe_p_def x [symmetric] using facts by simp
  show "limb_sum H0 H1 H2 H3 H4 H5 H6 H7 H8 H9 - fe_p * q < fe_p" unfolding fe_p_def x [symmetric] using facts by simp
qed

section \<open>The reduced limbs\<close>

definition limbs_canonical :: "int \<Rightarrow> int \<Rightarrow> int \<Rightarrow> int \<Rightarrow> int \<Rightarrow> int \<Rightarrow> int \<Rightarrow> int \<Rightarrow> int \<Rightarrow> int \<Rightarrow> bool" where
  "limbs_canonical r0 r1 r2 r3 r4 r5 r6 r7 r8 r9 \<longleftrightarrow>
     r0 \<in> {0..<2 ^ 26} \<and> r1 \<in> {0..<2 ^ 25} \<and> r2 \<in> {0..<2 ^ 26} \<and> r3 \<in> {0..<2 ^ 25} \<and> r4 \<in> {0..<2 ^ 26} \<and> r5 \<in> {0..<2 ^ 25} \<and> r6 \<in> {0..<2 ^ 26} \<and> r7 \<in> {0..<2 ^ 25} \<and> r8 \<in> {0..<2 ^ 26} \<and> r9 \<in> {0..<2 ^ 25}"

lemma limb_sum_canonical:
  assumes "limbs_canonical r0 r1 r2 r3 r4 r5 r6 r7 r8 r9"
  shows "0 \<le> limb_sum r0 r1 r2 r3 r4 r5 r6 r7 r8 r9" and "limb_sum r0 r1 r2 r3 r4 r5 r6 r7 r8 r9 < 2 ^ 255"
  using assms by (simp_all add: limbs_canonical_def limb_sum_def)

lemma carry_down_26:
  assumes "bounded_by (2 ^ 27) H" and "bounded_by 64 c"
  shows "carry_down 26 (word_of_int H + word_of_int c) next
    = (word_of_int (H + c - 2 ^ 26 * ((H + c) div 2 ^ 26)), next + word_of_int ((H + c) div 2 ^ 26))"
  unfolding carry_down_def Let_def quotient_26 [OF assms] shift_of_int by (simp add: mult.commute)

lemma carry_down_25:
  assumes "bounded_by (2 ^ 27) H" and "bounded_by 64 c"
  shows "carry_down 25 (word_of_int H + word_of_int c) next
    = (word_of_int (H + c - 2 ^ 25 * ((H + c) div 2 ^ 25)), next + word_of_int ((H + c) div 2 ^ 25))"
  unfolding carry_down_def Let_def quotient_25 [OF assms] shift_of_int by (simp add: mult.commute)

lemma reduce_limbs_int:
  assumes "limbs_within loose H0 H1 H2 H3 H4 H5 H6 H7 H8 H9" and h: "h = FE (word_of_int H0) (word_of_int H1) (word_of_int H2) (word_of_int H3) (word_of_int H4) (word_of_int H5) (word_of_int H6) (word_of_int H7) (word_of_int H8) (word_of_int H9)"
  shows "\<exists>r0 r1 r2 r3 r4 r5 r6 r7 r8 r9. reduce_limbs h = FE (word_of_int r0) (word_of_int r1) (word_of_int r2) (word_of_int r3) (word_of_int r4) (word_of_int r5) (word_of_int r6) (word_of_int r7) (word_of_int r8) (word_of_int r9)
    \<and> limbs_canonical r0 r1 r2 r3 r4 r5 r6 r7 r8 r9 \<and> limb_sum r0 r1 r2 r3 r4 r5 r6 r7 r8 r9 = limb_sum H0 H1 H2 H3 H4 H5 H6 H7 H8 H9 mod fe_p"
proof -
  define q where q: "q = (limb_sum H0 H1 H2 H3 H4 H5 H6 H7 H8 H9 + wrap_carry H9) div 2 ^ 255"
  note lim = limbs_27 [OF assms(1)] and Q = quotient_exact [OF assms(1) q] and bq = quotient_int [OF assms, folded q]
  have b: "bounded_by 64 (19 * q)" using Q(3) by (simp add: bounded_by_def)
  define c0 where c0: "c0 = (H0 + 19 * q) div 2 ^ 26"
  note s0 = carry_down_26 [OF lim(1) b, folded c0] and b0 = quotient_26 [OF lim(1) b, folded c0]
  define c1 where c1: "c1 = (H1 + c0) div 2 ^ 25"
  note s1 = carry_down_25 [OF lim(2) b0(2), folded c1] and b1 = quotient_25 [OF lim(2) b0(2), folded c1]
  define c2 where c2: "c2 = (H2 + c1) div 2 ^ 26"
  note s2 = carry_down_26 [OF lim(3) b1(2), folded c2] and b2 = quotient_26 [OF lim(3) b1(2), folded c2]
  define c3 where c3: "c3 = (H3 + c2) div 2 ^ 25"
  note s3 = carry_down_25 [OF lim(4) b2(2), folded c3] and b3 = quotient_25 [OF lim(4) b2(2), folded c3]
  define c4 where c4: "c4 = (H4 + c3) div 2 ^ 26"
  note s4 = carry_down_26 [OF lim(5) b3(2), folded c4] and b4 = quotient_26 [OF lim(5) b3(2), folded c4]
  define c5 where c5: "c5 = (H5 + c4) div 2 ^ 25"
  note s5 = carry_down_25 [OF lim(6) b4(2), folded c5] and b5 = quotient_25 [OF lim(6) b4(2), folded c5]
  define c6 where c6: "c6 = (H6 + c5) div 2 ^ 26"
  note s6 = carry_down_26 [OF lim(7) b5(2), folded c6] and b6 = quotient_26 [OF lim(7) b5(2), folded c6]
  define c7 where c7: "c7 = (H7 + c6) div 2 ^ 25"
  note s7 = carry_down_25 [OF lim(8) b6(2), folded c7] and b7 = quotient_25 [OF lim(8) b6(2), folded c7]
  define c8 where c8: "c8 = (H8 + c7) div 2 ^ 26"
  note s8 = carry_down_26 [OF lim(9) b7(2), folded c8] and b8 = quotient_26 [OF lim(9) b7(2), folded c8]
  define c9 where c9: "c9 = (H9 + c8) div 2 ^ 25"
  note s9 = carry_down_25 [OF lim(10) b8(2), folded c9] and b9 = quotient_25 [OF lim(10) b8(2), folded c9]
  have start: "word_of_int H0 + 19 * word_of_int q = (word_of_int H0 + word_of_int (19 * q) :: i32)" by simp
  have fin: "word_of_int H9 + word_of_int c8 - push_bit 25 (word_of_int c9) = (word_of_int (H9 + c8 - 2 ^ 25 * c9) :: i32)"
    by (simp add: shift_of_int)
  have "reduce_limbs h = FE (word_of_int (H0 + 19 * q - 2 ^ 26 * c0)) (word_of_int (H1 + c0 - 2 ^ 25 * c1)) (word_of_int (H2 + c1 - 2 ^ 26 * c2)) (word_of_int (H3 + c2 - 2 ^ 25 * c3)) (word_of_int (H4 + c3 - 2 ^ 26 * c4)) (word_of_int (H5 + c4 - 2 ^ 25 * c5)) (word_of_int (H6 + c5 - 2 ^ 26 * c6)) (word_of_int (H7 + c6 - 2 ^ 25 * c7)) (word_of_int (H8 + c7 - 2 ^ 26 * c8)) (word_of_int (H9 + c8 - 2 ^ 25 * c9))"
    unfolding reduce_limbs_def bq unfolding h FieldElement.sel start Let_def
    by (simp only: s0 s1 s2 s3 s4 s5 s6 s7 s8 prod.case b9(1) fin)
  moreover have can: "limbs_canonical (H0 + 19 * q - 2 ^ 26 * c0) (H1 + c0 - 2 ^ 25 * c1) (H2 + c1 - 2 ^ 26 * c2) (H3 + c2 - 2 ^ 25 * c3) (H4 + c3 - 2 ^ 26 * c4) (H5 + c4 - 2 ^ 25 * c5) (H6 + c5 - 2 ^ 26 * c6) (H7 + c6 - 2 ^ 25 * c7) (H8 + c7 - 2 ^ 26 * c8) (H9 + c8 - 2 ^ 25 * c9)"
    using floor_bounds [of 26 "H0 + 19 * q", folded c0] floor_bounds [of 25 "H1 + c0", folded c1] floor_bounds [of 26 "H2 + c1", folded c2] floor_bounds [of 25 "H3 + c2", folded c3] floor_bounds [of 26 "H4 + c3", folded c4] floor_bounds [of 25 "H5 + c4", folded c5] floor_bounds [of 26 "H6 + c5", folded c6] floor_bounds [of 25 "H7 + c6", folded c7] floor_bounds [of 26 "H8 + c7", folded c8] floor_bounds [of 25 "H9 + c8", folded c9]
    by (simp add: limbs_canonical_def)
  moreover have v: "limb_sum (H0 + 19 * q - 2 ^ 26 * c0) (H1 + c0 - 2 ^ 25 * c1) (H2 + c1 - 2 ^ 26 * c2) (H3 + c2 - 2 ^ 25 * c3) (H4 + c3 - 2 ^ 26 * c4) (H5 + c4 - 2 ^ 25 * c5) (H6 + c5 - 2 ^ 26 * c6) (H7 + c6 - 2 ^ 25 * c7) (H8 + c7 - 2 ^ 26 * c8) (H9 + c8 - 2 ^ 25 * c9) = limb_sum H0 H1 H2 H3 H4 H5 H6 H7 H8 H9 + 19 * q - 2 ^ 255 * c9"
    by (simp add: limb_sum_def algebra_simps)
  moreover have "limb_sum H0 H1 H2 H3 H4 H5 H6 H7 H8 H9 + 19 * q - 2 ^ 255 * c9 = limb_sum H0 H1 H2 H3 H4 H5 H6 H7 H8 H9 mod fe_p"
  proof -
    have "limb_sum H0 H1 H2 H3 H4 H5 H6 H7 H8 H9 mod fe_p = limb_sum H0 H1 H2 H3 H4 H5 H6 H7 H8 H9 - fe_p * q"
      using Q(1,2) by (metis add_diff_cancel_left' diff_add_cancel mod_mult_self4 mod_pos_pos_trivial mult.commute)
    moreover have "q = c9"
      using Q(1,2) limb_sum_canonical [OF can] v unfolding fe_p_def by simp
    ultimately show ?thesis by (simp add: fe_p_def algebra_simps)
  qed
  ultimately show ?thesis by metis
qed

section \<open>Packing\<close>

lemma word_of_multiple: "8 \<le> n \<Longrightarrow> word_of_int (x + 2 ^ n * y) = (word_of_int x :: byte)"
proof -
  assume "8 \<le> n"
  then have "(2 :: int) ^ n = 256 * 2 ^ (n - 8)" using power_add [of "2 :: int" 8 "n - 8"] by simp
  then have "(x + 2 ^ n * y) mod 256 = x mod 256" by (simp add: mult.assoc)
  then show ?thesis by (intro word_uint_eqI) (simp only: uint_byte_of_int)
qed

text \<open>A byte inside limb \<open>r\<close>, and a byte across the limbs \<open>r\<close> and \<open>r'\<close>.\<close>

lemma limb_byte:
  fixes lo r t x :: int
  assumes "x = lo + 2 ^ e * (r + 2 ^ w * t)" and "0 \<le> lo" "lo < 2 ^ e" and "8 * k = e + a" and "a + 8 \<le> w"
  shows "word_of_int (x div 256 ^ k) = (word_of_int (r div 2 ^ a) :: byte)"
proof -
  have "(256 :: int) ^ k = 2 ^ e * 2 ^ a" using assms(4) power_mult [of "2 :: int" 8 k] by (simp add: power_add)
  then have "x div 256 ^ k = (r + 2 ^ w * t) div 2 ^ a" using assms(1-3) by (simp add: zdiv_zmult2_eq)
  moreover have "(2 :: int) ^ w = 2 ^ a * 2 ^ (w - a)" using assms(5) by (simp flip: power_add)
  ultimately have "x div 256 ^ k = r div 2 ^ a + 2 ^ (w - a) * t" by (simp add: mult.assoc)
  then show ?thesis using word_of_multiple [of "w - a" "r div 2 ^ a" t] assms(5) by simp
qed

lemma limb_cross:
  fixes lo r r' t x :: int
  assumes "x = lo + 2 ^ e * (r + 2 ^ w * (r' + 2 ^ v * t))" and "0 \<le> lo" "lo < 2 ^ e" and "8 * k = e + a"
    and "w = a + s" and "8 \<le> s + v"
  shows "word_of_int (x div 256 ^ k) = (word_of_int (r div 2 ^ a + 2 ^ s * r') :: byte)"
proof -
  have "(256 :: int) ^ k = 2 ^ e * 2 ^ a" using assms(4) power_mult [of "2 :: int" 8 k] by (simp add: power_add)
  then have "x div 256 ^ k = (r + 2 ^ w * (r' + 2 ^ v * t)) div 2 ^ a" using assms(1-3) by (simp add: zdiv_zmult2_eq)
  also have "\<dots> = r div 2 ^ a + 2 ^ s * (r' + 2 ^ v * t)" using assms(5) by (simp only: power_add mult.assoc) simp
  also have "\<dots> = r div 2 ^ a + 2 ^ s * r' + 2 ^ (s + v) * t" by (simp add: power_add distrib_left)
  finally show ?thesis using word_of_multiple [OF assms(6), of "r div 2 ^ a + 2 ^ s * r'" t] by simp
qed

lemma pack_byte:
  assumes "0 \<le> r" and "r < 2 ^ 26"
  shows "(ucast (signed_drop_bit a (word_of_int r :: i32)) :: byte) = word_of_int (r div 2 ^ a)"
proof -
  have "\<bar>r\<bar> < 2 ^ 31" using assms by simp
  from sshift_of_int_32 [OF this] show ?thesis by (simp only: narrow_byte)
qed

lemma pack_cross:
  assumes "0 \<le> r" and "r < 2 ^ (a + s)" and "a + s \<le> 26"
  shows "(ucast (signed_drop_bit a (word_of_int r :: i32) OR push_bit s (word_of_int r')) :: byte) = word_of_int (r div 2 ^ a + 2 ^ s * r')"
proof -
  have "(2 :: int) ^ (a + s) \<le> 2 ^ 26" using assms(3) by (intro power_increasing) simp_all
  then have "\<bar>r\<bar> < 2 ^ 31" using assms by simp
  moreover have "0 \<le> r div 2 ^ a" using assms(1) by (simp add: pos_imp_zdiv_nonneg_iff)
  moreover have "r div 2 ^ a < 2 ^ s"
  proof -
    have "2 ^ a * (r div 2 ^ a) < 2 ^ a * 2 ^ s" using floor_bounds [of a r] assms(2) unfolding power_add by linarith
    then show ?thesis by simp
  qed
  moreover have "(2 :: int) ^ s \<le> 2 ^ 26" using assms(3) by (intro power_increasing) simp_all
  ultimately have "signed_drop_bit a (word_of_int r :: i32) OR push_bit s (word_of_int r') = word_of_int (r div 2 ^ a + 2 ^ s * r')"
    using or_shifted [of "word_of_int (r div 2 ^ a) :: i32" s "word_of_int r'"]
    by (simp add: sshift_of_int_32 uint_word_of_int shift_of_int mult.commute)
  then show ?thesis by (simp only: narrow_byte)
qed

lemma pack_limbs_le_bytes:
  assumes "limbs_canonical r0 r1 r2 r3 r4 r5 r6 r7 r8 r9" and x: "x = limb_sum r0 r1 r2 r3 r4 r5 r6 r7 r8 r9"
  shows "pack_limbs (FE (word_of_int r0) (word_of_int r1) (word_of_int r2) (word_of_int r3) (word_of_int r4) (word_of_int r5) (word_of_int r6) (word_of_int r7) (word_of_int r8) (word_of_int r9)) = le_bytes 32 x"
proof -
  have c: "0 \<le> r0" "r0 < 2 ^ 26" "0 \<le> r1" "r1 < 2 ^ 25" "0 \<le> r2" "r2 < 2 ^ 26" "0 \<le> r3" "r3 < 2 ^ 25" "0 \<le> r4" "r4 < 2 ^ 26" "0 \<le> r5" "r5 < 2 ^ 25" "0 \<le> r6" "r6 < 2 ^ 26" "0 \<le> r7" "r7 < 2 ^ 25" "0 \<le> r8" "r8 < 2 ^ 26" "0 \<le> r9" "r9 < 2 ^ 25"
    using assms(1) by (simp_all add: limbs_canonical_def)
  define t9 where t9: "t9 = r9 + 2 ^ 26 * 0"
  define t8 where t8: "t8 = r8 + 2 ^ 26 * t9"
  define t7 where t7: "t7 = r7 + 2 ^ 25 * t8"
  define t6 where t6: "t6 = r6 + 2 ^ 26 * t7"
  define t5 where t5: "t5 = r5 + 2 ^ 25 * t6"
  define t4 where t4: "t4 = r4 + 2 ^ 26 * t5"
  define t3 where t3: "t3 = r3 + 2 ^ 25 * t4"
  define t2 where t2: "t2 = r2 + 2 ^ 26 * t3"
  define t1 where t1: "t1 = r1 + 2 ^ 25 * t2"
  define t0 where t0: "t0 = r0 + 2 ^ 26 * t1"
  define l0 :: int where l0: "l0 = 0"
  define l1 where l1: "l1 = l0 + 2 ^ 0 * r0"
  define l2 where l2: "l2 = l1 + 2 ^ 26 * r1"
  define l3 where l3: "l3 = l2 + 2 ^ 51 * r2"
  define l4 where l4: "l4 = l3 + 2 ^ 77 * r3"
  define l5 where l5: "l5 = l4 + 2 ^ 102 * r4"
  define l6 where l6: "l6 = l5 + 2 ^ 128 * r5"
  define l7 where l7: "l7 = l6 + 2 ^ 153 * r6"
  define l8 where l8: "l8 = l7 + 2 ^ 179 * r7"
  define l9 where l9: "l9 = l8 + 2 ^ 204 * r8"
  note t = t0 t1 t2 t3 t4 t5 t6 t7 t8 t9 and l = l0 l1 l2 l3 l4 l5 l6 l7 l8 l9
  have x': "x = l0 + 2 ^ 0 * t0" "x = l1 + 2 ^ 26 * t1" "x = l2 + 2 ^ 51 * t2" "x = l3 + 2 ^ 77 * t3" "x = l4 + 2 ^ 102 * t4" "x = l5 + 2 ^ 128 * t5" "x = l6 + 2 ^ 153 * t6" "x = l7 + 2 ^ 179 * t7" "x = l8 + 2 ^ 204 * t8" "x = l9 + 2 ^ 230 * t9"
    by (simp_all add: x limb_sum_def t l)
  have L: "0 \<le> l0" "l0 < 2 ^ 0" "0 \<le> l1" "l1 < 2 ^ 26" "0 \<le> l2" "l2 < 2 ^ 51" "0 \<le> l3" "l3 < 2 ^ 77" "0 \<le> l4" "l4 < 2 ^ 102" "0 \<le> l5" "l5 < 2 ^ 128" "0 \<le> l6" "l6 < 2 ^ 153" "0 \<le> l7" "l7 < 2 ^ 179" "0 \<le> l8" "l8 < 2 ^ 204" "0 \<le> l9" "l9 < 2 ^ 230"
    using c by (simp_all add: l)
  have b0: "word_of_int (x div 256 ^ 0) = (word_of_int (r0 div 2 ^ 0) :: byte)"
    by (rule limb_byte [OF x'(1) [unfolded t0] L(1,2)]) simp_all
  have b1: "word_of_int (x div 256 ^ 1) = (word_of_int (r0 div 2 ^ 8) :: byte)"
    by (rule limb_byte [OF x'(1) [unfolded t0] L(1,2)]) simp_all
  have b2: "word_of_int (x div 256 ^ 2) = (word_of_int (r0 div 2 ^ 16) :: byte)"
    by (rule limb_byte [OF x'(1) [unfolded t0] L(1,2)]) simp_all
  have b3: "word_of_int (x div 256 ^ 3) = (word_of_int (r0 div 2 ^ 24 + 2 ^ 2 * r1) :: byte)"
    by (rule limb_cross [OF x'(1) [unfolded t0 t1] L(1,2)]) simp_all
  have b4: "word_of_int (x div 256 ^ 4) = (word_of_int (r1 div 2 ^ 6) :: byte)"
    by (rule limb_byte [OF x'(2) [unfolded t1] L(3,4)]) simp_all
  have b5: "word_of_int (x div 256 ^ 5) = (word_of_int (r1 div 2 ^ 14) :: byte)"
    by (rule limb_byte [OF x'(2) [unfolded t1] L(3,4)]) simp_all
  have b6: "word_of_int (x div 256 ^ 6) = (word_of_int (r1 div 2 ^ 22 + 2 ^ 3 * r2) :: byte)"
    by (rule limb_cross [OF x'(2) [unfolded t1 t2] L(3,4)]) simp_all
  have b7: "word_of_int (x div 256 ^ 7) = (word_of_int (r2 div 2 ^ 5) :: byte)"
    by (rule limb_byte [OF x'(3) [unfolded t2] L(5,6)]) simp_all
  have b8: "word_of_int (x div 256 ^ 8) = (word_of_int (r2 div 2 ^ 13) :: byte)"
    by (rule limb_byte [OF x'(3) [unfolded t2] L(5,6)]) simp_all
  have b9: "word_of_int (x div 256 ^ 9) = (word_of_int (r2 div 2 ^ 21 + 2 ^ 5 * r3) :: byte)"
    by (rule limb_cross [OF x'(3) [unfolded t2 t3] L(5,6)]) simp_all
  have b10: "word_of_int (x div 256 ^ 10) = (word_of_int (r3 div 2 ^ 3) :: byte)"
    by (rule limb_byte [OF x'(4) [unfolded t3] L(7,8)]) simp_all
  have b11: "word_of_int (x div 256 ^ 11) = (word_of_int (r3 div 2 ^ 11) :: byte)"
    by (rule limb_byte [OF x'(4) [unfolded t3] L(7,8)]) simp_all
  have b12: "word_of_int (x div 256 ^ 12) = (word_of_int (r3 div 2 ^ 19 + 2 ^ 6 * r4) :: byte)"
    by (rule limb_cross [OF x'(4) [unfolded t3 t4] L(7,8)]) simp_all
  have b13: "word_of_int (x div 256 ^ 13) = (word_of_int (r4 div 2 ^ 2) :: byte)"
    by (rule limb_byte [OF x'(5) [unfolded t4] L(9,10)]) simp_all
  have b14: "word_of_int (x div 256 ^ 14) = (word_of_int (r4 div 2 ^ 10) :: byte)"
    by (rule limb_byte [OF x'(5) [unfolded t4] L(9,10)]) simp_all
  have b15: "word_of_int (x div 256 ^ 15) = (word_of_int (r4 div 2 ^ 18) :: byte)"
    by (rule limb_byte [OF x'(5) [unfolded t4] L(9,10)]) simp_all
  have b16: "word_of_int (x div 256 ^ 16) = (word_of_int (r5 div 2 ^ 0) :: byte)"
    by (rule limb_byte [OF x'(6) [unfolded t5] L(11,12)]) simp_all
  have b17: "word_of_int (x div 256 ^ 17) = (word_of_int (r5 div 2 ^ 8) :: byte)"
    by (rule limb_byte [OF x'(6) [unfolded t5] L(11,12)]) simp_all
  have b18: "word_of_int (x div 256 ^ 18) = (word_of_int (r5 div 2 ^ 16) :: byte)"
    by (rule limb_byte [OF x'(6) [unfolded t5] L(11,12)]) simp_all
  have b19: "word_of_int (x div 256 ^ 19) = (word_of_int (r5 div 2 ^ 24 + 2 ^ 1 * r6) :: byte)"
    by (rule limb_cross [OF x'(6) [unfolded t5 t6] L(11,12)]) simp_all
  have b20: "word_of_int (x div 256 ^ 20) = (word_of_int (r6 div 2 ^ 7) :: byte)"
    by (rule limb_byte [OF x'(7) [unfolded t6] L(13,14)]) simp_all
  have b21: "word_of_int (x div 256 ^ 21) = (word_of_int (r6 div 2 ^ 15) :: byte)"
    by (rule limb_byte [OF x'(7) [unfolded t6] L(13,14)]) simp_all
  have b22: "word_of_int (x div 256 ^ 22) = (word_of_int (r6 div 2 ^ 23 + 2 ^ 3 * r7) :: byte)"
    by (rule limb_cross [OF x'(7) [unfolded t6 t7] L(13,14)]) simp_all
  have b23: "word_of_int (x div 256 ^ 23) = (word_of_int (r7 div 2 ^ 5) :: byte)"
    by (rule limb_byte [OF x'(8) [unfolded t7] L(15,16)]) simp_all
  have b24: "word_of_int (x div 256 ^ 24) = (word_of_int (r7 div 2 ^ 13) :: byte)"
    by (rule limb_byte [OF x'(8) [unfolded t7] L(15,16)]) simp_all
  have b25: "word_of_int (x div 256 ^ 25) = (word_of_int (r7 div 2 ^ 21 + 2 ^ 4 * r8) :: byte)"
    by (rule limb_cross [OF x'(8) [unfolded t7 t8] L(15,16)]) simp_all
  have b26: "word_of_int (x div 256 ^ 26) = (word_of_int (r8 div 2 ^ 4) :: byte)"
    by (rule limb_byte [OF x'(9) [unfolded t8] L(17,18)]) simp_all
  have b27: "word_of_int (x div 256 ^ 27) = (word_of_int (r8 div 2 ^ 12) :: byte)"
    by (rule limb_byte [OF x'(9) [unfolded t8] L(17,18)]) simp_all
  have b28: "word_of_int (x div 256 ^ 28) = (word_of_int (r8 div 2 ^ 20 + 2 ^ 6 * r9) :: byte)"
    by (rule limb_cross [OF x'(9) [unfolded t8 t9] L(17,18)]) simp_all
  have b29: "word_of_int (x div 256 ^ 29) = (word_of_int (r9 div 2 ^ 2) :: byte)"
    by (rule limb_byte [OF x'(10) [unfolded t9] L(19,20)]) simp_all
  have b30: "word_of_int (x div 256 ^ 30) = (word_of_int (r9 div 2 ^ 10) :: byte)"
    by (rule limb_byte [OF x'(10) [unfolded t9] L(19,20)]) simp_all
  have b31: "word_of_int (x div 256 ^ 31) = (word_of_int (r9 div 2 ^ 18) :: byte)"
    by (rule limb_byte [OF x'(10) [unfolded t9] L(19,20)]) simp_all
  have up: "[0..<32] = [0, 1, 2, 3, 4, 5, 6, 7, 8, 9, 10, 11, 12, 13, 14, 15, 16, 17, 18, 19, 20, 21, 22, 23, 24, 25, 26, 27, 28, 29, 30, 31]" by (simp add: upt_conv_Cons)
  have c': "r0 < 2 ^ 26" "r1 < 2 ^ 26" "r2 < 2 ^ 26" "r3 < 2 ^ 26" "r4 < 2 ^ 26" "r5 < 2 ^ 26" "r6 < 2 ^ 26" "r7 < 2 ^ 26" "r8 < 2 ^ 26" "r9 < 2 ^ 26" using c by simp_all
  note P = pack_byte [OF c(1) c'(1)] pack_byte [OF c(3) c'(2)] pack_byte [OF c(5) c'(3)] pack_byte [OF c(7) c'(4)] pack_byte [OF c(9) c'(5)] pack_byte [OF c(11) c'(6)] pack_byte [OF c(13) c'(7)] pack_byte [OF c(15) c'(8)] pack_byte [OF c(17) c'(9)] pack_byte [OF c(19) c'(10)]
  have Q: "(ucast (signed_drop_bit 24 (word_of_int r0 :: i32) OR push_bit 2 (word_of_int r1)) :: byte) = word_of_int (r0 div 2 ^ 24 + 2 ^ 2 * r1)" "(ucast (signed_drop_bit 22 (word_of_int r1 :: i32) OR push_bit 3 (word_of_int r2)) :: byte) = word_of_int (r1 div 2 ^ 22 + 2 ^ 3 * r2)" "(ucast (signed_drop_bit 21 (word_of_int r2 :: i32) OR push_bit 5 (word_of_int r3)) :: byte) = word_of_int (r2 div 2 ^ 21 + 2 ^ 5 * r3)" "(ucast (signed_drop_bit 19 (word_of_int r3 :: i32) OR push_bit 6 (word_of_int r4)) :: byte) = word_of_int (r3 div 2 ^ 19 + 2 ^ 6 * r4)" "(ucast (signed_drop_bit 24 (word_of_int r5 :: i32) OR push_bit 1 (word_of_int r6)) :: byte) = word_of_int (r5 div 2 ^ 24 + 2 ^ 1 * r6)" "(ucast (signed_drop_bit 23 (word_of_int r6 :: i32) OR push_bit 3 (word_of_int r7)) :: byte) = word_of_int (r6 div 2 ^ 23 + 2 ^ 3 * r7)" "(ucast (signed_drop_bit 21 (word_of_int r7 :: i32) OR push_bit 4 (word_of_int r8)) :: byte) = word_of_int (r7 div 2 ^ 21 + 2 ^ 4 * r8)" "(ucast (signed_drop_bit 20 (word_of_int r8 :: i32) OR push_bit 6 (word_of_int r9)) :: byte) = word_of_int (r8 div 2 ^ 20 + 2 ^ 6 * r9)"
    by (rule pack_cross; use c in simp)+
  show ?thesis
    unfolding pack_limbs_def le_bytes_def FieldElement.case up list.map P Q b0 b1 b2 b3 b4 b5 b6 b7 b8 b9 b10 b11 b12 b13 b14 b15 b16 b17 b18 b19 b20 b21 b22 b23 b24 b25 b26 b27 b28 b29 b30 b31 by (rule refl)
qed

section \<open>Writing is correct\<close>

lemma fe_val_canonical:
  assumes "limbs_canonical r0 r1 r2 r3 r4 r5 r6 r7 r8 r9"
    and f: "f = FE (word_of_int r0) (word_of_int r1) (word_of_int r2) (word_of_int r3) (word_of_int r4)
      (word_of_int r5) (word_of_int r6) (word_of_int r7) (word_of_int r8) (word_of_int r9)"
  shows "fe_val f = limb_sum r0 r1 r2 r3 r4 r5 r6 r7 r8 r9" and "fe_within (2 ^ 25) f"
proof -
  have s: "sint (word_of_int r :: i32) = r" if "r \<in> {0..<2 ^ 26} \<or> r \<in> {0..<2 ^ 25}" for r
    using that by (intro sint_of_int_32) auto
  show "fe_val f = limb_sum r0 r1 r2 r3 r4 r5 r6 r7 r8 r9" "fe_within (2 ^ 25) f"
    using assms(1) by (simp_all add: f fe_val_def fe_within_def limbs_within_def limbs_canonical_def s bounded_by_def)
qed

lemma FeToBytes_result:
  assumes "fe_within loose h"
  shows "fst (FeToBytes h) = le_bytes 32 (fe_val h mod fe_p)"
    and "fe_val (snd (FeToBytes h)) = fe_val h mod fe_p" and "fe_within (2 ^ 25) (snd (FeToBytes h))"
proof -
  obtain H0 H1 H2 H3 H4 H5 H6 H7 H8 H9 where h:
    "h = FE (word_of_int H0) (word_of_int H1) (word_of_int H2) (word_of_int H3) (word_of_int H4)
       (word_of_int H5) (word_of_int H6) (word_of_int H7) (word_of_int H8) (word_of_int H9)"
    "fe_val h = limb_sum H0 H1 H2 H3 H4 H5 H6 H7 H8 H9" "limbs_within loose H0 H1 H2 H3 H4 H5 H6 H7 H8 H9"
    using limb_ints [of h] assms by metis
  obtain r0 r1 r2 r3 r4 r5 r6 r7 r8 r9 where r:
    "reduce_limbs h = FE (word_of_int r0) (word_of_int r1) (word_of_int r2) (word_of_int r3) (word_of_int r4)
       (word_of_int r5) (word_of_int r6) (word_of_int r7) (word_of_int r8) (word_of_int r9)"
    "limbs_canonical r0 r1 r2 r3 r4 r5 r6 r7 r8 r9"
    "limb_sum r0 r1 r2 r3 r4 r5 r6 r7 r8 r9 = fe_val h mod fe_p"
    using reduce_limbs_int [OF h(3,1)] h(2) by metis
  show "fst (FeToBytes h) = le_bytes 32 (fe_val h mod fe_p)"
    using pack_limbs_le_bytes [OF r(2) refl] r(1,3) by (simp add: FeToBytes_def Let_def)
  show "fe_val (snd (FeToBytes h)) = fe_val h mod fe_p" "fe_within (2 ^ 25) (snd (FeToBytes h))"
    using fe_val_canonical [OF r(2,1)] r(3) by (simp_all add: FeToBytes_def Let_def)
qed

lemma FeIsNegative_result:
  assumes "fe_within loose f"
  shows "fst (FeIsNegative f) = word_of_int (fe_val f mod fe_p mod 2)"
    and "fe_val (snd (FeIsNegative f)) = fe_val f mod fe_p" and "fe_within (2 ^ 25) (snd (FeIsNegative f))"
proof -
  have "(word_of_int x AND 1 :: byte) = word_of_int (x mod 2)" for x
    by (rule bit_word_eqI) (auto simp: bit_simps bit_1_iff take_bit_eq_mod [of 1, symmetric] simp flip: take_bit_Suc_0)
  then show "fst (FeIsNegative f) = word_of_int (fe_val f mod fe_p mod 2)"
    using FeToBytes_result(1) [OF assms] by (simp add: FeIsNegative_def split_def le_bytes_def)
  show "fe_val (snd (FeIsNegative f)) = fe_val f mod fe_p" "fe_within (2 ^ 25) (snd (FeIsNegative f))"
    using FeToBytes_result(2,3) [OF assms] by (simp_all add: FeIsNegative_def split_def Let_def)
qed

text \<open>The fold of the shifts is 1 exactly when some bit is set.\<close>

definition any_bit :: "byte \<Rightarrow> i32" where
  "any_bit x = (let x = x OR drop_bit 4 x; x = x OR drop_bit 2 x; x = x OR drop_bit 1 x in ucast (x AND 1))"

lemma byte_bits: "(x :: byte) = 0 \<longleftrightarrow> \<not> (bit x 0 \<or> bit x 1 \<or> bit x 2 \<or> bit x 3 \<or> bit x 4 \<or> bit x 5 \<or> bit x 6 \<or> bit x 7)"
proof
  assume n: "\<not> (bit x 0 \<or> bit x 1 \<or> bit x 2 \<or> bit x 3 \<or> bit x 4 \<or> bit x 5 \<or> bit x 6 \<or> bit x 7)"
  show "x = 0"
  proof (rule bit_word_eqI)
    fix k assume "k < LENGTH(8)"
    then have "k \<in> {0, 1, 2, 3, 4, 5, 6, 7}" by auto
    with n show "bit x k = bit 0 k" by auto
  qed
qed simp

lemma any_bit_iff: "any_bit x = (if x = 0 then 0 else 1)"
proof -
  let ?y = "x OR drop_bit 4 x" let ?z = "?y OR drop_bit 2 ?y" let ?w = "?z OR drop_bit 1 ?z"
  have "bit ?w 0 \<longleftrightarrow> x \<noteq> 0" unfolding byte_bits by (auto simp: bit_simps numeral_eq_Suc)
  moreover have "(?w AND 1) = (if bit ?w 0 then 1 else 0)" by (simp add: and_one_eq bit_0 mod_2_eq_odd)
  ultimately show ?thesis by (simp add: any_bit_def Let_def)
qed

lemma or_all: "foldl (\<lambda>x b. x OR b) a s = 0 \<longleftrightarrow> a = (0 :: byte) \<and> (\<forall>b \<in> set s. b = 0)"
  by (induction s arbitrary: a) (auto simp: or_eq_0_iff)

lemma FeIsNonZero_result:
  assumes "fe_within loose f"
  shows "fst (FeIsNonZero f) = (if fe_val f mod fe_p = 0 then 0 else 1)"
    and "fe_val (snd (FeIsNonZero f)) = fe_val f mod fe_p" and "fe_within (2 ^ 25) (snd (FeIsNonZero f))"
proof -
  let ?v = "fe_val f mod fe_p"
  have v: "0 \<le> ?v" "?v < 256 ^ 32" using pos_mod_bound [of fe_p "fe_val f"] by (simp_all add: fe_p_def)
  have "(\<forall>b \<in> set (le_bytes 32 ?v). b = 0) \<longleftrightarrow> le_bytes 32 ?v = replicate 32 0"
    by (simp add: list_all_iff [symmetric] list_all_length list_eq_iff_nth_eq)
  also have "\<dots> \<longleftrightarrow> ?v = 0"
  proof
    assume "le_bytes 32 ?v = replicate 32 0"
    then have "le_int (le_bytes 32 ?v) = 0" by (simp add: numeral_eq_Suc)
    with v show "?v = 0" by (simp only: le_int_le_bytes mod_pos_pos_trivial)
  qed (simp add: le_bytes_def map_replicate_const)
  finally show "fst (FeIsNonZero f) = (if ?v = 0 then 0 else 1)"
    using FeToBytes_result(1) [OF assms] or_all [of 0 "le_bytes 32 ?v"] any_bit_iff
    by (simp add: FeIsNonZero_def split_def Let_def any_bit_def)
  show "fe_val (snd (FeIsNonZero f)) = ?v" "fe_within (2 ^ 25) (snd (FeIsNonZero f))"
    using FeToBytes_result(2,3) [OF assms] by (simp_all add: FeIsNonZero_def split_def Let_def)
qed

section \<open>Round trips\<close>

lemma le_int_mod_255: "fe_val (FeFromBytes (le_bytes 32 (x mod fe_p))) mod fe_p = x mod fe_p"
proof -
  have v: "0 \<le> x mod fe_p" "x mod fe_p < 2 ^ 255" using pos_mod_bound [of fe_p x] by (simp_all add: fe_p_def)
  then have "le_int (le_bytes 32 (x mod fe_p)) mod 2 ^ 255 = x mod fe_p" by (simp add: le_int_le_bytes)
  with FeFromBytes_within [of "le_bytes 32 (x mod fe_p)"] show ?thesis by simp
qed

text \<open>
  C29: field elements and their 32-byte encodings are in a round trip. Bytes that encode an integer below
  the modulus are written back unchanged after being read; an element written and read again stands for
  the same field element; and two elements have the same encoding exactly when they stand for the same
  field element, so that the encoding is canonical. No 32-bit or 64-bit operation overflows on limbs
  within \<open>1.65 * 2 ^ 26\<close> and \<open>1.65 * 2 ^ 25\<close>.
\<close>

theorem field_bytes_round_trip:
  assumes "length s = 32" and "le_int s < fe_p" and "fe_within loose f" and "fe_within loose g"
  shows "fst (FeToBytes (FeFromBytes s)) = s
    \<and> fe_val (FeFromBytes (fst (FeToBytes f))) mod fe_p = fe_val f mod fe_p
    \<and> (fst (FeToBytes f) = fst (FeToBytes g) \<longleftrightarrow> fe_val f mod fe_p = fe_val g mod fe_p)"
proof (intro conjI)
  have p: "fe_p < 2 ^ 255" by (simp add: fe_p_def)
  note r = FeFromBytes_within [OF assms(1)]
  have b: "0 \<le> le_int s" "le_int s < 2 ^ 255" using le_int_bounds [of s] assms(2) p by linarith+
  have w: "fe_within loose (FeFromBytes s)" using fe_within_mono [OF conjunct1 [OF r]] by (simp add: tight_def loose_def)
  show "fst (FeToBytes (FeFromBytes s)) = s"
    using FeToBytes_result(1) [OF w] r b assms(2) le_bytes_le_int [OF assms(1)] by simp
  show "fe_val (FeFromBytes (fst (FeToBytes f))) mod fe_p = fe_val f mod fe_p"
    using FeToBytes_result(1) [OF assms(3)] le_int_mod_255 by simp
  show "fst (FeToBytes f) = fst (FeToBytes g) \<longleftrightarrow> fe_val f mod fe_p = fe_val g mod fe_p"
    using FeToBytes_result(1) [OF assms(3)] FeToBytes_result(1) [OF assms(4)] le_int_mod_255 by metis
qed

theorem field_bytes_round_trip_witness:
  "fst (FeToBytes (FeFromBytes (le_bytes 32 1000))) = le_bytes 32 1000
   \<and> fe_val (FeFromBytes (fst (FeToBytes FeOne))) mod fe_p = 1
   \<and> fst (FeToBytes FeOne) \<noteq> fst (FeToBytes FeZero)"
proof -
  have l: "length (le_bytes 32 1000) = 32" "le_int (le_bytes 32 1000) < fe_p" by (simp_all add: le_int_le_bytes fe_p_def)
  have w: "fe_within loose FeOne" "fe_within loose FeZero"
    by (simp_all add: fe_within_def limbs_within_def bounded_by_def FeOne_def FeZero_def loose_def)
  have v: "fe_val FeOne = 1" "fe_val FeZero = 0" "1 < fe_p"
    by (simp_all add: fe_val_def limb_sum_def FeOne_def FeZero_def fe_p_def)
  from field_bytes_round_trip [OF l w] v show ?thesis by simp
qed

end
