(* ===== verification/Field_Ring.thy ===== *)
theory Field_Ring
  imports Field_Power Field_Encoding
begin

text \<open>
  The abstract field of the curve: the integers modulo \<open>2 ^ 255 - 19\<close> as a commutative ring. A field
  element of the package stands for one of its elements, \<open>gf f\<close>, and the operations on limbs refine the
  ring operations wherever the limbs are within the documented bounds. The client lemmas on curve points
  are algebra in the ring.
\<close>

section \<open>The ring\<close>

typedef gf25519 = "{x :: int. 0 \<le> x \<and> x < fe_p}"
  by (rule exI [of _ 0]) (simp add: fe_p_def)

setup_lifting type_definition_gf25519

lift_definition gf_of :: "int \<Rightarrow> gf25519" is "\<lambda>x. x mod fe_p"
  by (simp add: fe_p_def)

lemma gf_of_eq: "gf_of x = gf_of y \<longleftrightarrow> x mod fe_p = y mod fe_p"
  by transfer simp

instantiation gf25519 :: comm_ring_1
begin

lift_definition zero_gf25519 :: gf25519 is 0 by (simp add: fe_p_def)

lift_definition one_gf25519 :: gf25519 is 1 by (simp add: fe_p_def)

lift_definition plus_gf25519 :: "gf25519 \<Rightarrow> gf25519 \<Rightarrow> gf25519" is "\<lambda>x y. (x + y) mod fe_p"
  by (simp add: fe_p_def)

lift_definition minus_gf25519 :: "gf25519 \<Rightarrow> gf25519 \<Rightarrow> gf25519" is "\<lambda>x y. (x - y) mod fe_p"
  by (simp add: fe_p_def)

lift_definition uminus_gf25519 :: "gf25519 \<Rightarrow> gf25519" is "\<lambda>x. (- x) mod fe_p"
  by (simp add: fe_p_def)

lift_definition times_gf25519 :: "gf25519 \<Rightarrow> gf25519 \<Rightarrow> gf25519" is "\<lambda>x y. (x * y) mod fe_p"
  by (simp add: fe_p_def)

instance
  by standard (transfer; simp add: mod_simps algebra_simps; simp add: fe_p_def)+

end

lemma gf_of_ring [simp]:
  "gf_of 0 = 0" "gf_of 1 = 1" "gf_of (x + y) = gf_of x + gf_of y" "gf_of (x - y) = gf_of x - gf_of y"
  "gf_of (- x) = - gf_of x" "gf_of (x * y) = gf_of x * gf_of y"
  by (transfer, simp add: fe_p_def mod_simps)+

lemma gf_of_power [simp]: "gf_of (x ^ n) = gf_of x ^ n"
  by (induction n) simp_all

lemma gf_of_numeral [simp]: "gf_of (numeral k) = numeral k"
  by (induction k) (simp_all only: numeral.simps gf_of_ring)

section \<open>Limbs as elements\<close>

definition gf :: "FieldElement \<Rightarrow> gf25519" where "gf f = gf_of (fe_val f)"

text \<open>
  \<open>rep k f x\<close>: the limbs of \<open>f\<close> are at most \<open>k\<close> times those of a reduced element, and \<open>f\<close> stands for \<open>x\<close>.
  Products take arguments up to \<open>k = 3\<close> and give \<open>k = 1\<close>; sums and differences add the multiples.
\<close>

definition rep :: "int \<Rightarrow> FieldElement \<Rightarrow> gf25519 \<Rightarrow> bool" where
  "rep k f x \<longleftrightarrow> fe_within (k * tight) f \<and> gf f = x"

lemma rep_loose: "rep k f x \<Longrightarrow> k \<le> 3 \<Longrightarrow> fe_within loose f"
  unfolding rep_def by (auto elim: fe_within_mono simp: tight_def loose_def)

lemma rep_gf: "fe_within tight f \<Longrightarrow> rep 1 f (gf f)"
  by (simp add: rep_def)

lemma gf_mul: "fe_within loose f \<Longrightarrow> fe_within loose g \<Longrightarrow> gf (FeMul f g) = gf f * gf g"
  unfolding gf_def gf_of_ring(6) [symmetric] gf_of_eq by (rule conjunct2 [OF FeMul_within])

lemma rep_mul: "rep j f x \<Longrightarrow> rep k g y \<Longrightarrow> j \<le> 3 \<Longrightarrow> k \<le> 3 \<Longrightarrow> rep 1 (FeMul f g) (x * y)"
  using FeMul_within [OF rep_loose rep_loose, of j f x k g y] gf_mul [OF rep_loose rep_loose, of j f x k g y]
  by (simp add: rep_def)

lemma rep_sq: "rep k f x \<Longrightarrow> k \<le> 3 \<Longrightarrow> rep 1 (FeSquare f) (x * x)"
  using rep_mul [of k f x k f x] FeSquare_eq [OF rep_loose, of k f x] by simp

lemma rep_sq2: "rep k f x \<Longrightarrow> k \<le> 3 \<Longrightarrow> rep 1 (FeSquare2 f) (2 * (x * x))"
  using FeSquare2_within [OF rep_loose, of k f x]
  by (auto simp: rep_def gf_def gf_of_ring(6) [symmetric] gf_of_numeral [symmetric] gf_of_eq
      simp del: gf_of_ring gf_of_numeral)

lemma rep_add: "rep j f x \<Longrightarrow> rep k g y \<Longrightarrow> j + k \<le> 6 \<Longrightarrow> rep (j + k) (FeAdd f g) (x + y)"
  using FeAdd_correct [of "j * tight" f "k * tight" g] by (simp add: rep_def gf_def tight_def distrib_right)

lemma rep_sub: "rep j f x \<Longrightarrow> rep k g y \<Longrightarrow> j + k \<le> 6 \<Longrightarrow> rep (j + k) (FeSub f g) (x - y)"
  using FeSub_correct [of "j * tight" f "k * tight" g] by (simp add: rep_def gf_def tight_def distrib_right)

lemma rep_neg: "rep k f x \<Longrightarrow> k \<le> 3 \<Longrightarrow> rep k (FeNeg f) (- x)"
  using FeNeg_correct [of "k * tight" f] by (auto simp: rep_def gf_def tight_def)

lemma rep_constants: "rep 1 FeZero 0" "rep 1 FeOne 1"
  by (simp_all add: rep_def gf_def fe_within_def limbs_within_def bounded_by_def tight_def FeZero_def FeOne_def
      fe_val_def limb_sum_def)

lemma rep_power: "fe_power z n f \<Longrightarrow> gf f = gf z ^ n"
  by (simp add: fe_power_def gf_def gf_of_power [symmetric] gf_of_eq del: gf_of_power)

text \<open>The canonical integer of an element, and its encoding.\<close>

lift_definition gf_int :: "gf25519 \<Rightarrow> int" is "\<lambda>x. x" .

lemma gf_int_of [simp]: "gf_int (gf_of x) = x mod fe_p"
  by transfer simp

lemma gf_of_int [simp]: "gf_of (gf_int x) = x"
  by transfer simp

lemma gf_int_range: "0 \<le> gf_int x" "gf_int x < fe_p"
  by (transfer; simp)+

lemma gf_int_inj: "gf_int x = gf_int y \<longleftrightarrow> x = y"
  by transfer simp

lemma gf_int_gf: "gf_int (gf f) = fe_val f mod fe_p"
  by (simp add: gf_def)

lemma gf_int_minus: "gf_int (- x) = (if x = 0 then 0 else fe_p - gf_int x)"
  by transfer (simp add: zmod_zminus1_eq_if)

lemma rep_to_bytes: "rep k f x \<Longrightarrow> k \<le> 3 \<Longrightarrow> fst (FeToBytes f) = le_bytes 32 (gf_int x)"
  using FeToBytes_result(1) [OF rep_loose, of k f x] by (auto simp: rep_def gf_int_gf)

text \<open>The functions that encode their argument leave a reduced element, of twice the bound of a product.\<close>

lemma rep_reduced:
  assumes "rep k f x" and "k \<le> 3"
  shows "rep 2 (snd (FeToBytes f)) x" and "rep 2 (snd (FeIsNegative f)) x" and "rep 2 (snd (FeIsNonZero f)) x"
proof -
  note l = rep_loose [OF assms]
  have r: "rep 2 g x" if "fe_val g = fe_val f mod fe_p" "fe_within (2 ^ 25) g" for g
    using that fe_within_mono [of "2 ^ 25" g "2 * tight"] assms(1)
    by (auto simp: rep_def gf_def gf_of_eq tight_def)
  show "rep 2 (snd (FeToBytes f)) x" by (rule r [OF FeToBytes_result(2,3) [OF l]])
  show "rep 2 (snd (FeIsNegative f)) x" by (rule r [OF FeIsNegative_result(2,3) [OF l]])
  show "rep 2 (snd (FeIsNonZero f)) x" by (rule r [OF FeIsNonZero_result(2,3) [OF l]])
qed

lemma rep_is_negative: "rep k f x \<Longrightarrow> k \<le> 3 \<Longrightarrow> fst (FeIsNegative f) = word_of_int (gf_int x mod 2)"
  using FeIsNegative_result(1) [OF rep_loose, of k f x] by (auto simp: rep_def gf_int_gf)

lemma rep_is_nonzero: "rep k f x \<Longrightarrow> k \<le> 3 \<Longrightarrow> fst (FeIsNonZero f) = 1 \<longleftrightarrow> x \<noteq> 0"
  using FeIsNonZero_result(1) [OF rep_loose, of k f x] gf_of_eq [of "fe_val f" 0] by (auto simp: rep_def gf_def)

end
