(* ===== verification/Hex_Digits.thy ===== *)
theory Hex_Digits
  imports Prelude
begin

text \<open>
  Large numbers as lists of hexadecimal digits, the least significant first, made for evaluation by rewriting: one step
  adds two digits, and a product takes the multiples of one factor by the digits from a table. The number certificates
  of the curve (primes, points of the tables, the order of the base point) are checked with them.
\<close>

section \<open>Digits and numbers\<close>

datatype hex = H0 | H1 | H2 | H3 | H4 | H5 | H6 | H7 | H8 | H9 | HA | HB | HC | HD | HE | HF

fun digit :: "hex \<Rightarrow> nat" where
  "digit H0 = 0"
| "digit H1 = 1"
| "digit H2 = 2"
| "digit H3 = 3"
| "digit H4 = 4"
| "digit H5 = 5"
| "digit H6 = 6"
| "digit H7 = 7"
| "digit H8 = 8"
| "digit H9 = 9"
| "digit HA = 10"
| "digit HB = 11"
| "digit HC = 12"
| "digit HD = 13"
| "digit HE = 14"
| "digit HF = 15"

definition hex_of :: "nat \<Rightarrow> hex" where
  "hex_of n = [H0, H1, H2, H3, H4, H5, H6, H7, H8, H9, HA, HB, HC, HD, HE, HF] ! n"

lemma digit_hex_of: "n < 16 \<Longrightarrow> digit (hex_of n) = n"
proof -
  assume "n < 16"
  then have "n \<in> set [0..<16]" by simp
  then show ?thesis by (simp add: hex_of_def upt_rec) (elim disjE; simp)
qed

lemma digit_less: "digit x < 16"
  by (cases x) simp_all

fun hval :: "hex list \<Rightarrow> nat" where
  "hval [] = 0"
| "hval (x # xs) = digit x + 16 * hval xs"

text \<open>The digits of a numeral, four bits at a time.\<close>

fun hex_num :: "num \<Rightarrow> hex list" where
  "hex_num num.One = [H1]"
| "hex_num (num.Bit0 num.One) = [H2]"
| "hex_num (num.Bit1 num.One) = [H3]"
| "hex_num (num.Bit0 (num.Bit0 num.One)) = [H4]"
| "hex_num (num.Bit1 (num.Bit0 num.One)) = [H5]"
| "hex_num (num.Bit0 (num.Bit1 num.One)) = [H6]"
| "hex_num (num.Bit1 (num.Bit1 num.One)) = [H7]"
| "hex_num (num.Bit0 (num.Bit0 (num.Bit0 num.One))) = [H8]"
| "hex_num (num.Bit1 (num.Bit0 (num.Bit0 num.One))) = [H9]"
| "hex_num (num.Bit0 (num.Bit1 (num.Bit0 num.One))) = [HA]"
| "hex_num (num.Bit1 (num.Bit1 (num.Bit0 num.One))) = [HB]"
| "hex_num (num.Bit0 (num.Bit0 (num.Bit1 num.One))) = [HC]"
| "hex_num (num.Bit1 (num.Bit0 (num.Bit1 num.One))) = [HD]"
| "hex_num (num.Bit0 (num.Bit1 (num.Bit1 num.One))) = [HE]"
| "hex_num (num.Bit1 (num.Bit1 (num.Bit1 num.One))) = [HF]"
| "hex_num (num.Bit0 (num.Bit0 (num.Bit0 (num.Bit0 n)))) = H0 # hex_num n"
| "hex_num (num.Bit1 (num.Bit0 (num.Bit0 (num.Bit0 n)))) = H1 # hex_num n"
| "hex_num (num.Bit0 (num.Bit1 (num.Bit0 (num.Bit0 n)))) = H2 # hex_num n"
| "hex_num (num.Bit1 (num.Bit1 (num.Bit0 (num.Bit0 n)))) = H3 # hex_num n"
| "hex_num (num.Bit0 (num.Bit0 (num.Bit1 (num.Bit0 n)))) = H4 # hex_num n"
| "hex_num (num.Bit1 (num.Bit0 (num.Bit1 (num.Bit0 n)))) = H5 # hex_num n"
| "hex_num (num.Bit0 (num.Bit1 (num.Bit1 (num.Bit0 n)))) = H6 # hex_num n"
| "hex_num (num.Bit1 (num.Bit1 (num.Bit1 (num.Bit0 n)))) = H7 # hex_num n"
| "hex_num (num.Bit0 (num.Bit0 (num.Bit0 (num.Bit1 n)))) = H8 # hex_num n"
| "hex_num (num.Bit1 (num.Bit0 (num.Bit0 (num.Bit1 n)))) = H9 # hex_num n"
| "hex_num (num.Bit0 (num.Bit1 (num.Bit0 (num.Bit1 n)))) = HA # hex_num n"
| "hex_num (num.Bit1 (num.Bit1 (num.Bit0 (num.Bit1 n)))) = HB # hex_num n"
| "hex_num (num.Bit0 (num.Bit0 (num.Bit1 (num.Bit1 n)))) = HC # hex_num n"
| "hex_num (num.Bit1 (num.Bit0 (num.Bit1 (num.Bit1 n)))) = HD # hex_num n"
| "hex_num (num.Bit0 (num.Bit1 (num.Bit1 (num.Bit1 n)))) = HE # hex_num n"
| "hex_num (num.Bit1 (num.Bit1 (num.Bit1 (num.Bit1 n)))) = HF # hex_num n"

lemma hval_hex_num: "hval (hex_num n) = numeral n"
proof -
  have "hval (hex_num n) = nat_of_num n" by (induction n rule: hex_num.induct) simp_all
  then show ?thesis by (simp only: nat_of_num_numeral)
qed

text \<open>The digits of an integer that is not negative.\<close>

definition hx :: "int \<Rightarrow> hex list" where
  "hx k = (if 0 < k then hex_num (num_of_nat (nat k)) else [])"

lemma hx_rules: "hx (numeral n) = hex_num n" "hx 1 = [H1]" "hx 0 = []"
  by (simp_all add: hx_def num_of_nat_numeral_eq num_of_nat.simps(2) [of 0] del: num_of_nat.simps)

lemma hval_hx: "0 \<le> k \<Longrightarrow> int (hval (hx k)) = k"
  by (auto simp: hx_def hval_hex_num numeral_num_of_nat)

section \<open>Sums\<close>

fun hadd :: "bool \<Rightarrow> hex list \<Rightarrow> hex list \<Rightarrow> hex list" where
  "hadd c (x # xs) (y # ys) = (let n = digit x + digit y + of_bool c in hex_of (n mod 16) # hadd (16 \<le> n) xs ys)"
| "hadd c [] [] = (if c then [H1] else [])"
| "hadd c (x # xs) [] = (if c then let n = digit x + 1 in hex_of (n mod 16) # hadd (16 \<le> n) xs [] else x # xs)"
| "hadd c [] (y # ys) = (if c then let n = digit y + 1 in hex_of (n mod 16) # hadd (16 \<le> n) [] ys else y # ys)"

lemma carry_split: "(n :: nat) < 32 \<Longrightarrow> n mod 16 + 16 * of_bool (16 \<le> n) = n"
  by (cases "16 \<le> n") (auto simp: mod_if)

lemma hval_hadd: "hval (hadd c xs ys) = hval xs + hval ys + of_bool c"
proof (induction c xs ys rule: hadd.induct)
  case (1 c x xs y ys)
  have "digit x + digit y + of_bool c < 32" using digit_less [of x] digit_less [of y] by (cases c) simp_all
  from carry_split [OF this] 1 show ?case by (simp add: Let_def digit_hex_of)
next
  case (3 c x xs)
  have "digit x + 1 < 32" using digit_less [of x] by simp
  from carry_split [OF this] 3 show ?case by (simp add: Let_def digit_hex_of)
next
  case (4 c y ys)
  have "digit y + 1 < 32" using digit_less [of y] by simp
  from carry_split [OF this] 4 show ?case by (simp add: Let_def digit_hex_of)
qed simp

text \<open>The table of sums of two digits and a carry, the rules that evaluate \<^const>\<open>hadd\<close>.\<close>

lemma hadd_plain:
  "hadd False (H0 # xs) (H0 # ys) = H0 # hadd False xs ys"    "hadd False (H0 # xs) (H1 # ys) = H1 # hadd False xs ys"
  "hadd False (H0 # xs) (H2 # ys) = H2 # hadd False xs ys"    "hadd False (H0 # xs) (H3 # ys) = H3 # hadd False xs ys"
  "hadd False (H0 # xs) (H4 # ys) = H4 # hadd False xs ys"    "hadd False (H0 # xs) (H5 # ys) = H5 # hadd False xs ys"
  "hadd False (H0 # xs) (H6 # ys) = H6 # hadd False xs ys"    "hadd False (H0 # xs) (H7 # ys) = H7 # hadd False xs ys"
  "hadd False (H0 # xs) (H8 # ys) = H8 # hadd False xs ys"    "hadd False (H0 # xs) (H9 # ys) = H9 # hadd False xs ys"
  "hadd False (H0 # xs) (HA # ys) = HA # hadd False xs ys"    "hadd False (H0 # xs) (HB # ys) = HB # hadd False xs ys"
  "hadd False (H0 # xs) (HC # ys) = HC # hadd False xs ys"    "hadd False (H0 # xs) (HD # ys) = HD # hadd False xs ys"
  "hadd False (H0 # xs) (HE # ys) = HE # hadd False xs ys"    "hadd False (H0 # xs) (HF # ys) = HF # hadd False xs ys"
  "hadd False (H1 # xs) (H0 # ys) = H1 # hadd False xs ys"    "hadd False (H1 # xs) (H1 # ys) = H2 # hadd False xs ys"
  "hadd False (H1 # xs) (H2 # ys) = H3 # hadd False xs ys"    "hadd False (H1 # xs) (H3 # ys) = H4 # hadd False xs ys"
  "hadd False (H1 # xs) (H4 # ys) = H5 # hadd False xs ys"    "hadd False (H1 # xs) (H5 # ys) = H6 # hadd False xs ys"
  "hadd False (H1 # xs) (H6 # ys) = H7 # hadd False xs ys"    "hadd False (H1 # xs) (H7 # ys) = H8 # hadd False xs ys"
  "hadd False (H1 # xs) (H8 # ys) = H9 # hadd False xs ys"    "hadd False (H1 # xs) (H9 # ys) = HA # hadd False xs ys"
  "hadd False (H1 # xs) (HA # ys) = HB # hadd False xs ys"    "hadd False (H1 # xs) (HB # ys) = HC # hadd False xs ys"
  "hadd False (H1 # xs) (HC # ys) = HD # hadd False xs ys"    "hadd False (H1 # xs) (HD # ys) = HE # hadd False xs ys"
  "hadd False (H1 # xs) (HE # ys) = HF # hadd False xs ys"    "hadd False (H1 # xs) (HF # ys) = H0 # hadd True xs ys"
  "hadd False (H2 # xs) (H0 # ys) = H2 # hadd False xs ys"    "hadd False (H2 # xs) (H1 # ys) = H3 # hadd False xs ys"
  "hadd False (H2 # xs) (H2 # ys) = H4 # hadd False xs ys"    "hadd False (H2 # xs) (H3 # ys) = H5 # hadd False xs ys"
  "hadd False (H2 # xs) (H4 # ys) = H6 # hadd False xs ys"    "hadd False (H2 # xs) (H5 # ys) = H7 # hadd False xs ys"
  "hadd False (H2 # xs) (H6 # ys) = H8 # hadd False xs ys"    "hadd False (H2 # xs) (H7 # ys) = H9 # hadd False xs ys"
  "hadd False (H2 # xs) (H8 # ys) = HA # hadd False xs ys"    "hadd False (H2 # xs) (H9 # ys) = HB # hadd False xs ys"
  "hadd False (H2 # xs) (HA # ys) = HC # hadd False xs ys"    "hadd False (H2 # xs) (HB # ys) = HD # hadd False xs ys"
  "hadd False (H2 # xs) (HC # ys) = HE # hadd False xs ys"    "hadd False (H2 # xs) (HD # ys) = HF # hadd False xs ys"
  "hadd False (H2 # xs) (HE # ys) = H0 # hadd True xs ys"    "hadd False (H2 # xs) (HF # ys) = H1 # hadd True xs ys"
  "hadd False (H3 # xs) (H0 # ys) = H3 # hadd False xs ys"    "hadd False (H3 # xs) (H1 # ys) = H4 # hadd False xs ys"
  "hadd False (H3 # xs) (H2 # ys) = H5 # hadd False xs ys"    "hadd False (H3 # xs) (H3 # ys) = H6 # hadd False xs ys"
  "hadd False (H3 # xs) (H4 # ys) = H7 # hadd False xs ys"    "hadd False (H3 # xs) (H5 # ys) = H8 # hadd False xs ys"
  "hadd False (H3 # xs) (H6 # ys) = H9 # hadd False xs ys"    "hadd False (H3 # xs) (H7 # ys) = HA # hadd False xs ys"
  "hadd False (H3 # xs) (H8 # ys) = HB # hadd False xs ys"    "hadd False (H3 # xs) (H9 # ys) = HC # hadd False xs ys"
  "hadd False (H3 # xs) (HA # ys) = HD # hadd False xs ys"    "hadd False (H3 # xs) (HB # ys) = HE # hadd False xs ys"
  "hadd False (H3 # xs) (HC # ys) = HF # hadd False xs ys"    "hadd False (H3 # xs) (HD # ys) = H0 # hadd True xs ys"
  "hadd False (H3 # xs) (HE # ys) = H1 # hadd True xs ys"    "hadd False (H3 # xs) (HF # ys) = H2 # hadd True xs ys"
  "hadd False (H4 # xs) (H0 # ys) = H4 # hadd False xs ys"    "hadd False (H4 # xs) (H1 # ys) = H5 # hadd False xs ys"
  "hadd False (H4 # xs) (H2 # ys) = H6 # hadd False xs ys"    "hadd False (H4 # xs) (H3 # ys) = H7 # hadd False xs ys"
  "hadd False (H4 # xs) (H4 # ys) = H8 # hadd False xs ys"    "hadd False (H4 # xs) (H5 # ys) = H9 # hadd False xs ys"
  "hadd False (H4 # xs) (H6 # ys) = HA # hadd False xs ys"    "hadd False (H4 # xs) (H7 # ys) = HB # hadd False xs ys"
  "hadd False (H4 # xs) (H8 # ys) = HC # hadd False xs ys"    "hadd False (H4 # xs) (H9 # ys) = HD # hadd False xs ys"
  "hadd False (H4 # xs) (HA # ys) = HE # hadd False xs ys"    "hadd False (H4 # xs) (HB # ys) = HF # hadd False xs ys"
  "hadd False (H4 # xs) (HC # ys) = H0 # hadd True xs ys"    "hadd False (H4 # xs) (HD # ys) = H1 # hadd True xs ys"
  "hadd False (H4 # xs) (HE # ys) = H2 # hadd True xs ys"    "hadd False (H4 # xs) (HF # ys) = H3 # hadd True xs ys"
  "hadd False (H5 # xs) (H0 # ys) = H5 # hadd False xs ys"    "hadd False (H5 # xs) (H1 # ys) = H6 # hadd False xs ys"
  "hadd False (H5 # xs) (H2 # ys) = H7 # hadd False xs ys"    "hadd False (H5 # xs) (H3 # ys) = H8 # hadd False xs ys"
  "hadd False (H5 # xs) (H4 # ys) = H9 # hadd False xs ys"    "hadd False (H5 # xs) (H5 # ys) = HA # hadd False xs ys"
  "hadd False (H5 # xs) (H6 # ys) = HB # hadd False xs ys"    "hadd False (H5 # xs) (H7 # ys) = HC # hadd False xs ys"
  "hadd False (H5 # xs) (H8 # ys) = HD # hadd False xs ys"    "hadd False (H5 # xs) (H9 # ys) = HE # hadd False xs ys"
  "hadd False (H5 # xs) (HA # ys) = HF # hadd False xs ys"    "hadd False (H5 # xs) (HB # ys) = H0 # hadd True xs ys"
  "hadd False (H5 # xs) (HC # ys) = H1 # hadd True xs ys"    "hadd False (H5 # xs) (HD # ys) = H2 # hadd True xs ys"
  "hadd False (H5 # xs) (HE # ys) = H3 # hadd True xs ys"    "hadd False (H5 # xs) (HF # ys) = H4 # hadd True xs ys"
  "hadd False (H6 # xs) (H0 # ys) = H6 # hadd False xs ys"    "hadd False (H6 # xs) (H1 # ys) = H7 # hadd False xs ys"
  "hadd False (H6 # xs) (H2 # ys) = H8 # hadd False xs ys"    "hadd False (H6 # xs) (H3 # ys) = H9 # hadd False xs ys"
  "hadd False (H6 # xs) (H4 # ys) = HA # hadd False xs ys"    "hadd False (H6 # xs) (H5 # ys) = HB # hadd False xs ys"
  "hadd False (H6 # xs) (H6 # ys) = HC # hadd False xs ys"    "hadd False (H6 # xs) (H7 # ys) = HD # hadd False xs ys"
  "hadd False (H6 # xs) (H8 # ys) = HE # hadd False xs ys"    "hadd False (H6 # xs) (H9 # ys) = HF # hadd False xs ys"
  "hadd False (H6 # xs) (HA # ys) = H0 # hadd True xs ys"    "hadd False (H6 # xs) (HB # ys) = H1 # hadd True xs ys"
  "hadd False (H6 # xs) (HC # ys) = H2 # hadd True xs ys"    "hadd False (H6 # xs) (HD # ys) = H3 # hadd True xs ys"
  "hadd False (H6 # xs) (HE # ys) = H4 # hadd True xs ys"    "hadd False (H6 # xs) (HF # ys) = H5 # hadd True xs ys"
  "hadd False (H7 # xs) (H0 # ys) = H7 # hadd False xs ys"    "hadd False (H7 # xs) (H1 # ys) = H8 # hadd False xs ys"
  "hadd False (H7 # xs) (H2 # ys) = H9 # hadd False xs ys"    "hadd False (H7 # xs) (H3 # ys) = HA # hadd False xs ys"
  "hadd False (H7 # xs) (H4 # ys) = HB # hadd False xs ys"    "hadd False (H7 # xs) (H5 # ys) = HC # hadd False xs ys"
  "hadd False (H7 # xs) (H6 # ys) = HD # hadd False xs ys"    "hadd False (H7 # xs) (H7 # ys) = HE # hadd False xs ys"
  "hadd False (H7 # xs) (H8 # ys) = HF # hadd False xs ys"    "hadd False (H7 # xs) (H9 # ys) = H0 # hadd True xs ys"
  "hadd False (H7 # xs) (HA # ys) = H1 # hadd True xs ys"    "hadd False (H7 # xs) (HB # ys) = H2 # hadd True xs ys"
  "hadd False (H7 # xs) (HC # ys) = H3 # hadd True xs ys"    "hadd False (H7 # xs) (HD # ys) = H4 # hadd True xs ys"
  "hadd False (H7 # xs) (HE # ys) = H5 # hadd True xs ys"    "hadd False (H7 # xs) (HF # ys) = H6 # hadd True xs ys"
  "hadd False (H8 # xs) (H0 # ys) = H8 # hadd False xs ys"    "hadd False (H8 # xs) (H1 # ys) = H9 # hadd False xs ys"
  "hadd False (H8 # xs) (H2 # ys) = HA # hadd False xs ys"    "hadd False (H8 # xs) (H3 # ys) = HB # hadd False xs ys"
  "hadd False (H8 # xs) (H4 # ys) = HC # hadd False xs ys"    "hadd False (H8 # xs) (H5 # ys) = HD # hadd False xs ys"
  "hadd False (H8 # xs) (H6 # ys) = HE # hadd False xs ys"    "hadd False (H8 # xs) (H7 # ys) = HF # hadd False xs ys"
  "hadd False (H8 # xs) (H8 # ys) = H0 # hadd True xs ys"    "hadd False (H8 # xs) (H9 # ys) = H1 # hadd True xs ys"
  "hadd False (H8 # xs) (HA # ys) = H2 # hadd True xs ys"    "hadd False (H8 # xs) (HB # ys) = H3 # hadd True xs ys"
  "hadd False (H8 # xs) (HC # ys) = H4 # hadd True xs ys"    "hadd False (H8 # xs) (HD # ys) = H5 # hadd True xs ys"
  "hadd False (H8 # xs) (HE # ys) = H6 # hadd True xs ys"    "hadd False (H8 # xs) (HF # ys) = H7 # hadd True xs ys"
  "hadd False (H9 # xs) (H0 # ys) = H9 # hadd False xs ys"    "hadd False (H9 # xs) (H1 # ys) = HA # hadd False xs ys"
  "hadd False (H9 # xs) (H2 # ys) = HB # hadd False xs ys"    "hadd False (H9 # xs) (H3 # ys) = HC # hadd False xs ys"
  "hadd False (H9 # xs) (H4 # ys) = HD # hadd False xs ys"    "hadd False (H9 # xs) (H5 # ys) = HE # hadd False xs ys"
  "hadd False (H9 # xs) (H6 # ys) = HF # hadd False xs ys"    "hadd False (H9 # xs) (H7 # ys) = H0 # hadd True xs ys"
  "hadd False (H9 # xs) (H8 # ys) = H1 # hadd True xs ys"    "hadd False (H9 # xs) (H9 # ys) = H2 # hadd True xs ys"
  "hadd False (H9 # xs) (HA # ys) = H3 # hadd True xs ys"    "hadd False (H9 # xs) (HB # ys) = H4 # hadd True xs ys"
  "hadd False (H9 # xs) (HC # ys) = H5 # hadd True xs ys"    "hadd False (H9 # xs) (HD # ys) = H6 # hadd True xs ys"
  "hadd False (H9 # xs) (HE # ys) = H7 # hadd True xs ys"    "hadd False (H9 # xs) (HF # ys) = H8 # hadd True xs ys"
  "hadd False (HA # xs) (H0 # ys) = HA # hadd False xs ys"    "hadd False (HA # xs) (H1 # ys) = HB # hadd False xs ys"
  "hadd False (HA # xs) (H2 # ys) = HC # hadd False xs ys"    "hadd False (HA # xs) (H3 # ys) = HD # hadd False xs ys"
  "hadd False (HA # xs) (H4 # ys) = HE # hadd False xs ys"    "hadd False (HA # xs) (H5 # ys) = HF # hadd False xs ys"
  "hadd False (HA # xs) (H6 # ys) = H0 # hadd True xs ys"    "hadd False (HA # xs) (H7 # ys) = H1 # hadd True xs ys"
  "hadd False (HA # xs) (H8 # ys) = H2 # hadd True xs ys"    "hadd False (HA # xs) (H9 # ys) = H3 # hadd True xs ys"
  "hadd False (HA # xs) (HA # ys) = H4 # hadd True xs ys"    "hadd False (HA # xs) (HB # ys) = H5 # hadd True xs ys"
  "hadd False (HA # xs) (HC # ys) = H6 # hadd True xs ys"    "hadd False (HA # xs) (HD # ys) = H7 # hadd True xs ys"
  "hadd False (HA # xs) (HE # ys) = H8 # hadd True xs ys"    "hadd False (HA # xs) (HF # ys) = H9 # hadd True xs ys"
  "hadd False (HB # xs) (H0 # ys) = HB # hadd False xs ys"    "hadd False (HB # xs) (H1 # ys) = HC # hadd False xs ys"
  "hadd False (HB # xs) (H2 # ys) = HD # hadd False xs ys"    "hadd False (HB # xs) (H3 # ys) = HE # hadd False xs ys"
  "hadd False (HB # xs) (H4 # ys) = HF # hadd False xs ys"    "hadd False (HB # xs) (H5 # ys) = H0 # hadd True xs ys"
  "hadd False (HB # xs) (H6 # ys) = H1 # hadd True xs ys"    "hadd False (HB # xs) (H7 # ys) = H2 # hadd True xs ys"
  "hadd False (HB # xs) (H8 # ys) = H3 # hadd True xs ys"    "hadd False (HB # xs) (H9 # ys) = H4 # hadd True xs ys"
  "hadd False (HB # xs) (HA # ys) = H5 # hadd True xs ys"    "hadd False (HB # xs) (HB # ys) = H6 # hadd True xs ys"
  "hadd False (HB # xs) (HC # ys) = H7 # hadd True xs ys"    "hadd False (HB # xs) (HD # ys) = H8 # hadd True xs ys"
  "hadd False (HB # xs) (HE # ys) = H9 # hadd True xs ys"    "hadd False (HB # xs) (HF # ys) = HA # hadd True xs ys"
  "hadd False (HC # xs) (H0 # ys) = HC # hadd False xs ys"    "hadd False (HC # xs) (H1 # ys) = HD # hadd False xs ys"
  "hadd False (HC # xs) (H2 # ys) = HE # hadd False xs ys"    "hadd False (HC # xs) (H3 # ys) = HF # hadd False xs ys"
  "hadd False (HC # xs) (H4 # ys) = H0 # hadd True xs ys"    "hadd False (HC # xs) (H5 # ys) = H1 # hadd True xs ys"
  "hadd False (HC # xs) (H6 # ys) = H2 # hadd True xs ys"    "hadd False (HC # xs) (H7 # ys) = H3 # hadd True xs ys"
  "hadd False (HC # xs) (H8 # ys) = H4 # hadd True xs ys"    "hadd False (HC # xs) (H9 # ys) = H5 # hadd True xs ys"
  "hadd False (HC # xs) (HA # ys) = H6 # hadd True xs ys"    "hadd False (HC # xs) (HB # ys) = H7 # hadd True xs ys"
  "hadd False (HC # xs) (HC # ys) = H8 # hadd True xs ys"    "hadd False (HC # xs) (HD # ys) = H9 # hadd True xs ys"
  "hadd False (HC # xs) (HE # ys) = HA # hadd True xs ys"    "hadd False (HC # xs) (HF # ys) = HB # hadd True xs ys"
  "hadd False (HD # xs) (H0 # ys) = HD # hadd False xs ys"    "hadd False (HD # xs) (H1 # ys) = HE # hadd False xs ys"
  "hadd False (HD # xs) (H2 # ys) = HF # hadd False xs ys"    "hadd False (HD # xs) (H3 # ys) = H0 # hadd True xs ys"
  "hadd False (HD # xs) (H4 # ys) = H1 # hadd True xs ys"    "hadd False (HD # xs) (H5 # ys) = H2 # hadd True xs ys"
  "hadd False (HD # xs) (H6 # ys) = H3 # hadd True xs ys"    "hadd False (HD # xs) (H7 # ys) = H4 # hadd True xs ys"
  "hadd False (HD # xs) (H8 # ys) = H5 # hadd True xs ys"    "hadd False (HD # xs) (H9 # ys) = H6 # hadd True xs ys"
  "hadd False (HD # xs) (HA # ys) = H7 # hadd True xs ys"    "hadd False (HD # xs) (HB # ys) = H8 # hadd True xs ys"
  "hadd False (HD # xs) (HC # ys) = H9 # hadd True xs ys"    "hadd False (HD # xs) (HD # ys) = HA # hadd True xs ys"
  "hadd False (HD # xs) (HE # ys) = HB # hadd True xs ys"    "hadd False (HD # xs) (HF # ys) = HC # hadd True xs ys"
  "hadd False (HE # xs) (H0 # ys) = HE # hadd False xs ys"    "hadd False (HE # xs) (H1 # ys) = HF # hadd False xs ys"
  "hadd False (HE # xs) (H2 # ys) = H0 # hadd True xs ys"    "hadd False (HE # xs) (H3 # ys) = H1 # hadd True xs ys"
  "hadd False (HE # xs) (H4 # ys) = H2 # hadd True xs ys"    "hadd False (HE # xs) (H5 # ys) = H3 # hadd True xs ys"
  "hadd False (HE # xs) (H6 # ys) = H4 # hadd True xs ys"    "hadd False (HE # xs) (H7 # ys) = H5 # hadd True xs ys"
  "hadd False (HE # xs) (H8 # ys) = H6 # hadd True xs ys"    "hadd False (HE # xs) (H9 # ys) = H7 # hadd True xs ys"
  "hadd False (HE # xs) (HA # ys) = H8 # hadd True xs ys"    "hadd False (HE # xs) (HB # ys) = H9 # hadd True xs ys"
  "hadd False (HE # xs) (HC # ys) = HA # hadd True xs ys"    "hadd False (HE # xs) (HD # ys) = HB # hadd True xs ys"
  "hadd False (HE # xs) (HE # ys) = HC # hadd True xs ys"    "hadd False (HE # xs) (HF # ys) = HD # hadd True xs ys"
  "hadd False (HF # xs) (H0 # ys) = HF # hadd False xs ys"    "hadd False (HF # xs) (H1 # ys) = H0 # hadd True xs ys"
  "hadd False (HF # xs) (H2 # ys) = H1 # hadd True xs ys"    "hadd False (HF # xs) (H3 # ys) = H2 # hadd True xs ys"
  "hadd False (HF # xs) (H4 # ys) = H3 # hadd True xs ys"    "hadd False (HF # xs) (H5 # ys) = H4 # hadd True xs ys"
  "hadd False (HF # xs) (H6 # ys) = H5 # hadd True xs ys"    "hadd False (HF # xs) (H7 # ys) = H6 # hadd True xs ys"
  "hadd False (HF # xs) (H8 # ys) = H7 # hadd True xs ys"    "hadd False (HF # xs) (H9 # ys) = H8 # hadd True xs ys"
  "hadd False (HF # xs) (HA # ys) = H9 # hadd True xs ys"    "hadd False (HF # xs) (HB # ys) = HA # hadd True xs ys"
  "hadd False (HF # xs) (HC # ys) = HB # hadd True xs ys"    "hadd False (HF # xs) (HD # ys) = HC # hadd True xs ys"
  "hadd False (HF # xs) (HE # ys) = HD # hadd True xs ys"    "hadd False (HF # xs) (HF # ys) = HE # hadd True xs ys"
  by (simp_all add: hex_of_def)

lemma hadd_carry:
  "hadd True (H0 # xs) (H0 # ys) = H1 # hadd False xs ys"    "hadd True (H0 # xs) (H1 # ys) = H2 # hadd False xs ys"
  "hadd True (H0 # xs) (H2 # ys) = H3 # hadd False xs ys"    "hadd True (H0 # xs) (H3 # ys) = H4 # hadd False xs ys"
  "hadd True (H0 # xs) (H4 # ys) = H5 # hadd False xs ys"    "hadd True (H0 # xs) (H5 # ys) = H6 # hadd False xs ys"
  "hadd True (H0 # xs) (H6 # ys) = H7 # hadd False xs ys"    "hadd True (H0 # xs) (H7 # ys) = H8 # hadd False xs ys"
  "hadd True (H0 # xs) (H8 # ys) = H9 # hadd False xs ys"    "hadd True (H0 # xs) (H9 # ys) = HA # hadd False xs ys"
  "hadd True (H0 # xs) (HA # ys) = HB # hadd False xs ys"    "hadd True (H0 # xs) (HB # ys) = HC # hadd False xs ys"
  "hadd True (H0 # xs) (HC # ys) = HD # hadd False xs ys"    "hadd True (H0 # xs) (HD # ys) = HE # hadd False xs ys"
  "hadd True (H0 # xs) (HE # ys) = HF # hadd False xs ys"    "hadd True (H0 # xs) (HF # ys) = H0 # hadd True xs ys"
  "hadd True (H1 # xs) (H0 # ys) = H2 # hadd False xs ys"    "hadd True (H1 # xs) (H1 # ys) = H3 # hadd False xs ys"
  "hadd True (H1 # xs) (H2 # ys) = H4 # hadd False xs ys"    "hadd True (H1 # xs) (H3 # ys) = H5 # hadd False xs ys"
  "hadd True (H1 # xs) (H4 # ys) = H6 # hadd False xs ys"    "hadd True (H1 # xs) (H5 # ys) = H7 # hadd False xs ys"
  "hadd True (H1 # xs) (H6 # ys) = H8 # hadd False xs ys"    "hadd True (H1 # xs) (H7 # ys) = H9 # hadd False xs ys"
  "hadd True (H1 # xs) (H8 # ys) = HA # hadd False xs ys"    "hadd True (H1 # xs) (H9 # ys) = HB # hadd False xs ys"
  "hadd True (H1 # xs) (HA # ys) = HC # hadd False xs ys"    "hadd True (H1 # xs) (HB # ys) = HD # hadd False xs ys"
  "hadd True (H1 # xs) (HC # ys) = HE # hadd False xs ys"    "hadd True (H1 # xs) (HD # ys) = HF # hadd False xs ys"
  "hadd True (H1 # xs) (HE # ys) = H0 # hadd True xs ys"    "hadd True (H1 # xs) (HF # ys) = H1 # hadd True xs ys"
  "hadd True (H2 # xs) (H0 # ys) = H3 # hadd False xs ys"    "hadd True (H2 # xs) (H1 # ys) = H4 # hadd False xs ys"
  "hadd True (H2 # xs) (H2 # ys) = H5 # hadd False xs ys"    "hadd True (H2 # xs) (H3 # ys) = H6 # hadd False xs ys"
  "hadd True (H2 # xs) (H4 # ys) = H7 # hadd False xs ys"    "hadd True (H2 # xs) (H5 # ys) = H8 # hadd False xs ys"
  "hadd True (H2 # xs) (H6 # ys) = H9 # hadd False xs ys"    "hadd True (H2 # xs) (H7 # ys) = HA # hadd False xs ys"
  "hadd True (H2 # xs) (H8 # ys) = HB # hadd False xs ys"    "hadd True (H2 # xs) (H9 # ys) = HC # hadd False xs ys"
  "hadd True (H2 # xs) (HA # ys) = HD # hadd False xs ys"    "hadd True (H2 # xs) (HB # ys) = HE # hadd False xs ys"
  "hadd True (H2 # xs) (HC # ys) = HF # hadd False xs ys"    "hadd True (H2 # xs) (HD # ys) = H0 # hadd True xs ys"
  "hadd True (H2 # xs) (HE # ys) = H1 # hadd True xs ys"    "hadd True (H2 # xs) (HF # ys) = H2 # hadd True xs ys"
  "hadd True (H3 # xs) (H0 # ys) = H4 # hadd False xs ys"    "hadd True (H3 # xs) (H1 # ys) = H5 # hadd False xs ys"
  "hadd True (H3 # xs) (H2 # ys) = H6 # hadd False xs ys"    "hadd True (H3 # xs) (H3 # ys) = H7 # hadd False xs ys"
  "hadd True (H3 # xs) (H4 # ys) = H8 # hadd False xs ys"    "hadd True (H3 # xs) (H5 # ys) = H9 # hadd False xs ys"
  "hadd True (H3 # xs) (H6 # ys) = HA # hadd False xs ys"    "hadd True (H3 # xs) (H7 # ys) = HB # hadd False xs ys"
  "hadd True (H3 # xs) (H8 # ys) = HC # hadd False xs ys"    "hadd True (H3 # xs) (H9 # ys) = HD # hadd False xs ys"
  "hadd True (H3 # xs) (HA # ys) = HE # hadd False xs ys"    "hadd True (H3 # xs) (HB # ys) = HF # hadd False xs ys"
  "hadd True (H3 # xs) (HC # ys) = H0 # hadd True xs ys"    "hadd True (H3 # xs) (HD # ys) = H1 # hadd True xs ys"
  "hadd True (H3 # xs) (HE # ys) = H2 # hadd True xs ys"    "hadd True (H3 # xs) (HF # ys) = H3 # hadd True xs ys"
  "hadd True (H4 # xs) (H0 # ys) = H5 # hadd False xs ys"    "hadd True (H4 # xs) (H1 # ys) = H6 # hadd False xs ys"
  "hadd True (H4 # xs) (H2 # ys) = H7 # hadd False xs ys"    "hadd True (H4 # xs) (H3 # ys) = H8 # hadd False xs ys"
  "hadd True (H4 # xs) (H4 # ys) = H9 # hadd False xs ys"    "hadd True (H4 # xs) (H5 # ys) = HA # hadd False xs ys"
  "hadd True (H4 # xs) (H6 # ys) = HB # hadd False xs ys"    "hadd True (H4 # xs) (H7 # ys) = HC # hadd False xs ys"
  "hadd True (H4 # xs) (H8 # ys) = HD # hadd False xs ys"    "hadd True (H4 # xs) (H9 # ys) = HE # hadd False xs ys"
  "hadd True (H4 # xs) (HA # ys) = HF # hadd False xs ys"    "hadd True (H4 # xs) (HB # ys) = H0 # hadd True xs ys"
  "hadd True (H4 # xs) (HC # ys) = H1 # hadd True xs ys"    "hadd True (H4 # xs) (HD # ys) = H2 # hadd True xs ys"
  "hadd True (H4 # xs) (HE # ys) = H3 # hadd True xs ys"    "hadd True (H4 # xs) (HF # ys) = H4 # hadd True xs ys"
  "hadd True (H5 # xs) (H0 # ys) = H6 # hadd False xs ys"    "hadd True (H5 # xs) (H1 # ys) = H7 # hadd False xs ys"
  "hadd True (H5 # xs) (H2 # ys) = H8 # hadd False xs ys"    "hadd True (H5 # xs) (H3 # ys) = H9 # hadd False xs ys"
  "hadd True (H5 # xs) (H4 # ys) = HA # hadd False xs ys"    "hadd True (H5 # xs) (H5 # ys) = HB # hadd False xs ys"
  "hadd True (H5 # xs) (H6 # ys) = HC # hadd False xs ys"    "hadd True (H5 # xs) (H7 # ys) = HD # hadd False xs ys"
  "hadd True (H5 # xs) (H8 # ys) = HE # hadd False xs ys"    "hadd True (H5 # xs) (H9 # ys) = HF # hadd False xs ys"
  "hadd True (H5 # xs) (HA # ys) = H0 # hadd True xs ys"    "hadd True (H5 # xs) (HB # ys) = H1 # hadd True xs ys"
  "hadd True (H5 # xs) (HC # ys) = H2 # hadd True xs ys"    "hadd True (H5 # xs) (HD # ys) = H3 # hadd True xs ys"
  "hadd True (H5 # xs) (HE # ys) = H4 # hadd True xs ys"    "hadd True (H5 # xs) (HF # ys) = H5 # hadd True xs ys"
  "hadd True (H6 # xs) (H0 # ys) = H7 # hadd False xs ys"    "hadd True (H6 # xs) (H1 # ys) = H8 # hadd False xs ys"
  "hadd True (H6 # xs) (H2 # ys) = H9 # hadd False xs ys"    "hadd True (H6 # xs) (H3 # ys) = HA # hadd False xs ys"
  "hadd True (H6 # xs) (H4 # ys) = HB # hadd False xs ys"    "hadd True (H6 # xs) (H5 # ys) = HC # hadd False xs ys"
  "hadd True (H6 # xs) (H6 # ys) = HD # hadd False xs ys"    "hadd True (H6 # xs) (H7 # ys) = HE # hadd False xs ys"
  "hadd True (H6 # xs) (H8 # ys) = HF # hadd False xs ys"    "hadd True (H6 # xs) (H9 # ys) = H0 # hadd True xs ys"
  "hadd True (H6 # xs) (HA # ys) = H1 # hadd True xs ys"    "hadd True (H6 # xs) (HB # ys) = H2 # hadd True xs ys"
  "hadd True (H6 # xs) (HC # ys) = H3 # hadd True xs ys"    "hadd True (H6 # xs) (HD # ys) = H4 # hadd True xs ys"
  "hadd True (H6 # xs) (HE # ys) = H5 # hadd True xs ys"    "hadd True (H6 # xs) (HF # ys) = H6 # hadd True xs ys"
  "hadd True (H7 # xs) (H0 # ys) = H8 # hadd False xs ys"    "hadd True (H7 # xs) (H1 # ys) = H9 # hadd False xs ys"
  "hadd True (H7 # xs) (H2 # ys) = HA # hadd False xs ys"    "hadd True (H7 # xs) (H3 # ys) = HB # hadd False xs ys"
  "hadd True (H7 # xs) (H4 # ys) = HC # hadd False xs ys"    "hadd True (H7 # xs) (H5 # ys) = HD # hadd False xs ys"
  "hadd True (H7 # xs) (H6 # ys) = HE # hadd False xs ys"    "hadd True (H7 # xs) (H7 # ys) = HF # hadd False xs ys"
  "hadd True (H7 # xs) (H8 # ys) = H0 # hadd True xs ys"    "hadd True (H7 # xs) (H9 # ys) = H1 # hadd True xs ys"
  "hadd True (H7 # xs) (HA # ys) = H2 # hadd True xs ys"    "hadd True (H7 # xs) (HB # ys) = H3 # hadd True xs ys"
  "hadd True (H7 # xs) (HC # ys) = H4 # hadd True xs ys"    "hadd True (H7 # xs) (HD # ys) = H5 # hadd True xs ys"
  "hadd True (H7 # xs) (HE # ys) = H6 # hadd True xs ys"    "hadd True (H7 # xs) (HF # ys) = H7 # hadd True xs ys"
  "hadd True (H8 # xs) (H0 # ys) = H9 # hadd False xs ys"    "hadd True (H8 # xs) (H1 # ys) = HA # hadd False xs ys"
  "hadd True (H8 # xs) (H2 # ys) = HB # hadd False xs ys"    "hadd True (H8 # xs) (H3 # ys) = HC # hadd False xs ys"
  "hadd True (H8 # xs) (H4 # ys) = HD # hadd False xs ys"    "hadd True (H8 # xs) (H5 # ys) = HE # hadd False xs ys"
  "hadd True (H8 # xs) (H6 # ys) = HF # hadd False xs ys"    "hadd True (H8 # xs) (H7 # ys) = H0 # hadd True xs ys"
  "hadd True (H8 # xs) (H8 # ys) = H1 # hadd True xs ys"    "hadd True (H8 # xs) (H9 # ys) = H2 # hadd True xs ys"
  "hadd True (H8 # xs) (HA # ys) = H3 # hadd True xs ys"    "hadd True (H8 # xs) (HB # ys) = H4 # hadd True xs ys"
  "hadd True (H8 # xs) (HC # ys) = H5 # hadd True xs ys"    "hadd True (H8 # xs) (HD # ys) = H6 # hadd True xs ys"
  "hadd True (H8 # xs) (HE # ys) = H7 # hadd True xs ys"    "hadd True (H8 # xs) (HF # ys) = H8 # hadd True xs ys"
  "hadd True (H9 # xs) (H0 # ys) = HA # hadd False xs ys"    "hadd True (H9 # xs) (H1 # ys) = HB # hadd False xs ys"
  "hadd True (H9 # xs) (H2 # ys) = HC # hadd False xs ys"    "hadd True (H9 # xs) (H3 # ys) = HD # hadd False xs ys"
  "hadd True (H9 # xs) (H4 # ys) = HE # hadd False xs ys"    "hadd True (H9 # xs) (H5 # ys) = HF # hadd False xs ys"
  "hadd True (H9 # xs) (H6 # ys) = H0 # hadd True xs ys"    "hadd True (H9 # xs) (H7 # ys) = H1 # hadd True xs ys"
  "hadd True (H9 # xs) (H8 # ys) = H2 # hadd True xs ys"    "hadd True (H9 # xs) (H9 # ys) = H3 # hadd True xs ys"
  "hadd True (H9 # xs) (HA # ys) = H4 # hadd True xs ys"    "hadd True (H9 # xs) (HB # ys) = H5 # hadd True xs ys"
  "hadd True (H9 # xs) (HC # ys) = H6 # hadd True xs ys"    "hadd True (H9 # xs) (HD # ys) = H7 # hadd True xs ys"
  "hadd True (H9 # xs) (HE # ys) = H8 # hadd True xs ys"    "hadd True (H9 # xs) (HF # ys) = H9 # hadd True xs ys"
  "hadd True (HA # xs) (H0 # ys) = HB # hadd False xs ys"    "hadd True (HA # xs) (H1 # ys) = HC # hadd False xs ys"
  "hadd True (HA # xs) (H2 # ys) = HD # hadd False xs ys"    "hadd True (HA # xs) (H3 # ys) = HE # hadd False xs ys"
  "hadd True (HA # xs) (H4 # ys) = HF # hadd False xs ys"    "hadd True (HA # xs) (H5 # ys) = H0 # hadd True xs ys"
  "hadd True (HA # xs) (H6 # ys) = H1 # hadd True xs ys"    "hadd True (HA # xs) (H7 # ys) = H2 # hadd True xs ys"
  "hadd True (HA # xs) (H8 # ys) = H3 # hadd True xs ys"    "hadd True (HA # xs) (H9 # ys) = H4 # hadd True xs ys"
  "hadd True (HA # xs) (HA # ys) = H5 # hadd True xs ys"    "hadd True (HA # xs) (HB # ys) = H6 # hadd True xs ys"
  "hadd True (HA # xs) (HC # ys) = H7 # hadd True xs ys"    "hadd True (HA # xs) (HD # ys) = H8 # hadd True xs ys"
  "hadd True (HA # xs) (HE # ys) = H9 # hadd True xs ys"    "hadd True (HA # xs) (HF # ys) = HA # hadd True xs ys"
  "hadd True (HB # xs) (H0 # ys) = HC # hadd False xs ys"    "hadd True (HB # xs) (H1 # ys) = HD # hadd False xs ys"
  "hadd True (HB # xs) (H2 # ys) = HE # hadd False xs ys"    "hadd True (HB # xs) (H3 # ys) = HF # hadd False xs ys"
  "hadd True (HB # xs) (H4 # ys) = H0 # hadd True xs ys"    "hadd True (HB # xs) (H5 # ys) = H1 # hadd True xs ys"
  "hadd True (HB # xs) (H6 # ys) = H2 # hadd True xs ys"    "hadd True (HB # xs) (H7 # ys) = H3 # hadd True xs ys"
  "hadd True (HB # xs) (H8 # ys) = H4 # hadd True xs ys"    "hadd True (HB # xs) (H9 # ys) = H5 # hadd True xs ys"
  "hadd True (HB # xs) (HA # ys) = H6 # hadd True xs ys"    "hadd True (HB # xs) (HB # ys) = H7 # hadd True xs ys"
  "hadd True (HB # xs) (HC # ys) = H8 # hadd True xs ys"    "hadd True (HB # xs) (HD # ys) = H9 # hadd True xs ys"
  "hadd True (HB # xs) (HE # ys) = HA # hadd True xs ys"    "hadd True (HB # xs) (HF # ys) = HB # hadd True xs ys"
  "hadd True (HC # xs) (H0 # ys) = HD # hadd False xs ys"    "hadd True (HC # xs) (H1 # ys) = HE # hadd False xs ys"
  "hadd True (HC # xs) (H2 # ys) = HF # hadd False xs ys"    "hadd True (HC # xs) (H3 # ys) = H0 # hadd True xs ys"
  "hadd True (HC # xs) (H4 # ys) = H1 # hadd True xs ys"    "hadd True (HC # xs) (H5 # ys) = H2 # hadd True xs ys"
  "hadd True (HC # xs) (H6 # ys) = H3 # hadd True xs ys"    "hadd True (HC # xs) (H7 # ys) = H4 # hadd True xs ys"
  "hadd True (HC # xs) (H8 # ys) = H5 # hadd True xs ys"    "hadd True (HC # xs) (H9 # ys) = H6 # hadd True xs ys"
  "hadd True (HC # xs) (HA # ys) = H7 # hadd True xs ys"    "hadd True (HC # xs) (HB # ys) = H8 # hadd True xs ys"
  "hadd True (HC # xs) (HC # ys) = H9 # hadd True xs ys"    "hadd True (HC # xs) (HD # ys) = HA # hadd True xs ys"
  "hadd True (HC # xs) (HE # ys) = HB # hadd True xs ys"    "hadd True (HC # xs) (HF # ys) = HC # hadd True xs ys"
  "hadd True (HD # xs) (H0 # ys) = HE # hadd False xs ys"    "hadd True (HD # xs) (H1 # ys) = HF # hadd False xs ys"
  "hadd True (HD # xs) (H2 # ys) = H0 # hadd True xs ys"    "hadd True (HD # xs) (H3 # ys) = H1 # hadd True xs ys"
  "hadd True (HD # xs) (H4 # ys) = H2 # hadd True xs ys"    "hadd True (HD # xs) (H5 # ys) = H3 # hadd True xs ys"
  "hadd True (HD # xs) (H6 # ys) = H4 # hadd True xs ys"    "hadd True (HD # xs) (H7 # ys) = H5 # hadd True xs ys"
  "hadd True (HD # xs) (H8 # ys) = H6 # hadd True xs ys"    "hadd True (HD # xs) (H9 # ys) = H7 # hadd True xs ys"
  "hadd True (HD # xs) (HA # ys) = H8 # hadd True xs ys"    "hadd True (HD # xs) (HB # ys) = H9 # hadd True xs ys"
  "hadd True (HD # xs) (HC # ys) = HA # hadd True xs ys"    "hadd True (HD # xs) (HD # ys) = HB # hadd True xs ys"
  "hadd True (HD # xs) (HE # ys) = HC # hadd True xs ys"    "hadd True (HD # xs) (HF # ys) = HD # hadd True xs ys"
  "hadd True (HE # xs) (H0 # ys) = HF # hadd False xs ys"    "hadd True (HE # xs) (H1 # ys) = H0 # hadd True xs ys"
  "hadd True (HE # xs) (H2 # ys) = H1 # hadd True xs ys"    "hadd True (HE # xs) (H3 # ys) = H2 # hadd True xs ys"
  "hadd True (HE # xs) (H4 # ys) = H3 # hadd True xs ys"    "hadd True (HE # xs) (H5 # ys) = H4 # hadd True xs ys"
  "hadd True (HE # xs) (H6 # ys) = H5 # hadd True xs ys"    "hadd True (HE # xs) (H7 # ys) = H6 # hadd True xs ys"
  "hadd True (HE # xs) (H8 # ys) = H7 # hadd True xs ys"    "hadd True (HE # xs) (H9 # ys) = H8 # hadd True xs ys"
  "hadd True (HE # xs) (HA # ys) = H9 # hadd True xs ys"    "hadd True (HE # xs) (HB # ys) = HA # hadd True xs ys"
  "hadd True (HE # xs) (HC # ys) = HB # hadd True xs ys"    "hadd True (HE # xs) (HD # ys) = HC # hadd True xs ys"
  "hadd True (HE # xs) (HE # ys) = HD # hadd True xs ys"    "hadd True (HE # xs) (HF # ys) = HE # hadd True xs ys"
  "hadd True (HF # xs) (H0 # ys) = H0 # hadd True xs ys"    "hadd True (HF # xs) (H1 # ys) = H1 # hadd True xs ys"
  "hadd True (HF # xs) (H2 # ys) = H2 # hadd True xs ys"    "hadd True (HF # xs) (H3 # ys) = H3 # hadd True xs ys"
  "hadd True (HF # xs) (H4 # ys) = H4 # hadd True xs ys"    "hadd True (HF # xs) (H5 # ys) = H5 # hadd True xs ys"
  "hadd True (HF # xs) (H6 # ys) = H6 # hadd True xs ys"    "hadd True (HF # xs) (H7 # ys) = H7 # hadd True xs ys"
  "hadd True (HF # xs) (H8 # ys) = H8 # hadd True xs ys"    "hadd True (HF # xs) (H9 # ys) = H9 # hadd True xs ys"
  "hadd True (HF # xs) (HA # ys) = HA # hadd True xs ys"    "hadd True (HF # xs) (HB # ys) = HB # hadd True xs ys"
  "hadd True (HF # xs) (HC # ys) = HC # hadd True xs ys"    "hadd True (HF # xs) (HD # ys) = HD # hadd True xs ys"
  "hadd True (HF # xs) (HE # ys) = HE # hadd True xs ys"    "hadd True (HF # xs) (HF # ys) = HF # hadd True xs ys"
  by (simp_all add: hex_of_def)

lemma hadd_none: "hadd False [] ys = ys" "hadd False xs [] = xs"
  by (cases ys; simp) (cases xs; simp)

lemma hadd_ends:
  "hadd True [] [] = [H1]"
  "hadd True [] (H0 # ys) = H1 # ys"
  "hadd True (H0 # xs) [] = H1 # xs"
  "hadd True [] (H1 # ys) = H2 # ys"
  "hadd True (H1 # xs) [] = H2 # xs"
  "hadd True [] (H2 # ys) = H3 # ys"
  "hadd True (H2 # xs) [] = H3 # xs"
  "hadd True [] (H3 # ys) = H4 # ys"
  "hadd True (H3 # xs) [] = H4 # xs"
  "hadd True [] (H4 # ys) = H5 # ys"
  "hadd True (H4 # xs) [] = H5 # xs"
  "hadd True [] (H5 # ys) = H6 # ys"
  "hadd True (H5 # xs) [] = H6 # xs"
  "hadd True [] (H6 # ys) = H7 # ys"
  "hadd True (H6 # xs) [] = H7 # xs"
  "hadd True [] (H7 # ys) = H8 # ys"
  "hadd True (H7 # xs) [] = H8 # xs"
  "hadd True [] (H8 # ys) = H9 # ys"
  "hadd True (H8 # xs) [] = H9 # xs"
  "hadd True [] (H9 # ys) = HA # ys"
  "hadd True (H9 # xs) [] = HA # xs"
  "hadd True [] (HA # ys) = HB # ys"
  "hadd True (HA # xs) [] = HB # xs"
  "hadd True [] (HB # ys) = HC # ys"
  "hadd True (HB # xs) [] = HC # xs"
  "hadd True [] (HC # ys) = HD # ys"
  "hadd True (HC # xs) [] = HD # xs"
  "hadd True [] (HD # ys) = HE # ys"
  "hadd True (HD # xs) [] = HE # xs"
  "hadd True [] (HE # ys) = HF # ys"
  "hadd True (HE # xs) [] = HF # xs"
  "hadd True [] (HF # ys) = H0 # hadd True [] ys"
  "hadd True (HF # xs) [] = H0 # hadd True xs []"
  by (simp_all add: hex_of_def hadd_none)

section \<open>Products\<close>

text \<open>The multiples of a number by the digits from one on.\<close>

datatype table = Table "hex list" "hex list" "hex list" "hex list" "hex list" "hex list" "hex list" "hex list" "hex list" "hex list" "hex list" "hex list" "hex list" "hex list" "hex list"

fun multiple :: "table \<Rightarrow> hex \<Rightarrow> hex list" where
  "multiple (Table t1 t2 t3 t4 t5 t6 t7 t8 t9 t10 t11 t12 t13 t14 t15) H0 = []"
| "multiple (Table t1 t2 t3 t4 t5 t6 t7 t8 t9 t10 t11 t12 t13 t14 t15) H1 = t1"
| "multiple (Table t1 t2 t3 t4 t5 t6 t7 t8 t9 t10 t11 t12 t13 t14 t15) H2 = t2"
| "multiple (Table t1 t2 t3 t4 t5 t6 t7 t8 t9 t10 t11 t12 t13 t14 t15) H3 = t3"
| "multiple (Table t1 t2 t3 t4 t5 t6 t7 t8 t9 t10 t11 t12 t13 t14 t15) H4 = t4"
| "multiple (Table t1 t2 t3 t4 t5 t6 t7 t8 t9 t10 t11 t12 t13 t14 t15) H5 = t5"
| "multiple (Table t1 t2 t3 t4 t5 t6 t7 t8 t9 t10 t11 t12 t13 t14 t15) H6 = t6"
| "multiple (Table t1 t2 t3 t4 t5 t6 t7 t8 t9 t10 t11 t12 t13 t14 t15) H7 = t7"
| "multiple (Table t1 t2 t3 t4 t5 t6 t7 t8 t9 t10 t11 t12 t13 t14 t15) H8 = t8"
| "multiple (Table t1 t2 t3 t4 t5 t6 t7 t8 t9 t10 t11 t12 t13 t14 t15) H9 = t9"
| "multiple (Table t1 t2 t3 t4 t5 t6 t7 t8 t9 t10 t11 t12 t13 t14 t15) HA = t10"
| "multiple (Table t1 t2 t3 t4 t5 t6 t7 t8 t9 t10 t11 t12 t13 t14 t15) HB = t11"
| "multiple (Table t1 t2 t3 t4 t5 t6 t7 t8 t9 t10 t11 t12 t13 t14 t15) HC = t12"
| "multiple (Table t1 t2 t3 t4 t5 t6 t7 t8 t9 t10 t11 t12 t13 t14 t15) HD = t13"
| "multiple (Table t1 t2 t3 t4 t5 t6 t7 t8 t9 t10 t11 t12 t13 t14 t15) HE = t14"
| "multiple (Table t1 t2 t3 t4 t5 t6 t7 t8 t9 t10 t11 t12 t13 t14 t15) HF = t15"

definition table_8 :: "hex list \<Rightarrow> hex list \<Rightarrow> hex list \<Rightarrow> hex list \<Rightarrow> hex list \<Rightarrow> hex list \<Rightarrow> hex list \<Rightarrow> hex list \<Rightarrow> table" where
  "table_8 t1 t2 t3 t4 t5 t6 t7 t8 = Table t1 t2 t3 t4 t5 t6 t7 t8 (hadd False t8 t1) (hadd False t8 t2) (hadd False t8 t3)
     (hadd False t8 t4) (hadd False t8 t5) (hadd False t8 t6) (hadd False t8 t7)"

definition table_4 :: "hex list \<Rightarrow> hex list \<Rightarrow> hex list \<Rightarrow> hex list \<Rightarrow> table" where
  "table_4 t1 t2 t3 t4 = table_8 t1 t2 t3 t4 (hadd False t4 t1) (hadd False t4 t2) (hadd False t4 t3) (hadd False t4 t4)"

definition table_2 :: "hex list \<Rightarrow> hex list \<Rightarrow> table" where
  "table_2 t1 t2 = table_4 t1 t2 (hadd False t2 t1) (hadd False t2 t2)"

definition table_of :: "hex list \<Rightarrow> table" where
  "table_of t = table_2 t (hadd False t t)"

lemma hval_multiple: "hval (multiple (table_of ys) x) = digit x * hval ys"
  by (cases x) (simp_all add: table_of_def table_2_def table_4_def table_8_def hval_hadd)

fun times_loop :: "table \<Rightarrow> hex list \<Rightarrow> hex list" where
  "times_loop t [] = []"
| "times_loop t (x # xs) = hadd False (multiple t x) (H0 # times_loop t xs)"

lemma hval_times_loop: "hval (times_loop (table_of ys) xs) = hval xs * hval ys"
  by (induction xs) (simp_all add: hval_hadd hval_multiple algebra_simps)

section \<open>Low digits and equality\<close>

text \<open>The digits under the 64th, one for each element of a list, and the digits from there on.\<close>

fun low :: "unit list \<Rightarrow> hex list \<Rightarrow> hex list" where
  "low (u # us) (x # xs) = x # low us xs"
| "low [] xs = []"
| "low (u # us) [] = []"

fun high :: "unit list \<Rightarrow> hex list \<Rightarrow> hex list" where
  "high (u # us) (x # xs) = high us xs"
| "high [] xs = xs"
| "high (u # us) [] = []"

lemma hval_low_high: "hval (low us xs) + 16 ^ length us * hval (high us xs) = hval xs"
  by (induction us xs rule: low.induct) (simp_all add: algebra_simps)

definition digits64 :: "unit list" where
  "digits64 = replicate 64 ()"

lemma digits64_list:
  "digits64 = [(), (), (), (), (), (), (), (), (), (), (), (), (), (), (), (), (), (), (), (), (), (), (), (), (), (), (), (), (), (), (), (),
    (), (), (), (), (), (), (), (), (), (), (), (), (), (), (), (), (), (), (), (), (), (), (), (), (), (), (), (), (), (), (), ()]"
  by (simp add: digits64_def numeral_eq_Suc)

text \<open>Lists of digits with the same value.\<close>

fun hsame :: "hex list \<Rightarrow> hex list \<Rightarrow> bool" where
  "hsame (x # xs) (y # ys) = (x = y \<and> hsame xs ys)"
| "hsame [] ys = list_all (\<lambda>y. y = H0) ys"
| "hsame (x # xs) [] = (x = H0 \<and> hsame xs [])"

lemma hsame_rules:
  "hsame (H0 # xs) (H0 # ys) = hsame xs ys"
  "hsame (H1 # xs) (H1 # ys) = hsame xs ys"
  "hsame (H2 # xs) (H2 # ys) = hsame xs ys"
  "hsame (H3 # xs) (H3 # ys) = hsame xs ys"
  "hsame (H4 # xs) (H4 # ys) = hsame xs ys"
  "hsame (H5 # xs) (H5 # ys) = hsame xs ys"
  "hsame (H6 # xs) (H6 # ys) = hsame xs ys"
  "hsame (H7 # xs) (H7 # ys) = hsame xs ys"
  "hsame (H8 # xs) (H8 # ys) = hsame xs ys"
  "hsame (H9 # xs) (H9 # ys) = hsame xs ys"
  "hsame (HA # xs) (HA # ys) = hsame xs ys"
  "hsame (HB # xs) (HB # ys) = hsame xs ys"
  "hsame (HC # xs) (HC # ys) = hsame xs ys"
  "hsame (HD # xs) (HD # ys) = hsame xs ys"
  "hsame (HE # xs) (HE # ys) = hsame xs ys"
  "hsame (HF # xs) (HF # ys) = hsame xs ys"
  "hsame [] [] = True" "hsame [] (H0 # ys) = hsame [] ys" "hsame (H0 # xs) [] = hsame xs []"
  by simp_all

lemma hval_zeros: "list_all (\<lambda>y. y = H0) ys \<Longrightarrow> hval ys = 0"
  by (induction ys) simp_all

lemma hsame_hval: "hsame xs ys \<Longrightarrow> hval xs = hval ys"
  by (induction xs ys rule: hsame.induct) (simp_all add: hval_zeros)

section \<open>Differences\<close>

text \<open>The low digits of the difference, from the complement of the second number; its users check the result by a sum.\<close>

fun complement :: "unit list \<Rightarrow> hex list \<Rightarrow> hex list" where
  "complement (u # us) (H0 # xs) = HF # complement us xs"
| "complement (u # us) (H1 # xs) = HE # complement us xs"
| "complement (u # us) (H2 # xs) = HD # complement us xs"
| "complement (u # us) (H3 # xs) = HC # complement us xs"
| "complement (u # us) (H4 # xs) = HB # complement us xs"
| "complement (u # us) (H5 # xs) = HA # complement us xs"
| "complement (u # us) (H6 # xs) = H9 # complement us xs"
| "complement (u # us) (H7 # xs) = H8 # complement us xs"
| "complement (u # us) (H8 # xs) = H7 # complement us xs"
| "complement (u # us) (H9 # xs) = H6 # complement us xs"
| "complement (u # us) (HA # xs) = H5 # complement us xs"
| "complement (u # us) (HB # xs) = H4 # complement us xs"
| "complement (u # us) (HC # xs) = H3 # complement us xs"
| "complement (u # us) (HD # xs) = H2 # complement us xs"
| "complement (u # us) (HE # xs) = H1 # complement us xs"
| "complement (u # us) (HF # xs) = H0 # complement us xs"
| "complement (u # us) [] = HF # complement us []"
| "complement [] xs = []"

definition hdiff :: "hex list \<Rightarrow> hex list \<Rightarrow> hex list" where
  "hdiff xs ys = low digits64 (hadd True xs (complement digits64 ys))"

lemmas digit_rules = hadd_plain hadd_carry hadd_none hadd_ends multiple.simps table_8_def table_4_def table_2_def table_of_def times_loop.simps
  low.simps high.simps digits64_list hsame_rules hex_num.simps hx_rules complement.simps hdiff_def simp_thms

end
