(* ===== verification/Prime_Numbers.thy ===== *)
theory Prime_Numbers
  imports Hex_Digits
begin

text \<open>
  Prime numbers, as far as the field of the curve needs them: Fermat's little theorem and Pocklington's
  criterion, by which a number is prime when enough of its predecessor is factored. Powers modulo a number are
  computed along a list of quotients; each step is checked by a sum of numbers in digits.
\<close>

section \<open>Primes\<close>

definition prime_nat :: "nat \<Rightarrow> bool" where
  "prime_nat p \<longleftrightarrow> 1 < p \<and> (\<forall>d. d dvd p \<longrightarrow> d = 1 \<or> d = p)"

lemma prime_coprime: "prime_nat p \<Longrightarrow> \<not> p dvd a \<Longrightarrow> coprime p a"
  unfolding prime_nat_def coprime_iff_gcd_eq_1 by (metis gcd_dvd1 gcd_dvd2)

lemma prime_dvd_mult: "prime_nat p \<Longrightarrow> p dvd a * b \<Longrightarrow> p dvd a \<or> p dvd b"
  using prime_coprime coprime_dvd_mult_right_iff by blast

lemma prime_divisor: "1 < n \<Longrightarrow> \<exists>p. prime_nat p \<and> p dvd n"
proof (induction n rule: less_induct)
  case (less n)
  show ?case
  proof (cases "prime_nat n")
    case False
    then obtain d where d: "d dvd n" "d \<noteq> 1" "d \<noteq> n" using less.prems by (auto simp: prime_nat_def)
    then have "d < n" "1 < d" using less.prems by (auto dest: dvd_imp_le intro: Suc_lessI)
    with less.IH [of d] d(1) show ?thesis by (blast intro: dvd_trans)
  qed auto
qed

text \<open>A composite number has a prime divisor up to its square root.\<close>

lemma small_divisor:
  assumes "1 < n" and "\<And>p. prime_nat p \<Longrightarrow> p dvd n \<Longrightarrow> n < p * p"
  shows "prime_nat n"
proof -
  obtain p where p: "prime_nat p" "p dvd n" using prime_divisor [OF assms(1)] by blast
  then obtain k where k: "n = p * k" by blast
  have "k = 1"
  proof (rule ccontr)
    assume "k \<noteq> 1"
    then have "1 < k" using assms(1) k by (cases k) auto
    then obtain q where q: "prime_nat q" "q dvd k" using prime_divisor by blast
    have "k < p" using assms(2) [OF p] k by simp
    moreover have "n < q * q" using assms(2) [OF q(1)] q(2) k by simp
    moreover have "q \<le> k" using q(2) \<open>1 < k\<close> by (auto intro: dvd_imp_le)
    then have "q * q \<le> k * k" by (intro mult_mono) simp_all
    moreover have "k * k \<le> n" using \<open>k < p\<close> unfolding k by (intro mult_mono) simp_all
    ultimately show False by simp
  qed
  with k p(1) show ?thesis by simp
qed

text \<open>Trial division, for small numbers.\<close>

lemma trial_division:
  assumes "1 < n" and "\<forall>d \<in> set [2..<k]. n mod d \<noteq> 0" and "n < k * k"
  shows "prime_nat n"
proof (rule small_divisor [OF assms(1)])
  fix p assume p: "prime_nat p" "p dvd n"
  have "k \<le> p"
  proof (rule ccontr)
    assume "\<not> k \<le> p"
    then have "p \<in> set [2..<k]" using p(1) by (auto simp: prime_nat_def)
    with assms(2) p(2) show False by (metis dvd_eq_mod_eq_0)
  qed
  then have "k * k \<le> p * p" by (intro mult_mono) simp_all
  with assms(3) show "n < p * p" by simp
qed

section \<open>Fermat's little theorem\<close>

lemma fermat:
  assumes "prime_nat p" and "\<not> p dvd a"
  shows "a ^ (p - 1) mod p = 1"
proof -
  let ?S = "{1..<p}" and ?f = "\<lambda>i. a * i mod p"
  have p: "1 < p" using assms(1) by (simp add: prime_nat_def)
  have c: "coprime p a" using prime_coprime assms .
  have inj: "inj_on ?f ?S"
  proof (rule linorder_inj_onI)
    fix i j assume ij: "i < j" "i \<in> ?S" "j \<in> ?S"
    show "?f i \<noteq> ?f j"
    proof
      assume "?f i = ?f j"
      then have "p dvd a * j - a * i" using mod_eq_dvd_iff_nat [of "a * i" "a * j" p] ij by simp
      then have "p dvd a * (j - i)" by (simp add: diff_mult_distrib2)
      then have "p dvd j - i" using c coprime_dvd_mult_right_iff by blast
      then show False using ij by (auto dest: dvd_imp_le)
    qed
  qed auto
  have "?f ` ?S \<subseteq> ?S"
  proof
    fix y assume "y \<in> ?f ` ?S"
    then obtain i where i: "i \<in> ?S" "y = ?f i" by blast
    have "\<not> p dvd i" using i(1) by (auto dest: dvd_imp_le)
    then have "\<not> p dvd a * i" using prime_dvd_mult [OF assms(1)] assms(2) by blast
    then show "y \<in> ?S" using i(2) p by (auto simp: dvd_eq_mod_eq_0)
  qed
  with inj have perm: "?f ` ?S = ?S" by (simp add: endo_inj_surj)
  have "(\<Prod>i \<in> ?S. ?f i) = \<Prod>?S" using prod.reindex [OF inj, of "\<lambda>i. i"] perm by simp
  moreover have "(\<Prod>i \<in> ?S. ?f i) mod p = (\<Prod>i \<in> ?S. a * i) mod p" by (simp add: mod_prod_eq)
  moreover have "(\<Prod>i \<in> ?S. a * i) = a ^ (p - 1) * \<Prod>?S" by (simp add: prod.distrib)
  ultimately have "a ^ (p - 1) * \<Prod>?S mod p = 1 * \<Prod>?S mod p" by simp
  moreover have "coprime p (\<Prod>?S)"
    by (rule prod_coprime_right) (auto intro!: prime_coprime [OF assms(1)] dest: dvd_imp_le)
  moreover have "0 < a" using assms(2) by (cases a) auto
  ultimately have "p dvd a ^ (p - 1) - 1"
    by (metis One_nat_def Suc_leI coprime_dvd_mult_left_iff diff_mult_distrib mod_eq_dvd_iff_nat mult_le_mono1 zero_less_power)
  then have "a ^ (p - 1) mod p = 1 mod p" using \<open>0 < a\<close> mod_eq_dvd_iff_nat [of 1 "a ^ (p - 1)" p] by simp
  with p show ?thesis by simp
qed

text \<open>The exponents that give one are closed under common divisors.\<close>

lemma power_mod_one: "a ^ m mod n = 1 \<Longrightarrow> 1 < n \<Longrightarrow> a ^ (m * k) mod n = (1 :: nat)"
  by (metis power_mod power_mult power_one mod_less)

lemma power_gcd_one:
  assumes "a ^ m mod n = 1" and "a ^ k mod n = 1" and "1 < n" and "0 < m"
  shows "a ^ gcd m k mod n = (1 :: nat)"
proof -
  obtain x y where xy: "m * x = k * y + gcd m k" using bezout_nat [of m k] assms(4) by auto
  have "1 = a ^ (m * x) mod n" using power_mod_one [OF assms(1,3)] by simp
  also have "\<dots> = (a ^ (k * y) mod n) * a ^ gcd m k mod n" unfolding xy power_add by (simp add: mod_mult_left_eq)
  also have "\<dots> = a ^ gcd m k mod n" using power_mod_one [OF assms(2,3)] by simp
  finally show ?thesis by simp
qed

section \<open>Pocklington's criterion\<close>

text \<open>
  When \<open>a\<close> is one to the power \<open>n - 1\<close> and \<open>q\<close> is a prime factor of \<open>n - 1\<close> such that the power at \<open>(n - 1) / q\<close>
  less one is invertible, every prime divisor of \<open>n\<close> is one modulo \<open>q\<close>.
\<close>

lemma pocklington_factor:
  assumes n: "1 < n" and q: "prime_nat q" and m: "n - 1 = q * m"
    and one: "a ^ (n - 1) mod n = 1" and unit: "coprime (a ^ m - 1) n" and "1 \<le> a"
    and p: "prime_nat p" "p dvd n"
  shows "q dvd p - 1"
proof (rule ccontr)
  assume nq: "\<not> q dvd p - 1"
  have p1: "1 < p" using p(1) by (simp add: prime_nat_def)
  have onep: "a ^ (n - 1) mod p = 1"
    using one p1 by (metis mod_less mod_mod_cancel p(2))
  have "\<not> p dvd a"
  proof
    assume "p dvd a"
    then have "p dvd a ^ (n - 1)" using n by (simp add: dvd_power_iff_le dvd_trans [OF _ dvd_power])
    with onep p1 show False by simp
  qed
  then have "a ^ (p - 1) mod p = 1" using fermat p(1) by blast
  with onep have g: "a ^ gcd (n - 1) (p - 1) mod p = 1" using power_gcd_one p1 n by simp
  let ?g = "gcd (n - 1) (p - 1)"
  have "\<not> q dvd ?g" using nq by (meson dvd_trans gcd_dvd2)
  then have "coprime ?g q" using prime_coprime [OF q] coprime_commute by blast
  then have "?g dvd m" by (metis coprime_dvd_mult_right_iff gcd_dvd1 m)
  then obtain k where "m = ?g * k" by blast
  then have "a ^ m mod p = 1" using power_mod_one [OF g p1] by metis
  then have "p dvd a ^ m - 1" by (metis dvd_minus_mod)
  with unit p(2) have "p dvd 1" by (meson coprime_common_divisor)
  with p1 show False by simp
qed


lemma odd_prime_factor: "odd n \<Longrightarrow> p dvd n \<Longrightarrow> 2 dvd p - (1 :: nat)"
  by (cases "even p") (auto dest: dvd_trans)

text \<open>
  When every prime divisor of \<open>n\<close> is one modulo a large factor \<open>F\<close> of \<open>n - 1\<close>, a proper product \<open>(a F + 1) (b F + 1)\<close>
  fixes the quotient \<open>a b\<close> and the remainder \<open>a + b\<close> of \<open>(n - 1) / F\<close> by \<open>F\<close>, and the remainder cannot be large.
\<close>

lemma large_factor_prime:
  assumes n: "1 < n" and F: "n - 1 = F * c" and div: "\<And>p. prime_nat p \<Longrightarrow> p dvd n \<Longrightarrow> F dvd p - 1"
    and rest: "c div F + 1 < c mod F"
  shows "prime_nat n"
proof -
  obtain s where s: "prime_nat s" "s dvd n" using prime_divisor [OF n] by blast
  then obtain k where k: "n = s * k" by blast
  have s1: "1 < s" using s(1) by (simp add: prime_nat_def)
  have "k = 1"
  proof (rule ccontr)
    assume "k \<noteq> 1"
    then have k1: "1 < k" using n k by (cases k) auto
    have "k - 1 = (n - 1) - (s - 1) * k" using k s1 k1 by (simp add: diff_mult_distrib)
    moreover have "F dvd n - 1" "F dvd (s - 1) * k" using F div [OF s] by simp_all
    ultimately have "F dvd k - 1" by (metis dvd_diff_nat)
    then obtain b where b: "k - 1 = F * b" by blast
    obtain a where a: "s - 1 = F * a" using div [OF s] by blast
    have F0: "0 < F" using F n by (cases F) auto
    have "F * c = (F * a + 1) * (F * b + 1) - 1" using F k a b s1 k1 by (metis Suc_diff_1 Suc_eq_plus1 less_trans zero_less_one)
    also have "\<dots> = F * (a * b * F + (a + b))" by (simp add: algebra_simps)
    finally have c: "c = a * b * F + (a + b)" using F0 by simp
    have "1 \<le> a" "1 \<le> b" using a b s1 k1 by (cases a; cases b; simp)+
    then have "a + b \<le> a * b + 1" by (cases a; cases b) simp_all
    moreover have "a * b \<le> c div F" using F0 unfolding c by simp
    moreover have "c mod F \<le> a + b" unfolding c by (simp add: mod_less_eq_dividend)
    ultimately show False using rest by linarith
  qed
  with k s(1) show ?thesis by simp
qed

section \<open>Powers of two along a list of quotients\<close>

text \<open>
  Each entry squares the value, doubles it for a set bit of the exponent, and takes a multiple of the modulus away. The
  difference is kept when it gives the square back in a sum. The modulus is given by the table of its multiples.
\<close>

fun scaled :: "bool \<Rightarrow> hex list \<Rightarrow> hex list" where
  "scaled True xs = hadd False xs xs"
| "scaled False xs = xs"

fun keep_if :: "bool \<Rightarrow> hex list \<Rightarrow> hex list option" where
  "keep_if True xs = Some xs"
| "keep_if False xs = None"

definition checked_difference :: "hex list \<Rightarrow> hex list \<Rightarrow> hex list \<Rightarrow> hex list option" where
  "checked_difference d y s = keep_if (hsame (hadd False d y) s) d"

definition difference :: "hex list \<Rightarrow> hex list \<Rightarrow> hex list option" where
  "difference s y = checked_difference (hdiff s y) y s"

definition power_step :: "table \<Rightarrow> bool \<Rightarrow> hex list \<Rightarrow> hex list \<Rightarrow> hex list option" where
  "power_step t b q r = difference (scaled b (times_loop (table_of r) r)) (times_loop t q)"

fun power_chain :: "table \<Rightarrow> (bool \<times> int) list \<Rightarrow> hex list option \<Rightarrow> hex list option" where
  "power_chain t [] r = r"
| "power_chain t (c # cs) None = None"
| "power_chain t ((b, q) # cs) (Some r) = power_chain t cs (power_step t b (hx q) r)"

fun chain_exponent :: "(bool \<times> int) list \<Rightarrow> nat \<Rightarrow> nat" where
  "chain_exponent [] e = e"
| "chain_exponent ((b, q) # cs) e = chain_exponent cs (if b then 2 * e + 1 else 2 * e)"

fun has_value :: "hex list option \<Rightarrow> hex list \<Rightarrow> bool" where
  "has_value None xs = False"
| "has_value (Some r) xs = hsame r xs"

definition power_to :: "int \<Rightarrow> (bool \<times> int) list \<Rightarrow> int \<Rightarrow> bool" where
  "power_to n cs x = has_value (power_chain (table_of (hx n)) cs (Some [H1])) (hx x)"

lemmas power_rules = digit_rules scaled.simps keep_if.simps checked_difference_def difference_def power_step_def power_chain.simps
  has_value.simps power_to_def

lemma difference: "difference s y = Some d \<Longrightarrow> hval d + hval y = hval s"
proof -
  assume "difference s y = Some d"
  then have "keep_if (hsame (hadd False (hdiff s y) y) s) (hdiff s y) = Some d" by (simp add: difference_def checked_difference_def)
  then have "hsame (hadd False d y) s" by (cases "hsame (hadd False (hdiff s y) y) s") simp_all
  from hsame_hval [OF this] show ?thesis by (simp add: hval_hadd)
qed

lemma power_step:
  assumes "power_step (table_of ns) b q r = Some r'" and "hval r mod hval ns = 2 ^ e mod hval ns"
  shows "hval r' mod hval ns = 2 ^ (if b then 2 * e + 1 else 2 * e) mod hval ns"
proof -
  let ?n = "hval ns"
  have "hval r' + hval q * ?n = hval (scaled b (times_loop (table_of r) r))"
    using difference [OF assms(1) [unfolded power_step_def]] by (simp add: hval_times_loop)
  also have "\<dots> = (if b then 2 * (hval r * hval r) else hval r * hval r)" by (simp add: hval_hadd hval_times_loop)
  finally have "hval r' + hval q * ?n = (if b then 2 * (hval r * hval r) else hval r * hval r)" .
  then have "hval r' mod ?n = (if b then 2 * (hval r * hval r) else hval r * hval r) mod ?n"
    using mod_mult_self1 [of "hval r'" "hval q" ?n] by simp
  moreover have sq: "(hval r * hval r) mod ?n = 2 ^ (2 * e) mod ?n" using assms(2) by (metis mod_mult_eq mult_2 power_add)
  moreover have "2 * (hval r * hval r) mod ?n = 2 ^ (2 * e + 1) mod ?n" using sq by (metis mod_mult_right_eq power_Suc add.commute plus_1_eq_Suc)
  ultimately show ?thesis by (simp del: power_Suc)
qed

lemma power_chain_mod:
  "power_chain (table_of ns) cs (Some r) = Some r' \<Longrightarrow> hval r mod hval ns = 2 ^ e mod hval ns
    \<Longrightarrow> hval r' mod hval ns = 2 ^ chain_exponent cs e mod hval ns"
proof (induction cs arbitrary: r e)
  case (Cons c cs)
  obtain b q where c: "c = (b, q)" by (cases c)
  obtain r1 where r1: "power_step (table_of ns) b (hx q) r = Some r1"
    using Cons.prems(1) by (cases "power_step (table_of ns) b (hx q) r"; cases cs) (simp_all add: c)
  then show ?case using Cons.IH [OF _ power_step [OF r1 Cons.prems(2)]] Cons.prems(1) by (simp add: c)
qed simp

lemma chain_power:
  assumes "power_to m cs x" and "m = int n" and "0 \<le> x"
  shows "2 ^ chain_exponent cs 0 mod int n = x mod int n"
proof -
  obtain r where r: "power_chain (table_of (hx m)) cs (Some [H1]) = Some r" "hsame r (hx x)"
    using assms(1) by (cases "power_chain (table_of (hx m)) cs (Some [H1])") (simp_all add: power_to_def)
  have m: "int (hval (hx m)) = int n" using hval_hx [of m] assms(2) by simp
  have "hval (hx x) mod hval (hx m) = 2 ^ chain_exponent cs 0 mod hval (hx m)"
    using power_chain_mod [OF r(1), of 0] hsame_hval [OF r(2)] by simp
  then have "int (hval (hx x)) mod int (hval (hx m)) = 2 ^ chain_exponent cs 0 mod int (hval (hx m))"
    by (metis zmod_int of_nat_power of_nat_numeral)
  then show ?thesis unfolding m hval_hx [OF assms(3)] by simp
qed

text \<open>The criterion, with the powers given by their residues and the unit by its inverse.\<close>

lemma pocklington:
  assumes "1 < n" and "prime_nat q" and "n - 1 = q * m"
    and "2 ^ (n - 1) mod int n = 1" and "2 ^ m mod int n = x mod int n" and "(x - 1) * y mod int n = 1"
    and "prime_nat p" and "p dvd n"
  shows "q dvd p - 1"
proof (rule pocklington_factor [OF assms(1-3) _ _ _ assms(7,8), of 2])
  have "int (2 ^ (n - 1) mod n) = 1" using assms(4) by (simp add: zmod_int)
  then show "2 ^ (n - 1) mod n = (1 :: nat)" by simp
  have "(2 ^ m - 1) * y mod int n = (x - 1) * y mod int n"
    using assms(5) by (metis mod_diff_left_eq mod_mult_left_eq)
  then have "(2 ^ m - 1) * y mod int n = 1" using assms(6) by simp
  then have "d dvd 1" if "d dvd 2 ^ m - 1" "d dvd int n" for d
    using dvd_mod [OF dvd_mult2 [OF that(1)] that(2), of y] by simp
  then have "coprime (2 ^ m - 1 :: int) (int n)" by (intro coprimeI)
  moreover have "(2 ^ m - 1 :: int) = int (2 ^ m - 1)" by (simp add: of_nat_diff)
  ultimately show "coprime (2 ^ m - 1) n" by (simp only: coprime_int_iff)
qed simp

lemma prime_by_chains:
  assumes n: "1 < n" "odd n" "m = int n" and q: "prime_nat q" "odd q"
    and c: "n - 1 = 2 * q * c" "c div (2 * q) + 1 < c mod (2 * q)"
    and cs: "power_to m cs z" "chain_exponent cs 0 * j = n - 1" "z ^ j = 1 + i * int n"
    and ds: "power_to m ds x" "chain_exponent ds 0 = 2 * c" "(x - 1) * y = 1 + k * int n"
    and pos: "0 \<le> z" "0 \<le> x"
  shows "prime_nat n"
proof (rule large_factor_prime [OF n(1) c(1) _ c(2)])
  fix p assume p: "prime_nat p" "p dvd n"
  have "2 ^ (n - 1) mod int n = z ^ j mod int n"
    unfolding cs(2) [symmetric] power_mult using chain_power [OF cs(1) n(3) pos(1)] by (metis power_mod)
  then have full: "2 ^ (n - 1) mod int n = 1" using cs(3) n(1) by simp
  have part: "2 ^ (2 * c) mod int n = x mod int n" using chain_power [OF ds(1) n(3) pos(2)] unfolding ds(2) .
  have "n - 1 = q * (2 * c)" using c(1) by simp
  moreover have "(x - 1) * y mod int n = 1" using ds(3) n(1) by simp
  ultimately have "q dvd p - 1" using pocklington [OF n(1) q(1) _ full part _ p] by blast
  moreover have "2 dvd p - 1" using odd_prime_factor [OF n(2) p(2)] .
  moreover have "coprime 2 q" using q(2) by simp
  ultimately show "2 * q dvd p - 1" by (simp add: divides_mult)
qed

end
