(* ===== verification/Field_Prime.thy ===== *)
theory Field_Prime
  imports Prime_Numbers
begin

text \<open>
  The modulus of the field is prime. The certificate is a chain of numbers, each of which has the next one as a factor of
  its predecessor: \<open>2 ^ 255 - 19\<close>, a factor of 236 bits, one of 116 bits, one of 51 bits, 8574133, and 991, which has
  no divisor. For each of them the lists give the quotients along which the powers of two are computed.
\<close>

section \<open>Chains\<close>

definition small_full :: "(bool \<times> int) list" where
  "small_full =
    [(True, 0), (False, 0), (False, 0), (False, 0), (False, 0), (False, 500), (True, 14560673),
      (False, 7456332), (True, 3793187), (True, 6645), (False, 1041952), (True, 5851554),
      (False, 3434535), (True, 411559), (False, 3515050), (False, 344787), (True, 147780),
      (False, 3194), (True, 773721), (True, 3344195), (False, 256888), (True, 6941423),
      (False, 4538409), (False, 8574131)]"

definition small_part :: "(bool \<times> int) list" where
  "small_part =
    [(True, 0), (False, 0), (False, 0), (False, 0), (False, 0), (True, 1001), (True, 12184593),
      (True, 9142329), (False, 21599), (False, 53551), (True, 12555755), (True, 936142),
      (False, 567), (False, 5078200)]"

definition bits51_full :: "(bool \<times> int) list" where
  "bits51_full =
    [(True, 0), (True, 0), (False, 0), (True, 0), (True, 0), (False, 9), (True, 568590985791386),
      (False, 275758094055179), (False, 1519757588030409), (False, 1847280403589061),
      (True, 1546738113275479), (True, 1145289128905818), (True, 1006863272094369),
      (False, 849370995293977), (False, 1655633836119701), (True, 25069508703241),
      (False, 1235760164864112), (True, 1864395002051589), (False, 801711092642386),
      (True, 2684681429497665), (True, 2617221991244825), (True, 1588560994330330),
      (True, 1593746455813585), (True, 459052989302332), (False, 53053440409930),
      (True, 354415971801600), (False, 861467390729690), (False, 864429340901971),
      (False, 502865840146461), (False, 1294168704642539), (True, 10942588990631),
      (False, 119197646269096), (False, 1152372181839647), (True, 1774208557608892),
      (False, 1247460400092810), (True, 1656696549561819), (False, 908271569201220),
      (False, 1690441185370361), (True, 338896333555542), (True, 2214160146434757),
      (True, 852273950199791), (False, 501225309989436), (True, 870410766116893),
      (False, 1424511375154407), (False, 1529486821174), (False, 530444640676211),
      (False, 85193734522271), (True, 2341376031209599), (False, 210970359265512),
      (True, 714715624851176), (False, 1919519569386761)]"

definition bits51_part :: "(bool \<times> int) list" where
  "bits51_part =
    [(True, 0), (True, 0), (False, 0), (True, 0), (False, 0), (True, 4), (False, 920314958071172),
      (True, 1150263703800570), (True, 2916173011720386), (False, 446662734664136),
      (False, 666670737639295), (False, 1816664587145774), (False, 100778426374213),
      (False, 720471481685335), (False, 1046314874568149), (False, 27663020749752),
      (True, 1997550201756923), (False, 261275430339817), (False, 351998656793099),
      (True, 2465932998415072), (False, 1400365964004865), (False, 982260639543366),
      (True, 81725976216389), (False, 932557725746660), (False, 228087889215254),
      (False, 522704582871222), (True, 3441780615301434), (False, 69185309437821)]"

definition bits116_full :: "(bool \<times> int) list" where
  "bits116_full =
    [(True, 0), (True, 0), (True, 0), (False, 0), (True, 0), (False, 0), (False, 1),
      (False, 771851547816808051379443778815459), (False, 6420572549171516046176593860100809),
      (True, 28908003129270132855419763652819504), (True, 133334077576771846642839878728962976),
      (True, 356296577592744755834612203261588), (True, 17104844342260377155191118617761288),
      (True, 74522050615615866528901395825227785), (False, 10823015056886887261668044373608357),
      (False, 30961174939432559984738738584029315), (False, 9543413879590745612390818824318),
      (False, 27212238786572118819693610976292909), (True, 139951985715319802782717575504616292),
      (False, 74787050744880317833576541907568545), (True, 7002657572841888628464483393536952),
      (False, 4287820144507981290238773629741760), (True, 20452557381627174631868233265512926),
      (False, 1044899611988915660444025085319451), (False, 3153807201582730232094456086824652),
      (True, 120453801541971900053355372750195147), (False, 1326828326074791530425417056591862),
      (False, 1701021976185506177894356976435511), (False, 93353633572697574796185448788719),
      (True, 2108129009203334261133622343411113), (True, 138052604007502018451222615905547201),
      (True, 139562927299694608715632413544391673), (False, 27996500884623667420435143924148067),
      (True, 11937021177631509171511817293558), (True, 140226006048951515550643993067215071),
      (True, 103814778233606042352647539079357791), (True, 23203161605085027457686910115065657),
      (False, 72357066083977699180045520576918136), (True, 44818930142079864549256404367283342),
      (True, 30610542162267458784582308358080773), (True, 43028576335488475641251044159569169),
      (False, 17494716985245889738608394253763934), (False, 3979886340046577149477472973859038),
      (False, 14806265558573926326230418156236496), (False, 4397504359674470949521980787952437),
      (False, 55162628674867767836158767029343180), (False, 32605483465784016117553503132009),
      (True, 25517445200741491635749351223738569), (False, 1846756431727114921091744224038),
      (True, 90545038314690585729151912632905452), (False, 20579732548185144847843165374966669),
      (True, 9524610632629136865444052036528022), (True, 48184290065455906893236368133099501),
      (False, 34318373942212199395003219355572734), (True, 95741149647704955959868512600149897),
      (False, 37357633010522906255630588371906398), (False, 35684537007819210446477302226859212),
      (False, 32925545664710938880561163616926857), (False, 27464786312888658465645388256308953),
      (True, 4419918581792659853936465172959736), (False, 39082304778748024630635265073521629),
      (True, 47323929272264168801660546544978889), (True, 108323602610033582017702304908250862),
      (True, 58859622286523375400773844436846332), (True, 15017187702155587466082072505627193),
      (False, 20391306206010426744923801599057214), (False, 10202748745529044120012868028398902),
      (True, 26752837877672897617525915342998659), (False, 72704344956274686391157189808741468),
      (False, 302364135520944856992216994587885), (True, 9279918872941165399340898018341428),
      (True, 2741492557963194209676007709349556), (False, 23517639847936053940406944463800117),
      (True, 355200505170795452952356421100), (True, 49164106762317459954868940441862303),
      (True, 39315145124152939114948633505931618), (True, 93743321670108453423228119801881632),
      (False, 12891689845175253577576619877130907), (False, 7068162831219294747801995350537192),
      (False, 4634393333986200328317558958439351), (False, 6339108082128186258628870511208919),
      (True, 4243450799518041716040183281473006), (True, 21680961163491933049892391326433752),
      (True, 135051610350320963652278521676015308), (False, 24577573900302943555059758083120298),
      (False, 14149097860841839966656012334961331), (True, 130674090496504969134018827651768795),
      (True, 73076465470487655495873936216625714), (True, 8025949705263923730563316570232921),
      (False, 55843469365715368362468480707808829), (False, 64722123699458232616333721538099691),
      (True, 47011305025532297537912876921461014), (False, 31937654930793781474880405364272074),
      (True, 98297191970798516002569059625159782), (False, 25087370692238060902812612345126444),
      (True, 120439979003033448417266417710996846), (True, 14128767852298133961808644817361610),
      (False, 64475067684465982501133245190500532), (True, 58988584566106527512851937131785000),
      (True, 7575343689857589041504428760550448), (False, 29180366642012458176251648635799663),
      (False, 1448663039585902268113875523803170), (True, 37673284821342637999663428757360586),
      (False, 22173856685880343095672505025355721), (False, 10220417832788193175143522916513345),
      (False, 6332473500919813117686273409683965), (True, 378385642935227281731222357250068),
      (True, 59565802775003540489587975525891621), (True, 68878515191830318193214070706977873),
      (True, 3072926538331623821743296868229081), (True, 116134047195448747364847061652810939),
      (False, 29841474870263003462022108898837555), (False, 61380860120709968955617829202648356),
      (False, 75445702479781427272750846543864799), (False, 0), (False, 0)]"

definition bits116_part :: "(bool \<times> int) list" where
  "bits116_part =
    [(True, 0), (False, 0), (False, 0), (False, 0), (True, 0), (False, 0), (False, 0),
      (False, 1154635), (False, 18390568088419540713180144552603353), (True, 0),
      (False, 5845373972), (True, 87768323520986892609440763078941370),
      (True, 79178472738596464028603992035732427), (True, 100612016363528196112949330697066484),
      (False, 34874600400109785010110741815565865), (True, 133283511924261151466384833446453474),
      (False, 14259769805182405020291244956113789), (True, 39643167703849810160785550627061568),
      (True, 109038897391729833739089875975893259), (False, 31993228866829677464604812351954812),
      (False, 36856026726665311569831140646019472), (False, 37558755042300401026910323427360228),
      (True, 1231520888437489561043967924920373), (False, 9915846538991804092978480448020986),
      (False, 17579763701632442834351678143176982), (False, 8629543046122224655388998502785386),
      (True, 88543010309470439154820839753932743), (False, 51203725768512740208766088776196223),
      (True, 98993602468160378399605572779308692), (True, 146837499280623176155056190186076751),
      (False, 2236470025910010689164230430725332), (True, 2152445451523061074391132479695943),
      (True, 45619132322111234617260342837222865), (False, 18138563752825011389988221154025764),
      (True, 6984797776589922606771900453178), (False, 8355422685563742011965376336700514),
      (True, 63095733990234880993683556426399714), (True, 14702495698222504060133497094678883),
      (False, 15496460349782741374426957909312839), (True, 14922084300115426627936480004087657),
      (False, 73140260026178284946026360103387949), (False, 37386986428869317886938646893687),
      (True, 88792900146987093422421437432117938), (True, 126723327870560004734161261178324345),
      (True, 4265758634921249914798644829340890), (True, 4599208872904276656265734953986787),
      (False, 19938355793717465847682208159383547), (True, 379367425910877502586785532538328),
      (True, 40067702762777282563722963685911553), (True, 5431816707254639246062512913804549),
      (False, 69604568864888641168444927591077276), (False, 37124984734424324294785152761527766),
      (False, 25283313481485823676523318387740688), (True, 3445341846656232865445853964758427),
      (False, 4752556248222889451123733574281160), (True, 97607413110038762878864400532412072),
      (True, 46123989935674606507037057687651255), (True, 1130952329964462953850246691678513),
      (True, 5065407634161494487114558160920292), (False, 68880706720798111363682571039351209),
      (True, 94566915819754618137492420024240), (False, 61147586567349870743199647966593842),
      (False, 26475140829181573416469200498415960), (False, 8533707345012022015661890767769502),
      (False, 57406289184049389055471778293765177), (False, 97303796875390224746540460292342)]"

definition bits236_full :: "(bool \<times> int) list" where
  "bits236_full =
    [(True, 0), (False, 0), (True, 0), (False, 0), (True, 0), (False, 0), (True, 0), (True, 0),
      (True, 241944239217974006306559737462784), (False, 0),
      (True, 39640144153472861193266747385902530560000), (False, 13),
      (True, 116511940825442459782292841703638125063030228513369450879955054967226566),
      (True, 14421000434039473909530624000000000000000000000000000000000000000000),
      (True, 3675836662704939085518685401140046680296925041297496916),
      (True, 64338025318464444342955632505924485856417067396673730327657275284651864),
      (True, 121525753805416138346706430465419786222643613467622023455459269458319525),
      (False, 12277840436278147552078235941909291386797414739826283931274334589850559),
      (False, 42314394046789586056170298750879232160358089862891485603888972641663161),
      (False, 21710380438899056550880882523674926494225350295417576107727986598290590),
      (True, 39597237567658272342972383747201565209443028065569145797417347431752),
      (True, 21966384418152920108892035586816546868272827355371715526077605686746527),
      (False, 23491900193430169338230511734225025668169639839191002159248911146484986),
      (False, 16301956864093628504845736357669873534101208890285929289259442799565959),
      (False, 18653990918750600808612360746129714363898173638984590966165350393279350),
      (True, 24599075250920990965964699924108170285272263897712958188511692950423425),
      (True, 66911588614117068699398198904270071263095738967568361097386900839281259),
      (False, 13407861953022192525515360583100287614807282997531869052634610591277547),
      (True, 19791489146545815957710465607018317600638300961522000315343557077080252),
      (False, 8033460695878117978682157814213164973805128294136129073486315269504367),
      (True, 124843288176717387873822850524755294937458186777864783524456997656225301),
      (True, 20952669623958573490256909832744100882436509587586334947770868543999),
      (False, 7085201081963547004621310899972178859872023860771231827852045034468135),
      (False, 68440340906970955918417931053723558575222049878558585240858522205423169),
      (False, 11828146406555963407498340128829463776682417463180776224064809712746281),
      (False, 48832545950722327106968703327736863850574969650003431199148506143721019),
      (True, 73723879723279689681075846441963043174047828067315577063571933055945487),
      (False, 460799712676213109078599451342233557917315491938000279079920491277712),
      (False, 50617213936049451760329835836911741592497795996980314558122623020134983),
      (True, 117083864785995837582446063901718310733878952819052637374389001523679883),
      (False, 5547462777500169565927641909138379308051443465979013509197324566949899),
      (True, 9358990495499417880797574914767462389414660853306623862857812540087),
      (False, 39678770373559422596579463319250590625830746047139749136302791641803688),
      (False, 48918679408647929858807711168237769945938890480377818395390656076058),
      (True, 40540030324455300949257782296521158712512606539462195184941912757687639),
      (True, 38582935526878786759394025651029532941714226794487982930667748980889568),
      (True, 18103536337163944864326810218785880679831479395602015558143254185273641),
      (True, 6834450897146503842002265860324869196607242540210851113752294300488154),
      (True, 44798989185764085087805109285957930200207618363493558989041277163666182),
      (True, 1247106254516382020535322853340860581486120327131864668180951923576370),
      (False, 42047305383552329065389796056815762550943742864003237672220601269223990),
      (True, 74703445578206725337880371510212540465338717546293321598425402665503),
      (False, 2708476508838804249589949099719298802085741610587571089441447117111464),
      (False, 44197117119290633377031165494278981764515687475426588704837601782045038),
      (False, 71774233501415137551310396610848049247142192561497618457390729234601608),
      (False, 14112459581707092939640859692748710450068367064333981774987523091351578),
      (True, 129150430319672724259410128078734413569652292497152383744766518651813647),
      (True, 9145830992222359328933659404161580131060258617162843878388149887352589),
      (True, 47926397013532734275927932079572006001817621927189168052086288634883675),
      (True, 131790615293568477940479791101471756477023285259219933120635646576137086),
      (False, 40803378737067416663211678580442507687233016445292123198127626149838996),
      (False, 59866762833570203175434000515249822549601329942551312020519837418097231),
      (True, 114010162604537429603397092469945552629739612186302982646856991095907394),
      (True, 55036849429194826205394413004231651025399103326518522442242498154493620),
      (False, 9551948076959842891510470332262714253283633962413599332716018210125653),
      (False, 360778415293969005705801296163636098162236537781129035199499132306740),
      (True, 18860362825266616604738181723031978496623246290742695436994668586214886),
      (False, 65571943416938469255479411601748511730792281704222321973416381770238343),
      (True, 5949092169006755644280529959686782227817844531137311494779797567746566),
      (True, 20242517977262340111082808093030316287576662699776115335757052434066608),
      (False, 73737974890897518168223147532165808207476750093432879294464560515998955),
      (False, 1787950634365658153654330154255912436475972925692615714648232989906020),
      (False, 1809276385711774710218255692895462635366600511830705055316713858574302),
      (False, 72274636517047210161838838299878735250120768525623608106380555677685718),
      (True, 10457193285097180032197860381909360352689418158927263166073390181877596),
      (False, 51060020534171794685584282432167144672638554553072715014847489029349633),
      (True, 120852251224404994312558357178129885501973565583621168084549210292802628),
      (True, 46839384314278590109111690303226737369832740128019584227836963478867183),
      (False, 54913093733093612969366581165866566352462485209116707759985417376257652),
      (False, 254891306720780509869741426372090695606780670421430349920818474074129),
      (True, 48790003636398720844135427358060673647845485752811357259749186790958484),
      (True, 15612292330037609068830135758322590335544423211108801601280396480629957),
      (False, 4031371669511758950850958966633089684386084544731198578557291190533331),
      (False, 48989114998133881404416340281097052230269767171664267672630033427453814),
      (True, 99897233148281726614189953888924404808250238257670667348407642724567184),
      (False, 67379746146336772436161749568212698472383248773092431963790485755510136),
      (True, 524420368063501753393595530269143180099376963496812007390816474711527),
      (False, 42619168813363208511569771229344720368800878184356190234174802364346600),
      (True, 72084838046937497703549266037183389428045118085910027509566679020829845),
      (False, 38357087814665907553205985506817556556466234281380663820675817697685),
      (True, 4108981709100008086870218149571624456683889633849458626552593310246090),
      (True, 26465516012416888691440439724500514468257624100928562686629143586206419),
      (True, 121912416989435366864920496114246600011202502113319428907221013424149238),
      (False, 40149096309118127213997439922872975442417757512317783437807047646245),
      (True, 31190341790419095539225854271449784415807002908531881436062815287881633),
      (False, 25386090203252069367653233068459727876966959837785149403798707608172487),
      (True, 60131436591644532903439796264455364036932917185970612363417097872066710),
      (False, 2228884361616086093427613451569548708055730289760187099865727586139650),
      (True, 46570250806616760940766832329998068584441785963827448536924460390587801),
      (True, 8366319900826542236336784451892163702131654462900497894741003212049942),
      (True, 29473062573276557771440180389483045446662140050962056101569171998843657),
      (False, 16172766486373524657696927765600885080963931174646428545869017745296365),
      (False, 574536141333813163093391742950352521009870550124385731868085988789261),
      (False, 32981167837590044084749169926450407903106652686916958552151924181896775),
      (False, 186785172558772210274367252790679558487493390513009926834740015802412),
      (True, 19501117492842546605525661584242433135700908834319973712863105630934657),
      (True, 11681000283283998875297055350928677822014479865972912473336535167562533),
      (False, 39301252324459481579418729155774110222894688396232575053438175285137182),
      (False, 26326657855907126762020450004385027141326385110646539089919402024375804),
      (True, 123197994717543772830557617818868253102064282042263959139607067999260492),
      (False, 54713970963177961893633941986720736359083196720595683613558171200480570),
      (False, 47055907312596119670687956905079191347877163758466819765741958644092488),
      (True, 7807844994972611886501010124359647896759955000000232346571103040751770),
      (True, 3452796216166238587215439921043093960653830186536296899860945722354308),
      (False, 21315438351430399708104930606656756798581526204128113964567988105612710),
      (True, 13322409565287567448862009401331391087826501265899296601740410454314156),
      (True, 4257499361317641753417502945323102616946903552967095840097525410606720),
      (False, 38994504129141477862489263227002511310986404755292057633218480429288697),
      (True, 20400887928810526748954386339043582748115609265398149939882103380027958),
      (True, 23311317244728064496052928125977837543162480976322105295795709476086436),
      (True, 143462360079841510390250664117972286220343782210688328026862213385906085),
      (True, 17065060752414885677817200105951939088729424245318239522682946198373942),
      (True, 100686890339178556989077209929243914080430182440261307014888864026888982),
      (False, 25227886061119674363874196504779428799854682813747659235477659153368279),
      (True, 51361275984894978142385904015726653108585354843345728720458736657162185),
      (True, 99735154105178261957482352426424680572112358220488747964896996707969553),
      (False, 235243008251855847210610737157342683541303875517121181365280221614701),
      (False, 28789940552129682194269331551976940047273675348116793676043142061951660),
      (True, 118593762057166633253663353951989434575567328401308381388121387221598797),
      (True, 41966082572331001496877800834194476917951773222383841389551992737893816),
      (False, 31444970278230530831318274809572508353950366721436080287693528769385449),
      (True, 121591634077064777060720356863116366221170097948256022629398995259021921),
      (True, 27453614355606429318163204060816016781305848672615527195827185278716237),
      (False, 58058798015404739050734018980819848464408754805656062743531556660894685),
      (False, 48938856667308888942624355463717991815067154273228352113491315633618401),
      (True, 25741633849735692324168196468275902870614685345190193116394524727193260),
      (True, 10281517125171958111582099330815074638707691759463214586733857873771233),
      (False, 11094972334321931806445148125206173209973747906146395544921359416067551),
      (False, 33870295289254028506715422887161685532169888246151617792962910941976914),
      (True, 79979960082161542122551288975516606357422513753806340547176808768144168),
      (False, 60310433605375343872067667957542336166875856200022022268674156070877818),
      (False, 50233898269122535370812160634506104455075601846484111811164957678358469),
      (False, 8651403658354365950512056765192429737825676794868618449442577376825401),
      (True, 71965607883673099319684998261430341864345641816014817391884246808469),
      (False, 18586254401148351430918545766482724117146762481066036309812130160383728),
      (True, 3923428780996887303506339052417387812253874045425035214474466415562237),
      (False, 1978978753083165853099225530645222004750445483988463053387987985845528),
      (False, 33972261718404280063673340839595905705713768357004220981264525938274862),
      (False, 18418881480200043867775457049512580892214822982992595159394441733059180),
      (True, 25404401389202907010478404551716936352220240991939304011936947864776338),
      (False, 20360068738140125222329236367141572554558562513965405662377333364984158),
      (False, 49544241804659160793103366359854295507167628220698737886287838388225951),
      (False, 45498249649029846458662985504298241629623034762092266108388774445501152),
      (True, 139828265129315058350567291859407338658655406199094507139493508402633582),
      (True, 26823799895120230366968158431507871297094071739328206043028718473447274),
      (False, 2452442314225998891430317586871079545140067130406663002193373961404937),
      (False, 47494543254306456634187540140861072791235376021289173464634916060199046),
      (True, 64006716588587097785199862212293423941673893610372226678199435486352884),
      (True, 42758112612270550546651416396006940563678933283567202089784152668361484),
      (True, 32105710128769057766473843996692965775879254377186648066842138082940994),
      (True, 40369067538855825639795474306325464020743987467434004885529017126612705),
      (False, 2535939905633055274842257795578661222912280550149851472602374548352879),
      (False, 2479658422397710330012625184756782827433614377674414740248090893697491),
      (True, 31094457223308029759053966049028257360517340476414384454268967601081011),
      (True, 145994302392736424327734583887392652190700359041474204977770915379056976),
      (True, 50971436244097556542171802180531959471079845931542472767146439481730603),
      (False, 24866607006518221665135324002937712779832279637647723828696695609444891),
      (False, 408931616702578686805731658412424481059421492054151328480712797574356),
      (False, 55561032574510525980811946533517515656256250334454406765601612170092534),
      (False, 963842533617200777529872551704294465739432868084547376299656793340100),
      (False, 45767153534273230119803183689658394174119338888071527602437551725596302),
      (True, 334207257694675226493145517048546871519223312689665784053143576878198),
      (True, 32484666442971057137475460141792734132135190829073254091761447090361023),
      (False, 24992220882262714322437353562598600958526235688608085836415601264907336),
      (True, 59824285483033482700310763785498556915632419499050892390328357621115896),
      (False, 69331773680944754514479899069051023238760945605998461367209747882034063),
      (True, 554746433282964599580543692920099043585547168473980960587457404612955),
      (True, 737919402975848926532617339139569812720628805554487898746227205291867),
      (False, 109455265207483659818413418817795214683932649600847222972059778418425),
      (True, 882154980595046217254413850801531376286308609089161787778731883961650),
      (True, 8685451766925398087735394539420545666846717508866261202517166924707319),
      (True, 12254125272141300667981376258331438027319661938469778968871149480582226),
      (True, 135452006178616666522928181057801551179630964561447692455416125547424853),
      (True, 19648632635511108246094495798290204070665746341189705553489474284927781),
      (True, 10444492558918809331152482095796181384956773143718507275283278331773493),
      (False, 36775351250030877848164639147076042724576521526205588205425533355366493),
      (False, 269936195459722907219766989625492426608213151971318212816958081951607),
      (False, 19418448524276665747052227245036427285895855799940499090992660732473022),
      (False, 1643960508141134817898618855031376917768182009896346667251303558838704),
      (False, 6443519726964354495139817960529472990220475209256097696624859394997208),
      (False, 11285811173470139117262896956251092048546541717293831227149243799562329),
      (False, 14861702838074903264906061111788974840240051981959729610077689958679402),
      (False, 61832199917972343505335105824854408023143002160785009623745373379282994),
      (True, 9316655748340532839129173678780078817116369614430638599059307013953268),
      (False, 10579968766251134632235376680884874103471235872838135027142423675061509),
      (False, 8429975111060670478121680428046347418402436421027935337414329474581678),
      (True, 11796442499160559715649844764145086002498299358939713438718642506862857),
      (False, 17613641071183020145148214416641903888405823497618050899645221035535719),
      (False, 65198324445574882092627146192950561993540215547731090022695844683255303),
      (False, 2112387592073018181881607718924988042356042399183352913390511783172580),
      (True, 26809801323195946135663716941227000144640189606897270503593969956933306),
      (False, 22924044650728617757396971204009796881211081587141699424277701838768201),
      (False, 22951848373217863006414109126907227344045372337350067861248336289862118),
      (True, 85069096314459046486005483223257024896516859384976130028554281753173860),
      (True, 21664996502851358033563678221940433639881523412145393339269683323210525),
      (False, 51426461045945709931077878611194005762970409335505083633698147530735675),
      (False, 8903253263874559108534599510582667504951660227310517946829518866381336),
      (False, 55556559845115457975148521832572028259277813177472938110199794949008877),
      (True, 106563170717824735821877229609777454951650256165801511649834694519992754),
      (True, 77601632264802451058902456180736783509576878675289213540364937881739406),
      (True, 33827806754766731082942017440750152200563215011024825764426215474781908),
      (True, 4979946332444345007054088109777354203951990246960909455785306641231212),
      (True, 4497634040709035314329848686269391067208787621571238969033350444162374),
      (False, 26579824214367570016128428951672519200001873387857709159464209172852359),
      (True, 127272487584497797956099697869743553450906921082534703332005528865775889),
      (True, 52408300469259545963078364539176642844114745895432879313819418519703425),
      (False, 61677378676448281631155529256291444843811171236668202924396310444121372),
      (False, 323976351514297519352972091676551704304260822184369386738042145310),
      (True, 971199795876100115820377981384736540607655503349989044722150013749977),
      (False, 62724783867015135270872863355045327579570637439264391614276737304857226),
      (False, 5583991869711521878250766871642526098528744775747110816679283838593004),
      (False, 49604639586718777852514068025287067812506951152709812861161191980584447),
      (False, 24657234440875619818912855734834011426994283728303767461221500039340629),
      (False, 63085919908666488397705547098528211924262849603331453152749747736732847),
      (False, 104811842138609507853813718162029486478777092290370493566120674335887),
      (True, 101651852692152443482070296074344756479986351125776182099306781882292818),
      (False, 42738091488618708585196030333883241738832486794588896120352483917557647),
      (False, 2680537991116896444346222810526362411811769618968717346310989742934646),
      (False, 65278385251038212909243676963413868554031372916388830518355303177304370),
      (False, 51791010112017504347938927686146680973294750337136069882326296139115700),
      (True, 2957294336431208945892095356056039616653902407857070108411605172800352),
      (False, 13072263769584759036951504788660681830372047370536091154590209563847902),
      (True, 22667484751377021302471908717174759355659454968494349782144967342564599),
      (False, 553619627471757853402618358293982562180842736178066726090886863796111),
      (True, 16157061425081931724191962349576967558364483024451733902105846052138466),
      (False, 74058212732561358302231226437062788676166966415465897661863160754340905)]"

definition bits236_part :: "(bool \<times> int) list" where
  "bits236_part =
    [(True, 0), (False, 0), (True, 0), (True, 0), (True, 0), (True, 0), (False, 0), (True, 0),
      (False, 8313140759174391779718174581384026376896512), (False, 610753),
      (False, 1157159573946271223472362913079106073065108850241654650966611886786580),
      (False, 24752366511444457889588512937582753344158343999700394018332682390794398),
      (True, 122499941354661786233472485700937432900040061875414728670643570416423129),
      (True, 34247518182392854538658558488959479179165561695714089566764733098606499),
      (False, 4580709802609802649694377758614016532721444361670007055497436936751638),
      (True, 67564108073494849678595397947439726516616132207039525643727448587378233),
      (False, 1581020839647386328200544932585097837298665051318182793897979002137636),
      (False, 39202663809886529253829340683248242738319684636566099630114377491659839),
      (False, 12998728410037856559383389039278423275684310698596745005302581405835765),
      (True, 60152283995376325647994584946875018567274401010329036844172158211024392),
      (False, 17784719167843759080248451890735372301385571443822841055181066035614389),
      (True, 49792770173019843489725682141248297432707771882927195984556953030874538),
      (False, 27864567034871860577519570032741016091881146573544984347461671156536517),
      (False, 1531393189851146376704041272811734152287088311846553906206315285154993),
      (True, 18919232686946983744373444805709571712730402048416539839092954989149622),
      (True, 120485255594742648986484332523939123206351848922475636959752293680741737),
      (False, 73390411519929622829017518506288214258016127354227274680845614202410503),
      (False, 30158870963103383167930169422001574142469989357132966553994989329114467),
      (True, 23915478654673573194654470649307953392326271387887334466044588590288941),
      (True, 6515864120809629562991073281810391185062248833494516442093267749654094),
      (True, 29466810460688823946860703076646646679531392451812386380617098723491770),
      (True, 1160621240835282919050951948335245017146723158855308505665375786774892),
      (False, 7209031751886025387357323333454626263696774267179995147736760732841760),
      (True, 2632951390003365084335973123342242516486752734134481300714631218267153),
      (True, 84627622889592046404741497839485731337406975361735117551817279388666868),
      (True, 426135969297305335777391151775550010303196914667681621025775474146311),
      (True, 20813404811946240880143617252782535100322497885252814408259941941988084),
      (False, 39500950871114295143440728316281270050926568457830745950227210798568014),
      (False, 52313077441074672624183715521083514587340275789277486460515344096561948),
      (False, 35153951393554941235147189430086615163186688036328760545643930766393754),
      (True, 138410263884334697668989585783302797008286071685872971375087258913406678),
      (True, 41832835943989741901730126654307403538393699855890783072761033985881251),
      (True, 147860880963161488871598148691873729884102879153389967580661187774800616),
      (False, 124040740800502784159158201309001499428680217044235259742974989680252),
      (False, 5502118735217848572772976548618763168088411846233689071287546854155947),
      (True, 26087681199082037160337956481740719429391040715835570765273587255223214),
      (True, 92232718261552073960188940938004804758259176366793297784778916704704998),
      (True, 46546674822451590717534199232606053465495981671076303325335704820198264),
      (False, 43640975046147379448907198182990012079866321109616377133488698686605918),
      (True, 96913994927089439735818909119857892936373873868475114751776280327832044),
      (False, 35966503527844003029378274477109145875613536457707873368619714971706678),
      (True, 4292498439772539875113245926749808401244742909257348505721785574529891),
      (False, 789026550744237461417279879360768391737729621402180595280289091941320),
      (False, 180545085764386863080941208067206450607736793694004694604330827698515),
      (True, 54468357969940630847903070755584533619290143295762725935134971578551561),
      (False, 24762576096899098336158060060456886499967271944551491259875345372347245),
      (False, 26415014557319269354969579381474410077524440398545516613213450453762340),
      (False, 3332277669552274439986146704874254702288430677915795500904412771491518),
      (False, 56587323233587066496277858691136475818689270052206261830675480492579315),
      (True, 1349924075082780276702753767445467218150842080270606888311729582469349),
      (True, 143937864158956110630592553985582406544529904432008671955108538038374068),
      (False, 9312156109758469703849824938210800892317925220974681000635591841851007),
      (True, 94530487167808446290027239163393343673157767949897615521410548333089510),
      (False, 347749991847549650111835462083637654481009403032134019260908499036193),
      (False, 67054075072251032263986933927948862439647103053025031552768932082185748),
      (False, 41180981408973794870941102491021225379444826167519209874220736658769210),
      (True, 4032269168714558224485966390252941702192553538323437086566338828580863),
      (True, 50855921097425868668342240572447226372236984656075340425431102992866322),
      (False, 41246440591215224387854183769107645143015597121762276314351387414069189),
      (False, 13355489776682415329489866032965129616121053900198373837916608007368668),
      (True, 492455158715702634150911974863731001342068732473452735588521925698743),
      (False, 14216775334734902284854741485048253965239136015444041419028832683728650),
      (True, 81635334000239669851652805874673961220647979182055961350941960933546749),
      (False, 62357960439539771786128189601645106508750870812756374588267956349195311),
      (False, 57153412699306839625973651182967669345816692900568340219861985411391345),
      (True, 15945689846035256996305345415711374281493662633141366364906721213568476),
      (False, 54364411914724758443541641883992307341046508006289583044300701856578485),
      (False, 6895402717148043514959193901617493506645197422235451317313759372319685),
      (False, 22740888042010760031754550134738071144892501565620546614805772040026926),
      (True, 1272233952449249670485281565529823906902578794808389441858449973350695),
      (True, 8388338887976380979233632060637142191133287221350053799020984786454163),
      (False, 32676615189626696606969688926059182374810154778338336992834428126877671),
      (False, 51201068624161522796693086448446449429537990654770489420832469529821372),
      (False, 227634609924105556505695070201995370181179909042028064268988017474773),
      (True, 3166892416314906918693693430858285187093676442534392119535258251078632),
      (False, 31561899298008145797706081370360994443202422805003922511586819844195260),
      (False, 29903802025433582900323457948355307970738108896316002842234649276338173),
      (False, 22354964892793509691491052911460174674276674138938529269381598747491505),
      (True, 127269499929120772464615526585854164988136094233458206394173569538618142),
      (True, 8573981575186599190983813337084739610965500400993071700566079170689824),
      (True, 54146755567315981072578964901811582330213354162598612804536251080325523),
      (False, 21314219541077787215780681680441156076396487056065405556911207908716445),
      (True, 131344694343242240387140996989731845634947517757697103505563730114988853),
      (False, 440904244309287667153166437186660481486210696506512803525611201829458),
      (False, 1085655977620320063290744023886737844277678485243321116528451044092305),
      (True, 39167337156725204457292637679172753909629793556775606512403684320159701),
      (True, 17378957657975145986220623857802246461732111946846172678789774784278273),
      (True, 3255865534823263176614466836109888802190293622813622970500202692453021),
      (True, 3047295461152220427189866373814562132881496811975363930449659464845927),
      (True, 38991398212234826587318456173136271795483567459637684363610044019533792),
      (True, 12900672811037390088026761126188186993060667560218988915459697638922959),
      (False, 6402583129307733717762468072347783353048882562596280557838598256236721),
      (True, 37387381479768463221894128959083980892545541552905982316545567930718411),
      (False, 18552234429708552230906066971278449227825349130870566166955128734613604),
      (False, 58155301079529712686891825227722310086196770252801774077643867699556862),
      (True, 17737162134553459723163524430514104903164791560191599596628031593964703),
      (False, 6664360210452402490315611173150786364623480370785771235336876870711858),
      (False, 17183246477998790248640666963798796068560927665391050837232183657209882),
      (True, 9500020205533612460863607035023226341966507504527386742282590405388),
      (False, 58819197280462360685460293366817666672279025779735201958445338425775591),
      (False, 8525961415556822751429961544556541119070489617166438859227337066592683),
      (True, 51272897018039938331575911114022356578353089632635441588719792364967345),
      (False, 56054913101500797078504486632617290810907833942075047478446719477245190),
      (True, 15459064423577447528741810599168204838058394903725897591957194247937479),
      (True, 96805779070265861016038157719736767487428588851836723333874565562545129),
      (False, 21330397041878268220440035344430235221085025770882907312885155271526734),
      (True, 27132088235915598731399234909181487362125011788829694942919061461604934),
      (False, 27051543909748800298682990317910115598901721947196911740163252889717035),
      (True, 50607869088423557493687882383678272885283588652159591838997884593648727),
      (False, 8836431135896618987616964895708495005000121305835174671583745728515123)]"

definition field_half :: "(bool \<times> int) list" where
  "field_half =
    [(True, 0), (True, 0), (True, 0), (True, 0), (True, 0), (True, 0), (True, 0), (True, 1),
      (True, 0), (True, 0), (True, 0), (True, 0), (True, 0), (True, 1102735341553402596310854),
      (True, 942829938632377296283697278013626408871977656445920132388689198435089693638),
      (True, 6815733051070227683007179917180087812609369800448030980539184427408636433503),
      (True, 114879325439831120582747090688887667074747292471742683459243989529882896618193),
      (True, 1363507734306928362696447675741476609570644136198115698492051297579001177689),
      (True, 60281560627484322310792839924240717015033807934019655554939244451219324850406),
      (True, 5331693904062729566037547984692072219510661479864448302962544173935049584407),
      (True, 35065293505473288976672381607127066069505943702778691011549454109933861234535),
      (True, 31019118348922017079496557108320858793725621413120280228424085478614676735374),
      (True, 47856795871840759911024015570744251322235577976228105126831564726359485557293),
      (True, 59991837576878843771554544271772015880025582439139954621350529534145438039506),
      (True, 7121267769516051285566233254304252315191214831187063451453953938710815970236),
      (True, 107846588301411657130737652676825599297713318326640615414520771407115973263167),
      (True, 2470468345765169256498627346708025649968788340042232423154962042227618355247),
      (True, 21126968888001574160911701676469058525009290688311535334857835858306499080215),
      (True, 72129434840800993737594766937562980241504242759286808727511959662022683254),
      (True, 23886744714801014886696507769537827772679352855246385159771542539295817218),
      (True, 34236317605904163585681062992716918235371304725150807566214975380922891374656),
      (True, 49418068814073027786939222965101384818570426595103275001994154559470811450263),
      (True, 24889525671458636133049918620134199815995737275128861818537651559096112549957),
      (True, 33909823889445468395816053112666583997348647557673551830151649432773615972057),
      (True, 68705220018839470701708344091363781623830380996174727005071506490276201279),
      (True, 33653353227861115471807244732842623038077835185459716990702003422470968482121),
      (True, 184680957350171053601008169484232251864932553604089789576768160930510728638),
      (True, 70559746098075625025131452555425960169398508764954262929862801133083377400181),
      (True, 699671138370607142638158399561479379192385640216381956865657898524272280113),
      (True, 45986729705108761893603616490337953950205357797901125778761069926574284463),
      (True, 57661527400359551235189990161715595912155971929750886157147215303049275347867),
      (True, 5594110253028340288798724916772088337448547922689054508110472075031578891454),
      (True, 49725796211940085457352700556331510706638872021124800585935446561303865667288),
      (True, 73513605457459201063452174545633124813758896002802747858592922549656155836418),
      (True, 50707511896394559525332794583552196075700316238902702544794226182985420195280),
      (True, 34535707828096941879021334208018637816193227708579053180709331689349993804823),
      (True, 75757763576012600060890577488242269808913106080196825788218696325009937112779),
      (True, 65388483220840084844503722245902371806649787950636647710512328994131542996056),
      (True, 113091643876664973192676911548936802639023553217373243526750777290065189757887),
      (True, 21951598912791625014794482044960899374008813768385607956460346571117008405495),
      (True, 29911270452874792860804306021600080138446300369475900803036699849147729663689),
      (True, 70098129730927745549334358220234237641903814119017147622221604529308147930369),
      (True, 38894597506198890090533248757559052673473776389786401076392118655196940720228),
      (True, 68844445871547581578443438305970153888435062845642087781737184812917979347250),
      (True, 6833738372153958390816763840328580942651894780661843387767566082887943899746),
      (True, 62036121525276786361129582727978514126980334016848541147639853690961492930535),
      (True, 16488559292791830443437233576266510341323679343687904878891414320641194052143),
      (True, 90675300826876570257964173589869632215551221053836429204874863958324782489758),
      (True, 433986035544067378768525724930806284753631410967524787277712256961097284482),
      (True, 4203577074097247009668451653940048620250453719405284675649793245333694165784),
      (True, 17791698675592190232474878770473095402612049298441782134410277495684257472537),
      (True, 27687572638594103054705923628922746716039573944299549405064096788681639080602),
      (True, 57432884453438137317648403559665629027897111204616886666763003208069461109571),
      (True, 30433914591206086655608294228763483276043747474712097525447955223123828159904),
      (True, 12312234887876602463302682203350084809372534625901331288256269873514451665759),
      (True, 89716229323738468356297928799983150520706210586994565637666193051278784164853),
      (True, 73992579201980196177133953064924036416258108289854623838354300765080031423563),
      (True, 62450490420720726365096473025375917461390301069702083230526517023196685986030),
      (True, 4011708024670205646904773237461208104412745582931813139880285262458445039294),
      (True, 112788798186061165568232112285415094613530685650188299178786624149805459222425),
      (True, 35968584576694150731802210657912269816102424359723198576522881775916193206618),
      (True, 33778536389074492167093623245750137635126640889871494829332431893709929059776),
      (True, 40542388745613475419412795521961885166191856346960060743357652930813232951229),
      (True, 36940847510761537049519302323760336569418914353754154818909612656321600318701),
      (True, 1482936661063965941508723763038234862371988036480666090347743413112811770965),
      (True, 177297858094954578974222487749192763172459566360835587831674896873228531320),
      (True, 16477362849130450598533503689684345657660639061566213704638782611607952819942),
      (True, 10250655137755083936554601777335218503622461026677150232654266668018655170),
      (True, 65621314111920564825831336846232123239208664988423875896416652106963270576764),
      (True, 84957821439134776331261502280840113420261735806276486858221555402042411995466),
      (True, 14882941345564124828066017612008485121994852820235293373220361869233929282172),
      (True, 66167888761114278329360047299677447646835902200218611490803830916393541628264),
      (True, 40990137132804309067993861405480738383748193085991310918309078030973619724934),
      (True, 10493482402112578222049733773275244280863471691002947925447218845449690248560),
      (True, 82887639150859627985695389084459401301614568515524425440814149350044640278977),
      (True, 40341900485396506810626534887925053320998289030557401725810308111996057365195),
      (True, 24348555900761357856719497658816941186952571108290407458726547343078040770),
      (True, 33035992638159361878070554388821304506817225796044458999502934228030073007292),
      (True, 3598681545818014046532595030349327627238966246022107880752365188520292762450),
      (True, 3509260953049044626037840471861058536515752603446055066082547407964220423174),
      (True, 21296923116951245854307701228943322563305897622673032852674013740373971891202),
      (True, 2068542610636003040148657141626538149954058585666694678296033673991557851997),
      (True, 27835152366901602869213775208870338142669300156406924730895913480295754491170),
      (True, 76135800261391303496220006170475584376563810867234292070259099341430269826758),
      (True, 107021522777331710532511463055934353685744418295791798033768540634561326231025),
      (True, 12905000268571371168102031251766382466034814903427797583691205750547279589538),
      (True, 88010023303684465038199101971432350675823760395079792878159552348849283571707),
      (True, 33268637746747086649300906977479322187440244455853081277110274589156067877483),
      (True, 42060071605713142253378839584932387232486306678018152651713985412535598399254),
      (True, 39839382964208848360334067271390003525226080343821050650903459576745340575850),
      (True, 102350871631821708217226978349463918223567800242376397877045874881216697941533),
      (True, 21551224416963073931958173655969196502583458339059700066971628739627552918331),
      (True, 68920672239601872127110438747516143379289217536109008933192685770761686249272),
      (True, 66617145310951226535649859049230895090316809445487499335578021564514512252907),
      (True, 114642923946157193179762947389674802568062366165219526288805946914335514412463),
      (True, 5302157403045826681819926891373769556938583205314960449317747356958154950146),
      (True, 110090978274799507594614258164302118311941260200430991148351067799459978824447),
      (True, 25410733470850677615756904457297141522519319513288968301441171753949001603956),
      (True, 2610713715728084432186256106008826940331119867475596889210724823511239868971),
      (True, 1773823798640148924971310911663430344809015098267929626626178457686530130358),
      (True, 85645468321354912537564040079950959173999572124923354990543607696877755765852),
      (True, 34958540716999933903659224261659778987741104028921057937050563883786112750261),
      (True, 16538567811302158141411194913492995872801123104428166834159714586081056640480),
      (True, 114560925300620211026059563263751061831340433501817202116617979490432906880385),
      (True, 118527773247431684770500858927808657703675953607098613768931043887889997902),
      (True, 310875878529656691448703851227893817197627909111716434032923063868271649320),
      (True, 111221365025412675747956376611849817076852491744775589072119894329333407438431),
      (True, 96974790057819721861825314266735192123796800858614364812552591900009386467466),
      (True, 18982698857871083086182549736300479685966229295121067527056855531859555548581),
      (True, 67547479884447420660787454060870603558801664896804797072970719315679249953620),
      (True, 108090538100604096118304240725110680872291140372784317374303727527994397312650),
      (True, 564762749257840590673440239729974843475440910701497854226515968137418131555),
      (True, 31099169292798843622050696140956521451060393021839821803782179280418658226990),
      (True, 15238158146800529077116263893970360384118671085496816356940712432952763817373),
      (True, 10802904796157320391335265115260989674685824036037660820338680353868854321115),
      (True, 39162338906026079335215335328304674344687630835566103104216223267883526155280),
      (True, 4440788632666432019249815997819417179592159489060161313891228094890738425608),
      (True, 88111188870696254755449552974409393815014423354944383796027125958950030473209),
      (True, 25114903524586653826662315338969714662406522073540194989592059475750281158218),
      (True, 605751778060345461671016514523729909423593143178471046232124619385626244189),
      (True, 1744864231469849974112354672122145060993553896207903176120682340458473632686),
      (True, 30054950445788393613605989667092520738884439554979612480591510034787511326693),
      (True, 86363330233426273396377911430734596397474272800053473858361391588585251686947),
      (True, 33488258807715967697761766448059055738404468817230433671428649140773875457260),
      (True, 75700136442190403065218753352009466604487886460409827937139038491364131597516),
      (True, 55567007672627143614729654096522897032199591137465526892863225225929085584284),
      (True, 38576651120110702197779600441666693884358827431915363858168627966250487250875),
      (True, 10759761007217206031325290023206550541743494695725873171292104845553763856339),
      (True, 5939767283352931431985716365734046376026248774106787094486113023710149896781),
      (True, 26743872708913286202373842799721015217206051541719712602785366798746573947123),
      (True, 14115509983820132625438042482052551167784297491585821798176394036057575417378),
      (True, 2842585745982893617293124083823514537634167012734764358418444497757315728595),
      (True, 33881980811036541472033898503473800664499624824355458435912878190270506044514),
      (True, 63802302515798422379245586793185974195111664963371835224704263527059282209),
      (True, 7162012696790284798398180312341660849474109904106232763679276648418733861101),
      (True, 114360181474381813137840557426815433171026860246966996689286650914105276457265),
      (True, 56794777995493576020240577562350491590808922494996314790896039574132059826598),
      (True, 73007510055564560104349826962464043465309804757690126818907219567773497171056),
      (True, 26475747680083983496230108936423991337635288002028276688922985176814745290899),
      (True, 44167605923106563104188016223590846343945229021755613036295058864461190317974),
      (True, 50216973258116365209524540063075467803417184657892748373851398968378418394460),
      (True, 6675552609080276611244349742173351464965958472069789748282620977888559021339),
      (True, 1027724443113446721845149397926748437689418674520782065013613455796394928743),
      (True, 105880523778775898649789442283871116994999172150061642298388401429050124189705),
      (True, 16364448797414004016935442433817151154903072771179003446381278293219766429705),
      (True, 1629674709010145781567724911074021394837156596698000293511699479921077136332),
      (True, 16027988019749990667968078807425288476783301496478787031260703591891746647388),
      (True, 18770993228959014375168938097518852292827013663389723557022526825773154578937),
      (True, 2984982946272706557730076495588203411743423818118343095025383949986404589165),
      (True, 24056336605108267934262722213082671422221194304435394145711208271514514723157),
      (True, 59718220228477775803430539865569976364492777564242064434753391855748161551541),
      (True, 24409118098325100620684301060475331658149855347303882843425660276191920168233),
      (True, 106752997363902227275846233111344972455748592338486832573991598035947091827971),
      (True, 1760235207261448101400917070109583781090077042682496295978264267509801174521),
      (True, 15766045955247093706865167660048932482760871291574595400024946796442405901939),
      (True, 26958581517310207078548026223582635705116482300748825839201561774177508778390),
      (True, 43729979884628844514961163959984934689027826546456740975827991814152907761552),
      (True, 115675552371309004746650172950541549573762991964391863556167314696094380637985),
      (True, 64949618841489442485459062567039650228872921051349390588448231638339439105859),
      (True, 8497832763771902775038090377298488152418614983823215514164015516462540094787),
      (True, 81554644188702301886043824368740835519840372024765971879505442436884737630),
      (True, 3576259472552189766538554144532384344725373148939601174843544444239720922392),
      (True, 97922094252954841580436158849962182015990245232388346444910758876004225220097),
      (True, 6797799493774940782315341229939043353078157670583260907545545786492207907446),
      (True, 1270892248064565011731931979229484580348423213730173914072204635218210266200),
      (True, 9337566263196083440880237632939595892353753175270164222661303864127377219790),
      (True, 1325743649581327930090533642166358718458614003655066599811942150110280948209),
      (True, 16190985493593925008338701609184484960630540785055286743058726999387120317),
      (True, 102098750948385263615548679805957788779318581884505064888051734666373773862407),
      (True, 59169232505567184305421169843227849156496285224945090245673964009779441861981),
      (True, 98883869777991591692200403316074888097861101298223795119979037365591047168210),
      (True, 30614730492615893651777564138148123007690506370754340805410261947675162337450),
      (True, 1472226194860407327939406112525751104797216619309044555009447628076961690518),
      (True, 5707671407550746083628861245160355009642684000121147243669686455470024521054),
      (True, 19936282587661189517389820021190447876345778058782210102910438172928597695032),
      (True, 47313713253488906042808340731428985355312158499563503835177313716807217353298),
      (True, 58004387539622085164282737983403807747971906696474994356321912320073377024490),
      (True, 32051610840941404713960218040075651889489654966559030743224553634388224793791),
      (True, 80627886020193451209957314133038230128900897545505519542167669177457174326302),
      (True, 20286119184402312896158504202260467186492442673769965307943695141234975076626),
      (True, 68539992020267633820485159182892409706122368845377809604639198334172019229466),
      (True, 100066169176399347822725591111289443593712392604818543848675560599062036023280),
      (True, 35506324363858311991321119460829789107798122759392181367135885037886599880587),
      (True, 90246667795034992004292730401003788333181651450349129958268996401971357097414),
      (True, 82112928357912042852474345081823957601113537828821950574218809391071779775414),
      (True, 45337374349380054044296182014974884345690896089732339320745467038170136790065),
      (True, 51806724691223113204700370986623414773557566701137437371103298936036983839482),
      (True, 71451211547909170306290127088657338243372272262820662278598676986816170828882),
      (True, 64314203920079705065838344435537391234321221815124083317341594043375963705872),
      (True, 87055488545220954442423999313867354390128224210491086455916563780750119739487),
      (True, 35661950466832917681117845387774122029854310315808135677675700499843949427455),
      (True, 4222981435127824194292833681671228515188221348082536523085798595517273828694),
      (True, 1048578894279059557835586831415461858190826159564810201554052990818311686293),
      (True, 53035133632924709134138584286381598742332730364314402303128189876192530140635),
      (True, 33839611960660277626943348216192562676643815907243995882872804003236853248769),
      (True, 8861725351612733179999554277473080924110981746402813108971046972581479777367),
      (True, 1629146967295707459833087767044304513434445771118578304807454679216681049649),
      (True, 237838250234737005399441533290637460414814956761644585837062302903020817331),
      (True, 25725731771794899367554746637524451810544976575527858686160411599106482776284),
      (True, 21211651254132705903606869028799928617524066286236292272655086648503571851196),
      (True, 67103556142979995951677411268714025613358797236225737859292948855529943662172),
      (True, 112549017452900656837600807460527727797542322127410421293783528396358024973824),
      (True, 325993713232584152403783305726775850020875897191370107993638466699407322542),
      (True, 10153630123726883954600382569867503067257969122756506876810668466206730065849),
      (True, 346236774784282048982287196507942687420048610765782093316028690887186637220),
      (True, 103982915917262684091713821539452261199422400941298162738031943512584732294036),
      (True, 50324366171407062071915938371308680622477068193435267725030145000815887663853),
      (True, 57248033214146416679004895045047970885313643423296373108434881316451182644036),
      (True, 4606457201145289209030883952814959167680934483499460463844363761512686800012),
      (True, 2887517186413785412147386624891128719852770957645866966101228741041567248543),
      (True, 823671543061422590538933473883423503098856488889328699614575005671998107518),
      (True, 19619279503324135551736184995424164311143606891945765330952709817161126290394),
      (True, 111110166974807829943924490733480896646621990295083136777488477894090277179203),
      (True, 15697097024904490023314644856311081511390184007456081443080285325696271689298),
      (True, 20914250341339401260809467524537702095655217325448129132055419330101915082559),
      (True, 95904574508272335054729634748457204111150957928688871484759248037084303558943),
      (True, 5251497978101848495924295816387004670950041672497871491771754700927306395447),
      (True, 978178737041163663962443647466362324135524544872190231728991176354193162),
      (True, 78882993310446606079518835831723378978727237688761759971463048956226180081609),
      (True, 13139897993387627732373127986684184230359577417313662381823690285498056949606),
      (True, 9780903108888347696821915469366969466452103835306477429771145416059591070340),
      (True, 36913040796740976079687075135687449967910678913365092604224181346215831692497),
      (True, 49121342048058996202818384028079788763593058647873047451064990681005274235703),
      (True, 146297893751946087527890098974944408979994736920338507732265225322737550232),
      (True, 14164087517648491448500441193429708359853486060666517814462096397014080965130),
      (True, 62607900091426251028123606207181133541054944544110251303837911916825046308784),
      (True, 1020535256926567958458839914698197869451370729839077744084739366158170552195),
      (True, 39657504691930067112915947409546498072870526491711844916946027419326767452697),
      (True, 90288075267062399135209955216705382931132191343215404981108169191282315586235),
      (True, 64526200254371939979393726796435021455763766592346840061891252458320216944910),
      (True, 102757343057217881138175483961920935187940444696857123649281189953567037407512),
      (True, 48711896042184790895959322374384436421661016505908593212167207426933367124203),
      (True, 499853215345713923513103460321439700651913380186534994724074057614202994348),
      (True, 506672213712675151645405134118650569071260076722547223063257836022000498282),
      (True, 11177481127461117559186485083179962760857158521012151917702231051862375128175),
      (True, 31817237926428301716481629198920036835377433245612531690899656520295840587170),
      (True, 8313480893308283612982297008344614904647976932613507160336014299061426140185),
      (True, 37132474884670226093998080357299778750522178901260223182847880066502652096073),
      (True, 22790496237232776564747423127153361809538546195459431229453633992955460259161),
      (True, 23192472920955859091132356263708257444097148224505203993727824985973104756014),
      (False, 57488892892568471791421702514207109143894690784151447750986744052104094219481),
      (True, 18212562687982170203641850479078031168141106034460617211550174573135082294351),
      (True, 51974387280576871821953725479083298163253499104296142594374103994723114637850),
      (False, 6690407189080634018507799843845558368979872843924222843531373839242004886244)]"

definition field_part :: "(bool \<times> int) list" where
  "field_part =
    [(True, 0), (False, 0), (True, 0), (True, 0), (True, 0), (True, 0), (True, 0), (False, 0),
      (True, 85070591730234615865843651857942052864), (True, 90),
      (False, 3618502788666131106986593281521497120414687020801267626233049500247285302104),
      (True, 4070815637249397495359917441711684260466522898401426079512180687778198169178),
      (True, 13067600891100930501598068315494625343060070901292077814267399487995699632785),
      (True, 1180076119303530875144116285532815935167358627057121551494565672490314011965),
      (False, 1731074615247051634489172293683676124410868977223555680707173906843900652117),
      (False, 43324204993500061597826158612414131961250850909546105626879919447147686421064),
      (False, 3075446206036701470872393826992783401752763128678510908850634197157076446817),
      (True, 29096143762806239262705528706363760764796179979535943756800641576788782737836),
      (False, 802028749036987574340757424989663227075669220565584140869463940457761020232),
      (False, 27665405654990747157847101006816744579137975244959593346139654333549227807747)]"

section \<open>Powers\<close>

lemma small_full_power:
  "power_to 8574133 small_full
    1"
  unfolding small_full_def by (simp only: power_rules)

lemma small_full_exponent:
  "chain_exponent small_full 0 = 8574132"
  unfolding small_full_def by simp

lemma small_part_power:
  "power_to 8574133 small_part
    3435729"
  unfolding small_part_def by (simp only: power_rules)

lemma small_part_exponent:
  "chain_exponent small_part 0 = 8652"
  unfolding small_part_def by simp

lemma bits51_full_power:
  "power_to 1919519569386763 bits51_full
    1"
  unfolding bits51_full_def by (simp only: power_rules)

lemma bits51_full_exponent:
  "chain_exponent bits51_full 0 = 1919519569386762"
  unfolding bits51_full_def by simp

lemma bits51_part_power:
  "power_to 1919519569386763 bits51_part
    1059928654987441"
  unfolding bits51_part_def by (simp only: power_rules)

lemma bits51_part_exponent:
  "chain_exponent bits51_part 0 = 223873314"
  unfolding bits51_part_def by simp

lemma bits116_full_power:
  "power_to 75445702479781427272750846543864801 bits116_full
    1"
  unfolding bits116_full_def by (simp only: power_rules)

lemma bits116_full_exponent:
  "chain_exponent bits116_full 0 = 75445702479781427272750846543864800"
  unfolding bits116_full_def by simp

lemma bits116_part_power:
  "power_to 75445702479781427272750846543864801 bits116_part
    56747016255153332959347766392083459"
  unfolding bits116_part_def by (simp only: power_rules)

lemma bits116_part_exponent:
  "chain_exponent bits116_part 0 = 39304471641247389600"
  unfolding bits116_part_def by simp

lemma bits236_full_power:
  "power_to 74058212732561358302231226437062788676166966415465897661863160754340907 bits236_full
    1"
  unfolding bits236_full_def by (simp only: power_rules)

lemma bits236_full_exponent:
  "chain_exponent bits236_full 0 = 74058212732561358302231226437062788676166966415465897661863160754340906"
  unfolding bits236_full_def by simp

lemma bits236_part_power:
  "power_to 74058212732561358302231226437062788676166966415465897661863160754340907 bits236_part
    69490809710348678725736597923071784769591275419387514694139338586948360"
  unfolding bits236_part_def by (simp only: power_rules)

lemma bits236_part_exponent:
  "chain_exponent bits236_part 0 = 981609426360740691344999861639072106"
  unfolding bits236_part_def by simp

lemma field_half_power:
  "power_to 57896044618658097711785492504343953926634992332820282019728792003956564819949 field_half
    57896044618658097711785492504343953926634992332820282019728792003956564819948"
  unfolding field_half_def by (simp only: power_rules)

lemma field_half_exponent:
  "chain_exponent field_half 0 = 28948022309329048855892746252171976963317496166410141009864396001978282409974"
  unfolding field_half_def by simp

lemma field_part_power:
  "power_to 57896044618658097711785492504343953926634992332820282019728792003956564819949 field_part
    427094198651976259540344842774561673889945192655078505504941250475370961481"
  unfolding field_part_def by (simp only: power_rules)

lemma field_part_exponent:
  "chain_exponent field_part 0 = 781764"
  unfolding field_part_def by simp

section \<open>The numbers are prime\<close>

lemma prime_991: "prime_nat 991"
  by (rule trial_division [of _ 32]) simp_all

lemma prime_small: "prime_nat 8574133"
proof (rule prime_by_chains [OF _ _ _ prime_991 _ _ _ small_full_power _ _ small_part_power])
  show "8574133 - 1 = 2 * 991 * (4326 :: nat)" by simp
  show "chain_exponent small_full 0 * 1 = 8574133 - 1" by (simp add: small_full_exponent)
  show "1 ^ 1 = 1 + 0 * int 8574133" by simp
  show "chain_exponent small_part 0 = 2 * 4326" by (simp add: small_part_exponent)
  show "(3435729 - 1) * 1014251 = 1 + 406419 * int 8574133" by simp
qed simp_all

lemma prime_bits51: "prime_nat 1919519569386763"
proof (rule prime_by_chains [OF _ _ _ prime_small _ _ _ bits51_full_power _ _ bits51_part_power])
  show "1919519569386763 - 1 = 2 * 8574133 * (111936657 :: nat)" by simp
  show "chain_exponent bits51_full 0 * 1 = 1919519569386763 - 1" by (simp add: bits51_full_exponent)
  show "1 ^ 1 = 1 + 0 * int 1919519569386763" by simp
  show "chain_exponent bits51_part 0 = 2 * 111936657" by (simp add: bits51_part_exponent)
  show "(1059928654987441 - 1) * 1290547218147893 = 1 + 712619969572013 * int 1919519569386763" by simp
qed simp_all

lemma prime_bits116: "prime_nat 75445702479781427272750846543864801"
proof (rule prime_by_chains [OF _ _ _ prime_bits51 _ _ _ bits116_full_power _ _ bits116_part_power])
  show "75445702479781427272750846543864801 - 1 = 2 * 1919519569386763 * (19652235820623694800 :: nat)" by simp
  show "chain_exponent bits116_full 0 * 1 = 75445702479781427272750846543864801 - 1" by (simp add: bits116_full_exponent)
  show "1 ^ 1 = 1 + 0 * int 75445702479781427272750846543864801" by simp
  show "chain_exponent bits116_part 0 = 2 * 19652235820623694800" by (simp add: bits116_part_exponent)
  show "(56747016255153332959347766392083459 - 1) * 74602835786463724888147869570305675 = 1 + 56113048138023733339996598108928949 * int 75445702479781427272750846543864801" by simp
qed simp_all

lemma prime_bits236: "prime_nat 74058212732561358302231226437062788676166966415465897661863160754340907"
proof (rule prime_by_chains [OF _ _ _ prime_bits116 _ _ _ bits236_full_power _ _ bits236_part_power])
  show "74058212732561358302231226437062788676166966415465897661863160754340907 - 1 = 2 * 75445702479781427272750846543864801 * (490804713180370345672499930819536053 :: nat)" by simp
  show "chain_exponent bits236_full 0 * 1 = 74058212732561358302231226437062788676166966415465897661863160754340907 - 1" by (simp add: bits236_full_exponent)
  show "1 ^ 1 = 1 + 0 * int 74058212732561358302231226437062788676166966415465897661863160754340907" by simp
  show "chain_exponent bits236_part 0 = 2 * 490804713180370345672499930819536053" by (simp add: bits236_part_exponent)
  show "(69490809710348678725736597923071784769591275419387514694139338586948360 - 1) * 70463328703800545008217672123162676565183935400628861884889913886334520 = 1 + 66117633491858138461393741777649859022484251587227054915412604379442197 * int 74058212732561358302231226437062788676166966415465897661863160754340907" by simp
qed simp_all

text \<open>Two is not a square modulo \<open>2 ^ 255 - 19\<close>: its power at half of the predecessor is minus one.\<close>

lemma two_half_power: "2 ^ chain_exponent field_half 0 mod (2 ^ 255 - 19 :: int) = 2 ^ 255 - 20"
  using chain_power [OF field_half_power, of "2 ^ 255 - 19"] by simp

lemma two_half_exponent: "chain_exponent field_half 0 * 2 = 2 ^ 255 - 20"
  by (simp add: field_half_exponent)

theorem prime_field: "prime_nat (2 ^ 255 - 19)"
proof (rule prime_by_chains [OF _ _ _ prime_bits236 _ _ _ field_half_power _ _ field_part_power])
  show "2 ^ 255 - 19 - 1 = 2 * 74058212732561358302231226437062788676166966415465897661863160754340907 * (390882 :: nat)" by simp
  show "chain_exponent field_half 0 * 2 = 2 ^ 255 - 19 - 1" by (simp add: field_half_exponent)
  show "57896044618658097711785492504343953926634992332820282019728792003956564819948 ^ 2 = 1 + 57896044618658097711785492504343953926634992332820282019728792003956564819947 * int (2 ^ 255 - 19)" by simp
  show "chain_exponent field_part 0 = 2 * 390882" by (simp add: field_part_exponent)
  show "(427094198651976259540344842774561673889945192655078505504941250475370961481 - 1) * 55540832096118778044507775605005710249233119951144946814680141076505643269084 = 1 + 409719996120619553712206717513598108624848060785013849502386565616653579131 * int (2 ^ 255 - 19)" by simp
qed simp_all

end
