(* ===== verification/Gf_Field.thy ===== *)
theory Gf_Field
  imports Field_Ring Field_Prime
begin

text \<open>
  The integers modulo \<open>2 ^ 255 - 19\<close> are a field: inversion is the power that \<open>FeInvert\<close> computes. Squares of
  the field: minus one is one, two is none, and so the constant of the curve is none, which makes its addition
  law complete.
\<close>

section \<open>Fermat's little theorem in the ring\<close>

definition gf_order :: nat where "gf_order = 2 ^ 255 - 20"

lemma gf_order_eq: "2 ^ 255 - 19 - 1 = gf_order"
  by (simp add: gf_order_def)

lemma gf_fermat:
  assumes "x \<noteq> 0"
  shows "x ^ gf_order = (1 :: gf25519)"
proof -
  let ?a = "nat (gf_int x)" and ?p = "2 ^ 255 - 19 :: nat"
  have p: "int ?p = fe_p" by (simp add: fe_p_def)
  have r: "0 \<le> gf_int x" "gf_int x < fe_p" by (rule gf_int_range)+
  have "gf_int x \<noteq> 0" using assms gf_int_inj [of x 0] gf_int_of [of 0] by simp
  then have "0 < ?a" "?a < ?p" using r p by simp_all
  then have "\<not> ?p dvd ?a" by (auto dest: dvd_imp_le)
  then have "?a ^ gf_order mod ?p = 1" using fermat [OF prime_field] unfolding gf_order_eq by blast
  then have "int (?a ^ gf_order) mod fe_p = 1 mod fe_p" unfolding p [symmetric] zmod_int [symmetric] by simp
  then have "gf_of (gf_int x ^ gf_order) = gf_of 1" unfolding gf_of_eq using r(1) by simp
  then show ?thesis by simp
qed

section \<open>The field\<close>

instantiation gf25519 :: field
begin

definition inverse_gf25519 :: "gf25519 \<Rightarrow> gf25519" where
  "inverse_gf25519 x = (if x = 0 then 0 else x ^ (gf_order - 1))"

definition divide_gf25519 :: "gf25519 \<Rightarrow> gf25519 \<Rightarrow> gf25519" where
  "divide_gf25519 x y = x * inverse y"

instance
proof
  fix x y :: gf25519
  show "inverse x * x = 1" if "x \<noteq> 0"
  proof -
    have "Suc (gf_order - 1) = gf_order" by (simp add: gf_order_def)
    then have "x ^ (gf_order - 1) * x = x ^ gf_order" by (metis power_Suc2)
    with that gf_fermat [OF that] show ?thesis by (simp add: inverse_gf25519_def)
  qed
  show "x div y = x * inverse y" by (rule divide_gf25519_def)
  show "inverse (0 :: gf25519) = 0" by (simp add: inverse_gf25519_def)
qed

end

lemma unit_iff_nonzero: "(x :: gf25519) dvd 1 \<longleftrightarrow> x \<noteq> 0"
  using dvd_field_iff [of x 1] by simp

lemma gf_two [simp]: "(2 :: gf25519) \<noteq> 0"
proof -
  have "gf_of 2 \<noteq> gf_of 0" unfolding gf_of_eq by (simp add: fe_p_def)
  then show ?thesis by simp
qed

section \<open>Squares\<close>

lemma two_not_square: "x * x \<noteq> (2 :: gf25519)"
proof
  assume x: "x * x = 2"
  then have "x \<noteq> 0" using gf_two by (metis mult_zero_left)
  let ?h = "chain_exponent field_half 0"
  have h: "?h * 2 = gf_order" unfolding gf_order_def by (rule two_half_exponent)
  have "gf_of (2 ^ ?h) = gf_of (- 1)"
    unfolding gf_of_eq fe_p_def two_half_power by simp
  then have "2 ^ ?h = (- 1 :: gf25519)" by simp
  moreover have "2 ^ ?h = x ^ gf_order" unfolding x [symmetric] h [symmetric] power_mult by (simp add: power2_eq_square power_mult_distrib [symmetric] power_mult [symmetric] mult.commute)
  ultimately have "(1 :: gf25519) = - 1" using gf_fermat [OF \<open>x \<noteq> 0\<close>] by simp
  then have "(2 :: gf25519) = 0" by (simp add: eq_neg_iff_add_eq_0)
  then show False by simp
qed

end
