(* ===== verification/Group25519.thy ===== *)
theory Group25519
  imports Field_Ring
begin

text \<open>
  The curve points of \<open>src/vrf/edwards25519/edwards25519.go\<close> and their addition, subtraction and
  doubling in the four coordinate systems. The receivers and result pointers of the source are the
  results of the functions. The abstract specification is the addition law of the twisted Edwards curve
  on affine points over the ring of the field; the formulas refine it.
\<close>

unbundle bit_operations_syntax

section \<open>Constants (\<open>const.go\<close>)\<close>

definition curve_d :: FieldElement where
  "curve_d = FE (- 10913610) 13857413 (- 15372611) 6949391 114729
     (- 8787816) (- 6275908) (- 3247719) (- 18696448) (- 12055116)"

definition curve_d2 :: FieldElement where
  "curve_d2 = FE (- 21827239) (- 5839606) (- 30745221) 13898782 229458
     15978800 (- 12551817) (- 6495438) 29715968 9444199"

definition SqrtM1 :: FieldElement where
  "SqrtM1 = FE (- 32595792) (- 7943725) 9377950 3500415 12389472
     (- 272473) (- 25146209) (- 2005654) 326686 11406482"

definition curve_A :: FieldElement where
  "curve_A = FE 486662 0 0 0 0 0 0 0 0 0"

section \<open>Points\<close>

definition Proj_Zero :: ProjectiveGroupElement where
  "Proj_Zero = \<lparr>pX = FeZero, pY = FeOne, pZ = FeOne\<rparr>"

definition Proj_Double :: "ProjectiveGroupElement \<Rightarrow> CompletedGroupElement" where
  "Proj_Double p =
     (let rX = FeSquare (pX p);
          rZ = FeSquare (pY p);
          rT = FeSquare2 (pZ p);
          rY = FeAdd (pX p) (pY p);
          t0 = FeSquare rY;
          rY = FeAdd rZ rX;
          rZ = FeSub rZ rX;
          rX = FeSub t0 rY;
          rT = FeSub rT rZ
      in \<lparr>cX = rX, cY = rY, cZ = rZ, cT = rT\<rparr>)"

definition Proj_ToBytes :: "ProjectiveGroupElement \<Rightarrow> bytes" where
  "Proj_ToBytes p =
     (let recip = FeInvert (pZ p);
          x = FeMul (pX p) recip;
          y = FeMul (pY p) recip;
          s = fst (FeToBytes y)
      in s[31 := s ! 31 XOR push_bit 7 (fst (FeIsNegative x))])"

definition Ext_Zero :: ExtendedGroupElement where
  "Ext_Zero = \<lparr>eX = FeZero, eY = FeOne, eZ = FeOne, eT = FeZero\<rparr>"

definition Ext_ToProjective :: "ExtendedGroupElement \<Rightarrow> ProjectiveGroupElement" where
  "Ext_ToProjective p = \<lparr>pX = FeCopy (eX p), pY = FeCopy (eY p), pZ = FeCopy (eZ p)\<rparr>"

definition Ext_Double :: "ExtendedGroupElement \<Rightarrow> CompletedGroupElement" where
  "Ext_Double p = Proj_Double (Ext_ToProjective p)"

definition Ext_ToCached :: "ExtendedGroupElement \<Rightarrow> CachedGroupElement" where
  "Ext_ToCached p = \<lparr>ca_yPlusX = FeAdd (eY p) (eX p), ca_yMinusX = FeSub (eY p) (eX p),
     ca_Z = FeCopy (eZ p), ca_T2d = FeMul (eT p) curve_d2\<rparr>"

definition Ext_ToBytes :: "ExtendedGroupElement \<Rightarrow> bytes" where
  "Ext_ToBytes p =
     (let recip = FeInvert (eZ p);
          x = FeMul (eX p) recip;
          y = FeMul (eY p) recip;
          s = fst (FeToBytes y)
      in s[31 := s ! 31 XOR push_bit 7 (fst (FeIsNegative x))])"

text \<open>
  \<open>FromBytes\<close> changes its receiver, also when it fails: \<open>p\<close> is the receiver before the call. The calls
  of \<open>FeIsNonZero\<close>, \<open>FeIsNegative\<close> and \<open>FeToBytes\<close> reduce their argument in place; the two arrays that
  the second branch fills are not read.
\<close>

definition Ext_FromBytes :: "ExtendedGroupElement \<Rightarrow> bytes \<Rightarrow> bool \<times> ExtendedGroupElement" where
  "Ext_FromBytes p s =
     (let Y = FeFromBytes s;
          Z = FeOne;
          u = FeSquare Y;
          v = FeMul u curve_d;
          u = FeSub u Z;
          v = FeAdd v Z;
          v3 = FeSquare v;
          v3 = FeMul v3 v;
          X = FeSquare v3;
          X = FeMul X v;
          X = FeMul X u;
          X = fePow22523 X;
          X = FeMul X v3;
          X = FeMul X u;
          vxx = FeSquare X;
          vxx = FeMul vxx v;
          found = (if fst (FeIsNonZero (FeSub vxx u)) = 1
                   then if fst (FeIsNonZero (FeAdd vxx u)) = 1 then None
                        else Some (snd (FeToBytes (FeMul X SqrtM1)))
                   else Some X)
      in case found of
           None \<Rightarrow> (False, p\<lparr>eX := X, eY := Y, eZ := Z\<rparr>)
         | Some X \<Rightarrow>
             let (neg, X) = FeIsNegative X;
                 X = (if neg \<noteq> drop_bit 7 (s ! 31) then FeNeg X else X)
             in (True, \<lparr>eX = X, eY = Y, eZ = Z, eT = FeMul X Y\<rparr>))"

definition Comp_ToProjective :: "CompletedGroupElement \<Rightarrow> ProjectiveGroupElement" where
  "Comp_ToProjective p = \<lparr>pX = FeMul (cX p) (cT p), pY = FeMul (cY p) (cZ p), pZ = FeMul (cZ p) (cT p)\<rparr>"

definition Comp_ToExtended :: "CompletedGroupElement \<Rightarrow> ExtendedGroupElement" where
  "Comp_ToExtended p = \<lparr>eX = FeMul (cX p) (cT p), eY = FeMul (cY p) (cZ p), eZ = FeMul (cZ p) (cT p),
     eT = FeMul (cX p) (cY p)\<rparr>"

definition Pre_Zero :: PreComputedGroupElement where
  "Pre_Zero = \<lparr>pre_yPlusX = FeOne, pre_yMinusX = FeOne, pre_xy2d = FeZero\<rparr>"

section \<open>Addition and subtraction\<close>

definition geAdd :: "ExtendedGroupElement \<Rightarrow> CachedGroupElement \<Rightarrow> CompletedGroupElement" where
  "geAdd p q =
     (let rX = FeAdd (eY p) (eX p);
          rY = FeSub (eY p) (eX p);
          rZ = FeMul rX (ca_yPlusX q);
          rY = FeMul rY (ca_yMinusX q);
          rT = FeMul (ca_T2d q) (eT p);
          rX = FeMul (eZ p) (ca_Z q);
          t0 = FeAdd rX rX;
          rX = FeSub rZ rY;
          rY = FeAdd rZ rY;
          rZ = FeAdd t0 rT;
          rT = FeSub t0 rT
      in \<lparr>cX = rX, cY = rY, cZ = rZ, cT = rT\<rparr>)"

definition geSub :: "ExtendedGroupElement \<Rightarrow> CachedGroupElement \<Rightarrow> CompletedGroupElement" where
  "geSub p q =
     (let rX = FeAdd (eY p) (eX p);
          rY = FeSub (eY p) (eX p);
          rZ = FeMul rX (ca_yMinusX q);
          rY = FeMul rY (ca_yPlusX q);
          rT = FeMul (ca_T2d q) (eT p);
          rX = FeMul (eZ p) (ca_Z q);
          t0 = FeAdd rX rX;
          rX = FeSub rZ rY;
          rY = FeAdd rZ rY;
          rZ = FeSub t0 rT;
          rT = FeAdd t0 rT
      in \<lparr>cX = rX, cY = rY, cZ = rZ, cT = rT\<rparr>)"

definition geMixedAdd :: "ExtendedGroupElement \<Rightarrow> PreComputedGroupElement \<Rightarrow> CompletedGroupElement" where
  "geMixedAdd p q =
     (let rX = FeAdd (eY p) (eX p);
          rY = FeSub (eY p) (eX p);
          rZ = FeMul rX (pre_yPlusX q);
          rY = FeMul rY (pre_yMinusX q);
          rT = FeMul (pre_xy2d q) (eT p);
          t0 = FeAdd (eZ p) (eZ p);
          rX = FeSub rZ rY;
          rY = FeAdd rZ rY;
          rZ = FeAdd t0 rT;
          rT = FeSub t0 rT
      in \<lparr>cX = rX, cY = rY, cZ = rZ, cT = rT\<rparr>)"

definition geMixedSub :: "ExtendedGroupElement \<Rightarrow> PreComputedGroupElement \<Rightarrow> CompletedGroupElement" where
  "geMixedSub p q =
     (let rX = FeAdd (eY p) (eX p);
          rY = FeSub (eY p) (eX p);
          rZ = FeMul rX (pre_yMinusX q);
          rY = FeMul rY (pre_yPlusX q);
          rT = FeMul (pre_xy2d q) (eT p);
          t0 = FeAdd (eZ p) (eZ p);
          rX = FeSub rZ rY;
          rY = FeAdd rZ rY;
          rZ = FeSub t0 rT;
          rT = FeAdd t0 rT
      in \<lparr>cX = rX, cY = rY, cZ = rZ, cT = rT\<rparr>)"

section \<open>The curve and its addition law\<close>

type_synonym point = "gf25519 \<times> gf25519"

definition on_curve :: "point \<Rightarrow> bool" where
  "on_curve a \<longleftrightarrow> (case a of (x, y) \<Rightarrow> y * y - x * x = 1 + gf curve_d * (x * x * (y * y)))"

definition neg_point :: "point \<Rightarrow> point" where
  "neg_point a = (case a of (x, y) \<Rightarrow> (- x, y))"

text \<open>
  \<open>ed_sum a b c\<close>: \<open>c\<close> is the sum of \<open>a\<close> and \<open>b\<close>, the solution of
  \<open>x\<^sub>3 (1 + d x\<^sub>1 x\<^sub>2 y\<^sub>1 y\<^sub>2) = x\<^sub>1 y\<^sub>2 + x\<^sub>2 y\<^sub>1\<close> and \<open>y\<^sub>3 (1 - d x\<^sub>1 x\<^sub>2 y\<^sub>1 y\<^sub>2) = y\<^sub>1 y\<^sub>2 + x\<^sub>1 x\<^sub>2\<close>, where the two
  factors can be divided by.
\<close>

definition ed_sum :: "point \<Rightarrow> point \<Rightarrow> point \<Rightarrow> bool" where
  "ed_sum a b c \<longleftrightarrow> (case (a, b, c) of ((x1, y1), (x2, y2), (x3, y3)) \<Rightarrow>
     let k = gf curve_d * (x1 * x2 * (y1 * y2))
     in (1 + k) dvd 1 \<and> (1 - k) dvd 1 \<and> x3 * (1 + k) = x1 * y2 + x2 * y1 \<and> y3 * (1 - k) = y1 * y2 + x1 * x2)"

section \<open>Coordinates of a point\<close>

definition proj_at :: "ProjectiveGroupElement \<Rightarrow> point \<Rightarrow> bool" where
  "proj_at P a \<longleftrightarrow> (case a of (x, y) \<Rightarrow>
     (\<exists>z. z dvd 1 \<and> rep 2 (pX P) (x * z) \<and> rep 1 (pY P) (y * z) \<and> rep 1 (pZ P) z))"

definition ext_at :: "ExtendedGroupElement \<Rightarrow> point \<Rightarrow> bool" where
  "ext_at P a \<longleftrightarrow> (case a of (x, y) \<Rightarrow>
     (\<exists>z. z dvd 1 \<and> rep 2 (eX P) (x * z) \<and> rep 1 (eY P) (y * z) \<and> rep 1 (eZ P) z \<and> rep 1 (eT P) (x * y * z)))"

definition comp_at :: "CompletedGroupElement \<Rightarrow> point \<Rightarrow> bool" where
  "comp_at P a \<longleftrightarrow> (case a of (x, y) \<Rightarrow>
     (\<exists>z t. z dvd 1 \<and> t dvd 1 \<and> rep 3 (cX P) (x * z) \<and> rep 3 (cY P) (y * t) \<and> rep 3 (cZ P) z \<and> rep 3 (cT P) t))"

definition cached_at :: "CachedGroupElement \<Rightarrow> point \<Rightarrow> bool" where
  "cached_at P a \<longleftrightarrow> (case a of (x, y) \<Rightarrow>
     (\<exists>z. z dvd 1 \<and> rep 3 (ca_yPlusX P) ((y + x) * z) \<and> rep 3 (ca_yMinusX P) ((y - x) * z) \<and> rep 1 (ca_Z P) z
        \<and> rep 1 (ca_T2d P) (2 * gf curve_d * (x * y) * z)))"

definition pre_at :: "PreComputedGroupElement \<Rightarrow> point \<Rightarrow> bool" where
  "pre_at P a \<longleftrightarrow> (case a of (x, y) \<Rightarrow>
     rep 3 (pre_yPlusX P) (y + x) \<and> rep 3 (pre_yMinusX P) (y - x) \<and> rep 3 (pre_xy2d P) (2 * gf curve_d * (x * y)))"

section \<open>The formulas\<close>

lemma rep_mono: "rep j f x \<Longrightarrow> j \<le> k \<Longrightarrow> rep k f x"
  unfolding rep_def by (auto elim!: fe_within_mono simp: tight_def)

text \<open>
  What the formulas need of an arithmetic on limbs: products of arguments up to three times the bound of a
  product, and sums and differences up to that. The four addition functions are instances of one
  formula, proved once over this interface.
\<close>

locale limb_arithmetic =
  fixes rp :: "int \<Rightarrow> 'f \<Rightarrow> 'a :: comm_ring_1 \<Rightarrow> bool"
    and add sub mul :: "'f \<Rightarrow> 'f \<Rightarrow> 'f"
  assumes mul_law: "rp j f x \<Longrightarrow> rp k g y \<Longrightarrow> j \<le> 3 \<Longrightarrow> k \<le> 3 \<Longrightarrow> rp 1 (mul f g) (x * y)"
    and add_law: "rp j f x \<Longrightarrow> rp k g y \<Longrightarrow> j + k \<le> 6 \<Longrightarrow> rp (j + k) (add f g) (x + y)"
    and sub_law: "rp j f x \<Longrightarrow> rp k g y \<Longrightarrow> j + k \<le> 6 \<Longrightarrow> rp (j + k) (sub f g) (x - y)"
begin

lemma cross_products:
  assumes "rp 2 X1 (x1 * z1)" and "rp 1 Y1 (y1 * z1)" and "rp 3 U ((y2 + x2) * z2)" and "rp 3 V ((y2 - x2) * z2)"
  shows "rp 2 (sub (mul (add Y1 X1) U) (mul (sub Y1 X1) V)) ((x1 * y2 + x2 * y1) * (2 * (z1 * z2)))"
    and "rp 2 (add (mul (add Y1 X1) U) (mul (sub Y1 X1) V)) ((y1 * y2 + x1 * x2) * (2 * (z1 * z2)))"
proof -
  have a: "rp 1 (mul (add Y1 X1) U) ((y1 * z1 + x1 * z1) * ((y2 + x2) * z2))"
    using mul_law [OF add_law [OF assms(2,1)] assms(3)] by simp
  have b: "rp 1 (mul (sub Y1 X1) V) ((y1 * z1 - x1 * z1) * ((y2 - x2) * z2))"
    using mul_law [OF sub_law [OF assms(2,1)] assms(4)] by simp
  show "rp 2 (sub (mul (add Y1 X1) U) (mul (sub Y1 X1) V)) ((x1 * y2 + x2 * y1) * (2 * (z1 * z2)))"
    using sub_law [OF a b] by (simp add: algebra_simps)
  show "rp 2 (add (mul (add Y1 X1) U) (mul (sub Y1 X1) V)) ((y1 * y2 + x1 * x2) * (2 * (z1 * z2)))"
    using add_law [OF a b] by (simp add: algebra_simps)
qed

lemma denominators:
  assumes "rp 1 T1 (x1 * y1 * z1)" and "rp j W (2 * d * (x2 * y2) * z2)" and "j \<le> 3" and "rp 2 D (2 * (z1 * z2))"
  shows "rp 3 (add D (mul W T1)) ((1 + d * (x1 * x2 * (y1 * y2))) * (2 * (z1 * z2)))"
    and "rp 3 (sub D (mul W T1)) ((1 - d * (x1 * x2 * (y1 * y2))) * (2 * (z1 * z2)))"
proof -
  have w: "rp 1 (mul W T1) (2 * d * (x2 * y2) * z2 * (x1 * y1 * z1))" using mul_law [OF assms(2,1,3)] by simp
  show "rp 3 (add D (mul W T1)) ((1 + d * (x1 * x2 * (y1 * y2))) * (2 * (z1 * z2)))"
    using add_law [OF assms(4) w] by (simp add: algebra_simps)
  show "rp 3 (sub D (mul W T1)) ((1 - d * (x1 * x2 * (y1 * y2))) * (2 * (z1 * z2)))"
    using sub_law [OF assms(4) w] by (simp add: algebra_simps)
qed

end

interpretation fl: limb_arithmetic rep FeAdd FeSub FeMul
  by unfold_locales (rule rep_mul rep_add rep_sub; assumption)+

lemma two_unit: "(2 :: gf25519) dvd 1"
proof
  have "(2 * ((fe_p + 1) div 2)) mod fe_p = 1 mod fe_p" by (simp add: fe_p_def)
  then have "gf_of (2 * ((fe_p + 1) div 2)) = gf_of 1" by (simp only: gf_of_eq)
  then show "1 = 2 * gf_of ((fe_p + 1) div 2)" by (simp only: gf_of_ring gf_of_numeral)
qed

lemma unit_mult: "a dvd 1 \<Longrightarrow> b dvd 1 \<Longrightarrow> (a :: gf25519) * b dvd 1"
  using mult_dvd_mono [of a 1 b 1] by simp

lemma unit_factors: "(z1 :: gf25519) dvd 1 \<Longrightarrow> z2 dvd 1 \<Longrightarrow> 2 * (z1 * z2) dvd 1"
  by (intro unit_mult two_unit)

text \<open>A completed point from the two cross products and the two denominators.\<close>

lemma comp_at_sum:
  assumes "ed_sum (x1, y1) (x2, y2) c" and "f dvd 1"
    and "rep i A ((x1 * y2 + x2 * y1) * f)" and "rep j B ((y1 * y2 + x1 * x2) * f)"
    and "rep k C ((1 + gf curve_d * (x1 * x2 * (y1 * y2))) * f)"
    and "rep l D ((1 - gf curve_d * (x1 * x2 * (y1 * y2))) * f)"
    and "i \<le> 3 \<and> j \<le> 3 \<and> k \<le> 3 \<and> l \<le> 3"
  shows "comp_at \<lparr>cX = A, cY = B, cZ = C, cT = D\<rparr> c"
proof -
  obtain x3 y3 where c: "c = (x3, y3)" by (cases c)
  let ?k = "gf curve_d * (x1 * x2 * (y1 * y2))"
  have l: "1 + ?k dvd 1" "1 - ?k dvd 1" "x3 * (1 + ?k) = x1 * y2 + x2 * y1" "y3 * (1 - ?k) = y1 * y2 + x1 * x2"
    using assms(1) by (simp_all add: ed_sum_def c Let_def)
  have "rep 3 A (x3 * ((1 + ?k) * f))" "rep 3 B (y3 * ((1 - ?k) * f))"
    using rep_mono [OF assms(3)] rep_mono [OF assms(4)] assms(7) l(3,4) by (simp_all add: mult.assoc [symmetric])
  with rep_mono [OF assms(5)] rep_mono [OF assms(6)] assms(7) unit_mult [OF l(1) assms(2)] unit_mult [OF l(2) assms(2)]
  show ?thesis by (auto simp: comp_at_def c)
qed

lemma geAdd_at:
  assumes "ext_at P a" and "cached_at Q b" and "ed_sum a b c"
  shows "comp_at (geAdd P Q) c"
proof -
  obtain x1 y1 x2 y2 where ab: "a = (x1, y1)" "b = (x2, y2)" by (cases a; cases b)
  obtain z1 where p: "z1 dvd 1" "rep 2 (eX P) (x1 * z1)" "rep 1 (eY P) (y1 * z1)" "rep 1 (eZ P) z1" "rep 1 (eT P) (x1 * y1 * z1)"
    using assms(1) by (auto simp: ext_at_def ab)
  obtain z2 where q: "z2 dvd 1" "rep 3 (ca_yPlusX Q) ((y2 + x2) * z2)" "rep 3 (ca_yMinusX Q) ((y2 - x2) * z2)"
    "rep 1 (ca_Z Q) z2" "rep 1 (ca_T2d Q) (2 * gf curve_d * (x2 * y2) * z2)"
    using assms(2) by (auto simp: cached_at_def ab)
  have z: "rep 1 (FeMul (eZ P) (ca_Z Q)) (z1 * z2)" using rep_mul [OF p(4) q(4)] by simp
  have D: "rep 2 (FeAdd (FeMul (eZ P) (ca_Z Q)) (FeMul (eZ P) (ca_Z Q))) (2 * (z1 * z2))"
    using rep_add [OF z z] by (simp add: mult_2 [symmetric])
  have j: "(1 :: int) \<le> 3" and m: "(2 :: int) \<le> 3 \<and> (2 :: int) \<le> 3 \<and> (3 :: int) \<le> 3 \<and> (3 :: int) \<le> 3" by simp_all
  show ?thesis
    unfolding geAdd_def Let_def
    by (rule comp_at_sum [OF assms(3) [unfolded ab] unit_factors [OF p(1) q(1)]
      fl.cross_products [OF p(2,3) q(2,3)] fl.denominators [OF p(5) q(5) j D] m])
qed

lemma geSub_at:
  assumes "ext_at P a" and "cached_at Q b" and "ed_sum a (neg_point b) c"
  shows "comp_at (geSub P Q) c"
proof -
  obtain x1 y1 x2 y2 where ab: "a = (x1, y1)" "b = (x2, y2)" by (cases a; cases b)
  obtain z1 where p: "z1 dvd 1" "rep 2 (eX P) (x1 * z1)" "rep 1 (eY P) (y1 * z1)" "rep 1 (eZ P) z1" "rep 1 (eT P) (x1 * y1 * z1)"
    using assms(1) by (auto simp: ext_at_def ab)
  obtain z2 where q: "z2 dvd 1" "rep 3 (ca_yMinusX Q) ((y2 + - x2) * z2)" "rep 3 (ca_yPlusX Q) ((y2 - - x2) * z2)"
    "rep 1 (ca_Z Q) z2" "rep 1 (ca_T2d Q) (2 * (- gf curve_d) * (- x2 * y2) * z2)"
    using assms(2) by (auto simp: cached_at_def ab)
  have z: "rep 1 (FeMul (eZ P) (ca_Z Q)) (z1 * z2)" using rep_mul [OF p(4) q(4)] by simp
  have D: "rep 2 (FeAdd (FeMul (eZ P) (ca_Z Q)) (FeMul (eZ P) (ca_Z Q))) (2 * (z1 * z2))"
    using rep_add [OF z z] by (simp add: mult_2 [symmetric])
  have j: "(1 :: int) \<le> 3" and m: "(2 :: int) \<le> 3 \<and> (2 :: int) \<le> 3 \<and> (3 :: int) \<le> 3 \<and> (3 :: int) \<le> 3" by simp_all
  show ?thesis
    unfolding geSub_def Let_def
    by (rule comp_at_sum [OF assms(3) [unfolded ab neg_point_def prod.case] unit_factors [OF p(1) q(1)]
      fl.cross_products [OF p(2,3) q(2,3)]
      fl.denominators(2,1) [OF p(5) q(5) j D, unfolded mult_minus_left diff_minus_eq_add add_uminus_conv_diff] m])
qed

lemma geMixedAdd_at:
  assumes "ext_at P a" and "pre_at Q b" and "ed_sum a b c"
  shows "comp_at (geMixedAdd P Q) c"
proof -
  obtain x1 y1 x2 y2 where ab: "a = (x1, y1)" "b = (x2, y2)" by (cases a; cases b)
  obtain z1 where p: "z1 dvd 1" "rep 2 (eX P) (x1 * z1)" "rep 1 (eY P) (y1 * z1)" "rep 1 (eZ P) z1" "rep 1 (eT P) (x1 * y1 * z1)"
    using assms(1) by (auto simp: ext_at_def ab)
  have q: "rep 3 (pre_yPlusX Q) ((y2 + x2) * 1)" "rep 3 (pre_yMinusX Q) ((y2 - x2) * 1)"
    "rep 3 (pre_xy2d Q) (2 * gf curve_d * (x2 * y2) * 1)"
    using assms(2) by (simp_all add: pre_at_def ab)
  have D: "rep 2 (FeAdd (eZ P) (eZ P)) (2 * (z1 * 1))" using rep_add [OF p(4) p(4)] by (simp add: mult_2 [symmetric])
  have j: "(3 :: int) \<le> 3" and m: "(2 :: int) \<le> 3 \<and> (2 :: int) \<le> 3 \<and> (3 :: int) \<le> 3 \<and> (3 :: int) \<le> 3" by simp_all
  show ?thesis
    unfolding geMixedAdd_def Let_def
    by (rule comp_at_sum [OF assms(3) [unfolded ab] unit_factors [OF p(1) dvd_refl]
      fl.cross_products [OF p(2,3) q(1,2)] fl.denominators [OF p(5) q(3) j D] m])
qed

lemma geMixedSub_at:
  assumes "ext_at P a" and "pre_at Q b" and "ed_sum a (neg_point b) c"
  shows "comp_at (geMixedSub P Q) c"
proof -
  obtain x1 y1 x2 y2 where ab: "a = (x1, y1)" "b = (x2, y2)" by (cases a; cases b)
  obtain z1 where p: "z1 dvd 1" "rep 2 (eX P) (x1 * z1)" "rep 1 (eY P) (y1 * z1)" "rep 1 (eZ P) z1" "rep 1 (eT P) (x1 * y1 * z1)"
    using assms(1) by (auto simp: ext_at_def ab)
  have q: "rep 3 (pre_yMinusX Q) ((y2 + - x2) * 1)" "rep 3 (pre_yPlusX Q) ((y2 - - x2) * 1)"
    "rep 3 (pre_xy2d Q) (2 * (- gf curve_d) * (- x2 * y2) * 1)"
    using assms(2) by (simp_all add: pre_at_def ab)
  have D: "rep 2 (FeAdd (eZ P) (eZ P)) (2 * (z1 * 1))" using rep_add [OF p(4) p(4)] by (simp add: mult_2 [symmetric])
  have j: "(3 :: int) \<le> 3" and m: "(2 :: int) \<le> 3 \<and> (2 :: int) \<le> 3 \<and> (3 :: int) \<le> 3 \<and> (3 :: int) \<le> 3" by simp_all
  show ?thesis
    unfolding geMixedSub_def Let_def
    by (rule comp_at_sum [OF assms(3) [unfolded ab neg_point_def prod.case] unit_factors [OF p(1) dvd_refl]
      fl.cross_products [OF p(2,3) q(1,2)]
      fl.denominators(2,1) [OF p(5) q(3) j D, unfolded mult_minus_left diff_minus_eq_add add_uminus_conv_diff] m])
qed

section \<open>Conversions and doubling\<close>

lemma rep_curve_d2: "rep 1 curve_d2 (2 * gf curve_d)"
proof -
  have "fe_val curve_d2 mod fe_p = (2 * fe_val curve_d) mod fe_p"
    by (simp add: fe_val_def limb_sum_def curve_d_def curve_d2_def fe_p_def)
  then have "gf curve_d2 = 2 * gf curve_d"
    by (simp only: gf_def gf_of_eq [symmetric]) (simp only: gf_of_ring gf_of_numeral)
  then show ?thesis
    by (simp add: rep_def fe_within_def limbs_within_def bounded_by_def tight_def curve_d2_def)
qed

lemma Comp_ToExtended_at:
  assumes "comp_at P a"
  shows "ext_at (Comp_ToExtended P) a"
proof -
  obtain x y where a: "a = (x, y)" by (cases a)
  obtain z t where p: "z dvd 1" "t dvd 1" "rep 3 (cX P) (x * z)" "rep 3 (cY P) (y * t)" "rep 3 (cZ P) z" "rep 3 (cT P) t"
    using assms by (auto simp: comp_at_def a)
  have "rep 1 (FeMul (cX P) (cT P)) (x * (z * t))" using rep_mul [OF p(3) p(6)] by (simp add: mult.assoc)
  moreover have "rep 1 (FeMul (cY P) (cZ P)) (y * (z * t))" using rep_mul [OF p(4) p(5)] by (simp add: ac_simps)
  moreover have "rep 1 (FeMul (cZ P) (cT P)) (z * t)" using rep_mul [OF p(5) p(6)] by simp
  moreover have "rep 1 (FeMul (cX P) (cY P)) (x * y * (z * t))" using rep_mul [OF p(3) p(4)] by (simp add: ac_simps)
  ultimately show ?thesis
    using unit_mult [OF p(1,2)] rep_mono [of 1 "FeMul (cX P) (cT P)" "x * (z * t)" 2]
    unfolding ext_at_def a Comp_ToExtended_def by auto
qed

lemma Ext_ToProjective_at: "ext_at P a \<Longrightarrow> proj_at (Ext_ToProjective P) a"
  by (auto simp: ext_at_def proj_at_def Ext_ToProjective_def FeCopy_def)

lemma Comp_ToProjective_at: "comp_at P a \<Longrightarrow> proj_at (Comp_ToProjective P) a"
  using Ext_ToProjective_at [OF Comp_ToExtended_at]
  by (simp add: Comp_ToProjective_def Comp_ToExtended_def Ext_ToProjective_def FeCopy_def)

lemma Ext_ToCached_at:
  assumes "ext_at P a"
  shows "cached_at (Ext_ToCached P) a"
proof -
  obtain x y where a: "a = (x, y)" by (cases a)
  obtain z where p: "z dvd 1" "rep 2 (eX P) (x * z)" "rep 1 (eY P) (y * z)" "rep 1 (eZ P) z" "rep 1 (eT P) (x * y * z)"
    using assms by (auto simp: ext_at_def a)
  have "rep 3 (FeAdd (eY P) (eX P)) ((y + x) * z)" using rep_add [OF p(3,2)] by (simp add: distrib_right)
  moreover have "rep 3 (FeSub (eY P) (eX P)) ((y - x) * z)" using rep_sub [OF p(3,2)] by (simp add: left_diff_distrib)
  moreover have "rep 1 (FeMul (eT P) curve_d2) (2 * gf curve_d * (x * y) * z)"
    using rep_mul [OF p(5) rep_curve_d2] by (simp add: ac_simps)
  ultimately show ?thesis using p(1,4) by (auto simp: cached_at_def a Ext_ToCached_def FeCopy_def)
qed

lemma zero_at: "proj_at Proj_Zero (0, 1)" "ext_at Ext_Zero (0, 1)" "pre_at Pre_Zero (0, 1)"
  using rep_constants rep_mono [OF rep_constants(1)] rep_mono [OF rep_constants(2)]
  by (auto simp: proj_at_def ext_at_def pre_at_def Proj_Zero_def Ext_Zero_def Pre_Zero_def intro!: exI [of _ 1])

text \<open>On the curve the two denominators of the sum of a point with itself are the terms that doubling computes.\<close>

lemma Proj_Double_at:
  assumes "proj_at P a" and "on_curve a" and "ed_sum a a c"
  shows "comp_at (Proj_Double P) c"
proof -
  obtain x y where a: "a = (x, y)" by (cases a)
  obtain z where p: "z dvd 1" "rep 2 (pX P) (x * z)" "rep 1 (pY P) (y * z)" "rep 1 (pZ P) z"
    using assms(1) by (auto simp: proj_at_def a)
  have e: "y * y - x * x = 1 + gf curve_d * (x * x * (y * y))" using assms(2) by (simp add: on_curve_def a)
  note X = rep_sq [OF p(2)] and Y = rep_sq [OF p(3)] and Z = rep_sq2 [OF p(4)]
  have s: "rep 1 (FeSquare (FeAdd (pX P) (pY P))) ((x * z + y * z) * (x * z + y * z))"
    using rep_sq [OF rep_add [OF p(2,3)]] by simp
  have yx: "rep 2 (FeAdd (FeSquare (pY P)) (FeSquare (pX P))) ((y * y + x * x) * (z * z))"
    using rep_add [OF Y X] by (simp add: algebra_simps)
  have zz: "rep 2 (FeSub (FeSquare (pY P)) (FeSquare (pX P))) ((y * y - x * x) * (z * z))"
    using rep_sub [OF Y X] by (simp add: algebra_simps)
  have xx: "rep 3 (FeSub (FeSquare (FeAdd (pX P) (pY P))) (FeAdd (FeSquare (pY P)) (FeSquare (pX P)))) ((x * y + x * y) * (z * z))"
    using rep_sub [OF s yx] by (simp add: algebra_simps)
  have "2 * (z * z) - (y * y - x * x) * (z * z) = (1 - gf curve_d * (x * x * (y * y))) * (z * z)"
    unfolding e by (simp add: algebra_simps)
  with rep_sub [OF Z zz]
  have tt: "rep 3 (FeSub (FeSquare2 (pZ P)) (FeSub (FeSquare (pY P)) (FeSquare (pX P))))
      ((1 - gf curve_d * (x * x * (y * y))) * (z * z))" by simp
  show ?thesis
    unfolding Proj_Double_def Let_def
    by (rule comp_at_sum [OF assms(3) [unfolded a] unit_mult [OF p(1) p(1)] xx yx zz [unfolded e] tt]) simp
qed

section \<open>Sums stay on the curve\<close>

text \<open>
  The equation of the sum, cleared of denominators, as a combination of the equations of the two points.
\<close>

lemma ed_sum_identity:
  fixes d x1 y1 x2 y2 :: "'a :: comm_ring_1"
  shows "((y1 * y2 + x1 * x2) * (1 + d * (x1 * x2 * (y1 * y2)))) ^ 2
    - ((x1 * y2 + x2 * y1) * (1 - d * (x1 * x2 * (y1 * y2)))) ^ 2
    - ((1 + d * (x1 * x2 * (y1 * y2))) * (1 - d * (x1 * x2 * (y1 * y2)))) ^ 2
    - d * ((x1 * y2 + x2 * y1) * (y1 * y2 + x1 * x2)) ^ 2
    = (y2 ^ 4 - 4 * x2 ^ 2 * y2 ^ 2 + 2 * x2 ^ 2 * y2 ^ 4 + x2 ^ 4 - 2 * x2 ^ 4 * y2 ^ 2 - 2 * d * x2 ^ 2 * y2 ^ 2 -
      2 * d * x2 ^ 4 * y2 ^ 4 - d * y1 ^ 2 * x2 ^ 2 * y2 ^ 4 + d * y1 ^ 2 * x2 ^ 4 * y2 ^ 2 + d * x1 ^ 2 * x2
      ^ 2 * y2 ^ 4 - d * x1 ^ 2 * x2 ^ 4 * y2 ^ 2 - d ^ 2 * x2 ^ 4 * y2 ^ 4 + d ^ 2 * y1 ^ 2 * x2 ^ 4 * y2 ^ 4
      - d ^ 2 * x1 ^ 2 * x2 ^ 4 * y2 ^ 4 + d ^ 3 * x1 ^ 2 * y1 ^ 2 * x2 ^ 4 * y2 ^ 4) * (y1 * y1 - x1 * x1 - (1 + d * (x1 * x1 * (y1 * y1))))
    + (1 + y2 ^ 2 - x2 ^ 2 + 2 * x2 ^ 2 * y2 ^ 2 - y1 ^ 2 * y2 ^ 2 + y1 ^ 2 * x2 ^ 2 - 2 * y1 ^ 2 * x2 ^ 2 * y2 ^ 2 +
      x1 ^ 2 * y2 ^ 2 - x1 ^ 2 * x2 ^ 2 + 2 * x1 ^ 2 * x2 ^ 2 * y2 ^ 2 + d * x2 ^ 2 * y2 ^ 2 - 2 * d * y1 ^ 2
      * x2 ^ 2 * y2 ^ 2 + d * y1 ^ 4 * x2 ^ 2 * y2 ^ 2 + 2 * d * x1 ^ 2 * x2 ^ 2 * y2 ^ 2 + d * x1 ^ 4 * x2 ^
      2 * y2 ^ 2) * (y2 * y2 - x2 * x2 - (1 + d * (x2 * x2 * (y2 * y2))))"
  by (simp add: algebra_simps power2_eq_square numeral_eq_Suc)

lemma clear_denominators:
  fixes u v x y d :: "'a :: comm_ring_1"
  shows "(u * v) ^ 2 * (y * y - x * x) = (y * v * u) ^ 2 - (x * u * v) ^ 2"
    and "(u * v) ^ 2 * (1 + d * (x * x * (y * y))) = (u * v) ^ 2 + d * (x * u * (y * v)) ^ 2"
  by (simp_all add: algebra_simps power2_eq_square)

lemma unit_cancel: "(u :: gf25519) dvd 1 \<Longrightarrow> u * a = u * b \<Longrightarrow> a = b"
  by (metis dvdE mult.commute mult.left_commute mult_1)

lemma ed_sum_on_curve:
  assumes "on_curve a" and "on_curve b" and "ed_sum a b c"
  shows "on_curve c"
proof -
  obtain x1 y1 x2 y2 x3 y3 where abc: "a = (x1, y1)" "b = (x2, y2)" "c = (x3, y3)" by (cases a; cases b; cases c)
  define k where "k = gf curve_d * (x1 * x2 * (y1 * y2))"
  have e: "1 + k dvd 1" "1 - k dvd 1" "x3 * (1 + k) = x1 * y2 + x2 * y1" "y3 * (1 - k) = y1 * y2 + x1 * x2"
    using assms(3) by (simp_all add: ed_sum_def abc k_def Let_def)
  let ?u = "((1 + k) * (1 - k)) ^ 2"
  have n: "(y3 * (1 - k) * (1 + k)) ^ 2 - (x3 * (1 + k) * (1 - k)) ^ 2 - ?u
    - gf curve_d * (x3 * (1 + k) * (y3 * (1 - k))) ^ 2 = 0"
    unfolding e(3,4) unfolding k_def ed_sum_identity using assms(1,2) by (simp add: on_curve_def abc)
  then have "?u * (y3 * y3 - x3 * x3) = ?u * (1 + gf curve_d * (x3 * x3 * (y3 * y3)))"
    unfolding clear_denominators by (simp only: diff_diff_add right_minus_eq add.assoc add_diff_cancel_left')
  moreover have "?u dvd 1" using unit_mult [OF e(1,2)] by (simp add: power2_eq_square unit_mult)
  ultimately show ?thesis using unit_cancel by (auto simp: on_curve_def abc)
qed

lemma neg_on_curve: "on_curve (neg_point a) = on_curve a"
  by (cases a) (simp add: on_curve_def neg_point_def)

text \<open>
  The point operations implement the addition law of the curve. For points in extended coordinates,
  with one of them also in the form of the precomputed tables, the results of \<open>geAdd\<close>, \<open>geMixedAdd\<close>,
  \<open>geSub\<close>, \<open>geMixedSub\<close> and doubling, converted back to extended coordinates, are the sum, the sum with
  the negated point and the double, with limbs within the bounds that the next operation needs and with a third
  coordinate that can be divided by; and the results are on the curve.
\<close>

theorem point_formulas:
  assumes "ext_at P a" and "ext_at Q b" and "pre_at E b" and "on_curve a" and "on_curve b"
    and "ed_sum a b c" and "ed_sum a (neg_point b) d" and "ed_sum a a e"
  shows "ext_at (Comp_ToExtended (geAdd P (Ext_ToCached Q))) c \<and> ext_at (Comp_ToExtended (geMixedAdd P E)) c
    \<and> ext_at (Comp_ToExtended (geSub P (Ext_ToCached Q))) d \<and> ext_at (Comp_ToExtended (geMixedSub P E)) d
    \<and> ext_at (Comp_ToExtended (Ext_Double P)) e \<and> proj_at (Comp_ToProjective (Ext_Double P)) e
    \<and> on_curve c \<and> on_curve d \<and> on_curve e"
proof -
  note Q = Ext_ToCached_at [OF assms(2)]
  note D = Proj_Double_at [OF Ext_ToProjective_at [OF assms(1)] assms(4,8), folded Ext_Double_def]
  show ?thesis
    using Comp_ToExtended_at [OF geAdd_at [OF assms(1) Q assms(6)]] Comp_ToExtended_at [OF geSub_at [OF assms(1) Q assms(7)]]
      Comp_ToExtended_at [OF geMixedAdd_at [OF assms(1,3,6)]] Comp_ToExtended_at [OF geMixedSub_at [OF assms(1,3,7)]]
      Comp_ToExtended_at [OF D] Comp_ToProjective_at [OF D] ed_sum_on_curve [OF assms(4,5,6)]
      ed_sum_on_curve [OF assms(4) _ assms(7)] ed_sum_on_curve [OF assms(4,4,8)] assms(5)
    by (simp add: neg_on_curve)
qed

text \<open>The square root of \<open>-1\<close>, checked once, gives a point of order four.\<close>

lemma SqrtM1_rep: "rep 1 SqrtM1 (gf SqrtM1)"
  by (rule rep_gf) (simp add: fe_within_def limbs_within_def bounded_by_def tight_def SqrtM1_def)

lemma SqrtM1_square: "gf SqrtM1 * gf SqrtM1 = - 1"
proof -
  have v: "fe_val SqrtM1 = 19681161376707505956807079304988542015446066515923890162744021073123829784752" by (simp add: fe_val_def limb_sum_def SqrtM1_def)
  have q: "fe_val SqrtM1 * fe_val SqrtM1 - - 1 = 6690407189080634018507799843845558368979872843924222843531373839242004886245 * fe_p" unfolding v fe_p_def by simp
  have "(fe_val SqrtM1 * fe_val SqrtM1) mod fe_p = (- 1) mod fe_p"
    unfolding mod_eq_dvd_iff q by (rule dvd_triv_right)
  then have "gf_of (fe_val SqrtM1 * fe_val SqrtM1) = gf_of (- 1)" by (simp only: gf_of_eq)
  then show ?thesis by (simp only: gf_def gf_of_ring)
qed

definition order_four :: ExtendedGroupElement where
  "order_four = \<lparr>eX = SqrtM1, eY = FeZero, eZ = FeOne, eT = FeZero\<rparr>"

definition order_four_pre :: PreComputedGroupElement where
  "order_four_pre = \<lparr>pre_yPlusX = SqrtM1, pre_yMinusX = FeNeg SqrtM1, pre_xy2d = FeZero\<rparr>"

lemma order_four_facts:
  "ext_at order_four (gf SqrtM1, 0)" "pre_at order_four_pre (gf SqrtM1, 0)" "on_curve (gf SqrtM1, 0)"
  "ed_sum (gf SqrtM1, 0) (gf SqrtM1, 0) (0, - 1)" "ed_sum (gf SqrtM1, 0) (neg_point (gf SqrtM1, 0)) (0, 1)"
  using rep_constants rep_mono [OF SqrtM1_rep] rep_mono [OF rep_constants(1)] rep_mono [OF rep_neg [OF SqrtM1_rep]] SqrtM1_square
  by (auto simp: ext_at_def pre_at_def on_curve_def ed_sum_def neg_point_def order_four_def order_four_pre_def intro!: exI [of _ 1])

theorem point_formulas_witness:
  "ext_at (Comp_ToExtended (geAdd order_four (Ext_ToCached order_four))) (0, - 1)
   \<and> ext_at (Comp_ToExtended (geMixedSub order_four order_four_pre)) (0, 1)
   \<and> ext_at (Comp_ToExtended (Ext_Double order_four)) (0, - 1) \<and> on_curve (0, - 1)"
  using point_formulas [OF order_four_facts(1,1,2,3,3,4,5,4)] by blast

end
