(* ===== verification/Curve_Group.thy ===== *)
theory Curve_Group
  imports Gf_Field Group25519
begin

text \<open>
  The points of the curve are a commutative group. The constant of the curve is not a square, so the two
  denominators of the addition law never vanish and the law is total; associativity is a polynomial identity
  modulo the equations of three points.
\<close>

section \<open>The addition law is complete\<close>

lemma curve_d_value: "gf curve_d = gf_of (-20800338683988658368647408995589388737092878452977063003340006470870624536394)"
  unfolding gf_def by (simp add: fe_val_def limb_sum_def curve_d_def)

lemma twice_d_square: "gf_of 55487632915927625549282413919184614932259505768049324239291840100650878933168 * gf_of 55487632915927625549282413919184614932259505768049324239291840100650878933168 = 2 * gf curve_d"
proof -
  have "(55487632915927625549282413919184614932259505768049324239291840100650878933168 * 55487632915927625549282413919184614932259505768049324239291840100650878933168) mod fe_p = (2 * -20800338683988658368647408995589388737092878452977063003340006470870624536394) mod fe_p"
  proof -
    have e: "55487632915927625549282413919184614932259505768049324239291840100650878933168 * 55487632915927625549282413919184614932259505768049324239291840100650878933168 - 2 * -20800338683988658368647408995589388737092878452977063003340006470870624536394 = 53179408487959267070981863600993299124359631661352230105186135972200424991588 * fe_p" unfolding fe_p_def by simp
    show ?thesis unfolding mod_eq_dvd_iff e by (rule dvd_triv_right)
  qed
  then have "gf_of (55487632915927625549282413919184614932259505768049324239291840100650878933168 * 55487632915927625549282413919184614932259505768049324239291840100650878933168) = gf_of (2 * -20800338683988658368647408995589388737092878452977063003340006470870624536394)" by (simp only: gf_of_eq)
  then show ?thesis unfolding curve_d_value by (simp only: gf_of_ring gf_of_numeral)
qed

lemma curve_d_not_square: "x * x \<noteq> gf curve_d"
proof
  assume x: "x * x = gf curve_d"
  let ?e = "gf_of 55487632915927625549282413919184614932259505768049324239291840100650878933168"
  have e: "?e * ?e = 2 * (x * x)" unfolding x by (rule twice_d_square)
  show False
  proof (cases "x = 0")
    case True
    have "gf curve_d \<noteq> gf_of 0" unfolding curve_d_value gf_of_eq by (simp add: fe_p_def)
    with True x show False by simp
  next
    case False
    then have "(?e / x) * (?e / x) = 2" using e by (simp add: field_simps)
    then show False using two_not_square by blast
  qed
qed

text \<open>
  If a denominator vanished, \<open>d\<close> would be the square of a quotient; \<open>i\<close> is the square root of \<open>-1\<close> and \<open>s\<close> a sign.
\<close>

lemma denominator_square:
  fixes d x1 y1 x2 y2 i s :: gf25519
  assumes "y1 * y1 - x1 * x1 = 1 + d * (x1 * x1 * (y1 * y1))" and "y2 * y2 - x2 * x2 = 1 + d * (x2 * x2 * (y2 * y2))"
    and "i * i = - 1" and "s * s = 1" and "d * (x1 * x2 * (y1 * y2)) = s"
  shows "(i * x1 + s * y1) * (i * x1 + s * y1) = d * (x1 * y1 * (y2 + i * x2)) * (x1 * y1 * (y2 + i * x2))"
  using assms by algebra

lemma denominator_nonzero:
  fixes s :: gf25519
  assumes "on_curve (x1, y1)" and "on_curve (x2, y2)" and "s * s = 1"
  shows "gf curve_d * (x1 * x2 * (y1 * y2)) \<noteq> s"
proof
  assume k: "gf curve_d * (x1 * x2 * (y1 * y2)) = s"
  note c = assms(1,2) [unfolded on_curve_def prod.case]
  have s0: "s \<noteq> 0" using assms(3) by auto
  then have nz: "x1 \<noteq> 0" "x2 \<noteq> 0" "y1 \<noteq> 0" "y2 \<noteq> 0" using k by auto
  have sq: "u = 0" if "v * v = gf curve_d * (x1 * y1 * u) * (x1 * y1 * u)" for u v
  proof (rule ccontr)
    assume "u \<noteq> 0"
    then have "(v / (x1 * y1 * u)) * (v / (x1 * y1 * u)) = gf curve_d" using that nz by (simp add: field_simps)
    then show False using curve_d_not_square by blast
  qed
  have i: "gf SqrtM1 * gf SqrtM1 = - 1" "- gf SqrtM1 * - gf SqrtM1 = - 1" using SqrtM1_square by simp_all
  have "y2 + gf SqrtM1 * x2 = 0" using sq [OF denominator_square [OF c i(1) assms(3) k]] .
  moreover have "y2 + - gf SqrtM1 * x2 = 0" using sq [OF denominator_square [OF c i(2) assms(3) k]] .
  ultimately have "y2 + y2 = 0" by (metis add.commute add_eq_0_iff minus_minus mult_minus_left)
  then have "2 * y2 = 0" by (simp only: mult_2)
  then show False using nz(4) by simp
qed

definition ed_add :: "point \<Rightarrow> point \<Rightarrow> point" where
  "ed_add a b = (case (a, b) of ((x1, y1), (x2, y2)) \<Rightarrow>
     let k = gf curve_d * (x1 * x2 * (y1 * y2)) in ((x1 * y2 + x2 * y1) / (1 + k), (y1 * y2 + x1 * x2) / (1 - k)))"

lemma ed_denominators:
  assumes "on_curve (x1, y1)" and "on_curve (x2, y2)"
  shows "1 + gf curve_d * (x1 * x2 * (y1 * y2)) \<noteq> 0" and "1 - gf curve_d * (x1 * x2 * (y1 * y2)) \<noteq> 0"
  using denominator_nonzero [OF assms, of 1] denominator_nonzero [OF assms, of "- 1"]
  by (simp_all only: add_eq_0_iff right_minus_eq) simp_all

lemma ed_sum_add: "on_curve a \<Longrightarrow> on_curve b \<Longrightarrow> ed_sum a b (ed_add a b)"
  using ed_denominators by (cases a; cases b) (simp add: ed_sum_def ed_add_def Let_def unit_iff_nonzero del: right_minus_eq)

lemma ed_sum_unique: "ed_sum a b c \<Longrightarrow> c = ed_add a b"
  by (cases a; cases b; cases c) (auto simp: ed_sum_def ed_add_def Let_def unit_iff_nonzero eq_divide_eq)

lemma ed_add_on_curve: "on_curve a \<Longrightarrow> on_curve b \<Longrightarrow> on_curve (ed_add a b)"
  using ed_sum_on_curve ed_sum_add by blast

section \<open>Associativity\<close>

text \<open>
  The cross products of the coordinates of \<open>(a + b) + c\<close> and \<open>a + (b + c)\<close> with the denominators cleared, as
  combinations of the equations of the three points.
\<close>

lemma assoc_identity_x:
  fixes d x1 y1 x2 y2 x3 y3 :: gf25519
  shows "((x1 * y2 + x2 * y1) * (1 - d * (x1 * x2 * (y1 * y2))) * y3 + x3 * ((y1 * y2 + x1 * x2) * (1 + d * (x1 * x2 * (y1 * y2))))) * ((1 + d * (x2 * x3 * (y2 * y3))) * (1 - d * (x2 * x3 * (y2 * y3))) + d * ((x2 * y3 + x3 * y2) * (y2 * y3 + x2 * x3) * (x1 * y1)))
    - (x1 * ((y2 * y3 + x2 * x3) * (1 + d * (x2 * x3 * (y2 * y3)))) + (x2 * y3 + x3 * y2) * (1 - d * (x2 * x3 * (y2 * y3))) * y1) * ((1 + d * (x1 * x2 * (y1 * y2))) * (1 - d * (x1 * x2 * (y1 * y2))) + d * ((x1 * y2 + x2 * y1) * (y1 * y2 + x1 * x2) * (x3 * y3)))
    = ( - d * y1 * x2 * y2 ^ 4 * x3 ^ 2 * y3 - d * y1 * x2 ^ 2 * y2 ^ 3 * x3 - d * y1 * x2 ^ 2 * y2 ^ 3 * x3 ^ 3 - d
      * y1 * x2 ^ 3 * y2 ^ 2 * y3 + d * y1 * x2 ^ 3 * y2 ^ 2 * y3 ^ 3 + d * y1 * x2 ^ 4 * y2 * x3 * y3 ^ 2 + d * x1
      * x2 * y2 ^ 4 * x3 * y3 ^ 2 - d * x1 * x2 ^ 2 * y2 ^ 3 * y3 + d * x1 * x2 ^ 2 * y2 ^ 3 * y3 ^ 3 - d * x1 * x2
      ^ 3 * y2 ^ 2 * x3 - d * x1 * x2 ^ 3 * y2 ^ 2 * x3 ^ 3 - d * x1 * x2 ^ 4 * y2 * x3 ^ 2 * y3 + d ^ 2 * y1 * x2 ^
      3 * y2 ^ 4 * x3 ^ 2 * y3 + d ^ 2 * y1 * x2 ^ 4 * y2 ^ 3 * x3 * y3 ^ 2 - d ^ 2 * x1 * x2 ^ 3 * y2 ^ 4 * x3 * y3
      ^ 2 - d ^ 2 * x1 * x2 ^ 4 * y2 ^ 3 * x3 ^ 2 * y3) * (y1 * y1 - x1 * x1 - (1 + d * (x1 * x1 * (y1 * y1))))
    + (y1 * y2 * x3 - y1 * y2 * x3 * y3 ^ 2 + y1 * y2 * x3 ^ 3 + y1 * x2 * y3 - y1 * x2 * y3 ^ 3 + y1 * x2 * x3 ^ 2 *
      y3 - y1 ^ 3 * y2 * x3 + y1 ^ 3 * y2 * x3 * y3 ^ 2 - y1 ^ 3 * y2 * x3 ^ 3 - y1 ^ 3 * x2 * y3 + y1 ^ 3 * x2 * y3
      ^ 3 - y1 ^ 3 * x2 * x3 ^ 2 * y3 + x1 * y2 * y3 - x1 * y2 * y3 ^ 3 + x1 * y2 * x3 ^ 2 * y3 + x1 * x2 * x3 - x1
      * x2 * x3 * y3 ^ 2 + x1 * x2 * x3 ^ 3 - x1 * y1 ^ 2 * y2 * y3 + x1 * y1 ^ 2 * y2 * y3 ^ 3 - x1 * y1 ^ 2 * y2 *
      x3 ^ 2 * y3 - x1 * y1 ^ 2 * x2 * x3 + x1 * y1 ^ 2 * x2 * x3 * y3 ^ 2 - x1 * y1 ^ 2 * x2 * x3 ^ 3 + x1 ^ 2 * y1
      * y2 * x3 - x1 ^ 2 * y1 * y2 * x3 * y3 ^ 2 + x1 ^ 2 * y1 * y2 * x3 ^ 3 + x1 ^ 2 * y1 * x2 * y3 - x1 ^ 2 * y1 *
      x2 * y3 ^ 3 + x1 ^ 2 * y1 * x2 * x3 ^ 2 * y3 + x1 ^ 3 * y2 * y3 - x1 ^ 3 * y2 * y3 ^ 3 + x1 ^ 3 * y2 * x3 ^ 2
      * y3 + x1 ^ 3 * x2 * x3 - x1 ^ 3 * x2 * x3 * y3 ^ 2 + x1 ^ 3 * x2 * x3 ^ 3 + d * y1 * y2 * x3 ^ 3 * y3 ^ 2 + d
      * y1 * x2 * x3 ^ 2 * y3 ^ 3 - d * y1 * x2 * y2 ^ 2 * x3 ^ 2 * y3 - d * y1 * x2 ^ 2 * y2 * x3 * y3 ^ 2 - d * y1
      ^ 3 * y2 * x3 ^ 3 * y3 ^ 2 - d * y1 ^ 3 * x2 * x3 ^ 2 * y3 ^ 3 + d * y1 ^ 3 * x2 * y2 ^ 2 * x3 ^ 2 * y3 + d *
      y1 ^ 3 * x2 ^ 2 * y2 * x3 * y3 ^ 2 + d * x1 * y2 * x3 ^ 2 * y3 ^ 3 + d * x1 * x2 * x3 ^ 3 * y3 ^ 2 + d * x1 *
      x2 * y2 ^ 2 * x3 * y3 ^ 2 + d * x1 * x2 ^ 2 * y2 * x3 ^ 2 * y3 - d * x1 * y1 ^ 2 * y2 * x3 ^ 2 * y3 ^ 3 - d *
      x1 * y1 ^ 2 * x2 * x3 ^ 3 * y3 ^ 2 - d * x1 * y1 ^ 2 * x2 * y2 ^ 2 * x3 * y3 ^ 2 - d * x1 * y1 ^ 2 * x2 ^ 2 *
      y2 * x3 ^ 2 * y3 + d * x1 ^ 2 * y1 * y2 * x3 ^ 3 * y3 ^ 2 + d * x1 ^ 2 * y1 * x2 * x3 ^ 2 * y3 ^ 3 - d * x1 ^
      2 * y1 * x2 * y2 ^ 2 * x3 ^ 2 * y3 - d * x1 ^ 2 * y1 * x2 ^ 2 * y2 * x3 * y3 ^ 2 + d * x1 ^ 3 * y2 * x3 ^ 2 *
      y3 ^ 3 + d * x1 ^ 3 * x2 * x3 ^ 3 * y3 ^ 2 + d * x1 ^ 3 * x2 * y2 ^ 2 * x3 * y3 ^ 2 + d * x1 ^ 3 * x2 ^ 2 * y2
      * x3 ^ 2 * y3 + d ^ 2 * x1 * y1 ^ 2 * x2 * y2 ^ 2 * x3 ^ 3 * y3 ^ 2 - d ^ 2 * x1 * y1 ^ 2 * x2 ^ 2 * y2 * x3 ^
      2 * y3 ^ 3 - d ^ 2 * x1 ^ 2 * y1 * x2 * y2 ^ 2 * x3 ^ 2 * y3 ^ 3 + d ^ 2 * x1 ^ 2 * y1 * x2 ^ 2 * y2 * x3 ^ 3
      * y3 ^ 2) * (y2 * y2 - x2 * x2 - (1 + d * (x2 * x2 * (y2 * y2))))
    + ( - y1 * y2 * x3 + y1 * y2 ^ 3 * x3 - y1 * x2 * y3 + y1 * x2 * y2 ^ 2 * y3 - y1 * x2 ^ 2 * y2 * x3 - y1 * x2 ^
      3 * y3 + y1 ^ 3 * y2 * x3 - y1 ^ 3 * y2 ^ 3 * x3 + y1 ^ 3 * x2 * y3 - y1 ^ 3 * x2 * y2 ^ 2 * y3 + y1 ^ 3 * x2
      ^ 2 * y2 * x3 + y1 ^ 3 * x2 ^ 3 * y3 - x1 * y2 * y3 + x1 * y2 ^ 3 * y3 - x1 * x2 * x3 + x1 * x2 * y2 ^ 2 * x3
      - x1 * x2 ^ 2 * y2 * y3 - x1 * x2 ^ 3 * x3 + x1 * y1 ^ 2 * y2 * y3 - x1 * y1 ^ 2 * y2 ^ 3 * y3 + x1 * y1 ^ 2 *
      x2 * x3 - x1 * y1 ^ 2 * x2 * y2 ^ 2 * x3 + x1 * y1 ^ 2 * x2 ^ 2 * y2 * y3 + x1 * y1 ^ 2 * x2 ^ 3 * x3 - x1 ^ 2
      * y1 * y2 * x3 + x1 ^ 2 * y1 * y2 ^ 3 * x3 - x1 ^ 2 * y1 * x2 * y3 + x1 ^ 2 * y1 * x2 * y2 ^ 2 * y3 - x1 ^ 2 *
      y1 * x2 ^ 2 * y2 * x3 - x1 ^ 2 * y1 * x2 ^ 3 * y3 - x1 ^ 3 * y2 * y3 + x1 ^ 3 * y2 ^ 3 * y3 - x1 ^ 3 * x2 * x3
      + x1 ^ 3 * x2 * y2 ^ 2 * x3 - x1 ^ 3 * x2 ^ 2 * y2 * y3 - x1 ^ 3 * x2 ^ 3 * x3 - d * x1 * y1 ^ 2 * x2 * y2 ^ 2
      * x3 + d * x1 * y1 ^ 2 * x2 ^ 2 * y2 * y3 + d * x1 ^ 2 * y1 * x2 * y2 ^ 2 * y3 - d * x1 ^ 2 * y1 * x2 ^ 2 * y2
      * x3) * (y3 * y3 - x3 * x3 - (1 + d * (x3 * x3 * (y3 * y3))))"
  by algebra

lemma assoc_identity_y:
  fixes d x1 y1 x2 y2 x3 y3 :: gf25519
  shows "((y1 * y2 + x1 * x2) * (1 + d * (x1 * x2 * (y1 * y2))) * y3 + (x1 * y2 + x2 * y1) * (1 - d * (x1 * x2 * (y1 * y2))) * x3) * ((1 + d * (x2 * x3 * (y2 * y3))) * (1 - d * (x2 * x3 * (y2 * y3))) - d * ((x2 * y3 + x3 * y2) * (y2 * y3 + x2 * x3) * (x1 * y1)))
    - (y1 * ((y2 * y3 + x2 * x3) * (1 + d * (x2 * x3 * (y2 * y3)))) + x1 * ((x2 * y3 + x3 * y2) * (1 - d * (x2 * x3 * (y2 * y3))))) * ((1 + d * (x1 * x2 * (y1 * y2))) * (1 - d * (x1 * x2 * (y1 * y2))) - d * ((x1 * y2 + x2 * y1) * (y1 * y2 + x1 * x2) * (x3 * y3)))
    = (d * y1 * x2 * y2 ^ 4 * x3 * y3 ^ 2 - d * y1 * x2 ^ 2 * y2 ^ 3 * y3 + d * y1 * x2 ^ 2 * y2 ^ 3 * y3 ^ 3 - d *
      y1 * x2 ^ 3 * y2 ^ 2 * x3 - d * y1 * x2 ^ 3 * y2 ^ 2 * x3 ^ 3 - d * y1 * x2 ^ 4 * y2 * x3 ^ 2 * y3 - d * x1 *
      x2 * y2 ^ 4 * x3 ^ 2 * y3 - d * x1 * x2 ^ 2 * y2 ^ 3 * x3 - d * x1 * x2 ^ 2 * y2 ^ 3 * x3 ^ 3 - d * x1 * x2 ^
      3 * y2 ^ 2 * y3 + d * x1 * x2 ^ 3 * y2 ^ 2 * y3 ^ 3 + d * x1 * x2 ^ 4 * y2 * x3 * y3 ^ 2 - d ^ 2 * y1 * x2 ^ 3
      * y2 ^ 4 * x3 * y3 ^ 2 - d ^ 2 * y1 * x2 ^ 4 * y2 ^ 3 * x3 ^ 2 * y3 + d ^ 2 * x1 * x2 ^ 3 * y2 ^ 4 * x3 ^ 2 *
      y3 + d ^ 2 * x1 * x2 ^ 4 * y2 ^ 3 * x3 * y3 ^ 2) * (y1 * y1 - x1 * x1 - (1 + d * (x1 * x1 * (y1 * y1))))
    + (y1 * y2 * y3 - y1 * y2 * y3 ^ 3 + y1 * y2 * x3 ^ 2 * y3 + y1 * x2 * x3 - y1 * x2 * x3 * y3 ^ 2 + y1 * x2 * x3
      ^ 3 - y1 ^ 3 * y2 * y3 + y1 ^ 3 * y2 * y3 ^ 3 - y1 ^ 3 * y2 * x3 ^ 2 * y3 - y1 ^ 3 * x2 * x3 + y1 ^ 3 * x2 *
      x3 * y3 ^ 2 - y1 ^ 3 * x2 * x3 ^ 3 + x1 * y2 * x3 - x1 * y2 * x3 * y3 ^ 2 + x1 * y2 * x3 ^ 3 + x1 * x2 * y3 -
      x1 * x2 * y3 ^ 3 + x1 * x2 * x3 ^ 2 * y3 - x1 * y1 ^ 2 * y2 * x3 + x1 * y1 ^ 2 * y2 * x3 * y3 ^ 2 - x1 * y1 ^
      2 * y2 * x3 ^ 3 - x1 * y1 ^ 2 * x2 * y3 + x1 * y1 ^ 2 * x2 * y3 ^ 3 - x1 * y1 ^ 2 * x2 * x3 ^ 2 * y3 + x1 ^ 2
      * y1 * y2 * y3 - x1 ^ 2 * y1 * y2 * y3 ^ 3 + x1 ^ 2 * y1 * y2 * x3 ^ 2 * y3 + x1 ^ 2 * y1 * x2 * x3 - x1 ^ 2 *
      y1 * x2 * x3 * y3 ^ 2 + x1 ^ 2 * y1 * x2 * x3 ^ 3 + x1 ^ 3 * y2 * x3 - x1 ^ 3 * y2 * x3 * y3 ^ 2 + x1 ^ 3 * y2
      * x3 ^ 3 + x1 ^ 3 * x2 * y3 - x1 ^ 3 * x2 * y3 ^ 3 + x1 ^ 3 * x2 * x3 ^ 2 * y3 + d * y1 * y2 * x3 ^ 2 * y3 ^ 3
      + d * y1 * x2 * x3 ^ 3 * y3 ^ 2 + d * y1 * x2 * y2 ^ 2 * x3 * y3 ^ 2 + d * y1 * x2 ^ 2 * y2 * x3 ^ 2 * y3 - d
      * y1 ^ 3 * y2 * x3 ^ 2 * y3 ^ 3 - d * y1 ^ 3 * x2 * x3 ^ 3 * y3 ^ 2 - d * y1 ^ 3 * x2 * y2 ^ 2 * x3 * y3 ^ 2 -
      d * y1 ^ 3 * x2 ^ 2 * y2 * x3 ^ 2 * y3 + d * x1 * y2 * x3 ^ 3 * y3 ^ 2 + d * x1 * x2 * x3 ^ 2 * y3 ^ 3 - d *
      x1 * x2 * y2 ^ 2 * x3 ^ 2 * y3 - d * x1 * x2 ^ 2 * y2 * x3 * y3 ^ 2 - d * x1 * y1 ^ 2 * y2 * x3 ^ 3 * y3 ^ 2 -
      d * x1 * y1 ^ 2 * x2 * x3 ^ 2 * y3 ^ 3 + d * x1 * y1 ^ 2 * x2 * y2 ^ 2 * x3 ^ 2 * y3 + d * x1 * y1 ^ 2 * x2 ^
      2 * y2 * x3 * y3 ^ 2 + d * x1 ^ 2 * y1 * y2 * x3 ^ 2 * y3 ^ 3 + d * x1 ^ 2 * y1 * x2 * x3 ^ 3 * y3 ^ 2 + d *
      x1 ^ 2 * y1 * x2 * y2 ^ 2 * x3 * y3 ^ 2 + d * x1 ^ 2 * y1 * x2 ^ 2 * y2 * x3 ^ 2 * y3 + d * x1 ^ 3 * y2 * x3 ^
      3 * y3 ^ 2 + d * x1 ^ 3 * x2 * x3 ^ 2 * y3 ^ 3 - d * x1 ^ 3 * x2 * y2 ^ 2 * x3 ^ 2 * y3 - d * x1 ^ 3 * x2 ^ 2
      * y2 * x3 * y3 ^ 2 + d ^ 2 * x1 * y1 ^ 2 * x2 * y2 ^ 2 * x3 ^ 2 * y3 ^ 3 - d ^ 2 * x1 * y1 ^ 2 * x2 ^ 2 * y2 *
      x3 ^ 3 * y3 ^ 2 - d ^ 2 * x1 ^ 2 * y1 * x2 * y2 ^ 2 * x3 ^ 3 * y3 ^ 2 + d ^ 2 * x1 ^ 2 * y1 * x2 ^ 2 * y2 * x3
      ^ 2 * y3 ^ 3) * (y2 * y2 - x2 * x2 - (1 + d * (x2 * x2 * (y2 * y2))))
    + ( - y1 * y2 * y3 + y1 * y2 ^ 3 * y3 - y1 * x2 * x3 + y1 * x2 * y2 ^ 2 * x3 - y1 * x2 ^ 2 * y2 * y3 - y1 * x2 ^
      3 * x3 + y1 ^ 3 * y2 * y3 - y1 ^ 3 * y2 ^ 3 * y3 + y1 ^ 3 * x2 * x3 - y1 ^ 3 * x2 * y2 ^ 2 * x3 + y1 ^ 3 * x2
      ^ 2 * y2 * y3 + y1 ^ 3 * x2 ^ 3 * x3 - x1 * y2 * x3 + x1 * y2 ^ 3 * x3 - x1 * x2 * y3 + x1 * x2 * y2 ^ 2 * y3
      - x1 * x2 ^ 2 * y2 * x3 - x1 * x2 ^ 3 * y3 + x1 * y1 ^ 2 * y2 * x3 - x1 * y1 ^ 2 * y2 ^ 3 * x3 + x1 * y1 ^ 2 *
      x2 * y3 - x1 * y1 ^ 2 * x2 * y2 ^ 2 * y3 + x1 * y1 ^ 2 * x2 ^ 2 * y2 * x3 + x1 * y1 ^ 2 * x2 ^ 3 * y3 - x1 ^ 2
      * y1 * y2 * y3 + x1 ^ 2 * y1 * y2 ^ 3 * y3 - x1 ^ 2 * y1 * x2 * x3 + x1 ^ 2 * y1 * x2 * y2 ^ 2 * x3 - x1 ^ 2 *
      y1 * x2 ^ 2 * y2 * y3 - x1 ^ 2 * y1 * x2 ^ 3 * x3 - x1 ^ 3 * y2 * x3 + x1 ^ 3 * y2 ^ 3 * x3 - x1 ^ 3 * x2 * y3
      + x1 ^ 3 * x2 * y2 ^ 2 * y3 - x1 ^ 3 * x2 ^ 2 * y2 * x3 - x1 ^ 3 * x2 ^ 3 * y3 - d * x1 * y1 ^ 2 * x2 * y2 ^ 2
      * y3 + d * x1 * y1 ^ 2 * x2 ^ 2 * y2 * x3 + d * x1 ^ 2 * y1 * x2 * y2 ^ 2 * x3 - d * x1 ^ 2 * y1 * x2 ^ 2 * y2
      * y3) * (y3 * y3 - x3 * x3 - (1 + d * (x3 * x3 * (y3 * y3))))"
  by algebra

text \<open>The coordinates of \<open>(a + b) + c\<close> over one denominator each.\<close>

lemma triple_sum:
  assumes "on_curve (x1, y1)" and "on_curve (x2, y2)" and "on_curve (x3, y3)"
    and "k = gf curve_d * (x1 * x2 * (y1 * y2))"
    and "nx = x1 * y2 + x2 * y1" and "ny = y1 * y2 + x1 * x2" and "t = gf curve_d * (nx * ny * (x3 * y3))"
  shows "(1 + k) * (1 - k) + t \<noteq> 0" and "(1 + k) * (1 - k) - t \<noteq> 0"
    and "ed_add (ed_add (x1, y1) (x2, y2)) (x3, y3) = ((nx * (1 - k) * y3 + x3 * (ny * (1 + k))) / ((1 + k) * (1 - k) + t),
      (ny * (1 + k) * y3 + nx * (1 - k) * x3) / ((1 + k) * (1 - k) - t))"
proof -
  have k: "1 + k \<noteq> 0" "1 - k \<noteq> 0" using ed_denominators [OF assms(1,2)] assms(4) by simp_all
  define X Y where "X = nx / (1 + k)" and "Y = ny / (1 - k)"
  have XY: "X * (1 + k) = nx" "Y * (1 - k) = ny" using k by (simp_all add: X_def Y_def del: right_minus_eq)
  have s: "ed_add (x1, y1) (x2, y2) = (X, Y)" by (simp add: ed_add_def Let_def assms(4-6) X_def Y_def)
  define m where "m = gf curve_d * (X * x3 * (Y * y3))"
  have "on_curve (X, Y)" using ed_add_on_curve [OF assms(1,2)] s by simp
  from ed_denominators [OF this assms(3)] have m: "1 + m \<noteq> 0" "1 - m \<noteq> 0" unfolding m_def .
  have d: "(1 + k) * (1 - k) + t = (1 + k) * (1 - k) * (1 + m)" "(1 + k) * (1 - k) - t = (1 + k) * (1 - k) * (1 - m)"
    unfolding assms(7) XY [symmetric] m_def by algebra+
  then show "(1 + k) * (1 - k) + t \<noteq> 0" "(1 + k) * (1 - k) - t \<noteq> 0" using k m by simp_all
  have n: "nx * (1 - k) * y3 + x3 * (ny * (1 + k)) = (1 + k) * (1 - k) * (X * y3 + x3 * Y)"
    "ny * (1 + k) * y3 + nx * (1 - k) * x3 = (1 + k) * (1 - k) * (Y * y3 + X * x3)"
    unfolding XY [symmetric] by algebra+
  have "(1 + k) * (1 - k) \<noteq> 0" using k by simp
  then show "ed_add (ed_add (x1, y1) (x2, y2)) (x3, y3) = ((nx * (1 - k) * y3 + x3 * (ny * (1 + k))) / ((1 + k) * (1 - k) + t),
      (ny * (1 + k) * y3 + nx * (1 - k) * x3) / ((1 + k) * (1 - k) - t))"
    unfolding s d n by (simp only: ed_add_def Let_def prod.case m_def [symmetric] mult_divide_mult_cancel_left not_False_eq_True if_True)
qed

lemma ed_add_commute: "ed_add a b = ed_add b a"
  by (cases a; cases b) (simp add: ed_add_def Let_def mult.commute mult.left_commute add.commute)

lemma ed_add_assoc:
  assumes "on_curve a" and "on_curve b" and "on_curve c"
  shows "ed_add (ed_add a b) c = ed_add a (ed_add b c)"
proof -
  obtain x1 y1 x2 y2 x3 y3 where abc: "a = (x1, y1)" "b = (x2, y2)" "c = (x3, y3)" by (cases a; cases b; cases c)
  note on = assms [unfolded abc]
  note L = triple_sum [OF on refl refl refl refl] and R = triple_sum [OF on(2,3,1) refl refl refl refl]
  have e: "y1 * y1 - x1 * x1 - (1 + gf curve_d * (x1 * x1 * (y1 * y1))) = 0"
    "y2 * y2 - x2 * x2 - (1 + gf curve_d * (x2 * x2 * (y2 * y2))) = 0"
    "y3 * y3 - x3 * x3 - (1 + gf curve_d * (x3 * x3 * (y3 * y3))) = 0"
    using on by (simp_all add: on_curve_def)
  note X = assoc_identity_x [of x1 y2 x2 y1 "gf curve_d" y3 x3, unfolded e mult_zero_right add_0_right right_minus_eq]
  note Y = assoc_identity_y [of y1 y2 x1 x2 "gf curve_d" y3 x3, unfolded e mult_zero_right add_0_right right_minus_eq]
  show ?thesis
    unfolding abc ed_add_commute [of "(x1, y1)" "ed_add _ _"] L(3) R(3) prod.inject
    using X Y L(1,2) R(1,2) by (simp add: frac_eq_eq ac_simps)
qed

section \<open>The group\<close>

lemma ed_add_zero: "ed_add (0, 1) a = a"
  by (cases a) (simp add: ed_add_def)

lemma zero_on_curve: "on_curve (0, 1)"
  by (simp add: on_curve_def)

lemma ed_add_neg:
  assumes "on_curve a"
  shows "ed_add (neg_point a) a = (0, 1)"
proof -
  obtain x y where a: "a = (x, y)" by (cases a)
  have "on_curve (- x, y)" using assms neg_on_curve [of a] by (simp add: a neg_point_def)
  from ed_denominators(2) [OF this assms [unfolded a]] have "1 - gf curve_d * (- x * x * (y * y)) \<noteq> 0" .
  moreover have "1 - gf curve_d * (- x * x * (y * y)) = y * y + - x * x"
    using assms unfolding on_curve_def a prod.case by algebra
  ultimately show ?thesis by (simp add: ed_add_def neg_point_def a Let_def)
qed

typedef curve25519 = "{a. on_curve a}" morphisms affine Curve
  using zero_on_curve by blast

setup_lifting type_definition_curve25519

instantiation curve25519 :: ab_group_add
begin

lift_definition zero_curve25519 :: curve25519 is "(0, 1)" by (rule zero_on_curve)

lift_definition plus_curve25519 :: "curve25519 \<Rightarrow> curve25519 \<Rightarrow> curve25519" is ed_add by (rule ed_add_on_curve)

lift_definition uminus_curve25519 :: "curve25519 \<Rightarrow> curve25519" is neg_point by (simp add: neg_on_curve)

definition minus_curve25519 :: "curve25519 \<Rightarrow> curve25519 \<Rightarrow> curve25519" where "minus_curve25519 a b = a + - b"

instance
proof
  fix a b c :: curve25519
  show "a + b + c = a + (b + c)" by transfer (rule ed_add_assoc)
  show "a + b = b + a" by transfer (rule ed_add_commute)
  show "0 + a = a" by transfer (rule ed_add_zero)
  show "- a + a = 0" by transfer (rule ed_add_neg)
  show "a - b = a + - b" by (rule minus_curve25519_def)
qed

end

lemma affine_on_curve: "on_curve (affine a)"
  using affine [of a] by simp

lemma affine_sum: "ed_sum (affine a) (affine b) (affine (a + b))"
  unfolding plus_curve25519.rep_eq by (rule ed_sum_add [OF affine_on_curve affine_on_curve])

lemma affine_diff: "ed_sum (affine a) (neg_point (affine b)) (affine (a - b))"
  using affine_sum [of a "- b"] by (simp add: uminus_curve25519.rep_eq)

section \<open>Multiples\<close>

definition smul :: "int \<Rightarrow> 'a :: ab_group_add \<Rightarrow> 'a" where
  "smul n a = (if 0 \<le> n then ((+) a ^^ nat n) 0 else - ((+) a ^^ nat (- n)) 0)"

lemma smul_0 [simp]: "smul 0 a = 0"
  by (simp add: smul_def)

lemma smul_step: "smul (n + 1) a = smul n a + a"
proof (cases "0 \<le> n")
  case True
  then show ?thesis by (simp add: smul_def nat_add_distrib add.commute)
next
  case False
  then obtain k where "n = - int (Suc k)" by (metis int_cases nonneg_int_cases of_nat_0_le_iff)
  then show ?thesis by (cases k) (simp_all add: smul_def nat_add_distrib)
qed

lemma smul_back: "smul (n - 1) a = smul n a - a"
  using smul_step [of "n - 1" a] by simp

lemma smul_1 [simp]: "smul 1 a = a"
  using smul_step [of 0 a] by simp

lemma smul_add: "smul (m + n) a = smul m a + smul n a"
proof (induction n rule: int_induct [where k = 0])
  case (step1 i)
  then show ?case using smul_step [of "m + i" a] smul_step [of i a] by (simp add: ac_simps)
next
  case (step2 i)
  then show ?case by (simp only: add_diff_eq smul_back)
qed simp

lemma smul_minus: "smul (- n) a = - smul n a"
  using smul_add [of n "- n" a] by (simp add: eq_neg_iff_add_eq_0 add.commute)

lemma smul_mult: "smul (m * n) a = smul m (smul n a)"
proof (induction m rule: int_induct [where k = 0])
  case (step1 i)
  then show ?case by (simp add: distrib_right smul_add)
next
  case (step2 i)
  then show ?case using smul_add [of "i * n" "- n" a] smul_back [of i "smul n a"] by (simp add: left_diff_distrib smul_minus)
qed simp

lemma smul_2: "smul 2 a = a + a"
  using smul_add [of 1 1 a] by simp

lemma smul_plus: "smul n (a + b) = smul n a + smul n b"
proof (induction n rule: int_induct [where k = 0])
  case (step1 i)
  then show ?case by (simp only: smul_step) (simp only: ac_simps)
next
  case (step2 i)
  have "smul i a + smul i b - (a + b) = (smul i a - a) + (smul i b - b)" by (simp add: algebra_simps)
  with step2 show ?case by (simp only: smul_back)
qed simp

lemma smul_neg: "smul n (- a) = - smul n a"
  using smul_mult [of n "- 1" a] smul_mult [of "- 1" n a] by (simp add: smul_minus)

lemma smul_zero [simp]: "smul n 0 = 0"
  using smul_mult [of n 0 "0 :: 'a"] by simp

end
