(* ===== verification/Point_Bytes.thy ===== *)
theory Point_Bytes
  imports Group25519
begin

text \<open>
  Points and arrays of 32 bytes: \<open>FromBytes\<close> and \<open>ToBytes\<close> of \<open>src/vrf/edwards25519/edwards25519.go\<close>. An encoding is
  the little-endian second coordinate with the parity of the first one in its top bit.
\<close>

unbundle bit_operations_syntax

section \<open>The candidate root\<close>

text \<open>\<open>decoded_y s\<close> is the second coordinate that an array encodes, \<open>sign_bit s\<close> its top bit.\<close>

definition decoded_y :: "bytes \<Rightarrow> gf25519" where
  "decoded_y s = gf_of (le_int s mod 2 ^ 255)"

definition sign_bit :: "bytes \<Rightarrow> int" where
  "sign_bit s = uint (s ! 31) div 128"

lemma FeFromBytes_rep: "length s = 32 \<Longrightarrow> rep 1 (FeFromBytes s) (decoded_y s)"
  using FeFromBytes_within [of s] by (simp add: rep_def gf_def gf_of_eq decoded_y_def)

definition decode_u :: "bytes \<Rightarrow> FieldElement" where
  "decode_u s = FeSub (FeSquare (FeFromBytes s)) FeOne"

definition decode_v :: "bytes \<Rightarrow> FieldElement" where
  "decode_v s = FeAdd (FeMul (FeSquare (FeFromBytes s)) curve_d) FeOne"

definition decode_x :: "bytes \<Rightarrow> FieldElement" where
  "decode_x s = (let u = decode_u s; v = decode_v s; v3 = FeMul (FeSquare v) v
     in FeMul (FeMul (fePow22523 (FeMul (FeMul (FeSquare v3) v) u)) v3) u)"

lemma rep_curve_d: "rep 1 curve_d (gf curve_d)"
  by (rule rep_gf) (simp add: fe_within_def limbs_within_def bounded_by_def tight_def curve_d_def)

lemma decode_uv_rep:
  assumes "length s = 32"
  shows "rep 2 (decode_u s) (decoded_y s * decoded_y s - 1)"
    and "rep 2 (decode_v s) (decoded_y s * decoded_y s * gf curve_d + 1)"
proof -
  note y = rep_sq [OF FeFromBytes_rep [OF assms]]
  show "rep 2 (decode_u s) (decoded_y s * decoded_y s - 1)"
    using rep_sub [OF y rep_constants(2)] by (simp add: decode_u_def)
  show "rep 2 (decode_v s) (decoded_y s * decoded_y s * gf curve_d + 1)"
    using rep_add [OF rep_mul [OF y rep_curve_d] rep_constants(2)] by (simp add: decode_v_def)
qed

text \<open>The candidate is \<open>u v\<^sup>3 (u v\<^sup>7) ^ ((p - 5) / 8)\<close>.\<close>

lemma decode_x_value:
  assumes "length s = 32" and "y = decoded_y s" and "u = y * y - 1" and "v = y * y * gf curve_d + 1"
  shows "rep 1 (decode_x s) ((v * v * v * (v * v * v) * v * u) ^ (2 ^ 252 - 3) * (v * v * v) * u)"
proof -
  have u: "rep 2 (decode_u s) u" and v: "rep 2 (decode_v s) v" using decode_uv_rep [OF assms(1)] assms(2-4) by simp_all
  have v3: "rep 1 (FeMul (FeSquare (decode_v s)) (decode_v s)) (v * v * v)"
    using rep_mul [OF rep_sq [OF v] v] by simp
  let ?v3 = "FeMul (FeSquare (decode_v s)) (decode_v s)"
  let ?b = "FeMul (FeMul (FeSquare ?v3) (decode_v s)) (decode_u s)"
  have b: "rep 1 ?b (v * v * v * (v * v * v) * v * u)" using rep_mul [OF rep_mul [OF rep_sq [OF v3] v] u] by simp
  have l: "fe_within loose ?b" "fe_within loose ?v3" using rep_loose [OF b] rep_loose [OF v3] by simp_all
  have w: "fe_within loose (fePow22523 ?b)" using fePow22523_power [OF l(1)] by (simp add: fe_power_def)
  have "rep 1 (FeMul (fePow22523 ?b) ?v3) ((v * v * v * (v * v * v) * v * u) ^ (2 ^ 252 - 3) * (v * v * v))"
    using FeMul_within [OF w l(2)] gf_mul [OF w l(2)] rep_power [OF fePow22523_power [OF l(1)]] b v3
    by (simp only: rep_def mult_1)
  from rep_mul [OF this u] show ?thesis by (simp add: decode_x_def Let_def)
qed

lemma decode_x_rep: "length s = 32 \<Longrightarrow> rep 1 (decode_x s) (gf (decode_x s))"
  using decode_x_value [OF _ refl refl refl] by (simp add: rep_def)

text \<open>The element that is tested for its sign: a root of \<open>u / v\<close>, when one of the two tests succeeds.\<close>

definition decode_root :: "bytes \<Rightarrow> FieldElement option" where
  "decode_root s =
     (let X = decode_x s; vxx = FeMul (FeSquare X) (decode_v s)
      in if fst (FeIsNonZero (FeSub vxx (decode_u s))) = 1
         then if fst (FeIsNonZero (FeAdd vxx (decode_u s))) = 1 then None
              else Some (snd (FeToBytes (FeMul X SqrtM1)))
         else Some X)"

lemma Ext_FromBytes_root:
  "Ext_FromBytes p s =
     (case decode_root s of
        None \<Rightarrow> (False, p\<lparr>eX := decode_x s, eY := FeFromBytes s, eZ := FeOne\<rparr>)
      | Some X \<Rightarrow>
          let (neg, X) = FeIsNegative X; X = (if neg \<noteq> drop_bit 7 (s ! 31) then FeNeg X else X)
          in (True, \<lparr>eX = X, eY = FeFromBytes s, eZ = FeOne, eT = FeMul X (FeFromBytes s)\<rparr>))"
  by (simp add: Ext_FromBytes_def decode_root_def decode_x_def decode_u_def decode_v_def Let_def)

lemma decode_tests:
  assumes "length s = 32" and "y = decoded_y s" and "x = gf (decode_x s)"
  shows "fst (FeIsNonZero (FeSub (FeMul (FeSquare (decode_x s)) (decode_v s)) (decode_u s))) = 1
      \<longleftrightarrow> x * x * (y * y * gf curve_d + 1) \<noteq> y * y - 1"
    and "fst (FeIsNonZero (FeAdd (FeMul (FeSquare (decode_x s)) (decode_v s)) (decode_u s))) = 1
      \<longleftrightarrow> x * x * (y * y * gf curve_d + 1) \<noteq> - (y * y - 1)"
proof -
  note uv = decode_uv_rep [OF assms(1), folded assms(2)]
  have vxx: "rep 1 (FeMul (FeSquare (decode_x s)) (decode_v s)) (x * x * (y * y * gf curve_d + 1))"
    using rep_mul [OF rep_sq [OF decode_x_rep [OF assms(1)]] uv(2)] assms(3) by simp
  from rep_is_nonzero [OF rep_sub [OF vxx uv(1)]] rep_is_nonzero [OF rep_add [OF vxx uv(1)]]
  show "fst (FeIsNonZero (FeSub (FeMul (FeSquare (decode_x s)) (decode_v s)) (decode_u s))) = 1
      \<longleftrightarrow> x * x * (y * y * gf curve_d + 1) \<noteq> y * y - 1"
    and "fst (FeIsNonZero (FeAdd (FeMul (FeSquare (decode_x s)) (decode_v s)) (decode_u s))) = 1
      \<longleftrightarrow> x * x * (y * y * gf curve_d + 1) \<noteq> - (y * y - 1)"
    by (simp_all add: eq_neg_iff_add_eq_0 del: minus_diff_eq)
qed

lemma decode_root_rep:
  assumes "length s = 32" and "decode_root s = Some X"
  shows "rep 2 X (gf X)" and "on_curve (gf X, decoded_y s)"
proof -
  let ?y = "decoded_y s" let ?x = "gf (decode_x s)" let ?v = "?y * ?y * gf curve_d + 1" let ?u = "?y * ?y - 1"
  note x = decode_x_rep [OF assms(1)] and tests = decode_tests [OF assms(1) refl refl]
  have xm: "rep 1 (FeMul (decode_x s) SqrtM1) (?x * gf SqrtM1)" using rep_mul [OF x SqrtM1_rep] by simp
  from assms(2) consider "?x * ?x * ?v = ?u" "X = decode_x s"
    | "?x * ?x * ?v = - ?u" "X = snd (FeToBytes (FeMul (decode_x s) SqrtM1))"
    by (auto simp: decode_root_def Let_def tests split: if_splits)
  then have "rep 2 X (gf X) \<and> gf X * gf X * ?v = ?u"
  proof cases
    case 1
    then show ?thesis using rep_mono [OF x] by simp
  next
    case 2
    then have r: "rep 2 X (?x * gf SqrtM1)" using rep_reduced(1) [OF xm] by simp
    have "gf X * gf X * ?v = (gf SqrtM1 * gf SqrtM1) * (?x * ?x * ?v)"
      using r by (simp add: rep_def ac_simps)
    also have "\<dots> = ?u" using 2(1) by (simp add: SqrtM1_square)
    finally show ?thesis using r by (simp add: rep_def)
  qed
  then show "rep 2 X (gf X)" and "on_curve (gf X, ?y)"
    by (simp_all add: on_curve_def algebra_simps)
qed

section \<open>Encodings\<close>

definition encode_point :: "point \<Rightarrow> bytes" where
  "encode_point a = (case a of (x, y) \<Rightarrow> le_bytes 32 (gf_int y + 2 ^ 255 * (gf_int x mod 2)))"

lemma xor_top_bit:
  assumes "0 \<le> n" and "n < 128"
  shows "(word_of_int n :: byte) XOR push_bit 7 v = word_of_int n + 128 * v"
proof -
  have n: "\<not> bit (word_of_int n :: byte) 7"
    unfolding bit_word_of_int_iff using assms(1,2) by (simp add: bit_iff_odd)
  have "(word_of_int n :: byte) AND push_bit 7 v = 0"
  proof (rule bit_word_eqI)
    fix k assume "k < LENGTH(8)"
    then show "bit ((word_of_int n :: byte) AND push_bit 7 v) k \<longleftrightarrow> bit (0 :: byte) k"
      using n by (cases "k = 7") (auto simp: bit_and_iff bit_push_bit_iff)
  qed
  then show ?thesis by (simp add: disjunctive_add_eq_xor [symmetric] push_bit_eq_mult mult.commute)
qed

lemma set_top_bit:
  assumes "0 \<le> n" and "n < 2 ^ 255" and "b = 0 \<or> b = 1"
  shows "(le_bytes 32 n)[31 := le_bytes 32 n ! 31 XOR push_bit 7 (word_of_int b)] = le_bytes 32 (n + 2 ^ 255 * b)"
proof (rule nth_equalityI)
  fix k assume "k < length ((le_bytes 32 n)[31 := le_bytes 32 n ! 31 XOR push_bit 7 (word_of_int b)])"
  then have "k < 31 \<or> k = 31" by auto
  then show "(le_bytes 32 n)[31 := le_bytes 32 n ! 31 XOR push_bit 7 (word_of_int b)] ! k = le_bytes 32 (n + 2 ^ 255 * b) ! k"
  proof
    assume k: "k < 31"
    have "n + 2 ^ 255 * b = n + 256 ^ k * (256 * 2 ^ (247 - 8 * k) * b)"
    proof -
      have "(256 :: int) ^ k * 256 * 2 ^ (247 - 8 * k) = 2 ^ (8 * k) * 2 ^ 8 * 2 ^ (247 - 8 * k)" by (simp add: power_mult)
      also have "\<dots> = 2 ^ (8 * k + 8 + (247 - 8 * k))" by (simp only: power_add)
      finally show ?thesis using k by (simp add: mult.assoc [symmetric])
    qed
    then have "(n + 2 ^ 255 * b) div 256 ^ k = 256 * 2 ^ (247 - 8 * k) * b + n div 256 ^ k"
      by (simp only: div_mult_self2 power_not_zero zero_neq_numeral [symmetric] not_False_eq_True)
    then have "(word_of_int ((n + 2 ^ 255 * b) div 256 ^ k) :: byte) = word_of_int (n div 256 ^ k)"
      using word_of_multiple [of 8 "n div 256 ^ k" "2 ^ (247 - 8 * k) * b"] by (simp add: ac_simps)
    then show ?thesis using k by (simp add: le_bytes_def)
  next
    assume "k = 31"
    moreover have "(n + 2 ^ 255 * b) div 256 ^ 31 = n div 256 ^ 31 + 128 * b"
      using div_mult_self2 [of "256 ^ 31 :: int" n "128 * b"] by (simp add: mult.assoc [symmetric])
    moreover have "0 \<le> n div 256 ^ 31" "n div 256 ^ 31 < 128" using assms(1,2) floor_bounds [of 248 n] by (simp_all add: pos_imp_zdiv_nonneg_iff)
    ultimately show ?thesis using xor_top_bit by (simp add: le_bytes_def)
  qed
qed simp

lemma ToBytes_encodes:
  assumes "fe_within loose r" and "gf r * z = 1" and "rep 2 X (x * z)" and "rep 1 Y (y * z)"
  shows "(fst (FeToBytes (FeMul Y r)))[31 := fst (FeToBytes (FeMul Y r)) ! 31 XOR push_bit 7 (fst (FeIsNegative (FeMul X r)))]
    = encode_point (x, y)"
proof -
  have m: "rep 1 (FeMul f r) (w)" if "rep k f (w * z)" "k \<le> 3" for k f w
  proof -
    have "rep 1 (FeMul f r) (w * z * gf r)"
      using FeMul_within [OF rep_loose [OF that] assms(1)] gf_mul [OF rep_loose [OF that] assms(1)] that(1) by (simp add: rep_def)
    then show ?thesis using assms(2) by (simp add: mult.assoc mult.commute [of z])
  qed
  have p: "gf_int x mod 2 = 0 \<or> gf_int x mod 2 = 1" by auto
  have r: "0 \<le> gf_int y" "gf_int y < 2 ^ 255" using gf_int_range [of y] by (simp_all add: fe_p_def)
  show ?thesis
    using rep_to_bytes [OF m [OF assms(4)]] rep_is_negative [OF m [OF assms(3)]] set_top_bit [OF r p]
    by (simp add: encode_point_def)
qed

section \<open>Decoding\<close>

lemma le_int_snoc: "le_int (xs @ [b]) = le_int xs + 256 ^ length xs * uint b"
  by (induction xs) (simp_all add: algebra_simps)

lemma sign_bit_word:
  assumes "length s = 32"
  shows "drop_bit 7 (s ! 31) = word_of_int (sign_bit s)" and "sign_bit s = 0 \<or> sign_bit s = 1"
    and "le_int s = le_int s mod 2 ^ 255 + 2 ^ 255 * sign_bit s"
proof -
  let ?l = "le_int (take 31 s)"
  have "s = take 31 s @ [s ! 31]" using assms by (simp add: take_Suc_conv_app_nth [symmetric])
  then have "le_int s = le_int (take 31 s @ [s ! 31])" by (rule arg_cong)
  also have "\<dots> = ?l + 2 ^ 248 * uint (s ! 31)" using assms by (simp add: le_int_snoc)
  finally have v: "le_int s = ?l + 2 ^ 248 * uint (s ! 31)" .
  have l: "0 \<le> ?l" "?l < 2 ^ 248" using le_int_bounds [of "take 31 s"] assms by simp_all
  have b: "0 \<le> uint (s ! 31)" "uint (s ! 31) < 256" using uint_bounded [of "s ! 31"] by simp_all
  show "sign_bit s = 0 \<or> sign_bit s = 1" using b zdiv_mono1 [of "uint (s ! 31)" 255 128] pos_imp_zdiv_nonneg_iff [of 128 "uint (s ! 31)"]
    by (auto simp: sign_bit_def)
  have "uint (drop_bit 7 (s ! 31)) = sign_bit s" by (simp add: sign_bit_def drop_bit_eq_div uint_div_distrib)
  then show "drop_bit 7 (s ! 31) = word_of_int (sign_bit s)" by (metis word_of_int_uint)
  have "le_int s div 2 ^ 255 = le_int s div 2 ^ 248 div 128" by (simp add: zdiv_zmult2_eq [symmetric])
  also have "le_int s div 2 ^ 248 = uint (s ! 31)" unfolding v using l by (simp add: div_add1_eq)
  finally show "le_int s = le_int s mod 2 ^ 255 + 2 ^ 255 * sign_bit s"
    using div_mult_mod_eq [of "le_int s" "2 ^ 255"] by (simp add: sign_bit_def)
qed

lemma word_bit_eq: "a = 0 \<or> a = 1 \<Longrightarrow> b = 0 \<or> b = 1 \<Longrightarrow> (word_of_int a :: byte) = word_of_int b \<longleftrightarrow> a = b"
  by auto

lemma gf_parity_minus:
  assumes "x \<noteq> 0"
  shows "gf_int (- x) mod 2 = 1 - gf_int x mod 2"
proof -
  have "(fe_p - n) mod 2 = 1 - n mod 2" for n by (cases "even n") (simp_all add: fe_p_def mod_2_eq_odd)
  then show ?thesis using assms by (simp add: gf_int_minus)
qed

lemma FromBytes_result:
  assumes "length s = 32" and "Ext_FromBytes p s = (True, P)"
  obtains x where "ext_at P (x, decoded_y s)" and "eZ P = FeOne" and "on_curve (x, decoded_y s)"
    and "x \<noteq> 0 \<Longrightarrow> gf_int x mod 2 = sign_bit s"
proof -
  obtain X where r: "decode_root s = Some X" using assms(2) by (auto simp: Ext_FromBytes_root split: option.splits)
  note X = decode_root_rep [OF assms(1) r]
  let ?x = "if gf_int (gf X) mod 2 \<noteq> sign_bit s then - gf X else gf X"
  let ?X = "if gf_int (gf X) mod 2 \<noteq> sign_bit s then FeNeg (snd (FeIsNegative X)) else snd (FeIsNegative X)"
  have b: "gf_int (gf X) mod 2 = 0 \<or> gf_int (gf X) mod 2 = 1" by auto
  have "fst (FeIsNegative X) \<noteq> drop_bit 7 (s ! 31) \<longleftrightarrow> gf_int (gf X) mod 2 \<noteq> sign_bit s"
    using word_bit_eq [OF b sign_bit_word(2) [OF assms(1)]] rep_is_negative [OF X(1)] sign_bit_word(1) [OF assms(1)] by simp
  then have P: "P = \<lparr>eX = ?X, eY = FeFromBytes s, eZ = FeOne, eT = FeMul ?X (FeFromBytes s)\<rparr>"
    using assms(2) by (auto simp: Ext_FromBytes_root r split_def Let_def)
  have "rep 2 ?X ?x" using rep_reduced(2) [OF X(1)] rep_neg [OF rep_reduced(2) [OF X(1)]] by simp
  moreover from this have "rep 1 (FeMul ?X (FeFromBytes s)) (?x * decoded_y s)"
    by (rule rep_mul [OF _ FeFromBytes_rep [OF assms(1)]]) simp_all
  ultimately have e: "ext_at P (?x, decoded_y s)"
    using FeFromBytes_rep [OF assms(1)] rep_constants(2) unfolding P ext_at_def by (auto intro!: exI [of _ 1])
  have c: "on_curve (?x, decoded_y s)" using X(2) neg_on_curve [of "(gf X, decoded_y s)"] by (simp add: neg_point_def)
  have "gf_int ?x mod 2 = sign_bit s" if "?x \<noteq> 0"
    using that gf_parity_minus [of "gf X"] sign_bit_word(2) [OF assms(1)] b by (auto split: if_splits)
  then show thesis using that [OF e _ c] P by simp
qed

lemma FeInvert_One: "fe_within loose (FeInvert FeOne)" "gf (FeInvert FeOne) * 1 = 1"
proof -
  have "fe_power FeOne (2 ^ 255 - 21) (FeInvert FeOne)" by (rule FeInvert_power [OF rep_loose [OF rep_constants(2)]]) simp
  then show "fe_within loose (FeInvert FeOne)" "gf (FeInvert FeOne) * 1 = 1"
    using rep_power rep_constants(2) by (fastforce simp: fe_power_def rep_def)+
qed

text \<open>
  C26: decoding a point is sound and inverse to encoding. When \<open>FromBytes\<close> succeeds, the receiver holds a
  point of the curve whose second coordinate is the one that the array encodes and whose first coordinate
  has the parity of the top bit, unless it is zero; \<open>ToBytes\<close> of that point writes the canonical encoding
  of the two coordinates, which is the array itself when its integer is reduced and a zero first coordinate
  comes with a cleared top bit.
\<close>

theorem point_decoding:
  assumes "length s = 32" and "Ext_FromBytes p s = (True, P)"
  shows "\<exists>x. ext_at P (x, decoded_y s) \<and> on_curve (x, decoded_y s) \<and> (x = 0 \<or> gf_int x mod 2 = sign_bit s)
    \<and> Ext_ToBytes P = encode_point (x, decoded_y s)
    \<and> (le_int s mod 2 ^ 255 < fe_p \<and> (x = 0 \<longrightarrow> sign_bit s = 0) \<longrightarrow> Ext_ToBytes P = s)"
proof -
  obtain x where x: "ext_at P (x, decoded_y s)" "eZ P = FeOne" "on_curve (x, decoded_y s)"
    "x \<noteq> 0 \<Longrightarrow> gf_int x mod 2 = sign_bit s"
    using FromBytes_result [OF assms] by blast
  obtain z where z: "rep 2 (eX P) (x * z)" "rep 1 (eY P) (decoded_y s * z)" "rep 1 (eZ P) z"
    using x(1) by (auto simp: ext_at_def)
  have "z = 1" using z(3) rep_constants(2) x(2) by (simp add: rep_def)
  then have e: "Ext_ToBytes P = encode_point (x, decoded_y s)"
    using ToBytes_encodes [OF FeInvert_One, of "eX P" x "eY P" "decoded_y s"] z x(2) by (simp add: Ext_ToBytes_def Let_def)
  have "encode_point (x, decoded_y s) = s" if "le_int s mod 2 ^ 255 < fe_p" "x = 0 \<longrightarrow> sign_bit s = 0"
  proof -
    have "gf_int (decoded_y s) = le_int s mod 2 ^ 255" using that(1) by (simp add: decoded_y_def)
    moreover have "gf_int x mod 2 = sign_bit s" using that(2) x(4) gf_int_of [of 0] by (cases "x = 0") auto
    ultimately have "encode_point (x, decoded_y s) = le_bytes 32 (le_int s)"
      using sign_bit_word(3) [OF assms(1)] by (simp add: encode_point_def)
    then show ?thesis using le_bytes_le_int [OF assms(1)] by simp
  qed
  with x e show ?thesis by auto
qed

text \<open>Thirty-two zero bytes encode a point of order four; the second test of \<open>FromBytes\<close> succeeds.\<close>

lemma zeros_decode:
  "decode_root (replicate 32 0) = Some (snd (FeToBytes (FeMul (decode_x (replicate 32 0)) SqrtM1)))"
proof -
  have z: "le_int (replicate n 0) = 0" for n by (induction n) simp_all
  have l: "length (replicate 32 (0 :: byte)) = 32" by simp
  have y: "decoded_y (replicate 32 0) = 0" by (simp add: decoded_y_def z)
  have "odd (2 ^ 252 - 3 :: nat)" by simp
  then have "(- 1 :: gf25519) ^ (2 ^ 252 - 3) = - 1" by (simp only: minus_one_power_iff if_False)
  then have x: "gf (decode_x (replicate 32 0)) = 1"
    using decode_x_value [OF l y [symmetric] refl refl] by (simp add: rep_def)
  have "gf_int 1 \<noteq> gf_int (- 1)" by transfer (simp add: fe_p_def)
  then have "(1 :: gf25519) \<noteq> - 1" by (auto simp: gf_int_inj)
  then show ?thesis using decode_tests [OF l y [symmetric] x [symmetric]] by (simp add: decode_root_def Let_def)
qed

theorem point_decoding_witness:
  "fst (Ext_FromBytes Ext_Zero (replicate 32 0)) \<and> Ext_ToBytes (snd (Ext_FromBytes Ext_Zero (replicate 32 0))) = replicate 32 0"
proof -
  have l: "length (replicate 32 (0 :: byte)) = 32" by simp
  have z: "le_int (replicate n 0) = 0" for n by (induction n) simp_all
  have t: "fst (Ext_FromBytes Ext_Zero (replicate 32 0))" by (simp add: Ext_FromBytes_root zeros_decode split_def Let_def)
  then have "Ext_FromBytes Ext_Zero (replicate 32 0) = (True, snd (Ext_FromBytes Ext_Zero (replicate 32 0)))"
    by (simp add: prod_eq_iff)
  from point_decoding [OF l this] t show ?thesis by (auto simp: z sign_bit_def fe_p_def)
qed

end
