(* ===== verification/Point_Group.thy ===== *)
theory Point_Group
  imports Curve_Group Point_Bytes
begin

text \<open>
  The operations on points as operations of the group of the curve, and the encodings of points as a bijection:
  \<open>FeInvert\<close> inverts, so every representation of a point has one encoding, and decoding finds the point.
\<close>

section \<open>Operations\<close>

abbreviation ext_of :: "ExtendedGroupElement \<Rightarrow> curve25519 \<Rightarrow> bool" where
  "ext_of P A \<equiv> ext_at P (affine A)"

abbreviation proj_of :: "ProjectiveGroupElement \<Rightarrow> curve25519 \<Rightarrow> bool" where
  "proj_of P A \<equiv> proj_at P (affine A)"

abbreviation comp_of :: "CompletedGroupElement \<Rightarrow> curve25519 \<Rightarrow> bool" where
  "comp_of P A \<equiv> comp_at P (affine A)"

abbreviation cached_of :: "CachedGroupElement \<Rightarrow> curve25519 \<Rightarrow> bool" where
  "cached_of P A \<equiv> cached_at P (affine A)"

abbreviation pre_of :: "PreComputedGroupElement \<Rightarrow> curve25519 \<Rightarrow> bool" where
  "pre_of P A \<equiv> pre_at P (affine A)"

lemma geAdd_of: "ext_of P A \<Longrightarrow> cached_of Q B \<Longrightarrow> comp_of (geAdd P Q) (A + B)"
  by (rule geAdd_at [OF _ _ affine_sum])

lemma geSub_of: "ext_of P A \<Longrightarrow> cached_of Q B \<Longrightarrow> comp_of (geSub P Q) (A - B)"
  by (rule geSub_at [OF _ _ affine_diff])

lemma geMixedAdd_of: "ext_of P A \<Longrightarrow> pre_of Q B \<Longrightarrow> comp_of (geMixedAdd P Q) (A + B)"
  by (rule geMixedAdd_at [OF _ _ affine_sum])

lemma geMixedSub_of: "ext_of P A \<Longrightarrow> pre_of Q B \<Longrightarrow> comp_of (geMixedSub P Q) (A - B)"
  by (rule geMixedSub_at [OF _ _ affine_diff])

lemma Proj_Double_of: "proj_of P A \<Longrightarrow> comp_of (Proj_Double P) (A + A)"
  by (rule Proj_Double_at [OF _ affine_on_curve affine_sum])

lemma Ext_Double_of: "ext_of P A \<Longrightarrow> comp_of (Ext_Double P) (A + A)"
  unfolding Ext_Double_def by (rule Proj_Double_of [OF Ext_ToProjective_at])

lemma zero_of: "proj_of Proj_Zero 0" "ext_of Ext_Zero 0" "pre_of Pre_Zero 0"
  using zero_at by (simp_all add: zero_curve25519.rep_eq)

text \<open>
  C25: the point operations are those of the group of the curve. For any two points, in whatever representation
  with limbs in the documented bounds, \<open>geAdd\<close> and \<open>geMixedAdd\<close> give the sum, \<open>geSub\<close> and \<open>geMixedSub\<close> the difference and
  \<open>Double\<close> the double, with no exception for equal, opposite or neutral arguments, and the results are again
  in these bounds; the group is commutative and associative, which its instance of the class of groups states.
\<close>

theorem group_operations:
  assumes "ext_of P A" and "ext_of Q B" and "pre_of E B"
  shows "ext_of (Comp_ToExtended (geAdd P (Ext_ToCached Q))) (A + B) \<and> ext_of (Comp_ToExtended (geMixedAdd P E)) (A + B)
    \<and> ext_of (Comp_ToExtended (geSub P (Ext_ToCached Q))) (A - B) \<and> ext_of (Comp_ToExtended (geMixedSub P E)) (A - B)
    \<and> ext_of (Comp_ToExtended (Ext_Double P)) (A + A) \<and> proj_of (Comp_ToProjective (Ext_Double P)) (A + A)
    \<and> ext_of Ext_Zero 0"
  using Comp_ToExtended_at [OF geAdd_of [OF assms(1) Ext_ToCached_at [OF assms(2)]]]
    Comp_ToExtended_at [OF geSub_of [OF assms(1) Ext_ToCached_at [OF assms(2)]]]
    Comp_ToExtended_at [OF geMixedAdd_of [OF assms(1,3)]] Comp_ToExtended_at [OF geMixedSub_of [OF assms(1,3)]]
    Comp_ToExtended_at [OF Ext_Double_of [OF assms(1)]] Comp_ToProjective_at [OF Ext_Double_of [OF assms(1)]] zero_of
  by blast

definition four_torsion :: curve25519 where
  "four_torsion = Curve (gf SqrtM1, 0)"

lemma affine_four_torsion: "affine four_torsion = (gf SqrtM1, 0)"
  unfolding four_torsion_def by (simp add: Curve_inverse order_four_facts)

theorem group_operations_witness:
  "ext_of (Comp_ToExtended (geAdd order_four (Ext_ToCached order_four))) (four_torsion + four_torsion)
   \<and> ext_of (Comp_ToExtended (geMixedSub order_four order_four_pre)) 0"
  using group_operations [of order_four four_torsion order_four four_torsion order_four_pre] order_four_facts
  by (simp add: affine_four_torsion)

section \<open>Inversion\<close>

lemma FeInvert_inverse:
  assumes "fe_within loose z" and "gf z \<noteq> 0"
  shows "fe_within loose (FeInvert z)" and "gf (FeInvert z) * gf z = 1"
proof -
  have p: "fe_power z (2 ^ 255 - 21) (FeInvert z)" by (rule FeInvert_power [OF assms(1)])
  then show "fe_within loose (FeInvert z)" by (simp add: fe_power_def)
  have e: "2 ^ 255 - 21 = gf_order - 1" by (simp add: gf_order_def)
  have "gf (FeInvert z) = inverse (gf z)" using rep_power [OF p] assms(2) unfolding e by (simp add: inverse_gf25519_def)
  then show "gf (FeInvert z) * gf z = 1" using assms(2) by simp
qed

text \<open>
  C30: \<open>FeInvert\<close> inverts every non-zero element within the documented bounds: the product with the argument is one modulo
  \<open>2 ^ 255 - 19\<close>, which is a prime number.
\<close>

theorem field_inversion:
  assumes "fe_within loose z" and "gf z \<noteq> 0"
  shows "gf (FeMul (FeInvert z) z) = 1 \<and> fe_within tight (FeMul (FeInvert z) z) \<and> prime_nat (2 ^ 255 - 19)"
  using FeInvert_inverse [OF assms] gf_mul [of "FeInvert z" z] FeMul_within [of "FeInvert z" z] assms(1) prime_field by simp

theorem field_inversion_witness: "gf (FeMul (FeInvert SqrtM1) SqrtM1) = 1"
proof -
  have "gf SqrtM1 \<noteq> 0" using SqrtM1_square by auto
  with field_inversion [OF rep_loose [OF SqrtM1_rep]] show ?thesis by simp
qed

section \<open>Encoding\<close>

lemma ToBytes_of:
  assumes "rep 2 X (x * z)" and "rep 1 Y (y * z)" and "rep 1 Z z" and "z dvd 1"
  shows "(fst (FeToBytes (FeMul Y (FeInvert Z))))[31 := fst (FeToBytes (FeMul Y (FeInvert Z))) ! 31
      XOR push_bit 7 (fst (FeIsNegative (FeMul X (FeInvert Z))))] = encode_point (x, y)"
proof -
  have "gf Z = z" using assms(3) by (simp add: rep_def)
  with assms(4) have "gf (FeInvert Z) * z = 1" "fe_within loose (FeInvert Z)"
    using FeInvert_inverse [OF rep_loose [OF assms(3)]] by (auto simp: unit_iff_nonzero)
  then show ?thesis using ToBytes_encodes assms(1,2) by blast
qed

lemma Ext_ToBytes_at: "ext_at P a \<Longrightarrow> Ext_ToBytes P = encode_point a"
  by (cases a) (auto simp: ext_at_def Ext_ToBytes_def Let_def ToBytes_of)

lemma Proj_ToBytes_at: "proj_at P a \<Longrightarrow> Proj_ToBytes P = encode_point a"
  by (cases a) (auto simp: proj_at_def Proj_ToBytes_def Let_def ToBytes_of)

lemma encode_point_bytes:
  assumes "s = encode_point (x, y)"
  shows "length s = 32" and "decoded_y s = y" and "sign_bit s = gf_int x mod 2"
proof -
  have y: "0 \<le> gf_int y" "gf_int y < 2 ^ 255" using gf_int_range [of y] by (simp_all add: fe_p_def)
  have x: "gf_int x mod 2 = 0 \<or> gf_int x mod 2 = 1" by auto
  show l: "length s = 32" by (simp add: assms encode_point_def)
  have v: "le_int s = gf_int y + 2 ^ 255 * (gf_int x mod 2)"
    unfolding assms encode_point_def prod.case using x y by (subst le_int_le_bytes) auto
  then have m: "le_int s mod 2 ^ 255 = gf_int y" using y by simp
  then show "decoded_y s = y" by (simp add: decoded_y_def)
  have "2 ^ 255 * sign_bit s = 2 ^ 255 * (gf_int x mod 2)"
    using sign_bit_word(3) [OF l] m v by (simp only: add_left_cancel)
  then show "sign_bit s = gf_int x mod 2" by simp
qed

section \<open>Decoding\<close>

lemma curve_unit: "y * y * gf curve_d + 1 \<noteq> 0"
proof
  assume z: "y * y * gf curve_d + 1 = 0"
  then have "y \<noteq> 0" by auto
  moreover have "gf SqrtM1 * gf SqrtM1 = gf curve_d * (y * y)" using z SqrtM1_square by algebra
  ultimately have "(gf SqrtM1 / y) * (gf SqrtM1 / y) = gf curve_d" by (simp only: times_divide_times_eq) simp
  then show False using curve_d_not_square by blast
qed

text \<open>For a square \<open>u / v\<close> the candidate root gives \<open>v x\<^sup>2 = u\<close> or \<open>v x\<^sup>2 = -u\<close>.\<close>

lemma candidate_root:
  fixes u v x :: gf25519
  assumes "v \<noteq> 0" and "u = x * x * v" and "c = (v * v * v * (v * v * v) * v * u) ^ (2 ^ 252 - 3) * (v * v * v) * u"
  shows "c * c * v = u \<or> c * c * v = - u"
proof -
  define e :: nat where "e = 2 ^ 252 - 3"
  define b where "b = x * v ^ 4"
  have vu: "v * v * v * (v * v * v) * v * u = b * b" unfolding assms(2) b_def by algebra
  have c: "c = (b * b) ^ e * (v * v * v) * u" unfolding assms(3) vu e_def ..
  have "c * c * v = u * ((b * b) ^ e * (b * b) ^ e * (b * b))"
    unfolding c unfolding assms(2) b_def by algebra
  also have "(b * b) ^ e * (b * b) ^ e * (b * b) = b ^ (4 * e + 2)"
    by (simp add: power_add power_mult numeral_Bit0 power_mult_distrib power2_eq_square)
  finally have cc: "c * c * v = u * b ^ (4 * e + 2)" .
  have "(4 * e + 2) * 2 = gf_order" by (simp add: e_def gf_order_def)
  then have "b ^ (4 * e + 2) * b ^ (4 * e + 2) = b ^ gf_order" by (metis power_add mult_2_right)
  then have "b ^ (4 * e + 2) * b ^ (4 * e + 2) = 1 \<or> b = 0" using gf_fermat by metis
  then have "b ^ (4 * e + 2) = 1 \<or> b ^ (4 * e + 2) = - 1 \<or> b = 0" by (metis square_eq_1_iff)
  moreover have "u = 0" if "b = 0" using that assms(1,2) by (simp add: b_def)
  ultimately show ?thesis unfolding cc by auto
qed

lemma decode_root_found:
  assumes "length s = 32" and "on_curve (x, decoded_y s)"
  shows "decode_root s \<noteq> None"
proof -
  let ?y = "decoded_y s" let ?v = "?y * ?y * gf curve_d + 1" let ?u = "?y * ?y - 1"
  have u: "?u = x * x * ?v" using assms(2) unfolding on_curve_def prod.case by algebra
  have c: "gf (decode_x s) = (?v * ?v * ?v * (?v * ?v * ?v) * ?v * ?u) ^ (2 ^ 252 - 3) * (?v * ?v * ?v) * ?u"
    using decode_x_value [OF assms(1) refl refl refl] by (simp only: rep_def)
  from candidate_root [OF curve_unit u c] show ?thesis
    using decode_tests [OF assms(1) refl refl] by (auto simp: decode_root_def Let_def)
qed

lemma gf_parity_unique:
  assumes "x * x = x' * (x' :: gf25519)" and "x \<noteq> 0 \<Longrightarrow> gf_int x mod 2 = gf_int x' mod 2"
  shows "x = x'"
proof -
  have "x = x' \<or> x = - x'" using assms(1) by (metis square_eq_iff)
  then show ?thesis
  proof
    assume n: "x = - x'"
    show ?thesis
    proof (cases "x' = 0")
      case False
      then have "gf_int x mod 2 = 1 - gf_int x' mod 2" using gf_parity_minus n by blast
      moreover have "gf_int x mod 2 = gf_int x' mod 2" using assms(2) n False by simp
      moreover have "gf_int x' mod 2 = 0 \<or> gf_int x' mod 2 = 1" by auto
      ultimately show ?thesis by (elim disjE) simp_all
    qed (use n in simp)
  qed
qed

text \<open>A point of the curve is determined by its second coordinate and the parity of the first.\<close>

lemma point_unique:
  assumes "affine A = (x, y)" and "affine B = (x', y)" and "gf_int x mod 2 = gf_int x' mod 2"
  shows "A = B"
proof -
  have "(y * y * gf curve_d + 1) * (x * x) = (y * y * gf curve_d + 1) * (x' * x')"
    using affine_on_curve [of A] affine_on_curve [of B] unfolding assms on_curve_def prod.case by algebra
  then have "x * x = x' * x'" using curve_unit [of y] by simp
  then have "x = x'" using assms(3) gf_parity_unique [of x x'] by blast
  then show ?thesis using assms(1,2) by (simp add: affine_inject [symmetric])
qed

lemma FromBytes_encode:
  assumes "on_curve a"
  obtains P where "Ext_FromBytes p (encode_point a) = (True, P)" and "ext_at P a"
proof -
  obtain x y where a: "a = (x, y)" by (cases a)
  define s where "s = encode_point a"
  note s = encode_point_bytes [OF s_def [unfolded a]]
  have "decode_root s \<noteq> None" using decode_root_found [OF s(1)] assms s(2) by (simp add: a)
  then obtain P where P: "Ext_FromBytes p s = (True, P)" by (auto simp: Ext_FromBytes_root split_def Let_def)
  obtain x' where x': "ext_at P (x', y)" "on_curve (x', y)" "x' \<noteq> 0 \<Longrightarrow> gf_int x' mod 2 = gf_int x mod 2"
    using FromBytes_result [OF s(1) P] unfolding s by blast
  have "(y * y * gf curve_d + 1) * (x' * x') = (y * y * gf curve_d + 1) * (x * x)"
    using x'(2) assms unfolding on_curve_def a prod.case by algebra
  then have "x' * x' = x * x" using curve_unit [of y] by simp
  then have "x' = x" using x'(3) by (rule gf_parity_unique)
  with that P x'(1) show thesis by (simp add: s_def a)
qed

lemma encode_point_inj:
  assumes "encode_point (affine A) = encode_point (affine B)"
  shows "A = B"
proof -
  obtain x y x' y' where xy: "affine A = (x, y)" "affine B = (x', y')" by (cases "affine A"; cases "affine B")
  note b = encode_point_bytes [OF refl, of x y] encode_point_bytes [OF refl, of x' y']
  have "y = y'" and "gf_int x mod 2 = gf_int x' mod 2" using b assms by (simp_all add: xy)
  then show ?thesis using point_unique xy by simp
qed

lemma ext_of_unique: "ext_of P A \<Longrightarrow> ext_of P B \<Longrightarrow> A = B"
  using Ext_ToBytes_at encode_point_inj by metis

text \<open>
  C32: the encoding of points is a bijection. Every representation of a point, extended or projective, encodes to
  the same 32 bytes; two points have the same bytes only if they are equal; and \<open>FromBytes\<close> accepts the bytes
  of every point of the curve and returns that point.
\<close>

theorem point_encoding:
  assumes "ext_of P A" and "proj_of Q B"
  shows "(Ext_ToBytes P = Proj_ToBytes Q \<longleftrightarrow> A = B) \<and> length (Ext_ToBytes P) = 32
    \<and> fst (Ext_FromBytes R (Ext_ToBytes P)) \<and> ext_of (snd (Ext_FromBytes R (Ext_ToBytes P))) A"
proof -
  have e: "Ext_ToBytes P = encode_point (affine A)" "Proj_ToBytes Q = encode_point (affine B)"
    using assms Ext_ToBytes_at Proj_ToBytes_at by blast+
  obtain S where S: "Ext_FromBytes R (encode_point (affine A)) = (True, S)" "ext_of S A"
    using FromBytes_encode [OF affine_on_curve] by blast
  have "encode_point (affine A) = encode_point (affine B) \<longleftrightarrow> A = B" using encode_point_inj by auto
  moreover have "length (encode_point (affine A)) = 32" using encode_point_bytes(1) [OF refl] by (cases "affine A") simp
  ultimately show ?thesis using e S by simp
qed

theorem point_encoding_witness:
  "Ext_ToBytes order_four \<noteq> Proj_ToBytes Proj_Zero \<and> ext_of (snd (Ext_FromBytes Ext_Zero (Ext_ToBytes order_four))) four_torsion"
proof -
  have "four_torsion \<noteq> 0" by (auto simp: affine_inject [symmetric] affine_four_torsion zero_curve25519.rep_eq)
  moreover have "ext_of order_four four_torsion" using order_four_facts by (simp add: affine_four_torsion)
  ultimately show ?thesis using point_encoding [OF _ zero_of(1)] by blast
qed

end
