(* ===== verification/Hex_Arith.thy ===== *)
theory Hex_Arith
  imports Gf_Field Hex_Digits
begin

text \<open>
  Arithmetic modulo \<open>2 ^ 255 - 19\<close> on lists of hexadecimal digits: the value of a list is an element of the field, and the
  operations agree with those of the field. A product is reduced by folding its digits from the 64th on, whose weight is \<open>38\<close>.
\<close>

section \<open>Reduction\<close>

definition hfold :: "hex list \<Rightarrow> hex list" where
  "hfold xs = hadd False (low digits64 xs) (times_loop (table_of [H6, H2]) (high digits64 xs))"

definition hmul :: "hex list \<Rightarrow> hex list \<Rightarrow> hex list" where
  "hmul xs ys = hfold (hfold (times_loop (table_of ys) xs))"

section \<open>Elements of the field\<close>

definition hgf :: "hex list \<Rightarrow> gf25519" where
  "hgf xs = gf_of (int (hval xs))"

lemma hgf_hx: "0 \<le> k \<Longrightarrow> hgf (hx k) = gf_of k"
  by (simp add: hgf_def hval_hx)

lemma hgf_hadd [simp]: "hgf (hadd False xs ys) = hgf xs + hgf ys"
  by (simp add: hgf_def hval_hadd)

lemma gf_of_256: "gf_of (2 ^ 256) = gf_of 38"
  unfolding gf_of_eq by (simp add: fe_p_def)

lemma hgf_hfold [simp]: "hgf (hfold xs) = hgf xs"
proof -
  have l: "length digits64 = 64" by (simp only: digits64_def length_replicate)
  have "int (hval xs) = int (hval (low digits64 xs)) + 16 ^ 64 * int (hval (high digits64 xs))"
    using arg_cong [OF hval_low_high [of digits64 xs], of int] unfolding l of_nat_add of_nat_mult of_nat_power of_nat_numeral by (rule sym)
  moreover have "(16 :: int) ^ 64 = 2 ^ 256" by simp
  ultimately have v: "int (hval xs) = int (hval (low digits64 xs)) + 2 ^ 256 * int (hval (high digits64 xs))" by (simp only:)
  have "hgf xs = hgf (low digits64 xs) + gf_of 38 * hgf (high digits64 xs)"
    unfolding hgf_def v gf_of_ring gf_of_256 ..
  then show ?thesis by (simp add: hfold_def hgf_def hval_hadd hval_times_loop mult.commute)
qed

lemma hgf_hmul [simp]: "hgf (hmul xs ys) = hgf xs * hgf ys"
  unfolding hmul_def hgf_hfold by (simp add: hgf_def hval_times_loop)

definition field_p :: "hex list" where
  "field_p = hx 57896044618658097711785492504343953926634992332820282019728792003956564819949"

lemma hgf_field_p [simp]: "hgf field_p = 0"
  unfolding field_p_def by (subst hgf_hx) (simp_all add: gf_of_eq [of _ 0, simplified] fe_p_def del: gf_of_numeral)

definition hequal_reduced :: "hex list \<Rightarrow> hex list \<Rightarrow> bool" where
  "hequal_reduced xs ys \<longleftrightarrow> hsame xs ys \<or> hsame (hadd False xs field_p) ys \<or> hsame xs (hadd False ys field_p)
     \<or> hsame (hadd False xs (hadd False field_p field_p)) ys \<or> hsame xs (hadd False ys (hadd False field_p field_p))"

definition hequal :: "hex list \<Rightarrow> hex list \<Rightarrow> bool" where
  "hequal xs ys = hequal_reduced (hfold xs) (hfold ys)"

lemma hequal: "hequal xs ys \<Longrightarrow> hgf xs = hgf ys"
proof -
  have s: "hsame as bs \<Longrightarrow> hgf as = hgf bs" for as bs by (simp add: hgf_def hsame_hval)
  assume "hequal xs ys"
  then show ?thesis unfolding hequal_def hequal_reduced_def by (auto dest!: s)
qed

lemmas hex_rules = digit_rules hfold_def hmul_def field_p_def hequal_reduced_def hequal_def

end
