(* ===== verification/Table_Check.thy ===== *)
theory Table_Check
  imports Point_Group Base_Table Hex_Arith
begin

text \<open>
  Checking tables of precomputed points by evaluation. A point is given by the numbers \<open>y + x\<close> and \<open>y - x\<close>; a check of a
  double or of a sum compares products of the numbers of the summands with products of the numbers of the result. The
  checks are sound: when they evaluate to true, the numbers are those of the double or the sum in the group.
\<close>

section \<open>Points by numbers\<close>

definition pm_of :: "hex list \<Rightarrow> hex list \<Rightarrow> curve25519 \<Rightarrow> bool" where
  "pm_of p m A \<longleftrightarrow> (case affine A of (x, y) \<Rightarrow> hgf p = y + x \<and> hgf m = y - x)"

definition product_of :: "hex list \<Rightarrow> curve25519 \<Rightarrow> bool" where
  "product_of t A \<longleftrightarrow> (case affine A of (x, y) \<Rightarrow> hgf t = x * y)"

definition xy2d_of :: "hex list \<Rightarrow> curve25519 \<Rightarrow> bool" where
  "xy2d_of u A \<longleftrightarrow> (case affine A of (x, y) \<Rightarrow> hgf u = 2 * gf curve_d * (x * y))"

lemma gf_double_cancel: "2 * a = 2 * b \<Longrightarrow> a = (b :: gf25519)"
  by simp

text \<open>From the sum and the difference of the two numbers, with a common factor.\<close>

lemma pm_of_factors:
  assumes "affine A = (x, y)" and "k \<noteq> 0" and "l \<noteq> 0" and "(hgf p - hgf m) * k = 2 * x * k" and "(hgf p + hgf m) * l = 2 * y * l"
  shows "pm_of p m A"
proof -
  have "hgf p - hgf m = 2 * x" "hgf p + hgf m = 2 * y" using assms(2-5) mult_right_cancel by blast+
  then have "hgf p = y + x" "hgf m = y - x" by (rule_tac gf_double_cancel, algebra)+
  then show ?thesis by (simp add: pm_of_def assms(1))
qed

section \<open>Doubles\<close>

abbreviation dup :: "hex list \<Rightarrow> hex list" where
  "dup xs \<equiv> hadd False xs xs"

definition double_compare :: "hex list \<Rightarrow> hex list \<Rightarrow> hex list \<Rightarrow> hex list \<Rightarrow> hex list \<Rightarrow> hex list \<Rightarrow> bool" where
  "double_compare a b pc mc p m \<longleftrightarrow> hequal (hadd False pc b) (hadd False mc a)
     \<and> hequal (hadd False (hadd False pc mc) (hadd False a b)) (hadd False (dup p) (dup m))"

definition double_products :: "hex list \<Rightarrow> hex list \<Rightarrow> hex list \<Rightarrow> hex list \<Rightarrow> hex list \<Rightarrow> bool" where
  "double_products a b c p m = double_compare a b (hmul p c) (hmul m c) p m"

definition double_ok :: "hex list \<Rightarrow> hex list \<Rightarrow> hex list \<Rightarrow> hex list \<Rightarrow> bool" where
  "double_ok p1 m1 p m = double_products (hmul p1 p1) (hmul m1 m1) (hmul p1 m1) p m"

lemma double_ok:
  assumes "pm_of p1 m1 A" and "double_ok p1 m1 p m"
  shows "pm_of p m (A + A)"
proof -
  obtain x y x3 y3 where a: "affine A = (x, y)" "affine (A + A) = (x3, y3)" by (cases "affine A"; cases "affine (A + A)")
  define k where "k = gf curve_d * (x * x * (y * y))"
  have k: "1 + k \<noteq> 0" "1 - k \<noteq> 0" "x3 * (1 + k) = x * y + x * y" "y3 * (1 - k) = y * y + x * x"
    using affine_sum [of A A] by (auto simp: a ed_sum_def Let_def unit_iff_nonzero k_def)
  have c: "y * y - x * x = 1 + k" using affine_on_curve [of A] by (simp add: a on_curve_def k_def)
  have h: "hgf p1 = y + x" "hgf m1 = y - x" using assms(1) by (simp_all add: pm_of_def a)
  have s: "hgf p * (hgf p1 * hgf m1) + hgf m1 * hgf m1 = hgf m * (hgf p1 * hgf m1) + hgf p1 * hgf p1"
    "hgf p * (hgf p1 * hgf m1) + hgf m * (hgf p1 * hgf m1) + (hgf p1 * hgf p1 + hgf m1 * hgf m1) = hgf p + hgf p + (hgf m + hgf m)"
    using assms(2) unfolding double_ok_def double_products_def double_compare_def by (auto dest!: hequal)
  show ?thesis
  proof (rule pm_of_factors [OF a(2) k(1,2)])
    show "(hgf p - hgf m) * (1 + k) = 2 * x3 * (1 + k)" using s(1) k(3) c unfolding h by algebra
    show "(hgf p + hgf m) * (1 - k) = 2 * y3 * (1 - k)" using s(2) k(4) c unfolding h by algebra
  qed
qed

text \<open>A list of points, each the double of the one before.\<close>

fun doubles_ok :: "int \<Rightarrow> int \<Rightarrow> (int \<times> int) list \<Rightarrow> bool" where
  "doubles_ok p m [] = True"
| "doubles_ok p m ((p', m') # ps) = (double_ok (hx p) (hx m) (hx p') (hx m') \<and> doubles_ok p' m' ps)"

lemma doubles_ok:
  assumes "pm_of (hx p) (hx m) A" and "doubles_ok p m ps" and "ps \<noteq> []"
  shows "pm_of (hx (fst (last ps))) (hx (snd (last ps))) (smul (2 ^ length ps) A)"
  using assms
proof (induction ps arbitrary: p m A)
  case (Cons a ps)
  obtain p' m' where a: "a = (p', m')" by (cases a)
  have d: "pm_of (hx p') (hx m') (A + A)" using double_ok Cons.prems by (simp add: a)
  show ?case
  proof (cases "ps = []")
    case True
    then show ?thesis using d by (simp add: a smul_2)
  next
    case False
    have "smul (2 ^ length (a # ps)) A = smul (2 ^ length ps) (A + A)"
      by (simp only: length_Cons power_Suc2 smul_mult smul_2)
    then show ?thesis using Cons.IH [OF d] Cons.prems False by (simp add: a)
  qed
qed simp

section \<open>Sums\<close>

definition sum_compare :: "hex list \<Rightarrow> hex list \<Rightarrow> hex list \<Rightarrow> hex list \<Rightarrow> hex list \<Rightarrow> hex list \<Rightarrow> bool" where
  "sum_compare a b wp wm p m \<longleftrightarrow> hequal (hadd False (hadd False (dup p) wp) (dup b)) (hadd False (hadd False (dup m) wm) (dup a))
     \<and> hequal (hadd False (dup p) (dup m)) (hadd False (hadd False wp wm) (hadd False (dup a) (dup b)))"

definition sum_products :: "hex list \<Rightarrow> hex list \<Rightarrow> hex list \<Rightarrow> hex list \<Rightarrow> hex list \<Rightarrow> bool" where
  "sum_products a b w p m = sum_compare a b (hmul p w) (hmul m w) p m"

definition sum_ok :: "hex list \<Rightarrow> hex list \<Rightarrow> hex list \<Rightarrow> hex list \<Rightarrow> hex list \<Rightarrow> hex list \<Rightarrow> hex list \<Rightarrow> hex list \<Rightarrow> bool" where
  "sum_ok p1 m1 u1 p2 m2 t2 p m = sum_products (hmul p1 p2) (hmul m1 m2) (hmul u1 t2) p m"

lemma sum_ok:
  assumes "pm_of p1 m1 A" and "xy2d_of u1 A" and "pm_of p2 m2 B" and "product_of t2 B" and "sum_ok p1 m1 u1 p2 m2 t2 p m"
  shows "pm_of p m (A + B)"
proof -
  obtain x1 y1 x2 y2 x3 y3 where a: "affine A = (x1, y1)" "affine B = (x2, y2)" "affine (A + B) = (x3, y3)"
    by (cases "affine A"; cases "affine B"; cases "affine (A + B)")
  let ?d = "gf curve_d"
  define k where "k = ?d * (x1 * x2 * (y1 * y2))"
  have k: "1 + k \<noteq> 0" "1 - k \<noteq> 0" "x3 * (1 + k) = x1 * y2 + x2 * y1" "y3 * (1 - k) = y1 * y2 + x1 * x2"
    using affine_sum [of A B] by (auto simp: a ed_sum_def Let_def unit_iff_nonzero k_def)
  then have n: "2 * (1 + k) \<noteq> 0" "2 * (1 - k) \<noteq> 0" using gf_two by (simp_all only: mult_eq_0_iff simp_thms)
  have h: "hgf p1 = y1 + x1" "hgf m1 = y1 - x1" "hgf u1 = 2 * ?d * (x1 * y1)" "hgf p2 = y2 + x2" "hgf m2 = y2 - x2" "hgf t2 = x2 * y2"
    using assms(1-4) by (simp_all add: pm_of_def xy2d_of_def product_of_def a)
  let ?P = "hgf p" and ?M = "hgf m" and ?a = "hgf p1 * hgf p2" and ?b = "hgf m1 * hgf m2" and ?w = "hgf u1 * hgf t2"
  have s: "?P + ?P + ?P * ?w + (?b + ?b) = ?M + ?M + ?M * ?w + (?a + ?a)" "?P + ?P + (?M + ?M) = ?P * ?w + ?M * ?w + (?a + ?a + (?b + ?b))"
    using assms(5) unfolding sum_ok_def sum_products_def sum_compare_def by (auto dest!: hequal)
  show ?thesis
  proof (rule pm_of_factors [OF a(3) n])
    show "(?P - ?M) * (2 * (1 + k)) = 2 * x3 * (2 * (1 + k))" using s(1) k(3) unfolding h k_def by algebra
    show "(?P + ?M) * (2 * (1 - k)) = 2 * y3 * (2 * (1 - k))" using s(2) k(4) unfolding h k_def by algebra
  qed
qed

section \<open>Products\<close>

definition product_ok :: "hex list \<Rightarrow> hex list \<Rightarrow> hex list \<Rightarrow> bool" where
  "product_ok p m t = hequal (hadd False (dup (dup t)) (hmul m m)) (hmul p p)"

lemma product_ok:
  assumes "pm_of p m A" and "product_ok p m t"
  shows "product_of t A"
proof -
  obtain x y where a: "affine A = (x, y)" by (cases "affine A")
  have "hgf p = y + x" "hgf m = y - x" using assms(1) by (simp_all add: pm_of_def a)
  moreover have "hgf t + hgf t + (hgf t + hgf t) + hgf m * hgf m = hgf p * hgf p" using assms(2) by (auto simp: product_ok_def dest!: hequal)
  ultimately have "2 * (2 * hgf t) = 2 * (2 * (x * y))" by algebra
  then have "hgf t = x * y" by (blast dest: gf_double_cancel)
  then show ?thesis by (simp add: product_of_def a)
qed

definition two_d :: "hex list" where
  "two_d = hx 16295367250680780974490674513165176452449235426866156013048779062215315747161"

lemma hgf_two_d: "hgf two_d = 2 * gf curve_d"
proof -
  have "hgf two_d = gf_of (2 * -20800338683988658368647408995589388737092878452977063003340006470870624536394)"
    unfolding two_d_def hgf_hx [OF zero_le_numeral] gf_of_eq by (simp add: fe_p_def)
  then show ?thesis by (simp only: gf_of_ring(6) curve_d_value gf_of_numeral)
qed

definition xy2d_ok :: "hex list \<Rightarrow> hex list \<Rightarrow> bool" where
  "xy2d_ok t u = hequal u (hmul t two_d)"

lemma xy2d_ok: "product_of t A \<Longrightarrow> xy2d_ok t u \<Longrightarrow> xy2d_of u A"
  by (auto simp: product_of_def xy2d_of_def xy2d_ok_def hgf_two_d mult.commute split: prod.splits dest!: hequal)

section \<open>Multiples in a table\<close>

text \<open>The numbers \<open>y + x\<close>, \<open>y - x\<close>, \<open>2 d x y\<close> and \<open>x y\<close> of a point, and a list of points at a constant distance.\<close>

type_synonym point_numbers = "int \<times> int \<times> int \<times> int"

definition numbers_of :: "point_numbers \<Rightarrow> curve25519 \<Rightarrow> bool" where
  "numbers_of e A \<longleftrightarrow> (case e of (p, m, u, t) \<Rightarrow> 0 \<le> p \<and> 0 \<le> m \<and> 0 \<le> u
     \<and> pm_of (hx p) (hx m) A \<and> xy2d_of (hx u) A \<and> product_of (hx t) A)"

definition numbers_ok :: "int \<Rightarrow> int \<Rightarrow> int \<Rightarrow> int \<Rightarrow> bool" where
  "numbers_ok p m u t \<longleftrightarrow> 0 \<le> p \<and> 0 \<le> m \<and> 0 \<le> u \<and> product_ok (hx p) (hx m) (hx t) \<and> xy2d_ok (hx t) (hx u)"

lemma numbers_ok: "pm_of (hx p) (hx m) A \<Longrightarrow> numbers_ok p m u t \<Longrightarrow> numbers_of (p, m, u, t) A"
  unfolding numbers_ok_def numbers_of_def prod.case by (blast intro: product_ok xy2d_ok)

fun multiples_ok :: "int \<Rightarrow> int \<Rightarrow> int \<Rightarrow> point_numbers \<Rightarrow> point_numbers list \<Rightarrow> bool" where
  "multiples_ok pd md td (p, m, u, t) [] = numbers_ok p m u t"
| "multiples_ok pd md td (p, m, u, t) ((p', m', u', t') # es) =
     (numbers_ok p m u t \<and> sum_ok (hx p) (hx m) (hx u) (hx pd) (hx md) (hx td) (hx p') (hx m') \<and> multiples_ok pd md td (p', m', u', t') es)"

lemma multiples_ok:
  assumes "pm_of (hx pd) (hx md) D" and "product_of (hx td) D" and "pm_of (hx (fst e)) (hx (fst (snd e))) A" and "multiples_ok pd md td e es"
    and "k \<le> length es"
  shows "numbers_of ((e # es) ! k) (A + smul (int k) D)"
  using assms(3-5)
proof (induction es arbitrary: e A k)
  case Nil
  then show ?case using numbers_ok by (cases e) simp
next
  case (Cons e' es)
  obtain p m u t where e: "e = (p, m, u, t)" by (cases e)
  obtain p' m' u' t' where e': "e' = (p', m', u', t')" by (cases e')
  have n: "numbers_of (p, m, u, t) A" using numbers_ok Cons.prems by (simp add: e e')
  then have "pm_of (hx p') (hx m') (A + D)" using sum_ok assms(1,2) Cons.prems by (auto simp: numbers_of_def e e')
  then have i: "numbers_of ((e' # es) ! j) (A + D + smul (int j) D)" if "j \<le> length es" for j
    using Cons.IH that Cons.prems by (simp add: e e')
  show ?case
  proof (cases k)
    case (Suc j)
    have "smul (int k) D = smul (int j) D + D" using smul_step [of "int j" D] by (simp add: Suc add.commute)
    then have "A + smul (int k) D = A + D + smul (int j) D" by (simp only: ac_simps)
    moreover have "j \<le> length es" using Cons.prems by (simp add: Suc)
    ultimately show ?thesis using i by (simp only: Suc nth_Cons_Suc)
  qed (use n in \<open>simp add: e\<close>)
qed

lemmas check_rules = hex_rules double_compare_def double_products_def double_ok_def doubles_ok.simps sum_compare_def sum_products_def sum_ok_def
  product_ok_def two_d_def xy2d_ok_def numbers_ok_def multiples_ok.simps
  zero_le_numeral order_refl zero_le_one

section \<open>Entries of the tables\<close>

text \<open>The value of a field element with literal limbs, and the same number modulo \<open>2 ^ 255 - 19\<close> that is not negative.\<close>

definition not_negative :: "int \<Rightarrow> int" where
  "not_negative k = (if k < 0 then k + 57896044618658097711785492504343953926634992332820282019728792003956564819949 else k)"

lemma gf_not_negative: "gf_of (not_negative k) = gf_of k"
proof -
  have "gf_of (k + fe_p) = gf_of k" unfolding gf_of_eq by simp
  then show ?thesis by (simp add: not_negative_def fe_p_def del: gf_of_ring gf_of_numeral)
qed

definition entry :: "PreComputedGroupElement \<Rightarrow> int \<times> int \<times> int" where
  "entry E = (not_negative (fe_val (pre_yPlusX E)), not_negative (fe_val (pre_yMinusX E)), not_negative (fe_val (pre_xy2d E)))"

lemma limb_literal:
  "(numeral n :: int) \<le> 33554432 \<Longrightarrow> sint (numeral n :: i32) = numeral n" "(numeral n :: int) \<le> 33554432 \<Longrightarrow> sint (- numeral n :: i32) = - numeral n"
  "sint (0 :: i32) = 0" "sint (1 :: i32) = 1" "sint (- 1 :: i32) = - 1"
proof -
  have s: "sint (word_of_int k :: i32) = k" if "\<bar>k\<bar> \<le> 33554432" for k using sint_of_int_32 [of k] that by simp
  show "(numeral n :: int) \<le> 33554432 \<Longrightarrow> sint (numeral n :: i32) = numeral n"
    using s [of "numeral n"] by (simp only: abs_numeral of_int_numeral)
  show "(numeral n :: int) \<le> 33554432 \<Longrightarrow> sint (- numeral n :: i32) = - numeral n"
    using s [of "- numeral n"] by (simp only: abs_minus abs_numeral of_int_minus of_int_numeral)
qed simp_all

lemma fe_val_horner:
  "fe_val (FE a0 a1 a2 a3 a4 a5 a6 a7 a8 a9) = sint a0 + 67108864 * (sint a1 + 33554432 * (sint a2 + 67108864 * (sint a3 + 33554432 * (sint a4
     + 67108864 * (sint a5 + 33554432 * (sint a6 + 67108864 * (sint a7 + 33554432 * (sint a8 + 67108864 * sint a9))))))))"
  by (simp add: fe_val_def limb_sum_def algebra_simps)

definition limb_small :: "i32 \<Rightarrow> bool" where
  "limb_small w \<longleftrightarrow> \<bar>sint w\<bar> \<le> 33554432"

lemma limb_small_literal:
  "(numeral n :: int) \<le> 33554432 \<Longrightarrow> limb_small (numeral n) = True" "(numeral n :: int) \<le> 33554432 \<Longrightarrow> limb_small (- numeral n) = True"
  "limb_small 0 = True" "limb_small 1 = True" "limb_small (- 1) = True"
  unfolding limb_small_def by (simp_all only: limb_literal abs_minus abs_numeral abs_zero abs_one simp_thms)

fun fe_small :: "FieldElement \<Rightarrow> bool" where
  "fe_small (FE a0 a1 a2 a3 a4 a5 a6 a7 a8 a9) \<longleftrightarrow> limb_small a0 \<and> limb_small a1 \<and> limb_small a2 \<and> limb_small a3 \<and> limb_small a4
     \<and> limb_small a5 \<and> limb_small a6 \<and> limb_small a7 \<and> limb_small a8 \<and> limb_small a9"

lemma fe_small_within: "fe_small f \<Longrightarrow> fe_within (3 * tight) f"
  by (cases f) (auto simp: limb_small_def fe_within_def limbs_within_def bounded_by_def tight_def abs_le_iff)

definition entry_small :: "PreComputedGroupElement \<Rightarrow> bool" where
  "entry_small E \<longleftrightarrow> fe_small (pre_yPlusX E) \<and> fe_small (pre_yMinusX E) \<and> fe_small (pre_xy2d E)"

definition three_numbers :: "point_numbers \<Rightarrow> int \<times> int \<times> int" where
  "three_numbers e = (case e of (p, m, u, t) \<Rightarrow> (p, m, u))"

text \<open>An entry with the numbers of a point stands for the point.\<close>

lemma entry_pre_of:
  assumes "entry_small E" and "entry E = three_numbers e" and "numbers_of e A"
  shows "pre_of E A"
proof -
  obtain p m u t where e: "e = (p, m, u, t)" by (cases e)
  have v: "not_negative (fe_val (pre_yPlusX E)) = p" "not_negative (fe_val (pre_yMinusX E)) = m" "not_negative (fe_val (pre_xy2d E)) = u"
    using assms(2) by (simp_all add: e entry_def three_numbers_def)
  have "0 \<le> p" "0 \<le> m" "0 \<le> u" using assms(3) by (simp_all add: e numbers_of_def)
  then have "hgf (hx p) = gf (pre_yPlusX E)" "hgf (hx m) = gf (pre_yMinusX E)" "hgf (hx u) = gf (pre_xy2d E)"
    unfolding v [symmetric] by (simp_all only: hgf_hx gf_not_negative gf_def)
  then show ?thesis using assms(1,3)
    by (cases "affine A") (simp add: e numbers_of_def pm_of_def xy2d_of_def pre_at_def rep_def entry_small_def fe_small_within)
qed

text \<open>A table whose entries have the numbers of a list of points.\<close>

definition table_numbers :: "PreComputedGroupElement list \<Rightarrow> point_numbers list \<Rightarrow> bool" where
  "table_numbers Es es \<longleftrightarrow> list_all entry_small Es \<and> map entry Es = map three_numbers es"

lemma table_numbers_pre_of: "table_numbers Es es \<Longrightarrow> k < length es \<Longrightarrow> numbers_of (es ! k) A \<Longrightarrow> pre_of (Es ! k) A"
proof -
  assume t: "table_numbers Es es" and k: "k < length es" "numbers_of (es ! k) A"
  then have m: "map entry Es = map three_numbers es" and s: "list_all entry_small Es" by (simp_all only: table_numbers_def)
  then have l: "k < length Es" using map_eq_imp_length_eq [OF m] k(1) by simp
  from m have "map entry Es ! k = map three_numbers es ! k" by (rule arg_cong)
  then show ?thesis using entry_pre_of [OF _ _ k(2)] s l k(1) by (simp add: list_all_length)
qed

lemmas literal_rules = table_numbers_def list.pred_inject list.map simp_thms entry_small_def fe_small.simps limb_small_literal limb_literal entry_def three_numbers_def
  prod.case fe_val_horner not_negative_def PreComputedGroupElement.simps arith_simps rel_simps add_0 add_0_right if_True if_False prod.inject

section \<open>The base point\<close>

definition base_x :: int where
  "base_x = 15112221349535400772501151409588531511454012693041857206046113283949847762202"

definition base_y :: int where
  "base_y = 46316835694926478169428394003475163141307993866256225615783033603165251855960"

definition curve_ok :: "hex list \<Rightarrow> hex list \<Rightarrow> bool" where
  "curve_ok xx yy = hequal (dup yy) (hadd False (hadd False (dup xx) (hx 2)) (hmul (hmul xx yy) two_d))"

lemma curve_ok: "curve_ok (hmul x x) (hmul y y) \<Longrightarrow> on_curve (hgf x, hgf y)"
proof -
  assume "curve_ok (hmul x x) (hmul y y)"
  then have "hgf (dup (hmul y y)) = hgf (hadd False (hadd False (dup (hmul x x)) (hx 2)) (hmul (hmul (hmul x x) (hmul y y)) two_d))"
    unfolding curve_ok_def by (rule hequal)
  moreover have "hgf (hx 2) = 2" using hgf_hx [of 2] by simp
  ultimately have "hgf y * hgf y + hgf y * hgf y = hgf x * hgf x + hgf x * hgf x + 2 + hgf x * hgf x * (hgf y * hgf y) * (2 * gf curve_d)"
    by (simp only: hgf_hadd hgf_hmul hgf_two_d)
  then have "2 * (hgf y * hgf y - hgf x * hgf x) = 2 * (1 + gf curve_d * (hgf x * hgf x * (hgf y * hgf y)))" by algebra
  then show ?thesis unfolding on_curve_def prod.case by (rule gf_double_cancel)
qed

lemma base_on_curve: "on_curve (gf_of base_x, gf_of base_y)"
proof -
  have "curve_ok (hmul (hx base_x) (hx base_x)) (hmul (hx base_y) (hx base_y))"
    unfolding base_x_def base_y_def by (simp only: check_rules curve_ok_def)
  from curve_ok [OF this] show ?thesis by (simp only: hgf_hx base_x_def base_y_def zero_le_numeral)
qed

definition base_point :: curve25519 where
  "base_point = Curve (gf_of base_x, gf_of base_y)"

lemma affine_base_point: "affine base_point = (gf_of base_x, gf_of base_y)"
  unfolding base_point_def by (simp add: Curve_inverse base_on_curve)

lemma base_numbers: "pm_of (hx 3533012425803781230144052908719740726127014226477800802100354883158534798213) (hx 31204614345391077396927242593886631629853981173214368409736920319215404093758) base_point"
  by (simp add: pm_of_def affine_base_point hgf_hx base_x_def base_y_def gf_of_ring [symmetric] gf_of_numeral [symmetric] gf_of_eq fe_p_def
      del: gf_of_ring gf_of_numeral)

section \<open>The table of odd multiples\<close>

definition bi_numbers :: "point_numbers list" where
  "bi_numbers =
    [(3533012425803781230144052908719740726127014226477800802100354883158534798213,
      31204614345391077396927242593886631629853981173214368409736920319215404093758,
      50237614328228664512531835696112167678046477356841409204013502641986506238568,
      46827403850823179245072216630277197565144205554125654976674165829533817101731),
     (55221577242988382633613921715755988927347615506430221002982523990194636363568,
      19324154932736603031152325029326367275890211278985171650228672434569381466725,
      40779097241408971452228116607583414735230162954196233009433085899742953658505,
      19133203167024340156157901305709655404499344800967978305064989153409356768282),
     (18668153700450365046820768141064729913722721519882092422277400263756282706739,
      9630189248235390748103966146409333440210333639383242876188677650069613696698,
      30606639029984443449548711300126286734648431208933888345371544935567354135173,
      52631435118507418230927645098360784166288333741771923328027903523704223039952),
     (31711222115254622247534096269438047277815809670749515453120456498656435938239,
      13312953584136576304523025463821328163824699951717010248032899908581467496881,
      55464387603073125013932436385527479500842401496857817399907801729203523072930,
      7969306344939599448108779620249142998159244560978835759187616138611789393179),
     (23848771936779537706600755363852330642691035199144679981329841599443567665967,
      33358695950361614583925271808519256405884421684945271723330695989338484605028,
      52357765926424945578408752779084598596693712112103136963171288052321514532635,
      41812410146810177838232618347187858057822209473536282119740688245908349056101),
     (30060548511792857161490863918616842674472112613249574336675186204794201058014,
      11158256924779282454740543163093780811298074430862908234953982287139410690888,
      27941507066570052986778351271715755022397500567158991111890716087464763623913,
      41115672721981046446137450827132502570366877864937539642265045489017153122004),
     (15972020931028765202356936322618908365444234765594279114894468132403870203757,
      1087550798001203620797136749953957393762725578137024723030949917728262045587,
      33237312664213247073394209876351444910698636488186827598268510754927446762360,
      29471055441072170259805152731682457644447474860555123755684575143128358334291),
     (44273937366294891980395583359278962421509549251851624370413480066653195594400,
      30626176813774521173184229023175236149481611499753231178919926386272687148811,
      36689249660344293493892821654230283378144754582372867911177117475716794987798,
      42609173769455554086108030252596314253679554082059705507322920389417832202025)]"

lemma bi_table: "table_numbers bi bi_numbers"
  unfolding bi_def bi_numbers_def by (simp only: literal_rules)

text \<open>Twice the base point, which each entry adds to the one before it.\<close>

lemma double_base:
  "pm_of (hx 40277088815386731178907243282125131086172340233842699037233503275583876657623) (hx 48718306963831746885583586643117907343561796231867704143509447914497974261160) (base_point + base_point)"
  by (rule double_ok [OF base_numbers]) (simp only: check_rules)

lemma double_base_product: "product_of (hx 16552979481334663544878610556091376071931149008662153799327195285289362371585) (base_point + base_point)"
  by (rule product_ok [OF double_base]) (simp only: check_rules)

lemma bi_multiples_ok: "multiples_ok 40277088815386731178907243282125131086172340233842699037233503275583876657623 48718306963831746885583586643117907343561796231867704143509447914497974261160
    16552979481334663544878610556091376071931149008662153799327195285289362371585 (hd bi_numbers) (tl bi_numbers)"
  unfolding bi_numbers_def list.sel by (simp only: check_rules)

lemma bi_pre_of: "j < 8 \<Longrightarrow> pre_of (bi ! j) (smul (2 * int j + 1) base_point)"
proof -
  assume j: "j < 8"
  have l: "length bi_numbers = 8" "hd bi_numbers # tl bi_numbers = bi_numbers" by (simp_all add: bi_numbers_def)
  have f: "pm_of (hx (fst (hd bi_numbers))) (hx (fst (snd (hd bi_numbers)))) base_point"
    unfolding bi_numbers_def list.sel prod.sel by (rule base_numbers)
  have "numbers_of (bi_numbers ! j) (base_point + smul (int j) (base_point + base_point))"
    using multiples_ok [OF double_base double_base_product f bi_multiples_ok, of j] j unfolding l(2) by (simp add: l(1))
  also have "base_point + smul (int j) (base_point + base_point) = smul (2 * int j + 1) base_point"
    by (simp only: smul_2 [symmetric] smul_mult [symmetric] smul_add smul_1 mult.commute add.commute)
  finally show ?thesis using table_numbers_pre_of [OF bi_table] j l(1) by simp
qed

end
