(* ===== verification/Base_Rows.thy ===== *)
theory Base_Rows
  imports Table_Check
begin

text \<open>
  The rows of the table \<open>base\<close>: the entries of row \<open>i\<close> are the first eight multiples of \<open>256 ^ i\<close> times the base point. For each
  row the numbers of its entries are listed and the five doubles that lead from its last entry to the first entry of the next row.
\<close>

section \<open>Rows\<close>

fun doubles_from :: "point_numbers \<Rightarrow> (int \<times> int) list \<Rightarrow> bool" where
  "doubles_from (p, m, u, t) ds = doubles_ok p m ds"

fun row_ok :: "point_numbers list \<Rightarrow> (int \<times> int) list \<Rightarrow> bool" where
  "row_ok [] ds = False"
| "row_ok ((p, m, u, t) # es) ds = (multiples_ok p m t (p, m, u, t) es \<and> doubles_from (last ((p, m, u, t) # es)) ds)"

lemma row_multiples:
  assumes "row_ok es ds" and "pm_of (hx (fst (hd es))) (hx (fst (snd (hd es)))) A" and "k < length es"
  shows "numbers_of (es ! k) (smul (int k + 1) A)"
proof -
  obtain p m u t es' where es: "es = (p, m, u, t) # es'" using assms(1) by (cases es) auto
  have ok: "multiples_ok p m t (p, m, u, t) es'" using assms(1) by (simp add: es)
  then have "numbers_ok p m u t" by (cases es') auto
  moreover have A: "pm_of (hx p) (hx m) A" using assms(2) by (simp add: es)
  ultimately have "product_of (hx t) A" using product_ok by (simp add: numbers_ok_def)
  then have "numbers_of (es ! k) (A + smul (int k) A)"
    using multiples_ok [OF A _ _ ok] A assms(3) by (simp add: es)
  then show ?thesis by (simp only: smul_step add.commute [of A])
qed

text \<open>The last of eight entries is doubled five times.\<close>

lemma row_next:
  assumes "row_ok es ds" and "pm_of (hx (fst (hd es))) (hx (fst (snd (hd es)))) A" and "length es = 8" and "length ds = 5"
  shows "pm_of (hx (fst (last ds))) (hx (snd (last ds))) (smul 256 A)"
proof -
  obtain p m u t where e: "last es = (p, m, u, t)" by (cases "last es")
  have "last es = es ! 7" using assms(3) by (cases es rule: rev_cases) (simp_all add: nth_append)
  then have "numbers_of (p, m, u, t) (smul 8 A)" using row_multiples [OF assms(1,2), of 7] assms(3) e by simp
  then have "pm_of (hx p) (hx m) (smul 8 A)" by (simp add: numbers_of_def)
  moreover have "doubles_ok p m ds" using assms(1) e by (cases es) auto
  moreover have "ds \<noteq> []" using assms(4) by auto
  ultimately have "pm_of (hx (fst (last ds))) (hx (snd (last ds))) (smul (2 ^ 5) (smul 8 A))" using doubles_ok assms(4) by metis
  then show ?thesis by (simp only: smul_mult [symmetric]) simp
qed

section \<open>Numbers of the entries\<close>

definition row_0 :: "point_numbers list" where
  "row_0 =
    [(3533012425803781230144052908719740726127014226477800802100354883158534798213,
      31204614345391077396927242593886631629853981173214368409736920319215404093758,
      50237614328228664512531835696112167678046477356841409204013502641986506238568,
      46827403850823179245072216630277197565144205554125654976674165829533817101731),
     (40277088815386731178907243282125131086172340233842699037233503275583876657623,
      48718306963831746885583586643117907343561796231867704143509447914497974261160,
      50706672771372854810760959653406682044345679494001682866047262582014706678367,
      16552979481334663544878610556091376071931149008662153799327195285289362371585),
     (55221577242988382633613921715755988927347615506430221002982523990194636363568,
      19324154932736603031152325029326367275890211278985171650228672434569381466725,
      40779097241408971452228116607583414735230162954196233009433085899742953658505,
      19133203167024340156157901305709655404499344800967978305064989153409356768282),
     (47066272949236454352011004142637614054391928395550853467619416848609482377631,
      17900364484490481448458662452751610416972167276715128949046668595979264465087,
      57721214740011996325100163914057143626378515005646177755397197794928900898569,
      15591078450528575260807955779595146919206594628260116491306850071973737403224),
     (18668153700450365046820768141064729913722721519882092422277400263756282706739,
      9630189248235390748103966146409333440210333639383242876188677650069613696698,
      30606639029984443449548711300126286734648431208933888345371544935567354135173,
      52631435118507418230927645098360784166288333741771923328027903523704223039952),
     (37042802551734379291256774445515883653807489140754236673331271591307945275697,
      25651611989922745009643932709203732449918896997826911000855036222734883196068,
      7563714261859060042956946782859995083128379099304074101372873478829756795761,
      27228768421258538231954343865440844652488997325483373020760696800100167381458),
     (31711222115254622247534096269438047277815809670749515453120456498656435938239,
      13312953584136576304523025463821328163824699951717010248032899908581467496881,
      55464387603073125013932436385527479500842401496857817399907801729203523072930,
      7969306344939599448108779620249142998159244560978835759187616138611789393179),
     (4109516327463731527202515788904111257973980123418119937409388067227422244495,
      26488824003848812422096153829220076970185472332004006092782020751874174629081,
      17443172525282717937484496621620514525016940174535744246793836220237314429210,
      20041966898814491726444579060880528788025287386839181497696933332457633763775)]"

definition doubles_0 :: "(int \<times> int) list" where
  "doubles_0 =
    [(9150700901396372002955937811386093231723774689136611388824386579046465544694,
      34803470282035254167861749748857734223267880134292052229384783022034440302067),
     (56998634480820689224812234692604884713596111604412395994047877857290066665871,
      4701998613811609213925887888520231796251786686876732362708225031217252696899),
     (30340318798711838421951331556490767266021685221295035303866716430611579841841,
      24932384703262992566065740342801154389079494960625337105603301029363501065499),
     (43664744203255909200148347263385470436435959511557546844847502698877724353667,
      51248953256284332391137700317245717899341492317885220006567182830270196459874),
     (49675769929469841299643756429080699203912179602893634429411440103426509216797,
      22091644134232791648583243734511674002691531926567772780440084103746430849374)]"

definition row_1 :: "point_numbers list" where
  "row_1 =
    [(49675769929469841299643756429080699203912179602893634429411440103426509216797,
      22091644134232791648583243734511674002691531926567772780440084103746430849374,
      7587883923075452476895235793006848700987041958420761562786787445930038060231,
      45190082622104628312424241671176328100266152815574825809524629283795790963326),
     (1695480832751736806470951358260895802284212889471435854247599651504136964101,
      17142148106529856694922869544983622252271658267045493178208475775526674259934,
      39092322194140124183530118111804326734499060901029609352856299605036289779204,
      52993498652388747170776059107235367940069893473374626431275307784703556584762),
     (9490880931876894096932668319949019804409165332690132896406497910068747055056,
      23335382699338269226359667219828068643684120583484233220294663917471172462644,
      9277030085043846615222912495726065469701977420698226486713025760942692366292,
      3329320675061347691959732467350769932430821675809868000428433791138140933108),
     (2707222199203868836145709957055912590502458828715760684662307503099924835512,
      21643483962844847727343024471782915420451507818628114701949989440605950678466,
      24975096064402724959459136945448199799538455233488645156483227287997262061277,
      46495268282186673125544095118715147387064133624640828383339661155530964615084),
     (48831348531383933907130205179764543228744024930527514448766671908305600013712,
      14358540954434310882898694754559039830190068064381159596036496222495993605593,
      1049707050411921534957972386833815089663860789892059070086747575552388979594,
      36912823649249826150028370670168005703535389046714062531767855488954887151475),
     (41216203841756160218906635499671420951049695638934419079611849371989008100,
      28778477417450470147375321795418971812774644074428630426552635281914512364180,
      8463184920793228453595486650893248346637756996834647739892156222228284693300,
      44608717471329958427908846288986583936129271086101734427600419412807864114971),
     (50430368710646490576743301740051157903125689423910288797644378543230158839442,
      52742972861557722105223870811280754153749356824099611286666865771301641708365,
      7149995665734987670238366895605861944828997155623666375862553101944484179461,
      6478560377468730739434360964771161097425184720728554650786697043660884715094),
     (29498347462688138458715161325674681839710645445148384319179471375497290862149,
      33021781150873132670815506225769745103240278494304508478691532483591302684228,
      29731677524652946989719868262474777407636952571611570462813419781785179060464,
      6180570604009350440728393675017435254415269018264322255408180225748186833284)]"

definition doubles_1 :: "(int \<times> int) list" where
  "doubles_1 =
    [(39233217367744944082743727234989693259911533177309831461716904563803921446866,
      41877302029680014373540696028369248887210931711892764634228302435410547329496),
     (4904412209339761180286532618738770454062008006295097537062582753237850945914,
      41239042376942260444617941012969620388890361950357076602629139995446089147819),
     (55158454346054694268604020441458183612793129258730060795712830474277845193867,
      48229813147520468874845442934964023824873336539479111945131626172356501781879),
     (12770184574188621644851783046033290637998250387524720053955675690325502037083,
      45959164983013416229143330207580281711029926589895765798082217843103463476785),
     (4761860081995383609600795983942009904644672294262035659317576151992149381550,
      35604016480507116089823476989913686364420168017036822542463197598154674620094)]"

definition row_2 :: "point_numbers list" where
  "row_2 =
    [(4761860081995383609600795983942009904644672294262035659317576151992149381550,
      35604016480507116089823476989913686364420168017036822542463197598154674620094,
      28451869976407090222441007966926838613592435081401312415984017477467971029385,
      13664361721323129802210938873361597552783530985243995323016058555419267517089),
     (56665923149671157733455181093965188504106072380701525874078160902252442580248,
      8822470504407283375527921120813162279172387267897160044506933546039323252407,
      9295310295501051144387501917124852476766979789947871341847343323854140397280,
      36198129113847880432536743064857659430185746807428019971436497145765773382095),
     (17894486807759165385839356358745702556649527034131428694780762296890513716589,
      28925012715749832067490827849534775179848575307981009736605089348391034744871,
      29408927912847625880133125959953938854056264283340444007640737432312093030758,
      6766893663060143851455511081795303356058790645631321371761589970744935732551),
     (632018054704182264523461235644992056550753277482107978637790902707643050680,
      20138930065880261814762966406943879877126916739919908442676910196045111378474,
      40304265145061330935147042133380017187556779260482162648340312732284521572982,
      45794896526220341663685371134854690546978524840329220096458378881627849243074),
     (32840935255444831908037093508329629735678791979262925040068050308435623327069,
      27987180372783055544920873215766573876800272178407403601583364015352647556090,
      33453452838064807467045255739161458354140118167006511792159110793946859279087,
      539400702300530018753633071525969080808928232035046898873334994808619630973),
     (2999490403417113014159364531504992368196615670989943427516267960237417060142,
      38907134819921887210037138442762260623744887575397571298124107934042873909204,
      14743666104711798212682538654186047653590362035382494310482546340722686518454,
      69674151141597923353344493756058970072375098855219609870826513892159385832),
     (52036471054789422902388672306252647754567781679067029022985652710980125912110,
      1816188432582282092158385592494799436272386012476554000415399487982434897023,
      41540819367681292918688765034481516167517428244261518965899447353585286694226,
      3090213329014903574090778135126786378751030067555283752769325671324837280500),
     (41485314206758433359588950436298327041031468214467947591337009281138659129642,
      8697249474564671050682546350860356127209938034716058619021576757514253520066,
      52492656548263831674072434840291686214571040573112328389160731373998577443518,
      32554118880109915173843239536039952849279409455579901328664719854407113195416)]"

definition doubles_2 :: "(int \<times> int) list" where
  "doubles_2 =
    [(6480549826064741809328337591895651998028096356534587962948998402906599594725,
      419243865549101221419157110606488251204777884130019979821866502075098115851),
     (27018923029239457803657209244752977129985739328242490994714711393904947298267,
      19632441190381254804107326885484740810708219443602643718345157432467126378702),
     (47749627333136099083567916553369945239553804462831484396119836325094428303541,
      51659565042808725279805218003850710368305926169517330366945025475058608489002),
     (22496070466863838813376617589410879623201825320060904330061763859239383415207,
      17351779753683168135768649016284636994486862692623638310352723970068194639084),
     (19908757815622469476643400070649213867456594963295691572917330196223816647484,
      10002383354134543615319173578760705254096130629387035707272039930399697129038)]"

definition row_3 :: "point_numbers list" where
  "row_3 =
    [(19908757815622469476643400070649213867456594963295691572917330196223816647484,
      10002383354134543615319173578760705254096130629387035707272039930399697129038,
      47755065363846189113461404853942085918256976385442763263791031601346691441789,
      35904166375489452817137140598001589045575754508954150922190349373018797885359),
     (18654566673107975546820461001026314913723262106326658815737844620093486078280,
      37234712020399886888026814084947098152429387380702275768388060043729742528207,
      41330723346612204007591697729633555703795534604710918079352327372371347444449,
      4523399798257254590754249182144745153245192064643050249694357589298209563360),
     (21292266773899639162765885952066543898650234952645780674439073344442193145932,
      16579083870680727353386033520581171267639842971105325737333067638129264196745,
      42687874999959497303917400677323895350315592036002314149581384504830236608320,
      53023978573388825142059175055893055470420977203361894524980325079488712172504),
     (14529135931643235009059942718607623183308152617471375826677540257307869761300,
      36368204856314416158092524166187411731775232455432022740445720966004335384600,
      26002208807001360045232049031388277562638901388582737044133601423393690983761,
      13069972696881662464176143830263831955044910506444508678823835549512677542230),
     (53873376500980242062881097346423872338635294934984712752345920673640034302439,
      15933117126776433364067236357989566842273729478980288125963251014917502359986,
      23114062882190327792083433786886944815661275959326460784697164400942659547047,
      27701212326325485493352893753817271532670347528308337298566744828273273602560),
     (12115944105149661845286223033423344305617560020573449952916490574858751931055,
      22203058931140541574480250039773320575923311829529298000707556583500315328710,
      43938326906397071482133813695476606919629706461319022696422921304556740218984,
      14466642860843793828326513800482303337136844283713173435212251464585920991184),
     (9559817251094150795732022868084880399448067035769623304265369886217051383352,
      32078669566481803808869088092801648404504341067335236812467598446167052945805,
      31659145308018313228544054581829354608158326727101474528992418324816259533112,
      32598543363116244584709467096520402073575975382641049445967070640669939004509),
     (10123367169530457996004972497097315471651753947097285912671642302321953936529,
      30101926241590681560279225060198940963787248421955126546243664390157111135116,
      13345611359081422550671188517537801669123357355329491823438875338533662558461,
      48321362862264909384234854733589287260112973829205462179581146607917067621158)]"

definition doubles_3 :: "(int \<times> int) list" where
  "doubles_3 =
    [(20228105077580605391615089861383477902948651093110614018006228601212829812897,
      50739262438981618138604305768031224265085555730473399623413823829986446560312),
     (11885723816838583074018792554219779064684285046928521397444516138233066886525,
      39531560762888920858585255896256030388577182770913576037217881623551806533277),
     (55309097900275244595540812102580096223347468140752878775874983984975695891697,
      47208749773804116322606667033397203501950472200820296195288268210573616930236),
     (39919050734813992231405536031843928074009219071754640599537776056399933191789,
      45945320156859477738353994360472793303317240314119916523532935872320061970583),
     (26402750181698060370662605837227369816500226738882517770271529401842378589672,
      14536364753920307535593082581313058277178823516042719567948075655722022317151)]"

definition row_4 :: "point_numbers list" where
  "row_4 =
    [(26402750181698060370662605837227369816500226738882517770271529401842378589672,
      14536364753920307535593082581313058277178823516042719567948075655722022317151,
      56465797158513866373978332035777509370095804007883348063296109133608378741330,
      55450006886699097850473134521998543461614749775831529049808198832293454998897),
     (28467696867507890724292746544435905536777794472862973450420421961863763129587,
      18192841347164399415773420007164503723511770725855445590967258565898247076534,
      15316304754879040914707034707046046785892042896946314716362418059666109386800,
      6446406076878883164533341186824663052309953784530127776470524942864456901624),
     (42298413614266399196515206574394975198566680186237647522564656016598307910074,
      5321415568774288868770715459811835718815269845210267330931717237167401836488,
      26351572478274632803272096092169886056251892261664660360718579306239291810187,
      20388726441963995616501265826050431659074517628317917957144267293557041912803),
     (3365470320945450715896614514591270503450275072817277474781972920728182619851,
      14448335327257628077978515250263916817176784164132607004676324611728461563130,
      26210106361301965910432131228838378923743978587960502357418323750851062380029,
      32048662158370501651638383871353832204187101492090984920718339102748595281067),
     (46033662239459320965727435667343709442975666211074769788534363586956546898913,
      10436484052971594662308145549073347833298479486482575897889795397644708209308,
      15819465482797544953188739125351003427668507530220952327539962469509556704221,
      45797212378547381513255280383124068027390952090419031573331626895515316284233),
     (29601126465251282793668150616260546493423977835656345379875485394142634114476,
      9025212182676517368284702369370418221781179132383561143661791413281679669451,
      36414862789189463146872024259298279138802959820984977952829873894210279132300,
      50069445886905036354525267026321278054845586200822544695567232631580109398028),
     (26445011814755025895447924400454610893969448663033091160751376557968779641814,
      15819250712917858773904021701684408096172704980177711610307540182449790582347,
      42347468642669403870055823984642967943449901954771723239850115155671124955254,
      13820209338983038210678301954766448978366795549716924828973113476529949610212),
     (27028398033232520320580469357527679628354830339206139789167081517078019527198,
      23151366799918620983856050113677994249423583316114771718497123087495750447743,
      31233451458326180876133059785286504050284765638907405835319358891229712925196,
      53658060534139097763126570635651550403869388326333160534303832606993035880617)]"

definition doubles_4 :: "(int \<times> int) list" where
  "doubles_4 =
    [(19238310624339690010350409627550275976108757237013722313670832090412456009909,
      37855451600702306380738652731348760260954121750363421172459211694831619619074),
     (22958599478870231972095435491921071321727680888093042925691344798628485557660,
      55915739696162086463960047236349335733189403447425121245282808522811266327585),
     (52019434033050880042442439734078393879024747597924613565229610236293041437434,
      50920055369732224919232050349233188227485914693700981097206687687163029446124),
     (47093895857636168066134732782191630766523690668151907855819373751482162168301,
      14762704846405861073613058002013227688437453808003631442089919367483943000822),
     (34705862686029395793543229889283339680385457474979213676668772792876223329343,
      20754029524796533516681242742417196184550616290110869337973224374832461795957)]"

definition row_5 :: "point_numbers list" where
  "row_5 =
    [(34705862686029395793543229889283339680385457474979213676668772792876223329343,
      20754029524796533516681242742417196184550616290110869337973224374832461795957,
      56764799645676364864036401965246402271543447376834639606446113568819416342477,
      18408639415301046201686838874843235575286973466641218752632030265278046338872),
     (36009789712419855374112854772559493591123975837440351669310306653220573974676,
      40463029596022587936014126353742412695332070680827090156322802329422536583169,
      56450436000505374538761312252002094662147708858587019138230370804286086657896,
      36702443156538073551760730366593961591875231585749729043684442456472330641546),
     (24233705218555401659772680388583530454908111993850930867959908886831253474451,
      30099681711548461296588576525799433183450639994717850839656743236437016970263,
      17741815744867511998462949175201843146621031006703264623514952140274138389159,
      33825002540684133839576157126471860058530179080646483925646992326648569471192),
     (39429243937136944535642884581805444190911356924018218931130297705409010476115,
      17452195333612198051149429877945638347915096958689586925529279451924768150547,
      57712876388783890193736716361562969424636529491556222079006864269963846037694,
      29766490078062356793263506445277479941437805547176997042076394190676944428167),
     (22139292438251605625076722859301800964007957222435554558002810128883414688611,
      53717315190760167188817990295460657531692550333296922061072956335045290483991,
      21291307338170676612483373074212677214844075606903206886197239112893781314693,
      53437016769927872568841524673212535293417319903808271186954020113016457973341),
     (25633593855455868330364002558987292163182612311691839573301505317039694613440,
      42344858361513750120424994680316276210767350373364243096055721633237400821265,
      15774062831240277979636735997978495259286662484126110593157434148071545090363,
      23603707594390156937820040200570745020678187759173725370682006724400553413413),
     (7197303069668717867654164208939922837918551330441849310819266561187512049825,
      48470072551670969772677749606703737431509563136765646042950819857809569287385,
      34461021269008303324543592731622586425273307636688676317707078966871175369019,
      37162078503997817175097659746691572479081974315996173503193074241865557205368),
     (29589533450750376001984240796861080978671849040575421938054590497281682261248,
      6052727791956584223397069501265015684771587914959467171241469951531264674949,
      11354055777719228834625119042412118559188857887219405007123106963572677228208,
      27338874750841438619526070675517457437000999557721496913758955756474694858417)]"

definition doubles_5 :: "(int \<times> int) list" where
  "doubles_5 =
    [(36918196726722101448933678860889797205635177955960663745753736684877656398356,
      19792759282461516403059541435426745796444315754794010916384367072719942928773),
     (57726455918441732161374379422646745280029098034021934091605343996147553407603,
      43139791409575482953749655001329897935535251830029924309400815164876474272278),
     (47063537400376592821060118630994932899449334552213294216292381919649384968588,
      5893944201089945755336144099942436442471735737646293838675905175387005565628),
     (44259017990347534984166074681467696190053556812836312064916650787395165441259,
      23885545767277264186013334580522072789574641086479308799797608612291276282014),
     (16054440271294318353381208704655348175877898769892958580352827581965250465531,
      57072792372353150577952531993815517704881297633921566672937422958968335766577)]"

definition row_6 :: "point_numbers list" where
  "row_6 =
    [(16054440271294318353381208704655348175877898769892958580352827581965250465531,
      57072792372353150577952531993815517704881297633921566672937422958968335766577,
      51421699959658133488712029380485152858798520627392651264474919470745381876784,
      56583979703411916882932154846613088400979015318514747688785230390140028694546),
     (203406447795982060511516372116230676934930335453944068966288770638097895638,
      935123914697937731723449654313266748314654814750070127100326140262258816541,
      34512591192687828692078762904758383885716226253722505484241805032454922705024,
      47329309199468658306920108621065283293181324725226367159337271290951929759119),
     (25668015687992809298521180724224010027237092437799803400361923950657722587504,
      11420662466477414785973027538058469640437191912861974541380543608165119107017,
      48142563076882481058310445803135535508945942883909531533138588507465518188399,
      29074486594251431032138575677643543950788372212628932109102461042232615467320),
     (8791573021639612543528238159567669574567997415487593481932831236777702597574,
      53357739748983793805438240115082548974030046944536059859829115284079407289835,
      963837964085558230313141714904071164065260392108041312663279840660637990353,
      48358897633759715225596321528238085678630066885614054890096897164929744758091),
     (8833822998178092180632527887564773924271992700500381621899804731781501975167,
      47957729207171637692086985125376174990561478462871315710951611328414165576980,
      22364214685946432667192352326584016112375237431246441783348183444104943209208,
      33011805266832834867446826164368075395194966130656619557373218252942211163011),
     (48993415663007700749237048161633604115721131490904939913799507178003454642129,
      15434875927075185633090380654430658847058193976041185790081414839016038485160,
      32952840616749654374222602142062733932317057662550465854026400305469768164161,
      56950275950433157182236810161485870920009772885816813930959635507433226138309),
     (40157286425850196807408494779485384279001577580757640345171514853691663095699,
      46782293523124115825210320507706993423192503217269762812082531904372227808455,
      12805140924505840564460055678031621322941577155313100465094046911399978635352,
      1727044658732512573462744313340027854716863896147124131278350608921210315700),
     (50782020275197463250196309334234189563131781277421294134305680097524368290948,
      54890251617098705321442997384626652889683858100782309794885725614873360965819,
      43367941149677131893312238394479744848216580183077423210284613718909362908083,
      6566018336193216325911265768803656355213526754227263191813385605921770051483)]"

definition doubles_6 :: "(int \<times> int) list" where
  "doubles_6 =
    [(51956654281199107032646883520755456670397495165077329721678721562044747830153,
      51577943930390623687170625002526342739440813934914707538124030955323570748481),
     (55114293388014710577873181270176368153397891935701164450115404901685262632356,
      26793374489195845885521166144532151671940485951270675431551017925683726708212),
     (21808955024583456816737303744330158092622569902218896451330150923923000550685,
      13672431629770178892865604500844231025015494962039128962368344144847035232979),
     (7968477510007827606435445207869657988360779403213970828173573668398676677500,
      42216988583537334385361187201734478591033608839682085754733510060674011191937),
     (19570925041999256898631784308054621256670072833025105856440092180243038384648,
      32357735381306869076802593254433151670973730536940797444907481256667225822746)]"

definition row_7 :: "point_numbers list" where
  "row_7 =
    [(19570925041999256898631784308054621256670072833025105856440092180243038384648,
      32357735381306869076802593254433151670973730536940797444907481256667225822746,
      43770426264118918909783461028749446169351069435554305000100345974965960357774,
      38317642312210954027635398252908819991782675198528889188269792595252970193743),
     (51039699923380686241926513746538724532401573184627754366394327561548459830545,
      7570250823697305855744828792920571099562660522204038883862807645658199985137,
      44986326881635460017158390896850251516845273638740138404439088669595325866075,
      11657061758660818173365302068352874721741763806348322850356254281234951842294),
     (17815927084435082210038786096034969663291287715289744676332007673590765956279,
      6128762956563897534774398014169390595416076969443913774251935979979366533203,
      51003336391242365398603558657762411510986397970791495328314451449094402742697,
      23985166657496267613086509872757854479091306825316675897360152637625440347177),
     (22941413270620039519460909949925599166829577193988009552828790239236170022419,
      20834083520695311253626952769167309003946725336233219162862910833294503308302,
      29614353902843101971246659850110438316679250149300710078753997294490125651300,
      4603211022261203990029032018990026602136132108028843195363461212556367609914),
     (22605962032561002260906927136646178031493115749982200127214904434001957342516,
      50664813297096328312443921941464385705730385675291923877743585599692826537258,
      16613905014371456579813876934913138822299369177430058796080334504049853735668,
      26538627210016019766764368541006200602102793929170223190191965926082757269582),
     (5931602209785778873524491340723204292990788197741444928986670236549472869483,
      7205633881201999895518959952678070371222187761568280364026173807974433056707,
      10256268312951935922943110046076555499668089573571950425525658998874612834015,
      1005716063392904791883588418592187279850541718168339086822847286010445058131),
     (10090155032896329602424533390836796093318855729612379303022474971312290248365,
      8251279068613366320340838094603654322369550742089251065867438106278171974973,
      54662823356110993230037175131481438882634210937508843203161327271639600064154,
      6960581351514884677117876723520552174148773258690276781406344604162825298297),
     (2393447640331994166250482562132720221537620759442547295034919510984251685524,
      20420990054860851345732385963185922103693551187117402856581670289080268342890,
      8717738338969336533237875646016915266408314034239149575065217019907544612024,
      46793189066854832926531855970043131821266249646052524465103067372779906799881)]"

definition doubles_7 :: "(int \<times> int) list" where
  "doubles_7 =
    [(30093125196965367685981526264725504754332396466127285897228009251475038571580,
      9052034251620205706827156185663229978504786077326025551089469078038877155903),
     (37269293509374695477101338646535471344399171896611579258055354116231451016863,
      8000984971521348259300721087162075508022068305263762918653175743525410303157),
     (12579719060343104455282808057167670779768942604076651371217747838342772269098,
      47702712675269339434589082051757801648304104337832424757743333112946205248406),
     (53546903703359431094648424818051869487029327402182101913279052438002554153131,
      49829415220052758663960833463479664041993077134458006921345767835557035854439),
     (45811644395853849704390239305739775610481015468619340172495835071193285784853,
      14931608858295102652976015651393727842260237676016930108681592522697191371006)]"

definition row_8 :: "point_numbers list" where
  "row_8 =
    [(45811644395853849704390239305739775610481015468619340172495835071193285784853,
      14931608858295102652976015651393727842260237676016930108681592522697191371006,
      4903261878018343802674235243046271348789391508768465806716633528478782514849,
      44572319132873595455842987266297020623526171197071652062676750099116673206361),
     (35915358189563066635996360278622500072546646470003087207407994856299406126981,
      33894862684050342114233873808819603409138190338032291464631185092530026718295,
      5337171852761355920589028320888701925957450149919026217461911623736877192990,
      19849296478328768495495805247695997168837367132856874395156421056346847466394),
     (46349681177630628852521607017182005268874686088518697986163469152413883962006,
      29013289842396303425316390666151711061552802329659675758056051080325829339592,
      20472250333581509774243954343111719567176413045587415962736141605494126568386,
      8987285660766590138219011762984157073474138416691091583362974629489246270471),
     (29873764967232160522687534444849036661793439430977505697346661260175076455827,
      46777538541512666443747153081364834330280081720958040402518689303965422572187,
      52632938351182299433261527357784499124852258059911510012562841219046775139143,
      43678687874783753989238000938645889054046194408155765536265092054211996908656),
     (3112051921836065348644222196114755243488832285733189044398404409075009015402,
      12159861955975290445057844824331012082084888217801685966694141533012363954365,
      40197264120199883452839239970295209559427326057889604337880895971409041463626,
      23089229879023823317650486648615261113639661965809164793311284521221055636439),
     (3947863919548614691614883534988426276140516709523172715347108123493758323112,
      21689137557940082941822614766396937397624345861441418993573443597081243993436,
      8152589214379190206072417138974119756096456562044745843320328181919358371194,
      26006868771002328881253046589605913386852383210104504704200133552093254321232),
     (3284982037767310412194076277874445779452028111829110568465838708767073636362,
      24345458866960735118667089020738796993781333307741865338035214722747307458626,
      20593036446323379910244930263182484567868539341959810712747763005363902322676,
      53574871283165553125314121006188091071578967551114640432034301183164885326658),
     (2380616186269570579948212145036695964692794444412576422026387691350590880129,
      21017020806324619273480530910030301619468351367279950396420111391614104450057,
      33959264462625075688969793363384944666529816572912100876478553330634808107969,
      46361589381050185680625026890177279253421462440776560773133113149222398787011)]"

definition doubles_8 :: "(int \<times> int) list" where
  "doubles_8 =
    [(20020780039529006300845947799009066733379107699593845039647896546874224898398,
      32980252754384554140471826446199976879444157450147215177201146178318733946092),
     (12404633805603550874724628254851313373558443696608222607569189903119233983682,
      39447725265953999306382624543315991042556680675800157205432771446129763497561),
     (52398358348779610509342589685866162170873741105110226567791376330472334500349,
      26973241560935523488720356593300373175214142520019630742708363487218803960237),
     (40557425522788986321441778293671640794084726215204064503883067145245730589812,
      26520050914473004359684359514879290922112345566569427120432001634940482719187),
     (10409407760910412180907553798087421626730406327956938241765986939166059044043,
      39887044591723563269245854972785290334598921988596658549592209198585228435322)]"

definition row_9 :: "point_numbers list" where
  "row_9 =
    [(10409407760910412180907553798087421626730406327956938241765986939166059044043,
      39887044591723563269245854972785290334598921988596658549592209198585228435322,
      5502157052269489545361353740562109819339592228676418201671732063968905284836,
      4975509444067247565308788967192026903932001450383679535544650631823633154885),
     (40896513243296161671444933807481396907541920985647966475485242644194976950597,
      56237940223155400881454199037093689750714100792574853316124692989145994167367,
      1817463017805287068162815834967074727997328771097404636540050217332800636477,
      17863636513371094960873524169772018094962086971645575055616983034505209094344),
     (25927521950428956889050219407561855352333046923981562959328821389536591441873,
      31763244584669318230155258503741286674382103648785712009619347735023240823766,
      53527695826203145207658075886850196286259404332434506926721875858605410720412,
      47948549452286031650217447373749723845110606932701493431572164432520885650240),
     (1252837649804189419187014084342522588421764933639927071679819110106252195058,
      30593873904985471582502319832620565938676124214488861468313021438146302192151,
      7859943651990459060147687512188717939358419984506045072069369840509830411845,
      41317564216361070356463726464854876757564603485380021172701403133098881785732),
     (21434487603839001687603600532527249023247989379734801099195449168315144687053,
      24025713092435803267851998223780967916793847979032537480487987917896994705322,
      57486446864386749446598818911531311419131633566687342608271230985316832017342,
      10771845863539314073924378919352593782548871602866660796016071710736615657525),
     (31062498344221899951858847721436214809655846137357588828374314183705499890978,
      46963985862075618670679751905551430263508527377684534659084942250531346278636,
      38639375242256182530522002156010358970794170815715846655767526627348049450871,
      57583174853699164468247015411111948341358479535590722202375415625380714902500),
     (4287683842256768229631627974241471982366033070632201808148999996804307871777,
      52659858249002268959479197969463203343577009160904130344851852312523521735042,
      39573982994301037469386478770832470053802833111648899801836066420775450914212,
      53795285216341330528093463669815884608873994022526855437336538447415169983805),
     (50805719941751636072639545819508420116381714755901827263997675351076064057131,
      43864621143673778879720059145761705634008548766967599452868219196731971549962,
      15028014674436903151893920167278240259694525373488402876886035842326107614918,
      53092499256046470663145105538237891968373502621583067653845152344714486068263)]"

definition doubles_9 :: "(int \<times> int) list" where
  "doubles_9 =
    [(2713392604461861686723734081934261555305819703129594204603676725602510667418,
      29050895300783521808049570404875149001510403583903130624611990717819265733359),
     (26149337995024683493709316671756158759073952828742209801586076066953975534338,
      2279560492307930322974539460671633030905577003235254436334310157346744952968),
     (37350604812291711739792023108357612565341869762170544755481144045416640066852,
      45755846414585105445672620688326532201349422910799802274291305585391877538109),
     (17530766338798746851383918061560411741631057273203184466619043942756004356822,
      3251282321307115286448521645722997306489322493944037482195857979136664638322),
     (12551146795280344786005283425206727374339868304857514563015128521932994467329,
      40997792406406923892931960786496672588770492779968430725449858439819538674675)]"

definition row_10 :: "point_numbers list" where
  "row_10 =
    [(12551146795280344786005283425206727374339868304857514563015128521932994467329,
      40997792406406923892931960786496672588770492779968430725449858439819538674675,
      33485073730374884379083389779227338234729520923942262865850302142554981360993,
      29692651458458722651386678943218269027918203595633553304967606314881341146280),
     (36495074539532668136119300032490930812775115485457478334944836904296518231195,
      28516333418621250166851713081094041765280766791088042954180522440055348656537,
      11367252765177793858233439092973430268388408749841543810608927814731949300709,
      21782269476313215386108743319959492452395071861148320412476336753633142945529),
     (55642637717615341722022066033283202987750692292429326885794666159006471668107,
      45388308265707171204135539876728540307165058094998853871904211628010648400124,
      43683283860073365892155668576944614247275322696205766183044395438496958137475,
      23748369273256038991987040832099624275155268440944903996112088194870942655638),
     (49841877707494860773386729403075123583685643066334864294150530675937342915403,
      39722104095206381464614228934810644938615679772415802718864910265527696388205,
      24535498564751768623308160965868057934407013164367537539847940370628709232753,
      19658369665235245082149304414353253972531841028835533060650594893938220700934),
     (15886768322867106878845972433249188986890743944471261304099714849292101070534,
      32988107716371446779087377870404657813439565920308070991526520112487875878852,
      3441780851394278158737351347696032360737436214194577604671804153004370359238,
      10261837381412579092179354721715303227927960257384200732452150161606997876691),
     (14002229061428294927642145219672890724189146667978310305245520293898074014277,
      1605125088735393708460004180700736759350428710163310188661303736603845332468,
      39518910697847951169999680384286526545770905682021645886881699719392915782636,
      7189536056891143517768014257910693538933229609483873152546800721146089122412),
     (14491890080572956642542083072864767624748676961835058370459993626642424846337,
      30681127199258015214961044843666609718360694794592528849130584784068893224911,
      2287696475949916164339876772734410735036653014826086398481396827834583431877,
      9017751177950633037538977382336813248714740586233748311925942639418298370557),
     (44018790363729709212780562682442065758707333830111016380003737856641658677482,
      33949792137526630374438171331464033499912161404110416057409092333692073741468,
      14444229970904592008261237635174111186370575486154208825027892819311738248598,
      47700193514050909956560050415656228829951284728850258366301701015505362367010)]"

definition doubles_10 :: "(int \<times> int) list" where
  "doubles_10 =
    [(35905976425759216951032961192435556430844196618167511537329817914065114522144,
      36398842653090509339062756880536732468749778493576125882477939014127250597385),
     (29627051913227713816332507458185230140323706499467651432590251247615080541013,
      21540843015634029490841174471559232856665002667821908647205975174421615849839),
     (3768659024341117249491098723584122266706344333981622657919620339066347168351,
      27729876039901811366790817540567895862704159966852391093122791842554353918162),
     (18483503046857252429375645563637754951587132532205348576753810508712804608332,
      13324204498244154729700179562847089505007953015145942743907926454844256606482),
     (18093175831105203409136265979036664672107261611153947917160847590957287697286,
      38130831442855550483773723253374209757463307039962625227408733545849508278678)]"

definition row_11 :: "point_numbers list" where
  "row_11 =
    [(18093175831105203409136265979036664672107261611153947917160847590957287697286,
      38130831442855550483773723253374209757463307039962625227408733545849508278678,
      51967296633057552634562772832257678922046988695490898018368777076434258790024,
      39953339698486268802200929093615089845653556727898565227043544080495690841023),
     (14443084430956549588659367641273528370353783782740928986766626844634650408487,
      40985872620517089032726712045624733953636406315422604483916597713210708133967,
      440388839717671713303548485964269219707467680841327350262128638116755142629,
      9205726195042407234123636793485231167026848696830507373100660342512761027099),
     (32439310879054851416469492634174468287917792823916521075011772673739405104979,
      3547142143128551810973458005220688878164255476686216840087211870774759731378,
      12758627915086882806602622111074157520212429102962903284417876229454507334930,
      53339238954999528463949887567909179086803728789600452032752821993754350531161),
     (25536325049662909384565043773751922868346237107333085459076934566437964202073,
      12772575158048500349487260263939307723688114546773794200667390317270405981002,
      2773748226581802518971979195469775636656926904151111434408438923009122821402,
      30459864909311829520625569308862054915393657933846545777330876678332923810594),
     (42316598777827856202847032304408301934376271191935521211009874216487856369907,
      13845158851660443297188331230078931452678314491367257000866835308144591757,
      9731513902723286330878632820307511737128355923783456725103354275196697749835,
      51007823890645418694472146731104084895336525285386712615692629454005008376432),
     (33174364015509957735297600843593485805310060955272785366466948162357007558855,
      16810439894045052574530032261120828567996149537597899333752995936916903983841,
      3441977141688987893661722805178266288364600850133351133578559918930315896845,
      13066484124969664125743727416800878602310431292699035172433219709650781612026),
     (46773306435711631794726723866133267286239584300745604814495258885081655529558,
      49719117039379561960727064122715192776237081035466516337350557383074067935231,
      36758135662363521121267190264335410215601720965794361523525726559512712036787,
      50297058287687978656944260940978088004704195676391089353919360616645466378304),
     (8554300719362861572066305212124797712270304312694761205516806511965169951829,
      8637115891484814864788369266245142551117964664520218485355214828264014235985,
      54141300935566969612522165659077718047880846769369646518760922344386421832494,
      13371892329241515192460153153499438082522657928415455731861483465714883751134)]"

definition doubles_11 :: "(int \<times> int) list" where
  "doubles_11 =
    [(32364399508626710899416853671937516916518441965696484319950818283868609368731,
      5040935096316101636470438701185741236436715863683671398107770716543173862999),
     (48730502736573766327320742472093931472030717953993328008002161838994460789109,
      37268943610949337775671098878598508810882793289621511950706282659034249070262),
     (56297996893969707610871067331604571443081171123708602659922814047193196201398,
      1651466092629576823795517277661286170299574555301276048970089213918242743453),
     (16334867078389064885109837060467176931969929372189737577955599726276904395315,
      6451277858413706921351461060238480843995938592018322958137771311960455654875),
     (3451681248724956125404306134506119402031398338084969228439151311589237174436,
      45103340189645008687377119205687495755236823628386648868825446224184048796894)]"

definition row_12 :: "point_numbers list" where
  "row_12 =
    [(3451681248724956125404306134506119402031398338084969228439151311589237174436,
      45103340189645008687377119205687495755236823628386648868825446224184048796894,
      28297658592470300655303560295180875926238688072306165652922367172486111322056,
      35111111540984543632653740550983724599536402332749403350774988695760688040209),
     (15756801480033533000436438998988043638671649943519845201810543220041725235516,
      53249647316924474924764553206973140789479264795143211720665224465792826909332,
      4079321919088451155970934217257812130278932260953966036494325850329458790806,
      29204152477896905209316732339779447644267582339747410024832728986567083464943),
     (44440916243623654813196625181418591040528612902186678982718949176108874547385,
      30704408044933336248267902861681307394716900345009394572633209542762833809820,
      39234047837535946933120500347005935939694720814273465479239074552640111285664,
      43500519738862848843244028744353439854531403129461380356176689200345497511590),
     (1657642902410680979185778983970883571334443772437747441707225992473817725874,
      13181841549110855159919512279783325840547157315235750495635063425349232964587,
      30620135049508188460763188723509672297382823174620355808252175549280309005855,
      20460535063640303919461705600906350403143575321385940858419501908914198329531),
     (1224134340757965131163741168243001488498711245882595056506733627075133248356,
      22785851986130116988131371492606015709462635997931021963575071712110865775035,
      17934878317772159459703251849692635162692781134517689976419273380857793056242,
      56532369315625212057936747712945934487532625898184360859639470587390583019658),
     (15415763940067026565150376945147767989056188998832090300131269342076864391508,
      20224114555038773758328667742894897656134329851848509005288530948311422448008,
      55687407906356314834157785956404136077810055735313337975029750174690426216912,
      28281420304406665649221284139616245361456609667166720531787349293039989997704),
     (47226954303977824279015135365200687385856393548721672548066108672547954947468,
      44321242324127141208161485302311265456056358988767397337360352541062405988900,
      32028163196612385717047854050109193046872393665088466084927211248292476754042,
      20802941062437324633526155132028889415439398331234502463650350278935924260683),
     (7416636603008590397307522481702996285995260977307934364629635910294808658240,
      18644624671334305740764735802732794703876461150661175072230055477676066792953,
      47778366753236297181352475211256767642049858902999256697989242090595700182359,
      41802751677285081218783943983177505492091302797970003777181117942423767156297)]"

definition doubles_12 :: "(int \<times> int) list" where
  "doubles_12 =
    [(26135278318867212160009877132759729477683821448533088453593545567162306742068,
      26438595769799614534171280426746668914667059326668886443774027154481945892503),
     (42363118222225576852150967470876969773177173716850687553237061623958791951450,
      55954407209457526793690411706780560375786115013801438265594667524299894869181),
     (41685755285441343534555699146164460473739804412644429165592581933281107039532,
      12339900863810792922652965807427786040792475232367501540178739227893090482169),
     (41936275459278513892028662869335319825667417788472248668580578659898212719895,
      14115791234651454395533986752642788355257831724545871947750268436768458849437),
     (17050802196709616403451826406002316478412621982043150101367430519877804608237,
      52203088490620088308042053124240008862847193975950073103887513132592090740924)]"

definition row_13 :: "point_numbers list" where
  "row_13 =
    [(17050802196709616403451826406002316478412621982043150101367430519877804608237,
      52203088490620088308042053124240008862847193975950073103887513132592090740924,
      9103515523008784562695423184923351107613308450210777404127932226187352893540,
      38107070727229784885304399761175946507407664445189676240769926092787827351429),
     (22573647065340699243320992404744280641666553104019618788389057393756430162640,
      43744013194210237770675985085980306992599423881353672810344758870573299126679,
      38812541435861490770655985701028575093438945430707955995503236971241199250255,
      24070922479069042283203599593216734819774254774190342166260409047548396587218),
     (11913819842656967474321100739231016457069267572181532889836541172524244110418,
      46408704785010430089430157331749708437756204194011099043272805321015644274008,
      8941153069618605051482433710346069178571866358541160236645708615375484996076,
      39045760305415020427837233741365710174568921198950248051471421116892114448063),
     (36520345722324076610985185928719706425140626294046643152997554760501764542592,
      46574175429131291097669420260105784050079243965530113979009886462375548412345,
      13494103053668598903589791877311297549845491731244982658545242321910518243601,
      12657216457906541513922650052004728109288984374048301564551828589787977539556),
     (26337098982976705886303777421963936910791435853525942293568639141339123599514,
      6509679330888371759619182018875260324098564977301679400818035329191622349437,
      22411665294546784562718747915031242875366554293809289025569168673557207139879,
      10739990554885214358839877955042443343207816373235567228811927766571842965735),
     (36457576209297191189783948203546239530121394583105015122929077937334640300952,
      15513775838405879491189371088024770907731279942493584615198249675203423501849,
      2600689399289121054568854415049079709889840627776391901455100499738077242857,
      36908702325102356442341817404455782440253987584448694989938647075700669565925),
     (39525195698761792489520470432465029528341483267007663756624662941785148166884,
      54297948675728140644472591065005055527219321824171520056214734149289071271947,
      43401000024929860870443748577085362889392788972970373030492181978042218786911,
      54179234391491440105999874418077014594410918841259335120667102949119793375502),
     (18920913643405533656738045503765165168632395996461679378446089026893528864064,
      7424318006592320563499006472713913822931081011006121230596605644930894388125,
      33788371045053549569082616380973010795613804317075653702296435700278488159184,
      21409430351423200412433706044042466754506685405211356749617643379932063468249)]"

definition doubles_13 :: "(int \<times> int) list" where
  "doubles_13 =
    [(55908560528115313337331192079572976987930751259182231978092407972406010699860,
      47349562114064199049455505554885199492921087886151761769310924232981104345321),
     (24470320021653743288553553922194293610598963554618716086300327973575442987602,
      48629386808616182719844028849663762289686733341344123443681278045224005122266),
     (17657945628621291754587269042775545983098884255332522933504015958020196600278,
      9438494402160282901937930369681759573700187954581341631581855985215670587320),
     (38460449615910280820790371532023959880302718778121194725079464555426341357048,
      33007988241098964107613687859081433524086423507854904238311567619436896863889),
     (21827233379012888296051888914012613590110693258949725274094908495019489738908,
      18908477589526918172618421073119973060626280661432570456189083598373220046227)]"

definition row_14 :: "point_numbers list" where
  "row_14 =
    [(21827233379012888296051888914012613590110693258949725274094908495019489738908,
      18908477589526918172618421073119973060626280661432570456189083598373220046227,
      7370826343192777418029371923679714313465827837761390972725748555304402346312,
      35187445115013480584449630665796615226086542422399353313325934559210743563421),
     (14613882835283214038878983598955597428045276937450304461079441468633252884835,
      41571788042841202290338899197942030796230516339045080200904489370096453676391,
      16935195247728249836970155018542437983834424979377508745645712351059457585273,
      48531848830497127190917458902887691738919709381063364246753534833961462272744),
     (16333393865286552695125949192364572239672278970665192931475635378095448925274,
      27950457111479979368672653177142771471214791165378960902697689752654287607157,
      3735217287627959901146199678544127446235915277288932826044489771200171371690,
      47006031227559349367710535015113392373305202428627702414247985341017868448435),
     (2187942967721426849660112771199354899653686745404319823795125965809448653006,
      6152740787740714108469327111982433578092623466009224837811859025378599434826,
      33687252402094524114131595312117657102470687313102135967075104063098932016597,
      26913872202255953080627590844716150946083053989678329639231180162424071261973),
     (33736517823584404399059101676279552618085743187793320592784576821012330916427,
      8009202637913380203880192393056395750442146772789628935888199141083504009109,
      35866652425338433390311007382469353678561155750483270407528619149526737158102,
      8257628182104221604620656802275335452596494926535541966733773019213458016573),
     (21829056582099443415701993421605234994442393375224537601156579477321057897327,
      52462748891825032534667424376636530105351141648077381434967835151012454475140,
      25609482299276120685120622040653318657146024758977721683247077386224490228801,
      48009198844522127675462193605215805252882981884638489607679373468897733121328),
     (17082138983272588118191470640409033464447116895540887877568373992555044318248,
      44023337580527604937271447510237247950108265703563243046570053015408587094478,
      45785415964771744884105106760687734638714290339569160766521324440507169365614,
      1113512099100843766320540552223127657206063115761367940011394972475470743586),
     (6963489772333744532097687373421963437749379120843003639248519965226540157465,
      8038965499865764793545706460907184746719002763070799624483284518079640565619,
      34679285908232973181684355241560006158309275789071333826186434730086434201798,
      35936091494439235029460010819927767650367147721502905873935455995229631522494)]"

definition doubles_14 :: "(int \<times> int) list" where
  "doubles_14 =
    [(10900974192870607829506680138321804199832223736972419587654320297717013979204,
      29127498398513059995201066728023877036458859343387648328547598024354676306984),
     (54196495570350908130021642504342204676574505042192972847049886452688053817045,
      30960394061703469359134176601206492187446853585948505493804462451446073650241),
     (11019345097139622798046187073698087066922447256226608826017397481896212846698,
      5820588615245511894029881504402697299026606688306343668786589928163656000629),
     (18425506961570116601076841601121607329149390959536277088383869194530120247554,
      24407579601905941680390411050991728340348529633567968510055614570053217688801),
     (57395309720386242646754846189974251205032425858971487761196482955580035093129,
      45053854337161548003772049549845281962137326347197926600072792067971101755950)]"

definition row_15 :: "point_numbers list" where
  "row_15 =
    [(57395309720386242646754846189974251205032425858971487761196482955580035093129,
      45053854337161548003772049549845281962137326347197926600072792067971101755950,
      6726892234772834393753964209108218542932778426015019828481907341953122542019,
      7409144969870103820524925611972696916688721049115307139576546451753046568819),
     (2148571138464465300688819913367348205936063895674349956372429816811444650259,
      29053280061195524822332506467203275624462462109616729264371553687702729349736,
      24134586818014776065004532849968392597200767138630279372624465358367029091576,
      46552917671790097484562517718904298076643821420777021296917491467931252782207),
     (52964629332132736180408281687757844018827908359161337954945758898817828942616,
      7059445699612446505562391998507802533732761751565427394004479804342455745524,
      32459679910422073271814382510984648903123479773226854138102136133628108696626,
      39168734791267938831781098504808128365210662535365384902047421454877020263035),
     (4068387433292871160387451372177293394052594126080585439076277086677246174896,
      326173228731775980257375525653762139269135242676715556292829149832594345800,
      32213443167318959601836596658801760362746564063779367375501241589888255453904,
      42414000632193492548731604098584829473083930098332983081973783367648035050346),
     (49030967473513631966479914884452848228230344046822701221766659759411016827593,
      14686752640617727957740574008513279264329522201164121539804021955502855013400,
      52499472668829983167754656142543533925438827919795624378010220503189606138380,
      31136917600987456766602987477434005872652995368688897319538880761489406355531),
     (13925684291662861052310812785720783368148059580144983717690167495017303733684,
      56121063548777198593588121281692786192340008652686873543863740053941355661421,
      26625561526081476508188587494874865481552443121799776062503702282797693685915,
      15622045853132710072267953221147506897380190986468511659058245812938370310950),
     (44203098534624853938196033382256519478556333427697914728015344652799840956486,
      16553879936954959225761579614109718073488275212237376681031630490959741312242,
      38955782613106806920629358372575433443796841730857271497304067351609179738153,
      45325641133525270366054447843300724505787092572741202718392210534585687936008),
     (57345278018653071100864846553753370672565170486688702533568086568295949567446,
      25059924645356220231384415675142722405150668071478679522915757132215578056259,
      49604170177600969842065448714158641061295302784479819895904220888323481284295,
      46789133672297026358009295838471323197393040457180671883701612162379181008258)]"

definition doubles_15 :: "(int \<times> int) list" where
  "doubles_15 =
    [(37583486322670922385075650426941623920333460018406542018305976867658902089840,
      27473891086016360242188172993954430383857498731478941302716607143545663554916),
     (55114361871029474583791782900429903947017484378419434410898145812375177598775,
      48881569455427526330309077598344390060411467144275677227882526686965354578365),
     (2386219325892276317613181682198878642484654272120126591129717828453063674239,
      32171283028294928957618712681864902579454458872470737206281973259095949669668),
     (11064828440827513439192054732080206607063733165148357433430908542043450520071,
      42449541200173318588816647462408876714678726888269655963682424126372307544782),
     (19598377658861224783845010894811287771959579301160358177487377480285833498274,
      8602625848320914101981327737814350220059964367615824096981864165998591852103)]"

definition row_16 :: "point_numbers list" where
  "row_16 =
    [(19598377658861224783845010894811287771959579301160358177487377480285833498274,
      8602625848320914101981327737814350220059964367615824096981864165998591852103,
      30942559212363234812595554070815474796498884287982536881367675299020161195262,
      2546723617105803217066704043024384113612712956060210350476893017486688072586),
     (42358850453650065889635398056826431689538149690374728044470728175627769415630,
      49214616977899862322469880599614825738082489444556174853237268494629968889502,
      40232175707683650301975749701477663824140238404181442186427403402071285441226,
      8493667445341245648361292062270796651158721786810104163590154947632220300488),
     (48385487438128254996699525927577029456907952722367890843478930305300776799734,
      39559994053825367353652989801205660682483070420505538516279738614821870321256,
      50714071707794461408227191109614507820614087751067786611292803711762503739528,
      39429793009095178565915118939096967879375587605173578703268984407783849784162),
     (51581966452853900091756646973557346059106653709384595763318103082387283820819,
      20828606023908711315162493421955207907513746372017040415369590152949798104301,
      6607322891285225414774486829700593932970115465468887489066060016494261066293,
      11543757158601053623050530508501701193774440978633598706901758191197578559992),
     (24617950149360397442640569612647962565786050699669250948481491945834067115758,
      15408707201160997253620404901486325913203048277915352724016600527713494048941,
      29583458512608500016175427767720597889820895734504066602041203471957649820692,
      20747607484505391756240397195583583804917874632534122868199174546614822467192),
     (23836888780933463639375881011427656528947247674402163887162033332362261991406,
      54830092141338595816423396439963958968410593929160852392345055156201544099584,
      7899548590076608964101170338851544497815511386649722160626389275225603823308,
      39925368598239139555428165036531959804003303529316568234937157052373320803689),
     (14209414293385567697413008408646601360621030607167664879154622856365570723512,
      4064150610133085560494396707845459774778340093520806344926064787847884071323,
      35816950881593546499613928182437259839509838771386966334082232436584874456298,
      13168179154942715776557344185809233775662045677124711417245584554272960624104),
     (23664441271309054461296385012238166605233939951462421495851252068162842900024,
      30906604324974005795711787063961077428212762191009810152169842161441877937748,
      7563186585470672587344019619584875020188260150552878434634475363908228644220,
      17023168053045613828573237880834348116297780257693827116166718009290689522988)]"

definition doubles_16 :: "(int \<times> int) list" where
  "doubles_16 =
    [(20816729283658675737597874036244755459432213712673199674477249282347378100896,
      2827949606557303530010123966069536093977590432613525199209174913470026768421),
     (36511472298295012127396655300198627608903407811442367844317986604725477306880,
      2049459371736403135779843290437168998981580157757276183787500159891340169366),
     (18247548468777541579077707199359291630115284164425204758606959352497720204546,
      55853818989352991694607642880542386300394405856725876217546564011271044744392),
     (34070137386085787140935864285329930047141558283481057533817158218051891634046,
      3928786710474104009979167246778220749017877503289432662664261553658238913134),
     (10775681741488604035403697214091820742439805124403712140159572163661744435310,
      14799944979221577710774748248485147375341892559739800427657996590313161369756)]"

definition row_17 :: "point_numbers list" where
  "row_17 =
    [(10775681741488604035403697214091820742439805124403712140159572163661744435310,
      14799944979221577710774748248485147375341892559739800427657996590313161369756,
      51622518620151747173210018113341496704968389474850906273730158550846718033514,
      37215819195597225906733077543471374188317177722219007369409545129793948129206),
     (14086495495944691721987877187254135613266131758303512973933436376071708289481,
      43364229761334447554611623777519839207882870078247168396951728827878745810579,
      329431519066973326052485291368324852702715668186114841888035544867183855018,
      40698236467754804752927967690878316375864949857139230782390631914444160458649),
     (51636974436631039814879923458118776242018549479689664058240925940036997266214,
      1428014412064270226634689325583821539745222681566431360618556812822929969366,
      2659390615314084910803836577785302631183188730821216467100283665817468188985,
      2915004386611009774464281449902065130175623322621212791459082467699161762655),
     (54643540239291800707379868991755664837711337911073292807358298590720824198480,
      26121154034435831082691886965166653907488193313094523179596822130474102835546,
      189618779146081364298486992681723579116339694068437570989598979943882595688,
      2872680352197906790747745629649296068697748075273924431175921359386404703684),
     (56940023937806146681054390487514166414590862845312224011617928491041620363309,
      34983373571539771314380931669861149081390248198685830043275961823644085483548,
      48472680947372479360615849788833640795315036817203558722250314377888910368459,
      8237875912050092674154714788721716001429763260327213398444076588796217224044),
     (31817511570104381755844765891667953504494002826982102436417080948704408688650,
      43353049911207509238086053162615712068422769787734375745409126080845978148503,
      2578134706650352371638213828150473280773292550882571281331803318985484690137,
      5434410436915788244326221688949147116591822635290168132983935486130426286820),
     (22373765776914035359932205059658011218205073173322587651938301825050553450901,
      26837238024558679071131742848135021880184579295450908090513515120396646328573,
      36072790460307752326002300129805223955998717096029913656506326020479442080898,
      39736252257435610188216262517453177836697307541656116561220929529680062535844),
     (16314077194601114594361742772411055410812106372697822932689449144179564659981,
      8264260176966981054240998843237722696269428508230661672246996244383947239295,
      28732595254281591632880446608024050985319680939406314429508991673896605610932,
      5907312027531315753173820853566290383433239327337944104534623466390607639496)]"

definition doubles_17 :: "(int \<times> int) list" where
  "doubles_17 =
    [(55989946456375606165439889472714594603251474029621175557852958440037431409651,
      4852155834875781035877814565700700976527240076930227074072174229123474226148),
     (15909809889005867367524421217021395611098073719597511194365816539458545952757,
      52519748445570161924676083189383330091158973481611635475076288369743788279268),
     (6059527188866542658016599743332346683163647449751212243298345282584149418412,
      4288220273164369139669691076631629742933809433970265176956193674551524398836),
     (33490582160136352298205960007176785250765553184288324526103394337424832587710,
      48143600437069407810929624971159813590810271814525586759515201515080337562413),
     (17621641827815800103912823399230875117460115893101929584162515517753600019731,
      36316930355158784065118465192872197832316813601736090157251786731574891515358)]"

definition row_18 :: "point_numbers list" where
  "row_18 =
    [(17621641827815800103912823399230875117460115893101929584162515517753600019731,
      36316930355158784065118465192872197832316813601736090157251786731574891515358,
      29063890488166339086225619435816982634387574898318310237213124376146794246065,
      39899686957124757334732424715163183046072775688984097252014070424513489767468),
     (8525377068490979898449015725507982804658825084183726431934200147424536472285,
      9103913121689731846032762346534360600243839068306074530590088360442613976214,
      12353036812962496203749458240950541846231538319541546286518482396591917848911,
      42888383545415961445003706756040338185852554011979040257760224530638009208792),
     (43396537265463896345601537369929413680346842101592965372770353422361960146609,
      16105412593087454557317002832301881914536413966129630752002937306096074033489,
      926396675279109900818416679023818455098468439648703830885427985202124001384,
      48949607464471832142357253350026807543294449539853226846014425376920568515166),
     (31289081145325177665125145259138199340073876592894473723826986223032487562377,
      1206399543861676383857452661126865043602325141423385267489704971211644656572,
      34820121145040469786555372294105914336404776683208038497550224771196732864479,
      39797265132532711068835781655528511620644340839990088011558649518147696208275),
     (41212237394235837943003792631322263753125238742948497230106137442419835793170,
      9364966979750943375701483164916018049960755100856153412393552204436980069886,
      21528969863190699717435594993368761735923570830509177616243428191717177335590,
      56120550098121966777374350460004623856300026819604569410710096518549984953865),
     (13343911710383071650386103251319941486727188160695674062959148776209444546305,
      26422992792196638637491654554993083892056482457292502155594665554943706898006,
      18791391051538340766952513995087921711005254579083189981692107748760441879642,
      51359741164709013137537325328865544176086905513427271527806499812047889663896),
     (48691041226693943763188068759595903973575067366328048197681173350311052535262,
      23846529213219182708070606117248493046679218648452782178893120376452035316914,
      51489759902423377004771156771392168733093212917385619860515775336805359498037,
      45243886705483705792259106615965371325206280358480067714185388577605358557770),
     (12755242548635748920811687871744850490098800085655910658205987754758903389941,
      52846306630498159024992125725669005346338337905807305595461816865935549063040,
      33887769679449071304122000731747932895922067066338617528858276279596896340609,
      15549426061611026436610324367399796195411910373693257691366502967077204787838)]"

definition doubles_18 :: "(int \<times> int) list" where
  "doubles_18 =
    [(17279665776878985509061503287402832131092299927060323084736802279902406091845,
      3306260197984012910550852117722600455708043411683630074616054469981948222071),
     (1603252189693514200902836888633976284020425251894517618753390580396146059671,
      25411064537158601855213970699620911270833333634014082500972018180278739139406),
     (20600504367505484203057461901161784472066241766941208779371989666659434493518,
      7098305492863900506006884559307921724217379589603282693945235625946394799753),
     (40942007598391606525189171542550556186072591535757963615424431466718506100027,
      4290193919999827367609371556414440590369856465845806411492607867449813086531),
     (10508943152576879413245573085453524910451842031255108680837789725635607049744,
      42307125179916894122386605598050472809897112684365215316308456253873185423817)]"

definition row_19 :: "point_numbers list" where
  "row_19 =
    [(10508943152576879413245573085453524910451842031255108680837789725635607049744,
      42307125179916894122386605598050472809897112684365215316308456253873185423817,
      3112833070020348694674632887612813409140462914353524165671334222590222299871,
      49963983796323580263993243533601747270429038215005018188137038993379644188496),
     (57546941200806471932675080502384031751366624396347462781894051271145705636691,
      21937837156909469925727462933418638261854673883912212788172496871104710078243,
      22080273457681553520362818646421761855388088385762219204684675724091559084043,
      35273753037474837238260826834011462794680916311289143853807927770956436229867),
     (31699060218087752520170872798913339890005755134531897327085847947037879322448,
      4781227059573225284604697489163193542871368968607052731842210520136535913395,
      27043451990373105990692289376759402892308023952083784575741845461279314649134,
      43297802167190775361431300060327755513534902958440202744466964753235697703905),
     (35578474906548604629322190492535986744927873230022271446289473297853740483007,
      38987018648555448538318895726012621102036612715964140705152860371629754901156,
      16647296463001095504758888386908190189083714518877676795879265537553158820354,
      22064033465043547123973209411922987515510029466669558679095202723401857606984),
     (38264887459368654626694753427724812160935054603868494144716846769297400466309,
      29776478676831618080099704554352984161634370130915696730083799447424658227462,
      33067252800873868663304958355534823714930634271860246709319697323427256736302,
      18213381764469942747889979415053147912041961373362345660054506358121514795121),
     (34811695555814935709307177925886867804814702667583826475219434717949432849569,
      4048238751973100694543040549903249343723490551325768775838298751506687079079,
      37565449703027449360245063872371237293824956496362421713059464249556871050173,
      2581529753133646717926548316500774069740278939966992820344367378591548905283),
     (6197932999954580532039155045230697784455161010361363499986261193294234697630,
      46097849124561901146394333879622176990329029736566790489581746741422151256101,
      1196018105494822407126248235083421807058786771135907204787169608376078918499,
      7395556553591026128055411533334483534876977154959967569790706935405583914819),
     (24794464167259393807969065207870136073961627259981535987797697100423267055967,
      27626836995356306903537599882234822642491401426514411956752653356194767091874,
      21239430982072275512147208968347070657977425329783169869598084393962556441943,
      17751709787339100870783805411827834855736359370306813476521514323182264045514)]"

definition doubles_19 :: "(int \<times> int) list" where
  "doubles_19 =
    [(18388968933670730423038532679662466194727041094044865682447630165559128990185,
      31366969531515944374680028337748424705468284538110937420007479319937322716490),
     (21926981049716112996977877809627457639611289691445095337165325461747052687645,
      7001130238901181337406480340068232848747667334478599866866138006533212958216),
     (39928331414003193465574104541805305912561569898010815477573106249439896683471,
      6928194428071063405693926470819083986924596131671323649974629715273334255241),
     (2004007499212568899640847024972257222276518915814652305359330117853481912562,
      13760699813379818001621948699440995358454632119560173289455180029817859405708),
     (39617146015435595580198969827343948245008874692757989136124361602289538641745,
      21307243722378927125549305362870788504399158938616244373229681556292363661020)]"

definition row_20 :: "point_numbers list" where
  "row_20 =
    [(39617146015435595580198969827343948245008874692757989136124361602289538641745,
      21307243722378927125549305362870788504399158938616244373229681556292363661020,
      56885837457941781562472970038992446743422097347317904955514079018245209252097,
      1968866686843775686290887716911932262809511996620402674886445561697688625696),
     (1950103029395058791374901457448162556473160291285922570693941381770074035992,
      57428051607873191063471402594153952479320937548407046052682166911936461920707,
      57658419206863557613075436535890848220861111884760370824405969118734898947033,
      15968905772686977983881806756779650653743482463472703992587842753827928007808),
     (45531098528899205443642466263486352481549181295267350942582034337949275228090,
      4660966385215079150479708479155646403320850887850878158241767050550608991208,
      3212990973364207555713325006657889930223047391660007398496983246904512817433,
      34590594255374857373180179778123599895271102493005008359346757988854788405633),
     (56273616363811169895530662344694145491338023097971425937846804075699274597425,
      20007420324682690318814040859791879826605720309013055389632876535779089168907,
      50366808401555536113478294266225348686978827198878052918429968543898518694239,
      31793063369366392018526176788109382310630045962242405242932126548956172998482),
     (1207795283191252966733309153387684899343504126426808149219202638649314854078,
      33156884166496720311355433673744586679809960696141234061471367121633466762949,
      48562611479044161426853652725159758626243728420323964218969603293670881430938,
      15134820430718574935150748969692766622996082019695631978330478718742822426441),
     (10395290322260315154510620324399316161155797299418139917873352481741976642850,
      4924561404770687355153944551909891931038470188601701810683889216943960152468,
      28725203191061569053464282894766765877404304894815192989896166063181466569058,
      49620106764677144254357764836450285624785258286568784811493042268215721231542),
     (4897498707819437997725535309933053248277066291355096013609630282993307732004,
      36328251228895320529203832833227659357404617275198982911738604683707972956158,
      8360869020015027425398003561102879137274467326237743146577714236995543114909,
      1521814470643207344027360424501558815970488162307687589747651538275277540198),
     (35662292902561940479793662881921429256192976036385991077250516415610990213492,
      24112110049888802558853693714399673241547242656397687459145660293202641975714,
      21791538167017312289353922741146715340453011345869436335884971414065166801269,
      27610138471527652095047805863266559236671781287830322277167007153613044179337)]"

definition doubles_20 :: "(int \<times> int) list" where
  "doubles_20 =
    [(15669390887261996972541097573251699316363194991460993510930253774376039431216,
      6481441604434674251722151301237027149677047898677253351625433079023270820732),
     (2722968881390638976469219772442544614751530397103130960257335824061931079737,
      9417721599045751748513382216692679512054964631246943476749673742477908188722),
     (23427663464890778024067346444622556718943200713457476888478104769170624042391,
      44457564966178680015057142836551689365367193763011300229631294647466358217283),
     (23578284508170805760193573125312691893812639890759519912979700868185590011016,
      31662223357703339344075706230948549309295719547938186608589445522277417090097),
     (6721744453527085447111934514458601763104955671403590650884082188612679037303,
      7643074769017388118650120575960634283958718521128516102447523902472952490045)]"

definition row_21 :: "point_numbers list" where
  "row_21 =
    [(6721744453527085447111934514458601763104955671403590650884082188612679037303,
      7643074769017388118650120575960634283958718521128516102447523902472952490045,
      31528366601965305289940644562921318141983152131817016527053354114582450966119,
      30529205466975385714812549513861014452090337118143516453664072507857742619136),
     (41662329253638110486251795606091136297938735511114799762230848859569486029796,
      15137901443542693398011653243558591517045173726451768439300029096732885221281,
      33877699686697522655569814995013986429629494320631321959507634199066121460623,
      4851318572244298332421739462250673223859712373362991207024807491237296616580),
     (53104981668191180202166371114071678206861426533639479543903853229868005981059,
      11761632472541594865416346998558488294741790232847285688500300897279474443054,
      8744414005657438958897482888866077175551864801711842971574132884231088632498,
      39657588354742943037800960858739478142403178474532469244792314825230389197796),
     (40458879235011389872363152144400252764568659003341204771110023210842486375422,
      55050924630306276017148052356245173643488584497842180783889711223240872023320,
      35956418472906420762665207596966237239305212222240936591027805564304838588433,
      27376756698200843765690827290800801238834946608456425462872448105829514681330),
     (11426081037620647785759144744512284352460943578681056175900607140316442696190,
      22434063337973006777353756659409490564409457910658531447789493465212094853166,
      19015506516880501439135903862158418328409326541021257781129458007097206851986,
      469617881708073732594024425199495498357221244994835643021454510345727285193),
     (2427231050845422963311863624404116787241465748655446912296425494685524195642,
      34811981322559136350694038015193209626691445300664122413676275512962180523970,
      8187903791996321927987248531913643443623411611611455374871484778934619167670,
      21664555491139198432529490151795796280300901133492805662338079789727852429844),
     (37308254602377112564178086147768961703912722633046451374450519101286779225033,
      23180643014899671323745807041200641822410751279184440531481448249927416367767,
      48639578438992922634239205911494361817961086114213991466230647161304972478510,
      48389714891945979347089061882935091667679011235008385717661215760332699879825),
     (2013895308569455219786734186447753071261274947957555219773771034610945743735,
      16163344805052720135338942660884992597412638362429943416342731939284199154189,
      7320846262937598597095870749481084807870918895448980543581439781302930284037,
      34039429566064901143807674786183064757872182003111052392416094123251993040947)]"

definition doubles_21 :: "(int \<times> int) list" where
  "doubles_21 =
    [(39589652964703051311010156079938073430224213513671413038802504024600042758727,
      33092651885666017551082980031645925108353432371575483520112963503106501512510),
     (54562577767967502916953760097564354441606670697613794243953460922464355435652,
      4621653946844132742844938987227170627273714099982874117251665840039376566638),
     (18238172509766130572838371819374335860088620946317495108545814980343300822932,
      21643524156319915059511342994765532945143539962542425124476409934529155488163),
     (52480799574212018296103641750962407459123884676888167027445524858425752156689,
      14208282404154888024012111114010736524516613021305753100424949648820480726467),
     (28686246992650082172410758888313846267079339433473395280978156306621982121114,
      24583006952753961532132428873864266174953424306103943960826424495088378267078)]"

definition row_22 :: "point_numbers list" where
  "row_22 =
    [(28686246992650082172410758888313846267079339433473395280978156306621982121114,
      24583006952753961532132428873864266174953424306103943960826424495088378267078,
      55858511759155171035186662451886192650949514401803143616501468276134835673260,
      19894888738178213129913547526001517380443060205018269077878681434722593234648),
     (1694160625113090959590810823691695218321836735006141363714172290281997400731,
      29947488084473661556204448050406543093208355959794391860538451833559719897357,
      6553033477511152167753424438103890545918508083454418108807777757757847467509,
      47097512067599334136795665118823558962609348753765723891269855090758647957253),
     (44019821848944042459916905979500354368580149563214873242043820579982777479417,
      46330335272491173234029485699633960677692613273760879819245806201540266722723,
      57464547890856002161613913096396805210605492840267624623634432174523788872461,
      20877307374675550266318185091602014000598259768455838839363930559517315145119),
     (13220546983599788160856200478073169526385104514872350171792087133990157423520,
      5935817531511173174165803414967037509987447884821164118389693854887284314991,
      1955044669933773787732732485213535922569554500554643807834443986037146076,
      56040147580430708190219150539956449488737479705341009427285075043759093999455),
     (45163320849985125670456931538050017281882163598934981341553398497937944389468,
      26581424309591561637352452821673656554635899524108780926518715672302543334412,
      23511138278919726050323991693030356486143254431314050170651964038289377010478,
      51510984697108363572598805139382051883273712808290483711615433340539773786205),
     (27483898260383436270042163876958649678207654878969631367949429486858021294056,
      10291802453832064763549003488656878224950443831067973678333696142425618390550,
      44833187017994075685716409543886176837492606910711490533363654731629378572593,
      38708482813016214219269074556300147374142141486407643464431610187079396054582),
     (30360040225620604757866874465980393944844782759560419839227580863153179725288,
      38717613655784934236302176067969528980980795432353547254281655621424725294751,
      55642330237818598280585711671966521363396907038111516127466110228513581660953,
      36099570246896386339788989997104890979736554754851266526938263520258930775685),
     (32935223137074263543818116770509457361243070799404742284314591937726895274694,
      40572964689025552976168500191908054079551996545536247614646104527160179338819,
      10013174844219775179169969937068145870035890337718686305026375966992628442737,
      30642278562147956672060589358391948767090293007080571760426525253641881649321)]"

definition doubles_22 :: "(int \<times> int) list" where
  "doubles_22 =
    [(4162636603363898912802506016734676141302414346069497572792082195277430623166,
      29485708941827416286782376064401195135545585102276699998591977987442165037807),
     (584785219525950170676989274521865689357439769128629296953187445640918525891,
      12718425858699363827577874084978253374127524126829559947396777360829723782093),
     (37882208947317627261499830191132446807833795029824373210256954531113040603046,
      13795079075399559508321400535529164627214519095947643547813099448947406064111),
     (13164814998635651238619460631778212018370597159231378721179731891801191967134,
      57733395054077155839536104799605618049007161755081628201792019399522427573739),
     (33537300424657346343497423652564013470230734691730347070927077985140983694912,
      20297317707609261493161992904132314944137643379327918200774735958891930484726)]"

definition row_23 :: "point_numbers list" where
  "row_23 =
    [(33537300424657346343497423652564013470230734691730347070927077985140983694912,
      20297317707609261493161992904132314944137643379327918200774735958891930484726,
      39410472261615336299743179721829130701240338067283415880137602906932938993002,
      27530807659849847188101740647952712239550753242740479481937681435443989417878),
     (1712445337030991157750534097014308906098184665744088039081870421864274254414,
      39603638549170698688492301341788508415363148355490438531984194300384281893806,
      28387347541056969743161731260477599087813211938671199800737975337186595900477,
      16663161996360062858153625760761480812968218641057109849249994123350900429631),
     (6381785503443767620144114297211657486204963580799861750583783655814403903947,
      20731757979607750625751812771587060916698562561734502883081447364480315456441,
      52025313583540724832798345327181036305559642798567317494165088512254906501246,
      38122708291960296893500115743801102180528291713107907160238709328494235889927),
     (39962784801563873441326809151610755355101276033672772352222160399133945815860,
      21829866401582899326193242125877764585288408112776760295925053610517116532974,
      53525137850540139796087645227339376160151111749935319116901387220348487108962,
      21993803679950533918846258614949582093606395416468318806731025448221971467453),
     (18424601948440839042966911094196533300670884482543893726883298483618397474717,
      28611221637277788454653772058330188072172615061311474707959206031242261678272,
      13784576449363378278195014104381103922006818860539015066145184823692661845116,
      24501382619800186014420541803187142017511387025337194278442755416145372919720),
     (32359287579726868380064899150465475052024018867236794017832527451254926901633,
      46064498920093964071880903261317636764717015399540532315738724789916366529521,
      10333365403026583134908625158299923462963191469344860545036750155428358443353,
      19876115781360168646155648167334448488231235604753579583561638809805982419185),
     (14292104184602825567975443623685576079813764450312324439612174950093523125635,
      18531551320512548816870081860661585020434751047451492463329002345415523590677,
      31450208209894312051557338832913412698032699423359994755491733207238461421526,
      47225443130201151415498128908885275127878519103362002930859607131315207879677),
     (56905756087445646261696198955362503937839188694500188427421064841379433967588,
      47294780869389467885625327381238031010851793283310081785600860046232347313110,
      46689654877469149747511236224341221486288066733110499146557079054758722351808,
      28179676587093604580207413415238535558171770568800705719686416741727396174884)]"

definition doubles_23 :: "(int \<times> int) list" where
  "doubles_23 =
    [(14433019317592528827773217842492832521107225826321098069369329761560858171167,
      227672649292312309415764748418086519533207076911048037684098263976604341455),
     (3678591536329768490469544774394264647023667859065529436585204355656801411655,
      7825969676466478768104460439023688335146841082429203154866743267161198034783),
     (29219774217519919237616767847596595986648303461023267385024025762354624769694,
      4956209539947775781733061279772566262893608593857496887743827680501502625231),
     (12701313107394580236461066638023179145754036828323517951659941569561363932896,
      13520382171601208384746513767643911738542836919401653198664014423115357059373),
     (56823078171648598085772663355782637872944992260609085364041939753739588737728,
      31692561975737213039201399039902336539078440809090397231934767569424405132710)]"

definition row_24 :: "point_numbers list" where
  "row_24 =
    [(56823078171648598085772663355782637872944992260609085364041939753739588737728,
      31692561975737213039201399039902336539078440809090397231934767569424405132710,
      40876948891942767984726390097468522319926424365298845421691691561821767326326,
      11852089489538718050497412370591090809284399797098271593925664457585805673159),
     (30706883267303612086982069757625075162812570108514555548593066835804886025145,
      24611671225731555518716404304158770074578826637453503419459374369294566636817,
      48005060839820422219350859718306492667671510853106247104512417593365407129907,
      55463775194011380630519341519966098496461783503061503682191147761899681696535),
     (31306949676691746939928803518181906859289485501750847964509039092223836795619,
      39994308360463211255107899046030656039424983606672598251332701451220844734047,
      6642794321915277456296779679283407466170718400195511780384211460029968578827,
      48725770576057524395922610931165644107855277515890288558662755606729480475579),
     (31065058936047843983835804919410612940940253088491821236342496610802982039069,
      21984521922581157605963368307338063954142486346217685416478027709711412364335,
      44703232986687963938518426900629275320554970839714089648200942647377553343470,
      27064340452433824408075231212490175399137716169065836278056371689335065722963),
     (9474899081810698791779641326145286407816555213110704800236628957435449014844,
      41639270237107936573823460077409484955911579835488678036929073801724194493293,
      42719203519880930642343549399816822632959339270567464200189499732211610605557,
      54735226163646743872339795177233226952890802639235013584865684982131766866604),
     (50973574640609410493270269624326149133965166784517079380234151553468008543038,
      54251151608469383813245918170011875098426836063363486162523071230070020448639,
      6424653190144027037568988275508875558591517109070186392733318684874648923212,
      3235134023935946813960854593986148891597252708842439093051900113464250020957),
     (50452089066095520104533794267964660513765227922463254822592915004194200164648,
      42665858899392646292787237157687354571164889898279163983299792083082980277736,
      54302106406547357303566004724086474124806603021109030750806623627592886366874,
      5958418225845540917624462516639059268261615213494792378291789379969028156712),
     (13540720272584488710589697896042303772586080970891815907834958510026401261426,
      6647844644545942134100384468303887644593227397097106861932447091175039100860,
      31882976893936029924115801905312023736329528897244197394078603400921910187431,
      11143155699431656097381813171938507259196561272355038274301729945349223173674)]"

definition doubles_24 :: "(int \<times> int) list" where
  "doubles_24 =
    [(37082884071409217501735151535403647570992630841419959116788654210139848164120,
      31100210456026919531916348943250374513916212845570508096479695019665124044395),
     (43104885622705402498154505883974980259039242488210938263351972323294601588872,
      20426769793430046937181187186233719697257896322123931651835130211853678797137),
     (16472312606931799614462687861414478365019134565195084351702505064177113490667,
      1365701217766719994936920451083547902972126480076447240913237261518942286471),
     (3620847422797225669537487963319878510813625673143035314029197444558642153340,
      36663129096830406075171095727813040888201913791218274335237952876157861170529),
     (21247700065992815554219025084791972986877248808030368464515002979794460272553,
      51458070158873052938259919890280839110256802361532492544262098461645375229869)]"

definition row_25 :: "point_numbers list" where
  "row_25 =
    [(21247700065992815554219025084791972986877248808030368464515002979794460272553,
      51458070158873052938259919890280839110256802361532492544262098461645375229869,
      40915848133279304249301717065599502159361308619214504379065587951925414753485,
      34411454693318473194917641548200099393007202594856093974381551392238794648136),
     (4727200399183100554625069219544402678301919790150400345270606071513326148756,
      20684273387194273275095288836336166692715130933153406691326531018411456472213,
      17457845830353404567873436480192010256891779227682532036347401016005833515468,
      55253831749873871087481078525167879909605366566753564031377413485203641221260),
     (27139288877387388488808630710767817966639044493186098223684115690414826969358,
      14340157291868914488561363639847898872504938180984180773447225363959479581304,
      48517599742137450041093183501501060981753535984596613915587181928311436916779,
      46553433300454746278268638775651181960396885583457483355647779084204979704669),
     (52132666637547167612059606246458930914946916187946755358873910926782976364275,
      40893392783672181994993955864395454490492657262714029368364154330164101629252,
      27911567646974733787502960539801807308682540257723225617237091100946961079814,
      53018687486913924840789528401932501241008537824354152536303007521217706974773),
     (40300888757784454726967334645191496764606686502105499399969986520407466321365,
      1897779212821504040048731397258769059386726268493158179185867729981834910168,
      31624780136283633034036806514856161250450087610830648591343055057965078108846,
      52403596253181550773191245393206506603726209191343379133974353536431939205802),
     (28700324951400026216476624618567404104039420582600075273284917010363994386925,
      40875867299320575739499745405113333941520935377869317779759344622427569510187,
      17197665032225666821982391872834330532391780023309656801997159866397444967878,
      42897240846153953168100308322442399119284454659355470240505303327560168074834),
     (6300535672654454770422325643051677889960353963072368068998980741409539548482,
      38300027892569157518295199191178186201732957382419051583950594357662199119620,
      44744868611485192051498410007278637425795956451887053792621446445078548271658,
      27993347850580799998720137559523996852221500058853296559269918406257374348403),
     (44130962312656193681316736777417037282795875655421779491061849527126280513652,
      20965359650274633551976474322643126036995282809021778071631815437394726169405,
      27979366555347843172891210028180954920071574253202867548349508488418504618458,
      46057629397020633494619431862152748444775811169721530969241373426501460542600)]"

definition doubles_25 :: "(int \<times> int) list" where
  "doubles_25 =
    [(38783356964219415375645781364262308018092770963392205222937967533997272217041,
      22678533783332769283518066353569282344909020900274167896713555998620046295535),
     (10288109288710099540577935307677531526790485646522926317432048976807234400697,
      4364922251525628581494613500081028063970727019104336939667859836206272383453),
     (15727983632476638182451520826513661402533897723074407862301705423650622255106,
      45877133668321431389195312204756837428802659643331086295868502764495316201185),
     (28562869187466168498640582431584942987797415593409072045358731303432973060869,
      15091173290662772602690633677319909585428287065061869122681204129258476992966),
     (42927283309648938489858440040714108733714273830017326450356950579548469508884,
      54543473575794735146275611790870470923589514710523012658661070160804911695179)]"

definition row_26 :: "point_numbers list" where
  "row_26 =
    [(42927283309648938489858440040714108733714273830017326450356950579548469508884,
      54543473575794735146275611790870470923589514710523012658661070160804911695179,
      44242535408942400044811899726948176979324682583551334935470385282389280844430,
      37492465648051618533825547835386104286162333036525561762972543216307660676529),
     (41223497208033848419677838065353127762584971502159795454133407323907772150751,
      50020101900676584767605944828529012718645719221795967571473307944135551559014,
      55058017023051886977515417061814399863670353053712165884931273224783298318971,
      29906173079972555615963327355241415527690010128450560076087468576980258229034),
     (12509396436652462850734304928981518587913722775381803276364943955984654496628,
      36365145154820713388192503279178278239575943162090190704238815052357551859394,
      26011437033971789840994312202038497473381188691810149464272867595480551561556,
      16384512872641725553594613026479952045523630828675127898264729357765149905606),
     (22142604899704274564493137565107887935847164855648284903915253038944228896734,
      25718282572279657306172467384131846661936173384881834709578367936108349819539,
      44859543706953188004016231867177707468255155518402690474177173378492800538432,
      26362326195737526034043432830019985151828598431779097743765684224714008811854),
     (26394030710894363704846506764748868479164773903680637612434229081238978462887,
      5040735528984104055622739291993998239360060548628583444985034129170628070310,
      23967220163629243331264287524375510820237068601381225865384421368890396502727,
      1932470510121889203243780379128748110820960190302652482768407415690595414821),
     (497609122720541077663535626491171299566256752024240820390294487373326559896,
      27696846725928346100292996872627861853489389239314041686191784916409845770186,
      39239084774500670421566109690156712270623476497133184862540184170008838018941,
      20401445776773797312303886407915439408038615702336319596271103780895141341233),
     (1603404343057472017874532240560404368572438936373163700705950411794643390210,
      4253328318477807410696213710145684065573174896446905404711141673935047257623,
      49920835217155723637763863481759620939975030670870979663655495672598340136952,
      8984689746945486426798316813537077949789006717365780559044744836716087365430),
     (21867695104196080697733564763243153768406733247611235966313301900855056163362,
      4051499577878192203426470412530088199871857769250578212369486028191115351035,
      17337405223969274738051270922586557854518333026131383461377122593619769189328,
      34782882161546596556289583216458658636674919096893127205009667759303057339251)]"

definition doubles_26 :: "(int \<times> int) list" where
  "doubles_26 =
    [(43594231771136442136094965816583641298161020489686436999243863276263904089785,
      33051610874198922080982482604453403334859782594328968818476959913458527014793),
     (14189163930693848432445340001705335395883947071273862638638669783718072458909,
      30094033088927857442264362537016824592195079176139370639527272730208234435559),
     (32921006601579269615287127502588407560473237926026595130655884862625244837801,
      24424008761609483666573175042797410838386815567707576163479997011583271966974),
     (33962611175564665715001837609414466463402438498159316145003109237055609177953,
      27305339667428645735374322966654452619102130613795864263748104615612890625953),
     (26263959931639694400330692169560818463414943264801444284729408953118902675054,
      11376520237691535066834512360590235454557005815820698100179107657140264499670)]"

definition row_27 :: "point_numbers list" where
  "row_27 =
    [(26263959931639694400330692169560818463414943264801444284729408953118902675054,
      11376520237691535066834512360590235454557005815820698100179107657140264499670,
      14307597042713501646668046200743510395990706115675853732554150860048425275040,
      51927089703120089390827029690929960398159411892872994731820667504885558299135),
     (52462859433450377279304003075680259554001360791988052823450924276781907154091,
      53919560228411827161279988237452602262337046300343274771499110607741131528242,
      14139051721628448372660963275129009512747902488156684964156544217533077757107,
      51651609555056648992582366421136863805563130455066406645526471459425853146088),
     (5185220649248930401414524546452714247704967300251811558062859138239387739474,
      35328032195546397609074148219713731340947959949000737396615983614851573423105,
      55828544507638541219181551800551744769933680022052117146883043052455644533659,
      13258715493420286938152671904577221353757151891103545134563416862271808934372),
     (37984750708672550294251610404535830751990663490517935121539656900636223591111,
      50769658902216518272938856075288455749140505349779788100746782280510466112914,
      26031978556643413278587240051852825700538155562951815672356494067716793586773,
      36393382297814492117996974463848881225624462840981505770714647589211345724374),
     (47769557798301669845415602580097420986714841261986634167294855613108707648498,
      37854003817265867416757068891298627659515411515476548373323636381408135629043,
      36995921301985786439891494054066489952858323024716310029476019905971047821772,
      27724501848724237181100996762634437491534401682436181199862094797783916615946),
     (8449350853170339662707872130099001038359301844942901574750122124586991244487,
      38454833923813752404512302936787525990329183142941591483763444548350424440842,
      43339543180942380796285331513221429336531977804338085104357998028373036433871,
      45208987568069523015076900633721355870035632981284094394142224894259208544311),
     (56919417046600242121126449027794122978068153732622781145915629228735526587278,
      4183800199849299410528469629396842335672197337065217821458721803468192197420,
      21417255883148042304838985051358086699444153427917870866542304007921250703401,
      45551306784946747714141235726641237436378490552351256679588278572620715447566),
     (19289319815007635425155986545284122396751003794969577041759571245013752988417,
      38151005382072812000577323401751697714257554454942140857372832969779272160095,
      9005621498793332890447087179406878680089447084408584212394265654645192344655,
      57307181711103484913978958344670838160397302590097390606583589617596574352203)]"

definition doubles_27 :: "(int \<times> int) list" where
  "doubles_27 =
    [(27832854809531511662862783602714758429526164500954632379799562133232916579964,
      51418622689808890706635443146519623072625554248459772765825419210408463641599),
     (49495772910442849424074451708097707017262194806722126632275873534327354241460,
      4688470781828164278366985277933962825622285795353936395549900233168636985161),
     (12474331366584991714999019701053372545799100062343268005147684527042412626600,
      20746308809766386159238458318721613872967392788396486019368163727586869430964),
     (1354421441581127864437143372844274388062292350084805047329018238299116064940,
      4033167163859822565099887202523422255672122363891288449300509405037201589007),
     (43093427748708802199774598181106490987159779608662734295633683643907889137535,
      52276577394374451023636155017949082680533519628966003740504478768891255836379)]"

definition row_28 :: "point_numbers list" where
  "row_28 =
    [(43093427748708802199774598181106490987159779608662734295633683643907889137535,
      52276577394374451023636155017949082680533519628966003740504478768891255836379,
      20341081566195539391034753703812821369014739445374269939807889454181350372493,
      47247652363584691408596820277011469711095476638227716151186967762488710644228),
     (55379165166891391002801168634948617837103912387921734075059042369668847266722,
      14604298395329793422069648663739696515356394340097904983458848806339110571879,
      43453249193817011410931373930160958229055904017451105169076984039841816309577,
      22647078095078935588419817698139052215153319286150950538833928865994727336004),
     (47856990184934077731373643397949175676765444014860960018656975174260702836880,
      50556203749876367719361882603554600236035067248180112756444222444381366777916,
      9656559283712887062251995474149678453978663229249368870348243419334073416139,
      25076428398177164968098960792105697671644588032273029437191647425112338921268),
     (26525469702028871289846061322051319525789125275268760461898900188886379603146,
      5940522244661072692307025054626860497059167389255079698353660011465812310434,
      23062064159388218856774016897897086266943964208355884298365728972166281758197,
      18871375051439474680426824153702851465431971811652007466699300552969132877864),
     (52665095209044849841037730345764387877721281287337463926031519986378804284639,
      31732420123830062900640498955856741609301207163931533847671982270916681636597,
      55763618964994105656921826679221055314485961993690829734697770358144762681116,
      14832503386861478135682109857377779430538656604745982077047847480065169302494),
     (13123049949298131740545343876642353789576415504732073856061375852567848002269,
      8218733890358328343001268222009301051951906918687280751811119897418418925668,
      1256310792025770782262986283530086682338457920542325408175071737854414873940,
      2648165970395407789818262206110404468320277084873351910165771535925231814893),
     (48409124191227895692509760394674195021178191234699514179892083731977131094753,
      17278542960834062693233190596151284728509268686917557779107713015587300650939,
      13010173273238132530783398967999520288505334155348856316324403139089744962496,
      46435728312859535366674171722952030119881240901973328722047467651863143007812),
     (26326790572236203240231316746378233524687756347713771783654367529892553076409,
      49033607061085222021209751921454761872106177629748964146123312308918786929231,
      2517947712778360957896628299203839345276370787967929860587532663552743205576,
      55319867700761482854448149533255381014457101214407430190199094302983764106133)]"

definition doubles_28 :: "(int \<times> int) list" where
  "doubles_28 =
    [(49831265648554118747685820721973823458577493163060200746569221726630404071316,
      23077157235356914378873484756453138728644366839534587614646314572727004430125),
     (49152655319555372452785886828827469752396599742259064798778741111564452654797,
      52740450865667615695073023517436065028575728038533627196805527444393643652980),
     (37303035324417710806228205694856778879414324305008795273875467397309778274898,
      1258535555772718541888056638049710647818343934237270462674396242496019157742),
     (30758531348217361450337043610517545298754540113453746274790369766109479450015,
      24910881755874907419326692197349751587204977193176943348392000587523842645596),
     (38614399944018774841874619744567688541674234741863684524942943020139982809839,
      48505121165379922461886898336479612765388474887105860416376525215747614379707)]"

definition row_29 :: "point_numbers list" where
  "row_29 =
    [(38614399944018774841874619744567688541674234741863684524942943020139982809839,
      48505121165379922461886898336479612765388474887105860416376525215747614379707,
      46756611381111269285595117329783805397765013400277199111870658363298952756488,
      27049330572775041533432068825505239039963816317940535506022702151290148666415),
     (43853701261912455923441270531967667749246327541842191113839369684855845204765,
      8978440169569010361720241036639066180394506924802001110208426774778240008956,
      12676897299130008230975415485725003164787046905247978996990238548386996666570,
      43080019235192271044704688664225623620248662551896075136028667800902996657496),
     (54294213388916796992530374254552810828739051565564864269638570695184549243306,
      34806073630696101996150169385600326059105836379914135667729091897641236612322,
      24984413065766868326215800130473076784347895316446967958474063278842702355687,
      54930065225990695888775982827011877599302319795322323066332975587447037500893),
     (15075614662535212141904284655483705689951225045470290511230792848704538524589,
      114761194111076937557282935473476619384221079884136829997770428786603062652,
      44929224410478738818256187266510586835043997540055590037321792616337466033875,
      26125719043673408447946722554842580910799881352484915861538736212504399478291),
     (26080731034232011822526749901999204602255621532846992137094608326060772981577,
      28457520584551950046992238424199546819242020349092711371654303657175699541815,
      47159646763591840255519415413727402799550151573416398846145168520961043146574,
      42578461346099663752189215090869618477024414115659379259699218822919082365942),
     (37745862044049895782454286847811365723044920900743761870695053680390831083644,
      10726362633366381420702820501877890416282929315064193264699355758847117442855,
      12984045936171181153887267830011690080445551351201482982344119452591031472727,
      29473280646023580354453717783115197888936028111409068183159845084515374141672),
     (20695060191496869961689325035593771209504464515086761176395063989300476512231,
      23088788006841932748828159280857970369560031321096476968753640534429271784556,
      27226658486646893447990404737174290799799498568727467513598775619976632562766,
      54733537868128189133514278063082114317154490998681466439755335485655127166433),
     (29765637946262021533648645302873607328225430820154026049411436664788251001458,
      23088060584085041354655231701160444991095700435780838465688944575935942003438,
      17506451104136342892451918534064949224666607319505040764636402391005514268810,
      42256988968718436995342278459872412649336245264038301781693186965948181616405)]"

definition doubles_29 :: "(int \<times> int) list" where
  "doubles_29 =
    [(6430532214216149554950348023358696084316799088601797015209567690648516583223,
      30322201223122403826127455594300333551541257185699563395547082893827709249240),
     (17707678709431441740796312502228947141759712046994646886320995672656167807370,
      42506015023840556909185188466364193940361381177434955063535640630236822343469),
     (42310777656441672165026492471518106159156591743132589613336444801957382778138,
      37486352030118086490759872767898519986857419425356506178016422251200379369888),
     (39306634100331586063981346355324783787820955619114068241464364989442572759172,
      26711796470308455756864362514543153807575698509175159871339700746320331655254),
     (56954426116747471208845910413092754843726869969412228097941105015544087774083,
      20100745599471525771505519435781392866652528483063077894871752101396848604277)]"

definition row_30 :: "point_numbers list" where
  "row_30 =
    [(56954426116747471208845910413092754843726869969412228097941105015544087774083,
      20100745599471525771505519435781392866652528483063077894871752101396848604277,
      4025861974103212779405718742457830808754797054770773929931930887910769225338,
      49192919210657974925942560458328182177623017430917591554969689234155051080676),
     (34688921428216153576382903819757726416501152379195583866036495193216294384377,
      21313914617175234287469935171798401246488657660195938251639937621110080745645,
      11593852546398889246681086118401984471575886704721475280978545593087679641162,
      9354073337922751354146120774298764868374270373372321156112087655033660064041),
     (52206490616610799556298178050543519085579273256598487987187250099055297478077,
      29549489276967504964693125653529287505312605283055862667647586729061001070019,
      29461440705261793989499475881145339459901973887416494688513085396372631630772,
      32538674834394384287504857569134820071377500110098732361496102420609748981466),
     (3337101688891106600669488305324680819969825138025526597955892657190859958982,
      9444376760854825604934122530250103102958218766074311211742269006661497575145,
      48490666376935677934953130718931602271117705438215088670071204751527945601418,
      36813107083849184890312781224675222219385683033687294761574647040397577560033),
     (780557914690116787444133298696161019513901403268166406371943056469165994707,
      14507150295109992162561628684823624133969472422196579919864252453379469000882,
      3928332327358997782712572425611681892994505021420433134554723527714159500585,
      56115070112497356787964208620292969483000584311450673666490211381428210836113),
     (45294462303626582228033105179240404490570442207096070882998931654256441961547,
      22940062065008949731385608045881753520370685170936577583753907544690979185971,
      32584849120097026784998207596597014104040345101827618227698103193296908890986,
      52784872415327204616170712203113392355296120029896669370010374333789602628760),
     (16599730249462728452952123794097111628469739479299538052959773798556245041695,
      32414848008025980356338067527284279981814046354727916498505397567355617419377,
      38155672227040185217136966072403314679474410517273189621103401178867080493251,
      18059418119769692798332062211330292281642060219789425924983283455872741741935),
     (34889682207440803606743122710911767855267486988951914590709120766326586155489,
      6959567538469494491703860220977854996531172481386880753001984494936089967119,
      12692367452386756397255033756096370061093685937634446281512775549040931331897,
      672288438331029722902303542201606842867113017487774371147933080931643437440)]"

definition doubles_30 :: "(int \<times> int) list" where
  "doubles_30 =
    [(9925372191369641625717209887142929829113479974540003484809610544838332465070,
      45081291718892972053610960471043634902162773061177354597816898258512878818962),
     (43298818252979884458779503446001170792277737215950639946241576434297071735366,
      32885302492636357337969651944743929671217233735528765023502806038958990179839),
     (40908834010304197468160851031127877424448257579320042728715265499429596528118,
      17230079505965457121244686059484871101072114115972065439100393062802893693556),
     (43327427631895362924044267775937337724168450822941039679875606992270203484662,
      10501226826826265774465717125561499058927078924957550610636003438377880931444),
     (28957309340029271748431691920428163854179429286949309146369562153908901734992,
      7073360405764509554181692928366379897557531597896091766883325686348506217983)]"

definition row_31 :: "point_numbers list" where
  "row_31 =
    [(28957309340029271748431691920428163854179429286949309146369562153908901734992,
      7073360405764509554181692928366379897557531597896091766883325686348506217983,
      14350563363428362668753403070446508344335420098325379940543138259171264070384,
      56449159845156832713850161799398571731738147939289379270626210887147816372235),
     (48997078354922359392953681348738642700250004990005877538629618491609428197780,
      25863513099198247842095054146750661323314161723639565617568184968985048577342,
      17133998678245817752721391441789166306530241550798022778685672262047609009583,
      45534431982461101841937319876160014070997449792881885204530477877817643628528),
     (48727009449226938798786782949688171079587356038639970941115895502353315471783,
      16889851971435852416984141713087091175334692778851947236202708099625216439926,
      38724541401710256678559740569471936530254576790913652461952847290597726107905,
      29035360957139537116264487051260555781559488967968080899178393387855759279092),
     (8252325882492675836203282574191246563201979127668256093251712409656389428989,
      754573684095139660621925429558239863072517534955476989534620531841848530133,
      33572536661375569004921805075754488383867189288021443687547939389622802656662,
      56748446604653410529142252932481766033560892649818574580874258847577200107255),
     (47346081243913540532686937362547809179384790966356025094959276718954536714014,
      20281174284192995216245840438498527019079568158961348443436409672132830084000,
      40410227547729570449278558361013843123584963095392248155229714989912163861008,
      43028060104063401330693342281627204397223033380146264439538834983737522094957),
     (20217629780172396879034743205478874050759786340180573686697435077409046144912,
      50941101305785328810304983486467436306968321449516022551746728672079811077015,
      51083371696377535553271074166070954184597606090113825130360340447734661982922,
      1848384348823464643739135398947431785242734988738817972451887958728420022721),
     (31175392784226749672522496043786706273328578000764573892236343328409664925881,
      5196942811790121090415547731285154877471734257840202977326874984364850888243,
      17700524546259557417286094421919059490082690226425383612740643000279213921603,
      538945848420953187732499655896177281603047213041890627686000570370127480948),
     (11511670115306867382411757023370630910837695842168852896073617749629108581884,
      8010657498417267886809889472040664950122124268998880814255680419116282623022,
      7207970404132647572436087950850948594268869132304907179953143858948358029926,
      51038068892714026516888079640670590898767584339582049932201606041728640155721)]"

definition doubles_31 :: "(int \<times> int) list" where
  "doubles_31 =
    [(33277189743094545303882532097907929966119417837421197542108392802026778269367,
      53134630703095029691812158711319936722676724669092750862972130045271134203577),
     (28090120048100048398605124938049210595283164015013463570201052772271371382948,
      38430772676882282169835417475706422173491793070590940069745464923091167995809),
     (39097314162016990660255057714010476369904684691109364898362995863073181779078,
      34238387385703425688335445545091791060893275129803758953879391826914026502220),
     (37769465865260764488641341342657496572877821943635617017522361236405370170074,
      21524189283659296697922248818038271190802922901738131595620300666771256994818),
     (9032754135927914315177016811745082997900023602301774812431857322589330235793,
      49104936595367795208550934715440482489378982289242318180349079311408133616697)]"

section \<open>Checks\<close>

lemmas row_rules = row_ok.simps doubles_from.simps last_ConsR last_ConsL list.distinct check_rules

lemma row_0_ok: "row_ok row_0 doubles_0"
  unfolding row_0_def doubles_0_def by (simp only: row_rules)

lemma row_0_table: "table_numbers base_0 row_0"
  unfolding base_0_def row_0_def by (simp only: literal_rules)

lemma row_1_ok: "row_ok row_1 doubles_1"
  unfolding row_1_def doubles_1_def by (simp only: row_rules)

lemma row_1_table: "table_numbers base_1 row_1"
  unfolding base_1_def row_1_def by (simp only: literal_rules)

lemma row_2_ok: "row_ok row_2 doubles_2"
  unfolding row_2_def doubles_2_def by (simp only: row_rules)

lemma row_2_table: "table_numbers base_2 row_2"
  unfolding base_2_def row_2_def by (simp only: literal_rules)

lemma row_3_ok: "row_ok row_3 doubles_3"
  unfolding row_3_def doubles_3_def by (simp only: row_rules)

lemma row_3_table: "table_numbers base_3 row_3"
  unfolding base_3_def row_3_def by (simp only: literal_rules)

lemma row_4_ok: "row_ok row_4 doubles_4"
  unfolding row_4_def doubles_4_def by (simp only: row_rules)

lemma row_4_table: "table_numbers base_4 row_4"
  unfolding base_4_def row_4_def by (simp only: literal_rules)

lemma row_5_ok: "row_ok row_5 doubles_5"
  unfolding row_5_def doubles_5_def by (simp only: row_rules)

lemma row_5_table: "table_numbers base_5 row_5"
  unfolding base_5_def row_5_def by (simp only: literal_rules)

lemma row_6_ok: "row_ok row_6 doubles_6"
  unfolding row_6_def doubles_6_def by (simp only: row_rules)

lemma row_6_table: "table_numbers base_6 row_6"
  unfolding base_6_def row_6_def by (simp only: literal_rules)

lemma row_7_ok: "row_ok row_7 doubles_7"
  unfolding row_7_def doubles_7_def by (simp only: row_rules)

lemma row_7_table: "table_numbers base_7 row_7"
  unfolding base_7_def row_7_def by (simp only: literal_rules)

lemma row_8_ok: "row_ok row_8 doubles_8"
  unfolding row_8_def doubles_8_def by (simp only: row_rules)

lemma row_8_table: "table_numbers base_8 row_8"
  unfolding base_8_def row_8_def by (simp only: literal_rules)

lemma row_9_ok: "row_ok row_9 doubles_9"
  unfolding row_9_def doubles_9_def by (simp only: row_rules)

lemma row_9_table: "table_numbers base_9 row_9"
  unfolding base_9_def row_9_def by (simp only: literal_rules)

lemma row_10_ok: "row_ok row_10 doubles_10"
  unfolding row_10_def doubles_10_def by (simp only: row_rules)

lemma row_10_table: "table_numbers base_10 row_10"
  unfolding base_10_def row_10_def by (simp only: literal_rules)

lemma row_11_ok: "row_ok row_11 doubles_11"
  unfolding row_11_def doubles_11_def by (simp only: row_rules)

lemma row_11_table: "table_numbers base_11 row_11"
  unfolding base_11_def row_11_def by (simp only: literal_rules)

lemma row_12_ok: "row_ok row_12 doubles_12"
  unfolding row_12_def doubles_12_def by (simp only: row_rules)

lemma row_12_table: "table_numbers base_12 row_12"
  unfolding base_12_def row_12_def by (simp only: literal_rules)

lemma row_13_ok: "row_ok row_13 doubles_13"
  unfolding row_13_def doubles_13_def by (simp only: row_rules)

lemma row_13_table: "table_numbers base_13 row_13"
  unfolding base_13_def row_13_def by (simp only: literal_rules)

lemma row_14_ok: "row_ok row_14 doubles_14"
  unfolding row_14_def doubles_14_def by (simp only: row_rules)

lemma row_14_table: "table_numbers base_14 row_14"
  unfolding base_14_def row_14_def by (simp only: literal_rules)

lemma row_15_ok: "row_ok row_15 doubles_15"
  unfolding row_15_def doubles_15_def by (simp only: row_rules)

lemma row_15_table: "table_numbers base_15 row_15"
  unfolding base_15_def row_15_def by (simp only: literal_rules)

lemma row_16_ok: "row_ok row_16 doubles_16"
  unfolding row_16_def doubles_16_def by (simp only: row_rules)

lemma row_16_table: "table_numbers base_16 row_16"
  unfolding base_16_def row_16_def by (simp only: literal_rules)

lemma row_17_ok: "row_ok row_17 doubles_17"
  unfolding row_17_def doubles_17_def by (simp only: row_rules)

lemma row_17_table: "table_numbers base_17 row_17"
  unfolding base_17_def row_17_def by (simp only: literal_rules)

lemma row_18_ok: "row_ok row_18 doubles_18"
  unfolding row_18_def doubles_18_def by (simp only: row_rules)

lemma row_18_table: "table_numbers base_18 row_18"
  unfolding base_18_def row_18_def by (simp only: literal_rules)

lemma row_19_ok: "row_ok row_19 doubles_19"
  unfolding row_19_def doubles_19_def by (simp only: row_rules)

lemma row_19_table: "table_numbers base_19 row_19"
  unfolding base_19_def row_19_def by (simp only: literal_rules)

lemma row_20_ok: "row_ok row_20 doubles_20"
  unfolding row_20_def doubles_20_def by (simp only: row_rules)

lemma row_20_table: "table_numbers base_20 row_20"
  unfolding base_20_def row_20_def by (simp only: literal_rules)

lemma row_21_ok: "row_ok row_21 doubles_21"
  unfolding row_21_def doubles_21_def by (simp only: row_rules)

lemma row_21_table: "table_numbers base_21 row_21"
  unfolding base_21_def row_21_def by (simp only: literal_rules)

lemma row_22_ok: "row_ok row_22 doubles_22"
  unfolding row_22_def doubles_22_def by (simp only: row_rules)

lemma row_22_table: "table_numbers base_22 row_22"
  unfolding base_22_def row_22_def by (simp only: literal_rules)

lemma row_23_ok: "row_ok row_23 doubles_23"
  unfolding row_23_def doubles_23_def by (simp only: row_rules)

lemma row_23_table: "table_numbers base_23 row_23"
  unfolding base_23_def row_23_def by (simp only: literal_rules)

lemma row_24_ok: "row_ok row_24 doubles_24"
  unfolding row_24_def doubles_24_def by (simp only: row_rules)

lemma row_24_table: "table_numbers base_24 row_24"
  unfolding base_24_def row_24_def by (simp only: literal_rules)

lemma row_25_ok: "row_ok row_25 doubles_25"
  unfolding row_25_def doubles_25_def by (simp only: row_rules)

lemma row_25_table: "table_numbers base_25 row_25"
  unfolding base_25_def row_25_def by (simp only: literal_rules)

lemma row_26_ok: "row_ok row_26 doubles_26"
  unfolding row_26_def doubles_26_def by (simp only: row_rules)

lemma row_26_table: "table_numbers base_26 row_26"
  unfolding base_26_def row_26_def by (simp only: literal_rules)

lemma row_27_ok: "row_ok row_27 doubles_27"
  unfolding row_27_def doubles_27_def by (simp only: row_rules)

lemma row_27_table: "table_numbers base_27 row_27"
  unfolding base_27_def row_27_def by (simp only: literal_rules)

lemma row_28_ok: "row_ok row_28 doubles_28"
  unfolding row_28_def doubles_28_def by (simp only: row_rules)

lemma row_28_table: "table_numbers base_28 row_28"
  unfolding base_28_def row_28_def by (simp only: literal_rules)

lemma row_29_ok: "row_ok row_29 doubles_29"
  unfolding row_29_def doubles_29_def by (simp only: row_rules)

lemma row_29_table: "table_numbers base_29 row_29"
  unfolding base_29_def row_29_def by (simp only: literal_rules)

lemma row_30_ok: "row_ok row_30 doubles_30"
  unfolding row_30_def doubles_30_def by (simp only: row_rules)

lemma row_30_table: "table_numbers base_30 row_30"
  unfolding base_30_def row_30_def by (simp only: literal_rules)

lemma row_31_ok: "row_ok row_31 doubles_31"
  unfolding row_31_def doubles_31_def by (simp only: row_rules)

lemma row_31_table: "table_numbers base_31 row_31"
  unfolding base_31_def row_31_def by (simp only: literal_rules)

section \<open>The table\<close>

definition base_rows :: "(point_numbers list \<times> (int \<times> int) list) list" where
  "base_rows =
    [(row_0, doubles_0), (row_1, doubles_1), (row_2, doubles_2), (row_3, doubles_3),
     (row_4, doubles_4), (row_5, doubles_5), (row_6, doubles_6), (row_7, doubles_7),
     (row_8, doubles_8), (row_9, doubles_9), (row_10, doubles_10), (row_11, doubles_11),
     (row_12, doubles_12), (row_13, doubles_13), (row_14, doubles_14), (row_15, doubles_15),
     (row_16, doubles_16), (row_17, doubles_17), (row_18, doubles_18), (row_19, doubles_19),
     (row_20, doubles_20), (row_21, doubles_21), (row_22, doubles_22), (row_23, doubles_23),
     (row_24, doubles_24), (row_25, doubles_25), (row_26, doubles_26), (row_27, doubles_27),
     (row_28, doubles_28), (row_29, doubles_29), (row_30, doubles_30), (row_31, doubles_31)]"

text \<open>Each row continues where the one before it ends.\<close>

fun rows_ok :: "int \<times> int \<Rightarrow> (point_numbers list \<times> (int \<times> int) list) list \<Rightarrow> bool" where
  "rows_ok s [] = True"
| "rows_ok s ((es, ds) # rs) = (row_ok es ds \<and> (fst (hd es), fst (snd (hd es))) = s \<and> length es = 8 \<and> length ds = 5 \<and> rows_ok (last ds) rs)"

lemma rows_ok_multiples:
  assumes "rows_ok s rs" and "pm_of (hx (fst s)) (hx (snd s)) A" and "i < length rs" and "k < 8"
  shows "length (fst (rs ! i)) = 8 \<and> numbers_of (fst (rs ! i) ! k) (smul ((int k + 1) * 256 ^ i) A)"
  using assms(1-3)
proof (induction rs arbitrary: s A i)
  case (Cons r rs)
  obtain es ds where r: "r = (es, ds)" by (cases r)
  have o: "row_ok es ds" and h: "pm_of (hx (fst (hd es))) (hx (fst (snd (hd es)))) A" and l: "length es = 8" "length ds = 5" and rs: "rows_ok (last ds) rs"
    using Cons.prems by (auto simp: r)
  show ?case
  proof (cases i)
    case 0
    then show ?thesis using row_multiples [OF o h, of k] assms(4) l by (simp add: r)
  next
    case (Suc j)
    then have "length (fst (rs ! j)) = 8 \<and> numbers_of (fst (rs ! j) ! k) (smul ((int k + 1) * 256 ^ j) (smul 256 A))"
      using Cons.IH [OF rs row_next [OF o h l]] Cons.prems by simp
    then show ?thesis by (simp add: r Suc smul_mult [symmetric] mult.commute mult.left_commute)
  qed
qed simp

lemmas row_heads = row_0_def doubles_0_def row_1_def doubles_1_def row_2_def doubles_2_def row_3_def doubles_3_def row_4_def doubles_4_def row_5_def doubles_5_def row_6_def doubles_6_def row_7_def doubles_7_def row_8_def doubles_8_def row_9_def doubles_9_def row_10_def doubles_10_def row_11_def doubles_11_def row_12_def doubles_12_def row_13_def doubles_13_def row_14_def doubles_14_def row_15_def doubles_15_def row_16_def doubles_16_def row_17_def doubles_17_def row_18_def doubles_18_def row_19_def doubles_19_def row_20_def doubles_20_def row_21_def doubles_21_def row_22_def doubles_22_def row_23_def doubles_23_def row_24_def doubles_24_def row_25_def doubles_25_def row_26_def doubles_26_def row_27_def doubles_27_def row_28_def doubles_28_def row_29_def doubles_29_def row_30_def doubles_30_def row_31_def doubles_31_def

lemma row_lengths:
  "length row_0 = 8" "length doubles_0 = 5"
  "length row_1 = 8" "length doubles_1 = 5"
  "length row_2 = 8" "length doubles_2 = 5"
  "length row_3 = 8" "length doubles_3 = 5"
  "length row_4 = 8" "length doubles_4 = 5"
  "length row_5 = 8" "length doubles_5 = 5"
  "length row_6 = 8" "length doubles_6 = 5"
  "length row_7 = 8" "length doubles_7 = 5"
  "length row_8 = 8" "length doubles_8 = 5"
  "length row_9 = 8" "length doubles_9 = 5"
  "length row_10 = 8" "length doubles_10 = 5"
  "length row_11 = 8" "length doubles_11 = 5"
  "length row_12 = 8" "length doubles_12 = 5"
  "length row_13 = 8" "length doubles_13 = 5"
  "length row_14 = 8" "length doubles_14 = 5"
  "length row_15 = 8" "length doubles_15 = 5"
  "length row_16 = 8" "length doubles_16 = 5"
  "length row_17 = 8" "length doubles_17 = 5"
  "length row_18 = 8" "length doubles_18 = 5"
  "length row_19 = 8" "length doubles_19 = 5"
  "length row_20 = 8" "length doubles_20 = 5"
  "length row_21 = 8" "length doubles_21 = 5"
  "length row_22 = 8" "length doubles_22 = 5"
  "length row_23 = 8" "length doubles_23 = 5"
  "length row_24 = 8" "length doubles_24 = 5"
  "length row_25 = 8" "length doubles_25 = 5"
  "length row_26 = 8" "length doubles_26 = 5"
  "length row_27 = 8" "length doubles_27 = 5"
  "length row_28 = 8" "length doubles_28 = 5"
  "length row_29 = 8" "length doubles_29 = 5"
  "length row_30 = 8" "length doubles_30 = 5"
  "length row_31 = 8" "length doubles_31 = 5"
  unfolding row_heads by simp_all

lemma row_starts:
  "(fst (hd row_1), fst (snd (hd row_1))) = last doubles_0"
  "(fst (hd row_2), fst (snd (hd row_2))) = last doubles_1"
  "(fst (hd row_3), fst (snd (hd row_3))) = last doubles_2"
  "(fst (hd row_4), fst (snd (hd row_4))) = last doubles_3"
  "(fst (hd row_5), fst (snd (hd row_5))) = last doubles_4"
  "(fst (hd row_6), fst (snd (hd row_6))) = last doubles_5"
  "(fst (hd row_7), fst (snd (hd row_7))) = last doubles_6"
  "(fst (hd row_8), fst (snd (hd row_8))) = last doubles_7"
  "(fst (hd row_9), fst (snd (hd row_9))) = last doubles_8"
  "(fst (hd row_10), fst (snd (hd row_10))) = last doubles_9"
  "(fst (hd row_11), fst (snd (hd row_11))) = last doubles_10"
  "(fst (hd row_12), fst (snd (hd row_12))) = last doubles_11"
  "(fst (hd row_13), fst (snd (hd row_13))) = last doubles_12"
  "(fst (hd row_14), fst (snd (hd row_14))) = last doubles_13"
  "(fst (hd row_15), fst (snd (hd row_15))) = last doubles_14"
  "(fst (hd row_16), fst (snd (hd row_16))) = last doubles_15"
  "(fst (hd row_17), fst (snd (hd row_17))) = last doubles_16"
  "(fst (hd row_18), fst (snd (hd row_18))) = last doubles_17"
  "(fst (hd row_19), fst (snd (hd row_19))) = last doubles_18"
  "(fst (hd row_20), fst (snd (hd row_20))) = last doubles_19"
  "(fst (hd row_21), fst (snd (hd row_21))) = last doubles_20"
  "(fst (hd row_22), fst (snd (hd row_22))) = last doubles_21"
  "(fst (hd row_23), fst (snd (hd row_23))) = last doubles_22"
  "(fst (hd row_24), fst (snd (hd row_24))) = last doubles_23"
  "(fst (hd row_25), fst (snd (hd row_25))) = last doubles_24"
  "(fst (hd row_26), fst (snd (hd row_26))) = last doubles_25"
  "(fst (hd row_27), fst (snd (hd row_27))) = last doubles_26"
  "(fst (hd row_28), fst (snd (hd row_28))) = last doubles_27"
  "(fst (hd row_29), fst (snd (hd row_29))) = last doubles_28"
  "(fst (hd row_30), fst (snd (hd row_30))) = last doubles_29"
  "(fst (hd row_31), fst (snd (hd row_31))) = last doubles_30"
  unfolding row_heads by (simp_all only: list.sel prod.sel last_ConsR last_ConsL list.distinct simp_thms)

lemma base_rows_ok: "rows_ok (fst (hd row_0), fst (snd (hd row_0))) base_rows"
  unfolding base_rows_def by (simp only: rows_ok.simps row_lengths row_starts simp_thms
    row_0_ok row_1_ok row_2_ok row_3_ok row_4_ok row_5_ok row_6_ok row_7_ok row_8_ok row_9_ok row_10_ok row_11_ok row_12_ok row_13_ok row_14_ok row_15_ok row_16_ok row_17_ok row_18_ok row_19_ok row_20_ok row_21_ok row_22_ok row_23_ok row_24_ok row_25_ok row_26_ok row_27_ok row_28_ok row_29_ok row_30_ok row_31_ok)

lemma base_tables: "list_all2 (\<lambda>Es r. table_numbers Es (fst r)) base base_rows"
  unfolding base_def base_rows_def by (simp only: list.rel_inject list.rel_distinct list_all2_Nil prod.sel simp_thms
    row_0_table row_1_table row_2_table row_3_table row_4_table row_5_table row_6_table row_7_table row_8_table row_9_table row_10_table row_11_table row_12_table row_13_table row_14_table row_15_table row_16_table row_17_table row_18_table row_19_table row_20_table row_21_table row_22_table row_23_table row_24_table row_25_table row_26_table row_27_table row_28_table row_29_table row_30_table row_31_table)

text \<open>The entries of the table are the multiples of the base point.\<close>

lemma base_row_length:
  assumes "i < 32"
  shows "length (fst (base_rows ! i)) = 8"
proof -
  have "pm_of (hx (fst (hd row_0))) (hx (fst (snd (hd row_0)))) base_point"
    unfolding row_0_def list.sel prod.sel by (rule base_numbers)
  moreover have "length base_rows = 32" by (simp add: base_rows_def)
  ultimately show ?thesis using rows_ok_multiples [OF base_rows_ok, of base_point i 0] assms by simp
qed

lemma base_numbers_of:
  assumes "i < 32" and "k < 8"
  shows "numbers_of (fst (base_rows ! i) ! k) (smul ((int k + 1) * 256 ^ i) base_point)"
proof -
  have "pm_of (hx (fst (hd row_0))) (hx (fst (snd (hd row_0)))) base_point"
    unfolding row_0_def list.sel prod.sel by (rule base_numbers)
  moreover have "length base_rows = 32" by (simp add: base_rows_def)
  ultimately show ?thesis using rows_ok_multiples [OF base_rows_ok, of base_point i k] assms by simp
qed

lemma base_pre_of:
  assumes "i < 32" and "k < 8"
  shows "pre_of (base ! i ! k) (smul ((int k + 1) * 256 ^ i) base_point)"
proof -
  have "length base_rows = 32" by (simp add: base_rows_def)
  then have "table_numbers (base ! i) (fst (base_rows ! i))" using base_tables assms(1) by (auto simp: list_all2_conv_all_nth)
  then show ?thesis using table_numbers_pre_of base_numbers_of [OF assms] base_row_length assms by simp
qed

end
