(* ===== verification/Scalar_Digits.thy ===== *)
theory Scalar_Digits
  imports Field_Bytes
begin

text \<open>
  The recodings of scalars as signed digits (\<open>src/vrf/edwards25519/edwards25519.go\<close>): \<open>slide\<close>, the
  sliding window of \<open>GeDoubleScalarMultVartime\<close>, and the radix-16 digits of \<open>GeScalarMultBase\<close>. The
  digits are 8-bit signed integers that are updated in place; an array is a list of 8-bit words.
\<close>

unbundle bit_operations_syntax

type_synonym i8 = "8 word"

section \<open>\<open>slide\<close>\<close>

definition slide_bits :: "bytes \<Rightarrow> i8 list" where
  "slide_bits a = map (\<lambda>i. 1 AND drop_bit (i mod 8) (a ! (i div 8))) [0..<256]"

text \<open>The innermost loop adds one at position \<open>k\<close> and carries upwards; a carry out of the array is lost.\<close>

function slide_carry :: "i8 list \<Rightarrow> nat \<Rightarrow> i8 list" where
  "slide_carry r k = (if k < 256 then if r ! k = 0 then r[k := 1] else slide_carry (r[k := 0]) (k + 1) else r)"
  by pat_completeness auto

termination by (relation "measure (\<lambda>(r, k). 256 - k)") auto

text \<open>The loop over \<open>b\<close> for one position \<open>i\<close>; its last branch is the \<open>break\<close>.\<close>

function slide_window :: "i8 list \<Rightarrow> nat \<Rightarrow> nat \<Rightarrow> i8 list" where
  "slide_window r i b =
     (if b \<le> 6 \<and> i + b < 256 then
        if r ! (i + b) \<noteq> 0 then
          if sint (r ! i + push_bit b (r ! (i + b))) \<le> 15 then
            slide_window (r[i := r ! i + push_bit b (r ! (i + b)), i + b := 0]) i (b + 1)
          else if sint (r ! i - push_bit b (r ! (i + b))) \<ge> - 15 then
            slide_window (slide_carry (r[i := r ! i - push_bit b (r ! (i + b))]) (i + b)) i (b + 1)
          else r
        else slide_window r i (b + 1)
      else r)"
  by pat_completeness auto

termination by (relation "measure (\<lambda>(r, i, b). 7 - b)") auto

declare slide_carry.simps [simp del] slide_window.simps [simp del]

definition slide :: "bytes \<Rightarrow> i8 list" where
  "slide a = foldl (\<lambda>r i. if r ! i \<noteq> 0 then slide_window r i 1 else r) (slide_bits a) [0..<256]"

section \<open>Radix 16\<close>

definition nibbles :: "bytes \<Rightarrow> i8 list" where
  "nibbles a = concat (map (\<lambda>v. [v AND 15, drop_bit 4 v AND 15]) a)"

text \<open>The loop from the first to the last but one digit, and the last carry.\<close>

fun recode :: "i8 \<Rightarrow> i8 list \<Rightarrow> i8 list" where
  "recode c [] = []"
| "recode c [e] = [e + c]"
| "recode c (e # f # es) =
     (let e = e + c; c = signed_drop_bit 4 (e + 8) in (e - push_bit 4 c) # recode c (f # es))"

definition base_digits :: "bytes \<Rightarrow> i8 list" where
  "base_digits a = recode 0 (nibbles a)"

section \<open>The value of a list of digits\<close>

primrec digits_val :: "int \<Rightarrow> i8 list \<Rightarrow> int" where
  "digits_val B [] = 0"
| "digits_val B (d # ds) = sint d + B * digits_val B ds"

lemma digits_val_append: "digits_val B (xs @ ys) = digits_val B xs + B ^ length xs * digits_val B ys"
  by (induction xs) (simp_all add: algebra_simps)

lemma digits_val_update: "k < length r \<Longrightarrow> digits_val B (r[k := d]) = digits_val B r + (sint d - sint (r ! k)) * B ^ k"
proof -
  assume k: "k < length r"
  then have "digits_val B r = digits_val B (take k r @ r ! k # drop (Suc k) r)" by (simp add: id_take_nth_drop [symmetric])
  with k show ?thesis by (simp add: upd_conv_take_nth_drop digits_val_append algebra_simps)
qed

lemma digits_val_split: "k \<le> length r \<Longrightarrow> digits_val B r = digits_val B (take k r) + B ^ k * digits_val B (drop k r)"
  using digits_val_append [of B "take k r" "drop k r"] by (simp add: min_def)

lemma digits_val_ones: "\<forall>d \<in> set r. sint d = 1 \<Longrightarrow> digits_val 2 r = 2 ^ length r - 1"
  by (induction r) auto

lemma digits_val_zeros: "\<forall>d \<in> set r. d = 0 \<Longrightarrow> digits_val B r = 0"
  by (induction r) auto

section \<open>Small signed bytes\<close>

lemma sint_byte: "\<bar>i\<bar> < 128 \<Longrightarrow> sint (word_of_int i :: i8) = i"
  by (rule sint_of_int_range) simp_all

lemma small_shift:
  fixes x :: i8
  assumes "\<bar>sint x\<bar> \<le> 15" and "b \<le> 6"
  shows "sint (x + push_bit b 1) = sint x + 2 ^ b" and "sint (x - push_bit b 1) = sint x - 2 ^ b"
proof -
  have "(2 :: int) ^ b \<le> 2 ^ 6" using assms(2) by (intro power_increasing) simp_all
  then have "(2 :: int) ^ b \<le> 64" by simp
  moreover have "(0 :: int) < 2 ^ b" by simp
  ultimately have "\<bar>sint x + 2 ^ b\<bar> < 128" "\<bar>sint x - 2 ^ b\<bar> < 128" using assms(1) by linarith+
  then have "sint (word_of_int (sint x + 2 ^ b) :: i8) = sint x + 2 ^ b" "sint (word_of_int (sint x - 2 ^ b) :: i8) = sint x - 2 ^ b"
    by (simp_all only: sint_byte)
  then show "sint (x + push_bit b 1) = sint x + 2 ^ b" and "sint (x - push_bit b 1) = sint x - 2 ^ b"
    by (simp_all add: push_bit_1_word)
qed

section \<open>The carry and the window\<close>

lemma slide_carry_result:
  assumes "length r = 256" and "\<exists>j. k \<le> j \<and> j < 256 \<and> r ! j = 0" and "\<forall>j. k \<le> j \<and> j < 256 \<longrightarrow> r ! j = 0 \<or> r ! j = 1"
  shows "length (slide_carry r k) = 256 \<and> digits_val 2 (slide_carry r k) = digits_val 2 r + 2 ^ k
    \<and> (\<forall>j < k. slide_carry r k ! j = r ! j) \<and> (\<forall>j. k \<le> j \<and> j < 256 \<longrightarrow> slide_carry r k ! j = 0 \<or> slide_carry r k ! j = 1)
    \<and> (r ! k = 1 \<longrightarrow> slide_carry r k ! k = 0)"
  using assms
proof (induction r k rule: slide_carry.induct)
  case (1 r k)
  then have k: "k < 256" by auto
  show ?case
  proof (cases "r ! k = 0")
    case True
    with 1 k show ?thesis by (auto simp: slide_carry.simps digits_val_update nth_list_update)
  next
    case False
    with 1 k have one: "r ! k = 1" by auto
    have z: "\<exists>j. k + 1 \<le> j \<and> j < 256 \<and> r[k := 0] ! j = 0"
      using 1(3) one by (metis Suc_eq_plus1 Suc_leI le_neq_implies_less nth_list_update_neq zero_neq_one)
    have c: "slide_carry r k = slide_carry (r[k := 0]) (k + 1)" using k False by (simp add: slide_carry.simps [of r k])
    have IH: "length (slide_carry r k) = 256 \<and> digits_val 2 (slide_carry r k) = digits_val 2 (r[k := 0]) + 2 ^ (k + 1)
      \<and> (\<forall>j < k + 1. slide_carry r k ! j = r[k := 0] ! j)
      \<and> (\<forall>j. k + 1 \<le> j \<and> j < 256 \<longrightarrow> slide_carry r k ! j = 0 \<or> slide_carry r k ! j = 1)"
      unfolding c using 1(1) [OF k False _ z] 1(2,4) by (simp add: nth_list_update)
    have v: "digits_val 2 (r[k := 0]) = digits_val 2 r - 2 ^ k" using digits_val_update [of k r 2 0] k 1(2) one by simp
    have "slide_carry r k ! k = 0" using IH k 1(2) by simp
    moreover have "slide_carry r k ! j = 0 \<or> slide_carry r k ! j = 1" if "k \<le> j" "j < 256" for j
      using IH that calculation by (cases "j = k") auto
    ultimately show ?thesis using IH v by auto
  qed
qed

text \<open>
  The state of the window loop for position \<open>i\<close> and shift \<open>b\<close>: the value \<open>a\<close> of the array and its digits
  below \<open>i\<close> are kept, those above are bits, and those of the window already passed are zero.
\<close>

definition window_inv :: "int \<Rightarrow> i8 list \<Rightarrow> nat \<Rightarrow> nat \<Rightarrow> i8 list \<Rightarrow> bool" where
  "window_inv a r0 i b r \<longleftrightarrow> length r = 256 \<and> digits_val 2 r = a \<and> take i r = take i r0
     \<and> (\<forall>j. i < j \<and> j < 256 \<longrightarrow> r ! j = 0 \<or> r ! j = 1) \<and> odd (sint (r ! i)) \<and> \<bar>sint (r ! i)\<bar> \<le> 15
     \<and> (\<forall>j. i < j \<and> j < i + b \<and> j < 256 \<longrightarrow> r ! j = 0)"

lemma window_bits: "window_inv a r0 i b r \<Longrightarrow> i < j \<Longrightarrow> j < 256 \<Longrightarrow> r ! j = 0 \<or> r ! j = 1"
  by (simp add: window_inv_def)

lemma window_gap: "window_inv a r0 i b r \<Longrightarrow> i < j \<Longrightarrow> j < i + b \<Longrightarrow> j < 256 \<Longrightarrow> r ! j = 0"
  by (simp add: window_inv_def)

text \<open>No carry is lost: if all digits from \<open>i + b\<close> on were one, the value would be at least \<open>2 ^ 255\<close>.\<close>

lemma window_no_overflow:
  assumes "window_inv a r0 i b r" and "a < 2 ^ 255" and "2 * \<bar>digits_val 2 (take i r0)\<bar> \<le> 2 ^ i"
    and "1 \<le> b" and "b \<le> 4" and "i + b < 256" and "16 - 2 ^ b \<le> sint (r ! i)" and "2 ^ b - 15 \<le> sint (r ! i)"
  shows "\<exists>j. i + b \<le> j \<and> j < 256 \<and> r ! j = 0"
proof (rule ccontr)
  assume n: "\<not> (\<exists>j. i + b \<le> j \<and> j < 256 \<and> r ! j = 0)"
  have len: "length r = 256" using assms(1) by (simp add: window_inv_def)
  have "\<forall>d \<in> set (drop (i + b) r). sint d = 1"
  proof
    fix d assume "d \<in> set (drop (i + b) r)"
    then obtain j where j: "j < 256 - (i + b)" "d = r ! (i + b + j)" using len by (auto simp: in_set_conv_nth)
    then have "i + b + j < 256" by simp
    then have "r ! (i + b + j) = 0 \<or> r ! (i + b + j) = 1" "r ! (i + b + j) \<noteq> 0"
      using window_bits [OF assms(1), of "i + b + j"] assms(4) n by auto
    with j show "sint d = 1" by auto
  qed
  then have top: "digits_val 2 (drop (i + b) r) = 2 ^ (256 - (i + b)) - 1" using digits_val_ones len by fastforce
  have "\<forall>d \<in> set (take (b - 1) (drop (Suc i) r)). d = 0"
  proof
    fix d assume "d \<in> set (take (b - 1) (drop (Suc i) r))"
    then obtain j where "j < b - 1" "d = r ! (Suc i + j)" using len assms(6) by (auto simp: in_set_conv_nth)
    then show "d = 0" using window_gap [OF assms(1), of "Suc i + j"] assms(6) by simp
  qed
  then have mid: "digits_val 2 (take (b - 1) (drop (Suc i) r)) = 0" by (rule digits_val_zeros)
  have "drop i r = r ! i # drop (Suc i) r" using len assms(6) by (simp add: Cons_nth_drop_Suc)
  moreover have "digits_val 2 (drop (Suc i) r) = 2 ^ (b - 1) * digits_val 2 (drop (i + b) r)"
    using digits_val_split [of "b - 1" "drop (Suc i) r" 2] mid len assms(4,6) by (simp add: add.commute)
  ultimately have v: "digits_val 2 (drop i r) = sint (r ! i) + 2 ^ b * (2 ^ (256 - (i + b)) - 1)"
    using top assms(4) by (simp add: power_Suc [symmetric] mult.assoc [symmetric] del: power_Suc)
  have "a = digits_val 2 (take i r0) + 2 ^ i * digits_val 2 (drop i r)"
    using digits_val_split [of i r 2] assms(1,6) len by (auto simp: window_inv_def)
  also have "\<dots> = digits_val 2 (take i r0) + 2 ^ i * (sint (r ! i) + 2 ^ b * (2 ^ (256 - (i + b)) - 1))" unfolding v ..
  also have "\<dots> = digits_val 2 (take i r0) + 2 ^ i * (sint (r ! i) - 2 ^ b) + 2 ^ (i + b + (256 - (i + b)))"
    by (simp only: power_add algebra_simps)
  also have "i + b + (256 - (i + b)) = 256" using assms(6) by simp
  finally have a: "a = digits_val 2 (take i r0) + 2 ^ i * (sint (r ! i) - 2 ^ b) + 2 ^ 256" .
  have i: "(2 :: int) ^ i \<le> 2 ^ (255 - b)" using assms(6) by (intro power_increasing) simp_all
  from assms(4,5) consider "b \<le> 3" "0 \<le> sint (r ! i) - 2 ^ b" | "b = 4"
  proof -
    have "(2 :: int) ^ b \<le> 2 ^ 3" if "b \<le> 3" using that by (intro power_increasing) simp_all
    with assms(5,7) that show thesis by (cases "b = 4") auto
  qed
  then show False
  proof cases
    case 1
    have "(2 :: int) ^ (255 - b) \<le> 2 ^ 254" using assms(4) by (intro power_increasing) simp_all
    moreover have "0 \<le> 2 ^ i * (sint (r ! i) - 2 ^ b)" using 1(2) by simp
    moreover from i calculation(1) have "(2 :: int) ^ i \<le> 2 ^ 254" by (rule order_trans)
    ultimately show False using a assms(2,3) by simp
  next
    case 2
    have "2 ^ i * (- 15) \<le> 2 ^ i * (sint (r ! i) - 2 ^ b)" using assms(8) by (intro mult_left_mono) simp_all
    then show False using a assms(2,3) i 2 by simp
  qed
qed

text \<open>The three kinds of steps of the window loop.\<close>

lemma window_skip: "window_inv a r0 i b r \<Longrightarrow> r ! (i + b) = 0 \<Longrightarrow> window_inv a r0 i (b + 1) r"
  by (auto simp: window_inv_def less_Suc_eq)

lemma window_add:
  assumes "window_inv a r0 i b r" and "1 \<le> b" and "b \<le> 6" and "i + b < 256" and "r ! (i + b) = 1" and "sint (r ! i) + 2 ^ b \<le> 15"
  shows "window_inv a r0 i (b + 1) (r[i := r ! i + push_bit b 1, i + b := 0])"
proof -
  have d: "\<bar>sint (r ! i)\<bar> \<le> 15" "odd (sint (r ! i))" "length r = 256" using assms(1) by (simp_all add: window_inv_def)
  note s = small_shift(1) [OF d(1) assms(3)]
  have "even ((2 :: int) ^ b)" using assms(2) by simp
  moreover have "digits_val 2 (r[i := r ! i + push_bit b 1, i + b := 0]) = digits_val 2 r"
    using d(3) assms(2,4,5) s by (simp add: digits_val_update power_add)
  moreover have "(0 :: int) < 2 ^ b" by simp
  moreover from this have "\<bar>sint (r ! i) + 2 ^ b\<bar> \<le> 15" using d(1) assms(6) by linarith
  ultimately show ?thesis using assms d s by (auto simp: window_inv_def nth_list_update less_Suc_eq)
qed

lemma window_sub:
  assumes "window_inv a r0 i b r" and "a < 2 ^ 255" and "2 * \<bar>digits_val 2 (take i r0)\<bar> \<le> 2 ^ i"
    and "1 \<le> b" and "b \<le> 4" and "i + b < 256" and "r ! (i + b) = 1"
    and "15 < sint (r ! i) + 2 ^ b" and "- 15 \<le> sint (r ! i) - 2 ^ b"
  shows "window_inv a r0 i (b + 1) (slide_carry (r[i := r ! i - push_bit b 1]) (i + b))"
proof -
  have d: "\<bar>sint (r ! i)\<bar> \<le> 15" "odd (sint (r ! i))" "length r = 256" using assms(1) by (simp_all add: window_inv_def)
  have b: "b \<le> 6" using assms(5) by simp
  note s = small_shift(2) [OF d(1) b]
  let ?r = "r[i := r ! i - push_bit b 1]"
  have z: "\<exists>j. i + b \<le> j \<and> j < 256 \<and> ?r ! j = 0"
    using window_no_overflow [OF assms(1-6)] assms(4,8,9) by force
  have c: "\<forall>j. i + b \<le> j \<and> j < 256 \<longrightarrow> ?r ! j = 0 \<or> ?r ! j = 1" using window_bits [OF assms(1)] assms(4) by auto
  note k = slide_carry_result [of ?r "i + b", OF _ z c]
  let ?q = "slide_carry ?r (i + b)"
  have kept: "\<And>j. j < i + b \<Longrightarrow> ?q ! j = ?r ! j" and len: "length ?q = 256" and zero: "?q ! (i + b) = 0"
    and up: "\<And>j. i + b \<le> j \<Longrightarrow> j < 256 \<Longrightarrow> ?q ! j = 0 \<or> ?q ! j = 1"
    using k d(3) assms(4,7) by simp_all
  have "take i ?q = take i r" using kept len d(3) assms(6) by (intro nth_equalityI) auto
  moreover have "digits_val 2 ?r = digits_val 2 r - 2 ^ b * 2 ^ i"
    using d(3) assms(6) s by (simp add: digits_val_update)
  then have "digits_val 2 ?q = digits_val 2 r" using k d(3) by (simp add: power_add)
  moreover have "?q ! i = r ! i - push_bit b 1" using kept [of i] d(3) assms(4,6) by simp
  moreover have "even ((2 :: int) ^ b)" "(0 :: int) < 2 ^ b" using assms(4) by simp_all
  moreover from this have "\<bar>sint (r ! i) - 2 ^ b\<bar> \<le> 15" using d(1) assms(9) by linarith
  moreover have "?q ! j = 0 \<or> ?q ! j = 1" if "i < j" "j < 256" for j
    using that kept [of j] up [of j] window_bits [OF assms(1) that] by (cases "j < i + b") auto
  moreover have "?q ! j = 0" if "i < j" "j < i + (b + 1)" "j < 256" for j
    using that kept [of j] zero assms(1) by (cases "j = i + b") (auto simp: window_inv_def)
  ultimately show ?thesis using assms(1) len d(2) s by (auto simp: window_inv_def)
qed

text \<open>The window loop keeps its invariant and leaves at least four zeros behind position \<open>i\<close>.\<close>

lemma slide_window_inv:
  assumes "window_inv a r0 i b r" and "a < 2 ^ 255" and "2 * \<bar>digits_val 2 (take i r0)\<bar> \<le> 2 ^ i" and "1 \<le> b"
  shows "window_inv a r0 i 5 (slide_window r i b)"
  using assms
proof (induction r i b rule: slide_window.induct)
  case (1 r i b)
  note inv = 1(4) and small = 1(5) and L = 1(6) and b = 1(7)
  have d: "\<bar>sint (r ! i)\<bar> \<le> 15" "odd (sint (r ! i))" using inv by (simp_all add: window_inv_def)
  have stop: "window_inv a r0 i 5 r" if "5 \<le> b \<or> 256 \<le> i + b" using inv that by (auto simp: window_inv_def)
  show ?case
  proof (cases "b \<le> 6 \<and> i + b < 256")
    case False
    then have "slide_window r i b = r" by (subst slide_window.simps) (rule if_not_P)
    with False stop show ?thesis by auto
  next
    case c: True
    have p: "b = 1 \<or> b = 2 \<or> b = 3 \<or> b = 4 \<or> b = 5 \<or> b = 6" using b c by auto
    show ?thesis
    proof (cases "r ! (i + b) = 0")
      case True
      with 1(3) [OF c] c window_skip [OF inv True] small L b show ?thesis by (simp add: slide_window.simps [of r i b])
    next
      case nz: False
      then have one: "r ! (i + b) = 1" using window_bits [OF inv, of "i + b"] b c by simp
      note s = small_shift [OF d(1) conjunct1 [OF c]]
      consider (add) "sint (r ! i) + 2 ^ b \<le> 15" | (sub) "15 < sint (r ! i) + 2 ^ b" "- 15 \<le> sint (r ! i) - 2 ^ b"
        | (stop) "15 < sint (r ! i) + 2 ^ b" "sint (r ! i) - 2 ^ b < - 15" by linarith
      then show ?thesis
      proof cases
        case add
        with 1(1) [OF c nz] c window_add [OF inv b _ _ one add] small L b s one nz show ?thesis
          by (simp add: slide_window.simps [of r i b])
      next
        case sub
        then have b4: "b \<le> 4" using p d(1) by auto
        with 1(2) [OF c nz] c window_sub [OF inv small L b b4 _ one sub] small L b s one nz sub show ?thesis
          by (simp add: slide_window.simps [of r i b])
      next
        case stop
        moreover have "sint (r ! i) \<noteq> 0" using d(2) by auto
        ultimately have "5 \<le> b" using p d by auto
        with stop c s one nz \<open>5 \<le> b \<or> 256 \<le> i + b \<Longrightarrow> window_inv a r0 i 5 r\<close> show ?thesis
          by (simp add: slide_window.simps [of r i b])
      qed
    qed
  qed
qed

section \<open>The whole recoding\<close>

text \<open>A digit of the result and the distance to the next one.\<close>

definition window_digit :: "i8 \<Rightarrow> bool" where
  "window_digit d \<longleftrightarrow> d = 0 \<or> odd (sint d) \<and> \<bar>sint d\<bar> \<le> 15"

definition slide_inv :: "int \<Rightarrow> nat \<Rightarrow> i8 list \<Rightarrow> bool" where
  "slide_inv a i r \<longleftrightarrow> length r = 256 \<and> digits_val 2 r = a \<and> (\<forall>j. i \<le> j \<and> j < 256 \<longrightarrow> r ! j = 0 \<or> r ! j = 1)
     \<and> (\<forall>j < i. window_digit (r ! j) \<and> (r ! j \<noteq> 0 \<longrightarrow> (\<forall>k. j < k \<and> k \<le> j + 4 \<and> k < 256 \<longrightarrow> r ! k = 0)))
     \<and> (\<exists>z \<ge> i. (\<forall>j. i \<le> j \<and> j < z \<and> j < 256 \<longrightarrow> r ! j = 0) \<and> 2 * \<bar>digits_val 2 (take i r)\<bar> \<le> 2 ^ z)"

lemma slide_inv_skip:
  assumes "slide_inv a i r" and "i < 256" and "r ! i = 0"
  shows "slide_inv a (Suc i) r"
proof -
  obtain z where z: "i \<le> z" "\<forall>j. i \<le> j \<and> j < z \<and> j < 256 \<longrightarrow> r ! j = 0" "2 * \<bar>digits_val 2 (take i r)\<bar> \<le> 2 ^ z"
    using assms(1) by (auto simp: slide_inv_def)
  have "digits_val 2 (take (Suc i) r) = digits_val 2 (take i r)"
    using assms by (simp add: take_Suc_conv_app_nth digits_val_append slide_inv_def)
  moreover have "(2 :: int) ^ z \<le> 2 ^ max z (Suc i)" by (intro power_increasing) simp_all
  ultimately have "2 * \<bar>digits_val 2 (take (Suc i) r)\<bar> \<le> 2 ^ max z (Suc i)" using z(3) by linarith
  then have zz: "\<exists>z \<ge> Suc i. (\<forall>j. Suc i \<le> j \<and> j < z \<and> j < 256 \<longrightarrow> r ! j = 0) \<and> 2 * \<bar>digits_val 2 (take (Suc i) r)\<bar> \<le> 2 ^ z"
    using z(2) by (intro exI [of _ "max z (Suc i)"]) (auto simp: less_max_iff_disj)
  have "\<forall>j < Suc i. window_digit (r ! j) \<and> (r ! j \<noteq> 0 \<longrightarrow> (\<forall>k. j < k \<and> k \<le> j + 4 \<and> k < 256 \<longrightarrow> r ! k = 0))"
    using assms by (auto simp: slide_inv_def window_digit_def less_Suc_eq)
  moreover have "\<forall>j. Suc i \<le> j \<and> j < 256 \<longrightarrow> r ! j = 0 \<or> r ! j = 1" "length r = 256" "digits_val 2 r = a"
    using assms(1) by (simp_all add: slide_inv_def)
  ultimately show ?thesis using zz unfolding slide_inv_def by blast
qed

lemma slide_inv_window:
  assumes "slide_inv a i r" and "i < 256" and "r ! i \<noteq> 0" and "a < 2 ^ 255"
  shows "slide_inv a (Suc i) (slide_window r i 1)"
proof -
  obtain z where z: "i \<le> z" "\<forall>j. i \<le> j \<and> j < z \<and> j < 256 \<longrightarrow> r ! j = 0" "2 * \<bar>digits_val 2 (take i r)\<bar> \<le> 2 ^ z"
    using assms(1) by (auto simp: slide_inv_def)
  then have L: "2 * \<bar>digits_val 2 (take i r)\<bar> \<le> 2 ^ i" using assms(2,3) by (cases "z = i") auto
  have "window_inv a r i 1 r" using assms(1-3) by (auto simp: slide_inv_def window_inv_def)
  from slide_window_inv [OF this assms(4) L] have w: "window_inv a r i 5 (slide_window r i 1)" by simp
  let ?q = "slide_window r i 1"
  have q: "length ?q = 256" "digits_val 2 ?q = a" "take i ?q = take i r" "odd (sint (?q ! i))" "\<bar>sint (?q ! i)\<bar> \<le> 15"
    using w by (auto simp: window_inv_def)
  have same: "?q ! j = r ! j" if "j < i" for j using q(3) that by (metis nth_take)
  have "digits_val 2 (take (Suc i) ?q) = digits_val 2 (take i r) + 2 ^ i * sint (?q ! i)"
    using q assms(1,2) by (simp add: take_Suc_conv_app_nth digits_val_append slide_inv_def)
  moreover have "\<bar>2 ^ i * sint (?q ! i)\<bar> \<le> 2 ^ i * 15" using q(5) by (simp add: abs_mult)
  ultimately have "2 * \<bar>digits_val 2 (take (Suc i) ?q)\<bar> \<le> 2 ^ (i + 5)"
    using L abs_triangle_ineq [of "digits_val 2 (take i r)" "2 ^ i * sint (?q ! i)"] by (simp add: power_add)
  moreover have "?q ! j = 0" if "i < j" "j < i + 5" "j < 256" for j using window_gap [OF w that] .
  ultimately have zz: "\<exists>z \<ge> Suc i. (\<forall>j. Suc i \<le> j \<and> j < z \<and> j < 256 \<longrightarrow> ?q ! j = 0) \<and> 2 * \<bar>digits_val 2 (take (Suc i) ?q)\<bar> \<le> 2 ^ z"
    by (intro exI [of _ "i + 5"]) auto
  have "window_digit (?q ! j) \<and> (?q ! j \<noteq> 0 \<longrightarrow> (\<forall>k. j < k \<and> k \<le> j + 4 \<and> k < 256 \<longrightarrow> ?q ! k = 0))" if "j < Suc i" for j
  proof (cases "j = i")
    case True
    then show ?thesis using q(4,5) window_gap [OF w] by (auto simp: window_digit_def)
  next
    case False
    with that have j: "j < i" by simp
    then have "window_digit (r ! j)" "r ! j \<noteq> 0 \<Longrightarrow> \<forall>k. j < k \<and> k \<le> j + 4 \<and> k < 256 \<longrightarrow> r ! k = 0"
      using assms(1) by (auto simp: slide_inv_def)
    moreover from this(2) have "j + 4 < i" if "r ! j \<noteq> 0" using that assms(2,3) j by (metis linorder_not_less)
    ultimately show ?thesis using same j by auto
  qed
  then show ?thesis using q(1,2) window_bits [OF w] zz unfolding slide_inv_def by auto
qed

lemma byte_bits_val: "digits_val 2 (map (\<lambda>k. 1 AND drop_bit k v) [0..<8]) = uint (v :: byte)"
proof -
  have "digits_val 2 (map (\<lambda>k. 1 AND drop_bit k v) ks) = horner_sum of_bool 2 (map (bit (uint v)) ks)" for ks
  proof (induction ks)
    case (Cons k ks)
    have "(1 AND drop_bit k v) = of_bool (bit v k)" by (rule bit_word_eqI) (auto simp: bit_simps bit_1_iff)
    then have "sint (1 AND drop_bit k v) = of_bool (bit (uint v) k)" by (auto simp: bit_uint_iff dest: bit_imp_le_length)
    with Cons show ?case by simp
  qed simp
  then show ?thesis using horner_sum_bit_eq_take_bit [of "uint v" 8] uint_bounded [of v] by (simp add: take_bit_eq_mod)
qed

lemma slide_bits_concat:
  "map (\<lambda>i. f (i mod 8) (a ! (i div 8))) [0..<8 * length a] = concat (map (\<lambda>v. map (\<lambda>k. f k v) [0..<8]) a)"
proof (induction a)
  case (Cons v a)
  have "[0..<8 * length (v # a)] = [0..<8] @ map (\<lambda>i. i + 8) [0..<8 * length a]"
    using upt_add_eq_append [of 0 8 "8 * length a"] by (simp only: map_add_upt) (simp add: add.commute del: upt_rec_numeral)
  then have "map (\<lambda>i. f (i mod 8) ((v # a) ! (i div 8))) [0..<8 * length (v # a)]
    = map (\<lambda>i. f (i mod 8) ((v # a) ! (i div 8))) [0..<8] @ map (\<lambda>i. f (i mod 8) (a ! (i div 8))) [0..<8 * length a]"
    by (simp only: map_append map_map comp_def) simp
  also have "map (\<lambda>i. f (i mod 8) ((v # a) ! (i div 8))) [0..<8] = map (\<lambda>k. f k v) [0..<8]" by simp
  finally show ?case using Cons by simp
qed simp

lemma slide_bits_val:
  assumes "length a = 32"
  shows "digits_val 2 (slide_bits a) = le_int a" and "length (slide_bits a) = 256"
    and "\<forall>j < 256. slide_bits a ! j = 0 \<or> slide_bits a ! j = 1"
proof -
  have "slide_bits a = concat (map (\<lambda>v. map (\<lambda>k. 1 AND drop_bit k v) [0..<8]) a)"
    using slide_bits_concat [of "\<lambda>k v. 1 AND drop_bit k v" a] assms by (simp add: slide_bits_def)
  moreover have "digits_val 2 (concat (map (\<lambda>v. map (\<lambda>k. 1 AND drop_bit k v) [0..<8]) b)) = le_int b" for b
    by (induction b) (simp_all add: digits_val_append byte_bits_val del: upt_rec_numeral)
  ultimately show "digits_val 2 (slide_bits a) = le_int a" by simp
  show "length (slide_bits a) = 256" "\<forall>j < 256. slide_bits a ! j = 0 \<or> slide_bits a ! j = 1"
    by (simp_all add: slide_bits_def one_and_eq mod_2_eq_odd)
qed

lemma slide_result:
  assumes "length a = 32" and "le_int a < 2 ^ 255"
  shows "length (slide a) = 256 \<and> digits_val 2 (slide a) = le_int a
    \<and> (\<forall>j < 256. window_digit (slide a ! j) \<and> (slide a ! j \<noteq> 0 \<longrightarrow> (\<forall>k. j < k \<and> k \<le> j + 4 \<and> k < 256 \<longrightarrow> slide a ! k = 0)))"
proof -
  have "slide_inv (le_int a) n (foldl (\<lambda>r i. if r ! i \<noteq> 0 then slide_window r i 1 else r) (slide_bits a) [0..<n])"
    if "n \<le> 256" for n
    using that
  proof (induction n)
    case 0
    then show ?case using slide_bits_val [OF assms(1)] by (auto simp: slide_inv_def)
  next
    case (Suc n)
    then show ?case using slide_inv_skip [of "le_int a" n] slide_inv_window [of "le_int a" n] assms(2) by simp
  qed
  from this [of 256] show ?thesis unfolding slide_def [symmetric] by (simp add: slide_inv_def)
qed

text \<open>
  \<open>slide\<close> recodes a scalar below \<open>2 ^ 255\<close> without losing a carry and without overflow of its 8-bit
  digits: the 256 digits, read in base two, have the value of the scalar, each is zero or odd and between
  \<open>-15\<close> and \<open>15\<close>, so that it selects one of the eight precomputed odd multiples, and after every
  non-zero digit the next four are zero.
\<close>

theorem slide_recoding:
  assumes "length a = 32" and "le_int a < 2 ^ 255"
  shows "length (slide a) = 256 \<and> digits_val 2 (slide a) = le_int a
    \<and> (\<forall>j < 256. window_digit (slide a ! j) \<and> (slide a ! j \<noteq> 0 \<longrightarrow> (\<forall>k. j < k \<and> k \<le> j + 4 \<and> k < 256 \<longrightarrow> slide a ! k = 0)))"
  by (rule slide_result [OF assms])

theorem slide_recoding_witness:
  "digits_val 2 (slide (31 # replicate 31 0)) = 31 \<and> window_digit (slide (31 # replicate 31 0) ! 5)"
proof -
  have "le_int (replicate n 0) = 0" for n by (induction n) simp_all
  then have "length (31 # replicate 31 (0 :: byte)) = 32" "le_int (31 # replicate 31 0) < 2 ^ 255" "le_int (31 # replicate 31 0) = 31"
    by simp_all
  with slide_recoding [of "31 # replicate 31 0"] show ?thesis by simp
qed

section \<open>Radix 16\<close>

lemma recode_step:
  fixes e c :: i8
  assumes "0 \<le> sint e" and "sint e \<le> 15" and "sint c = 0 \<or> sint c = 1"
  defines "q \<equiv> (sint e + sint c + 8) div 16"
  shows "signed_drop_bit 4 (e + c + 8) = word_of_int q" and "q = 0 \<or> q = 1"
    and "sint (e + c - push_bit 4 (word_of_int q)) = sint e + sint c - 16 * q"
    and "- 8 \<le> sint e + sint c - 16 * q \<and> sint e + sint c - 16 * q < 8"
proof -
  have s: "e + c + 8 = word_of_int (sint e + sint c + 8)" by simp
  show "signed_drop_bit 4 (e + c + 8) = word_of_int q"
    unfolding s q_def using assms(1-3) by (subst sshift_of_int) auto
  show r: "- 8 \<le> sint e + sint c - 16 * q \<and> sint e + sint c - 16 * q < 8"
  proof -
    have "0 \<le> (sint e + sint c + 8) mod 16" "(sint e + sint c + 8) mod 16 < 16" by simp_all
    then show ?thesis unfolding q_def using mult_div_mod_eq [of 16 "sint e + sint c + 8"] by linarith
  qed
  then have "0 \<le> q" "q \<le> 1" using assms(1-3) by auto
  then show "q = 0 \<or> q = 1" by auto
  have "e + c - push_bit 4 (word_of_int q) = word_of_int (sint e + sint c - 16 * q)"
    by (simp add: push_bit_eq_mult)
  then show "sint (e + c - push_bit 4 (word_of_int q)) = sint e + sint c - 16 * q"
    using sint_byte [of "sint e + sint c - 16 * q"] r by (simp only: abs_less_iff) simp
qed

lemma recode_result:
  assumes "es \<noteq> []" and "\<forall>e \<in> set es. 0 \<le> sint e \<and> sint e \<le> 15" and "sint (last es) \<le> 7" and "sint c = 0 \<or> sint c = 1"
  shows "digits_val 16 (recode c es) = digits_val 16 es + sint c \<and> length (recode c es) = length es
    \<and> (\<forall>e \<in> set (butlast (recode c es)). - 8 \<le> sint e \<and> sint e < 8)
    \<and> 0 \<le> sint (last (recode c es)) \<and> sint (last (recode c es)) \<le> 8"
  using assms
proof (induction c es rule: recode.induct)
  case (2 c e)
  then have "sint (e + c) = sint e + sint c"
    using sint_byte [of "sint e + sint c"] by auto
  with 2 show ?case by auto
next
  case (3 c e f es)
  define q where "q = (sint e + sint c + 8) div 16"
  have e: "0 \<le> sint e" "sint e \<le> 15" using 3(3) by simp_all
  note st = recode_step [OF e 3(5), folded q_def]
  have q: "sint (word_of_int q :: i8) = q" using st(2) by auto
  let ?d = "e + c - push_bit 4 (word_of_int q)"
  have r: "recode c (e # f # es) = ?d # recode (word_of_int q) (f # es)" by (simp add: Let_def st(1))
  have n: "recode (word_of_int q) (f # es) \<noteq> []" by (cases es) (simp_all add: Let_def)
  have IH: "digits_val 16 (recode (word_of_int q) (f # es)) = digits_val 16 (f # es) + q
    \<and> length (recode (word_of_int q) (f # es)) = length (f # es)
    \<and> (\<forall>e \<in> set (butlast (recode (word_of_int q) (f # es))). - 8 \<le> sint e \<and> sint e < 8)
    \<and> 0 \<le> sint (last (recode (word_of_int q) (f # es))) \<and> sint (last (recode (word_of_int q) (f # es))) \<le> 8"
    using 3(1) [OF refl, of "word_of_int q"] 3(3,4) st(1,2) q by simp
  show ?case unfolding r using IH st(3,4) n by simp
qed simp

lemma nibble_val: "sint (v AND 15 :: i8) = uint v mod 16" "uint (drop_bit 4 (v :: i8)) mod 16 = uint v div 16"
proof -
  have n: "sint (w AND 15 :: i8) = uint w mod 16" for w
  proof -
    have "w AND 15 = take_bit 4 w" by (simp add: take_bit_eq_mask mask_eq_exp_minus_1)
    also have "\<dots> = word_of_int (uint w mod 16)"
      by (rule word_uint_eqI) (simp add: unsigned_take_bit_eq take_bit_eq_mod uint_word_of_int uint_mod_distrib)
    finally have "w AND 15 = word_of_int (uint w mod 16)" .
    moreover have "0 \<le> uint w mod 16" "uint w mod 16 < 16" by simp_all
    ultimately show ?thesis using sint_byte [of "uint w mod 16"] by simp
  qed
  show "sint (v AND 15) = uint v mod 16" by (rule n)
  have "uint (drop_bit 4 v) = uint v div 16" by (simp add: drop_bit_eq_div uint_div_distrib)
  moreover have "uint v div 16 < 16" "0 \<le> uint v div 16" using uint_bounded [of v] by (simp_all add: pos_imp_zdiv_nonneg_iff)
  ultimately show "uint (drop_bit 4 v) mod 16 = uint v div 16" by simp
qed

lemma nibbles_val:
  "digits_val 16 (nibbles a) = le_int a" "length (nibbles a) = 2 * length a" "\<forall>e \<in> set (nibbles a). 0 \<le> sint e \<and> sint e \<le> 15"
proof -
  have b: "0 \<le> uint v mod 16 \<and> uint v mod 16 \<le> 15 \<and> 0 \<le> uint v div 16 \<and> uint v div 16 \<le> 15" for v :: byte
    using uint_bounded [of v] by (auto simp: pos_imp_zdiv_nonneg_iff) 
  show "digits_val 16 (nibbles a) = le_int a" by (induction a) (simp_all add: nibbles_def nibble_val)
  show "length (nibbles a) = 2 * length a" by (induction a) (simp_all add: nibbles_def)
  show "\<forall>e \<in> set (nibbles a). 0 \<le> sint e \<and> sint e \<le> 15" using b by (auto simp: nibbles_def nibble_val)
qed

lemma le_int_last: "le_int (xs @ [b]) = le_int xs + 256 ^ length xs * uint b"
  by (induction xs) (simp_all add: algebra_simps)

text \<open>
  The digits of \<open>GeScalarMultBase\<close> recode a scalar with a cleared top bit: 64 digits with the value
  of the scalar in base 16, all but the last between \<open>-8\<close> and \<open>7\<close> and the last between \<open>0\<close> and \<open>8\<close>,
  so that each selects an entry of a table row, with no overflow of the 8-bit additions.
\<close>

theorem base_digits_recoding:
  assumes "length a = 32" and "le_int a < 2 ^ 255"
  shows "length (base_digits a) = 64 \<and> digits_val 16 (base_digits a) = le_int a
    \<and> (\<forall>i < 63. - 8 \<le> sint (base_digits a ! i) \<and> sint (base_digits a ! i) < 8)
    \<and> 0 \<le> sint (base_digits a ! 63) \<and> sint (base_digits a ! 63) \<le> 8"
proof -
  obtain b v where a: "a = b @ [v]" "length b = 31" using assms(1) by (cases a rule: rev_cases) auto
  have "256 ^ 31 * uint v < 2 ^ 255" using assms(2) le_int_bounds [of b] a le_int_last [of b v] by simp
  then have "uint v div 16 \<le> 7" by simp
  moreover have "last (nibbles a) = drop_bit 4 v AND 15" by (simp add: nibbles_def a)
  ultimately have l: "sint (last (nibbles a)) \<le> 7" by (simp add: nibble_val)
  have "nibbles a \<noteq> []" using nibbles_val(2) [of a] assms(1) by force
  note r = recode_result [OF this nibbles_val(3) l, of 0, folded base_digits_def]
  have len: "length (base_digits a) = 64" using r nibbles_val(2) [of a] assms(1) by simp
  then have "last (base_digits a) = base_digits a ! 63" by (subst last_conv_nth) auto
  moreover have "base_digits a ! i \<in> set (butlast (base_digits a))" if "i < 63" for i
    using len that nth_mem [of i "butlast (base_digits a)"] by (simp add: nth_butlast)
  ultimately show ?thesis using r len nibbles_val(1) [of a] by simp
qed

theorem base_digits_recoding_witness:
  "digits_val 16 (base_digits (replicate 31 0 @ [127])) = 127 * 256 ^ 31"
proof -
  have z: "le_int (replicate n 0 @ [127]) = 127 * 256 ^ n" for n by (induction n) simp_all
  have "length (replicate 31 0 @ [127 :: byte]) = 32" "le_int (replicate 31 0 @ [127]) < 2 ^ 255" by (simp, simp only: z, simp)
  from base_digits_recoding [OF this] show ?thesis by (simp only: z)
qed

end
