(* ===== verification/Scalar_Mult.thy ===== *)
theory Scalar_Mult
  imports Group25519 Scalar_Digits Base_Table
begin

text \<open>
  Scalar multiplication of \<open>src/vrf/edwards25519/edwards25519.go\<close>: the selection from the table in constant
  time, \<open>GeScalarMultBase\<close> and \<open>GeDoubleScalarMultVartime\<close>.
\<close>

unbundle bit_operations_syntax

section \<open>Selection\<close>

text \<open>The function \<open>equal\<close> of the source.\<close>

definition equal_i32 :: "i32 \<Rightarrow> i32 \<Rightarrow> i32" where
  "equal_i32 b c = (let x = b XOR c; x = x - 1 in drop_bit 31 x)"

definition negative :: "i32 \<Rightarrow> i32" where
  "negative b = signed_drop_bit 31 b AND 1"

definition PreComputedGroupElementCMove ::
  "PreComputedGroupElement \<Rightarrow> PreComputedGroupElement \<Rightarrow> i32 \<Rightarrow> PreComputedGroupElement" where
  "PreComputedGroupElementCMove t u b =
     \<lparr>pre_yPlusX = FeCMove (pre_yPlusX t) (pre_yPlusX u) b, pre_yMinusX = FeCMove (pre_yMinusX t) (pre_yMinusX u) b,
      pre_xy2d = FeCMove (pre_xy2d t) (pre_xy2d u) b\<rparr>"

definition selectPoint :: "nat \<Rightarrow> i32 \<Rightarrow> PreComputedGroupElement" where
  "selectPoint pos b =
     (let bNegative = negative b;
          bAbs = b - push_bit 1 ((- bNegative) AND b);
          t = foldl (\<lambda>t i. PreComputedGroupElementCMove t (base ! pos ! i) (equal_i32 bAbs (word_of_nat i + 1))) Pre_Zero [0..<8];
          minusT = \<lparr>pre_yPlusX = FeCopy (pre_yMinusX t), pre_yMinusX = FeCopy (pre_yPlusX t), pre_xy2d = FeNeg (pre_xy2d t)\<rparr>
      in PreComputedGroupElementCMove t minusT bNegative)"

section \<open>Multiplication of the base point\<close>

text \<open>One turn of the loops: the digit at \<open>i\<close> selects from row \<open>i/2\<close>.\<close>

definition add_selected :: "i8 list \<Rightarrow> ExtendedGroupElement \<Rightarrow> nat \<Rightarrow> ExtendedGroupElement" where
  "add_selected e h i = Comp_ToExtended (geMixedAdd h (selectPoint (i div 2) (scast (e ! i))))"

definition GeScalarMultBase :: "bytes \<Rightarrow> ExtendedGroupElement" where
  "GeScalarMultBase a =
     (let e = base_digits a;
          h = foldl (add_selected e) Ext_Zero (map (\<lambda>k. 2 * k + 1) [0..<32]);
          r = Ext_Double h;
          s = Comp_ToProjective r;
          r = Proj_Double s;
          s = Comp_ToProjective r;
          r = Proj_Double s;
          s = Comp_ToProjective r;
          r = Proj_Double s;
          h = Comp_ToExtended r
      in foldl (add_selected e) h (map (\<lambda>k. 2 * k) [0..<32]))"

section \<open>Two scalars\<close>

text \<open>The table \<open>Ai\<close> of \<open>A, 3A, \<dots>, 15A\<close>: \<open>n\<close> turns of the loop that fills it.\<close>

primrec odd_multiples :: "ExtendedGroupElement \<Rightarrow> CachedGroupElement \<Rightarrow> nat \<Rightarrow> CachedGroupElement list" where
  "odd_multiples A2 c 0 = [c]"
| "odd_multiples A2 c (Suc n) = c # odd_multiples A2 (Ext_ToCached (Comp_ToExtended (geAdd A2 c))) n"

text \<open>The first loop: from \<open>i - 1\<close> down, past the positions where both digits are zero; the result is the number of positions left.\<close>

primrec skip_zeros :: "i8 list \<Rightarrow> i8 list \<Rightarrow> nat \<Rightarrow> nat" where
  "skip_zeros x y 0 = 0"
| "skip_zeros x y (Suc i) = (if x ! i \<noteq> 0 \<or> y ! i \<noteq> 0 then Suc i else skip_zeros x y i)"

text \<open>One turn of the main loop at position \<open>i\<close>.\<close>

definition double_mult_step ::
  "CachedGroupElement list \<Rightarrow> i8 list \<Rightarrow> i8 list \<Rightarrow> nat \<Rightarrow> ProjectiveGroupElement \<Rightarrow> ProjectiveGroupElement" where
  "double_mult_step Ai aSlide bSlide i r =
     (let t = Proj_Double r;
          t = (if 0 < sint (aSlide ! i) then geAdd (Comp_ToExtended t) (Ai ! nat (sint (aSlide ! i) div 2))
               else if sint (aSlide ! i) < 0 then geSub (Comp_ToExtended t) (Ai ! nat (- sint (aSlide ! i) div 2))
               else t);
          t = (if 0 < sint (bSlide ! i) then geMixedAdd (Comp_ToExtended t) (bi ! nat (sint (bSlide ! i) div 2))
               else if sint (bSlide ! i) < 0 then geMixedSub (Comp_ToExtended t) (bi ! nat (- sint (bSlide ! i) div 2))
               else t)
      in Comp_ToProjective t)"

primrec double_mult_loop ::
  "CachedGroupElement list \<Rightarrow> i8 list \<Rightarrow> i8 list \<Rightarrow> nat \<Rightarrow> ProjectiveGroupElement \<Rightarrow> ProjectiveGroupElement" where
  "double_mult_loop Ai aSlide bSlide 0 r = r"
| "double_mult_loop Ai aSlide bSlide (Suc i) r = double_mult_loop Ai aSlide bSlide i (double_mult_step Ai aSlide bSlide i r)"

definition GeDoubleScalarMultVartime :: "bytes \<Rightarrow> ExtendedGroupElement \<Rightarrow> bytes \<Rightarrow> ProjectiveGroupElement" where
  "GeDoubleScalarMultVartime a A b =
     (let aSlide = slide a;
          bSlide = slide b;
          A2 = Comp_ToExtended (Ext_Double A);
          Ai = odd_multiples A2 (Ext_ToCached A) 7;
          i = skip_zeros aSlide bSlide 256
      in double_mult_loop Ai aSlide bSlide i Proj_Zero)"

section \<open>The selected entry\<close>

lemma equal_i32_small:
  assumes "uint b < 16" and "uint c < 16"
  shows "equal_i32 b c = (if b = c then 1 else 0)"
proof (cases "b = c")
  case True
  then show ?thesis by (simp add: equal_i32_def)
next
  case False
  let ?x = "b XOR c"
  have "uint ?x < 2 ^ 4" unfolding uint_xor by (rule XOR_upper) (use assms in simp_all)
  moreover have "?x \<noteq> 0" using False by (metis xor.assoc xor_self_eq xor.right_neutral xor.left_neutral)
  then have "0 < uint ?x" by (metis uint_nonnegative uint_0_iff order_le_less)
  ultimately have "uint (?x - 1) < 2 ^ 31" by (simp add: uint_minus_simple_alt [THEN iffD1] uint_sub_if')
  then have "uint (drop_bit 31 (?x - 1)) = 0" by (simp add: drop_bit_eq_div uint_div_distrib zdiv_eq_0_iff)
  then show ?thesis using False by (simp add: equal_i32_def uint_0_iff)
qed

lemma negative_abs:
  shows "negative b = (if sint b < 0 then 1 else 0)"
    and "b - push_bit 1 ((- negative b) AND b) = word_of_int \<bar>sint b\<bar>"
proof -
  have "sint b div 2 ^ 31 = (if sint b < 0 then - 1 else 0)"
    using sint_greater_eq [of b] sint_less [of b] by (auto simp: div_eq_minus1 zdiv_eq_0_iff) 
  then have "signed_drop_bit 31 b = (if sint b < 0 then - 1 else 0)"
    using arg_cong [OF sint_signed_drop_bit_eq [of 31 b], of "word_of_int :: int \<Rightarrow> i32"] by (simp add: drop_bit_eq_div)
  then show n: "negative b = (if sint b < 0 then 1 else 0)" by (simp add: negative_def)
  show "b - push_bit 1 ((- negative b) AND b) = word_of_int \<bar>sint b\<bar>"
    unfolding n by (simp add: push_bit_eq_mult mult_2)
qed

lemma CMove_cases: "PreComputedGroupElementCMove t u 1 = u" "PreComputedGroupElementCMove t u 0 = t"
  by (simp_all add: PreComputedGroupElementCMove_def FeCMove_correct)

lemma select_loop:
  assumes "k \<le> 8" and "n \<le> 8"
  shows "foldl (\<lambda>t i. PreComputedGroupElementCMove t (row ! i) (equal_i32 (word_of_nat k) (word_of_nat i + 1))) Pre_Zero [0..<n]
    = (if 0 < k \<and> k \<le> n then row ! (k - 1) else Pre_Zero)"
  using assms(2)
proof (induction n)
  case (Suc n)
  have w: "word_of_nat n + 1 = (word_of_nat (Suc n) :: i32)" by simp
  have u: "uint (word_of_nat m :: i32) = int m" if "m < 16" for m
    using that by (simp add: unsigned_of_nat take_bit_eq_mod)
  have "equal_i32 (word_of_nat k) (word_of_nat (Suc n)) = (if (word_of_nat k :: i32) = word_of_nat (Suc n) then 1 else 0)"
    using u [of k] u [of "Suc n"] Suc(2) assms(1) by (intro equal_i32_small) simp_all
  also have "(word_of_nat k :: i32) = word_of_nat (Suc n) \<longleftrightarrow> k = Suc n"
    using u [of k] u [of "Suc n"] Suc(2) assms(1) by (auto dest!: arg_cong [of _ _ uint])
  finally have "equal_i32 (word_of_nat k) (word_of_nat n + 1) = (if k = Suc n then 1 else 0)" by (simp only: w)
  then show ?case using Suc by (auto simp: CMove_cases)
qed auto

definition neg_pre :: "PreComputedGroupElement \<Rightarrow> PreComputedGroupElement" where
  "neg_pre q = \<lparr>pre_yPlusX = pre_yMinusX q, pre_yMinusX = pre_yPlusX q, pre_xy2d = FeNeg (pre_xy2d q)\<rparr>"

lemma neg_pre_at: "pre_at q a \<Longrightarrow> pre_at (neg_pre q) (neg_point a)"
  using rep_neg [of 3 "pre_xy2d q"] by (cases a) (auto simp: pre_at_def neg_pre_def neg_point_def)

text \<open>
  The selection without branches gives the entry that a digit names. For every digit from \<open>-8\<close> to \<open>8\<close>,
  \<open>selectPoint\<close> returns the neutral element for zero, the entry \<open>b - 1\<close> of the row for a positive \<open>b\<close>, and for a
  negative \<open>b\<close> the entry \<open>-b - 1\<close> with its coordinates swapped and its product negated, which stands for
  the negated point.
\<close>

theorem selectPoint_entry:
  assumes "\<bar>sint b\<bar> \<le> 8"
  shows "selectPoint pos b =
      (if sint b = 0 then Pre_Zero else if 0 < sint b then base ! pos ! (nat (sint b) - 1)
       else neg_pre (base ! pos ! (nat (- sint b) - 1)))
    \<and> (sint b < 0 \<and> pre_at (base ! pos ! (nat (- sint b) - 1)) a \<longrightarrow> pre_at (selectPoint pos b) (neg_point a))"
proof -
  have a: "b - push_bit 1 ((- negative b) AND b) = word_of_nat (nat \<bar>sint b\<bar>)" unfolding negative_abs(2) by simp
  have n: "nat \<bar>sint b\<bar> \<le> 8" using assms by simp
  let ?t = "if 0 < nat \<bar>sint b\<bar> \<and> nat \<bar>sint b\<bar> \<le> 8 then base ! pos ! (nat \<bar>sint b\<bar> - 1) else Pre_Zero"
  have "selectPoint pos b = PreComputedGroupElementCMove ?t (neg_pre ?t) (negative b)"
    unfolding selectPoint_def Let_def a select_loop [OF n order_refl] by (simp add: neg_pre_def FeCopy_def)
  then have "selectPoint pos b =
      (if sint b = 0 then Pre_Zero else if 0 < sint b then base ! pos ! (nat (sint b) - 1)
       else neg_pre (base ! pos ! (nat (- sint b) - 1)))"
    using n by (auto simp: negative_abs(1) CMove_cases)
  then show ?thesis using neg_pre_at by auto
qed

theorem selectPoint_entry_witness:
  "selectPoint 3 (- 8) = neg_pre (base ! 3 ! 7) \<and> selectPoint 3 0 = Pre_Zero"
  using selectPoint_entry [of "- 8" 3] selectPoint_entry [of 0 3] by simp

end
