(* ===== verification/Curve_Scalar.thy ===== *)
theory Curve_Scalar
  imports Base_Rows Scalar_Mult
begin

text \<open>
  Scalar multiplication in the group of the curve: \<open>GeDoubleScalarMultVartime\<close> computes \<open>a A + b B\<close> for the base point \<open>B\<close>,
  and \<open>GeScalarMultBase\<close> the multiple of the base point by adding entries of its table.
\<close>

section \<open>Odd multiples\<close>

lemma length_odd_multiples [simp]: "length (odd_multiples A2 c n) = Suc n"
  by (induction n arbitrary: c) simp_all

lemma odd_multiples_of:
  assumes "ext_of A2 (smul 2 A)" and "cached_of c C" and "j \<le> n"
  shows "cached_of (odd_multiples A2 c n ! j) (C + smul (2 * int j) A)"
  using assms(2,3)
proof (induction n arbitrary: c C j)
  case (Suc n)
  show ?case
  proof (cases j)
    case (Suc k)
    have c: "cached_of (Ext_ToCached (Comp_ToExtended (geAdd A2 c))) (smul 2 A + C)"
      by (rule Ext_ToCached_at [OF Comp_ToExtended_at [OF geAdd_of [OF assms(1) Suc.prems(1)]]])
    have e: "smul 2 A + C + smul (2 * int k) A = C + smul (2 * int j) A"
      by (simp add: Suc distrib_left smul_add ac_simps)
    show ?thesis using Suc.IH [OF c, of k] Suc.prems(2) unfolding e by (simp add: Suc)
  qed (use Suc.prems in simp)
qed simp

section \<open>Two scalars\<close>

lemma window_index:
  assumes "window_digit x" and "x \<noteq> 0"
  shows "nat (\<bar>sint x\<bar> div 2) < 8" and "2 * int (nat (\<bar>sint x\<bar> div 2)) + 1 = \<bar>sint x\<bar>"
proof -
  have o: "odd (sint x)" "\<bar>sint x\<bar> \<le> 15" using assms by (auto simp: window_digit_def)
  then have "odd \<bar>sint x\<bar>" by simp
  then have "\<bar>sint x\<bar> mod 2 = 1" by (simp only: odd_iff_mod_2_eq_one)
  then have e: "2 * (\<bar>sint x\<bar> div 2) + 1 = \<bar>sint x\<bar>" using mult_div_mod_eq [of 2 "\<bar>sint x\<bar>"] by simp
  then show "2 * int (nat (\<bar>sint x\<bar> div 2)) + 1 = \<bar>sint x\<bar>" by simp
  show "nat (\<bar>sint x\<bar> div 2) < 8" using e o(2) by linarith
qed

text \<open>One of the two conditional additions of a turn: the digit times the point whose odd multiples a table holds.\<close>

lemma digit_step:
  assumes t: "comp_of t R" and x: "window_digit x"
    and add: "\<And>j. j < 8 \<Longrightarrow> comp_of (f j) (R + smul (2 * int j + 1) A)"
    and sub: "\<And>j. j < 8 \<Longrightarrow> comp_of (g j) (R - smul (2 * int j + 1) A)"
  shows "comp_of (if 0 < sint x then f (nat (sint x div 2)) else if sint x < 0 then g (nat (- sint x div 2)) else t)
    (R + smul (sint x) A)"
proof (cases "x = 0")
  case False
  note w = window_index [OF x False]
  show ?thesis
  proof (cases "0 < sint x")
    case True
    then show ?thesis using add [OF w(1)] w(2) by simp
  next
    case neg: False
    moreover have "sint x \<noteq> 0" using False by (simp only: signed_eq_0_iff not_False_eq_True)
    ultimately have n: "sint x < 0" by simp
    then have "comp_of (g (nat (- sint x div 2))) (R - smul (- sint x) A)" using sub [OF w(1)] w(2) by simp
    with n show ?thesis by (simp add: smul_minus)
  qed
qed (use t in simp)

lemma double_mult_step_of:
  assumes "proj_of r R" and "window_digit (a ! i)" and "window_digit (b ! i)"
    and Ai: "\<And>j. j < 8 \<Longrightarrow> cached_of (Ai ! j) (smul (2 * int j + 1) A)"
  shows "proj_of (double_mult_step Ai a b i r) (smul 2 R + smul (sint (a ! i)) A + smul (sint (b ! i)) base_point)"
proof -
  have t: "comp_of (Proj_Double r) (smul 2 R)" unfolding smul_2 by (rule Proj_Double_of [OF assms(1)])
  note e = Comp_ToExtended_at [OF t]
  have u: "comp_of (if 0 < sint (a ! i) then geAdd (Comp_ToExtended (Proj_Double r)) (Ai ! nat (sint (a ! i) div 2))
      else if sint (a ! i) < 0 then geSub (Comp_ToExtended (Proj_Double r)) (Ai ! nat (- sint (a ! i) div 2)) else Proj_Double r)
      (smul 2 R + smul (sint (a ! i)) A)"
    (is "comp_of ?u _")
    by (rule digit_step [OF t assms(2), of "\<lambda>j. geAdd (Comp_ToExtended (Proj_Double r)) (Ai ! j)" A
          "\<lambda>j. geSub (Comp_ToExtended (Proj_Double r)) (Ai ! j)"]) (blast intro: geAdd_of geSub_of e Ai)+
  note f = Comp_ToExtended_at [OF u]
  have "comp_of (if 0 < sint (b ! i) then geMixedAdd (Comp_ToExtended ?u) (bi ! nat (sint (b ! i) div 2))
      else if sint (b ! i) < 0 then geMixedSub (Comp_ToExtended ?u) (bi ! nat (- sint (b ! i) div 2)) else ?u)
      (smul 2 R + smul (sint (a ! i)) A + smul (sint (b ! i)) base_point)"
    by (rule digit_step [OF u assms(3), of "\<lambda>j. geMixedAdd (Comp_ToExtended ?u) (bi ! j)" base_point
          "\<lambda>j. geMixedSub (Comp_ToExtended ?u) (bi ! j)"]) (blast intro: geMixedAdd_of geMixedSub_of f bi_pre_of)+
  then show ?thesis unfolding double_mult_step_def Let_def by (rule Comp_ToProjective_at)
qed

lemma digits_val_take_Suc: "i < length a \<Longrightarrow> digits_val B (take (Suc i) a) = digits_val B (take i a) + B ^ i * sint (a ! i)"
  by (simp add: take_Suc_conv_app_nth digits_val_append)

lemma double_mult_loop_of:
  assumes Ai: "\<And>j. j < 8 \<Longrightarrow> cached_of (Ai ! j) (smul (2 * int j + 1) A)"
    and "\<forall>j < n. window_digit (a ! j) \<and> window_digit (b ! j)" and "n \<le> length a" and "n \<le> length b" and "proj_of r R"
  shows "proj_of (double_mult_loop Ai a b n r)
    (smul (2 ^ n) R + smul (digits_val 2 (take n a)) A + smul (digits_val 2 (take n b)) base_point)"
  using assms(2-5)
proof (induction n arbitrary: r R)
  case (Suc n)
  let ?R = "smul 2 R + smul (sint (a ! n)) A + smul (sint (b ! n)) base_point"
  have "proj_of (double_mult_step Ai a b n r) ?R" using double_mult_step_of [OF Suc.prems(4) _ _ Ai] Suc.prems(1) by simp
  from Suc.IH [OF _ _ _ this] Suc.prems(1-3)
  have "proj_of (double_mult_loop Ai a b (Suc n) r)
      (smul (2 ^ n) ?R + smul (digits_val 2 (take n a)) A + smul (digits_val 2 (take n b)) base_point)" by simp
  also have "smul (2 ^ n) ?R + smul (digits_val 2 (take n a)) A + smul (digits_val 2 (take n b)) base_point
      = smul (2 ^ Suc n) R + smul (digits_val 2 (take (Suc n) a)) A + smul (digits_val 2 (take (Suc n) b)) base_point"
  proof -
    have "smul (2 ^ n) ?R = smul (2 ^ Suc n) R + smul (2 ^ n * sint (a ! n)) A + smul (2 ^ n * sint (b ! n)) base_point"
      by (simp only: smul_plus smul_mult [symmetric] power_Suc2)
    then show ?thesis
      using Suc.prems(2,3) by (simp only: digits_val_take_Suc [OF Suc_le_lessD] smul_add) (simp only: ac_simps)
  qed
  finally show ?case .
qed simp

lemma skip_zeros_rest: "skip_zeros x y n \<le> n" "skip_zeros x y n \<le> j \<Longrightarrow> j < n \<Longrightarrow> x ! j = 0 \<and> y ! j = 0"
  by (induction n) (auto simp: less_Suc_eq split: if_splits)

lemma digits_val_skip:
  assumes "n \<le> length x" and "\<And>j. n \<le> j \<Longrightarrow> j < length x \<Longrightarrow> x ! j = 0"
  shows "digits_val B (take n x) = digits_val B x"
proof -
  have "digits_val B (drop n x) = 0" using assms by (intro digits_val_zeros) (auto simp: in_set_conv_nth)
  then show ?thesis using digits_val_split [OF assms(1), of B] by simp
qed

lemma GeDoubleScalarMultVartime_of:
  assumes "length a = 32" and "le_int a < 2 ^ 255" and "length b = 32" and "le_int b < 2 ^ 255" and "ext_of P A"
  shows "proj_of (GeDoubleScalarMultVartime a P b) (smul (le_int a) A + smul (le_int b) base_point)"
proof -
  define n where "n = skip_zeros (slide a) (slide b) 256"
  note sa = slide_result [OF assms(1,2)] and sb = slide_result [OF assms(3,4)]
  have n: "n \<le> 256" "\<And>j. n \<le> j \<Longrightarrow> j < 256 \<Longrightarrow> slide a ! j = 0 \<and> slide b ! j = 0"
    unfolding n_def using skip_zeros_rest(1) skip_zeros_rest(2) [of "slide a" "slide b" 256] by blast+
  have A2: "ext_of (Comp_ToExtended (Ext_Double P)) (smul 2 A)"
    unfolding smul_2 by (rule Comp_ToExtended_at [OF Ext_Double_of [OF assms(5)]])
  have Ai: "cached_of (odd_multiples (Comp_ToExtended (Ext_Double P)) (Ext_ToCached P) 7 ! j) (smul (2 * int j + 1) A)" if "j < 8" for j
    using odd_multiples_of [OF A2 Ext_ToCached_at [OF assms(5)], of j 7] that by (simp add: smul_add add.commute)
  have "digits_val 2 (take n (slide a)) = le_int a" "digits_val 2 (take n (slide b)) = le_int b"
    using digits_val_skip [of n "slide a" 2] digits_val_skip [of n "slide b" 2] sa sb n by simp_all
  with double_mult_loop_of [OF Ai _ _ _ zero_of(1), of n "slide a" "slide b"] sa sb n(1)
  show ?thesis unfolding GeDoubleScalarMultVartime_def Let_def n_def [symmetric] by simp
qed

text \<open>
  C40: \<open>GeDoubleScalarMultVartime\<close> computes \<open>a A + b B\<close>, where \<open>B\<close> is the base point: for every point and all scalars below
  \<open>2 ^ 255\<close>, through the recoding into windows, the two tables of odd multiples and the loop of doublings, the
  result stands for that element of the group of the curve.
\<close>

theorem double_scalar_mult:
  assumes "length a = 32" and "le_int a < 2 ^ 255" and "length b = 32" and "le_int b < 2 ^ 255" and "ext_of P A"
  shows "proj_of (GeDoubleScalarMultVartime a P b) (smul (le_int a) A + smul (le_int b) base_point)
    \<and> Proj_ToBytes (GeDoubleScalarMultVartime a P b) = encode_point (affine (smul (le_int a) A + smul (le_int b) base_point))"
  using GeDoubleScalarMultVartime_of [OF assms] Proj_ToBytes_at by blast

theorem double_scalar_mult_witness:
  "proj_of (GeDoubleScalarMultVartime (7 # replicate 31 0) order_four (9 # replicate 31 0)) (smul 7 four_torsion + smul 9 base_point)"
proof -
  have "le_int (replicate n 0) = 0" for n by (induction n) simp_all
  then have v: "le_int (7 # replicate 31 0) = 7" "le_int (9 # replicate 31 0) = 9" by simp_all
  have "ext_of order_four four_torsion" using order_four_facts by (simp add: affine_four_torsion)
  from double_scalar_mult [OF _ _ _ _ this, of "7 # replicate 31 0" "9 # replicate 31 0"] show ?thesis unfolding v by simp
qed

section \<open>Multiplication of the base point\<close>

text \<open>The entries of the table that the digits of a scalar select are the multiples of the base point they stand for.\<close>

lemma selectPoint_of:
  assumes "i < 64" and "\<bar>sint (e ! i :: i8)\<bar> \<le> 8"
  shows "pre_of (selectPoint (i div 2) (scast (e ! i))) (smul (sint (e ! i) * 256 ^ (i div 2)) base_point)"
proof (cases "e ! i = 0")
  case True
  then show ?thesis using selectPoint_entry [of 0 "i div 2"] zero_of(3) by simp
next
  case False
  have s: "sint (scast (e ! i) :: i32) = sint (e ! i)" by (rule sint_up_scast) (simp add: is_up)
  have sel: "selectPoint (i div 2) (scast (e ! i)) = (if sint (e ! i) = 0 then Pre_Zero
      else if 0 < sint (e ! i) then base ! (i div 2) ! (nat (sint (e ! i)) - 1) else neg_pre (base ! (i div 2) ! (nat (- sint (e ! i)) - 1)))"
    using selectPoint_entry [of "scast (e ! i)" "i div 2"] assms(2) unfolding s by blast
  have "sint (e ! i) \<noteq> 0" using False by (simp only: signed_eq_0_iff not_False_eq_True)
  then consider "0 < sint (e ! i)" | "sint (e ! i) < 0" by linarith
  then show ?thesis
  proof cases
    case 1
    then show ?thesis using base_pre_of [of "i div 2" "nat (sint (e ! i)) - 1"] assms by (simp add: sel of_nat_diff)
  next
    case 2
    then have "pre_of (base ! (i div 2) ! (nat (- sint (e ! i)) - 1)) (smul (- sint (e ! i) * 256 ^ (i div 2)) base_point)"
      using base_pre_of [of "i div 2" "nat (- sint (e ! i)) - 1"] assms by (simp add: of_nat_diff)
    from neg_pre_at [OF this] show ?thesis using 2 by (simp add: sel uminus_curve25519.rep_eq [symmetric] smul_minus [symmetric])
  qed
qed

lemma add_selected_of:
  assumes "\<forall>i < 64. \<bar>sint (e ! i)\<bar> \<le> 8" and "ext_of h (smul n base_point)" and "\<forall>i \<in> set is. i < 64"
  shows "ext_of (foldl (add_selected e) h is) (smul (n + (\<Sum>i \<leftarrow> is. sint (e ! i) * 256 ^ (i div 2))) base_point)"
  using assms(2,3)
proof (induction "is" arbitrary: h n)
  case (Cons i "is")
  have "pre_of (selectPoint (i div 2) (scast (e ! i))) (smul (sint (e ! i) * 256 ^ (i div 2)) base_point)"
    using selectPoint_of assms(1) Cons.prems(2) by simp
  from Comp_ToExtended_at [OF geMixedAdd_of [OF Cons.prems(1) this]]
  have "ext_of (add_selected e h i) (smul (n + sint (e ! i) * 256 ^ (i div 2)) base_point)" by (simp only: add_selected_def smul_add)
  from Cons.IH [OF this] Cons.prems(2) show ?case by (simp add: add.assoc)
qed simp

lemma digits_val_sum: "digits_val B xs = (\<Sum>i < length xs. sint (xs ! i) * B ^ i)"
proof (induction xs)
  case (Cons x xs)
  have "(\<Sum>i < length (x # xs). sint ((x # xs) ! i) * B ^ i) = sint x + (\<Sum>i < length xs. sint (xs ! i) * B ^ Suc i)"
    by (simp only: length_Cons sum.lessThan_Suc_shift nth_Cons_0 nth_Cons_Suc power_0 mult_1_right)
  also have "\<dots> = sint x + B * (\<Sum>i < length xs. sint (xs ! i) * B ^ i)" by (simp add: sum_distrib_left mult.left_commute)
  finally show ?case using Cons by simp
qed simp

text \<open>The digits in pairs, as the two loops take them.\<close>

lemma digits_val_pairs:
  assumes "length e = 64"
  shows "digits_val 16 e = 16 * (\<Sum>i \<leftarrow> map (\<lambda>k. 2 * k + 1) [0..<32]. sint (e ! i) * 256 ^ (i div 2))
    + (\<Sum>i \<leftarrow> map (\<lambda>k. 2 * k) [0..<32]. sint (e ! i) * 256 ^ (i div 2))"
proof -
  have g: "(\<Sum>i < 32 * 2. f i) = (\<Sum>k < 32. f (2 * k) + f (2 * k + 1))" for f :: "nat \<Rightarrow> int"
    unfolding sum.nat_group [symmetric] by (simp add: mult.commute atLeastLessThan_nat_numeral eval_nat_numeral)
  have "digits_val 16 e = (\<Sum>k < 32. sint (e ! (2 * k)) * 16 ^ (2 * k) + sint (e ! (2 * k + 1)) * 16 ^ (2 * k + 1))"
    unfolding digits_val_sum assms using g [of "\<lambda>i. sint (e ! i) * 16 ^ i"] by simp
  also have "\<dots> = (\<Sum>k < 32. 16 * (sint (e ! (2 * k + 1)) * 256 ^ k)) + (\<Sum>k < 32. sint (e ! (2 * k)) * 256 ^ k)"
    by (simp add: sum.distrib power_mult mult.left_commute)
  also have "\<dots> = 16 * (\<Sum>i \<leftarrow> map (\<lambda>k. 2 * k + 1) [0..<32]. sint (e ! i) * 256 ^ (i div 2))
    + (\<Sum>i \<leftarrow> map (\<lambda>k. 2 * k) [0..<32]. sint (e ! i) * 256 ^ (i div 2))"
    by (simp add: sum_distrib_left [symmetric] comp_def interv_sum_list_conv_sum_set_nat lessThan_atLeast0 del: upt_rec_numeral)
  finally show ?thesis .
qed

lemma GeScalarMultBase_of:
  assumes "length a = 32" and "le_int a < 2 ^ 255"
  shows "ext_of (GeScalarMultBase a) (smul (le_int a) base_point)"
proof -
  let ?e = "base_digits a"
  let ?o = "\<Sum>i \<leftarrow> map (\<lambda>k. 2 * k + 1) [0..<32]. sint (?e ! i) * 256 ^ (i div 2)"
  note d = base_digits_recoding [OF assms(1,2)]
  have b: "\<forall>i < 64. \<bar>sint (?e ! i)\<bar> \<le> 8"
  proof (intro allI impI)
    fix i assume "i < (64 :: nat)"
    then have "i < 63 \<or> i = 63" by auto
    then show "\<bar>sint (?e ! i)\<bar> \<le> 8" using d by (elim disjE) fastforce+
  qed
  have "ext_of (foldl (add_selected ?e) Ext_Zero (map (\<lambda>k. 2 * k + 1) [0..<32])) (smul (0 + ?o) base_point)"
    using add_selected_of [OF b, of Ext_Zero 0 "map (\<lambda>k. 2 * k + 1) [0..<32]"] zero_of(2) d by (simp del: upt_rec_numeral)
  from Ext_Double_of [OF this]
  have "comp_of (Ext_Double (foldl (add_selected ?e) Ext_Zero (map (\<lambda>k. 2 * k + 1) [0..<32]))) (smul (2 * ?o) base_point)"
    by (simp only: smul_2 [symmetric] smul_mult add_0)
  note r1 = Proj_Double_of [OF Comp_ToProjective_at [OF this]]
  note r2 = Proj_Double_of [OF Comp_ToProjective_at [OF r1]]
  note r3 = Proj_Double_of [OF Comp_ToProjective_at [OF r2]]
  have h: "ext_of (Comp_ToExtended (Proj_Double (Comp_ToProjective (Proj_Double (Comp_ToProjective (Proj_Double (Comp_ToProjective
      (Ext_Double (foldl (add_selected ?e) Ext_Zero (map (\<lambda>k. 2 * k + 1) [0..<32])))))))))) (smul (16 * ?o) base_point)"
    using Comp_ToExtended_at [OF r3] by (simp only: smul_2 [symmetric] smul_mult [symmetric]) simp
  show ?thesis
    using add_selected_of [OF b h, of "map (\<lambda>k. 2 * k) [0..<32]"] d digits_val_pairs [of ?e]
    unfolding GeScalarMultBase_def Let_def by (simp del: upt_rec_numeral)
qed

text \<open>
  C35: \<open>GeScalarMultBase\<close> computes the multiple of the base point by a scalar below \<open>2 ^ 255\<close>. All 256 entries of the table
  \<open>base\<close> of \<open>const.go\<close> are the multiples they stand for, the recoding to signed digits keeps the scalar, and the selection
  in constant time takes the right entry and its sign.
\<close>

theorem base_scalar_mult:
  assumes "length a = 32" and "le_int a < 2 ^ 255"
  shows "ext_of (GeScalarMultBase a) (smul (le_int a) base_point)
    \<and> Ext_ToBytes (GeScalarMultBase a) = encode_point (affine (smul (le_int a) base_point))
    \<and> (\<forall>i < 32. \<forall>k < 8. pre_of (base ! i ! k) (smul ((int k + 1) * 256 ^ i) base_point))"
  using GeScalarMultBase_of [OF assms] Ext_ToBytes_at base_pre_of by blast

theorem base_scalar_mult_witness:
  "ext_of (GeScalarMultBase (7 # replicate 31 0)) (smul 7 base_point) \<and> pre_of (base ! 31 ! 7) (smul (8 * 256 ^ 31) base_point)"
proof -
  have "le_int (replicate n 0) = 0" for n by (induction n) simp_all
  then have v: "le_int (7 # replicate 31 0) = 7" by simp
  have l: "length (7 # replicate 31 (0 :: byte)) = 32" by simp
  note b = base_scalar_mult [OF l, unfolded v]
  then have b: "ext_of (GeScalarMultBase (7 # replicate 31 0)) (smul 7 base_point)"
    "i < 32 \<Longrightarrow> k < 8 \<Longrightarrow> pre_of (base ! i ! k) (smul ((int k + 1) * 256 ^ i) base_point)" for i k by simp_all
  show ?thesis using b(1) b(2) [of 31 7] by simp
qed

end
