(* ===== verification/Vrf_Curve.thy ===== *)
theory Vrf_Curve
  imports Ecvrf Curve_Scalar
begin

text \<open>
  The VRF over the curve package of the repository. \<open>src/vrf/vrf_ed25519.go\<close> imports a copy of the package
  under another path, which the model of the VRF takes as a parameter; here the parameter is the model of
  \<open>src/vrf/edwards25519\<close>.
\<close>

section \<open>The package as a parameter of the VRF\<close>

definition local_pkg :: edwards_pkg where
  "local_pkg = \<lparr>ed_FeOne = FeOne, ed_FeAdd = FeAdd, ed_FeSub = FeSub, ed_FeMul = FeMul, ed_FeCMove = FeCMove,
     ed_FeToBytes = (\<lambda>f. fst (FeToBytes f)), ed_Zero = Ext_Zero, ed_ToBytes = Ext_ToBytes, ed_ProjToBytes = Proj_ToBytes,
     ed_FromBytes = (\<lambda>s. let (ok, P) = Ext_FromBytes Ext_Zero s in if ok then Some P else None),
     ed_ToProjective = Ext_ToProjective, ed_Double = Proj_Double, ed_ToExtended = Comp_ToExtended,
     ed_GeScalarMultBase = GeScalarMultBase, ed_GeDoubleScalarMultVartime = GeDoubleScalarMultVartime\<rparr>"

lemma local_pkg_simps [simp]:
  "ed_Zero local_pkg = Ext_Zero" "ed_ToBytes local_pkg = Ext_ToBytes" "ed_ProjToBytes local_pkg = Proj_ToBytes"
  "ed_GeDoubleScalarMultVartime local_pkg = GeDoubleScalarMultVartime" "ed_FeCMove local_pkg = FeCMove"
  by (simp_all add: local_pkg_def)

lemma length_FeToBytes: "length (fst (FeToBytes f)) = 32"
  by (cases "reduce_limbs f") (simp add: FeToBytes_def pack_limbs_def Let_def)

lemma local_pkg_arrays: "pkg_arrays local_pkg"
  by (simp add: pkg_arrays_def local_pkg_def Ext_ToBytes_def Proj_ToBytes_def Let_def length_FeToBytes)

section \<open>The group operations of the VRF\<close>

lemma vrf_GeAdd_local: "GeAdd local_pkg P Q = Comp_ToExtended (geAdd P (Ext_ToCached Q))"
  by (simp add: GeAdd_def ToCached_def local_pkg_def geAdd_def Ext_ToCached_def vrf_d2_def curve_d2_def FeCopy_def Let_def)

lemma vrf_GeDouble_local: "GeDouble local_pkg P = Comp_ToExtended (Ext_Double P)"
  by (simp add: GeDouble_def local_pkg_def Ext_Double_def)

lemma GeAdd_of: "ext_of P A \<Longrightarrow> ext_of Q B \<Longrightarrow> ext_of (GeAdd local_pkg P Q) (A + B)"
  unfolding vrf_GeAdd_local by (rule Comp_ToExtended_at [OF geAdd_of [OF _ Ext_ToCached_at]])

lemma GeDouble_of: "ext_of P A \<Longrightarrow> ext_of (GeDouble local_pkg P) (smul 2 A)"
  unfolding vrf_GeDouble_local smul_2 by (rule Comp_ToExtended_at [OF Ext_Double_of])

section \<open>Multiplication by a scalar\<close>

text \<open>The bit of a turn, as a digit of the scalar.\<close>

definition bit_digit :: "bytes \<Rightarrow> nat \<Rightarrow> i8" where
  "bit_digit a i = 1 AND drop_bit (i mod 8) (a ! (i div 8))"

lemma bit_digit_cases: "bit_digit a i = 0 \<and> scalar_bit a i = 0 \<or> bit_digit a i = 1 \<and> scalar_bit a i = 1"
proof -
  let ?v = "drop_bit (i mod 8) (a ! (i div 8))"
  have "odd (ucast ?v :: i32) \<longleftrightarrow> odd ?v" by (simp only: bit_0 [symmetric] bit_ucast_iff) simp
  then show ?thesis by (cases "odd ?v") (simp_all add: bit_digit_def scalar_bit_def one_and_eq and_one_eq mod_2_eq_odd)
qed

lemma CMove_ext: "ExtendedGroupElementCMove local_pkg t u 1 = u" "ExtendedGroupElementCMove local_pkg t u 0 = t"
  by (simp_all add: ExtendedGroupElementCMove_def FeCMove_correct)

lemma GeScalarMult_loop_of:
  assumes "ext_of q Q" and "ext_of p P"
  shows "ext_of (GeScalarMult_loop local_pkg a is q p) (Q + smul (digits_val 2 (map (bit_digit a) is)) P)"
  using assms
proof (induction "is" arbitrary: q Q p P)
  case (Cons i "is")
  let ?q = "ExtendedGroupElementCMove local_pkg q (GeAdd local_pkg q p) (scalar_bit a i)"
  have "ext_of ?q (Q + smul (sint (bit_digit a i)) P)"
    using bit_digit_cases [of a i] GeAdd_of [OF Cons.prems] Cons.prems(1) by (auto simp: CMove_ext)
  from Cons.IH [OF this GeDouble_of [OF Cons.prems(2)]]
  have "ext_of (GeScalarMult_loop local_pkg a (i # is) q p)
      (Q + smul (sint (bit_digit a i)) P + smul (digits_val 2 (map (bit_digit a) is)) (smul 2 P))" by simp
  also have "Q + smul (sint (bit_digit a i)) P + smul (digits_val 2 (map (bit_digit a) is)) (smul 2 P)
      = Q + smul (digits_val 2 (map (bit_digit a) (i # is))) P"
    by (simp only: smul_mult [symmetric] list.map digits_val.simps smul_add add.assoc mult.commute [of 2])
  finally show ?case .
qed simp

lemma GeScalarMult_of:
  assumes "length a = 32" and "ext_of h H"
  shows "ext_of (GeScalarMult local_pkg h a) (smul (le_int a) H)"
proof -
  have "map (bit_digit a) [0..<256] = slide_bits a" by (simp add: slide_bits_def bit_digit_def del: upt_rec_numeral)
  then show ?thesis
    using GeScalarMult_loop_of [OF zero_of(2) assms(2), of a "[0..<256]"] slide_bits_val(1) [OF assms(1)]
    by (simp add: GeScalarMult_def del: upt_rec_numeral)
qed

text \<open>
  C27: the scalar multiplication of the VRF computes multiples in the group of the curve: for every 32-byte
  scalar, without any restriction on its size, \<open>GeScalarMult\<close> over the curve package gives the multiple of the
  point by the little-endian integer; its addition and doubling, which the VRF file defines for itself, are the
  ones of the package and of the group.
\<close>

theorem vrf_scalar_mult:
  assumes "length a = 32" and "ext_of P A" and "ext_of Q B"
  shows "ext_of (GeScalarMult local_pkg P a) (smul (le_int a) A) \<and> ext_of (GeAdd local_pkg P Q) (A + B)
    \<and> ext_of (GeDouble local_pkg P) (A + A) \<and> GeAdd local_pkg P Q = Comp_ToExtended (geAdd P (Ext_ToCached Q))"
  using GeScalarMult_of [OF assms(1,2)] GeAdd_of [OF assms(2,3)] GeDouble_of [OF assms(2)] vrf_GeAdd_local by (simp add: smul_2)

theorem vrf_scalar_mult_witness:
  "ext_of (GeScalarMult local_pkg order_four (replicate 32 255)) (smul (2 ^ 256 - 1) four_torsion)"
proof -
  have "le_int (replicate n 255) = 256 ^ n - 1" for n by (induction n) simp_all
  then have v: "le_int (replicate 32 255) = 2 ^ 256 - 1" by simp
  have "ext_of order_four four_torsion" using order_four_facts by (simp add: affine_four_torsion)
  from vrf_scalar_mult [OF _ this this, of "replicate 32 255"] show ?thesis unfolding v by simp
qed

section \<open>Points of the VRF\<close>

lemma local_FromBytes:
  assumes "length s = 32" and "ed_FromBytes local_pkg s = Some P"
  obtains A where "ext_of P A"
proof -
  have "Ext_FromBytes Ext_Zero s = (True, P)" using assms(2) by (auto simp: local_pkg_def split: prod.splits if_splits)
  from FromBytes_result [OF assms(1) this] obtain x where x: "ext_at P (x, decoded_y s)" "on_curve (x, decoded_y s)" by blast
  then show thesis using that [of "Curve (x, decoded_y s)"] by (simp add: Curve_inverse)
qed

lemma local_FromBytes_encode: "\<exists>P. ed_FromBytes local_pkg (encode_point (affine A)) = Some P \<and> ext_of P A"
proof -
  obtain P where "Ext_FromBytes Ext_Zero (encode_point (affine A)) = (True, P)" "ext_of P A"
    by (rule FromBytes_encode [OF affine_on_curve])
  then show ?thesis by (simp add: local_pkg_def)
qed

lemma clear_cofactor_of: "ext_of P A \<Longrightarrow> ext_of (clear_cofactor local_pkg 1 P) (smul 8 A)"
proof -
  assume "ext_of P A"
  then have "ext_of (GeDouble local_pkg (GeDouble local_pkg (GeDouble local_pkg P))) (smul 2 (smul 2 (smul 2 A)))" by (intro GeDouble_of)
  then show ?thesis by (simp add: clear_cofactor.simps vrf_cofactor_def smul_mult [symmetric])
qed

lemma hash_to_curve_of:
  assumes "ECVRF_hash_to_curve local_pkg m pk = Ok h"
  obtains H where "ext_of h (smul 8 H)"
proof -
  have "hash_to_curve_loop local_pkg m pk is = Ok h \<Longrightarrow> \<exists>H. ext_of h (smul 8 H)" for "is"
  proof (induction "is")
    case (Cons i "is")
    let ?s = "sum256 (m @ pk @ I2OSP i 4)"
    have o: "OS2ECP local_pkg ?s NOSIGN = ed_FromBytes local_pkg ?s" by (simp add: OS2ECP_def NOSIGN_def go_copy_same_length)
    show ?case
    proof (cases "ed_FromBytes local_pkg ?s")
      case (Some P)
      then obtain A where "ext_of P A" using local_FromBytes by (metis length_sum256)
      then show ?thesis using Cons.prems clear_cofactor_of o Some by (auto simp: Let_def)
    qed (use Cons o in \<open>simp add: Let_def\<close>)
  qed simp
  with assms that show thesis by (auto simp: ECVRF_hash_to_curve_def)
qed

lemma G_of: "ext_of (G local_pkg) base_point"
proof -
  have "gf_int 1 = 1" using gf_int_of [of 1] by (simp add: fe_p_def)
  then have o: "fst (FeToBytes FeOne) = le_bytes 32 1" using rep_to_bytes [OF rep_constants(2)] by simp
  have l: "le_int (le_bytes 32 1) = 1" by (simp add: le_int_le_bytes)
  show ?thesis using GeScalarMultBase_of [of "le_bytes 32 1"] by (simp add: G_def local_pkg_def o l)
qed

text \<open>The octets of a point.\<close>

definition point_os :: "curve25519 \<Rightarrow> bytes" where
  "point_os A = (let b = encode_point (affine A) in (drop_bit 7 (b ! 31) + 2) # b)"

lemma length_encode: "length (encode_point a) = 32"
  using encode_point_bytes(1) [OF refl] by (cases a) simp

lemma ECP2OS_of: "ext_of P A \<Longrightarrow> ECP2OS local_pkg P = Ok (point_os A)"
  by (simp add: ECP2OS_def S2OS_def point_os_def Let_def Ext_ToBytes_at length_encode)

lemma ECP2OSProj_of: "proj_of P A \<Longrightarrow> ECP2OSProj local_pkg P = Ok (point_os A)"
  by (simp add: ECP2OSProj_def S2OS_def point_os_def Let_def Proj_ToBytes_at length_encode)

end
