(* ===== verification/Order_Prime.thy ===== *)
theory Order_Prime
  imports Prime_Numbers
begin

text \<open>
  The order of the base point, \<open>2 ^ 252 + 27742317777372353535851937790883648493\<close>, is prime. As for the field, each number of the
  chain has the one before it as a factor of its predecessor, up from 2551.
\<close>

section \<open>Chains\<close>

definition order_bits21_full :: "(bool \<times> int) list" where
  "order_bits21_full =
    [(True, 0), (False, 0), (False, 0), (True, 0), (False, 0), (True, 112242), (False, 468079),
      (True, 2133512), (False, 191571), (True, 407110), (True, 729038), (True, 715046),
      (True, 2367227), (False, 437072), (False, 799762), (True, 1419149), (False, 205467),
      (False, 965476), (False, 1224479), (False, 0), (False, 0)]"

definition order_bits21_part :: "(bool \<times> int) list" where
  "order_bits21_part =
    [(True, 0), (True, 0), (True, 0), (True, 0), (False, 876), (False, 981838), (False, 7995),
      (False, 279792), (False, 383302)]"

definition order_bits51_full :: "(bool \<times> int) list" where
  "order_bits51_full =
    [(True, 0), (False, 0), (False, 0), (False, 0), (True, 0), (True, 0), (True, 1877591),
      (False, 131291684310094), (True, 1045952909996287), (True, 187124909440528),
      (True, 159197020177219), (True, 302952483371839), (False, 866961136102982),
      (True, 24631737010759), (True, 90146596925010), (True, 1622462077426597),
      (True, 948768138565988), (True, 1279490272103423), (False, 118117328318797),
      (False, 915806128821688), (True, 41791882241698), (True, 1100628940860366),
      (True, 2226194870774883), (False, 11803957166592), (False, 293723537651548),
      (False, 678017928212821), (True, 789443378626176), (False, 377156946551182),
      (False, 949869625762734), (False, 271233844194573), (True, 457482563487848),
      (True, 1544202295732226), (True, 42543849811885), (True, 1581438043241533),
      (False, 623179865595182), (True, 640232943263203), (True, 642977262506240),
      (False, 901691498159), (False, 9818056074856), (True, 95230666679272),
      (True, 2304954825740104), (True, 214652933275763), (False, 172315492082659),
      (True, 1673380304287805), (True, 16141109956268), (False, 947541183132227),
      (True, 2506179943660794), (True, 614434775936648), (True, 1103514983486726),
      (False, 132640111191688), (False, 1257559732178651)]"

definition order_bits51_part :: "(bool \<times> int) list" where
  "order_bits51_part =
    [(True, 0), (True, 0), (True, 0), (True, 0), (False, 0), (True, 1833), (False, 430775269143658),
      (False, 263836722024486), (True, 942896033992595), (True, 181116246675894),
      (False, 64848907248985), (True, 190014004709076), (True, 304029965240027),
      (False, 151131391013581), (True, 2401247018554694), (True, 527405028378569),
      (True, 790397939195312), (True, 233424906598565), (True, 309541422641966),
      (True, 695016321608810), (True, 994600928503958), (True, 481949972592230),
      (False, 130476759390420), (True, 41763677816933), (False, 167584930872783),
      (True, 112625136301550), (True, 841479736506588), (True, 329716000445184),
      (False, 41066581094208), (False, 619966417070637)]"

definition order_bits62_full :: "(bool \<times> int) list" where
  "order_bits62_full =
    [(True, 0), (True, 0), (True, 0), (True, 0), (False, 0), (True, 0), (True, 2398162105253924515),
      (False, 2318992027876307186), (False, 9456145261043884), (False, 3657742036708003773),
      (True, 4197564480403148416), (False, 4067222247339865112), (False, 844776789448479468),
      (True, 6566516776889489394), (False, 4224556308576883414), (True, 2596391827771805350),
      (False, 88605884077468052), (False, 1252745949902718756), (True, 1923309296401451137),
      (False, 3228767138461943108), (False, 3241001394253523380), (True, 1439730774165587125),
      (False, 2720695262405364098), (False, 239461313041045659), (False, 39604288552435082),
      (False, 731802040192251845), (True, 3221298576285547478), (False, 721989785650825608),
      (True, 1703499206215069748), (False, 457318390062520574), (False, 3780707875843658312),
      (False, 3596184840738807529), (False, 985512815414039659), (False, 2538821067040673149),
      (True, 2147275407484067093), (True, 5824735565198544510), (True, 795183343639227854),
      (False, 494809493018409278), (False, 1234812660735465643), (True, 1752025384371762018),
      (False, 43414066173930388), (True, 1922876101237837718), (False, 4219895520882322354),
      (True, 4940534164022007484), (False, 1042935530881059), (True, 7944647309385959814),
      (False, 169142522578158628), (False, 3230898642109838806), (True, 388715655744423655),
      (True, 76538298189552231), (False, 2682306558867539131), (True, 3858557837326669),
      (True, 1316876155571188614), (True, 3196804107628409779), (True, 4458809084824829554),
      (True, 1889255755061327390), (True, 8218981299999211613), (False, 41321737996474687),
      (True, 6409411727534162678), (True, 380520146793731605), (True, 363463607013929023),
      (False, 0)]"

definition order_bits62_part :: "(bool \<times> int) list" where
  "order_bits62_part =
    [(True, 0), (True, 0), (False, 0), (True, 0), (True, 0), (True, 0), (False, 292744397614004),
      (False, 928038625432216325), (False, 454092319897711611), (True, 1216350757486632393),
      (True, 2172984189602079512), (False, 1726834767139209811)]"

definition order_bits88_full :: "(bool \<times> int) list" where
  "order_bits88_full =
    [(True, 0), (False, 0), (False, 0), (False, 0), (True, 0), (True, 0), (True, 0),
      (False, 32403588718226137), (False, 1607353413646725202964404),
      (True, 109083362628910064148584441), (False, 106957438679760198985055),
      (True, 49333167231956733420292239), (False, 152415677272147289636874225),
      (False, 38933994912024171843644822), (False, 14606124896705492504610781),
      (True, 103501932135112952657178436), (True, 36399497596861932425191982),
      (True, 109241889485368857412499141), (True, 98833588000848012223238480),
      (True, 242974588732936064969341499), (True, 9484613108736534070829754),
      (False, 5042487862147320448264096), (True, 118526977232327469733655985),
      (False, 26362581212803008616915188), (False, 53621018717439318846156540),
      (False, 26220234573643529689115434), (True, 1514288428022016873091950),
      (True, 6743752943902786217579895), (True, 208367285405230544193955829),
      (False, 39664878711033152656238948), (True, 252482520489411652898335),
      (False, 141171554000017815831314475), (False, 82675739246156327383345701),
      (True, 263494401984074388432222514), (False, 52962766854570663850),
      (False, 8833405825239386454831921), (True, 324066726964427101941286381),
      (False, 42983266169696889701927693), (False, 19458867210964704667701754),
      (False, 68302164386500841653193699), (False, 95517628770991642779254845),
      (False, 25686589911173309160624660), (False, 8369093418888603291258318),
      (False, 18420776746076400036162115), (True, 5800086216861705716434256),
      (True, 247747748498436736611871891), (True, 2423397446594692211869760),
      (True, 33217933933930258957270525), (True, 63581597801530686816766563),
      (False, 54840563655606587711707009), (False, 23079349165005244645249122),
      (False, 86801804981574533982851643), (True, 326839081507469736890776437),
      (False, 679496867311732758050784), (False, 88406621242403641541983861),
      (True, 132113029427660378169333727), (True, 5656248491152388724953178),
      (True, 120978318387349917394671121), (True, 47422304651644809737946487),
      (True, 54744219016752092729735688), (True, 71493549209984286947127571),
      (False, 78868660153197042568838154), (False, 96810201457713749208484853),
      (True, 98451733926249743610876808), (True, 201439236143615213001131525),
      (True, 15244154281742963190417773), (False, 67296026330823997308110574),
      (True, 12806459140203562844635451), (True, 22382730505211749332225453),
      (True, 38250649294494287986040369), (True, 42052783873037055002933596),
      (False, 15216011520791808179267916), (False, 90220823121150603052195699),
      (True, 268747271737012614396366759), (False, 18818534907602107471179697),
      (True, 98176243190649739764236288), (False, 18461562357357000631801722),
      (False, 20468777936511747744632327), (False, 156267641721811203970121198),
      (True, 178007381949970930049590254), (False, 23058054405665403805498219),
      (True, 13018845257410255909811492), (True, 204142096559648900347385283),
      (False, 24267733026104122792163663), (False, 3888480956679966491760812),
      (False, 90794259174462198739751237), (True, 20703839227707206906282848),
      (False, 172054593956031949258510689)]"

definition order_bits88_part :: "(bool \<times> int) list" where
  "order_bits88_part =
    [(True, 0), (False, 0), (False, 0), (True, 0), (False, 0), (True, 0), (False, 0),
      (False, 2073829677966472774), (False, 5945665732273380560698350),
      (False, 4896226848661359734432396), (False, 2280509885969109424278951),
      (False, 130790614921432972698007344), (False, 114790229982582456155186612),
      (True, 1006603734303181253662368), (False, 82133495764408352887561335),
      (False, 120989217545099543588439385), (True, 94436102599833808036158834),
      (False, 100166145001173924076201018), (True, 51176512222759079539645847),
      (False, 3113899218594167203600917), (True, 326057616572731665733124296),
      (True, 23169630943894914114272249), (True, 9976283397491568503194961),
      (True, 8789300974291271736830324), (True, 151765893018544748163420371),
      (False, 4877625889379437891713874)]"

definition order_bits134_full :: "(bool \<times> int) list" where
  "order_bits134_full =
    [(True, 0), (True, 0), (True, 0), (False, 0), (True, 0), (False, 0), (False, 0),
      (False, 349325857287178071418934062587), (False, 132727081592145878700922027800538989798),
      (False, 19369316004619452272808222939004939638299),
      (True, 13864675684403610263405268401355368275044),
      (True, 36085616859018785335353913275709199270340),
      (True, 6783471130462442681752612304755979291173),
      (True, 23195745856775332080070445360842985514482),
      (True, 18004589878788772587530515761001622651431),
      (True, 28091474993263385868861795165686074338579),
      (False, 5466829426595511803713355242870585680599),
      (False, 4792831405920344425028051623995638830607),
      (False, 3610222895783468269446270307527004129896),
      (False, 3033948965620230608190408766559355666510),
      (True, 2889630445880743548681511175818486306933),
      (True, 15665370497463430245236467571860310797446),
      (False, 801215831541741355132612946980309921424),
      (True, 17474842742995215007131299764514134368566),
      (True, 1764784852870191152591949718050219653330),
      (False, 2398890462556425039006310723064013584817),
      (False, 425581879724678029498043171561441927793),
      (True, 24492437842763604184348678388673382241921),
      (True, 23777950115972198044299613516321736117151),
      (True, 11334667768457363402433055105465560189142),
      (True, 19290579412872902427785408583652956637),
      (True, 23037016580522301258486325157668002355043),
      (False, 6068807289572084979381716494949928633434),
      (True, 13837786122323624739487871550822792226725),
      (True, 15420038669167434492533005827929477313357),
      (True, 17664089534305217712545938803113247055037),
      (False, 12520661903309848942476227545178781383219),
      (False, 8636566810961319601584751883887455264007),
      (True, 29098447178308328890196983028721823226122),
      (True, 10357788662882300982778980268007194831613),
      (True, 1313943376151682330310867456140887874876),
      (True, 25599560225142082876940005391855885947481),
      (False, 1241343984970157165950930951382113519902),
      (False, 17248954655615917600497788026957760565531),
      (False, 478560377481259318552294620760140040205),
      (False, 6301730825411498617992850329882980148885),
      (True, 5638690888256235522614138892024987243644),
      (True, 2484772322612608633629894871994213194768),
      (True, 29297812654855486234385452071453660684558),
      (True, 19300526782509465583264272033810609144469),
      (True, 11721279824107278325556313447144920850267),
      (True, 922108512480441794723951476991006021075),
      (True, 340069782893599724530854082896399751316),
      (True, 8117466011822120120745528630460960500),
      (False, 18001072013625309445392982645607419247134),
      (False, 4548694705883462977981585899980320355441),
      (False, 3563314589035876754676145224631864458708),
      (False, 318968143364910229071008615537422987031),
      (True, 23948754312283797305894596942531135126434),
      (False, 8740695528960769785101481204935611563412),
      (True, 74520723899630860343926291187323604439),
      (False, 19450326195842929835955360675950763831445),
      (False, 11545832931599078745574029588029197190330),
      (True, 1180022321305621550791466652476014178136),
      (False, 6900993258136272264316925183357509507013),
      (True, 27581626639041029411303922857240249666833),
      (True, 7508949726749941459631229288273949973568),
      (False, 4486457512736336997361831844319038098300),
      (True, 19217064079985795094216270294248515985),
      (False, 17837048803418192473220279548311854733676),
      (False, 2367370581251278403722965816223282265),
      (False, 665350109660497077405722145502054899170),
      (False, 1342074633185963699652324110467744524496),
      (True, 15468970107906540904531198549313154643209),
      (True, 139076606899457682421136574241747802920),
      (True, 383916749232634076868846082976734306874),
      (False, 11103872731710052706152506819294476021121),
      (True, 37416439512228008567699061235773507097121),
      (True, 19727693469161804580598311108276119025965),
      (False, 15229520380207042920296901863529580495159),
      (True, 12077713548948380487736506938084544748111),
      (True, 33166369004415874453285421051997272986840),
      (False, 1474511315530351631114481833479063396095),
      (False, 16474221397776311879920831178914924326715),
      (False, 10286022100317472646128932109436410644666),
      (False, 3774368083820769808332372710458169806011),
      (True, 26500945041715864518622331523202947564992),
      (False, 3948280741196103345044652415908222198974),
      (True, 1366343128273618876291791713464479273640),
      (True, 24946366432129286962406993087125606583091),
      (False, 527115294801837335384314394076250827690),
      (False, 1706979944781852908541666704435200725571),
      (False, 143363431203567407571437881109704892168),
      (True, 19544156826884214721019191662736657270093),
      (True, 1769286984811173823980999561589138418735),
      (False, 10426022935937027635778052163086409133554),
      (True, 20918028950748336587048931585331186944698),
      (True, 38773974477384094031287433482095139818716),
      (False, 13598866866696748753999737946278859450552),
      (True, 13538538357445848663489629898489785570151),
      (True, 20513514849724271930854487467834749902947),
      (True, 25782505488006988192343824350003641099786),
      (True, 31307185024028101658834724696048914661767),
      (True, 14403794816954194117146020113968775723260),
      (False, 13942524741703729158142533548147500287),
      (False, 10763261521692813831232777509352609145494),
      (False, 7612081617982375999688556402149779227729),
      (False, 5007450174469081418196467463253201501716),
      (True, 24900151121103976948357222818165365757118),
      (True, 1817749685074967770868431812129874478362),
      (False, 11181516775575042234692148879173769995125),
      (False, 3577828414554956165570638043829062106),
      (False, 3894863679747071770256829760512653083676),
      (False, 2614666576820434511794370425187651080615),
      (True, 58192570011749252121558130031286767426),
      (False, 5744821150879624889995136013396957740557),
      (False, 1430201917322301569723119310857660392955),
      (True, 11672297907225740636589426697695777275152),
      (False, 6362009620342796317817042256771771609274),
      (False, 16307767176676938830744574323837634238668),
      (True, 92839649347727649683214990238059249452),
      (True, 983316980248113882891791668872215306287),
      (True, 5406481361195408388110703941940277185838),
      (True, 14460095175754175757467393118212662059759),
      (True, 12622390826327416052204363651926760834709),
      (True, 5908330804611692317838242544622579025532),
      (False, 76432388226052114724526162604356095735),
      (False, 7619265482004745560154399259635426915544),
      (True, 3546132289386311574819410644534201372132),
      (True, 27024568292378564807076738499169820730840),
      (False, 18435447484647749799414404734316296361536),
      (False, 11152770522280145523811701749013994537467),
      (True, 33865307173051686578565390960835052860400),
      (False, 19757330305831588566944191468367130476337)]"

definition order_bits134_part :: "(bool \<times> int) list" where
  "order_bits134_part =
    [(True, 0), (True, 0), (False, 0), (True, 0), (False, 0), (False, 0), (False, 0),
      (False, 20821443634461049522097), (True, 35582727951749561139672184478506847998237),
      (True, 39370561574554687301581838168829004414486),
      (True, 34560817969519434990886678306333903303987),
      (False, 19293079453473215695698998085832837987456),
      (False, 380288709916973613942502556697489333234),
      (False, 16635008556631933400475953206080385080329),
      (False, 17907292299602302366417758034714585391413),
      (False, 14599048782307286849932576057763754948145),
      (True, 971431682247644942009228690512624938726),
      (False, 1370965788785077018286373018622158657),
      (True, 5386059564595668639357184563906369756578),
      (True, 1242683584051650149527848379523960869815),
      (False, 2630382719010991443572685526520117421222),
      (False, 837263356213712444687325741322744717274),
      (True, 10310390982886396884317052184490097818554),
      (True, 1586190821784979916441459249440682587843),
      (False, 7666898685170038292600220041457734787029),
      (True, 9173955458683166872136660192551249814696),
      (True, 28948975113991476961760718558251605025304),
      (True, 15843175350051321021271226685164880127904),
      (False, 2659666646197729244138036022980969550938),
      (True, 21863757744279512894159191721587587694155),
      (True, 101390361674700917265942562400919592073),
      (False, 1564287817366282619059731248455431668964),
      (True, 29828781167515742964764306696043480635009),
      (True, 4008982218049814191852102300302208068688),
      (True, 2630930558861487594910332034193975035926),
      (False, 1395691641171629548326246902906297595646),
      (False, 6607785709320182381223143520816606648848),
      (True, 13692663406152281510216047375549691483942),
      (True, 20600812059806080197748111100446930957463),
      (True, 34739126423856202892583423970774564569802),
      (False, 19491737482358789991289569573383607547672),
      (True, 7497011770619491644432398638029799801725),
      (False, 7308585297401317084387724670572847442742),
      (False, 1582728664036369908457436297281939119257),
      (True, 87272670945330454374536224206744759772),
      (True, 2930252104431852704621644124163911201887),
      (False, 11899491259521033692969125360158426181743)]"

definition order_bits138_full :: "(bool \<times> int) list" where
  "order_bits138_full =
    [(True, 0), (True, 0), (False, 0), (False, 0), (True, 0), (False, 0), (True, 0),
      (True, 46476436684064842683), (False, 17894553902857206055508041733161791055307),
      (False, 163801594517078895452742343591837327292910),
      (True, 177280907162405572089078559681975578968828),
      (True, 41853429677885589353303442799543486311222),
      (False, 109491176986473789992688937980024998301747),
      (True, 89106219172722199554433830872776694950200),
      (True, 87376825392508000094615690086792394745997),
      (True, 1482242167195657404753202406891139262797),
      (False, 7383685083569108084944879168518245679252),
      (False, 29761564342405130916628314076928722820248),
      (True, 232499790273481487111073822560174943919155),
      (False, 65149818628026690343745234418739555281871),
      (True, 249149361520518102642170573648418792475790),
      (False, 7810524741794540882184071639995880796346),
      (True, 266391551668559646180640082460820822359492),
      (True, 349855689452168353429766638026389478633597),
      (True, 454609601794332389339516905310790383685182),
      (True, 355223264068201415565803525288081503817552),
      (True, 147950773677460612094795483770259960123406),
      (False, 47131017823370624232475307672166544259170),
      (True, 342437106871934794724340294533533148852452),
      (False, 150046703735688744875885451878844131290845),
      (True, 75162998580494658103435237372936191731902),
      (True, 507066304036441456887858525916262040575951),
      (True, 389781570524823338652639872295517529186715),
      (False, 237708492986367877696525933153093977528090),
      (False, 103504925041145791903799772468411819718862),
      (False, 245459626396058473383071313182829868423563),
      (False, 179041257488065071391916062420410446701673),
      (True, 45997914074779700278501057689235789999765),
      (False, 149061292865447710908122852357145068309308),
      (True, 19889744122114503382022368596211286106042),
      (False, 54638821870190009106684202424516419303517),
      (True, 123047162959398949512434741504663929234462),
      (False, 22121060031346326443549911877730009787815),
      (False, 64382827832946150187093290402215201292383),
      (True, 141811714010363911779108684991055717876850),
      (False, 105380214260364746409645880362397525076781),
      (True, 36993075371335657471731598275637104666567),
      (True, 43769678508955486146361887327604857668664),
      (False, 154068182833691180145453895463434914131538),
      (True, 133298628058540864254078314732106402937636),
      (True, 40987128373589239846074423256802586820017),
      (True, 49087220178194141087108369814057268854500),
      (True, 131143441478648698177031330893129495911833),
      (True, 321354305884833537424498232110043172851548),
      (False, 8539420249198644067693178334696677089898),
      (False, 212304799842107285817424104402172239223454),
      (True, 325448115934942305369801961591006669488370),
      (False, 3407207154725012632403458999169010124638),
      (True, 161514014339437228891310318436405309249339),
      (False, 194542079454920477286930578860262260505549),
      (False, 7188610825707866754440682582293142412491),
      (True, 195056272995165747446768013312393625306502),
      (False, 231009893535950309810325312229730439568353),
      (False, 5917681984981655941697449426894753635760),
      (False, 192907630955750628364155894284769403401068),
      (False, 10163526750559100613171704951530267700672),
      (True, 182019044250507272825668633664792554037867),
      (True, 257455763996734481307312789350436423361),
      (True, 413175034455683212754287794684526878375909),
      (False, 9870949635405381435421312026957186038635),
      (True, 552035021896032985445689455928497065203781),
      (True, 154120651194052926530462776588288702750206),
      (False, 89310093119359453980928593665530791538975),
      (True, 12987195685711248169007482666437835701501),
      (True, 451815392851435334253087415386344835937243),
      (False, 35642902864956763089276207272434024752896),
      (False, 80578088601872375994142492825340900778894),
      (True, 316457356098734067536514649245598019390140),
      (True, 161537626625462543915158645388066981749935),
      (True, 65761201431636907810051232422556299169572),
      (True, 388624333957608688871476377359813995296),
      (True, 158843755890032283661487609974420866913416),
      (True, 409367314082274133555727279661417482299462),
      (False, 32414921461102815934217836491641363069262),
      (True, 15313743235209309015248157512409088852486),
      (False, 132524190066404592566003687338241857439630),
      (True, 142886370417086908238289413036038391813560),
      (False, 116605410591968419672196325377345716375982),
      (False, 69447989818932984077492409193238322022731),
      (True, 208755790919370938131383959249834661555528),
      (True, 482288423691960266206745533367674112259145),
      (False, 1496479971161744414639507896214826429791),
      (True, 119580002713720457780033521749688811811111),
      (True, 237959418544650270671403542444263395026220),
      (True, 538193098112003455369755597785730670947562),
      (False, 3230717468130204731060741740958324676606),
      (False, 34561098606040142294320299600940895647650),
      (False, 7749068533895069243015504051663621348284),
      (False, 155413981069358316342157950989114373392026),
      (False, 116701426691020094924660494941284623677561),
      (False, 9744832898151118407665289329936950847207),
      (False, 190354815941563448168850417881308220348144),
      (True, 1004869654463091172246524325684041474108),
      (True, 449015458124613807572105692622534303748020),
      (False, 396976520024994314101596180935554074049),
      (False, 127073412646984854702795316312381361818477),
      (True, 8160399099143286491257779041534706710175),
      (False, 213294729340656582484091472786845801695300),
      (True, 242513265370721446186635483212954734921988),
      (False, 1547710625605717342827232876951496275469),
      (True, 314904847882414400127129486112257407984833),
      (False, 154396950265527777006944181060052905779072),
      (True, 8576481960885694948243835062436185414009),
      (False, 123958677570074565892958707459774197497312),
      (True, 26672903831902532947834215510757308098640),
      (False, 68817849677509755252698048376318653319509),
      (False, 23865813048853806969944922921693704246113),
      (False, 13520211357834348814835677796559495952905),
      (False, 34197824451878734629881594509410819485862),
      (False, 10418131075810183904691659441242756537073),
      (False, 80122998106191471235957918968950885892677),
      (True, 1470642562706707416351154419476382414557),
      (False, 7887859501851512966122659782920135886906),
      (True, 72291819704044497615490074180541589457373),
      (True, 438556421489382910420410377987426482762384),
      (True, 1856494990928363389081009632140570506403),
      (False, 120228995011092717901681934939580758060541),
      (True, 242161747528211588534491968332763923940109),
      (False, 46509350671272293106756240480210335927388),
      (False, 18256453119280605310762522615481295765105),
      (True, 951508237374284298200547097759253350874),
      (True, 94074406990476576693716201880599781566621),
      (False, 2437576660071356325991488759172727315),
      (False, 45643378123907381296035709577603977715891),
      (True, 2382873530519510565006028371523230692),
      (False, 214325018063759033307653567637053343011797),
      (True, 83094935795742413781698532364962235721432),
      (False, 276602624281642239937218680557139826668745)]"

definition order_bits138_part :: "(bool \<times> int) list" where
  "order_bits138_part =
    [(True, 0), (True, 0), (True, 0), (False, 0)]"

definition order_full :: "(bool \<times> int) list" where
  "order_full =
    [(True, 0), (False, 0), (False, 0), (False, 0), (False, 0), (False, 0), (False, 0), (False, 0),
      (False, 15),
      (False, 7237005577332262213973186563042994239969362190503992292854688928977177499240),
      (False, 366098619717808128819716404516769999285687009209230871130201714971063287108),
      (False, 2749250827445665192446140270154516795078445639981165598865190313677752906816),
      (False, 5477992513560120794091624584356882757115879159076018145870596263255392560461),
      (False, 6455397486956186243939054146344199889966432884838984090389805380206955652528),
      (False, 6848222005804396403532409446759737605095915534899677084212128472147524458514),
      (False, 4404637533860566105224845558775561502567995599334282561130869252656244708216),
      (False, 6344952710459813663401061200246444799712370231571395486938305767254096773433),
      (False, 3163107197207370937930991316012012106014371812879058366484028739607151408778),
      (False, 2628189130059977259604009887393911648678018574174390891857497164229346540132),
      (False, 3580026414676122394183928986360043766884554686494593054927996580121262596083),
      (False, 7145125301357622140591966255111047871363928676335560979025758388457046542),
      (False, 1515022659095161548900299684217948022186501425454672017185996982379240606138),
      (False, 5004238144559635885309856792530035627214407298699067711348595712045700619772),
      (False, 6361169281223376129754080860584115998493510754666201571212199917201126649041),
      (False, 3788141946557211057232979619043239968366074548177822530131911716997283382082),
      (False, 58272111604074977346670768098860224042312863419570940591746295022589491978),
      (False, 1418268929545428020808796892624387889159162513634399091099428603123913991055),
      (False, 5015096101613392387313879377591511020302573455830953689339086832636222206622),
      (False, 112862514080225007213758983391407509839427967941092271776062268741101388053),
      (False, 3508290961168695654617931500777477337422909145233684818696301782414245582550),
      (False, 1162952297848897753561006296451807016629854512007663636735016971565896589250),
      (False, 3683821412237788459395340409318992124758409751528627494865108078682334947363),
      (False, 88805970674079735938139350135373028713269631928012987132793027312168982018),
      (False, 882446119489155019619427471450529950705933243102420410089804274243902482057),
      (False, 2339843117867339109358751222222393047407036896425305512903773409013182905290),
      (False, 1064055729410227555868913812154114098778045610653859872923133831392720518576),
      (False, 3187548639188564239291021907342051216725966550642248342513819099519254213907),
      (False, 378196952109680405488439724256051506715635609523665580363442045836367216054),
      (False, 769934405888589115162258549464431527665042676276394620316330391967670297713),
      (False, 4417403972987421051356363482232091307476451264533282013946035361398372730742),
      (False, 444576983841708039923907759923972463130844037138045986882061346158599622659),
      (False, 552305218422584814255837714583191643004819486592375678668581833631737114968),
      (False, 2142502202083746126790373097488306986624396283884547600603526589966585800559),
      (False, 1269271836615943992518934017810528121274611735274854711908701729216884331750),
      (False, 232347647351598085284573391833414518300859631034751207175070316754040126891),
      (False, 2581187900821675684808705644622435981219048268706815161287293937230503851),
      (False, 1781414204650243104157023672078993588233493503831220870032655247404226229008),
      (False, 3473654756403860370369952276065119666506368480716566826755720694999671289471),
      (False, 5081022895833437830707779944264570939889238735731304010309058550568013315033),
      (False, 2874918834892406057122680400571829481164099436581489108246196541762950865787),
      (False, 2235701014347501144551491374302573737602074563853514356871945551567919400190),
      (False, 4550739247055229395527306011770540945540358252041714054040504422027234857372),
      (False, 343562798744928680226326157874145223528923566439678599129360147608850065128),
      (False, 4589583017078137945073885316075168951650370439264340345229000808732033787672),
      (False, 617040910492287966847360910780666291541838171429730324583858830052056465657),
      (False, 3006546625787682408267960222263959120535579887220906941085114509984065197069),
      (False, 50559585514730526309468333045055157235061094560121531345488908613683552352),
      (False, 251579929714913647953866607325129006719690073408770390047581439344935923276),
      (False, 1003823108147302530705174551873390522180940744334328634643905535423179043149),
      (False, 4775006333496893297388294568409353766279116604947064423075045936215055400903),
      (False, 3960338622550643212623860077445943987021951095471274811298886453318305142551),
      (False, 1006780119609810597829075256124770821301930432436857407681664958636088446986),
      (False, 4166238563801900446761204423051479520121043807662739888967423843137916581605),
      (False, 2867054407278699166456624574815007264405049733773994256539717994792953592355),
      (False, 1908663609024597844698787339875401237475567677834140548365298299795744447157),
      (False, 1338829669934700050892845480995378192129845834615140146135348124917744138589),
      (False, 5447634765357526005473109885891474464039141980192716469631976701129507897750),
      (False, 4230021902216946829437423743755255216776754758622144647176317622013226990),
      (False, 3767687060475148103976842769588609008462146942726786594409099442186938613407),
      (False, 373084021360846956223288192432147711484334075415174954807874646198949968024),
      (False, 495421956777786667018549766997104802908328842141657291216835599164656281751),
      (False, 1989376929931884829546856454419667748963025122325407879095441307773245061383),
      (False, 47493208148645229379691690290545079405991123734819432938178754656191426063),
      (False, 4606157369340806584613763895433739512795140676705292238255420762098413272797),
      (False, 1183325610642282490843336503609556120120992117772879902602281040275346612052),
      (False, 3563510913959965262704127517259054092755368135625437338032052812729635611725),
      (False, 3764799315554267081882624116270822057826175125098769029647906944301981211295),
      (False, 319375559308628983155697962082615473687260046107089437207543726477497727710),
      (False, 199208753639950638420435835718056318846534885675814195114321985883514742448),
      (False, 5104424779348200040037676486045999342053117968617292633618365909056807499937),
      (False, 2119078797943476936188903322073701101054945468860107952904274823585017743193),
      (False, 6036164502801952199802136967430594362769365217300935457631900950011033107310),
      (False, 1135851932188162383121458795872507790055356116573102484390734182384235822092),
      (False, 903791592907115627561977526657093746325920868736150043114862348126510281746),
      (False, 7926107520988504206730777653511049135406213355518906886834908121614028470),
      (False, 6827706876569385569883199367751530024958933265021382768877415751661754914807),
      (False, 4612577820657270722347264030870846536419913927735641281487108361590963444688),
      (False, 3854432742148653186004824637757889194356861904535781002705670995096575029319),
      (False, 7253673877326188032161559302662706664948316392819412228616881873440862179),
      (False, 1597593181741941043220755343500328011110870376117980001866167804561082426800),
      (False, 1499943146676670184935008498744961287705370242488709964411428022657445866509),
      (False, 6156930553902381422914762610155927486919783357223050647992505083758239252055),
      (False, 5302730044100712108517502989217108554488927377259811470939161977346698063209),
      (False, 1067531095182327165696497720993927818696906233721263513275322696223842044918),
      (False, 3320088343440450045825756761238226744514279616272597511557210589627012710143),
      (False, 156871197280514472776279603596767705567258317462732490939645609002494291271),
      (False, 3851662871381573532341037996454240167816914668397061625233364405314108839732),
      (False, 140022049341937283012208358295545908362751529784108035526020792589181917415),
      (False, 2825416909219960025880796797012020217257692711451279682541226421409717536326),
      (False, 1079009879450428648654584439939912408840448126683122330644103138410297168063),
      (False, 2112235687410916670945605054302904976339289431275277014421481525688946125532),
      (False, 515367831931475040768056415954354812027150254955672514894509296672549910444),
      (False, 2750837392455731964840052843044144488425155985411964757765869503791866611288),
      (False, 836557540499796423405266095551284213250639024415798070437786383253582133457),
      (False, 5626567453254850051401070287785856585877929979429723999169022554707011444454),
      (False, 1801705591122906861964605961563647781682567574006683882043457801858247081610),
      (False, 2369828982899185248015565494918121864431027059699727244453043114990441239931),
      (False, 1461487111809893981783359087343299724023859942277389410295443544297397363843),
      (False, 239606265034245397954452989916436565021537011654581865425252670468738870628),
      (False, 12833206238152570694228999947486413903172079375490499389598184071204306251),
      (False, 4335058499205042049362759876350671564986994313320304864553971399845718595230),
      (False, 952925419617937790101762517816463092915007320438860251349679939340070239684),
      (False, 1064086006429545394315043222928690967872501519177599420349644432992296272098),
      (False, 3594390361019113693466200928758649705252185197778983533762305758699992837422),
      (False, 5832431647487564677703582192953771905822507757304168759649137513752033262377),
      (False, 4130994979898709939610137291401495673104954749406001905721929497073883125022),
      (False, 728235730657282476806371796397220838478671962600511124393991513611055534482),
      (False, 552764318352996615715132760962257648134142702611490887895819140114522581704),
      (False, 3941172597303890622482402542517241483995439813434489978069389265719303679144),
      (False, 11171138331647133502311251210497400467675368916099043978709852007578125133),
      (False, 4901960876205371316897491413634105695864029702242674389737346461463461343057),
      (False, 2039480427661440323138711856813373009164143598277519116380298299071336522586),
      (False, 3725916218372835489934028297384696002730442133873423967929123055573929237311),
      (False, 4590520053058154879197853946252538247946124883174056940299432034883294539),
      (False, 4783386312395135020870605330269019672318431825134295305137436913956776093551),
      (False, 6881334378232831913248478618206235428793286754850668119838972434323625879663),
      (False, 2093799635801560917771467374599641500453035779492095580363000365990190896296),
      (False, 3142909412857918883332269870547636673448531741128950517342155548214835371160),
      (True, 7126243947360563402375389438501879860939517809124803545351329355430378704093),
      (False, 345077265582712608755432515067601426110098091761112356106779945722802183047),
      (True, 252153472976439047503385772241241105976649038370675743276223760522443941827),
      (False, 3746955838407307484505956270406943960236505786185036557583176745305880161615),
      (False, 495228723028359574635543427561469583691821819958121386473865173979297142080),
      (True, 2064445551266525637284551620045034900047709678703148836223929592927417760798),
      (True, 8127954296339446608176858920670911598118720962865843227494897349340438066782),
      (False, 4181650569074710011424700486321793861597438795871318981300503915476507406033),
      (True, 84723199601103382878583682329206003514036813424138356052214449856503918398),
      (True, 4307172855825093330131879358765379850901658643061735528157915677786407393033),
      (True, 9444848412770476886711161107522128202325926974083263463195078436785850373804),
      (True, 10728708658044941525467366986325357992228884768407829808027133588088742854516),
      (False, 5788316241162426126038094172268646007650906769705341891109745581449072602556),
      (True, 6833674945641884054473148816785497088808280102243923567066079740019489977610),
      (True, 1152065191027074268595461601410067751656223697725913952359403358078785342042),
      (True, 12627514713929568047456992637192584315309745563240181607442635142608514082050),
      (True, 216228528373473144992899200415828968293004614272900643805331441642632255764),
      (True, 2714970617922534571827784680799559793486473033077877179805952090028626458085),
      (False, 2048515418483396076648218623922288477890702455293952291061185411211043046895),
      (False, 1377558948714950334175465765182751530151749828742252606536811150799370252276),
      (True, 1996604449994375680803732756161385372328631356771395265557235376843222263323),
      (True, 13863711714306416927530950047601043375137874035237993737092836413184389163492),
      (True, 2818224618787672685984805435978392277471976674335709526904582612471332474851),
      (False, 38871898066020901303410422871957081306020265386340569615844662380983659817),
      (True, 8587908613503804398685659451107609912411854285755652826113831422731054760040),
      (True, 618266858806362024045511585345393626775485788315068425103181220481330885915),
      (True, 10613496129462130814539561918038347149555760755479794889631365785747371521592),
      (True, 6307541941691314893243490662318159649055364322524637283782950168626957434170),
      (False, 954065859197096493311350662418292192615806600660501933438854785311305134099),
      (True, 2169179207102459291176084076793593541915330592980809801842168446019952525061),
      (False, 673018169632212969639163024459880533043097753709639194291762976941569007984),
      (True, 523586732908894943471325809688644954702864167655849174614016553133832267088),
      (False, 542654837211902388959030124483145335613993145046831063358957089311738537989),
      (False, 200249166696442363265970586544264097940452062029566471981183175501361482978),
      (False, 211851632839464392772094768258106436530881383296404650328133610497372242218),
      (True, 9368646760036804412967633836730153720924365058936374504958612027628192582245),
      (False, 446273738775623970761337091787227857759547986951757001237713417745929257994),
      (True, 1000725918680890940216552054603324884924361660049864425226149480299258628036),
      (True, 5726356521995468666978353032911096593946686406617831957304611207481503325200),
      (True, 13295301017281469708545790065966550441931792195982241730084478881790726202406),
      (True, 5100869524605045074352917608092710671578902052686995710162622186659137887224),
      (False, 3116996308106970215845590076866841312060289413821465369537120054492882793895),
      (True, 3179752858070188612017497504042512084609293677724713023858827299535267723947),
      (True, 1095819497870615289138910608298316862135990128689379224771320140643955737408),
      (True, 2337102962263338892319023250391030928391630329960184663642881763592060541857),
      (True, 717629864575992189692592411046818169884704859209948748432435040322612306745),
      (False, 43609543192353349912728584070333082781320249216416258104834423552650389900),
      (False, 36062505962958643318204719200937865289850778755198753821284380483246339322),
      (True, 3044921309226502812528161395612313839227637592411801312422304352055730383008),
      (True, 1637366800206943142412371274554457431774184719174295386135157437870901740420),
      (True, 272281831510640804709649548877258289447837847289915764758394317712444534602),
      (False, 2027001126983461828391945561466319207949333186498938449058584284748971883625),
      (False, 5110629990138319183426983725887921106065042512267901794645106273387825408709),
      (True, 2631203003118133627934205711515286343973024964791768384696216833911627410312),
      (True, 897339328873364464974671634583641450015984591601504720443419148148810359767),
      (False, 2610751432830575997619445966957210491225610658653671049679895135276824920283),
      (True, 14204153120227670594755346387905865709843221813858501001523535682614875980091),
      (False, 114933696236993950471995065112725229699201225861483063504225812751157007977),
      (True, 142211480479651146336429231134471317978748901910354029454695608644908097033),
      (True, 9844167464453736210569364619556343951400433039936662249678518957641512761397),
      (False, 4641678687386561343777072983215178119263328320262248395006721141319866691455),
      (False, 2084637883106558910684496544873192597853685690073899903007433019471901270147),
      (True, 10274625480730445950851051683979706349911128270415596692092404416628093208739),
      (False, 261729290878924438106067528078841906307031281883557993741395504831826128689),
      (True, 13150405545024974427397492049334921566212093254452848615375235640246228384740),
      (True, 12777962727083420528175335952554724355360559543047207735433099916392571414570),
      (False, 3321154598374707462318437608720696850787097086925182372975648570955914873570),
      (False, 2123301711734786763912975141788298515979670242635090354002496563318389636),
      (False, 2270486301345296836878585829345854484375286321844726652256030107132645265886),
      (False, 511703004137156305417996270916492166563775036174553944258292265510840628721),
      (False, 1303951373063273800981209312782560116913861698713584368052892117300511609838),
      (False, 5123530551778949122423295587407871560929073510654679756477586856126778997361),
      (True, 763919912384040748273755078616141642346237110590913265628550277554692051336),
      (False, 66684136227988461204858962626216572959061732580926224743526006951176397582),
      (False, 264735739886654715916059960546671996302629674644532695774424660553333841),
      (True, 12616796066076031724863953829797977658158869924859557555640638030204242187803),
      (False, 1744950723259183122177357925329542688238741171039601873475542026070772306777),
      (False, 1042110512597933672269345094716121225765480538148000215833736282334930425516),
      (True, 3358724097956035394342090659053090797466596439698688480089509398454026856991),
      (True, 6775367507554842868955726492991103813327697701871265296325664968735425043707),
      (False, 4658934573541933200774887048370060818527328270047948881250152158703956704434),
      (False, 528164045674839196775837058964605716431510406570469546739057264413816729641),
      (False, 5772026633804048546405650502167982550796852884365293799763050850945138841854),
      (True, 604954752522449920390957627374259516240424904637346690205308001986860219661),
      (True, 441294626837549104394187694700415279984638606835790037012064542605554876107),
      (False, 816005136290311965279319651650910434288646144492422698848599475556187115904),
      (False, 33806388530569948999472969566113526286564077763275345286137652258021406893),
      (False, 5061890120916446342815476454643115019922328803584137529645769911696455702727),
      (True, 1962743265376848321971793333152232135056696455201882225385299704321308778676),
      (True, 6426817959902662380346345210371813805143603787064033666917128256736275254222),
      (False, 1283314003965291149285808950439972273032714504855855327878885903202500596953),
      (True, 10010509150136690256082127123717984109408822799127599016683125091679080225971),
      (False, 3764905444661031479172203694403656979167065126708938804194192067945929491539),
      (False, 1641376707864594015672902632839896326749105939399257895666961296211951486544),
      (True, 824723877393816871896591877190736181121752481688828188219827984037602140460),
      (False, 122832416046843881312366268510369422497295368486195182099875161781444074146),
      (True, 526071947207224155484837764181478117734775643702026214548753297269883201854),
      (True, 45128863470270743916598101786194757794472098841630505748451875594183680),
      (True, 341441076186452403199917873108004518867939600581341259097924052572165982291),
      (False, 5358002245281589939805744272044598056522800032165538054441582921088238052971),
      (False, 24773425338267497269080807348688559912889414888670886546215884906895403194),
      (True, 1416597826237638178617990898910312884641406713404240934800581724240984282952),
      (True, 4619403770222745809578421271396784307084577234138521738369976367934939659913),
      (True, 3479579045108173087083440637233528966406194809057722433624062637924062460018),
      (True, 13439368372964786786082676354258437008078575716378700293320697142174521489300),
      (False, 6735627506613423768328207340092283028263934492348306977397830147896632233521),
      (True, 10029038504499876058827718311801507959449745850405164195517905261909396827461),
      (False, 38756983092250552556924596288100256027801126768388047384381946326754662878),
      (True, 1170083209955792990090294620026114556085334903973378324248967698421635421291),
      (True, 75812982807644451226172154879312211338368715079785400511607704948755764218),
      (True, 2739475012852726463490372227546113315514114739691362956648509467698513537831),
      (False, 5367646325865200115650638284725490853820954516455919424212062079922671027280),
      (True, 3223926407677642324491220398024371313047274299482007660012679723510736698063),
      (False, 58061951469045258524015422016540099069088898489234847151027529334013000049),
      (False, 517847483966457027496171379611095975093138551595522815913979512162029227379),
      (True, 4145399265198328253671532420848563785361912699129838875982375824731474105355),
      (True, 5950581770969097209627333688168772446557071006867915917907361862529509569495),
      (True, 1153765768639681771114698330081050750334129183931000439433436853033091097815),
      (True, 232702666806811819969220788656250815199588678237737413909882739943222478185),
      (True, 10142370308516479998975020649918504612527052524683526778125003698304823455448),
      (False, 4481939582230414648195234463942290385899500617864257846000284064835647828334),
      (True, 4817333365186732408635348848956335158470017293895391873159204745205594973164),
      (True, 636250384954690955468714319183014362220978758881328021278319197846137662716),
      (False, 2440208144321047936363710874419881381971939898365900573560926586293457786292),
      (False, 7237005577332262213973186563042994240857116359379907606001950938285454250987)]"

definition order_part :: "(bool \<times> int) list" where
  "order_part =
    [(True, 0), (False, 0), (True, 0), (False, 0), (False, 0), (False, 0), (False, 0), (True, 0),
      (False, 1180591620717411303423),
      (False, 7237005577332262148468490748552037267540307668870186080822129444820427749816),
      (True, 1885178727098820731891406126137868713026169488819676955566191267336752566880),
      (True, 4460460577519254000154614908083969709135982838162369233541486552158999531085),
      (True, 9798051978343783278418794006374323176637583106976849570273957790464117555225),
      (True, 3079285926757157112348630337259153364883490458613189682035007588027015500),
      (True, 6440698711044238196006083390196071763307329586897214006752892749035185770768),
      (True, 4015808991353794025805456034107131254746509694422359031679193343094062079076),
      (False, 121519143698457150148402787929160464601486360567607496437357575251095675679),
      (True, 340546737780875140957277988865173993670081434194262030407868215121144036916),
      (False, 1793236243103340414126070225649795135369080081690096111000907629793505025084),
      (True, 14032507260303563176004557654754349381931955484871945272408933305027973617221),
      (True, 4823190705467234999394338508689652519680349197135289616417099307638095650067),
      (True, 6414067089903716018112317678896853725554108106941448719186333943699451337391),
      (True, 1853648032037993482985491965454657361362492081754614428946638017561741160485),
      (False, 4925537360523802348250306482711578556825987725710529495005551291821681464755),
      (False, 191066610328982834746374093136655894302694606187925785179162474035355085257),
      (False, 1918499835427985255930231457452197729189608629537182893618618577797591965733),
      (True, 2892387536320642112384223017198930762765384037206581019311523439023816467732),
      (True, 9549429754520055131960380765470724592281089484241121278983265241186029103870),
      (True, 561513373936313409693424753723187194364686415050592243573510094344263366101),
      (False, 621363596808176124213104158369480103882669841277557863243014924301439452903),
      (True, 68956922021728972828328363664171338397364267948926361589243183935354392276),
      (False, 179378352939275221605994312316747492950830748011258065255282512451272883394),
      (True, 571446051281846603771694712682937300422978772230449701382281028804101617363),
      (True, 11898776945189261090664321418729136075871170743325382929581037304752511823372),
      (True, 5632289803976943961003106586660494670250894835453614188121963895087236493936),
      (True, 622172964032460344418415123350700241480958333980622394602105529853754808361),
      (True, 3695947586200900850613370982578036464257833004624288601982471008508127944300),
      (False, 3250769737430837463636531989155289931974283705300339131187315501167882311420),
      (False, 5278714859490606982664642978658975420830951120585002706238739648488892265624),
      (False, 1593702518527699478232578782661590362687633959821591661271486741547990292101),
      (True, 257681491357204934276811710440032937427474894157729522812167972095556148292),
      (True, 8951753408676055997249742015017472750534029412580808247230242563557375461704),
      (True, 7086610988100792908111708729376358179334039848684525348466282375138274195489),
      (False, 1574901285426116034546009205495524138297729754386896180622023468516931474427),
      (False, 26248399910395354020782229867858275012688375227454362187330713354291711956),
      (True, 728844423237576256126949266331969567460901013472727112701637209028715266716),
      (True, 13453101740235604313388195151429361920676624341092816557807713326292334072381),
      (True, 10549913004877828170252860095092308461713259234945751830982325708631525309849),
      (True, 1316603054028902219659709382626905223888959408990419198957791577584368525680),
      (False, 1150454081586262386348676895878636628212008360850242589283252171461166809912),
      (False, 3658791868794606438832004976534700331706402582304141592319406032491091711080),
      (True, 6217323356328337041474674632160684886678389410970444914180808830070529621421),
      (True, 339001174717249313788311203890265002053550575734873993698767649857855571593),
      (False, 4933410984810495884900883310532892374241443273171199011340747346120503123476),
      (False, 4292283841332098468300782335984846195238332294480339033367574273681282083519),
      (False, 197819584378172438452565870086241223158391154858942676408286465143828491188),
      (True, 10880938874896461823792144563861036454692211580182722863094047534308246662354),
      (True, 3732411867913047426365924351795883464567737315011569410738064252025153782146),
      (True, 6457245958417372366001194853950713863080161269408558127184201731024032053401),
      (False, 4419649073775282851911850544639413680037464361129072120896031457692106535651),
      (True, 19719500401700784144134281928461317407200834184903825093541068967894846531),
      (True, 941096321287818900916587196138551209470776194697025396617675943601202862807),
      (True, 1412181814194358494587100763122910805962330748314243723759779138386028156934),
      (False, 1070413730959455653525368758291795756660876345783129608640980765195155138145),
      (True, 12499638431261810698812452328435659214846438316199187987049242515812781088223),
      (True, 6117215757140382461339898880205785178930257707744760560318235920017045222249),
      (False, 1055406577588106149488332422191575682362953718313826929550497532631790678098),
      (True, 9099456950224613351501343530496318703265865408458829757398389044504788529671),
      (False, 2115616133945088716176048083183160267073797868878887239833124768577836567285),
      (False, 1472395895331971042961989665402837039929198251734146586546987691000124761101),
      (False, 6003901465870679390730458512419635627139022350360233728578549963586878628690),
      (False, 76386373446888563696907795802901235523895681745275726694886109721522686771),
      (False, 1690196543236141280905447628689239788262711520194952425797987134721873849448),
      (True, 2339371414156554099651294029161741178640034064068312991046030419168419693750),
      (False, 1763620430272933119788907965765088727970825150503388170313453066208922855059),
      (False, 414365743233742665779160911601057711009836395510202707265620284724117782459),
      (False, 156410995667804080878366343374135399268399252916009773516485698474564425901),
      (True, 13639879740992190010645851345888025210069091738539037970497213810322516157056),
      (True, 502584573171755586175636180031254532439713387086661635273847157707658612378),
      (True, 2557775399136614685756650177231176436260143753001454680005760522664008024564),
      (False, 251178990077172473357949892755059379440916442029337427493208113508133250603),
      (True, 11510601454946130659393985327075359750414287165349648193709161026119188815264),
      (False, 2929292582547065039428247276158744096043704361985568080709066210623969999095),
      (False, 87627377815189135763551196719921277597252160498296968966491051925211186307),
      (False, 5302371019342069018214281194594999684423831177585825109857029367229435994749),
      (True, 1060390124495875306015556980744839596331180510761281374897278720456210295189),
      (True, 4304151056204095792070075949264881222076404282730890029562719515141449874345),
      (False, 5896016387889827810156885668389368292044113528660142563938624360774503829329),
      (True, 13040307785661176347061474003540761065321876473125413556810106556484710960363),
      (False, 1883363356155802282691409421920283036301105847505899145632917045284290179410),
      (False, 1209294805221729489259258784278661786725633062622095712627083604501905116778),
      (True, 4079612751610509098788772396336034160423649206727600726528458891600480105355),
      (False, 6808794005067893418001365792221646053845783182317500270155761809772783997243),
      (False, 245498340487866880215618429837366470631266417091779108350769242608455356508),
      (False, 5614238870948737033508195673741085500858327650494163497212370002494426763410),
      (True, 2254186313146590005311853013043737433384862678416060796308844812876313550296),
      (True, 2876194394410381150508890941726559727901239054776095394182853468771250503748),
      (False, 1059179582302475562269853740525530299192733803870415800758982067796915118219),
      (False, 4762683734647311768470264414843641555356801115116255477675990479296423951281),
      (True, 519115386362396739297477638155513070313992154357650858724313797176979999),
      (False, 204966443223482328464602730190048245463009713519627649140264438131951466846),
      (True, 1320494856517329474994531784831322442856278673047879388745551819040063036),
      (False, 1683049208251838519838532484307973073636472740648728926789370215163127538291),
      (True, 2654517989881375270444887583620497943927314100240602025434359368794372299891),
      (False, 27763502303565549735555363852485162495366731108471674319496440843172763),
      (True, 4853250631136201477731363276670582356694521643197931199935271164776433530),
      (False, 5783462129015891955269966291299480499029544717905330632872867950894482422534),
      (False, 3635657979810006127563023890795605377791458167194151074125861847802556028610),
      (True, 8230287715713717791909582339169995180231836778814793407235244644073753572734),
      (False, 2481057857746939199964201523464926043590231971919656365295098640739305944251),
      (False, 1249793947744797067928801553195984031559706199141510056794080934292803457998),
      (False, 1754432258692898357239585418871764500034893269313110597920198388853503020434),
      (True, 2888885002401442494253691067498378601972967660612107312190248928334413468972),
      (False, 18507836594118180807166378055642526409990205611621147499734710271072611193),
      (False, 1936176173352267343520497200905905078743049758970125478992980689367857384192)]"

section \<open>Powers\<close>

lemma order_bits21_full_power:
  "power_to 1224481 order_bits21_full
    1"
  unfolding order_bits21_full_def by (simp only: power_rules)

lemma order_bits21_full_exponent:
  "chain_exponent order_bits21_full 0 = 1224480"
  unfolding order_bits21_full_def by simp

lemma order_bits21_part_power:
  "power_to 1224481 order_bits21_part
    921659"
  unfolding order_bits21_part_def by (simp only: power_rules)

lemma order_bits21_part_exponent:
  "chain_exponent order_bits21_part 0 = 480"
  unfolding order_bits21_part_def by simp

lemma order_bits51_full_power:
  "power_to 1257559732178653 order_bits51_full
    1"
  unfolding order_bits51_full_def by (simp only: power_rules)

lemma order_bits51_full_exponent:
  "chain_exponent order_bits51_full 0 = 1257559732178652"
  unfolding order_bits51_full_def by simp

lemma order_bits51_part_power:
  "power_to 1257559732178653 order_bits51_part
    1252739704402215"
  unfolding order_bits51_part_def by (simp only: power_rules)

lemma order_bits51_part_exponent:
  "chain_exponent order_bits51_part 0 = 1027014492"
  unfolding order_bits51_part_def by simp

lemma order_bits62_full_power:
  "power_to 4434155615661930479 order_bits62_full
    1"
  unfolding order_bits62_full_def by (simp only: power_rules)

lemma order_bits62_full_exponent:
  "chain_exponent order_bits62_full 0 = 4434155615661930478"
  unfolding order_bits62_full_def by simp

lemma order_bits62_part_power:
  "power_to 4434155615661930479 order_bits62_part
    415787812636281767"
  unfolding order_bits62_part_def by (simp only: power_rules)

lemma order_bits62_part_exponent:
  "chain_exponent order_bits62_part 0 = 3526"
  unfolding order_bits62_part_def by simp

lemma order_bits88_full_power:
  "power_to 172054593956031949258510691 order_bits88_full
    1"
  unfolding order_bits88_full_def by (simp only: power_rules)

lemma order_bits88_full_exponent:
  "chain_exponent order_bits88_full 0 = 172054593956031949258510690"
  unfolding order_bits88_full_def by simp

lemma order_bits88_part_power:
  "power_to 172054593956031949258510691 order_bits88_part
    81982237619807054769897707"
  unfolding order_bits88_part_def by (simp only: power_rules)

lemma order_bits88_part_exponent:
  "chain_exponent order_bits88_part 0 = 38802110"
  unfolding order_bits88_part_def by simp

lemma order_bits134_full_power:
  "power_to 19757330305831588566944191468367130476339 order_bits134_full
    1"
  unfolding order_bits134_full_def by (simp only: power_rules)

lemma order_bits134_full_exponent:
  "chain_exponent order_bits134_full 0 = 19757330305831588566944191468367130476338"
  unfolding order_bits134_full_def by simp

lemma order_bits134_part_power:
  "power_to 19757330305831588566944191468367130476339 order_bits134_part
    9148758478138211201771971577098600188172"
  unfolding order_bits134_part_def by (simp only: power_rules)

lemma order_bits134_part_exponent:
  "chain_exponent order_bits134_part 0 = 114831751082918"
  unfolding order_bits134_part_def by simp

lemma order_bits138_full_power:
  "power_to 276602624281642239937218680557139826668747 order_bits138_full
    1"
  unfolding order_bits138_full_def by (simp only: power_rules)

lemma order_bits138_full_exponent:
  "chain_exponent order_bits138_full 0 = 276602624281642239937218680557139826668746"
  unfolding order_bits138_full_def by simp

lemma order_bits138_part_power:
  "power_to 276602624281642239937218680557139826668747 order_bits138_part
    16384"
  unfolding order_bits138_part_def by (simp only: power_rules)

lemma order_bits138_part_exponent:
  "chain_exponent order_bits138_part 0 = 14"
  unfolding order_bits138_part_def by simp

lemma order_full_power:
  "power_to 7237005577332262213973186563042994240857116359379907606001950938285454250989 order_full
    1"
  unfolding order_full_def by (simp only: power_rules)

lemma order_full_exponent:
  "chain_exponent order_full 0 = 7237005577332262213973186563042994240857116359379907606001950938285454250988"
  unfolding order_full_def by simp

lemma order_part_power:
  "power_to 7237005577332262213973186563042994240857116359379907606001950938285454250989 order_part
    2975531125133123119648879457563281269120703404158613135195788908093573672641"
  unfolding order_part_def by (simp only: power_rules)

lemma order_part_exponent:
  "chain_exponent order_part 0 = 26163907866482859529727157400808004"
  unfolding order_part_def by simp

section \<open>The numbers are prime\<close>

lemma prime_2551: "prime_nat 2551"
  by (rule trial_division [of _ 51]) simp_all

lemma prime_order_bits21: "prime_nat 1224481"
proof (rule prime_by_chains [OF _ _ _ prime_2551 _ _ _ order_bits21_full_power _ _ order_bits21_part_power])
  show "1224481 - 1 = 2 * 2551 * (240 :: nat)" by simp
  show "chain_exponent order_bits21_full 0 * 1 = 1224481 - 1" by (simp add: order_bits21_full_exponent)
  show "1 ^ 1 = 1 + 0 * int 1224481" by simp
  show "chain_exponent order_bits21_part 0 = 2 * 240" by (simp add: order_bits21_part_exponent)
  show "(921659 - 1) * 1100631 = 1 + 828437 * int 1224481" by simp
qed simp_all

lemma prime_order_bits51: "prime_nat 1257559732178653"
proof (rule prime_by_chains [OF _ _ _ prime_order_bits21 _ _ _ order_bits51_full_power _ _ order_bits51_part_power])
  show "1257559732178653 - 1 = 2 * 1224481 * (513507246 :: nat)" by simp
  show "chain_exponent order_bits51_full 0 * 1 = 1257559732178653 - 1" by (simp add: order_bits51_full_exponent)
  show "1 ^ 1 = 1 + 0 * int 1257559732178653" by simp
  show "chain_exponent order_bits51_part 0 = 2 * 513507246" by (simp add: order_bits51_part_exponent)
  show "(1252739704402215 - 1) * 790900187493841 = 1 + 787868792026441 * int 1257559732178653" by simp
qed simp_all

lemma prime_order_bits62: "prime_nat 4434155615661930479"
proof (rule prime_by_chains [OF _ _ _ prime_order_bits51 _ _ _ order_bits62_full_power _ _ order_bits62_part_power])
  show "4434155615661930479 - 1 = 2 * 1257559732178653 * (1763 :: nat)" by simp
  show "chain_exponent order_bits62_full 0 * 1 = 4434155615661930479 - 1" by (simp add: order_bits62_full_exponent)
  show "1 ^ 1 = 1 + 0 * int 4434155615661930479" by simp
  show "chain_exponent order_bits62_part 0 = 2 * 1763" by (simp add: order_bits62_part_exponent)
  show "(415787812636281767 - 1) * 1010501025739283171 = 1 + 94754006754933215 * int 4434155615661930479" by simp
qed simp_all

lemma prime_order_bits88: "prime_nat 172054593956031949258510691"
proof (rule prime_by_chains [OF _ _ _ prime_order_bits62 _ _ _ order_bits88_full_power _ _ order_bits88_part_power])
  show "172054593956031949258510691 - 1 = 2 * 4434155615661930479 * (19401055 :: nat)" by simp
  show "chain_exponent order_bits88_full 0 * 1 = 172054593956031949258510691 - 1" by (simp add: order_bits88_full_exponent)
  show "1 ^ 1 = 1 + 0 * int 172054593956031949258510691" by simp
  show "chain_exponent order_bits88_part 0 = 2 * 19401055" by (simp add: order_bits88_part_exponent)
  show "(81982237619807054769897707 - 1) * 154275350521713489305385904 = 1 + 73510611687487158067405653 * int 172054593956031949258510691" by simp
qed simp_all

lemma prime_order_bits134: "prime_nat 19757330305831588566944191468367130476339"
proof (rule prime_by_chains [OF _ _ _ prime_order_bits88 _ _ _ order_bits134_full_power _ _ order_bits134_part_power])
  show "19757330305831588566944191468367130476339 - 1 = 2 * 172054593956031949258510691 * (57415875541459 :: nat)" by simp
  show "chain_exponent order_bits134_full 0 * 1 = 19757330305831588566944191468367130476339 - 1" by (simp add: order_bits134_full_exponent)
  show "1 ^ 1 = 1 + 0 * int 19757330305831588566944191468367130476339" by simp
  show "chain_exponent order_bits134_part 0 = 2 * 57415875541459" by (simp add: order_bits134_part_exponent)
  show "(9148758478138211201771971577098600188172 - 1) * 16371654433361644093796961727196399386194 = 1 + 7580999557119167215323054323116539631207 * int 19757330305831588566944191468367130476339" by simp
qed simp_all

lemma prime_order_bits138: "prime_nat 276602624281642239937218680557139826668747"
proof (rule prime_by_chains [OF _ _ _ prime_order_bits134 _ _ _ order_bits138_full_power _ _ order_bits138_part_power])
  show "276602624281642239937218680557139826668747 - 1 = 2 * 19757330305831588566944191468367130476339 * (7 :: nat)" by simp
  show "chain_exponent order_bits138_full 0 * 1 = 276602624281642239937218680557139826668747 - 1" by (simp add: order_bits138_full_exponent)
  show "1 ^ 1 = 1 + 0 * int 276602624281642239937218680557139826668747" by simp
  show "chain_exponent order_bits138_part 0 = 2 * 7" by (simp add: order_bits138_part_exponent)
  show "(16384 - 1) * 94074944912245044309966580483695483989395 = 1 + 5572 * int 276602624281642239937218680557139826668747" by simp
qed simp_all

theorem prime_order: "prime_nat 7237005577332262213973186563042994240857116359379907606001950938285454250989"
proof (rule prime_by_chains [OF _ _ _ prime_order_bits138 _ _ _ order_full_power _ _ order_part_power])
  show "7237005577332262213973186563042994240857116359379907606001950938285454250989 - 1 = 2 * 276602624281642239937218680557139826668747 * (13081953933241429764863578700404002 :: nat)" by simp
  show "chain_exponent order_full 0 * 1 = 7237005577332262213973186563042994240857116359379907606001950938285454250989 - 1" by (simp add: order_full_exponent)
  show "1 ^ 1 = 1 + 0 * int 7237005577332262213973186563042994240857116359379907606001950938285454250989" by simp
  show "chain_exponent order_part 0 = 2 * 13081953933241429764863578700404002" by (simp add: order_part_exponent)
  show "(2975531125133123119648879457563281269120703404158613135195788908093573672641 - 1) * 2233364593245673852815932892735013076939656528578070433728021143254617821614 = 1 + 918259049265850385831298250211759012539362291049224222049079815310237912731 * int 7237005577332262213973186563042994240857116359379907606001950938285454250989" by simp
qed simp_all

end
