(* ===== verification/Curve_Order.thy ===== *)
theory Curve_Order
  imports Base_Rows Order_Prime
begin

text \<open>
  The number of points of the curve. The base point has the prime order \<open>q\<close>, which a chain of doubles and sums of entries of the table
  shows, and there is a point of order eight, so that the number of points is a multiple of \<open>8 q\<close>; there are at most two points for each
  second coordinate, which leaves only \<open>8 q\<close> itself. Hence \<open>q\<close> annihilates the eighth multiple of every point.
\<close>

definition order_q :: int where
  "order_q = 7237005577332262213973186563042994240857116359379907606001950938285454250989"

section \<open>Chains of doubles and sums\<close>

text \<open>A sum adds an entry of a row of the table \<open>base\<close>, its index in unary, and has the product of the coordinates of the point before.\<close>

datatype chain_step = Twice int int | Plus nat "point_numbers list" "unit list" int int int

fun pick :: "unit list \<Rightarrow> 'a list \<Rightarrow> 'a" where
  "pick (u # us) (x # xs) = pick us xs"
| "pick [] (x # xs) = x"
| "pick us [] = undefined"

lemma pick_nth: "length us < length xs \<Longrightarrow> pick us xs = xs ! length us"
  by (induction us xs rule: pick.induct) auto

fun entry_sum_ok :: "point_numbers \<Rightarrow> int \<Rightarrow> int \<Rightarrow> int \<Rightarrow> int \<Rightarrow> int \<Rightarrow> bool" where
  "entry_sum_ok (p', m', u', t') p m t p3 m3 = sum_ok (hx p') (hx m') (hx u') (hx p) (hx m) (hx t) (hx p3) (hx m3)"

fun chain_ok :: "int \<Rightarrow> int \<Rightarrow> chain_step list \<Rightarrow> int \<Rightarrow> int \<Rightarrow> bool" where
  "chain_ok p m [] pe me = (p = pe \<and> m = me)"
| "chain_ok p m (Twice p' m' # ss) pe me = (double_ok (hx p) (hx m) (hx p') (hx m') \<and> chain_ok p' m' ss pe me)"
| "chain_ok p m (Plus i r us t p' m' # ss) pe me =
     (product_ok (hx p) (hx m) (hx t) \<and> entry_sum_ok (pick us r) p m t p' m' \<and> chain_ok p' m' ss pe me)"

fun chain_rows :: "chain_step list \<Rightarrow> bool" where
  "chain_rows [] = True"
| "chain_rows (Twice p m # ss) = chain_rows ss"
| "chain_rows (Plus i r us t p m # ss) = (i < 32 \<and> length us < 8 \<and> r = fst (base_rows ! i) \<and> chain_rows ss)"

fun chain_multiple :: "int \<Rightarrow> chain_step list \<Rightarrow> int" where
  "chain_multiple n [] = n"
| "chain_multiple n (Twice p m # ss) = chain_multiple (2 * n) ss"
| "chain_multiple n (Plus i r us t p m # ss) = chain_multiple ((int (length us) + 1) * 256 ^ i + n) ss"

lemma chain_ok:
  assumes "pm_of (hx p) (hx m) (smul n base_point)" and "chain_ok p m ss pe me" and "chain_rows ss"
  shows "pm_of (hx pe) (hx me) (smul (chain_multiple n ss) base_point)"
  using assms
proof (induction p m ss pe me arbitrary: n rule: chain_ok.induct)
  case (2 p m p' m' ss pe me)
  have "pm_of (hx p') (hx m') (smul (2 * n) base_point)"
    using double_ok [OF 2(2)] 2(3) by (simp only: smul_mult smul_2 chain_ok.simps simp_thms)
  then show ?case using 2 by simp
next
  case (3 p m i r us t p' m' ss pe me)
  have i: "i < 32" "length us < 8" and r: "r = fst (base_rows ! i)" using 3(4) by simp_all
  then have "numbers_of (pick us r) (smul ((int (length us) + 1) * 256 ^ i) base_point)"
    using base_numbers_of [OF i] base_row_length [OF i(1)] by (simp add: pick_nth)
  moreover obtain p1 m1 u1 t1 where e: "pick us r = (p1, m1, u1, t1)" by (cases "pick us r")
  moreover have "product_of (hx t) (smul n base_point)" using product_ok [OF 3(2)] 3(3) by simp
  ultimately have "pm_of (hx p') (hx m') (smul ((int (length us) + 1) * 256 ^ i + n) base_point)"
    unfolding smul_add using sum_ok 3(2,3) by (auto simp: numbers_of_def)
  then show ?case using 3 by simp
qed simp

lemmas chain_rules = chain_ok.simps entry_sum_ok.simps pick.simps row_rules

section \<open>The order of the base point\<close>

text \<open>The high digits of the bytes of \<open>q\<close>, sixteen times their sum, and the low digits.\<close>

definition high_steps :: "chain_step list" where
  "high_steps =
    [Plus 0 row_0 [(), (), (), (), (), (), ()] 0
       4109516327463731527202515788904111257973980123418119937409388067227422244495
       26488824003848812422096153829220076970185472332004006092782020751874174629081,
     Plus 0 row_0 [(), (), (), (), ()] 20041966898814491726444579060880528788025287386839181497696933332457633763775
       50064278954418890659789852187370461481907455845210956007386367807641746488818
       20779737686284910179334818210128964709826169575479908456545917163860722651776,
     Plus 1 row_1 [(), (), (), (), (), (), ()] 46254600437113092920986864060763897395415604951161981300247173016751552185056
       52337706289808895385365352107301929563182667995292418673767973183980444058177
       24442232605890927422060596941348304542774205808475610782816358924703021439082,
     Plus 1 row_1 [(), (), (), ()] 51415509998173366464052639630836278328522775827287124960531794539256628591617
       5035866976867140530284057904832301078000404569259808259001632057484959173376
       41712125039812510970474133401554069991396602762974451538485934680792814592973,
     Plus 2 row_2 [(), (), (), (), (), (), ()] 44155401950180013931566637958225028828967097577794174307091553001910303498681
       31771757147095503180039871663442085979389898033489432940247984105197600493038
       12542794850558496619441479295008642870141018563836914569313138844944644087474,
     Plus 2 row_2 [(), (), (), (), (), ()] 19731928329939689211926286699095687285250755812241046822569378954484373962122
       22573060394080992381334355209799054540594390363134246239754111008629914248007
       29918961802599611486785191082437444020133479294500625171648752347384590240062,
     Plus 3 row_3 [(), (), (), ()] 43292996957291927443906763746072496942284976747978795428582183887020615898842
       37154620090619188106201040311783789411634343225316950266878504030335529285189
       9359843193404693795217034525330910064900564711237688356617060470087695228992,
     Plus 4 row_4 [] 49123695428182936442887711965376620017873129270856948687549212615500011596349
       26207811821530410415504788123383575466650591776242065654375982127158944442758
       36336996503007585905688596753278488590536868286865764510766265767666294632288,
     Plus 5 row_5 [(), (), (), (), ()] 25491937773128879702513482437803432883203335066224016856543041590072917400593
       26003291395264722103760805731930263981040354483832319539280541355100997498572
       17396025360662690067340775927860645387827270242049704898008307446393169473123,
     Plus 6 row_6 [] 5450338098177565746574007071917902434207212541703786528312546665949269390556
       10968547841575875384389335168364956486673098624545182655227776191629150018637
       54592115309305686968377890455283366933851003736905344021885895550145177168710,
     Plus 7 row_7 [(), (), (), ()] 39924192061612818909330533187515496662646263682288749959701067541709447603023
       10613164064218990700184575228370788215499021277019312769773722823668741524326
       33004236044028311584929458873173612227683015664503275474094442457597889991592,
     Plus 8 row_8 [(), (), (), (), (), (), ()] 50603744472634709872463212348105869703930567971659190089683833509042861739836
       1181293657087861912502936558563225257682514268734698017196143106498849776221
       33388346077031928448949605849553937010670005110058503945702779155806520125243,
     Plus 8 row_8 [(), (), (), ()] 42065051610040786916732713166716376177295876128658020727763277520493402515896
       24421106731137309367375780690531464417886168926855676722504289535802479903699
       11926706179278635560062277953901679864645209496586422988080030945752661829901,
     Plus 9 row_9 [(), (), (), (), (), (), ()] 3504605528682669607064625751313082652166515639274583714542088704889390818324
       54774433363148929087687609847892061608391043052288057353338985212043011063306
       3120352174258819246924670194841265895459081630650163133698444912606676057189,
     Plus 9 row_9 [] 54868646497233932535610016966321639371070671658910551984002213078315392618991
       24321426190247945917072830744101680415710217248081557419718362983943652607020
       37114170672946463154979921532472140428018298548096921053330495868772985278074,
     Plus 10 row_10 [(), (), (), (), (), (), ()] 32635078088320216219689151514134760126155576769922128566140289979667150149205
       5188577970285652510637122716057696355787204172834178997705722481919037589911
       3300672132569651410880547244463456272385555000098338638574289233014098401255,
     Plus 10 row_10 [(), (), (), (), (), ()] 8104928193557700362064830578931222315288126550363526389603853085187870879129
       8347511869259766367540401535920266180061002433410008938867530721432819520590
       46709294970642559323233078209965201886087577597123064515170211671049207374247,
     Plus 11 row_11 [(), (), (), (), (), (), ()] 53245614676971918535563212586285865090126031872963612424024899345042797549303
       55306071869421024780957796159808811122959956655497487825956702056286163289441
       714532367411751367409059723857672403522345399768768183269282859945941458661,
     Plus 11 row_11 [()] 39481735880879752881151739004004120364339766672808613003051269348550885851492
       45996148067778054023492926847764665653840198525297084425408817990841449399723
       18295682708111256762093007035057879036327712800680911074658969012835711857934,
     Plus 12 row_12 [(), (), (), (), (), (), ()] 42605616464263786258157643360513934496032775736062402879511240196563981185880
       22506708040570251494767800280867013192023254861716619447619153978830312900218
       39094173074404284354049609773169093309355267456506791863456715429567689530710,
     Plus 12 row_12 [(), (), (), ()] 13814551771679088990467856286463629219594088748719534834188588748652699284316
       18455493208993323529433947075090340686555149182968262026782507553318814007475
       44479870492795059423325661290167314955156542518289504094338379762173442286852,
     Plus 13 row_13 [(), (), (), (), (), (), ()] 177946020500353936803484395139760393700681680940542834916985451955836064118
       25434857054349753000538142040444678273642459348817619517691180198845002956068
       42920474696959205983453499100139663470583514940148748318750180163489219851033,
     Plus 13 row_13 [(), (), (), (), (), ()] 2688575603612344997713467653152447649809602900469395114700811070627165171333
       38681444277531872950455249582904135264746985646160448248385244339302222713275
       1143794003179875989382418523319266458073128963849204479544241935316674626930,
     Plus 14 row_14 [(), (), (), (), (), (), ()] 55506932489314159605248517723697960627234896495363451311933566721148635194196
       45188407524967270352530908002121511771930419920070943979306470806680061132518
       2929518971911824761770100457200787258864610396810398952265931090933876681863,
     Plus 14 row_14 [(), (), (), ()] 27676095338169010552633477298375542230735655389041816483828531514454826437455
       48220034461749294200893120094895626619353009628205911796478491311103390742430
       28014140664738678169307384183610042366711652165552938826437905567109597391038,
     Plus 15 row_15 [] 49819341484260515103362967157104270375812493218869211453433591426077838615383
       54278143846581031773567699671831161992579945204323081446252647035716200791635
       44062613043355223768930657515652188645244704888449634869873250943389327831405,
     Plus 31 row_31 [] 20569488275220216862937773813166656143393072803688038188068369470050594164439
       42319756520082245668175629225981564106517581067593179941254050244274008580338
       46240838543664741884090522962892306727086534174345379383710498679704155859840,
     Twice 26353797308447117102911793508663434892861536182902052483092700443638043080916
       42808545117055948577031369361087394424116407674820886800547678386695208751293,
     Twice 12086075992973871705601027013063149903311278969872204627130004862556181880876
       34774708717612189395954827935344364253389913955428345556185258380027196510161,
     Twice 34683416560027607214893627818548122898989525286324598757646058628533872022188
       30396785947840881625334441158644771163275312190253812934145110633606569335562,
     Twice 40796182850034172967574026043044268836095567452806158544028960246581945863309
       10355484518896799769613021150491350705244853618248687397798705061965601821839]"

definition low_steps :: "chain_step list" where
  "low_steps =
    [Plus 0 row_0 [(), (), (), (), (), (), ()] 50181399086976508022333148726693316685502381317250526963238174369316881809178
       52929487198318184528574836457253190216960917246917937003430365999035881686592
       22993461137625559725535259234314004841559785340990342946194055156186597794275,
     Plus 0 row_0 [(), (), (), ()] 57055347884999799055117956560629919804165939772413338538192637834617175476373
       44876430196917522975606221035154745992962001602196689910509747795372674513515
       38407631681646422425432395362838470497941575586239110174897419234105033855766,
     Plus 1 row_1 [(), ()] 49075447623144337598922323327114760405326390730131775715149902021486601280576
       22576760942525884475339528115239359496117359374146595395152508276585121535898
       31430200393666178056073083342678539224078304729273179928544241495581982328943,
     Plus 2 row_2 [(), (), (), ()] 13437206767355832223353408396672127860034285487615502208935747013277636811128
       50816847782564641829858501512131714699802853343557799235672829286770803061878
       3307095630044569063675193168388869457115434858566505512172589840291306205016,
     Plus 3 row_3 [(), (), (), (), (), (), ()] 26677236057421050233150262806818869591385689189944520283783030208427130736475
       48783024446572194484082298117722658522565509326261751312803557624881825479971
       35101900742707968148467252550894989947893550194440409893079065755868571112274,
     Plus 3 row_3 [(), (), ()] 10014994994258887313806585136432192975038310933561277939446774276993343549466
       50145438596819659292110511836260701945202016354481651369247651947103164210154
       15910477511346619056554759443404615817456596806291685400509345827484521670023,
     Plus 4 row_4 [(), (), (), (), (), (), ()] 7821732525431500649074212352700669952645670210907416413213805470269476588551
       11882758883663611318762946123057922139727525084401780105368220628955324872982
       49807527780580746639931172848824627528138074774660633206104777076773359052429,
     Plus 4 row_4 [()] 19425597092055708927121313151670795139786503989990779617137037975316581292053
       15647707122158697413718107318474521842865169146336735608514779733848943144088
       36565362798835561422681510005152079416888495605554489036372470315097047192536,
     Plus 5 row_5 [(), ()] 20440568254287007775119540157025903410803123124920131611771023866959130725378
       2994301042912218473073963688984750518908481896435874846741455836779798708118
       201351196703142071031183167164785304893765964324920863971128205304570827264,
     Plus 6 row_6 [()] 25446061386563002932224572222784826308740902828132188734253613557743325122795
       37919779895123594071606207371838142510581506519769905574638491018189298758518
       3607143835569446513909891328103747236053158178595921082966121599862190821368,
     Plus 7 row_7 [(), (), (), (), (), (), ()] 14421049746534274728787630931562760503364254867487253493562858471496845185886
       3415213015270595168937167682452358902716929002160167928845103106536546651397
       23149175239686976561788757229498397799152042955891938312965332893089044584832,
     Plus 8 row_8 [(), (), (), (), ()] 43097002152681061747190581686889271146719472561410228271841134148007703775720
       18181173311923755987311976774771689460137110641861987847401967533273988175617
       31683513568514996828735113758227792773734835004795421027570493009439493560502,
     Plus 9 row_9 [(), (), (), (), (), (), ()] 50801020157364708806090518732671784031125492276852724931090022633133995737283
       48926950667906949756779810751975882148201765988599958636891356915432827964962
       21813372043494099421107245348835017129117844571455976110696736579512391741027,
     Plus 9 row_9 [(), (), ()] 5338942855388041490091473811821186285826684730378453414051766966676475564312
       22955441174608244058699283510185734712532184776221175658609070142649909733201
       10492057461169733395514072849585883823645362759940081279066524414659366140047,
     Plus 10 row_10 [(), (), (), (), (), ()] 31447623780042698836780770866175005298570592757798091373039803176606051431785
       55306127913504017768854621783540633599949797947871155164184241323773586455819
       11815552460733083059828414247198272356730218146316898092946838488477823634971,
     Plus 11 row_11 [()] 12227115533922388325486732229723763019542223115371810084390625389133598651862
       20326956897038485898615512388052532642306551872415220344300133132133416890123
       14890181566435277226874851888639036819065876236549135051785472303501665156773,
     Plus 12 row_12 [(), (), (), (), (), (), ()] 50233553979693747604112742862240020568810561228558182067988418386338340112407
       10728860892429278788016812698856129642275776312443043689672262524433198769668
       43301337063228193334223902781342942594684542829510573623321158307066289408089,
     Plus 12 row_12 [(), (), (), (), ()] 11857777698537359009397140515749864366503672390979466913224030158676008811040
       46477991955886234404325155720188264016726239482986982159316576574982829009979
       21462488533657570451897835438352543697333599865052731376560780238603368689105,
     Plus 13 row_13 [(), (), (), (), (), (), ()] 14343795999103979582255486512804915228904021939783079819369448094248521247653
       11687278180849908619434270410165423306017621838364968429966123135557118266788
       31296843307370388148392491001263473264435404398153255014002098650498550104144,
     Plus 13 row_13 [] 24238170982927540750749062550038453978267509731596877166781415485145203714595
       43760712766119069269754414034124748832298568482175577797512498673984831455673
       28250989332522389839905779463432447708467252330782532003800704251071557635129,
     Plus 14 row_14 [(), (), (), (), (), (), ()] 35676073472456500496357453051610471100980739330125573435765762676409565902455
       16811142073620044683188848446342239640960454161072038615775883886536996728202
       3789354562592984357150029811945014982913766761430227209477329047904401125188,
     Plus 14 row_14 [(), (), (), (), ()] 25685585996120372996974632258576760813759771018835411749941399307452749175560
       326173228731775980257375525653762139269135242676715556292829149832594345800
       4068387433292871160387451372177293394052594126080585439076277086677246174896,
     Plus 15 row_15 [(), (), ()] 15482043986464605163053888405759124453551062234487298937755008636308529769603
       1
       1]"

lemma high_steps_ok: "chain_ok 1 1 high_steps
    40796182850034172967574026043044268836095567452806158544028960246581945863309
    10355484518896799769613021150491350705244853618248687397798705061965601821839"
  unfolding high_steps_def row_0_def row_1_def row_2_def row_3_def row_4_def row_5_def row_6_def row_7_def row_8_def row_9_def row_10_def row_11_def row_12_def row_13_def row_14_def row_15_def row_31_def by (simp only: chain_rules)

lemma low_steps_ok: "chain_ok 40796182850034172967574026043044268836095567452806158544028960246581945863309
    10355484518896799769613021150491350705244853618248687397798705061965601821839 low_steps 1 1"
  unfolding low_steps_def row_0_def row_1_def row_2_def row_3_def row_4_def row_5_def row_6_def row_7_def row_8_def row_9_def row_10_def row_11_def row_12_def row_13_def row_14_def row_15_def by (simp only: chain_rules)

lemma steps_rows: "chain_rows high_steps" "chain_rows low_steps"
  unfolding high_steps_def low_steps_def by (simp_all add: base_rows_def)

lemma steps_multiple: "chain_multiple (chain_multiple 0 high_steps) low_steps = order_q"
  unfolding high_steps_def low_steps_def order_q_def by simp

lemma pm_of_zero: "pm_of (hx 1) (hx 1) A \<longleftrightarrow> A = 0"
proof -
  obtain x y where a: "affine A = (x, y)" by (cases "affine A")
  have "1 = y + x \<and> 1 = y - x \<longleftrightarrow> x = 0 \<and> y = 1"
  proof
    assume h: "1 = y + x \<and> 1 = y - x"
    then have "2 * x = 2 * 0" "2 * y = 2 * 1" by algebra+
    then show "x = 0 \<and> y = 1" by (blast dest: gf_double_cancel)
  qed simp
  moreover have "hgf (hx 1) = 1" using hgf_hx [of 1] by simp
  ultimately show ?thesis by (simp add: pm_of_def a affine_inject [symmetric] zero_curve25519.rep_eq)
qed

lemma base_point_order: "smul order_q base_point = 0"
proof -
  have "pm_of (hx 1) (hx 1) (smul 0 base_point)" by (simp add: pm_of_zero)
  note chain_ok [OF chain_ok [OF this high_steps_ok steps_rows(1)] low_steps_ok steps_rows(2)]
  then show ?thesis by (simp add: steps_multiple pm_of_zero)
qed

lemma base_point_nonzero: "base_point \<noteq> 0"
proof -
  have "gf_of base_x \<noteq> gf_of 0" unfolding gf_of_eq by (simp add: base_x_def fe_p_def)
  then show ?thesis by (simp add: affine_inject [symmetric] affine_base_point zero_curve25519.rep_eq)
qed

section \<open>A point of order eight\<close>

definition eight_torsion :: curve25519 where
  "eight_torsion = Curve (gf_of 43496726750457979451437558183816721346016168361625936758514574428539776020131, gf_of 55188659117513257062467267217118295137698188065244968500265048394206261417927)"

lemma affine_eight_torsion: "affine eight_torsion = (gf_of 43496726750457979451437558183816721346016168361625936758514574428539776020131, gf_of 55188659117513257062467267217118295137698188065244968500265048394206261417927)"
proof -
  have "curve_ok (hmul (hx 43496726750457979451437558183816721346016168361625936758514574428539776020131) (hx 43496726750457979451437558183816721346016168361625936758514574428539776020131)) (hmul (hx 55188659117513257062467267217118295137698188065244968500265048394206261417927) (hx 55188659117513257062467267217118295137698188065244968500265048394206261417927))"
    by (simp only: check_rules curve_ok_def)
  from curve_ok [OF this] have "on_curve (gf_of 43496726750457979451437558183816721346016168361625936758514574428539776020131, gf_of 55188659117513257062467267217118295137698188065244968500265048394206261417927)" by (simp only: hgf_hx zero_le_numeral)
  then show ?thesis by (simp only: eight_torsion_def Curve_inverse mem_Collect_eq)
qed

lemma eight_torsion_multiples: "smul 8 eight_torsion = 0" "smul 4 eight_torsion \<noteq> 0"
proof -
  have t: "pm_of (hx 40789341249313138802119332896591062557079364094050623239050830818789472618109) (hx 11691932367055277611029709033301573791682019703619031741750473965666485397796) eight_torsion"
    unfolding pm_of_def affine_eight_torsion prod.case hgf_hx [OF zero_le_numeral] gf_of_ring [symmetric] gf_of_eq by (simp add: fe_p_def)
  note t2 = double_ok [OF t, of "hx 19681161376707505956807079304988542015446066515923890162744021073123829784752" "hx 38214883241950591754978413199355411911188925816896391856984770930832735035197"]
  have "double_ok (hx 40789341249313138802119332896591062557079364094050623239050830818789472618109) (hx 11691932367055277611029709033301573791682019703619031741750473965666485397796)
    (hx 19681161376707505956807079304988542015446066515923890162744021073123829784752) (hx 38214883241950591754978413199355411911188925816896391856984770930832735035197)" by (simp only: check_rules)
  note t4 = double_ok [OF t2 [OF this], of "hx 57896044618658097711785492504343953926634992332820282019728792003956564819948" "hx 57896044618658097711785492504343953926634992332820282019728792003956564819948"]
  have "double_ok (hx 19681161376707505956807079304988542015446066515923890162744021073123829784752) (hx 38214883241950591754978413199355411911188925816896391856984770930832735035197) (hx 57896044618658097711785492504343953926634992332820282019728792003956564819948) (hx 57896044618658097711785492504343953926634992332820282019728792003956564819948)"
    by (simp only: check_rules)
  note t4 = t4 [OF this]
  have "double_ok (hx 57896044618658097711785492504343953926634992332820282019728792003956564819948) (hx 57896044618658097711785492504343953926634992332820282019728792003956564819948) (hx 1) (hx 1)"
    by (simp only: check_rules)
  note t8 = double_ok [OF t4 this]
  have e: "eight_torsion + eight_torsion + (eight_torsion + eight_torsion) = smul 4 eight_torsion"
    by (simp only: smul_2 [symmetric] smul_mult [symmetric]) simp
  have "smul 8 eight_torsion = smul 4 eight_torsion + smul 4 eight_torsion" by (simp only: smul_add [symmetric]) simp
  then show "smul 8 eight_torsion = 0" using t8 unfolding e pm_of_zero by simp
  show "smul 4 eight_torsion \<noteq> 0"
  proof
    assume "smul 4 eight_torsion = 0"
    then have "gf_of 57896044618658097711785492504343953926634992332820282019728792003956564819948 = gf_of 1"
      using t4 unfolding e by (simp add: pm_of_def zero_curve25519.rep_eq hgf_hx)
    then show False unfolding gf_of_eq by (simp add: fe_p_def)
  qed
qed

section \<open>The number of points\<close>

lemma smul_sum_const: "finite S \<Longrightarrow> (\<Sum>g \<in> S. A) = smul (int (card S)) A"
proof (induction S rule: finite_induct)
  case (insert x F)
  then show ?case using smul_step [of "int (card F)" A] by (simp add: add.commute)
qed simp

text \<open>The number of elements of a finite group annihilates each of them.\<close>

lemma group_card: "finite (UNIV :: 'a set) \<Longrightarrow> smul (int (card (UNIV :: 'a set))) A = (0 :: 'a :: ab_group_add)"
proof -
  assume f: "finite (UNIV :: 'a set)"
  have "bij (\<lambda>g. g + A)" by (rule bij_betw_byWitness [where f' = "\<lambda>g. g - A"]) auto
  then have "(\<Sum>g \<in> UNIV. g + A) = (\<Sum>g \<in> UNIV. g)" by (rule sum.reindex_bij_betw)
  then show ?thesis using smul_sum_const [OF f, of A] by (simp add: sum.distrib)
qed

definition point_code :: "curve25519 \<Rightarrow> int \<times> int" where
  "point_code A = (case affine A of (x, y) \<Rightarrow> (gf_int y, gf_int x mod 2))"

lemma point_code_inj: "inj point_code"
proof (rule injI)
  fix A B assume e: "point_code A = point_code B"
  obtain x y x' y' where a: "affine A = (x, y)" "affine B = (x', y')" by (cases "affine A"; cases "affine B")
  have "y = y'" "gf_int x mod 2 = gf_int x' mod 2" using e by (simp_all add: point_code_def a gf_int_inj)
  then show "A = B" using point_unique a by simp
qed

lemma point_code_range: "range point_code \<subseteq> {0..<fe_p} \<times> {0, 1}"
  using gf_int_range by (auto simp: point_code_def split: prod.splits)

lemma curve_finite: "finite (UNIV :: curve25519 set)"
  using finite_subset [OF point_code_range] by (intro finite_imageD [OF _ point_code_inj]) simp

lemma curve_card_bound: "int (card (UNIV :: curve25519 set)) \<le> 2 * fe_p"
proof -
  have "card (UNIV :: curve25519 set) = card (range point_code)" by (rule card_image [OF point_code_inj, symmetric])
  also have "\<dots> \<le> card ({0..<fe_p} \<times> {0, 1 :: int})" by (rule card_mono [OF _ point_code_range]) simp
  also have "\<dots> = nat fe_p * 2" by (simp add: card_cartesian_product)
  finally have "int (card (UNIV :: curve25519 set)) \<le> int (nat fe_p * 2)" by (simp only: of_nat_le_iff)
  then show ?thesis by (simp add: fe_p_def)
qed

text \<open>The integers that annihilate an element are closed under greatest common divisors.\<close>

lemma smul_gcd: "smul m A = 0 \<Longrightarrow> smul n A = 0 \<Longrightarrow> smul (gcd m n) A = 0"
proof -
  assume z: "smul m A = 0" "smul n A = 0"
  obtain u v where "u * m + v * n = gcd m n" using bezout_int by blast
  then have "smul (gcd m n) A = smul u (smul m A) + smul v (smul n A)" by (simp only: smul_add [symmetric] smul_mult [symmetric])
  then show ?thesis by (simp add: z)
qed

lemma smul_dvd: "smul m A = 0 \<Longrightarrow> m dvd n \<Longrightarrow> smul n A = 0"
  by (metis dvd_mult_div_cancel mult.commute smul_mult smul_zero)

lemma order_q_dvd:
  assumes "smul n base_point = 0"
  shows "order_q dvd n"
proof (rule ccontr)
  assume "\<not> order_q dvd n"
  then have "\<not> nat order_q dvd nat \<bar>n\<bar>" by (simp add: order_q_def nat_dvd_iff dvd_nat_abs_iff)
  moreover have "prime_nat (nat order_q)" using prime_order by (simp add: order_q_def)
  ultimately have "coprime (nat order_q) (nat \<bar>n\<bar>)" using prime_coprime by blast
  moreover have "\<bar>order_q\<bar> = order_q" by (simp add: order_q_def)
  ultimately have "gcd order_q n = 1" by (simp only: coprime_iff_gcd_eq_1 gcd_int_def of_nat_1)
  then show False using smul_gcd [OF base_point_order assms] base_point_nonzero by simp
qed

lemma eight_dvd:
  assumes "smul n eight_torsion = 0"
  shows "8 dvd n"
proof -
  define g where "g = gcd 8 n"
  have "g dvd 8" "0 \<le> g" by (simp_all add: g_def)
  have z: "smul g eight_torsion = 0" unfolding g_def by (rule smul_gcd [OF eight_torsion_multiples(1) assms])
  have "g \<le> 8" using \<open>g dvd 8\<close> by (rule zdvd_imp_le) simp
  then have "g \<in> {0, 1, 2, 3, 4, 5, 6, 7, 8}" using \<open>0 \<le> g\<close> by auto
  moreover have "\<not> g dvd 4" using smul_dvd [OF z, of 4] eight_torsion_multiples(2) by blast
  ultimately have "g = 8" using \<open>g dvd 8\<close> by (elim insertE emptyE) simp_all
  then show ?thesis unfolding g_def by (metis gcd_dvd2)
qed

lemma curve_card: "int (card (UNIV :: curve25519 set)) = 8 * order_q"
proof -
  let ?n = "int (card (UNIV :: curve25519 set))"
  have "order_q dvd ?n" "8 dvd ?n" using order_q_dvd eight_dvd group_card [OF curve_finite] by blast+
  moreover have "coprime (2 ^ 3) order_q" by (simp only: coprime_power_left_iff coprime_left_2_iff_odd) (simp add: order_q_def)
  ultimately have "8 * order_q dvd ?n" by (simp add: divides_mult)
  then obtain k where k: "?n = 8 * order_q * k" by blast
  have "0 < ?n" using curve_finite by (simp add: card_gt_0_iff)
  then have "0 < k" unfolding k order_q_def by simp
  moreover have "8 * order_q * k \<le> 2 * fe_p" using curve_card_bound unfolding k .
  then have "k < 2" by (simp add: order_q_def fe_p_def)
  ultimately show ?thesis using k by simp
qed

lemma eighth_multiple_order: "smul order_q (smul 8 (A :: curve25519)) = 0"
  using group_card [OF curve_finite, of A] unfolding curve_card by (simp only: smul_mult [symmetric] mult.commute)

end
