(* ===== verification/Vrf_Vectors.thy ===== *)
theory Vrf_Vectors
  imports Ecvrf
begin

text \<open>
  Concrete hashes of the VRF, evaluated by the simplifier, for its examples: a secret scalar, first hashes that decode to
  points, and a challenge.
\<close>

lemma secret_scalar:
  "expandSecret (replicate 64 5) = Ok
    [72, 55, 13, 97, 70, 222, 145, 156, 193, 206, 71, 40, 151, 119, 93, 154,
     108, 40, 52, 197, 9, 224, 142, 20, 239, 203, 43, 82, 24, 143, 148, 110]"
  by code_simp

text \<open>The public key of this secret, and the encoding of the base point.\<close>

definition prover_key :: bytes where
  "prover_key =
    [110, 122, 28, 221, 41, 176, 183, 143, 209, 58, 244, 197, 89, 143, 239, 244,
     239, 42, 151, 22, 110, 60, 166, 242, 228, 251, 252, 205, 128, 80, 91, 241]"

definition base_key :: bytes where
  "base_key =
    [88, 102, 102, 102, 102, 102, 102, 102, 102, 102, 102, 102, 102, 102, 102, 102,
     102, 102, 102, 102, 102, 102, 102, 102, 102, 102, 102, 102, 102, 102, 102, 102]"

lemma prover_digest:
  "sum256 ([3] @ prover_key @ I2OSP 0 4) =
    [255, 13, 132, 2, 176, 163, 72, 92, 93, 169, 152, 178, 195, 111, 65, 201,
     167, 229, 174, 59, 24, 164, 180, 97, 90, 197, 255, 192, 123, 3, 75, 48]"
  unfolding prover_key_def by code_simp

lemma base_digest:
  "sum256 ([2] @ base_key @ I2OSP 0 4) =
    [43, 159, 80, 81, 186, 153, 76, 23, 50, 149, 3, 183, 9, 116, 135, 2,
     209, 74, 27, 28, 102, 189, 254, 79, 125, 150, 23, 79, 244, 34, 7, 2]"
  unfolding base_key_def by code_simp

text \<open>The six encoded points of a challenge.\<close>

definition challenge_octets :: bytes where
  "challenge_octets =
    [2, 88, 102, 102, 102, 102, 102, 102, 102, 102, 102, 102, 102, 102, 102, 102,
     102, 102, 102, 102, 102, 102, 102, 102, 102, 102, 102, 102, 102, 102, 102, 102,
     102, 2, 78, 234, 244, 211, 36, 226, 126, 134, 203, 170, 194, 15, 4, 113,
     147, 119, 239, 98, 145, 51, 36, 234, 86, 166, 165, 76, 180, 163, 225, 139,
     45, 89, 2, 88, 102, 102, 102, 102, 102, 102, 102, 102, 102, 102, 102, 102,
     102, 102, 102, 102, 102, 102, 102, 102, 102, 102, 102, 102, 102, 102, 102, 102,
     102, 102, 102, 3, 159, 21, 11, 44, 219, 29, 129, 121, 52, 85, 61, 240,
     251, 142, 108, 136, 16, 157, 110, 204, 219, 21, 169, 89, 90, 179, 75, 92,
     30, 116, 210, 166, 2, 88, 102, 102, 102, 102, 102, 102, 102, 102, 102, 102,
     102, 102, 102, 102, 102, 102, 102, 102, 102, 102, 102, 102, 102, 102, 102, 102,
     102, 102, 102, 102, 102, 2, 78, 234, 244, 211, 36, 226, 126, 134, 203, 170,
     194, 15, 4, 113, 147, 119, 239, 98, 145, 51, 36, 234, 86, 166, 165, 76,
     180, 163, 225, 139, 45, 89]"

lemma challenge_digest:
  "sum256 challenge_octets =
    [33, 16, 32, 86, 22, 200, 212, 85, 65, 3, 159, 23, 140, 151, 96, 52,
     130, 2, 99, 210, 51, 98, 195, 244, 21, 145, 214, 82, 169, 224, 132, 29]"
  unfolding challenge_octets_def by code_simp

end
