(* ===== verification/Vrf_Points.thy ===== *)
theory Vrf_Points
  imports Vrf_Curve Curve_Order Vrf_Vectors
begin

text \<open>
  Points of the VRF with known coordinates, for its examples: the public key of a secret, the points that first hashes
  decode to, and the octets of a challenge.
\<close>

section \<open>Coordinates\<close>

lemma encode_numbers:
  assumes "length b = 32" and "0 \<le> x" "x < fe_p" "0 \<le> y" "y < fe_p" and "le_int b = y + 2 ^ 255 * (x mod 2)"
  shows "encode_point (gf_of x, gf_of y) = b"
  using le_bytes_le_int [OF assms(1)] assms(2-6) by (simp add: encode_point_def)

lemma pm_of_affine:
  assumes "pm_of (hx p) (hx m) A" and "0 \<le> p" "0 \<le> m" and "p mod fe_p = (y + x) mod fe_p" "m mod fe_p = (y - x) mod fe_p"
  shows "affine A = (gf_of x, gf_of y)"
proof -
  obtain x' y' where a: "affine A = (x', y')" by (cases "affine A")
  have "gf_of (y + x) = y' + x'" "gf_of (y - x) = y' - x'"
    using assms by (simp_all add: pm_of_def a hgf_hx gf_of_eq [symmetric] del: gf_of_ring)
  then have "2 * gf_of x = 2 * x'" "2 * gf_of y = 2 * y'" unfolding gf_of_ring by algebra+
  then show ?thesis by (simp add: a)
qed

lemma affine_Curve:
  assumes "0 \<le> x" "0 \<le> y" and "curve_ok (hmul (hx x) (hx x)) (hmul (hx y) (hx y))"
  shows "affine (Curve (gf_of x, gf_of y)) = (gf_of x, gf_of y)"
  using curve_ok [OF assms(3)] assms(1,2) by (simp add: hgf_hx Curve_inverse)

text \<open>When the first hash is the encoding of a point, the hash to the curve is its eighth multiple.\<close>

lemma first_hash:
  assumes "sum256 (m @ pk @ I2OSP 0 4) = encode_point (affine A)"
  shows "\<exists>h. ECVRF_hash_to_curve local_pkg m pk = Ok h \<and> ext_of h (smul 8 A)"
proof -
  have u: "[0..<vrf_limit] = 0 # [1..<100]" by (simp add: vrf_limit_def upt_conv_Cons)
  obtain P where P: "ed_FromBytes local_pkg (encode_point (affine A)) = Some P" "ext_of P A" using local_FromBytes_encode by blast
  have "OS2ECP local_pkg (encode_point (affine A)) NOSIGN = Some P"
    using P(1) length_encode by (simp add: OS2ECP_def NOSIGN_def go_copy_same_length)
  then show ?thesis using clear_cofactor_of [OF P(2)] unfolding ECVRF_hash_to_curve_def u by (simp add: assms Let_def)
qed

section \<open>A public key\<close>

definition key_high :: "chain_step list" where
  "key_high =
    [Plus 0 row_0 [(), (), ()] 0
       47066272949236454352011004142637614054391928395550853467619416848609482377631
       17900364484490481448458662452751610416972167276715128949046668595979264465087,
     Plus 1 row_1 [(), ()] 15591078450528575260807955779595146919206594628260116491306850071973737403224
       10184352155046504819067228384742431307948273336846795333067811722644218628597
       7429890200177455920623521071642227208270456612321533732561327488459100757271,
     Plus 3 row_3 [(), (), (), (), ()] 53777580672213313760158435237636403361557031763083685769628278586527216419559
       468726003988861608774902856035742867924762427162564840167523703194114169905
       48507941353483874822875983603432962146733789677728976528502000399835589766534,
     Plus 4 row_4 [(), (), ()] 44567875885967801822584559471666255801524007213494327101044067944361148058383
       43623733418408321368903828353934060178459440174820741968497652992357500665630
       27151113011308850303255688294023149723840269860623697359376273738938718985385,
     Plus 5 row_5 [(), (), (), (), (), (), ()] 17838609637976649899286195837477871868760881898008814837006849545291424067224
       15226669184365834502532729081466555077321083371606047455008808881695685930778
       48530560465697755577253608654215107577813064466787058479603986127660941724415,
     Plus 5 row_5 [(), (), (), ()] 23827694041072615184188701970151713337454614079136353079231685358632705578299
       23335013165416814072775409289659013336692768243093568713158061001621155932609
       45826835856918239946957705718053718148595313317224323168499702287946336315296,
     Plus 6 row_6 [(), (), (), (), (), (), ()] 18849480760616880093627572242953333354543975753246776923840294858050713552139
       44205503998985658630817208051519462052930475407588805962945362834748035432592
       27940204015034569705806298892993387306335684157018553032929405050189183191280,
     Plus 6 row_6 [] 55719766348546792905394211214249785603570220351629920951992944595926603539671
       36868131572823364911440473346956936663862973671816717765821494222060566457039
       23274170335331826411962193379465918064540488279375419498313907810709345445397,
     Plus 7 row_7 [(), (), (), (), (), (), ()] 20076995314861113824794038439720441367980978126242773802753773527680039011279
       25324749471091041000159304245824039488955286856205521797777427190521190225401
       44371180378250758955746911110375140020243050416513579179265506715670909324896,
     Plus 7 row_7 [] 24967924053850879079458266550429972655746894413896675011582316445036420612927
       10026687707133886773487471873146605677100143077114188690716253056956997661997
       30265157525702176046613328014485789496428481034988890187415257724517128268281,
     Plus 8 row_8 [(), (), (), (), (), (), ()] 35929785263299714095674694411567700750840059676456859221098151262971493053832
       12298061333834568994703219898910268692305751612864733856577125006552844262120
       21287929599311182123572320652501393136558910773920176376659144181726117666512,
     Plus 8 row_8 [(), (), ()] 55717902261924510200825730310983549037033057557950466872526420581761826601921
       30745241976793558435594124497113652427703786482099633034471491477766216663198
       45669443510603518958729431870879705594449980149640001457870453767226866888016,
     Plus 9 row_9 [(), (), (), (), (), (), ()] 5493512653623359296405137394222058864159597471552668483182593864173214910435
       18209072805823862045651547616725929667404852457307223133168535895151785601896
       46734839385633129806990425397243001391589822212498570906546154320145769591396,
     Plus 9 row_9 [(), (), ()] 29273064520300745457736736633588603419015425765450374173976498080478364795152
       48415292404013618951109526347058187748535313918257198173360192266842266502893
       23958271086918089632049299757918515170335920231264527285782969472348872260130,
     Plus 10 row_10 [(), (), ()] 9433871979323607242649835745988030875789109936927039962351377717044437277192
       25614061783192018778160648763130716819021714680556100295155531323909804097202
       27238956314429275044759416331567550435345432413700740121626758399407295152893,
     Plus 11 row_11 [()] 27621306647555816826952536181835214327639968154107246614618435573799644545756
       21369901871832106551309659175870942942263586981344725525765038516510394431974
       4521900303101925450598138288828535020425405255194115313585135738260330004136,
     Plus 12 row_12 [(), (), (), (), (), (), ()] 48740151981935863414583614151354026113567494241529617080223742507917071767173
       50801920126331885481304372848521414515514848820011492505672696490496037338391
       23632255626621942225821221992668485033783921467308289075060038956059057611844,
     Plus 12 row_12 [] 4024532294779797379966005562689807131190196691497893310573493600912485128979
       35049215413139630561811334343188353850271192777326218012893072907014134070535
       31640573507211872433816515482758812030984743666492874105243688947091063931628,
     Plus 13 row_13 [(), (), (), (), (), ()] 33964457228082049119413258395074732830793323922918390844713273409625347874429
       875276018070916762901154002442466729400411813346546193918243516646197466734
       45020329300411499125962352590035548641082891464991749601069738191030418737907,
     Plus 14 row_14 [(), (), (), ()] 29476737733406432393991062407028731278982266173994682635489566849266276026417
       47962221709198519474243002800290664485651402378317340957031358141637977236264
       14022737482933507534607113523322869474990308193909404897871173491783071193455,
     Plus 15 row_15 [(), (), (), (), (), (), ()] 31096053290514025402436016279629687399733632639930599693306486954047264068494
       54609177836723148045464313022787191299429783180631286084269919003637124003063
       32844004896323586000191152919976586148795181897064138360628213749755748129534,
     Plus 15 row_15 [] 34985511439409271746723314606993266222490470446839264372551815663044409149166
       16541501588851620222339215219573083805153994632139656664835178040847240522604
       56503562907713306839831952383243868841682427645854068989318380615748445602591,
     Plus 16 row_16 [(), (), (), (), ()] 20324555780649578253451923980251399219677888503112847548963291088742356375237
       17166069241314501388904051748265351649191331069116352445367502121722404864128
       30667703948290796941929092428925890427824134097468330059734572619900024136360,
     Plus 17 row_17 [()] 47078612265140366088013160682729362293288588690400655487426115824748388743209
       42270807535551169426534863177993356334713334404549614850776227616073166342571
       44375260374146785813422475330339781190999718990730044460483690467872939761238,
     Plus 18 row_18 [(), ()] 45490779895681594833238670169296378175646673740555985600454471598770620767038
       52835446135821425901413052362186282282403751436670295032377719648029396409671
       14251927236346213766214825681487390421947690424061520081701055076190353592196,
     Plus 19 row_19 [(), (), (), (), (), (), ()] 57132985672070735531589081258493727637147113700232477973213151812718689365262
       18396079371722032052554328110543475299589724975523998057744436218998452288413
       41198471468688766812130796436053923801706049676908831908163353332285862307867,
     Plus 19 row_19 [(), (), ()] 14997664985216287381742637339674606239521270096931606401651232865418845916180
       47599179008549514105254607079001329456945558345970725712275220213193198906386
       26911742905414915695446742703406037675487089690964768852856719338015894069095,
     Plus 21 row_21 [(), (), (), (), (), (), ()] 57123060377559293195842032694372666149079986382878619005082451210915667928406
       5342272568794668358899845946306384120905057533837274424770352530410842001854
       9917594121674996109231641367963217611512804190656116787677261081265793679782,
     Plus 21 row_21 [(), (), (), (), ()] 12783322898211125503628534006630822021320451747048842550971821293370282362586
       22327397949261531209693933648561499670464501668924486745091820405819399492011
       20701933459293606349313752110022117430789922388388442495799347191148225143196,
     Plus 22 row_22 [(), (), (), (), (), (), ()] 48319972636270388026438156527087898121812250479935217079874787219124378207255
       8329380224522787655721229703955869139959753208107167422175484274808837627398
       34281219226377021815080835323993199870114398608126574084443571389429224756423,
     Plus 23 row_23 [] 17376308937664726890281622533066969123019337018566168640414400137007157635106
       44141552824591757279518581091770274081538275640465929722997198895888570118968
       55938028500395073793069351675993720130378093881862265144743108840465500118194,
     Plus 24 row_24 [(), (), (), (), (), (), ()] 52172826155310404303174328447673298239242069469710659190565207250715333195877
       49992839824878832277211448894534522696160548677323784964345451510275675351294
       52056207311460034262197586290492847686922077245145374277148509123316597230760,
     Plus 24 row_24 [(), (), (), (), ()] 48851367383941472437217441872047124408972276313906034434915049149743753388040
       28752374148636813893167156685774467436324910578685044319508494772464864165522
       55805428554470826562595663112254731573564277309205068725358130519116333192764,
     Plus 25 row_25 [(), (), (), (), (), (), ()] 40807076865341232051555638731988989054941052633628454842386158324762197814791
       45171991612601137785319452727053505379371420963668838845826721158879520345124
       47796843270177083958553716352946550084710218177753245065418220948477024074611,
     Plus 25 row_25 [(), (), ()] 8500032100071745181273401824073564722553911486141150231519290610814399677062
       35554262185716907713193737720630195298375221723143688686489374555673593075949
       8093797715764015739243182739466525468905438304883050747913566384586039784656,
     Plus 26 row_26 [()] 5442394477350808854510162814950473575543629195663378156271243414154405952855
       20727912854949855315491637493956916356240737408915957761211508966117765762727
       32776942526981708205463964052447040271117227823440404864257001090928331339203,
     Plus 27 row_27 [(), (), (), ()] 47622458619671081760949602998532859431278586975413030349896866643434032736549
       24334268366511761878238026683756828794469271034393762123977521703889536425175
       20389172351855275203160203466901249387060560897006687942075823313910996080345,
     Plus 28 row_28 [] 31746371132678749862396129123250212287922683157926710781142316734918713228096
       41483620912238087636407332486149965009273311776525357987621194622254407897305
       45630992211072017888598643003810414363411235821531520566605135538183195373878,
     Plus 29 row_29 [(), (), (), (), (), (), ()] 51669119393515089689627836330957435712787820772394007107337835306427604907451
       11210554966232471452713368297616711321725780833983445504620728529852951954752
       29602199144302181623424540838725103687839750716307604473707132048141831926188,
     Plus 30 row_30 [(), (), (), (), (), (), ()] 41764725274779514631746992942396195301512764280529015577352121799340145774356
       13797798936473468256509678982612358719031203077858962376259997321746253801271
       55866579439088113389704064317944385090699822542140783048958805853597839371055,
     Plus 30 row_30 [] 11336682845789829375300584121618500251417129173751462176570836524350849290792
       15552292316827685013263973044920058412400642224699407470333966955379144700001
       17421268679541506584103961150665972289044983970451694389406017156098984040627,
     Plus 31 row_31 [(), (), (), (), ()] 2888417922925209421027814579865240747034972273399215713266332434569633311040
       25703023599411501647120718590896336010485948113056759017932774999885456467870
       44334793907154865320375064162923850201136914319527364172751425610785960084492,
     Twice 17763868180713203799322797046689587705711935673352788910072018792559480391552
       42687562890111752849308606471400241765205148336543961645789862640852693755014,
     Twice 54646567202808591851164147318322306417617822491235492493160062266268386179350
       898946473702071952198681272085451995618503085766395238904339027663656826743,
     Twice 48866477786552167819224608514920833180244792006787611624621055308549672322846
       44789750530905285817380385919575095828276267520522995107147738282353795780575,
     Twice 12916049276366189692435667909303659041799486757457975279518358615571448037432
       34962202917226695989017070085651526234739581579697607552766022932914922031550]"

definition key_low :: "chain_step list" where
  "key_low =
    [Plus 0 row_0 [(), (), (), (), (), (), ()] 21214128020553202267447391206092399646482964292331124680706532065489578436984
       47946721367583208795717676473964541768922087129655027303702708676134592157173
       52356651315787125730974270645510864062150067554717032322783237506244527707569,
     Plus 1 row_1 [(), (), (), (), (), ()] 41714827576263568247928526901804747773950941163068177530926116054602471323638
       47661934784610478274163811385230727684262970962264877827205998267915707778979
       28384485133676477439074988834805339263435916576715320864985890527629239339457,
     Plus 2 row_2 [(), (), (), (), (), (), ()] 2390710558962939775827601031465016906805746676791758984761323724796375989556
       15148170296875731412729417751101215935373925367171883292142930907440933873327
       2339417411346899876735713348485808125268931379472191299655144462275085729669,
     Plus 2 row_2 [(), (), (), ()] 5707036546384975321442409737699288603349591566209891190521462761438735147614
       53792008837462293265579590648193175538806273499624006536864656458647842863135
       3169652635436464475769951124366257564737863493963865552375342978182546106964,
     Plus 3 row_3 [] 45031176832344723783287167074889104332079103813692317263531875673561964409480
       46066879112963795463547518298335681075921733050558104465814919152349000145837
       9154158500048069029764044783971106307429598902926745871799231034307391642515,
     Plus 4 row_4 [(), (), (), (), ()] 16401059576195407706961272231011469199513199418038360711612012929996082743298
       47054969694485355292971095069138095756481602647963182220004206585674155327626
       46393612834510856950226194548157711973037952996478654528123284332044302663177,
     Plus 5 row_5 [(), (), (), (), (), (), ()] 46364636584206887963542263448069017124641773376596458878158796600097231742053
       2592463361853810277700633406667661078392586728917444163386127149586899126274
       56605691354474797447918022854627626330732994372058674764187947500788426556972,
     Plus 5 row_5 [(), (), (), (), ()] 55718523269864253471173767541312957712245399841859198297296371325134013831683
       53167773249619322302801546672208189418191984120196499465123169785191727635198
       46245400281999197860338037699915968053287783251453649443113403052152119721838,
     Plus 6 row_6 [] 41360296808072384154294734906147725667785263955676597504547216793351307071463
       36106432636555920949385384391699743376057345254369951784222974377548610304730
       50797056317282041839380772672670394529702546711950574044048489490311795852404,
     Plus 7 row_7 [(), (), (), (), (), (), ()] 51169206212094889027991675515647279822880508567847037549470204812503355080931
       33900066747674807442396234702928725139202159710994090193227507184746890162596
       25414850255617163311250386787733791444398714654349507835715820572857818315941,
     Plus 7 row_7 [(), (), ()] 7228972958541835504044088306939449468660941881636893684231845624454015762442
       15352414543668144976559464941696533239993277595138621145418347049475991146686
       53167424360719016183206769384819779792038144819787809913171235416155341792998,
     Plus 8 row_8 [] 27797038711968735211688808430989064549443811318664464813258062381244144427928
       44880416567969009344246622530903748554426816421670963231117615582357215796491
       27798639134478047695896879132457100283055528208356766102517209775224546523254,
     Plus 9 row_9 [(), (), (), (), (), (), ()] 44884738307197141885267446996607542159355494190508437709702209690832796590353
       55504760010382348756553029519382512240285836046978958034761899142249877763691
       29744034908455738555966222925488586504911828348763372615246922486916706315067,
     Plus 9 row_9 [(), (), (), (), ()] 23538717006836705104630319353191112349278817058252386814532215980916187493475
       33044595833077032670546861770844788800666483260366038936770705830790803077732
       57142436861287450429078255912205766860754883788484742353296162358995958972663,
     Plus 10 row_10 [(), (), (), (), (), ()] 12372940228108655247144730164795274844537224137759893461472955880132882742767
       17513727200636248131706879397259976819588875900777988984826430299250751212284
       6412208951903871420951522901624246745734658921903415002913636645050508990893,
     Plus 11 row_11 [(), (), (), (), (), (), ()] 57014215633241608508556070704177671904760784778359859571628203159762445572354
       6027165754256713886337534027834329360590979313006431837734109878543263881851
       57095790823182990628173423704739621013941994030057842764928759045855382024818,
     Plus 12 row_12 [(), (), (), (), (), ()] 40836254706439552786610255146498875378524491770353180398342321040870175070479
       7669092668344594136142726975658654042129558523974996258117264841817380631435
       34974092734688213312602989470977553806497287635414912265236258110056666239266,
     Plus 13 row_13 [(), (), (), (), (), ()] 2843360334902236127290685825853554679626475898612093884087937286082425315693
       45556656760644727229568960299314986687254549146353868670447389689335569123107
       42469011115903453299059157069038468009495581819198259000096304990852133953916,
     Plus 14 row_14 [(), (), (), (), (), (), ()] 3762806209120580203000914112430198654520511614412582359408537801318164683557
       38705342271467224692518853550605117162547479530333956895088442917853767677667
       17712780145887206711776922356429152230258982479383420526418689539236086123288,
     Plus 14 row_14 [(), (), (), ()] 49750423234802950591815982593743144018007662939537335911706613797195258811698
       7716956574276244816032937369882208449763139488618551148704682534004760061075
       6477991251742959531418168218586548254673182188807821296522647290595509974157,
     Plus 15 row_15 [(), (), (), (), (), (), ()] 26664615916955483000750385783966599789023664866109149229610803105862902671883
       30229089680547506140724124788659465629087574529678498795801045649013807989396
       13024728861389782703650260057918099672033015831291729211616269256024494292916,
     Plus 15 row_15 [()] 14108473132608219497971787528434893871097377437091604116338423646776106729324
       53769562880579128101525303511863353923450907803878187570910501505583211786815
       45889148703155158361780111862585428337714645906931633429233681770058631406719,
     Plus 16 row_16 [(), (), (), (), (), (), ()] 7556101902842111480837897855033373419076606097161547439646283849307977930853
       7966644949825781713002037990028563418331948008371644071102558497792616879717
       9928591730358454888548263258535200025975563545587219022175783948029665335901,
     Plus 16 row_16 [(), (), ()] 46153222926133781383985541164655144695621078372203351179555260946021741465376
       31589898272720990783271863322328574370038723877835231069306572250240416324
       54932271703074131363554331820811730176920033737131580327987368752300860455904,
     Plus 17 row_17 [(), (), (), (), (), (), ()] 55801643385614839208855165522468134175006548932731441501474079961876783813355
       47083616631866647935518948364952055938856723112610190098161023140607868418400
       5397566583025693151391726000366131972106084953844139914405404792297773354886,
     Plus 18 row_18 [(), (), ()] 38108777092399484082548061084882000590673812352317957353007263166663309529231
       24584951414398009849652020307316585362916871801113216743804193347785959959741
       22432624628439216279742377556206420655296669527661962021716538440136876009669,
     Plus 19 row_19 [(), (), (), ()] 21264718800189808308820867972794859492914737354605972805718537469171646114888
       56648056144138323389163483136223703360245999939711466206611417603031072410899
       45241066801432696231700993700800393189927114302048380742565602846683568189398,
     Plus 20 row_20 [(), (), (), (), (), (), ()] 48397889946203180259408325340392726731180776857901181870255830109947255049470
       47412148359207198319771268181496848218704528740681473696923911091339560889994
       5425115717114633609496403908700959616067976261925468984263766577467567528563,
     Plus 20 row_20 [] 53901318078549023351855830605995125093445933879431577004828635335621882923712
       37521372057968599781489973735996061144051697090377849292760166991686985813257
       56694483971257970140792302586354821335286533711839882822080189576066516053272,
     Plus 22 row_22 [(), (), (), (), (), (), ()] 42606831855790058731951070462026265130019154789880534871732893739768273115092
       53703417337420749973537560334581841876299467503910288471848083511439553605295
       2916508059828669799773762554802280503504937517742347438210562034963851128304,
     Plus 22 row_22 [(), (), (), (), ()] 10864213310292591177454472178575359164136427778838632184542445991341213334246
       37532928733496416617426493951260034773635813592324344142454721333993485002161
       16227154584465320301112497076171104995033412553771465263882846597040362054202,
     Plus 23 row_23 [(), (), ()] 53647912289985615250494707859173453938419322262473572408561415094183271716034
       32974492401416379220389607744796153984884903428842883968906466623588513340143
       46822823825112625040054181005265568055680156344558180903338596026710162348502,
     Plus 24 row_24 [(), (), (), (), (), (), ()] 40762010961633974455559098135652948373510602253358429607435346772702499710342
       470809170952969079147653007413860223849533979368937935155776965735997276602
       48335684443753073743037642549195541128935491737873444346295609941569835208150,
     Plus 24 row_24 [(), (), (), (), (), ()] 39586427424186475586211468555828895179105521926452186858023387325652161226694
       41316419348417860188516779755240780643995289282682781818063479263351157860291
       31945530099090054691517630582095371400598452548065136519967945839641390846487,
     Plus 25 row_25 [(), (), (), (), (), (), ()] 5714474512391774542455566624804282229317454326611225230110302076132040923066
       15198305586510300992630401644963421242114041388603396188678111158420866028151
       38467325492987770470824524486497671199098759973170219428033609772822495992012,
     Plus 25 row_25 [(), ()] 10346753539643689545128082195260530603418664506561183267782421036509592620728
       19731627390537594573336349366990584462069909106009854291540671651664116792386
       10999273462440390754434403331501164561911070301932766988878908538568669352986,
     Plus 26 row_26 [(), (), (), (), (), (), ()] 21377424380195802752969204763142949673951270260482724459120504648720197305985
       9686880770761349602630639421805765943255430680373435751406291769996553760707
       3574596899153075813417319304779795337304777406776427440230215246739243058504,
     Plus 26 row_26 [(), ()] 32410994179870012104384604593953684660424292565006243862968750879726106767247
       25300553940663398574317510629337961128024661800146808670637013998370778340579
       46574239528274808209521490396010357429518475774287940524695282002802754467858,
     Plus 27 row_27 [()] 53112275381693994944596090929893212033306457333205505379693067168478912132461
       43530955276580852077430157822676152171534014801341638531900683674278302256269
       22688030944028863986721779419333588324738388153730500075948958892994154392162,
     Plus 28 row_28 [(), (), (), (), (), (), ()] 21230360034651274200723450052910648624796257056965810775972429643774388948486
       46912365326988369957183797550626117218523624070618090597786401743232045576532
       10166063583526185296795229071140565146633499956823868717292652152860340571972,
     Plus 29 row_29 [(), (), (), (), (), (), ()] 29752434550523166544081816574263824954303350879706224345864590400302259999024
       26265244290361306064482308455415205186923602138117364013263767502762663585023
       25814907017358357581684184002638883477472867332348903927294031972585953467206,
     Plus 29 row_29 [(), (), (), (), (), ()] 5409947137065167848519760915808291942845446553098360293262337241201090009484
       29086058053947709589259428896151434616632279666484174805356591423113185420386
       54061038233252094698039106848777802430557035854815509040299121605007938585869,
     Plus 30 row_30 [(), (), ()] 3089301031168836231937709765322511912671967839947185452110093221175707315786
       32850204811337646059465271831309753763118138054659940265111205810382487117548
       27688712914787229254350966376632121687712471058051582298679236658963800293849,
     Plus 31 row_31 [(), (), (), (), (), (), ()] 36095530070797625060566104371958679790993703523820262362096715644140942239397
       29120165716498413753066661146176381374718208165311873745995812933855847502920
       53474381030619778810777891905331347943321730488221877366268900178784543035453,
     Plus 31 row_31 [(), (), (), (), ()] 11152342741400404098581610026764254990008450266905353011362848799403024402601
       27264431926107067525676035030270888277721924979698251932072329317044355446450
       17384904625390720479150687636156164490512483522824423509206106712662808149565]"

lemma key_high_ok: "chain_ok 1 1 key_high
    12916049276366189692435667909303659041799486757457975279518358615571448037432
    34962202917226695989017070085651526234739581579697607552766022932914922031550"
  unfolding key_high_def row_0_def row_1_def row_3_def row_4_def row_5_def row_6_def row_7_def row_8_def row_9_def row_10_def row_11_def row_12_def row_13_def row_14_def row_15_def row_16_def row_17_def row_18_def row_19_def row_21_def row_22_def row_23_def row_24_def row_25_def row_26_def row_27_def row_28_def row_29_def row_30_def row_31_def by (simp only: chain_rules)

lemma key_low_ok: "chain_ok 12916049276366189692435667909303659041799486757457975279518358615571448037432
    34962202917226695989017070085651526234739581579697607552766022932914922031550 key_low
    27264431926107067525676035030270888277721924979698251932072329317044355446450
    17384904625390720479150687636156164490512483522824423509206106712662808149565"
  unfolding key_low_def row_0_def row_1_def row_2_def row_3_def row_4_def row_5_def row_6_def row_7_def row_8_def row_9_def row_10_def row_11_def row_12_def row_13_def row_14_def row_15_def row_16_def row_17_def row_18_def row_19_def row_20_def row_22_def row_23_def row_24_def row_25_def row_26_def row_27_def row_28_def row_29_def row_30_def row_31_def by (simp only: chain_rules)

lemma key_rows: "chain_rows key_high" "chain_rows key_low"
  unfolding key_high_def key_low_def by (simp_all add: base_rows_def)

definition secret_number :: int where
  "secret_number = 50016894315166439464048218793383796192604543610928215859952670727107559372616"

lemma key_multiple: "chain_multiple (chain_multiple 0 key_high) key_low = secret_number"
  unfolding key_high_def key_low_def secret_number_def by simp

lemma secret_value: "expandSecret (replicate 64 5) = Ok x \<Longrightarrow> le_int x = secret_number"
  unfolding secret_scalar by (drule outcome.inject(1) [THEN iffD1], erule subst) (simp add: secret_number_def)

lemma prover_key_point: "prover_key = encode_point (affine (smul secret_number base_point))"
proof -
  have "pm_of (hx 1) (hx 1) (smul 0 base_point)" by (simp add: pm_of_zero)
  note chain_ok [OF chain_ok [OF this key_high_ok key_rows(1)] key_low_ok key_rows(2)]
  note k = pm_of_affine [OF this, unfolded key_multiple, of 51272690585077942858306107585385503347434700417671478730503614016831864207982
    33887785959687222379155419949229338856922216894847055221297507304169056058417]
  have a: "affine (smul secret_number base_point) = (gf_of 33887785959687222379155419949229338856922216894847055221297507304169056058417,
    gf_of 51272690585077942858306107585385503347434700417671478730503614016831864207982)" by (rule k) (simp_all add: fe_p_def)
  show ?thesis unfolding a
    by (rule encode_numbers [symmetric]) (simp_all add: prover_key_def fe_p_def)
qed

section \<open>Points of hashes\<close>

lemma prover_hash: "\<exists>h A. ECVRF_hash_to_curve local_pkg [3] prover_key = Ok h \<and> ext_of h (smul 8 A)"
proof -
  let ?x = "13872411176991485486501995624900821574164440061557245697516172195852240492924 :: int" and ?y = "21843554303492823947880181036428447803421880018547704908525380231088774057471 :: int"
  have "curve_ok (hmul (hx ?x) (hx ?x)) (hmul (hx ?y) (hx ?y))" by (simp only: check_rules curve_ok_def)
  then have a: "affine (Curve (gf_of ?x, gf_of ?y)) = (gf_of ?x, gf_of ?y)" by (intro affine_Curve) simp_all
  have "encode_point (affine (Curve (gf_of ?x, gf_of ?y))) = sum256 ([3] @ prover_key @ I2OSP 0 4)"
    unfolding a prover_digest by (rule encode_numbers) (simp_all add: fe_p_def)
  from first_hash [OF this [symmetric]] show ?thesis by blast
qed

text \<open>The point of the first hash under the base point as a key, and its eighth multiple.\<close>

definition hash_root :: curve25519 where
  "hash_root = Curve (gf_of 43642975966060006957183950871214906694207872799147635116407960095861999853784, gf_of 917234872552133651305058131985492902852174506663003606319225732913343536939)"

lemma affine_hash_root: "affine hash_root = (gf_of 43642975966060006957183950871214906694207872799147635116407960095861999853784, gf_of 917234872552133651305058131985492902852174506663003606319225732913343536939)"
  unfolding hash_root_def by (rule affine_Curve) (simp_all only: check_rules curve_ok_def)

lemma base_hash: "\<exists>h. ECVRF_hash_to_curve local_pkg [2] base_key = Ok h \<and> ext_of h (smul 8 hash_root)"
proof -
  have "encode_point (affine hash_root) = sum256 ([2] @ base_key @ I2OSP 0 4)"
    unfolding affine_hash_root base_digest by (rule encode_numbers) (simp_all add: fe_p_def)
  from first_hash [OF this [symmetric]] show ?thesis .
qed

lemma affine_hash_point:
  "affine (smul 8 hash_root) = (gf_of 54559681999223730330985319644547007107846726845004869934544173623027035281492,
    gf_of 40336317067796014271463564524098714562048672554926595314786519578681902688846)"
proof -
  have t: "pm_of (hx 44560210838612140608489009003200399597060047305810638722727185828775343390723) (hx 15170303525150224405906599765114540135279294040335650509640057641007908503104) hash_root"
    unfolding pm_of_def affine_hash_root prod.case hgf_hx [OF zero_le_numeral] gf_of_ring [symmetric] gf_of_eq by (simp add: fe_p_def)
  have d: "doubles_ok 44560210838612140608489009003200399597060047305810638722727185828775343390723 15170303525150224405906599765114540135279294040335650509640057641007908503104
    [(2859555150657857713556954674509502267290611772498390768526030705754472246652, 21392264191757730393539975866831879553580055131321205448474952947481638419016),
     (49439977747148229682204313970647804967110136765123837777433316069706559254592, 47648804580814618493706614309059831756879280858340118239850666183894219415356),
     (36999954448361646890663391664301767743260407067111183229601901197752373150389, 43672679687230381652263737383895661380836938042742007399971137959611432227303)]"
    by (simp only: check_rules)
  have "pm_of (hx 36999954448361646890663391664301767743260407067111183229601901197752373150389) (hx 43672679687230381652263737383895661380836938042742007399971137959611432227303) (smul 8 hash_root)"
    using doubles_ok [OF t d] by simp
  then show ?thesis by (rule pm_of_affine) (simp_all add: fe_p_def)
qed

text \<open>The point of order two, and what it adds to a point.\<close>

definition two_torsion :: curve25519 where
  "two_torsion = Curve (0, - 1)"

lemma affine_two_torsion: "affine two_torsion = (0, - 1)"
  unfolding two_torsion_def by (simp add: Curve_inverse on_curve_def)

lemma affine_add_two_torsion: "affine A = (x, y) \<Longrightarrow> affine (A + two_torsion) = (- x, - y)"
  using affine_sum [of A two_torsion] by (cases "affine (A + two_torsion)") (auto simp: affine_two_torsion ed_sum_def Let_def)

lemma two_torsion_order: "smul 2 two_torsion = 0" "two_torsion \<noteq> 0"
proof -
  have "affine (two_torsion + two_torsion) = (0, 1)" using affine_add_two_torsion [OF affine_two_torsion] by simp
  then show "smul 2 two_torsion = 0" by (simp add: smul_2 affine_inject [symmetric] zero_curve25519.rep_eq)
  have "(- 1 :: gf25519) \<noteq> 1"
  proof
    assume "(- 1 :: gf25519) = 1"
    then have "(1 :: gf25519) - - 1 = 1 - 1" by (rule arg_cong)
    then show False using gf_two by simp
  qed
  then show "two_torsion \<noteq> 0" by (simp add: affine_inject [symmetric] affine_two_torsion zero_curve25519.rep_eq)
qed

section \<open>A challenge\<close>

lemma base_key_point: "base_key = encode_point (affine base_point)"
  unfolding affine_base_point by (rule encode_numbers [symmetric]) (simp_all add: base_key_def base_x_def base_y_def fe_p_def)

lemma example_octets:
  "point_os base_point @ point_os (smul 8 hash_root) @ point_os base_point @ point_os (smul 8 hash_root + two_torsion)
    @ point_os base_point @ point_os (smul 8 hash_root) = challenge_octets"
proof -
  have h: "encode_point (affine (smul 8 hash_root)) =
    [78, 234, 244, 211, 36, 226, 126, 134, 203, 170, 194, 15, 4, 113, 147, 119,
     239, 98, 145, 51, 36, 234, 86, 166, 165, 76, 180, 163, 225, 139, 45, 89]"
    unfolding affine_hash_point by (rule encode_numbers) (simp_all add: fe_p_def)
  have "affine (smul 8 hash_root + two_torsion) = (gf_of 3336362619434367380800172859796946818788265487815412085184618380929529538457,
    gf_of 17559727550862083440321927980245239364586319777893686704942272425274662131103)"
    unfolding affine_add_two_torsion [OF affine_hash_point] prod.inject gf_of_ring(5) [symmetric] gf_of_eq by (simp add: fe_p_def)
  then have g: "encode_point (affine (smul 8 hash_root + two_torsion)) =
    [159, 21, 11, 44, 219, 29, 129, 121, 52, 85, 61, 240, 251, 142, 108, 136,
     16, 157, 110, 204, 219, 21, 169, 89, 90, 179, 75, 92, 30, 116, 210, 166]"
    by (simp only:) (rule encode_numbers, simp_all add: fe_p_def)
  show ?thesis unfolding point_os_def base_key_point [symmetric] h g by (simp add: base_key_def challenge_octets_def Let_def)
qed

end
