(* ===== verification/Vrf_Proofs.thy ===== *)
theory Vrf_Proofs
  imports Vrf_Points
begin

text \<open>
  The proofs of the VRF (\<open>src/vrf/vrf_ed25519.go\<close>) over the curve package of the repository: what \<open>ECVRF_verify\<close> computes from
  a proof, that it accepts every proof of \<open>ECVRF_prove\<close> under the key of the secret, and that it also accepts
  proofs of the key's owner with other values, since the value is the point of the proof without its cofactor removed.
\<close>

section \<open>Integers and points\<close>

lemma F2IP_le_int: "length f = 32 \<Longrightarrow> int (F2IP f) = le_int f"
proof -
  have "int (be_nat (rev g)) = le_int g" for g
    by (induction g) (simp_all add: be_nat_append algebra_simps)
  then show "length f = 32 \<Longrightarrow> ?thesis" by (simp add: F2IP_rev)
qed

lemma vrf_response_value: "\<exists>j. int (vrf_response k c x) = int k - int c * int x + j * int vrf_q"
proof
  have "0 \<le> (int k - int c * int x) mod int vrf_q" by (rule pos_mod_sign) (simp add: vrf_q_def)
  then show "int (vrf_response k c x) = int k - int c * int x + (- ((int k - int c * int x) div int vrf_q)) * int vrf_q"
    using minus_mult_div_eq_mod [of "int k - int c * int x" "int vrf_q"] by (simp add: vrf_response_def mult.commute)
qed

lemma vrf_response_small: "vrf_response k c x < vrf_q"
proof -
  have "(int k - int c * int x) mod int vrf_q < int vrf_q" by (rule pos_mod_bound) (simp add: vrf_q_def)
  then show ?thesis by (simp add: vrf_response_def nat_less_iff vrf_q_def)
qed

lemma length_expandSecret: "expandSecret sk = Ok x \<Longrightarrow> length x = 32"
  by (auto simp: expandSecret_def Let_def split: if_splits)

text \<open>The octets of an array of 32 bytes.\<close>

definition octets :: "bytes \<Rightarrow> bytes" where
  "octets b = (drop_bit 7 (b ! 31) + 2) # b"

lemma point_os_octets: "point_os A = octets (encode_point (affine A))"
  by (simp add: point_os_def octets_def Let_def)

lemma S2OS_octets: "length b = 32 \<Longrightarrow> S2OS b = Ok (octets b)"
  by (simp add: S2OS_def octets_def)

section \<open>Proofs of the prover\<close>

definition vrf_challenge :: "bytes \<Rightarrow> curve25519 \<Rightarrow> curve25519 \<Rightarrow> bytes \<Rightarrow> bytes \<Rightarrow> nat" where
  "vrf_challenge pk H Gamma u v = ECVRF_hash_points [point_os base_point, point_os H, octets pk, point_os Gamma, u, v]"

lemma prove_result:
  assumes "length pk = 32" and "length kp = 32" and "expandSecret sk = Ok x" and "expandSecret ks = Ok k"
    and "ECVRF_hash_to_curve local_pkg m pk = Ok h" and "ext_of h H"
    and "c = vrf_challenge pk H (smul (le_int x) H) (octets kp) (point_os (smul (le_int k) H))"
  shows "ECVRF_prove local_pkg (Some (kp, ks)) pk sk m
    = Ok (Some (point_os (smul (le_int x) H) @ nat_be vrf_N c @ nat_be vrf_N2 (vrf_response (F2IP k) c (F2IP x))))"
proof -
  note o = ECP2OS_of [OF GeScalarMult_of [OF length_expandSecret assms(6)]]
  have "ECP2OS local_pkg (G local_pkg) = Ok (point_os base_point)" "ECP2OS local_pkg h = Ok (point_os H)"
    by (rule ECP2OS_of [OF G_of], rule ECP2OS_of [OF assms(6)])
  then show ?thesis
    using hash_points_bound vrf_response_bound
    by (simp add: ECVRF_prove_def assms(3-5) o [OF assms(3)] o [OF assms(4)] S2OS_octets assms(1,2,7) vrf_challenge_def [symmetric]
        Let_def I2OSP_nat_be)
qed

lemma proof_of_prover:
  assumes "length pk = 32" and "length kp = 32" and "expandSecret sk = Ok x" and "expandSecret ks = Ok k"
    and "ECVRF_prove local_pkg (Some (kp, ks)) pk sk m = Ok (Some pf)"
  obtains h A H c s j where "ECVRF_hash_to_curve local_pkg m pk = Ok h" and "ext_of h H" and "H = smul 8 A"
    and "c = vrf_challenge pk H (smul (le_int x) H) (octets kp) (point_os (smul (le_int k) H))"
    and "c < 256 ^ vrf_N" and "s < vrf_q" and "pf = point_os (smul (le_int x) H) @ nat_be vrf_N c @ nat_be vrf_N2 s"
    and "int s = le_int k - int c * le_int x + j * int vrf_q"
proof -
  obtain h where h: "ECVRF_hash_to_curve local_pkg m pk = Ok h" using assms(5) by (rule ECVRF_prove_shape)
  then obtain A where H: "ext_of h (smul 8 A)" using hash_to_curve_of by blast
  define c where "c = vrf_challenge pk (smul 8 A) (smul (le_int x) (smul 8 A)) (octets kp) (point_os (smul (le_int k) (smul 8 A)))"
  define s where "s = vrf_response (F2IP k) c (F2IP x)"
  have pf: "pf = point_os (smul (le_int x) (smul 8 A)) @ nat_be vrf_N c @ nat_be vrf_N2 s"
    using prove_result [OF assms(1-4) h H c_def] assms(5) by (simp add: s_def)
  obtain j where "int s = int (F2IP k) - int c * int (F2IP x) + j * int vrf_q"
    unfolding s_def using vrf_response_value by blast
  then have j: "int s = le_int k - int c * le_int x + j * int vrf_q"
    using F2IP_le_int length_expandSecret assms(3,4) by simp
  have "c < 256 ^ vrf_N" unfolding c_def vrf_challenge_def by (rule hash_points_bound)
  moreover have "s < vrf_q" unfolding s_def by (rule vrf_response_small)
  ultimately show thesis using that [OF h H refl c_def _ _ pf j] by blast
qed

text \<open>The number modulo which responses are reduced is the order of the base point and annihilates eighth multiples.\<close>

lemma vrf_q_order: "smul (int vrf_q) base_point = 0" "smul (int vrf_q) (smul 8 (A :: curve25519)) = 0"
  using base_point_order eighth_multiple_order by (simp_all add: vrf_q_def order_q_def)

lemma response_times:
  fixes A :: curve25519
  assumes "int s = k - c * x + j * int vrf_q" and "smul (int vrf_q) A = 0"
  shows "smul (int s) A = smul k A - smul c (smul x A)"
proof -
  have "smul (int s) A = smul k A - smul c (smul x A) + smul j (smul (int vrf_q) A)"
    unfolding assms(1) by (simp only: diff_conv_add_uminus smul_add smul_minus [symmetric] smul_mult [symmetric])
  then show ?thesis by (simp add: assms(2))
qed

lemma verify_result:
  assumes "length pk = 32" and "ed_FromBytes local_pkg pk = Some P" and "ext_of P Y"
    and "ECVRF_hash_to_curve local_pkg m pk = Ok h" and "ext_of h H"
    and "c < 256 ^ vrf_N" and "s < vrf_q" and "pf = point_os Gamma @ nat_be vrf_N c @ nat_be vrf_N2 s"
  shows "ECVRF_verify local_pkg pk pf m = Ok (Inr (vrf_challenge pk H Gamma
    (point_os (smul (int c) Y + smul (int s) base_point)) (point_os (smul (int c) Gamma + smul (int s) H)) = c))"
proof -
  define ca where "ca = rev (nat_be vrf_N c) @ replicate 16 (0 :: byte)"
  define sa where "sa = rev (nat_be vrf_N2 s)"
  have s: "s < 256 ^ vrf_N2" using assms(7) by (rule less_trans) (simp add: vrf_q_def vrf_N2_def)
  have pf: "pf = ((drop_bit 7 (encode_point (affine Gamma) ! 31) + 2) # encode_point (affine Gamma)) @ nat_be vrf_N c @ nat_be vrf_N2 s"
    using assms(8) by (simp add: point_os_def Let_def)
  note d = decode_proof_octets [OF length_encode assms(6) s pf ca_def sa_def]
  obtain R where R: "ed_FromBytes local_pkg (encode_point (affine Gamma)) = Some R" "ext_of R Gamma"
    using local_FromBytes_encode by blast
  have v: "le_int ca = int c" "le_int sa = int s" using F2IP_le_int d(3-6) by metis+
  have b: "le_int ca < 2 ^ 255" "le_int sa < 2 ^ 255" unfolding v using assms(6,7) by (simp_all add: vrf_N_def vrf_N2_def vrf_q_def)
  have u: "proj_of (GeDoubleScalarMultVartime ca P sa) (smul (int c) Y + smul (int s) base_point)"
    using GeDoubleScalarMultVartime_of [OF d(5) b(1) d(6) b(2) assms(3)] unfolding v .
  have w: "ext_of (GeAdd local_pkg (GeScalarMult local_pkg R ca) (GeScalarMult local_pkg h sa)) (smul (int c) Gamma + smul (int s) H)"
    using GeAdd_of [OF GeScalarMult_of [OF d(5) R(2)] GeScalarMult_of [OF d(6) assms(5)]] unfolding v .
  have o: "OS2ECP local_pkg pk (drop_bit 7 (pk ! 31)) = Some P" using OS2ECP_of_bytes [OF assms(1)] assms(2) by simp
  show ?thesis
    unfolding ECVRF_verify_def d(1) R(1)
    by (simp add: assms(1,4) o Let_def ECP2OS_of [OF G_of] ECP2OS_of [OF assms(5)] ECP2OS_of [OF R(2)] ECP2OSProj_of [OF u]
        ECP2OS_of [OF w] S2OS_octets d(3) vrf_challenge_def)
qed

section \<open>Honest proofs\<close>

text \<open>
  What the verifier recomputes from a proof of the prover under a key that decodes to \<open>Y\<close>: the commitments \<open>k B + c (Y - x B)\<close> and
  \<open>k H\<close>, which it hashes with the points of the prover.
\<close>

theorem verify_recomputes:
  assumes "length pk = 32" and "length kp = 32" and "ed_FromBytes local_pkg pk = Some P" and "ext_of P Y"
    and "expandSecret sk = Ok x" and "expandSecret ks = Ok k" and "ECVRF_prove local_pkg (Some (kp, ks)) pk sk m = Ok (Some pf)"
  shows "\<exists>h H c. ECVRF_hash_to_curve local_pkg m pk = Ok h \<and> ext_of h H
    \<and> c = vrf_challenge pk H (smul (le_int x) H) (octets kp) (point_os (smul (le_int k) H))
    \<and> ECVRF_verify local_pkg pk pf m = Ok (Inr (vrf_challenge pk H (smul (le_int x) H)
        (point_os (smul (le_int k) base_point + smul (int c) (Y - smul (le_int x) base_point))) (point_os (smul (le_int k) H)) = c))"
proof -
  obtain h A H c s j where h: "ECVRF_hash_to_curve local_pkg m pk = Ok h" "ext_of h H" and A: "H = smul 8 A"
    and c: "c = vrf_challenge pk H (smul (le_int x) H) (octets kp) (point_os (smul (le_int k) H))" "c < 256 ^ vrf_N" and s: "s < vrf_q"
    and pf: "pf = point_os (smul (le_int x) H) @ nat_be vrf_N c @ nat_be vrf_N2 s"
    and j: "int s = le_int k - int c * le_int x + j * int vrf_q"
    using assms(1,2,5-7) by (rule proof_of_prover)
  have "smul (int c) Y + smul (int s) base_point = smul (le_int k) base_point + smul (int c) (Y - smul (le_int x) base_point)"
    unfolding response_times [OF j vrf_q_order(1)] diff_conv_add_uminus smul_plus smul_neg by (simp only: ac_simps)
  moreover have "smul (int c) (smul (le_int x) H) + smul (int s) H = smul (le_int k) H"
    using response_times [OF j] vrf_q_order(2) A by simp
  ultimately have "ECVRF_verify local_pkg pk pf m = Ok (Inr (vrf_challenge pk H (smul (le_int x) H)
        (point_os (smul (le_int k) base_point + smul (int c) (Y - smul (le_int x) base_point))) (point_os (smul (le_int k) H)) = c))"
    using verify_result [OF assms(1,3,4) h c(2) s pf] by simp
  then show ?thesis using h c(1) by (intro exI [of _ h] exI [of _ H] exI [of _ c] conjI)
qed

text \<open>
  C8: every proof of \<open>ECVRF_prove\<close> is accepted by \<open>ECVRF_verify\<close>. For any secret and random nonce pair, under the public key that is
  the multiple of the base point by the secret scalar, verification of the returned proof for the same message returns true
  and no error or panic occurs. This rests on the whole chain: the field, the group law, the encodings, the scalar
  multiplications, the order of the base point, and the reduction of the response.
\<close>

theorem honest_proof_accepted:
  assumes "expandSecret sk = Ok x" and "expandSecret ks = Ok k"
    and pk: "pk = encode_point (affine (smul (le_int x) base_point))" and kp: "kp = encode_point (affine (smul (le_int k) base_point))"
    and prove: "ECVRF_prove local_pkg (Some (kp, ks)) pk sk m = Ok (Some pf)"
  shows "ECVRF_verify local_pkg pk pf m = Ok (Inr True)"
proof -
  have l: "length pk = 32" "length kp = 32" by (simp_all add: pk kp length_encode)
  obtain P where P: "ed_FromBytes local_pkg pk = Some P" "ext_of P (smul (le_int x) base_point)"
    unfolding pk using local_FromBytes_encode by blast
  from verify_recomputes [OF l P assms(1,2) prove] show ?thesis
    by (auto simp: point_os_octets [of "smul (le_int k) base_point"] kp [symmetric])
qed

theorem honest_proof_accepted_witness:
  "\<exists>kp pf. ECVRF_prove local_pkg (Some (kp, replicate 64 9)) prover_key (replicate 64 5) [3] = Ok (Some pf)
    \<and> ECVRF_verify local_pkg prover_key pf [3] = Ok (Inr True)"
proof -
  obtain x k where x: "expandSecret (replicate 64 5) = Ok x" and k: "expandSecret (replicate 64 9) = Ok k"
    by (simp add: expandSecret_def Let_def)
  define kp where "kp = encode_point (affine (smul (le_int k) base_point))"
  have pk: "prover_key = encode_point (affine (smul (le_int x) base_point))"
    unfolding secret_value [OF x] by (rule prover_key_point)
  have l: "length prover_key = 32" "length kp = 32" unfolding pk kp_def by (rule length_encode)+
  obtain h A where h: "ECVRF_hash_to_curve local_pkg [3] prover_key = Ok h" "ext_of h (smul 8 A)" using prover_hash by blast
  from prove_result [OF l x k h refl] obtain pf
    where pf: "ECVRF_prove local_pkg (Some (kp, replicate 64 9)) prover_key (replicate 64 5) [3] = Ok (Some pf)" by blast
  from honest_proof_accepted [OF x k pk kp_def pf] pf show ?thesis by blast
qed

section \<open>A second value\<close>

text \<open>
  C36: the owner of a key can prove a second VRF value for the same message. The value is the encoded point of the proof, which the
  verifier does not multiply by the cofactor: any point \<open>T\<close> that the challenge annihilates may be added to \<open>x H\<close>. The
  proof with the same nonce is accepted, and the value differs from the honest one exactly when \<open>T\<close> is not neutral.
\<close>

theorem second_vrf_value:
  assumes pk: "pk = encode_point (affine (smul x base_point))" and h: "ECVRF_hash_to_curve local_pkg m pk = Ok h" "ext_of h H"
    and c: "c = vrf_challenge pk H (smul x H + T) (point_os (smul k base_point)) (point_os (smul k H))" and T: "smul (int c) T = 0"
    and pf: "pf = point_os (smul x H + T) @ nat_be vrf_N c @ nat_be vrf_N2 (nat ((k - int c * x) mod int vrf_q))"
  shows "ECVRF_verify local_pkg pk pf m = Ok (Inr True) \<and> ECVRF_proof2hash pf = Ok (encode_point (affine (smul x H + T)))
    \<and> (encode_point (affine (smul x H + T)) = encode_point (affine (smul x H)) \<longleftrightarrow> T = 0)"
proof -
  define s where "s = nat ((k - int c * x) mod int vrf_q)"
  have q: "0 < int vrf_q" by (simp add: vrf_q_def)
  then have i: "int s = (k - int c * x) mod int vrf_q" by (simp add: s_def)
  then have s: "s < vrf_q" using pos_mod_bound [OF q, of "k - int c * x"] by simp
  have j: "int s = k - int c * x + (- ((k - int c * x) div int vrf_q)) * int vrf_q"
    unfolding i using minus_mult_div_eq_mod [of "k - int c * x" "int vrf_q"] by (simp add: mult.commute)
  obtain P where P: "ed_FromBytes local_pkg pk = Some P" "ext_of P (smul x base_point)" unfolding pk using local_FromBytes_encode by blast
  obtain A where "ext_of h (smul 8 A)" using hash_to_curve_of [OF h(1)] by blast
  with h(2) have A: "H = smul 8 A" by (rule ext_of_unique)
  have l: "length pk = 32" by (simp add: pk length_encode)
  have b: "c < 256 ^ vrf_N" unfolding c vrf_challenge_def by (rule hash_points_bound)
  have "smul (int c) (smul x base_point) + smul (int s) base_point = smul k base_point"
    unfolding response_times [OF j vrf_q_order(1)] by simp
  moreover have "smul (int c) (smul x H + T) + smul (int s) H = smul k H"
    using response_times [OF j] vrf_q_order(2) A T by (simp add: smul_plus)
  moreover have "pf = point_os (smul x H + T) @ nat_be vrf_N c @ nat_be vrf_N2 s" by (simp add: pf s_def)
  ultimately have "ECVRF_verify local_pkg pk pf m = Ok (Inr True)"
    using verify_result [OF l P h b s] c by simp
  moreover have "ECVRF_proof2hash pf = Ok (encode_point (affine (smul x H + T)))"
    by (simp add: ECVRF_proof2hash_def pf point_os_def Let_def length_encode vrf_N2_def)
  moreover have "encode_point (affine (smul x H + T)) = encode_point (affine (smul x H)) \<longleftrightarrow> T = 0"
    using encode_point_inj [of "smul x H + T" "smul x H"] by auto
  ultimately show ?thesis by blast
qed

text \<open>Under the base point as a key, a message has two accepted values.\<close>

theorem second_vrf_value_witness:
  "\<exists>p1 p2 v1 v2. ECVRF_verify local_pkg base_key p1 [2] = Ok (Inr True) \<and> ECVRF_verify local_pkg base_key p2 [2] = Ok (Inr True)
    \<and> ECVRF_proof2hash p1 = Ok v1 \<and> ECVRF_proof2hash p2 = Ok v2 \<and> v1 \<noteq> v2"
proof -
  let ?H = "smul 8 hash_root"
  obtain h where h: "ECVRF_hash_to_curve local_pkg [2] base_key = Ok h" "ext_of h ?H" using base_hash by blast
  have pk: "base_key = encode_point (affine (smul 1 base_point))" by (simp add: base_key_point)
  have c: "vrf_challenge base_key ?H (smul 1 ?H + two_torsion) (point_os (smul 1 base_point)) (point_os (smul 1 ?H)) = 43948256468419532222413615225210626100"
    using example_octets by (simp add: vrf_challenge_def ECVRF_hash_points_def challenge_digest OS2IP_def vrf_N_def vrf_N2_def
        point_os_octets [of base_point] base_key_point [symmetric])
  have t: "smul (int 43948256468419532222413615225210626100) two_torsion = 0"
    using smul_dvd [OF two_torsion_order(1), of "int 43948256468419532222413615225210626100"] by simp
  note p1 = second_vrf_value [where k = 1, OF pk h refl smul_zero refl]
  note p2 = second_vrf_value [OF pk h c [symmetric] t refl]
  show ?thesis using p1 p2 two_torsion_order(2) by auto
qed

end
