(* ===== verification/Scalar25519.thy ===== *)
theory Scalar25519
  imports Field_Encoding
begin

text \<open>
  The scalars of \<open>src/vrf/edwards25519/edwards25519.go\<close>, integers modulo the order
  \<open>l = 2 ^ 252 + 27742317777372353535851937790883648493\<close>: \<open>ScReduce\<close> and \<open>ScMulAdd\<close>. Both work on 24
  limbs of 21 bits in 64-bit integers and are straight-line sequences of three kinds of steps, a carry
  rounded to the nearest integer, a carry rounded down, and the folding of a high limb into six lower
  ones. The limbs \<open>s0, \<dots>, s23\<close> are a list, and the sequences are lists of steps in the order of the source.
\<close>

unbundle bit_operations_syntax

section \<open>Steps\<close>

datatype sc_step = Near nat | Floor nat | Fold nat

text \<open>\<open>carry = (s_i + (1 << 20)) >> 21; s_{i+1} += carry; s_i -= carry << 21\<close>.\<close>

definition sc_near :: "nat \<Rightarrow> i64 list \<Rightarrow> i64 list" where
  "sc_near i s = (let c = signed_drop_bit 21 (s ! i + push_bit 20 1) in s[Suc i := s ! Suc i + c, i := s ! i - push_bit 21 c])"

text \<open>\<open>carry = s_i >> 21; s_{i+1} += carry; s_i -= carry << 21\<close>.\<close>

definition sc_floor :: "nat \<Rightarrow> i64 list \<Rightarrow> i64 list" where
  "sc_floor i s = (let c = signed_drop_bit 21 (s ! i) in s[Suc i := s ! Suc i + c, i := s ! i - push_bit 21 c])"

text \<open>The six statements that fold \<open>s_i\<close> into \<open>s_{i-12}, \<dots>, s_{i-7}\<close>, and \<open>s_i = 0\<close>.\<close>

definition sc_fold :: "nat \<Rightarrow> i64 list \<Rightarrow> i64 list" where
  "sc_fold i s = s[i - 12 := s ! (i - 12) + s ! i * 666643, i - 11 := s ! (i - 11) + s ! i * 470296,
     i - 10 := s ! (i - 10) + s ! i * 654183, i - 9 := s ! (i - 9) - s ! i * 997805,
     i - 8 := s ! (i - 8) + s ! i * 136657, i - 7 := s ! (i - 7) - s ! i * 683901, i := 0]"

fun sc_exec :: "sc_step \<Rightarrow> i64 list \<Rightarrow> i64 list" where
  "sc_exec (Near i) = sc_near i"
| "sc_exec (Floor i) = sc_floor i"
| "sc_exec (Fold i) = sc_fold i"

definition sc_run :: "sc_step list \<Rightarrow> i64 list \<Rightarrow> i64 list" where
  "sc_run p s = fold sc_exec p s"

section \<open>The sequences\<close>

definition sc_carry_product :: "sc_step list" where
  "sc_carry_product = map Near [0, 2, 4, 6, 8, 10, 12, 14, 16, 18, 20, 22] @ map Near [1, 3, 5, 7, 9, 11, 13, 15, 17, 19, 21]"

definition sc_fold_high :: "sc_step list" where
  "sc_fold_high = map Fold [23, 22, 21, 20, 19, 18]"

definition sc_carry_middle :: "sc_step list" where
  "sc_carry_middle = map Near [6, 8, 10, 12, 14, 16] @ map Near [7, 9, 11, 13, 15]"

definition sc_fold_low :: "sc_step list" where
  "sc_fold_low = map Fold [17, 16, 15, 14, 13, 12]"

definition sc_carry_low :: "sc_step list" where
  "sc_carry_low = map Near [0, 2, 4, 6, 8, 10] @ map Near [1, 3, 5, 7, 9, 11]"

definition sc_finish :: "sc_step list" where
  "sc_finish = [Fold 12] @ map Floor [0..<12] @ [Fold 12] @ map Floor [0..<11]"

section \<open>Bytes\<close>

text \<open>The limbs of 32 bytes, the last one with all remaining bits, and the limbs of 64 bytes.\<close>

definition sc_load :: "bytes \<Rightarrow> i64 list" where
  "sc_load a =
     [2097151 AND load3 a,
      2097151 AND signed_drop_bit 5 (load4 (drop 2 a)),
      2097151 AND signed_drop_bit 2 (load3 (drop 5 a)),
      2097151 AND signed_drop_bit 7 (load4 (drop 7 a)),
      2097151 AND signed_drop_bit 4 (load4 (drop 10 a)),
      2097151 AND signed_drop_bit 1 (load3 (drop 13 a)),
      2097151 AND signed_drop_bit 6 (load4 (drop 15 a)),
      2097151 AND signed_drop_bit 3 (load3 (drop 18 a)),
      2097151 AND load3 (drop 21 a),
      2097151 AND signed_drop_bit 5 (load4 (drop 23 a)),
      2097151 AND signed_drop_bit 2 (load3 (drop 26 a)),
      signed_drop_bit 7 (load4 (drop 28 a))]"

definition sc_load_wide :: "bytes \<Rightarrow> i64 list" where
  "sc_load_wide s =
     [2097151 AND load3 s,
      2097151 AND signed_drop_bit 5 (load4 (drop 2 s)),
      2097151 AND signed_drop_bit 2 (load3 (drop 5 s)),
      2097151 AND signed_drop_bit 7 (load4 (drop 7 s)),
      2097151 AND signed_drop_bit 4 (load4 (drop 10 s)),
      2097151 AND signed_drop_bit 1 (load3 (drop 13 s)),
      2097151 AND signed_drop_bit 6 (load4 (drop 15 s)),
      2097151 AND signed_drop_bit 3 (load3 (drop 18 s)),
      2097151 AND load3 (drop 21 s),
      2097151 AND signed_drop_bit 5 (load4 (drop 23 s)),
      2097151 AND signed_drop_bit 2 (load3 (drop 26 s)),
      2097151 AND signed_drop_bit 7 (load4 (drop 28 s)),
      2097151 AND signed_drop_bit 4 (load4 (drop 31 s)),
      2097151 AND signed_drop_bit 1 (load3 (drop 34 s)),
      2097151 AND signed_drop_bit 6 (load4 (drop 36 s)),
      2097151 AND signed_drop_bit 3 (load3 (drop 39 s)),
      2097151 AND load3 (drop 42 s),
      2097151 AND signed_drop_bit 5 (load4 (drop 44 s)),
      2097151 AND signed_drop_bit 2 (load3 (drop 47 s)),
      2097151 AND signed_drop_bit 7 (load4 (drop 49 s)),
      2097151 AND signed_drop_bit 4 (load4 (drop 52 s)),
      2097151 AND signed_drop_bit 1 (load3 (drop 55 s)),
      2097151 AND signed_drop_bit 6 (load4 (drop 57 s)),
      signed_drop_bit 3 (load4 (drop 60 s))]"

definition sc_pack :: "i64 list \<Rightarrow> bytes" where
  "sc_pack s = map ucast
     [signed_drop_bit 0 (s ! 0), signed_drop_bit 8 (s ! 0), signed_drop_bit 16 (s ! 0) OR push_bit 5 (s ! 1),
      signed_drop_bit 3 (s ! 1), signed_drop_bit 11 (s ! 1), signed_drop_bit 19 (s ! 1) OR push_bit 2 (s ! 2),
      signed_drop_bit 6 (s ! 2), signed_drop_bit 14 (s ! 2) OR push_bit 7 (s ! 3),
      signed_drop_bit 1 (s ! 3), signed_drop_bit 9 (s ! 3), signed_drop_bit 17 (s ! 3) OR push_bit 4 (s ! 4),
      signed_drop_bit 4 (s ! 4), signed_drop_bit 12 (s ! 4), signed_drop_bit 20 (s ! 4) OR push_bit 1 (s ! 5),
      signed_drop_bit 7 (s ! 5), signed_drop_bit 15 (s ! 5) OR push_bit 6 (s ! 6),
      signed_drop_bit 2 (s ! 6), signed_drop_bit 10 (s ! 6), signed_drop_bit 18 (s ! 6) OR push_bit 3 (s ! 7),
      signed_drop_bit 5 (s ! 7), signed_drop_bit 13 (s ! 7),
      signed_drop_bit 0 (s ! 8), signed_drop_bit 8 (s ! 8), signed_drop_bit 16 (s ! 8) OR push_bit 5 (s ! 9),
      signed_drop_bit 3 (s ! 9), signed_drop_bit 11 (s ! 9), signed_drop_bit 19 (s ! 9) OR push_bit 2 (s ! 10),
      signed_drop_bit 6 (s ! 10), signed_drop_bit 14 (s ! 10) OR push_bit 7 (s ! 11),
      signed_drop_bit 1 (s ! 11), signed_drop_bit 9 (s ! 11), signed_drop_bit 17 (s ! 11)]"

section \<open>\<open>ScReduce\<close> and \<open>ScMulAdd\<close>\<close>

text \<open>The limbs of \<open>a b + c\<close>: \<open>s_k\<close> is \<open>c_k\<close> and the products \<open>a_i b_{k-i}\<close>.\<close>

definition sc_product :: "i64 list \<Rightarrow> i64 list \<Rightarrow> i64 list \<Rightarrow> i64 list" where
  "sc_product a b c = map (\<lambda>k. (if k < 12 then c ! k else 0) + (\<Sum>i \<leftarrow> filter (\<lambda>i. i \<le> k \<and> k < i + 12) [0..<12]. a ! i * b ! (k - i))) [0..<23] @ [0]"

definition sc_tail :: "sc_step list" where
  "sc_tail = sc_fold_high @ sc_carry_middle @ sc_fold_low @ sc_carry_low @ sc_finish"

definition ScMulAdd :: "bytes \<Rightarrow> bytes \<Rightarrow> bytes \<Rightarrow> bytes" where
  "ScMulAdd a b c = sc_pack (sc_run (sc_carry_product @ sc_tail) (sc_product (sc_load a) (sc_load b) (sc_load c)))"

definition ScReduce :: "bytes \<Rightarrow> bytes" where
  "ScReduce s = sc_pack (sc_run sc_tail (sc_load_wide s))"

section \<open>The steps on integers, and their bounds\<close>

definition sc_l :: int where "sc_l = 2 ^ 252 + 27742317777372353535851937790883648493"

primrec sval :: "int list \<Rightarrow> int" where
  "sval [] = 0"
| "sval (x # xs) = x + 2 ^ 21 * sval xs"

fun int_exec :: "sc_step \<Rightarrow> int list \<Rightarrow> int list" where
  "int_exec (Near i) s = (let c = (s ! i + 2 ^ 20) div 2 ^ 21 in s[Suc i := s ! Suc i + c, i := s ! i - c * 2 ^ 21])"
| "int_exec (Floor i) s = (let c = s ! i div 2 ^ 21 in s[Suc i := s ! Suc i + c, i := s ! i - c * 2 ^ 21])"
| "int_exec (Fold i) s = s[i - 12 := s ! (i - 12) + s ! i * 666643, i - 11 := s ! (i - 11) + s ! i * 470296,
     i - 10 := s ! (i - 10) + s ! i * 654183, i - 9 := s ! (i - 9) - s ! i * 997805,
     i - 8 := s ! (i - 8) + s ! i * 136657, i - 7 := s ! (i - 7) - s ! i * 683901, i := 0]"

text \<open>A bound of the absolute value of each limb after a step, from those before it.\<close>

fun bound_exec :: "sc_step \<Rightarrow> int list \<Rightarrow> int list" where
  "bound_exec (Near i) b = b[Suc i := b ! Suc i + ((b ! i + 2 ^ 20) div 2 ^ 21 + 1), i := 2 ^ 20]"
| "bound_exec (Floor i) b = b[Suc i := b ! Suc i + (b ! i div 2 ^ 21 + 1), i := 2 ^ 21]"
| "bound_exec (Fold i) b = b[i - 12 := b ! (i - 12) + b ! i * 666643, i - 11 := b ! (i - 11) + b ! i * 470296,
     i - 10 := b ! (i - 10) + b ! i * 654183, i - 9 := b ! (i - 9) + b ! i * 997805,
     i - 8 := b ! (i - 8) + b ! i * 136657, i - 7 := b ! (i - 7) + b ! i * 683901, i := 0]"

text \<open>A step is safe when its index is in range and a shifted limb fits into 64 bits.\<close>

fun step_safe :: "sc_step \<Rightarrow> int list \<Rightarrow> bool" where
  "step_safe (Near i) b \<longleftrightarrow> i < 23 \<and> b ! i + 2 ^ 20 < 2 ^ 63"
| "step_safe (Floor i) b \<longleftrightarrow> i < 23 \<and> b ! i < 2 ^ 63"
| "step_safe (Fold i) b \<longleftrightarrow> 12 \<le> i \<and> i < 24"

primrec run_safe :: "sc_step list \<Rightarrow> int list \<Rightarrow> bool" where
  "run_safe [] b \<longleftrightarrow> True"
| "run_safe (st # p) b \<longleftrightarrow> step_safe st b \<and> run_safe p (bound_exec st b)"

lemma sval_append: "sval (xs @ ys) = sval xs + 2 ^ (21 * length xs) * sval ys"
  by (induction xs) (simp_all add: power_add algebra_simps)

lemma sval_update: "k < length s \<Longrightarrow> sval (s[k := x]) = sval s + (x - s ! k) * 2 ^ (21 * k)"
proof -
  assume k: "k < length s"
  then have "sval s = sval (take k s @ s ! k # drop (Suc k) s)" by (simp add: id_take_nth_drop [symmetric])
  with k show ?thesis by (simp add: upd_conv_take_nth_drop sval_append algebra_simps)
qed

abbreviation words :: "int list \<Rightarrow> i64 list" where "words \<equiv> map word_of_int"

definition within_bounds :: "int list \<Rightarrow> int list \<Rightarrow> bool" where
  "within_bounds b s \<longleftrightarrow> length b = 24 \<and> length s = 24 \<and> (\<forall>i < 24. bounded_by (b ! i) (s ! i))"

lemma within_nth: "within_bounds b s \<Longrightarrow> i < 24 \<Longrightarrow> bounded_by (b ! i) (s ! i)"
  by (simp add: within_bounds_def)

lemma within_update: "within_bounds b s \<Longrightarrow> bounded_by c x \<Longrightarrow> within_bounds (b[i := c]) (s[i := x])"
  by (cases "i < 24") (auto simp: within_bounds_def nth_list_update)

text \<open>One carry: its size, the rest and the value of the limbs.\<close>

lemma near_carry_bound:
  assumes "bounded_by b x"
  shows "bounded_by ((b + 2 ^ 20) div 2 ^ 21 + 1) ((x + 2 ^ 20) div 2 ^ 21)"
    and "bounded_by (2 ^ 20) (x - (x + 2 ^ 20) div 2 ^ 21 * 2 ^ 21)"
proof -
  have "2 ^ 21 * ((x + 2 ^ 20) div 2 ^ 21) \<le> x + 2 ^ 20" "x + 2 ^ 20 < 2 ^ 21 * ((x + 2 ^ 20) div 2 ^ 21) + 2 ^ 21"
    "b + 2 ^ 20 < 2 ^ 21 * ((b + 2 ^ 20) div 2 ^ 21) + 2 ^ 21"
    using floor_bounds [of 21 "x + 2 ^ 20"] floor_bounds [of 21 "b + 2 ^ 20"] by blast+
  with assms show "bounded_by ((b + 2 ^ 20) div 2 ^ 21 + 1) ((x + 2 ^ 20) div 2 ^ 21)"
    and "bounded_by (2 ^ 20) (x - (x + 2 ^ 20) div 2 ^ 21 * 2 ^ 21)"
    unfolding bounded_by_def by simp_all
qed

lemma floor_carry_bound:
  assumes "bounded_by b x"
  shows "bounded_by (b div 2 ^ 21 + 1) (x div 2 ^ 21)" and "bounded_by (2 ^ 21) (x - x div 2 ^ 21 * 2 ^ 21)"
proof -
  have "2 ^ 21 * (x div 2 ^ 21) \<le> x" "x < 2 ^ 21 * (x div 2 ^ 21) + 2 ^ 21" "b < 2 ^ 21 * (b div 2 ^ 21) + 2 ^ 21"
    using floor_bounds [of 21 x] floor_bounds [of 21 b] by blast+
  with assms show "bounded_by (b div 2 ^ 21 + 1) (x div 2 ^ 21)" and "bounded_by (2 ^ 21) (x - x div 2 ^ 21 * 2 ^ 21)"
    unfolding bounded_by_def by simp_all
qed

lemma carry_value:
  assumes "Suc i < length s"
  shows "sval (s[Suc i := s ! Suc i + c, i := s ! i - c * 2 ^ 21]) = sval s"
  using assms by (simp add: sval_update power_add algebra_simps)

text \<open>Folding takes a multiple of the order away.\<close>

lemma fold_value:
  assumes "length s = 24" and "12 \<le> i" and "i < 24"
  shows "sval (int_exec (Fold i) s) = sval s - s ! i * 2 ^ (21 * (i - 12)) * sc_l"
proof -
  obtain k where i: "i = k + 12" using assms(2) by (metis add.commute le_Suc_ex)
  show ?thesis using assms(1,3) unfolding i
    by (simp add: sval_update power_add sc_l_def algebra_simps)
qed

lemma bounded_times: "bounded_by B x \<Longrightarrow> 0 \<le> k \<Longrightarrow> bounded_by (B * k) (x * k)"
  by (rule bounded_mult [of B _ k]) (simp_all add: bounded_by_def)

text \<open>On words the steps compute what they compute on integers, as long as the shifted limbs fit.\<close>

lemma words_update: "(words s)[i := word_of_int x] = words (s[i := x])"
  by (simp add: map_update)

lemma exec_words:
  assumes "within_bounds b s" and "step_safe st b"
  shows "sc_exec st (words s) = words (int_exec st s)"
proof (cases st)
  case (Near i)
  then have i: "i < 23" "length s = 24" "bounded_by (b ! i) (s ! i)" "b ! i + 2 ^ 20 < 2 ^ 63"
    using assms by (auto simp: within_bounds_def)
  then have "\<bar>s ! i + 2 ^ 20\<bar> < 2 ^ 63" by (simp add: bounded_by_def abs_less_iff)
  note c = sshift_of_int_64 [OF this, of 21]
  have n: "i < length s" "Suc i < length s" using i(1,2) by simp_all
  have "words s ! i + push_bit 20 1 = word_of_int (s ! i + 2 ^ 20)" using n by (simp add: push_bit_1_word)
  then show ?thesis unfolding Near sc_exec.simps sc_near_def int_exec.simps Let_def
    by (simp only: c shift_of_int nth_map n words_update of_int_add [symmetric] of_int_diff [symmetric])
next
  case (Floor i)
  then have i: "i < 23" "length s = 24" "bounded_by (b ! i) (s ! i)" "b ! i < 2 ^ 63"
    using assms by (auto simp: within_bounds_def)
  then have "\<bar>s ! i\<bar> < 2 ^ 63" by (simp add: bounded_by_def abs_less_iff)
  from sshift_of_int_64 [OF this, of 21] i(1,2) show ?thesis
    by (simp add: Floor sc_floor_def Let_def shift_of_int words_update
        flip: of_int_add of_int_diff of_int_mult del: of_int_add of_int_diff of_int_mult)
next
  case (Fold i)
  then have i: "12 \<le> i" "i < 24" "length s = 24" using assms by (auto simp: within_bounds_def)
  have n: "(666643 :: i64) = word_of_int 666643" "(470296 :: i64) = word_of_int 470296" "(654183 :: i64) = word_of_int 654183"
    "(997805 :: i64) = word_of_int 997805" "(136657 :: i64) = word_of_int 136657" "(683901 :: i64) = word_of_int 683901"
    "(0 :: i64) = word_of_int 0" by simp_all
  show ?thesis using i unfolding Fold sc_exec.simps sc_fold_def int_exec.simps n
    by (simp only: nth_map words_update of_int_add [symmetric] of_int_diff [symmetric] of_int_mult [symmetric])
qed

lemma exec_bounds:
  assumes "within_bounds b s" and "step_safe st b"
  shows "within_bounds (bound_exec st b) (int_exec st s)"
proof (cases st)
  case (Near i)
  then have "i < 24" "Suc i < 24" using assms(2) by auto
  then show ?thesis unfolding Near bound_exec.simps int_exec.simps Let_def
    using near_carry_bound [OF within_nth [OF assms(1)]] within_nth [OF assms(1)]
    by (intro within_update assms(1) bounded_add [OF _ _ order_refl]) simp_all
next
  case (Floor i)
  then have "i < 24" "Suc i < 24" using assms(2) by auto
  then show ?thesis unfolding Floor bound_exec.simps int_exec.simps Let_def
    using floor_carry_bound [OF within_nth [OF assms(1)]] within_nth [OF assms(1)]
    by (intro within_update assms(1) bounded_add [OF _ _ order_refl]) simp_all
next
  case (Fold i)
  then have i: "i < 24" "i - 12 < 24" "i - 11 < 24" "i - 10 < 24" "i - 9 < 24" "i - 8 < 24" "i - 7 < 24" using assms(2) by auto
  note n = within_nth [OF assms(1)]
  show ?thesis unfolding Fold bound_exec.simps int_exec.simps
    by (intro within_update assms(1) bounded_add [OF _ _ order_refl] bounded_diff [OF _ _ order_refl] n i bounded_times)
      (simp_all add: bounded_by_def)
qed

lemma exec_value:
  assumes "within_bounds b s" and "step_safe st b"
  shows "sval (int_exec st s) mod sc_l = sval s mod sc_l"
proof (cases st)
  case (Fold i)
  then show ?thesis using assms fold_value [of s i] mod_mult_self1 [of "sval s" "- (s ! i * 2 ^ (21 * (i - 12)))" sc_l]
    by (simp add: within_bounds_def del: int_exec.simps)
qed (use assms carry_value in \<open>auto simp: within_bounds_def Let_def\<close>)

lemma run_sound:
  assumes "within_bounds b s" and "run_safe p b"
  shows "sc_run p (words s) = words (fold int_exec p s) \<and> within_bounds (fold bound_exec p b) (fold int_exec p s)
    \<and> sval (fold int_exec p s) mod sc_l = sval s mod sc_l"
  using assms
proof (induction p arbitrary: b s)
  case (Cons st p)
  then show ?case
    using exec_words [of b s st] exec_bounds [of b s st] exec_value [of b s st]
      Cons.IH [of "bound_exec st b" "int_exec st s"] by (simp add: sc_run_def)
qed (simp add: sc_run_def)

section \<open>The last steps\<close>

lemma floor_chain:
  assumes "length s = 24" and "m \<le> 23"
  shows "length (fold int_exec (map Floor [0..<m]) s) = 24 \<and> sval (fold int_exec (map Floor [0..<m]) s) = sval s
    \<and> (\<forall>i < m. 0 \<le> fold int_exec (map Floor [0..<m]) s ! i \<and> fold int_exec (map Floor [0..<m]) s ! i < 2 ^ 21)
    \<and> (\<forall>i. m < i \<and> i < 24 \<longrightarrow> fold int_exec (map Floor [0..<m]) s ! i = s ! i)"
  using assms(2)
proof (induction m)
  case (Suc m)
  let ?t = "fold int_exec (map Floor [0..<m]) s"
  have r: "0 \<le> ?t ! m - ?t ! m div 2 ^ 21 * 2 ^ 21" "?t ! m - ?t ! m div 2 ^ 21 * 2 ^ 21 < 2 ^ 21"
    using floor_bounds [of 21 "?t ! m"] by (simp_all add: mult.commute)
  have "fold int_exec (map Floor [0..<Suc m]) s = ?t[Suc m := ?t ! Suc m + ?t ! m div 2 ^ 21, m := ?t ! m - ?t ! m div 2 ^ 21 * 2 ^ 21]"
    by (simp add: Let_def)
  then show ?case using Suc r carry_value [of m ?t "?t ! m div 2 ^ 21"]
    by (auto simp: nth_list_update less_Suc_eq)
qed (simp add: assms(1))

lemma low_limbs:
  assumes "\<forall>x \<in> set s. 0 \<le> x \<and> x < 2 ^ 21"
  shows "0 \<le> sval s \<and> sval s < 2 ^ (21 * length s)"
  using assms by (induction s) (auto simp: power_add)

lemma sval_zeros: "\<forall>x \<in> set s. x = 0 \<Longrightarrow> sval s = 0"
  by (induction s) simp_all

text \<open>Limbs below \<open>2 ^ 21\<close> in the first \<open>m\<close> places and zeros above place \<open>m\<close> divide the value by \<open>2 ^ (21 m)\<close>.\<close>

lemma top_limb:
  assumes "length s = 24" and "m < 24" and "\<forall>i < m. 0 \<le> s ! i \<and> s ! i < 2 ^ 21" and "\<forall>i. m < i \<and> i < 24 \<longrightarrow> s ! i = 0"
  shows "s ! m = sval s div 2 ^ (21 * m)" and "sval (take m s) = sval s mod 2 ^ (21 * m)"
proof -
  have "\<forall>x \<in> set (take m s). 0 \<le> x \<and> x < 2 ^ 21" using assms(1-3) by (auto simp: in_set_conv_nth)
  from low_limbs [OF this] have lo: "0 \<le> sval (take m s)" "sval (take m s) < 2 ^ (21 * m)" using assms(1,2) by simp_all
  have "\<forall>x \<in> set (drop (Suc m) s). x = 0" using assms(1,4) by (auto simp: in_set_conv_nth)
  then have "sval (drop m s) = s ! m" using sval_zeros assms(1,2) Cons_nth_drop_Suc [of m s] by (metis sval.simps(2) add_0_right mult_zero_right)
  then have "sval s = sval (take m s) + 2 ^ (21 * m) * s ! m"
    using sval_append [of "take m s" "drop m s"] assms(1,2) by simp
  then show "s ! m = sval s div 2 ^ (21 * m)" "sval (take m s) = sval s mod 2 ^ (21 * m)" using lo by simp_all
qed

lemma finish_value:
  assumes "length s = 24" and "\<forall>i. 12 \<le> i \<and> i < 24 \<longrightarrow> s ! i = 0" and "\<bar>sval s\<bar> < 2 ^ 252"
  defines "t \<equiv> fold int_exec (map Floor [0..<12] @ [Fold 12] @ map Floor [0..<11]) s"
  shows "length t = 24" and "sval t = sval s mod sc_l" and "\<forall>i < 11. 0 \<le> t ! i \<and> t ! i < 2 ^ 21"
    and "\<forall>i. 11 < i \<and> i < 24 \<longrightarrow> t ! i = 0"
proof -
  define u where "u = fold int_exec (map Floor [0..<12]) s"
  define w where "w = int_exec (Fold 12) u"
  have t: "t = fold int_exec (map Floor [0..<11]) w" unfolding t_def w_def u_def by (simp only: fold_append fold.simps comp_def id_def)
  have u: "length u = 24" "sval u = sval s" "\<forall>i < 12. 0 \<le> u ! i \<and> u ! i < 2 ^ 21" "\<forall>i. 12 < i \<and> i < 24 \<longrightarrow> u ! i = 0"
    using floor_chain [OF assms(1), of 12, folded u_def] assms(2) by auto
  have "u ! 12 = sval s div 2 ^ 252" using top_limb(1) [OF u(1) _ u(3,4)] u(2) by simp
  then have c: "u ! 12 = 0 \<and> 0 \<le> sval s \<or> u ! 12 = - 1 \<and> sval s < 0"
    using assms(3) floor_bounds [of 252 "sval s"] by (auto simp: abs_less_iff div_eq_minus1 zdiv_eq_0_iff)
  have w: "length w = 24" "sval w = sval s - u ! 12 * sc_l" "\<forall>i. 12 \<le> i \<and> i < 24 \<longrightarrow> w ! i = 0"
    using fold_value [OF u(1), of 12] u by (simp_all add: w_def nth_list_update del: int_exec.simps) (auto simp: nth_list_update)
  have "0 \<le> sval w" "sval w < sc_l" using w(2) c assms(3) by (auto simp: sc_l_def)
  moreover have "sval w mod sc_l = sval s mod sc_l" unfolding w(2) using mod_mult_self1 [of "sval s" "- u ! 12" sc_l] by simp
  ultimately have "sval w = sval s mod sc_l" by simp
  then show "length t = 24" and "sval t = sval s mod sc_l" and "\<forall>i < 11. 0 \<le> t ! i \<and> t ! i < 2 ^ 21"
    and "\<forall>i. 11 < i \<and> i < 24 \<longrightarrow> t ! i = 0"
    using floor_chain [OF w(1), of 11, folded t] w(3) by auto
qed

section \<open>Packing\<close>

definition sc_canonical :: "int list \<Rightarrow> bool" where
  "sc_canonical t \<longleftrightarrow> length t = 24 \<and> (\<forall>i < 11. 0 \<le> t ! i \<and> t ! i < 2 ^ 21) \<and> 0 \<le> t ! 11 \<and> t ! 11 \<le> 2 ^ 21
     \<and> (\<forall>i. 11 < i \<and> i < 24 \<longrightarrow> t ! i = 0)"

lemma narrow_byte_64: "(ucast (word_of_int i :: i64) :: byte) = word_of_int i"
  by (rule ucast_down_wi) (simp add: is_down)

lemma sval_at: "i < length t \<Longrightarrow> sval t = sval (take i t) + 2 ^ (21 * i) * (t ! i + 2 ^ 21 * sval (drop (Suc i) t))"
proof -
  assume i: "i < length t"
  then have "sval t = sval (take i t @ t ! i # drop (Suc i) t)" by (simp add: id_take_nth_drop [symmetric])
  with i show ?thesis by (simp add: sval_append)
qed

lemma canonical_low:
  assumes "sc_canonical t" and "i \<le> 11"
  shows "0 \<le> sval (take i t)" and "sval (take i t) < 2 ^ (21 * i)"
proof -
  have "\<forall>x \<in> set (take i t). 0 \<le> x \<and> x < 2 ^ 21" using assms by (auto simp: in_set_conv_nth sc_canonical_def)
  from low_limbs [OF this] show "0 \<le> sval (take i t)" "sval (take i t) < 2 ^ (21 * i)"
    using assms by (simp_all add: sc_canonical_def)
qed

lemma canonical_shift:
  assumes "sc_canonical t" and "i < 12"
  shows "signed_drop_bit a (words t ! i) = word_of_int (t ! i div 2 ^ a)"
proof -
  have "i < 11 \<or> i = 11" using assms(2) by auto
  then have "\<bar>t ! i\<bar> < 2 ^ 63" using assms(1) unfolding sc_canonical_def by fastforce
  from sshift_of_int_64 [OF this] show ?thesis using assms by (simp add: sc_canonical_def)
qed

lemma sc_byte:
  assumes "sc_canonical t" and "i < 11" and "8 * k = 21 * i + a" and "a + 8 \<le> 21"
  shows "(ucast (signed_drop_bit a (words t ! i)) :: byte) = word_of_int (sval t div 256 ^ k)"
  using limb_byte [OF sval_at canonical_low [OF assms(1)] assms(3,4)] assms(1,2) canonical_shift [OF assms(1), of i a]
  by (simp add: narrow_byte_64 sc_canonical_def)

lemma sc_byte_top:
  assumes "sc_canonical t" and "8 * k = 231 + a" and "a + 8 \<le> 25"
  shows "(ucast (signed_drop_bit a (words t ! 11)) :: byte) = word_of_int (sval t div 256 ^ k)"
proof -
  have "\<forall>x \<in> set (drop 12 t). x = 0" using assms(1) by (auto simp: in_set_conv_nth sc_canonical_def)
  then have "sval (drop 12 t) = 0" by (rule sval_zeros)
  then have x: "sval t = sval (take 11 t) + 2 ^ 231 * (t ! 11 + 2 ^ 25 * 0)"
    using sval_at [of 11 t] assms(1) by (simp add: sc_canonical_def)
  have "0 \<le> sval (take 11 t)" "sval (take 11 t) < 2 ^ 231" using canonical_low [OF assms(1), of 11] by simp_all
  from limb_byte [OF x this assms(2,3)] canonical_shift [OF assms(1), of 11 a] show ?thesis by (simp add: narrow_byte_64)
qed

lemma sc_byte_cross:
  assumes "sc_canonical t" and "i < 11" and "8 * k = 21 * i + a" and "21 = a + sh" and j: "j = Suc i"
  shows "(ucast (signed_drop_bit a (words t ! i) OR push_bit sh (words t ! j)) :: byte) = word_of_int (sval t div 256 ^ k)"
proof -
  have l: "Suc i < length t" and r: "0 \<le> t ! i" "t ! i < 2 ^ 21" using assms(1,2) by (auto simp: sc_canonical_def)
  have "sval (drop (Suc i) t) = t ! Suc i + 2 ^ 21 * sval (drop (Suc (Suc i)) t)"
    using Cons_nth_drop_Suc [OF l, symmetric] by simp
  then have x: "sval t = sval (take i t) + 2 ^ (21 * i) * (t ! i + 2 ^ 21 * (t ! Suc i + 2 ^ 21 * sval (drop (Suc (Suc i)) t)))"
    using sval_at [of i t] l by simp
  have lo: "0 \<le> sval (take i t)" "sval (take i t) < 2 ^ (21 * i)" using canonical_low [OF assms(1), of i] assms(2) by simp_all
  have "2 ^ a * (t ! i div 2 ^ a) < 2 ^ a * 2 ^ sh"
    using floor_bounds [of a "t ! i"] r(2) unfolding power_add [symmetric] assms(4) [symmetric] by linarith
  then have d: "0 \<le> t ! i div 2 ^ a" "t ! i div 2 ^ a < 2 ^ sh" using r(1) by (simp_all add: pos_imp_zdiv_nonneg_iff)
  have "(2 :: int) ^ sh \<le> 2 ^ 21" using assms(4) by (intro power_increasing) simp_all
  with d have "uint (word_of_int (t ! i div 2 ^ a) :: i64) < 2 ^ sh" by (simp add: uint_word_of_int)
  then have "signed_drop_bit a (words t ! i) OR push_bit sh (words t ! Suc i) = word_of_int (t ! i div 2 ^ a + 2 ^ sh * t ! Suc i)"
    using or_shifted [of "word_of_int (t ! i div 2 ^ a) :: i64" sh "word_of_int (t ! Suc i)"] l
      canonical_shift [OF assms(1), of i a] assms(2) by (simp add: push_bit_eq_mult mult.commute)
  then show ?thesis unfolding j using limb_cross [OF x lo assms(3,4)] by (simp only: narrow_byte_64)
qed

lemma sc_pack_le_bytes:
  assumes "sc_canonical t"
  shows "sc_pack (words t) = le_bytes 32 (sval t)"
proof -
  define W where "W = words t"
  note inner = sc_byte [OF assms, folded W_def] and top = sc_byte_top [OF assms, folded W_def] and cross = sc_byte_cross [OF assms, folded W_def]
  have b0: "(ucast (signed_drop_bit 0 (W ! 0)) :: byte) = word_of_int (sval t div 256 ^ 0)" by (rule inner) simp_all
  have b1: "(ucast (signed_drop_bit 8 (W ! 0)) :: byte) = word_of_int (sval t div 256 ^ 1)" by (rule inner) simp_all
  have b2: "(ucast (signed_drop_bit 16 (W ! 0) OR push_bit 5 (W ! 1)) :: byte) = word_of_int (sval t div 256 ^ 2)" by (rule cross) simp_all
  have b3: "(ucast (signed_drop_bit 3 (W ! 1)) :: byte) = word_of_int (sval t div 256 ^ 3)" by (rule inner) simp_all
  have b4: "(ucast (signed_drop_bit 11 (W ! 1)) :: byte) = word_of_int (sval t div 256 ^ 4)" by (rule inner) simp_all
  have b5: "(ucast (signed_drop_bit 19 (W ! 1) OR push_bit 2 (W ! 2)) :: byte) = word_of_int (sval t div 256 ^ 5)" by (rule cross) simp_all
  have b6: "(ucast (signed_drop_bit 6 (W ! 2)) :: byte) = word_of_int (sval t div 256 ^ 6)" by (rule inner) simp_all
  have b7: "(ucast (signed_drop_bit 14 (W ! 2) OR push_bit 7 (W ! 3)) :: byte) = word_of_int (sval t div 256 ^ 7)" by (rule cross) simp_all
  have b8: "(ucast (signed_drop_bit 1 (W ! 3)) :: byte) = word_of_int (sval t div 256 ^ 8)" by (rule inner) simp_all
  have b9: "(ucast (signed_drop_bit 9 (W ! 3)) :: byte) = word_of_int (sval t div 256 ^ 9)" by (rule inner) simp_all
  have b10: "(ucast (signed_drop_bit 17 (W ! 3) OR push_bit 4 (W ! 4)) :: byte) = word_of_int (sval t div 256 ^ 10)" by (rule cross) simp_all
  have b11: "(ucast (signed_drop_bit 4 (W ! 4)) :: byte) = word_of_int (sval t div 256 ^ 11)" by (rule inner) simp_all
  have b12: "(ucast (signed_drop_bit 12 (W ! 4)) :: byte) = word_of_int (sval t div 256 ^ 12)" by (rule inner) simp_all
  have b13: "(ucast (signed_drop_bit 20 (W ! 4) OR push_bit 1 (W ! 5)) :: byte) = word_of_int (sval t div 256 ^ 13)" by (rule cross) simp_all
  have b14: "(ucast (signed_drop_bit 7 (W ! 5)) :: byte) = word_of_int (sval t div 256 ^ 14)" by (rule inner) simp_all
  have b15: "(ucast (signed_drop_bit 15 (W ! 5) OR push_bit 6 (W ! 6)) :: byte) = word_of_int (sval t div 256 ^ 15)" by (rule cross) simp_all
  have b16: "(ucast (signed_drop_bit 2 (W ! 6)) :: byte) = word_of_int (sval t div 256 ^ 16)" by (rule inner) simp_all
  have b17: "(ucast (signed_drop_bit 10 (W ! 6)) :: byte) = word_of_int (sval t div 256 ^ 17)" by (rule inner) simp_all
  have b18: "(ucast (signed_drop_bit 18 (W ! 6) OR push_bit 3 (W ! 7)) :: byte) = word_of_int (sval t div 256 ^ 18)" by (rule cross) simp_all
  have b19: "(ucast (signed_drop_bit 5 (W ! 7)) :: byte) = word_of_int (sval t div 256 ^ 19)" by (rule inner) simp_all
  have b20: "(ucast (signed_drop_bit 13 (W ! 7)) :: byte) = word_of_int (sval t div 256 ^ 20)" by (rule inner) simp_all
  have b21: "(ucast (signed_drop_bit 0 (W ! 8)) :: byte) = word_of_int (sval t div 256 ^ 21)" by (rule inner) simp_all
  have b22: "(ucast (signed_drop_bit 8 (W ! 8)) :: byte) = word_of_int (sval t div 256 ^ 22)" by (rule inner) simp_all
  have b23: "(ucast (signed_drop_bit 16 (W ! 8) OR push_bit 5 (W ! 9)) :: byte) = word_of_int (sval t div 256 ^ 23)" by (rule cross) simp_all
  have b24: "(ucast (signed_drop_bit 3 (W ! 9)) :: byte) = word_of_int (sval t div 256 ^ 24)" by (rule inner) simp_all
  have b25: "(ucast (signed_drop_bit 11 (W ! 9)) :: byte) = word_of_int (sval t div 256 ^ 25)" by (rule inner) simp_all
  have b26: "(ucast (signed_drop_bit 19 (W ! 9) OR push_bit 2 (W ! 10)) :: byte) = word_of_int (sval t div 256 ^ 26)" by (rule cross) simp_all
  have b27: "(ucast (signed_drop_bit 6 (W ! 10)) :: byte) = word_of_int (sval t div 256 ^ 27)" by (rule inner) simp_all
  have b28: "(ucast (signed_drop_bit 14 (W ! 10) OR push_bit 7 (W ! 11)) :: byte) = word_of_int (sval t div 256 ^ 28)" by (rule cross) simp_all
  have b29: "(ucast (signed_drop_bit 1 (W ! 11)) :: byte) = word_of_int (sval t div 256 ^ 29)" by (rule top) simp_all
  have b30: "(ucast (signed_drop_bit 9 (W ! 11)) :: byte) = word_of_int (sval t div 256 ^ 30)" by (rule top) simp_all
  have b31: "(ucast (signed_drop_bit 17 (W ! 11)) :: byte) = word_of_int (sval t div 256 ^ 31)" by (rule top) simp_all
  have "[0..<32] = [0, 1, 2, 3, 4, 5, 6, 7, 8, 9, 10, 11, 12, 13, 14, 15, 16, 17, 18, 19, 20, 21, 22, 23, 24, 25, 26, 27, 28, 29, 30, 31]"
    by (simp add: upt_rec)
  then show ?thesis unfolding sc_pack_def le_bytes_def W_def [symmetric]
    by (simp only: list.map b0 b1 b2 b3 b4 b5 b6 b7 b8 b9 b10 b11 b12 b13 b14 b15 b16 b17 b18 b19 b20 b21 b22 b23 b24 b25 b26 b27 b28 b29 b30 b31)
qed

section \<open>Loading\<close>

definition sc_limbs :: "nat \<Rightarrow> int \<Rightarrow> int list" where
  "sc_limbs n x = map (\<lambda>i. x div 2 ^ (21 * i) mod 2 ^ 21) [0..<n] @ [x div 2 ^ (21 * n)]"

lemma sval_limbs: "sval (sc_limbs n x) = x"
proof (induction n arbitrary: x)
  case (Suc n)
  have "x div 2 ^ (21 * Suc i) = x div 2 ^ 21 div 2 ^ (21 * i)" for i by (simp add: power_add zdiv_zmult2_eq)
  then have "sc_limbs (Suc n) x = x mod 2 ^ 21 # sc_limbs n (x div 2 ^ 21)"
    by (simp only: sc_limbs_def upt_conv_Cons [OF zero_less_Suc] map_Suc_upt [symmetric] list.map map_map comp_def) simp
  then show ?case using Suc by simp
qed (simp add: sc_limbs_def)

lemma le_int_take: "k \<le> length s \<Longrightarrow> le_int (take k s) = le_int s mod 256 ^ k"
proof (induction k arbitrary: s)
  case (Suc k)
  then obtain b bs where "s = b # bs" "k \<le> length bs" by (cases s) auto
  with Suc show ?case using byte_int [of b] by (simp add: zmod_zmult2_eq)
qed simp

lemma le_int_drop: "k \<le> length s \<Longrightarrow> le_int (drop k s) = le_int s div 256 ^ k"
proof (induction k arbitrary: s)
  case (Suc k)
  then obtain b bs where "s = b # bs" "k \<le> length bs" by (cases s) auto
  with Suc show ?case using byte_int [of b] by (simp add: zdiv_zmult2_eq)
qed simp

lemma load_window:
  "n + 3 \<le> length s \<Longrightarrow> load3 (drop n s) = word_of_int (le_int s div 256 ^ n mod 2 ^ 24)"
  "n + 4 \<le> length s \<Longrightarrow> load4 (drop n s) = word_of_int (le_int s div 256 ^ n mod 2 ^ 32)"
proof -
  assume n: "n + 3 \<le> length s"
  then have "Suc (Suc (Suc 0)) \<le> length (drop n s)" by simp
  then obtain a b c t where d: "drop n s = a # b # c # t" unfolding Suc_le_length_iff by blast
  have "le_int s div 256 ^ n mod 2 ^ 24 = le_int (take 3 (drop n s))" using le_int_take [of 3 "drop n s"] le_int_drop [of n s] n by simp
  then show "load3 (drop n s) = word_of_int (le_int s div 256 ^ n mod 2 ^ 24)" unfolding d load3_int by (simp add: numeral_3_eq_3 algebra_simps)
next
  assume n: "n + 4 \<le> length s"
  then have "Suc (Suc (Suc (Suc 0))) \<le> length (drop n s)" by simp
  then obtain a b c e t where d: "drop n s = a # b # c # e # t" unfolding Suc_le_length_iff by blast
  have "le_int s div 256 ^ n mod 2 ^ 32 = le_int (take 4 (drop n s))" using le_int_take [of 4 "drop n s"] le_int_drop [of n s] n by simp
  then show "load4 (drop n s) = word_of_int (le_int s div 256 ^ n mod 2 ^ 32)" unfolding d load4_int by (simp add: numeral_eq_Suc algebra_simps)
qed

lemma shifted_limb:
  assumes "m \<le> 32"
  shows "signed_drop_bit n (word_of_int (x mod 2 ^ m) :: i64) = word_of_int (x mod 2 ^ m div 2 ^ n)"
proof -
  have "(2 :: int) ^ m \<le> 2 ^ 32" using assms by (intro power_increasing) simp_all
  moreover have "0 \<le> x mod 2 ^ m" "x mod 2 ^ m < 2 ^ m" by simp_all
  moreover have "(2 :: int) ^ 32 < 2 ^ 63" by simp
  ultimately have "x mod 2 ^ m < 2 ^ 63" by linarith
  then have "\<bar>x mod 2 ^ m\<bar> < 2 ^ 63" by simp
  then show ?thesis by (rule sshift_of_int_64)
qed

lemma masked_limb:
  assumes "n + 21 \<le> m" and "m \<le> 32"
  shows "2097151 AND signed_drop_bit n (word_of_int (x mod 2 ^ m) :: i64) = word_of_int (x div 2 ^ n mod 2 ^ 21)"
proof -
  have m: "(2097151 :: i64) = mask 21" by (simp add: mask_eq_exp_minus_1)
  have "mask 21 AND (word_of_int y :: i64) = word_of_int (take_bit 21 y)" for y
    by (rule bit_word_eqI) (auto simp: bit_simps)
  then have "2097151 AND (word_of_int y :: i64) = word_of_int (take_bit 21 y)" for y unfolding m .
  then have "2097151 AND (word_of_int y :: i64) = word_of_int (y mod 2 ^ 21)" for y by (simp only: take_bit_eq_mod)
  moreover have "take_bit 21 (drop_bit n (take_bit m x)) = take_bit 21 (drop_bit n x)" using assms(1) by (simp add: drop_bit_take_bit)
  then have "x mod 2 ^ m div 2 ^ n mod 2 ^ 21 = x div 2 ^ n mod 2 ^ 21" by (simp only: take_bit_eq_mod drop_bit_eq_div)
  ultimately show ?thesis using shifted_limb [OF assms(2)] by simp
qed

lemma limb3:
  assumes "k + 3 \<le> length s" and "8 * k + n = 21 * i" and "n \<le> 3"
  shows "2097151 AND signed_drop_bit n (load3 (drop k s)) = word_of_int (le_int s div 2 ^ (21 * i) mod 2 ^ 21)"
proof -
  have "(256 :: int) ^ k * 2 ^ n = 2 ^ (21 * i)" unfolding assms(2) [symmetric] power_add by (simp add: power_mult)
  then have "le_int s div 256 ^ k div 2 ^ n = le_int s div 2 ^ (21 * i)" by (simp flip: zdiv_zmult2_eq)
  with masked_limb [of n 24 "le_int s div 256 ^ k"] load_window(1) [OF assms(1)] assms(3) show ?thesis by simp
qed

lemma limb4:
  assumes "k + 4 \<le> length s" and "8 * k + n = 21 * i" and "n \<le> 11"
  shows "2097151 AND signed_drop_bit n (load4 (drop k s)) = word_of_int (le_int s div 2 ^ (21 * i) mod 2 ^ 21)"
proof -
  have "(256 :: int) ^ k * 2 ^ n = 2 ^ (21 * i)" unfolding assms(2) [symmetric] power_add by (simp add: power_mult)
  then have "le_int s div 256 ^ k div 2 ^ n = le_int s div 2 ^ (21 * i)" by (simp flip: zdiv_zmult2_eq)
  with masked_limb [of n 32 "le_int s div 256 ^ k"] load_window(2) [OF assms(1)] assms(3) show ?thesis by simp
qed

lemma limb_top:
  assumes "k + 4 = length s" and "8 * k + n = 21 * i"
  shows "signed_drop_bit n (load4 (drop k s)) = word_of_int (le_int s div 2 ^ (21 * i))"
proof -
  have "(256 :: int) ^ k * 2 ^ n = 2 ^ (21 * i)" unfolding assms(2) [symmetric] power_add by (simp add: power_mult)
  then have "le_int s div 256 ^ k div 2 ^ n = le_int s div 2 ^ (21 * i)" by (simp flip: zdiv_zmult2_eq)
  moreover have "le_int (drop k s) mod 2 ^ 32 = le_int (drop k s)" using le_int_bounds [of "drop k s"] assms(1) [symmetric] by simp
  ultimately show ?thesis
    using shifted_limb [of 32 n "le_int s div 256 ^ k"] load_window(2) [of k s] le_int_drop [of k s] assms(1) by simp
qed

lemma sc_load_limbs:
  assumes "length a = 32"
  shows "sc_load a = words (sc_limbs 11 (le_int a))"
proof -
  let ?x = "le_int a"
  have l0: "2097151 AND load3 a = word_of_int (?x div 2 ^ 0 mod 2 ^ 21)" using limb3 [of 0 a 0 0] assms by simp
  have l1: "2097151 AND signed_drop_bit 5 (load4 (drop 2 a)) = word_of_int (?x div 2 ^ 21 mod 2 ^ 21)" using limb4 [of 2 a 5 1] assms by simp
  have l2: "2097151 AND signed_drop_bit 2 (load3 (drop 5 a)) = word_of_int (?x div 2 ^ 42 mod 2 ^ 21)" using limb3 [of 5 a 2 2] assms by simp
  have l3: "2097151 AND signed_drop_bit 7 (load4 (drop 7 a)) = word_of_int (?x div 2 ^ 63 mod 2 ^ 21)" using limb4 [of 7 a 7 3] assms by simp
  have l4: "2097151 AND signed_drop_bit 4 (load4 (drop 10 a)) = word_of_int (?x div 2 ^ 84 mod 2 ^ 21)" using limb4 [of 10 a 4 4] assms by simp
  have l5: "2097151 AND signed_drop_bit 1 (load3 (drop 13 a)) = word_of_int (?x div 2 ^ 105 mod 2 ^ 21)" using limb3 [of 13 a 1 5] assms by simp
  have l6: "2097151 AND signed_drop_bit 6 (load4 (drop 15 a)) = word_of_int (?x div 2 ^ 126 mod 2 ^ 21)" using limb4 [of 15 a 6 6] assms by simp
  have l7: "2097151 AND signed_drop_bit 3 (load3 (drop 18 a)) = word_of_int (?x div 2 ^ 147 mod 2 ^ 21)" using limb3 [of 18 a 3 7] assms by simp
  have l8: "2097151 AND load3 (drop 21 a) = word_of_int (?x div 2 ^ 168 mod 2 ^ 21)" using limb3 [of 21 a 0 8] assms by simp
  have l9: "2097151 AND signed_drop_bit 5 (load4 (drop 23 a)) = word_of_int (?x div 2 ^ 189 mod 2 ^ 21)" using limb4 [of 23 a 5 9] assms by simp
  have l10: "2097151 AND signed_drop_bit 2 (load3 (drop 26 a)) = word_of_int (?x div 2 ^ 210 mod 2 ^ 21)" using limb3 [of 26 a 2 10] assms by simp
  have l11: "signed_drop_bit 7 (load4 (drop 28 a)) = word_of_int (?x div 2 ^ 231)" using limb_top [of 28 a 7 11] assms by simp
  show ?thesis unfolding sc_load_def l0 l1 l2 l3 l4 l5 l6 l7 l8 l9 l10 l11 by (simp add: sc_limbs_def upt_rec)
qed

lemma sc_load_wide_limbs:
  assumes "length s = 64"
  shows "sc_load_wide s = words (sc_limbs 23 (le_int s))"
proof -
  let ?x = "le_int s"
  have l0: "2097151 AND load3 s = word_of_int (?x div 2 ^ 0 mod 2 ^ 21)" using limb3 [of 0 s 0 0] assms by simp
  have l1: "2097151 AND signed_drop_bit 5 (load4 (drop 2 s)) = word_of_int (?x div 2 ^ 21 mod 2 ^ 21)" using limb4 [of 2 s 5 1] assms by simp
  have l2: "2097151 AND signed_drop_bit 2 (load3 (drop 5 s)) = word_of_int (?x div 2 ^ 42 mod 2 ^ 21)" using limb3 [of 5 s 2 2] assms by simp
  have l3: "2097151 AND signed_drop_bit 7 (load4 (drop 7 s)) = word_of_int (?x div 2 ^ 63 mod 2 ^ 21)" using limb4 [of 7 s 7 3] assms by simp
  have l4: "2097151 AND signed_drop_bit 4 (load4 (drop 10 s)) = word_of_int (?x div 2 ^ 84 mod 2 ^ 21)" using limb4 [of 10 s 4 4] assms by simp
  have l5: "2097151 AND signed_drop_bit 1 (load3 (drop 13 s)) = word_of_int (?x div 2 ^ 105 mod 2 ^ 21)" using limb3 [of 13 s 1 5] assms by simp
  have l6: "2097151 AND signed_drop_bit 6 (load4 (drop 15 s)) = word_of_int (?x div 2 ^ 126 mod 2 ^ 21)" using limb4 [of 15 s 6 6] assms by simp
  have l7: "2097151 AND signed_drop_bit 3 (load3 (drop 18 s)) = word_of_int (?x div 2 ^ 147 mod 2 ^ 21)" using limb3 [of 18 s 3 7] assms by simp
  have l8: "2097151 AND load3 (drop 21 s) = word_of_int (?x div 2 ^ 168 mod 2 ^ 21)" using limb3 [of 21 s 0 8] assms by simp
  have l9: "2097151 AND signed_drop_bit 5 (load4 (drop 23 s)) = word_of_int (?x div 2 ^ 189 mod 2 ^ 21)" using limb4 [of 23 s 5 9] assms by simp
  have l10: "2097151 AND signed_drop_bit 2 (load3 (drop 26 s)) = word_of_int (?x div 2 ^ 210 mod 2 ^ 21)" using limb3 [of 26 s 2 10] assms by simp
  have l11: "2097151 AND signed_drop_bit 7 (load4 (drop 28 s)) = word_of_int (?x div 2 ^ 231 mod 2 ^ 21)" using limb4 [of 28 s 7 11] assms by simp
  have l12: "2097151 AND signed_drop_bit 4 (load4 (drop 31 s)) = word_of_int (?x div 2 ^ 252 mod 2 ^ 21)" using limb4 [of 31 s 4 12] assms by simp
  have l13: "2097151 AND signed_drop_bit 1 (load3 (drop 34 s)) = word_of_int (?x div 2 ^ 273 mod 2 ^ 21)" using limb3 [of 34 s 1 13] assms by simp
  have l14: "2097151 AND signed_drop_bit 6 (load4 (drop 36 s)) = word_of_int (?x div 2 ^ 294 mod 2 ^ 21)" using limb4 [of 36 s 6 14] assms by simp
  have l15: "2097151 AND signed_drop_bit 3 (load3 (drop 39 s)) = word_of_int (?x div 2 ^ 315 mod 2 ^ 21)" using limb3 [of 39 s 3 15] assms by simp
  have l16: "2097151 AND load3 (drop 42 s) = word_of_int (?x div 2 ^ 336 mod 2 ^ 21)" using limb3 [of 42 s 0 16] assms by simp
  have l17: "2097151 AND signed_drop_bit 5 (load4 (drop 44 s)) = word_of_int (?x div 2 ^ 357 mod 2 ^ 21)" using limb4 [of 44 s 5 17] assms by simp
  have l18: "2097151 AND signed_drop_bit 2 (load3 (drop 47 s)) = word_of_int (?x div 2 ^ 378 mod 2 ^ 21)" using limb3 [of 47 s 2 18] assms by simp
  have l19: "2097151 AND signed_drop_bit 7 (load4 (drop 49 s)) = word_of_int (?x div 2 ^ 399 mod 2 ^ 21)" using limb4 [of 49 s 7 19] assms by simp
  have l20: "2097151 AND signed_drop_bit 4 (load4 (drop 52 s)) = word_of_int (?x div 2 ^ 420 mod 2 ^ 21)" using limb4 [of 52 s 4 20] assms by simp
  have l21: "2097151 AND signed_drop_bit 1 (load3 (drop 55 s)) = word_of_int (?x div 2 ^ 441 mod 2 ^ 21)" using limb3 [of 55 s 1 21] assms by simp
  have l22: "2097151 AND signed_drop_bit 6 (load4 (drop 57 s)) = word_of_int (?x div 2 ^ 462 mod 2 ^ 21)" using limb4 [of 57 s 6 22] assms by simp
  have l23: "signed_drop_bit 3 (load4 (drop 60 s)) = word_of_int (?x div 2 ^ 483)" using limb_top [of 60 s 3 23] assms by simp
  show ?thesis unfolding sc_load_wide_def l0 l1 l2 l3 l4 l5 l6 l7 l8 l9 l10 l11 l12 l13 l14 l15 l16 l17 l18 l19 l20 l21 l22 l23 by (simp add: sc_limbs_def upt_rec)
qed

section \<open>Reduction modulo the order\<close>

lemma sval_bound:
  assumes "length b = length s" and "\<forall>i < length s. bounded_by (b ! i) (s ! i)"
  shows "\<bar>sval s\<bar> \<le> sval b"
  using assms
proof (induction s arbitrary: b)
  case (Cons x s)
  then obtain c b' where b: "b = c # b'" by (cases b) auto
  have "\<bar>sval s\<bar> \<le> sval b'" using Cons.IH [of b'] Cons.prems unfolding b by fastforce
  moreover have "bounded_by c x" using Cons.prems unfolding b by force
  ultimately show ?case unfolding b by (simp add: bounded_by_def abs_le_iff)
qed simp

text \<open>The bounds after the first folding of \<open>s_12\<close>: the high limbs are zero and the value is below \<open>2 ^ 252\<close>.\<close>

definition finish_ok :: "int list \<Rightarrow> bool" where
  "finish_ok b \<longleftrightarrow> drop 12 b = replicate 12 0 \<and> sval b < 2 ^ 252"

lemma reduction:
  assumes "within_bounds b s" and "run_safe (p @ map Floor [0..<12] @ [Fold 12] @ map Floor [0..<11]) b"
    and "run_safe p b" and "finish_ok (fold bound_exec p b)"
  shows "sc_pack (sc_run (p @ map Floor [0..<12] @ [Fold 12] @ map Floor [0..<11]) (words s)) = le_bytes 32 (sval s mod sc_l)"
proof -
  let ?u = "fold int_exec p s" let ?c = "fold bound_exec p b"
  let ?R = "map Floor [0..<12] @ [Fold 12] @ map Floor [0..<11]"
  have u: "within_bounds ?c ?u" "sval ?u mod sc_l = sval s mod sc_l" using run_sound [OF assms(1,3)] by blast+
  then have len: "length ?u = 24" "length ?c = 24" by (simp_all add: within_bounds_def)
  have "?c ! i = 0" if "12 \<le> i" "i < 24" for i
  proof -
    have "?c ! i = drop 12 ?c ! (i - 12)" using that len by simp
    also have "\<dots> = 0" using assms(4) that unfolding finish_ok_def by simp
    finally show ?thesis .
  qed
  then have z: "\<forall>i. 12 \<le> i \<and> i < 24 \<longrightarrow> ?u ! i = 0" using within_nth [OF u(1)] by (fastforce simp: bounded_by_def)
  have v: "\<bar>sval ?u\<bar> < 2 ^ 252"
    using sval_bound [of ?c ?u] u(1) assms(4) by (simp add: within_bounds_def finish_ok_def)
  note f = finish_value [OF len(1) z v]
  let ?t = "fold int_exec ?R ?u"
  have l: "0 \<le> sval ?t" "sval ?t < sc_l" using f(2) by (simp_all add: sc_l_def)
  have "?t ! 11 = sval ?t div 2 ^ 231" using top_limb(1) [OF f(1) _ f(3,4)] by simp
  then have "0 \<le> ?t ! 11" "?t ! 11 \<le> 2 ^ 21"
    using l zdiv_mono1 [of "sval ?t" "sc_l" "2 ^ 231"] by (simp_all add: sc_l_def pos_imp_zdiv_nonneg_iff)
  then have "sc_canonical ?t" using f(1,3,4) unfolding sc_canonical_def by blast
  from sc_pack_le_bytes [OF this] f(2) u(2)
  have "sc_pack (words (fold int_exec (p @ ?R) s)) = le_bytes 32 (sval s mod sc_l)" by simp
  then show ?thesis using run_sound [OF assms(1,2)] by simp
qed

definition sc_before_finish :: "sc_step list" where
  "sc_before_finish = sc_fold_high @ sc_carry_middle @ sc_fold_low @ sc_carry_low @ [Fold 12]"

lemma sc_tail_split: "sc_tail = sc_before_finish @ map Floor [0..<12] @ [Fold 12] @ map Floor [0..<11]"
  by (simp only: sc_tail_def sc_before_finish_def sc_finish_def append_assoc)

definition wide_bounds :: "int list" where "wide_bounds = replicate 23 (2 ^ 21) @ [2 ^ 29]"

definition product_bounds :: "int list" where "product_bounds = replicate 23 (2 ^ 25 + 12 * 2 ^ 50) @ [0]"

lemma wide_safe:
  "run_safe (sc_before_finish @ map Floor [0..<12] @ [Fold 12] @ map Floor [0..<11]) wide_bounds"
  "run_safe sc_before_finish wide_bounds" "finish_ok (fold bound_exec sc_before_finish wide_bounds)"
  by code_simp+

lemma product_safe:
  "run_safe ((sc_carry_product @ sc_before_finish) @ map Floor [0..<12] @ [Fold 12] @ map Floor [0..<11]) product_bounds"
  "run_safe (sc_carry_product @ sc_before_finish) product_bounds"
  "finish_ok (fold bound_exec (sc_carry_product @ sc_before_finish) product_bounds)"
  by code_simp+

lemma limbs_bounds:
  assumes "0 \<le> x" and "x < 2 ^ (21 * n) * 2 ^ k" and "i \<le> n"
  shows "0 \<le> sc_limbs n x ! i \<and> sc_limbs n x ! i < (if i = n then 2 ^ k else 2 ^ 21)"
proof (cases "i = n")
  case True
  have "2 ^ (21 * n) * (x div 2 ^ (21 * n)) < 2 ^ (21 * n) * 2 ^ k" using floor_bounds [of "21 * n" x] assms(2) by linarith
  then show ?thesis using True assms(1) by (simp add: sc_limbs_def nth_append pos_imp_zdiv_nonneg_iff)
next
  case False
  then show ?thesis using assms(3) by (simp add: sc_limbs_def nth_append)
qed

lemma length_limbs [simp]: "length (sc_limbs n x) = Suc n"
  by (simp add: sc_limbs_def)

lemma wide_within:
  assumes "0 \<le> x" and "x < 2 ^ 512"
  shows "within_bounds wide_bounds (sc_limbs 23 x)"
proof -
  have "wide_bounds ! i = (if i = 23 then 2 ^ 29 else 2 ^ 21)" if "i < 24" for i
    using that by (auto simp: wide_bounds_def nth_append)
  moreover have "0 \<le> sc_limbs 23 x ! i \<and> sc_limbs 23 x ! i < (if i = 23 then 2 ^ 29 else 2 ^ 21)" if "i < 24" for i
    using limbs_bounds [of x 23 29 i] assms that by simp
  ultimately have "bounded_by (wide_bounds ! i) (sc_limbs 23 x ! i)" if "i < 24" for i
    using that by (fastforce intro!: bounded_nonneg)
  moreover have "length wide_bounds = 24" by (simp add: wide_bounds_def)
  ultimately show ?thesis unfolding within_bounds_def by simp
qed

lemma ScReduce_result:
  assumes "length s = 64"
  shows "ScReduce s = le_bytes 32 (le_int s mod sc_l)"
proof -
  have "within_bounds wide_bounds (sc_limbs 23 (le_int s))" using wide_within le_int_bounds [of s] assms by simp
  from reduction [OF this wide_safe] show ?thesis
    unfolding ScReduce_def sc_tail_split sc_load_wide_limbs [OF assms] sval_limbs .
qed

section \<open>The product\<close>

definition int_product :: "int list \<Rightarrow> int list \<Rightarrow> int list \<Rightarrow> int list" where
  "int_product a b c = map (\<lambda>k. (if k < 12 then c ! k else 0) + (\<Sum>i \<leftarrow> filter (\<lambda>i. i \<le> k \<and> k < i + 12) [0..<12]. a ! i * b ! (k - i))) [0..<23] @ [0]"

lemma word_of_sum_list: "word_of_int (sum_list xs) = sum_list (words xs)"
  by (induction xs) simp_all

lemma product_words:
  assumes "length a = 12" and "length b = 12" and "length c = 12"
  shows "sc_product (words a) (words b) (words c) = words (int_product a b c)"
proof -
  have "(if k < 12 then words c ! k else 0) + (\<Sum>i \<leftarrow> filter (\<lambda>i. i \<le> k \<and> k < i + 12) [0..<12]. words a ! i * words b ! (k - i))
      = word_of_int ((if k < 12 then c ! k else 0) + (\<Sum>i \<leftarrow> filter (\<lambda>i. i \<le> k \<and> k < i + 12) [0..<12]. a ! i * b ! (k - i)))" for k
  proof -
    have "map (\<lambda>i. words a ! i * words b ! (k - i)) (filter (\<lambda>i. i \<le> k \<and> k < i + 12) [0..<12])
        = words (map (\<lambda>i. a ! i * b ! (k - i)) (filter (\<lambda>i. i \<le> k \<and> k < i + 12) [0..<12]))"
      using assms by (auto simp: comp_def less_diff_conv2)
    then show ?thesis using assms by (simp only: word_of_sum_list of_int_add) simp
  qed
  then show ?thesis by (simp add: sc_product_def int_product_def comp_def)
qed

lemma sval_sum: "sval xs = (\<Sum>i < length xs. xs ! i * 2 ^ (21 * i))"
proof (induction xs)
  case (Cons x xs)
  have "(\<Sum>i < length (x # xs). (x # xs) ! i * 2 ^ (21 * i)) = x + (\<Sum>i < length xs. xs ! i * 2 ^ (21 * Suc i))"
    by (simp only: length_Cons sum.lessThan_Suc_shift nth_Cons_0 nth_Cons_Suc) simp
  also have "\<dots> = x + 2 ^ 21 * (\<Sum>i < length xs. xs ! i * 2 ^ (21 * i))"
    by (simp add: sum_distrib_left power_add mult.left_commute)
  finally show ?case using Cons by simp
qed simp

text \<open>The products, ordered by the sum of the indices.\<close>

lemma convolution:
  fixes f g :: "nat \<Rightarrow> int"
  shows "(\<Sum>k < 23. (\<Sum>i \<leftarrow> filter (\<lambda>i. i \<le> k \<and> k < i + 12) [0..<12]. f i * g (k - i)) * h ^ k)
    = (\<Sum>i < 12. f i * h ^ i) * (\<Sum>j < 12. g j * h ^ j)"
proof -
  have row: "(\<Sum>k < 23. if i \<le> k \<and> k < i + 12 then f i * g (k - i) * h ^ k else 0) = (\<Sum>j < 12. f i * h ^ i * (g j * h ^ j))"
    if "i < 12" for i
  proof -
    have "{k \<in> {..<23}. i \<le> k \<and> k < i + 12} = {0 + i..<12 + i}" using that by auto
    then have "(\<Sum>k < 23. if i \<le> k \<and> k < i + 12 then f i * g (k - i) * h ^ k else 0) = (\<Sum>k = 0 + i..<12 + i. f i * g (k - i) * h ^ k)"
      by (simp only: sum.inter_filter [symmetric] finite_lessThan)
    also have "\<dots> = (\<Sum>j < 12. f i * h ^ i * (g j * h ^ j))"
      unfolding sum.shift_bounds_nat_ivl lessThan_atLeast0 by (simp add: power_add ac_simps)
    finally show ?thesis .
  qed
  have "(\<Sum>i \<leftarrow> filter (\<lambda>i. i \<le> k \<and> k < i + 12) [0..<12]. f i * g (k - i)) * h ^ k
      = (\<Sum>i < 12. if i \<le> k \<and> k < i + 12 then f i * g (k - i) * h ^ k else 0)" for k
  proof -
    have "(\<Sum>i \<leftarrow> filter (\<lambda>i. i \<le> k \<and> k < i + 12) [0..<12]. f i * g (k - i)) = (\<Sum>i < 12. if i \<le> k \<and> k < i + 12 then f i * g (k - i) else 0)"
      by (simp only: sum_list_map_filter' interv_sum_list_conv_sum_set_nat lessThan_atLeast0 set_upt)
    then show ?thesis by (simp only: sum_distrib_right) (intro sum.cong refl, simp)
  qed
  then have "(\<Sum>k < 23. (\<Sum>i \<leftarrow> filter (\<lambda>i. i \<le> k \<and> k < i + 12) [0..<12]. f i * g (k - i)) * h ^ k)
      = (\<Sum>i < 12. \<Sum>k < 23. if i \<le> k \<and> k < i + 12 then f i * g (k - i) * h ^ k else 0)"
    by (simp only: sum.swap [of _ "{..<12}"])
  also have "\<dots> = (\<Sum>i < 12. \<Sum>j < 12. f i * h ^ i * (g j * h ^ j))" by (rule sum.cong) (simp_all only: row lessThan_iff)
  finally show ?thesis unfolding sum_product .
qed

lemma product_value:
  assumes "length a = 12" and "length b = 12" and "length c = 12"
  shows "sval (int_product a b c) = sval a * sval b + sval c"
proof -
  define F where "F k = (\<Sum>i \<leftarrow> filter (\<lambda>i. i \<le> k \<and> k < i + 12) [0..<12]. a ! i * b ! (k - i))" for k
  have m: "sval (map f [0..<n] @ [0]) = (\<Sum>k < n. f k * 2 ^ (21 * k))" for f n
    using sval_append [of "map f [0..<n]" "[0]"] sval_sum [of "map f [0..<n]"] by simp
  have "sval (int_product a b c) = (\<Sum>k < 23. (if k < 12 then c ! k else 0) * 2 ^ (21 * k)) + (\<Sum>k < 23. F k * (2 ^ 21) ^ k)"
    unfolding int_product_def m F_def by (simp only: distrib_right sum.distrib power_mult)
  moreover have "(\<Sum>k < 23. (if k < 12 then c ! k else 0) * 2 ^ (21 * k)) = sval c"
  proof -
    have "(\<Sum>k < 23. (if k < 12 then c ! k else 0) * 2 ^ (21 * k)) = (\<Sum>k < 12. c ! k * 2 ^ (21 * k))"
      by (rule sum.mono_neutral_cong_right) auto
    then show ?thesis using assms(3) by (simp add: sval_sum)
  qed
  moreover have "(\<Sum>k < 23. F k * (2 ^ 21) ^ k) = sval a * sval b"
    unfolding F_def convolution sval_sum assms(1,2) power_mult ..
  ultimately show ?thesis by simp
qed

lemma sum_list_bound: "\<forall>x \<in> set xs. bounded_by B x \<Longrightarrow> bounded_by (int (length xs) * B) (sum_list xs)"
  by (induction xs) (auto simp: bounded_by_def algebra_simps)

lemma product_within:
  assumes "length a = 12" and "length b = 12" and "length c = 12"
    and "\<forall>i < 12. bounded_by (2 ^ 25) (a ! i) \<and> bounded_by (2 ^ 25) (b ! i) \<and> bounded_by (2 ^ 25) (c ! i)"
  shows "within_bounds product_bounds (int_product a b c)"
proof -
  define f where "f k = (if k < 12 then c ! k else 0) + (\<Sum>i \<leftarrow> filter (\<lambda>i. i \<le> k \<and> k < i + 12) [0..<12]. a ! i * b ! (k - i))" for k
  have p: "int_product a b c = map f [0..<23] @ [0]" unfolding int_product_def f_def ..
  have "bounded_by (2 ^ 25 + 12 * 2 ^ 50) (f k)" if "k < 23" for k
  proof -
    let ?l = "map (\<lambda>i. a ! i * b ! (k - i)) (filter (\<lambda>i. i \<le> k \<and> k < i + 12) [0..<12])"
    have "\<forall>x \<in> set ?l. bounded_by (2 ^ 50) x"
    proof
      fix x assume "x \<in> set ?l"
      then obtain i where "i < 12" "i \<le> k" "k - i < 12" "x = a ! i * b ! (k - i)" by force
      with assms(4) bounded_mult [of "2 ^ 25" "a ! i" "2 ^ 25" "b ! (k - i)" "2 ^ 50"] show "bounded_by (2 ^ 50) x" by simp
    qed
    from sum_list_bound [OF this] have "bounded_by (12 * 2 ^ 50) (sum_list ?l)"
      using length_filter_le [of "\<lambda>i. i \<le> k \<and> k < i + 12" "[0..<12]"] by (elim bounded_mono) simp
    moreover have "bounded_by (2 ^ 25) (if k < 12 then c ! k else 0)" using assms(4) by (simp add: bounded_by_def)
    ultimately show ?thesis unfolding f_def by (intro bounded_add [OF _ _ order_refl])
  qed
  then have "bounded_by (product_bounds ! k) (int_product a b c ! k)" if "k < 24" for k
    using that by (cases "k = 23") (simp_all add: product_bounds_def p nth_append bounded_by_def)
  then show ?thesis by (simp add: within_bounds_def product_bounds_def p)
qed

lemma ScMulAdd_result:
  assumes "length a = 32" and "length b = 32" and "length c = 32"
  shows "ScMulAdd a b c = le_bytes 32 ((le_int a * le_int b + le_int c) mod sc_l)"
proof -
  have n: "bounded_by (2 ^ 25) (sc_limbs 11 (le_int x) ! i)" if "length x = 32" "i < 12" for x i
    using limbs_bounds [of "le_int x" 11 25 i] le_int_bounds [of x] that by (cases "i = 11") (simp_all add: bounded_by_def)
  have l: "length (sc_limbs 11 x) = 12" for x by simp
  have "within_bounds product_bounds (int_product (sc_limbs 11 (le_int a)) (sc_limbs 11 (le_int b)) (sc_limbs 11 (le_int c)))"
    using n assms by (intro product_within) simp_all
  from reduction [OF this product_safe] show ?thesis
    unfolding ScMulAdd_def sc_tail_split sc_load_limbs [OF assms(1)] sc_load_limbs [OF assms(2)] sc_load_limbs [OF assms(3)]
      product_words [OF l l l] product_value [OF l l l] sval_limbs append_assoc .
qed

text \<open>
  C31: the scalar arithmetic is exact. \<open>ScReduce\<close> writes the canonical 32 bytes of a 64-byte integer modulo
  the order of the base point, and \<open>ScMulAdd\<close> those of \<open>a b + c\<close>, for all inputs: no limb overflows 64
  bits in any of the carry and folding steps, and the result is fully reduced.
\<close>

theorem scalar_arithmetic:
  assumes "length s = 64" and "length a = 32" and "length b = 32" and "length c = 32"
  shows "ScReduce s = le_bytes 32 (le_int s mod sc_l)
    \<and> ScMulAdd a b c = le_bytes 32 ((le_int a * le_int b + le_int c) mod sc_l)"
  using ScReduce_result [OF assms(1)] ScMulAdd_result [OF assms(2-4)] by blast

theorem scalar_arithmetic_witness:
  "ScReduce (le_bytes 64 (2 ^ 511 + 5)) = le_bytes 32 ((2 ^ 511 + 5) mod sc_l)
   \<and> ScMulAdd (le_bytes 32 3) (le_bytes 32 5) (le_bytes 32 (- 1)) = le_bytes 32 ((3 * 5 + (2 ^ 256 - 1)) mod sc_l)"
proof -
  have l: "length (le_bytes 64 (2 ^ 511 + 5)) = 64" "length (le_bytes 32 3) = 32" "length (le_bytes 32 5) = 32" "length (le_bytes 32 (- 1)) = 32"
    by simp_all
  have v: "le_int (le_bytes 64 (2 ^ 511 + 5)) = 2 ^ 511 + 5" "le_int (le_bytes 32 3) = 3" "le_int (le_bytes 32 5) = 5"
    "le_int (le_bytes 32 (- 1)) = 2 ^ 256 - 1" by (simp_all add: le_int_le_bytes)
  from scalar_arithmetic [OF l] show ?thesis unfolding v .
qed

end
