(* ===== verification/Chain_Info.thy ===== *)
theory Chain_Info
  imports Node
begin

text \<open>
  The statistics that \<open>main.go\<close> prints of the nodes (\<open>printChainInfo\<close>): the nodes grouped by the round and the hash of
  the last blocks of their chains. The histogram is not modelled.
\<close>

text \<open>\<open>chains[key] = append(chains[key], node.id)\<close>, where a missing key reads as a nil slice.\<close>

fun printChainInfo_loop :: "Algorand list \<Rightarrow> (u64 \<times> hash \<rightharpoonup> PID list) \<Rightarrow> (u64 \<times> hash \<rightharpoonup> PID list) outcome" where
  "printChainInfo_loop [] groups = Ok groups"
| "printChainInfo_loop (node # nodes) groups =
     obind (lastBlock node) (\<lambda>last.
       let key = (blk_Round last, Block_Hash last)
       in printChainInfo_loop nodes (groups(key \<mapsto> (case groups key of None \<Rightarrow> [] | Some pids \<Rightarrow> pids) @ [alg_id node])))"

definition printChainInfo :: "Algorand list \<Rightarrow> (u64 \<times> hash \<rightharpoonup> PID list) outcome" where
  "printChainInfo nodes = printChainInfo_loop nodes Map.empty"

definition head_key :: "Algorand \<Rightarrow> (u64 \<times> hash) option" where
  "head_key node = map_option (\<lambda>b. (blk_Round b, Block_Hash b)) (bc_last (alg_chain node))"

lemma printChainInfo_loop_groups:
  assumes "\<forall>node \<in> set nodes. bc_last (alg_chain node) \<noteq> None"
  shows "\<exists>groups'. printChainInfo_loop nodes groups = Ok groups'
    \<and> (\<forall>key. groups' key = (case (groups key, map alg_id (filter (\<lambda>node. head_key node = Some key) nodes)) of
        (None, []) \<Rightarrow> None | (None, ids) \<Rightarrow> Some ids | (Some pids, ids) \<Rightarrow> Some (pids @ ids)))"
  using assms
proof (induction nodes arbitrary: groups)
  case Nil
  then show ?case by (auto split: option.splits)
next
  case (Cons node nodes)
  obtain l where l: "bc_last (alg_chain node) = Some l" using Cons.prems by auto
  let ?key = "(blk_Round l, Block_Hash l)"
  let ?c = "groups(?key \<mapsto> (case groups ?key of None \<Rightarrow> [] | Some pids \<Rightarrow> pids) @ [alg_id node])"
  have k: "head_key node = Some ?key" by (simp add: head_key_def l)
  have prems: "\<forall>node \<in> set nodes. bc_last (alg_chain node) \<noteq> None" using Cons.prems by simp
  obtain c' where c': "printChainInfo_loop nodes ?c = Ok c'"
    and g: "\<And>key. c' key = (case (?c key, map alg_id (filter (\<lambda>node. head_key node = Some key) nodes)) of
        (None, []) \<Rightarrow> None | (None, ids) \<Rightarrow> Some ids | (Some pids, ids) \<Rightarrow> Some (pids @ ids))"
    using Cons.IH [OF prems, of ?c] by blast
  have "c' key = (case (groups key, map alg_id (filter (\<lambda>node. head_key node = Some key) (node # nodes))) of
        (None, []) \<Rightarrow> None | (None, ids) \<Rightarrow> Some ids | (Some pids, ids) \<Rightarrow> Some (pids @ ids))" for key
    unfolding g by (auto simp: k split: option.splits list.splits)
  then show ?case using c' by (simp add: lastBlock_def l Let_def)
qed

text \<open>Every node is listed exactly under the round and hash of its last block, in the order of the nodes.\<close>

lemma printChainInfo_groups:
  assumes "\<forall>node \<in> set nodes. bc_last (alg_chain node) \<noteq> None"
  shows "\<exists>groups. printChainInfo nodes = Ok groups
    \<and> (\<forall>key. (case groups key of None \<Rightarrow> [] | Some pids \<Rightarrow> pids) = map alg_id (filter (\<lambda>node. head_key node = Some key) nodes))"
proof -
  obtain c where c: "printChainInfo_loop nodes Map.empty = Ok c"
    and g: "\<And>key. c key = (case map alg_id (filter (\<lambda>node. head_key node = Some key) nodes) of [] \<Rightarrow> None | ids \<Rightarrow> Some ids)"
    using printChainInfo_loop_groups [OF assms, of Map.empty] by auto
  show ?thesis using c by (intro exI [of _ c]) (auto simp: printChainInfo_def g split: option.splits list.splits)
qed

end
