(* ===== verification/Spec2Isabelle.thy ===== *)
theory Spec2Isabelle
  imports Rounds Vote_Race Proposal_Race Vrf_Proofs Scalar25519 Chain_Info
begin

text \<open>
  A verification of the Algorand simulation under \<open>src/\<close>, a Go program of one process in which many
  nodes run the agreement protocol over an in-memory network.

  \<^bold>\<open>The program.\<close> \<open>main.go\<close> starts the nodes. A node (\<open>algorand.go\<close>) repeats rounds: sortition by a verifiable
  random function decides whether it proposes a block (\<open>blockProposal\<close>) and with which weight it votes
  (\<open>committeeVote\<close>); \<open>BA\<close> reduces the proposals to one hash or the empty block (\<open>reduction\<close>) and agrees on it
  (\<open>binaryBA\<close>, \<open>countVotes\<close>, \<open>commonCoin\<close>); the block is added to the chain (\<open>blockchain.go\<close>). Its peer (\<open>peer.go\<close>)
  handles messages (\<open>message.go\<close>) in goroutines of their own and keeps the votes of each round and step, the
  best proposal of each round and the received blocks. The weights come from the binomial distribution
  (\<open>binomial.go\<close>) at the VRF value (\<open>crypto.go\<close>, \<open>vrf/vrf_ed25519.go\<close>), and the VRF computes on the curve
  edwards25519 (\<open>vrf/edwards25519\<close>).

  \<^bold>\<open>How the code is modelled.\<close> A struct is a record, an array or slice of bytes a list of 8-bit words (a
  slice that the code compares with nil an option), \<open>uint64\<close> a 64-bit word, \<open>int\<close> an integer where it cannot
  overflow, \<open>big.Int\<close> a natural number or an integer, \<open>big.Rat\<close> a rational number. Code that can panic or wait gives
  \<open>outcome\<close>: \<open>Ok v\<close>, \<open>Panic\<close> (a nil dereference, a slice out of range, an explicit panic), or \<open>Blocked\<close> when it
  still waits after all given events. The limbs of field elements and scalars are 32-bit and 64-bit words
  with the arithmetic of Go, wrapping around.

  \<^item> \<open>Prelude\<close>: outcomes, bytes, words, the parts of the Go library that are used; \<open>Keyed_Store\<close>: the locale of a
    store with \<open>put\<close> and \<open>lookup\<close>, interpreted for the chain and the tables of a peer.
  \<^item> \<open>Sha2\<close>, \<open>Sha512\<close>: the hash functions of the standard library, executable; \<open>Vectors\<close> evaluates concrete hashes.
  \<^item> \<open>Common\<close> (\<open>common/bytes.go\<close>, \<open>common/types.go\<close>): conversions and hexadecimal; \<open>Parameter\<close> (\<open>parameter.go\<close>,
    \<open>regularRun\<close> of \<open>main.go\<close>): constants and the nodes that are started.
  \<^item> \<open>Binomial_Dist\<close> (\<open>binomial.go\<close>): the exact distribution with its caches and the summing goroutines;
    \<open>Sortition\<close> (\<open>subUsers\<close>, \<open>maxPriority\<close>, \<open>role\<close>, \<open>constructSeed\<close> of \<open>algorand.go\<close>).
  \<^item> \<open>Chain\<close> (\<open>blockchain.go\<close>), \<open>Crypto\<close> (\<open>crypto.go\<close>), \<open>Message\<close> (\<open>message.go\<close>), \<open>Ecvrf\<close> (\<open>vrf/vrf_ed25519.go\<close>).
  \<^item> \<open>Peer\<close> (\<open>peer.go\<close>): vote lists as objects with addresses, iterators, caches, \<open>handle\<close>, gossip targets, the
    peer pool; \<open>Vote_Race\<close>, \<open>Proposal_Race\<close>: the locked sections of concurrent handlers of votes and of proposals as
    step relations.
  \<^item> \<open>Seeds\<close>, \<open>Node\<close> (\<open>algorand.go\<close>): weights, seeds, proposals, votes, counting, agreement, the main loop.
    \<open>Nonblocking\<close>, \<open>Count_Votes\<close>, \<open>Consensus\<close> prove their properties; \<open>Runs\<close> and \<open>Rounds\<close> evaluate whole runs; \<open>Chain_Info\<close>
    (\<open>printChainInfo\<close> of \<open>main.go\<close>): the nodes grouped by their last blocks.
  \<^item> \<open>Edwards_Types\<close>, \<open>Signed_Words\<close>, \<open>Field25519\<close>, \<open>Field_Power\<close>, \<open>Field_Bytes\<close>, \<open>Field_Encoding\<close>: the field of
    \<open>vrf/edwards25519/edwards25519.go\<close>; \<open>Group25519\<close>, \<open>Point_Bytes\<close>: points and their encodings; \<open>Scalar_Digits\<close>,
    \<open>Base_Table\<close> (\<open>const.go\<close>), \<open>Scalar_Mult\<close>: scalar multiplication; \<open>Scalar25519\<close>: scalars modulo the order of the base point.
  \<^item> \<open>Hex_Digits\<close>, \<open>Prime_Numbers\<close>, \<open>Field_Prime\<close>, \<open>Field_Ring\<close>, \<open>Gf_Field\<close>: \<open>2 ^ 255 - 19\<close> is prime and the integers modulo it are a field.
    \<open>Curve_Group\<close>: the addition law is complete and makes the points of the curve a group, an instance of the class of
    abelian groups. \<open>Point_Group\<close>: the operations of the code are those of this group and the encoding of points is a bijection.
  \<^item> \<open>Hex_Arith\<close>, \<open>Table_Check\<close>, \<open>Base_Rows\<close>: the precomputed tables are checked by evaluation; \<open>Order_Prime\<close>, \<open>Curve_Order\<close>: the
    curve has \<open>8 q\<close> points for the prime order \<open>q\<close> of the base point; \<open>Curve_Scalar\<close>: the scalar multiplications of the package.
  \<^item> \<open>Vrf_Curve\<close>, \<open>Vrf_Vectors\<close>, \<open>Vrf_Points\<close>, \<open>Vrf_Proofs\<close>: the VRF over this package, concrete hashes and points, its proofs.

  \<^bold>\<open>Concurrency.\<close> In Go every message is handled in a goroutine of its own. In \<open>Peer\<close>, and so in the runs of a
  node, a message is handled in one step, between the steps of the node: its properties are about messages
  handled one after another, in any order. \<open>Vote_Race\<close> and \<open>Proposal_Race\<close> split the handlers of votes and proposals
  into the sections between which they hold no lock, show that a handler alone is the single step, and state what
  holds under every interleaving and what does not: a vote can be lost while its list is new, and a worse
  proposal can replace a better one.

  \<^bold>\<open>What is shown.\<close> Agreement: two counts of a step that return a hash return the same one when the voting
  weight leaves no room for two quorums, and what \<open>countVotes\<close>, \<open>binaryBA\<close>, \<open>BA\<close> and \<open>processMain\<close> return is
  backed by a certificate of distinct voters. Invariants: the chain, the vote lists and the caches stay well formed under all
  messages and any number of rounds (fork resolution may leave the last block out of the index of the chain, which is shown as well).
  Refinement: counting, which interleaves with arriving votes, is a
  fold over the votes; the vote table is a log per key for handlers that run one after another; points in projective coordinates follow the addition
  law, and both scalar multiplications and both tables compute multiples in the group of the curve. The VRF: every proof of \<open>ECVRF_prove\<close> is
  accepted by \<open>ECVRF_verify\<close>, and a dishonest owner of a key can prove more than one value. Exactness: the
  cumulative distribution, sub-user selection, products, encodings and powers of field elements, recodings of scalars and scalar arithmetic agree with their mathematical definitions for all inputs in the
  documented ranges, without overflow. Termination and waiting: a count ends once its timer has fired; a
  silent network makes \<open>binaryBA\<close> keep its hash for 75 turns and then wait. Errors: inputs and rounds on which the code
  panics, loses a vote or accepts a forged one are theorems too.

  \<^bold>\<open>Bounds.\<close> The environment of a node is a list of events (a message handled, a timer fired, a turn of a
  polling loop), and running out of events is \<open>Blocked\<close>; \<open>countVotes_ends\<close> gives how many turns a count needs. \<open>binaryBA\<close>
  makes at most 75 turns, since \<open>MAXSTEPS\<close> is 150 and a turn advances the step by two. The bounds of limbs are those in the
  comments of the source, as multiples of the bound of a product; for the scalars a bound of each limb before each of
  the steps is computed inside the logic and checked against the width. Primes, tables and the order of the base point are shown
  by certificates (chains of powers, doubles and sums), which rewriting with the tables of \<open>Hex_Digits\<close> checks in the kernel.

  \<^bold>\<open>Parameters.\<close> The package \<open>golang.org/x/crypto/ed25519\<close> is the record \<open>crypto_env\<close>, the JSON encoding of
  messages the record \<open>codec\<close>, and the curve package that the VRF imports from another repository the record
  \<open>edwards_pkg\<close>, which \<open>Vrf_Curve\<close> instantiates with the copy under \<open>src/vrf/edwards25519\<close>. Random choices, times and the
  order of goroutines are arguments.

  \<^bold>\<open>Simplifications.\<close> Slices have no spare capacity, against which Go checks the bounds of \<open>s[i:j]\<close>: this concerns
  signatures of blocks with 31 octets and proofs of less than 33 octets (\<open>recoverPubkey\<close>, \<open>ECVRF_decode_proof\<close>). A nil key is empty; a node
  without keys panics in its first round (\<open>no_keys_panic\<close>). The type of a block that \<open>BA\<close> writes through a pointer changes
  in the cache of the peer, not in the index of the chain; nothing reads it there (\<open>set_type\<close>).

  \<^bold>\<open>Not modelled.\<close> Metrics, logging, the configuration reader and the command line (calls of libraries without
  logic of their own); the generator \<open>vrf/gen\<close>; the lengths of timers, of which only the firing is an
  event; \<open>parallelTrevels\<close>, which nothing calls; the interleaving of the fork loop with the main loop, of which
  only the release of the waiting channel is an event; the lock of the chain. The security of the VRF, as opposed to its
  correctness, and the distribution of hashes are not claims about the program's runs and are not stated.
\<close>

end
